(* ===== verification/Go_Prelude.thy ===== *)
theory Go_Prelude
  imports Main "HOL-Library.List_Lexorder" "HOL-Library.Char_ord" "HOL-Library.Product_Lexorder"
begin

text \<open>
  What the components share: the values of the Go runtime that the code uses (strings, sized
  integers, times, errors), the few functions of the Go standard library it calls on them, and
  the lemmas and collections that the component theories rest on.

  \<^item> A Go string is its list of bytes, \<^typ>\<open>string\<close>; literals are ASCII.
  \<^item> \<open>int32\<close> and \<open>int64\<close> are \<^typ>\<open>int\<close>, with the wrap-around written out by \<open>i32\<close> and \<open>i64\<close>
    wherever the code computes on them.
  \<^item> A \<open>time.Time\<close> is the number of nanoseconds since Go's zero time, so \<open>IsZero\<close> is \<open>t = 0\<close>;
    a \<open>*metav1.Time\<close> is \<open>time option\<close>. A \<open>time.Duration\<close> is its nanoseconds.
  \<^item> A pointer is an \<open>option\<close>, an error is a value of \<open>go_error\<close>, and a call that returns
    \<open>(T, error)\<close> is a \<open>'a result\<close>.
  \<^item> A call on a service outside the modelled code is a function of an abstract world \<open>'w\<close> that
    returns a result and the next world.
\<close>

named_theorems status_simps \<open>field equations of the status builders\<close>
named_theorems wf_intros \<open>introduction rules of the well-formedness invariants\<close>

section \<open>Strings\<close>

text \<open>
  \<open>strings.TrimSpace\<close> removes the Unicode white space at both ends. The 25 runes for which
  \<open>unicode.IsSpace\<close> holds, in UTF-8; a rune at an end of a string is one of them exactly when its
  encoding is a prefix (a suffix) of the string, also when the rest is not valid UTF-8.
\<close>

definition go_space_runes :: "string list" where
  "go_space_runes =
    [[CHR 0x20], [CHR 0x09], [CHR 0x0A], [CHR 0x0B], [CHR 0x0C], [CHR 0x0D],
     [CHR 0xC2, CHR 0x85], [CHR 0xC2, CHR 0xA0], [CHR 0xE1, CHR 0x9A, CHR 0x80],
     [CHR 0xE2, CHR 0x80, CHR 0x80], [CHR 0xE2, CHR 0x80, CHR 0x81], [CHR 0xE2, CHR 0x80, CHR 0x82],
     [CHR 0xE2, CHR 0x80, CHR 0x83], [CHR 0xE2, CHR 0x80, CHR 0x84], [CHR 0xE2, CHR 0x80, CHR 0x85],
     [CHR 0xE2, CHR 0x80, CHR 0x86], [CHR 0xE2, CHR 0x80, CHR 0x87], [CHR 0xE2, CHR 0x80, CHR 0x88],
     [CHR 0xE2, CHR 0x80, CHR 0x89], [CHR 0xE2, CHR 0x80, CHR 0x8A], [CHR 0xE2, CHR 0x80, CHR 0xA8],
     [CHR 0xE2, CHR 0x80, CHR 0xA9], [CHR 0xE2, CHR 0x80, CHR 0xAF], [CHR 0xE2, CHR 0x81, CHR 0x9F],
     [CHR 0xE3, CHR 0x80, CHR 0x80]]"

fun lead_match :: "string list \<Rightarrow> string \<Rightarrow> nat" where
  "lead_match [] s = 0"
| "lead_match (w # ws) s =
     (if w \<noteq> [] \<and> take (length w) s = w then length w else lead_match ws s)"

lemma lead_match_le: "lead_match ws s \<le> length s"
proof (induction ws)
  case (Cons w ws)
  have "take (length w) s = w \<Longrightarrow> length w \<le> length s"
    by (metis length_take min.cobounded1)
  with Cons.IH show ?case by simp
qed simp

function trim_left_by :: "string list \<Rightarrow> string \<Rightarrow> string" where
  "trim_left_by ws s =
     (if lead_match ws s = 0 then s else trim_left_by ws (drop (lead_match ws s) s))"
  by pat_completeness auto
termination
proof (relation "measure (\<lambda>(ws, s). length s)")
  fix ws s assume a: "lead_match ws s \<noteq> 0"
  with lead_match_le [of ws s] have "length s - lead_match ws s < length s" by simp
  then show "((ws, drop (lead_match ws s) s), ws, s) \<in> measure (\<lambda>(ws, s). length s)" by simp
qed simp

declare trim_left_by.simps [simp del]

definition TrimSpace :: "string \<Rightarrow> string" where
  "TrimSpace s =
     rev (trim_left_by (map rev go_space_runes) (rev (trim_left_by go_space_runes s)))"

lemma lead_match_trim_left [simp]: "lead_match ws (trim_left_by ws s) = 0"
proof (induction ws s rule: trim_left_by.induct)
  case (1 ws s)
  then show ?case by (cases "lead_match ws s = 0") (simp_all add: trim_left_by.simps [of ws s])
qed

lemma trim_left_id: "lead_match ws s = 0 \<Longrightarrow> trim_left_by ws s = s"
  by (simp add: trim_left_by.simps)

lemma trim_left_suffix: "\<exists>p. s = p @ trim_left_by ws s"
proof (induction ws s rule: trim_left_by.induct)
  case (1 ws s)
  show ?case
  proof (cases "lead_match ws s = 0")
    case False
    with 1 obtain p where "drop (lead_match ws s) s = p @ trim_left_by ws (drop (lead_match ws s) s)"
      by blast
    then have "s = (take (lead_match ws s) s @ p) @ trim_left_by ws s"
      by (metis False append.assoc append_take_drop_id trim_left_by.simps)
    then show ?thesis by blast
  qed (simp add: trim_left_id)
qed

lemma lead_match_prefix: "lead_match ws (p @ q) = 0 \<Longrightarrow> lead_match ws p = 0"
proof (induction ws)
  case (Cons w ws)
  have "w = take (length w) p \<Longrightarrow> w = take (length w) (p @ q)"
    by (metis append_Nil2 diff_is_0_eq' length_take min.cobounded1 take_0 take_append)
  with Cons show ?case by (auto split: if_splits)
qed simp

lemma TrimSpace_ends:
  "lead_match go_space_runes (TrimSpace s) = 0"
  "lead_match (map rev go_space_runes) (rev (TrimSpace s)) = 0"
proof -
  let ?t = "trim_left_by go_space_runes s"
  obtain q where q: "rev ?t = q @ trim_left_by (map rev go_space_runes) (rev ?t)"
    using trim_left_suffix by blast
  have tq: "?t = TrimSpace s @ rev q"
    by (metis TrimSpace_def q rev_append rev_rev_ident)
  have "lead_match go_space_runes ?t = 0" by simp
  then show "lead_match go_space_runes (TrimSpace s) = 0"
    by (metis tq lead_match_prefix)
  show "lead_match (map rev go_space_runes) (rev (TrimSpace s)) = 0"
    by (simp add: TrimSpace_def)
qed

lemma TrimSpace_fixed_iff:
  "TrimSpace s = s \<longleftrightarrow>
     lead_match go_space_runes s = 0 \<and> lead_match (map rev go_space_runes) (rev s) = 0"
proof
  assume "TrimSpace s = s"
  with TrimSpace_ends [of s]
  show "lead_match go_space_runes s = 0 \<and> lead_match (map rev go_space_runes) (rev s) = 0"
    by simp
qed (simp add: TrimSpace_def trim_left_id)

lemma TrimSpace_idem [simp]: "TrimSpace (TrimSpace s) = TrimSpace s"
  by (simp add: TrimSpace_fixed_iff TrimSpace_ends)

lemma TrimSpace_Nil [simp]: "TrimSpace [] = []"
  by (simp add: TrimSpace_fixed_iff go_space_runes_def)

text \<open>A string that begins and ends with a printable ASCII character is its own trimming.\<close>

definition plain_char :: "char \<Rightarrow> bool" where
  "plain_char c \<longleftrightarrow> (33::nat) \<le> of_char c \<and> of_char c < (128::nat)"

lemma lead_match_plain: "list_all (\<lambda>w. w \<noteq> [] \<longrightarrow> hd w \<noteq> c) ws \<Longrightarrow> lead_match ws (c # s) = 0"
proof (induction ws)
  case (Cons w ws)
  then show ?case by (cases w) auto
qed simp

lemma TrimSpace_plain: "s \<noteq> [] \<Longrightarrow> plain_char (hd s) \<Longrightarrow> plain_char (last s) \<Longrightarrow> TrimSpace s = s"
proof -
  assume ne: "s \<noteq> []" and h: "plain_char (hd s)" and l: "plain_char (last s)"
  have runes: "list_all (\<lambda>w. w \<noteq> [] \<longrightarrow> \<not> plain_char (hd w)) (go_space_runes @ map rev go_space_runes)"
    by (simp add: go_space_runes_def plain_char_def)
  have "lead_match go_space_runes (hd s # tl s) = 0"
    by (rule lead_match_plain) (use h runes in \<open>auto simp: list_all_iff\<close>)
  moreover have "lead_match (map rev go_space_runes) (last s # rev (butlast s)) = 0"
    by (rule lead_match_plain) (use l runes in \<open>auto simp: list_all_iff\<close>)
  moreover have "hd s # tl s = s" using ne by simp
  moreover have "last s # rev (butlast s) = rev s"
    using ne by (cases s rule: rev_cases) simp_all
  ultimately show ?thesis by (simp add: TrimSpace_fixed_iff)
qed

text \<open>Trimming never removes a printable ASCII character.\<close>

lemma lead_match_in: "lead_match ws s = n \<Longrightarrow> n = 0 \<or> (\<exists>w \<in> set ws. take n s = w)"
  by (induction ws) (auto split: if_splits)

lemma trim_left_keeps:
  assumes "\<forall>w \<in> set ws. c \<notin> set w"
  shows "c \<in> set s \<Longrightarrow> c \<in> set (trim_left_by ws s)"
proof (induction "length s" arbitrary: s rule: less_induct)
  case (less s)
  let ?n = "lead_match ws s"
  show ?case
  proof (cases "?n = 0")
    case False
    with lead_match_in [of ws s ?n] assms have "c \<notin> set (take ?n s)" by auto
    with less.prems have "c \<in> set (drop ?n s)" by (metis Un_iff append_take_drop_id set_append)
    moreover from False lead_match_le [of ws s] have "length (drop ?n s) < length s" by simp
    ultimately have "c \<in> set (trim_left_by ws (drop ?n s))" by (rule less.hyps [rotated])
    with False show ?thesis by (simp add: trim_left_by.simps [of ws s])
  qed (use less in \<open>simp add: trim_left_id\<close>)
qed

lemma TrimSpace_has_plain: "plain_char c \<Longrightarrow> c \<in> set s \<Longrightarrow> TrimSpace s \<noteq> []"
proof -
  assume c: "plain_char c" "c \<in> set s"
  have runes: "list_all (\<lambda>w. list_all (\<lambda>d. \<not> plain_char d) w) (go_space_runes @ map rev go_space_runes)"
    by (simp add: go_space_runes_def plain_char_def)
  have "c \<in> set (trim_left_by go_space_runes s)"
    by (rule trim_left_keeps [OF _ c(2)]) (use c(1) runes in \<open>auto simp: list_all_iff\<close>)
  then have "c \<in> set (rev (trim_left_by go_space_runes s))" by simp
  then have "c \<in> set (trim_left_by (map rev go_space_runes) (rev (trim_left_by go_space_runes s)))"
    by (rule trim_left_keeps [rotated]) (use c(1) runes in \<open>auto simp: list_all_iff\<close>)
  then show ?thesis by (auto simp: TrimSpace_def)
qed

definition HasPrefix :: "string \<Rightarrow> string \<Rightarrow> bool" where
  "HasPrefix s p \<longleftrightarrow> take (length p) s = p"

definition HasSuffix :: "string \<Rightarrow> string \<Rightarrow> bool" where
  "HasSuffix s p \<longleftrightarrow> HasPrefix (rev s) (rev p)"

definition TrimPrefix :: "string \<Rightarrow> string \<Rightarrow> string" where
  "TrimPrefix s p = (if HasPrefix s p then drop (length p) s else s)"

text \<open>
  \<open>strings.ToLower\<close>. Besides the ASCII letters, two runes are lowered to ASCII: U+0130 and the
  Kelvin sign U+212A. The other runes keep their bytes here: the names the code lowers are
  compared with ASCII words, which no lowering of those runes can produce, or are header names and
  hosts, which the protocol restricts to ASCII.
\<close>

definition lower_char :: "char \<Rightarrow> char" where
  "lower_char c =
     (if (65::nat) \<le> of_char c \<and> of_char c \<le> (90::nat) then char_of (of_char c + (32::nat)) else c)"

fun ToLower :: "string \<Rightarrow> string" where
  "ToLower (c # d # e # s) =
     (if c = CHR 0xC4 \<and> d = CHR 0xB0 then CHR ''i'' # ToLower (e # s)
      else if c = CHR 0xE2 \<and> d = CHR 0x84 \<and> e = CHR 0xAA then CHR ''k'' # ToLower s
      else lower_char c # ToLower (d # e # s))"
| "ToLower [c, d] =
     (if c = CHR 0xC4 \<and> d = CHR 0xB0 then [CHR ''i''] else [lower_char c, lower_char d])"
| "ToLower [c] = [lower_char c]"
| "ToLower [] = []"

text \<open>\<open>fmt.Sprintf\<close> with \<open>%d\<close> and \<open>%02d\<close>.\<close>

definition digit_char :: "nat \<Rightarrow> char" where
  "digit_char d = char_of (48 + d)"

fun show_nat :: "nat \<Rightarrow> string" where
  "show_nat n = (if n < 10 then [digit_char n] else show_nat (n div 10) @ [digit_char (n mod 10)])"

declare show_nat.simps [simp del]

definition show_int :: "int \<Rightarrow> string" where
  "show_int i = (if i < 0 then CHR ''-'' # show_nat (nat (- i)) else show_nat (nat i))"

definition show_int02 :: "int \<Rightarrow> string" where
  "show_int02 i = (let s = show_int i in if length s < 2 then CHR ''0'' # s else s)"

lemma digit_char_inj: "d < 10 \<Longrightarrow> e < 10 \<Longrightarrow> digit_char d = digit_char e \<Longrightarrow> d = e"
proof -
  assume "d < 10" "e < 10" and eq: "digit_char d = digit_char e"
  then have "of_char (digit_char d) = 48 + d" "of_char (digit_char e) = 48 + e"
    by (simp_all add: digit_char_def of_char_mod_256)
  with eq show "d = e" by (metis add_left_cancel)
qed

lemma show_nat_ne: "show_nat n \<noteq> []"
  by (subst show_nat.simps) simp

lemma show_nat_inj: "show_nat m = show_nat n \<Longrightarrow> m = n"
proof (induction m arbitrary: n rule: show_nat.induct)
  case (1 m)
  show ?case
  proof (cases "m < 10"; cases "n < 10")
    assume "m < 10" "n < 10"
    with "1.prems" show ?thesis
      by (auto simp: show_nat.simps [of m] show_nat.simps [of n] dest: digit_char_inj)
  next
    assume "m < 10" "\<not> n < 10"
    with "1.prems" show ?thesis
      by (simp add: show_nat.simps [of m] show_nat.simps [of n] show_nat_ne Cons_eq_append_conv)
  next
    assume "\<not> m < 10" "n < 10"
    with "1.prems" show ?thesis
      by (simp add: show_nat.simps [of m] show_nat.simps [of n] show_nat_ne append_eq_Cons_conv)
  next
    assume m: "\<not> m < 10" and n: "\<not> n < 10"
    with "1.prems" have "show_nat (m div 10) = show_nat (n div 10)"
      and d: "digit_char (m mod 10) = digit_char (n mod 10)"
      by (simp_all add: show_nat.simps [of m] show_nat.simps [of n])
    with "1.IH" m have "m div 10 = n div 10" by blast
    moreover from d have "m mod 10 = n mod 10" by (auto intro: digit_char_inj)
    ultimately show ?thesis by (metis div_mult_mod_eq)
  qed
qed

lemma show_int_nonneg_inj: "0 \<le> i \<Longrightarrow> 0 \<le> j \<Longrightarrow> show_int i = show_int j \<Longrightarrow> i = j"
  by (auto simp: show_int_def dest: show_nat_inj)

text \<open>
  \<open>%q\<close>: quotes and backslashes are escaped, ASCII control characters are written as
  \<open>strconv.Quote\<close> writes them. Bytes of runes beyond ASCII are copied, which is what
  \<open>strconv.Quote\<close> does for printable runes; quoted text only ever reaches an error message.
\<close>

definition hex_digit :: "nat \<Rightarrow> char" where
  "hex_digit d = (if d < 10 then char_of (48 + d) else char_of (87 + d))"

definition quote_char :: "char \<Rightarrow> string" where
  "quote_char c =
     (let n = of_char c :: nat in
      if n = 34 then [CHR 0x5C, CHR 0x22]
      else if n = 92 then [CHR 0x5C, CHR 0x5C]
      else if n = 7 then [CHR 0x5C, CHR ''a'']
      else if n = 8 then [CHR 0x5C, CHR ''b'']
      else if n = 9 then [CHR 0x5C, CHR ''t'']
      else if n = 10 then [CHR 0x5C, CHR ''n'']
      else if n = 11 then [CHR 0x5C, CHR ''v'']
      else if n = 12 then [CHR 0x5C, CHR ''f'']
      else if n = 13 then [CHR 0x5C, CHR ''r'']
      else if n < 32 \<or> n = 127
        then [CHR 0x5C, CHR ''x'', hex_digit (n div 16), hex_digit (n mod 16)]
      else [c])"

definition go_quote :: "string \<Rightarrow> string" where
  "go_quote s = CHR 0x22 # concat (map quote_char s) @ [CHR 0x22]"

text \<open>The helper \<open>firstNonEmpty\<close>, which several packages define for themselves.\<close>

fun firstNonEmpty :: "string list \<Rightarrow> string" where
  "firstNonEmpty [] = []"
| "firstNonEmpty (v # vs) = (if TrimSpace v \<noteq> [] then TrimSpace v else firstNonEmpty vs)"

lemma TrimSpace_firstNonEmpty [simp]: "TrimSpace (firstNonEmpty vs) = firstNonEmpty vs"
  by (induction vs) auto

section \<open>Sized integers and time\<close>

definition i32 :: "int \<Rightarrow> int" where
  "i32 x = (x + 2 ^ 31) mod 2 ^ 32 - 2 ^ 31"

definition i64 :: "int \<Rightarrow> int" where
  "i64 x = (x + 2 ^ 63) mod 2 ^ 64 - 2 ^ 63"

definition in_i32 :: "int \<Rightarrow> bool" where
  "in_i32 x \<longleftrightarrow> - (2 ^ 31) \<le> x \<and> x < 2 ^ 31"

definition in_i64 :: "int \<Rightarrow> bool" where
  "in_i64 x \<longleftrightarrow> - (2 ^ 63) \<le> x \<and> x < 2 ^ 63"

lemma i32_id [simp]: "in_i32 x \<Longrightarrow> i32 x = x"
  by (simp add: in_i32_def i32_def)

lemma i64_id [simp]: "in_i64 x \<Longrightarrow> i64 x = x"
  by (simp add: in_i64_def i64_def)

lemma in_i32_i32 [simp]: "in_i32 (i32 x)"
  using pos_mod_bound [of "2 ^ 32" "x + 2 ^ 31"] pos_mod_sign [of "2 ^ 32" "x + 2 ^ 31"]
  by (simp add: in_i32_def i32_def)

type_synonym time = int
type_synonym duration = int

text \<open>\<open>time.Time.Sub\<close> saturates at the ends of \<open>Duration\<close>, an \<open>int64\<close>.\<close>

definition time_sub :: "time \<Rightarrow> time \<Rightarrow> duration" where
  "time_sub t u = max (- (2 ^ 63)) (min (2 ^ 63 - 1) (t - u))"

definition second :: duration where "second = 1000000000"
definition minute :: duration where "minute = 60 * second"

lemma time_sub_pos [simp]: "time_sub t u \<le> 0 \<longleftrightarrow> t \<le> u"
  by (auto simp: time_sub_def)

definition time_is_zero :: "time \<Rightarrow> bool" where
  "time_is_zero t \<longleftrightarrow> t = 0"

text \<open>
  \<open>t.UTC().Format(time.RFC3339)\<close>: the proleptic Gregorian date of the day count since 0001-01-01,
  by cycles of 400, 100, 4 and 1 years, and the time of day. Years are written with at least four
  digits.
\<close>

fun month_of :: "int list \<Rightarrow> int \<Rightarrow> int \<Rightarrow> int \<times> int" where
  "month_of [] m d = (m, d)"
| "month_of (n # ns) m d = (if d < n then (m, d) else month_of ns (m + 1) (d - n))"

definition civil_date :: "int \<Rightarrow> int \<times> int \<times> int" where
  "civil_date days =
     (let n400 = days div 146097; d400 = days mod 146097;
          n100 = min 3 (d400 div 36524); d100 = d400 - n100 * 36524;
          n4 = d100 div 1461; d4 = d100 mod 1461;
          n1 = min 3 (d4 div 365); d1 = d4 - n1 * 365;
          year = n400 * 400 + n100 * 100 + n4 * 4 + n1 + 1;
          leap = (year mod 4 = 0 \<and> (year mod 100 \<noteq> 0 \<or> year mod 400 = 0));
          (m, d) = month_of [31, if leap then 29 else 28, 31, 30, 31, 30, 31, 31, 30, 31, 30] 1 d1
      in (year, m, d + 1))"

definition pad_int :: "nat \<Rightarrow> int \<Rightarrow> string" where
  "pad_int w n = (let s = show_int n in replicate (w - length s) (CHR ''0'') @ s)"

definition format_rfc3339 :: "time \<Rightarrow> string" where
  "format_rfc3339 t =
     (let secs = t div 1000000000; (y, m, d) = civil_date (secs div 86400); sod = secs mod 86400
      in pad_int 4 y @ ''-'' @ pad_int 2 m @ ''-'' @ pad_int 2 d @ ''T'' @ pad_int 2 (sod div 3600) @ '':''
         @ pad_int 2 (sod div 60 mod 60) @ '':'' @ pad_int 2 (sod mod 60) @ ''Z'')"

section \<open>Errors and results\<close>

text \<open>
  The error values the code tells apart: the four categories of \<open>domainerror\<close>, the reasons of a
  Kubernetes API error, the codes of a gRPC status, any other error, and an error wrapped with
  \<open>%w\<close>. \<open>errors.As\<close>, \<open>apierrors.Is...\<close> and \<open>status.Code\<close> look through wrappers.
\<close>

datatype api_reason = ApiNotFound | ApiAlreadyExists | ApiConflict | ApiInvalid | ApiBadRequest | ApiForbidden
  | ApiUnauthorized | ApiTooManyRequests | ApiOther

datatype grpc_code = InvalidArgument | NotFound | AlreadyExists | FailedPrecondition | Internal | OtherCode string

datatype go_error =
    DomainAlreadyExists string
  | DomainNotFound string
  | DomainValidation string
  | DomainReferenceConflict string
  | ApiError api_reason string
  | GrpcError grpc_code string
  | PlainError string
  | Wrapped string go_error

type_synonym 'a result = "go_error + 'a"

fun grpc_code_name :: "grpc_code \<Rightarrow> string" where
  "grpc_code_name InvalidArgument = ''InvalidArgument''"
| "grpc_code_name NotFound = ''NotFound''"
| "grpc_code_name AlreadyExists = ''AlreadyExists''"
| "grpc_code_name FailedPrecondition = ''FailedPrecondition''"
| "grpc_code_name Internal = ''Internal''"
| "grpc_code_name (OtherCode s) = s"

fun err_message :: "go_error \<Rightarrow> string" where
  "err_message (DomainAlreadyExists m) = m"
| "err_message (DomainNotFound m) = m"
| "err_message (DomainValidation m) = m"
| "err_message (DomainReferenceConflict m) = m"
| "err_message (ApiError r m) = m"
| "err_message (GrpcError c m) = ''rpc error: code = '' @ grpc_code_name c @ '' desc = '' @ m"
| "err_message (PlainError m) = m"
| "err_message (Wrapped p e) = p @ err_message e"

fun api_reason_of :: "go_error \<Rightarrow> api_reason option" where
  "api_reason_of (ApiError r m) = Some r"
| "api_reason_of (Wrapped p e) = api_reason_of e"
| "api_reason_of _ = None"

definition is_api_not_found :: "go_error \<Rightarrow> bool" where
  "is_api_not_found e \<longleftrightarrow> api_reason_of e = Some ApiNotFound"

definition is_api_already_exists :: "go_error \<Rightarrow> bool" where
  "is_api_already_exists e \<longleftrightarrow> api_reason_of e = Some ApiAlreadyExists"

definition is_api_conflict :: "go_error \<Rightarrow> bool" where
  "is_api_conflict e \<longleftrightarrow> api_reason_of e = Some ApiConflict"

fun as_validation :: "go_error \<Rightarrow> string option" where
  "as_validation (DomainValidation m) = Some m"
| "as_validation (Wrapped p e) = as_validation e"
| "as_validation _ = None"

fun as_already_exists :: "go_error \<Rightarrow> string option" where
  "as_already_exists (DomainAlreadyExists m) = Some m"
| "as_already_exists (Wrapped p e) = as_already_exists e"
| "as_already_exists _ = None"

fun grpc_not_found :: "go_error \<Rightarrow> bool" where
  "grpc_not_found (GrpcError NotFound m) = True"
| "grpc_not_found (Wrapped p e) = grpc_not_found e"
| "grpc_not_found _ = False"

text \<open>\<open>apierrors.NewNotFound\<close> and \<open>NewAlreadyExists\<close> for a group resource and a name.\<close>

definition api_not_found :: "string \<Rightarrow> string \<Rightarrow> go_error" where
  "api_not_found gr name = ApiError ApiNotFound (gr @ '' '' @ go_quote name @ '' not found'')"

definition api_already_exists :: "string \<Rightarrow> string \<Rightarrow> go_error" where
  "api_already_exists gr name = ApiError ApiAlreadyExists (gr @ '' '' @ go_quote name @ '' already exists'')"

lemma is_api_api_not_found [simp]: "is_api_not_found (api_not_found gr n)"
  by (simp add: api_not_found_def is_api_not_found_def)

end
