(* ===== verification/Platform_Contract.thy ===== *)
theory Platform_Contract
  imports Go_Prelude
begin

text \<open>
  The vocabulary of \<open>packages/platform-contract\<close>: the lifecycle phases, the condition types and
  reasons, the timeline records, and the validators that say which statuses and records the
  control plane may publish. The proto enums are datatypes with their zero value first; a proto
  message of which the code reads no field is an opaque \<open>proto_blob\<close>.
\<close>

type_synonym proto_blob = string

section \<open>Phases\<close>

datatype AgentSessionPhase = SessionPhaseUnspecified | SessionPhasePending | SessionPhaseReady
  | SessionPhaseRunning | SessionPhaseFailed

datatype AgentRunPhase = RunPhaseUnspecified | RunPhasePending | RunPhaseScheduled | RunPhaseRunning
  | RunPhaseSucceeded | RunPhaseFailed | RunPhaseCanceled

datatype AgentSessionActionPhase = ActionPhaseUnspecified | ActionPhasePending | ActionPhaseRunning
  | ActionPhaseSucceeded | ActionPhaseFailed | ActionPhaseCanceled

datatype ConditionStatus = ConditionStatusUnspecified | ConditionStatusTrue | ConditionStatusFalse
  | ConditionStatusUnknown

definition IsTerminalAgentSessionPhase :: "AgentSessionPhase \<Rightarrow> bool" where
  "IsTerminalAgentSessionPhase p \<longleftrightarrow> p = SessionPhaseFailed"

definition IsTerminalAgentRunPhase :: "AgentRunPhase \<Rightarrow> bool" where
  "IsTerminalAgentRunPhase p \<longleftrightarrow> p = RunPhaseSucceeded \<or> p = RunPhaseFailed \<or> p = RunPhaseCanceled"

definition IsTerminalAgentSessionActionPhase :: "AgentSessionActionPhase \<Rightarrow> bool" where
  "IsTerminalAgentSessionActionPhase p \<longleftrightarrow>
     p = ActionPhaseSucceeded \<or> p = ActionPhaseFailed \<or> p = ActionPhaseCanceled"

section \<open>Conditions\<close>

record Condition =
  cond_type :: string
  cond_status :: ConditionStatus
  cond_reason :: string
  cond_message :: string
  cond_observedGeneration :: int
  cond_lastTransitionTime :: "time option"

text \<open>\<open>^[A-Z][A-Za-z0-9]*$\<close>\<close>

definition is_upper :: "char \<Rightarrow> bool" where
  "is_upper c \<longleftrightarrow> (65::nat) \<le> of_char c \<and> of_char c \<le> (90::nat)"

definition is_alnum :: "char \<Rightarrow> bool" where
  "is_alnum c \<longleftrightarrow> is_upper c \<or> ((97::nat) \<le> of_char c \<and> of_char c \<le> (122::nat))
     \<or> ((48::nat) \<le> of_char c \<and> of_char c \<le> (57::nat))"

fun camelCaseReasonPattern :: "string \<Rightarrow> bool" where
  "camelCaseReasonPattern [] = False"
| "camelCaseReasonPattern (c # cs) = (is_upper c \<and> list_all is_alnum cs)"

definition conditionReasonsByType :: "(string \<times> string list) list" where
  "conditionReasonsByType =
    [(''Accepted'', [''Accepted'', ''InvalidSpec'']),
     (''ProviderResolved'', [''ProviderResolved'', ''ProviderResolutionFailed'']),
     (''WorkloadReady'', [''WorkloadCreated'', ''WorkloadCreateFailed'', ''RunStarted'']),
     (''Completed'', [''RunSucceeded'', ''RunFailed'', ''RunCanceled''])]"

definition IsKnownAgentRunConditionType :: "string \<Rightarrow> bool" where
  "IsKnownAgentRunConditionType v \<longleftrightarrow>
     v \<in> set [''Accepted'', ''ProviderResolved'', ''WorkloadReady'', ''Completed'']"

definition isAllowedReasonForConditionType :: "string \<Rightarrow> string \<Rightarrow> bool" where
  "isAllowedReasonForConditionType t r =
     (case map_of conditionReasonsByType t of None \<Rightarrow> False | Some rs \<Rightarrow> r \<in> set rs)"

definition sessionConditionReasonsByType :: "(string \<times> string list) list" where
  "sessionConditionReasonsByType =
    [(''WorkspaceReady'', [''WorkspacePrepared'', ''WorkspaceUnavailable'']),
     (''WarmStateReady'', [''WarmStatePrepared'', ''WarmStateReset'', ''WarmStateUnavailable'']),
     (''RuntimeConfigReady'',
        [''RuntimeConfigPrepared'', ''RuntimeConfigInvalid'', ''RuntimeConfigRevoked'']),
     (''ResourceConfigReady'',
        [''ResourceConfigPrepared'', ''ResourceConfigInvalid'', ''ResourceConfigIncompatible'']),
     (''ReadyForNextRun'',
        [''Ready'', ''SessionNotReady'', ''ActiveRunInProgress'', ''SessionSuspended'', ''SessionClosed''])]"

definition IsKnownAgentSessionConditionType :: "string \<Rightarrow> bool" where
  "IsKnownAgentSessionConditionType v \<longleftrightarrow>
     v \<in> set [''WorkspaceReady'', ''WarmStateReady'', ''RuntimeConfigReady'',
               ''ResourceConfigReady'', ''ReadyForNextRun'']"

definition isAllowedReasonForSessionConditionType :: "string \<Rightarrow> string \<Rightarrow> bool" where
  "isAllowedReasonForSessionConditionType t r =
     (case map_of sessionConditionReasonsByType t of None \<Rightarrow> False | Some rs \<Rightarrow> r \<in> set rs)"

text \<open>A validator returns \<^const>\<open>None\<close> for a nil error.\<close>

definition ValidateAgentRunCondition :: "Condition option \<Rightarrow> go_error option" where
  "ValidateAgentRunCondition condition =
     (case condition of None \<Rightarrow> Some (PlainError ''platform: agent run condition is nil'')
      | Some c \<Rightarrow>
        if cond_type c = [] then Some (PlainError ''platform: agent run condition type is empty'')
        else if \<not> IsKnownAgentRunConditionType (cond_type c) then
          Some (PlainError (''platform: agent run condition type '' @ go_quote (cond_type c)
                  @ '' is not part of the stable v1 vocabulary''))
        else if cond_status c = ConditionStatusUnspecified then
          Some (PlainError ''platform: agent run condition status is unspecified'')
        else if cond_reason c = [] then
          Some (PlainError ''platform: agent run condition reason is empty'')
        else if \<not> camelCaseReasonPattern (cond_reason c) then
          Some (PlainError (''platform: agent run condition reason '' @ go_quote (cond_reason c)
                  @ '' must be CamelCase''))
        else if \<not> isAllowedReasonForConditionType (cond_type c) (cond_reason c) then
          Some (PlainError (''platform: agent run condition reason '' @ go_quote (cond_reason c)
                  @ '' is not allowed for type '' @ go_quote (cond_type c)))
        else if cond_observedGeneration c < 0 then
          Some (PlainError ''platform: agent run condition observed generation must be non-negative'')
        else None)"

definition ValidateAgentSessionCondition :: "Condition option \<Rightarrow> go_error option" where
  "ValidateAgentSessionCondition condition =
     (case condition of None \<Rightarrow> Some (PlainError ''platform: agent session condition is nil'')
      | Some c \<Rightarrow>
        if cond_type c = [] then Some (PlainError ''platform: agent session condition type is empty'')
        else if \<not> IsKnownAgentSessionConditionType (cond_type c) then
          Some (PlainError (''platform: agent session condition type '' @ go_quote (cond_type c)
                  @ '' is not part of the stable v1 vocabulary''))
        else if cond_status c = ConditionStatusUnspecified then
          Some (PlainError ''platform: agent session condition status is unspecified'')
        else if cond_reason c = [] then
          Some (PlainError ''platform: agent session condition reason is empty'')
        else if \<not> camelCaseReasonPattern (cond_reason c) then
          Some (PlainError (''platform: agent session condition reason '' @ go_quote (cond_reason c)
                  @ '' must be CamelCase''))
        else if \<not> isAllowedReasonForSessionConditionType (cond_type c) (cond_reason c) then
          Some (PlainError (''platform: agent session condition reason '' @ go_quote (cond_reason c)
                  @ '' is not allowed for type '' @ go_quote (cond_type c)))
        else if cond_observedGeneration c < 0 then
          Some (PlainError ''platform: agent session condition observed generation must be non-negative'')
        else None)"

text \<open>The loop over a status' conditions, with the set of types seen so far.\<close>

fun validate_run_conditions :: "int \<Rightarrow> string list \<Rightarrow> Condition option list \<Rightarrow> go_error option" where
  "validate_run_conditions g seen [] = None"
| "validate_run_conditions g seen (condition # rest) =
     (case ValidateAgentRunCondition condition of Some e \<Rightarrow> Some e
      | None \<Rightarrow> (case condition of None \<Rightarrow> None
        | Some c \<Rightarrow>
          if cond_observedGeneration c > g then
            Some (PlainError (''platform: condition observed generation ''
                    @ show_int (cond_observedGeneration c)
                    @ '' exceeds status observed generation '' @ show_int g))
          else if cond_type c \<in> set seen then
            Some (PlainError (''platform: duplicate agent run condition type '' @ go_quote (cond_type c)))
          else validate_run_conditions g (cond_type c # seen) rest))"

fun validate_session_conditions :: "int \<Rightarrow> string list \<Rightarrow> Condition option list \<Rightarrow> go_error option" where
  "validate_session_conditions g seen [] = None"
| "validate_session_conditions g seen (condition # rest) =
     (case ValidateAgentSessionCondition condition of Some e \<Rightarrow> Some e
      | None \<Rightarrow> (case condition of None \<Rightarrow> None
        | Some c \<Rightarrow>
          if cond_observedGeneration c > g then
            Some (PlainError (''platform: session condition observed generation ''
                    @ show_int (cond_observedGeneration c)
                    @ '' exceeds status observed generation '' @ show_int g))
          else if cond_type c \<in> set seen then
            Some (PlainError (''platform: duplicate agent session condition type '' @ go_quote (cond_type c)))
          else validate_session_conditions g (cond_type c # seen) rest))"

section \<open>Run and session status messages\<close>

datatype RunStatus = RunStatusUnspecified | RunStatusCompleted | RunStatusFailed
  | RunStatusCancelled | RunStatusInterrupted

record RunError =
  re_code :: string
  re_message :: string
  re_retryable :: bool

record RunResult =
  rr_status :: RunStatus
  rr_resumeToken :: string
  rr_error :: "RunError option"

datatype PrepareJobPhase = PrepUnspecified | PrepPending | PrepSkipped | PrepRunning
  | PrepSucceeded | PrepFailed | PrepCanceled

record PrepareJobStatus =
  pjs_jobId :: string
  pjs_phase :: PrepareJobPhase
  pjs_message :: string
  pjs_startedAt :: "time option"
  pjs_finishedAt :: "time option"

record AgentRunStatus =
  ars_runId :: string
  ars_phase :: AgentRunPhase
  ars_observedGeneration :: int
  ars_message :: string
  ars_workload :: "string option"
  ars_conditions :: "Condition option list"
  ars_result :: "RunResult option"
  ars_updatedAt :: "time option"
  ars_prepareJobs :: "PrepareJobStatus option list"

record AgentSessionStatus =
  ass_sessionId :: string
  ass_phase :: AgentSessionPhase
  ass_observedGeneration :: int
  ass_runtimeConfigGeneration :: int
  ass_resourceConfigGeneration :: int
  ass_stateGeneration :: int
  ass_message :: string
  ass_activeRun :: "string option"
  ass_conditions :: "Condition option list"
  ass_updatedAt :: "time option"
  ass_realizedRuleRevision :: string
  ass_realizedSkillRevision :: string
  ass_realizedMcpRevision :: string
  ass_observedHomeStateId :: string

definition ValidateAgentRunStatus :: "AgentRunStatus option \<Rightarrow> go_error option" where
  "ValidateAgentRunStatus status =
     (case status of None \<Rightarrow> Some (PlainError ''platform: agent run status is nil'')
      | Some st \<Rightarrow>
        if ars_runId st = [] then Some (PlainError ''platform: agent run status run id is empty'')
        else if ars_phase st = RunPhaseUnspecified then
          Some (PlainError ''platform: agent run status phase is unspecified'')
        else if ars_observedGeneration st < 0 then
          Some (PlainError ''platform: agent run status observed generation must be non-negative'')
        else validate_run_conditions (ars_observedGeneration st) [] (ars_conditions st))"

definition ValidateAgentSessionStatus :: "AgentSessionStatus option \<Rightarrow> go_error option" where
  "ValidateAgentSessionStatus status =
     (case status of None \<Rightarrow> Some (PlainError ''platform: agent session status is nil'')
      | Some st \<Rightarrow>
        if ass_sessionId st = [] then
          Some (PlainError ''platform: agent session status session id is empty'')
        else if ass_phase st = SessionPhaseUnspecified then
          Some (PlainError ''platform: agent session status phase is unspecified'')
        else if ass_observedGeneration st < 0 then
          Some (PlainError ''platform: agent session status observed generation must be non-negative'')
        else if ass_runtimeConfigGeneration st < 0 then
          Some (PlainError ''platform: agent session status runtime config generation must be non-negative'')
        else if ass_resourceConfigGeneration st < 0 then
          Some (PlainError ''platform: agent session status resource config generation must be non-negative'')
        else if ass_stateGeneration st < 0 then
          Some (PlainError ''platform: agent session status state generation must be non-negative'')
        else validate_session_conditions (ass_observedGeneration st) [] (ass_conditions st))"

section \<open>The timeline\<close>

datatype TimelineScope = TimelineScopeSession | TimelineScopeTurn | TimelineScopeOther string

datatype TimelineStageStatus = StageActive | StageSucceeded | StageFailed | StageCanceled
  | StageSkipped | StageOther string

record TimelineScopeRef =
  tsr_scope :: TimelineScope
  tsr_sessionID :: string
  tsr_turnID :: string

type_synonym attributes = "(string \<times> string) list"

record StageInterval =
  si_scopeRef :: TimelineScopeRef
  si_stage :: string
  si_subject :: string
  si_action :: string
  si_status :: TimelineStageStatus
  si_startedAt :: time
  si_endedAt :: "time option"
  si_attributes :: attributes

record TimelineEvent =
  te_scopeRef :: TimelineScopeRef
  te_eventType :: string
  te_subject :: string
  te_action :: string
  te_occurredAt :: time
  te_attributes :: attributes

definition scope_name :: "TimelineScope \<Rightarrow> string" where
  "scope_name sc = (case sc of TimelineScopeSession \<Rightarrow> ''session'' | TimelineScopeTurn \<Rightarrow> ''turn''
     | TimelineScopeOther x \<Rightarrow> x)"

definition stage_status_name :: "TimelineStageStatus \<Rightarrow> string" where
  "stage_status_name st = (case st of StageActive \<Rightarrow> ''ACTIVE'' | StageSucceeded \<Rightarrow> ''SUCCEEDED''
     | StageFailed \<Rightarrow> ''FAILED'' | StageCanceled \<Rightarrow> ''CANCELED'' | StageSkipped \<Rightarrow> ''SKIPPED''
     | StageOther x \<Rightarrow> x)"

definition ValidateTimelineScopeRef :: "TimelineScopeRef \<Rightarrow> go_error option" where
  "ValidateTimelineScopeRef sc =
     (if TrimSpace (tsr_sessionID sc) = [] then Some (PlainError ''platform: timeline session id is empty'')
      else case tsr_scope sc of
        TimelineScopeSession \<Rightarrow>
          (if TrimSpace (tsr_turnID sc) \<noteq> []
           then Some (PlainError ''platform: timeline turn id must be empty for session scope'') else None)
      | TimelineScopeTurn \<Rightarrow>
          (if TrimSpace (tsr_turnID sc) = []
           then Some (PlainError ''platform: timeline turn id is empty for turn scope'') else None)
      | TimelineScopeOther x \<Rightarrow>
          Some (PlainError (''platform: timeline scope '' @ go_quote x @ '' is invalid'')))"

definition ValidateStageInterval :: "StageInterval option \<Rightarrow> go_error option" where
  "ValidateStageInterval interval =
     (case interval of None \<Rightarrow> Some (PlainError ''platform: stage interval is nil'')
      | Some i \<Rightarrow>
        (case ValidateTimelineScopeRef (si_scopeRef i) of Some e \<Rightarrow> Some e | None \<Rightarrow>
         if TrimSpace (si_stage i) = [] then Some (PlainError ''platform: stage interval stage is empty'')
         else if TrimSpace (si_subject i) = [] then Some (PlainError ''platform: stage interval subject is empty'')
         else if TrimSpace (si_action i) = [] then Some (PlainError ''platform: stage interval action is empty'')
         else if time_is_zero (si_startedAt i) then Some (PlainError ''platform: stage interval startedAt is zero'')
         else
           (case (case si_status i of
               StageActive \<Rightarrow>
                 (if si_endedAt i \<noteq> None
                  then Some (PlainError ''platform: active stage interval must not set endedAt'') else None)
             | StageOther x \<Rightarrow> Some (PlainError (''platform: stage interval status '' @ go_quote x @ '' is invalid''))
             | _ \<Rightarrow> (case si_endedAt i of
                   None \<Rightarrow> Some (PlainError ''platform: terminal stage interval endedAt is required'')
                 | Some e \<Rightarrow> (if e < si_startedAt i
                     then Some (PlainError ''platform: stage interval endedAt is before startedAt'') else None)))
            of Some e \<Rightarrow> Some e
             | None \<Rightarrow> (if \<exists>kv \<in> set (si_attributes i). TrimSpace (fst kv) = []
                 then Some (PlainError ''platform: stage interval attribute key is empty'') else None))))"

definition ValidateTimelineEvent :: "TimelineEvent option \<Rightarrow> go_error option" where
  "ValidateTimelineEvent event =
     (case event of None \<Rightarrow> Some (PlainError ''platform: timeline event is nil'')
      | Some ev \<Rightarrow>
        (case ValidateTimelineScopeRef (te_scopeRef ev) of Some e \<Rightarrow> Some e | None \<Rightarrow>
         if TrimSpace (te_eventType ev) = [] then Some (PlainError ''platform: timeline event type is empty'')
         else if TrimSpace (te_subject ev) = [] then Some (PlainError ''platform: timeline event subject is empty'')
         else if TrimSpace (te_action ev) = [] then Some (PlainError ''platform: timeline event action is empty'')
         else if time_is_zero (te_occurredAt ev) then Some (PlainError ''platform: timeline event occurredAt is zero'')
         else if \<exists>kv \<in> set (te_attributes ev). TrimSpace (fst kv) = []
           then Some (PlainError ''platform: timeline event attribute key is empty'')
         else None))"

section \<open>What the validators accept\<close>

text \<open>
  The declarative contract of a condition list, against which the loops of the validators are
  proved equivalent: every entry is present, of a known type, with a definite status, an allowed
  reason and a generation between 0 and that of the status, and no type occurs twice.
\<close>

definition condition_ok :: "(string \<Rightarrow> string \<Rightarrow> bool) \<Rightarrow> int \<Rightarrow> Condition \<Rightarrow> bool" where
  "condition_ok allowed g c \<longleftrightarrow>
     allowed (cond_type c) (cond_reason c) \<and> cond_status c \<noteq> ConditionStatusUnspecified \<and>
     0 \<le> cond_observedGeneration c \<and> cond_observedGeneration c \<le> g"

definition conditions_ok :: "(string \<Rightarrow> string \<Rightarrow> bool) \<Rightarrow> int \<Rightarrow> Condition option list \<Rightarrow> bool" where
  "conditions_ok allowed g cs \<longleftrightarrow>
     list_all (\<lambda>c. c \<noteq> None \<and> condition_ok allowed g (the c)) cs \<and>
     distinct (map (\<lambda>c. cond_type (the c)) cs)"

lemma allowed_run_reason:
  "isAllowedReasonForConditionType t r \<Longrightarrow>
     t \<noteq> [] \<and> IsKnownAgentRunConditionType t \<and> r \<noteq> [] \<and> camelCaseReasonPattern r"
  by (auto simp: isAllowedReasonForConditionType_def conditionReasonsByType_def
      IsKnownAgentRunConditionType_def is_upper_def is_alnum_def split: option.splits if_splits)

lemma allowed_session_reason:
  "isAllowedReasonForSessionConditionType t r \<Longrightarrow>
     t \<noteq> [] \<and> IsKnownAgentSessionConditionType t \<and> r \<noteq> [] \<and> camelCaseReasonPattern r"
  by (auto simp: isAllowedReasonForSessionConditionType_def sessionConditionReasonsByType_def
      IsKnownAgentSessionConditionType_def is_upper_def is_alnum_def split: option.splits if_splits)

lemma ValidateAgentRunCondition_iff:
  "ValidateAgentRunCondition (Some c) = None \<longleftrightarrow>
     isAllowedReasonForConditionType (cond_type c) (cond_reason c) \<and>
     cond_status c \<noteq> ConditionStatusUnspecified \<and> 0 \<le> cond_observedGeneration c"
  using allowed_run_reason by (auto simp: ValidateAgentRunCondition_def)

lemma ValidateAgentSessionCondition_iff:
  "ValidateAgentSessionCondition (Some c) = None \<longleftrightarrow>
     isAllowedReasonForSessionConditionType (cond_type c) (cond_reason c) \<and>
     cond_status c \<noteq> ConditionStatusUnspecified \<and> 0 \<le> cond_observedGeneration c"
  using allowed_session_reason by (auto simp: ValidateAgentSessionCondition_def)

lemma validate_run_conditions_iff:
  "validate_run_conditions g seen cs = None \<longleftrightarrow>
     conditions_ok isAllowedReasonForConditionType g cs \<and>
     set seen \<inter> set (map (\<lambda>c. cond_type (the c)) cs) = {}"
proof (induction cs arbitrary: seen)
  case (Cons condition rest)
  show ?case
  proof (cases condition)
    case None
    then show ?thesis by (simp add: ValidateAgentRunCondition_def conditions_ok_def)
  next
    case (Some c)
    then show ?thesis
      using Cons.IH [of "cond_type c # seen"] ValidateAgentRunCondition_iff [of c]
      by (cases "ValidateAgentRunCondition (Some c)") (auto simp: conditions_ok_def condition_ok_def)
  qed
qed (simp add: conditions_ok_def)

lemma validate_session_conditions_iff:
  "validate_session_conditions g seen cs = None \<longleftrightarrow>
     conditions_ok isAllowedReasonForSessionConditionType g cs \<and>
     set seen \<inter> set (map (\<lambda>c. cond_type (the c)) cs) = {}"
proof (induction cs arbitrary: seen)
  case (Cons condition rest)
  show ?case
  proof (cases condition)
    case None
    then show ?thesis by (simp add: ValidateAgentSessionCondition_def conditions_ok_def)
  next
    case (Some c)
    then show ?thesis
      using Cons.IH [of "cond_type c # seen"] ValidateAgentSessionCondition_iff [of c]
      by (cases "ValidateAgentSessionCondition (Some c)") (auto simp: conditions_ok_def condition_ok_def)
  qed
qed (simp add: conditions_ok_def)

section \<open>Properties\<close>

text \<open>
  The run status validator accepts a status exactly when it names its run, has a phase and a
  non-negative generation, and its conditions keep the contract \<open>conditions_ok\<close>: every one present,
  with a reason allowed for its type, a definite status, a generation between 0 and that of the
  status, and no type twice.
\<close>

theorem ValidateAgentRunStatus_iff:
  "ValidateAgentRunStatus (Some st) = None \<longleftrightarrow>
     ars_runId st \<noteq> [] \<and> ars_phase st \<noteq> RunPhaseUnspecified \<and> 0 \<le> ars_observedGeneration st \<and>
     conditions_ok isAllowedReasonForConditionType (ars_observedGeneration st) (ars_conditions st)"
  by (simp add: ValidateAgentRunStatus_def validate_run_conditions_iff not_less)

text \<open>
  The session status validator accepts a status exactly when it names its session, has a phase,
  none of its four generations is negative, and its conditions keep the contract of session
  conditions.
\<close>

theorem ValidateAgentSessionStatus_iff:
  "ValidateAgentSessionStatus (Some st) = None \<longleftrightarrow>
     ass_sessionId st \<noteq> [] \<and> ass_phase st \<noteq> SessionPhaseUnspecified \<and>
     0 \<le> ass_observedGeneration st \<and> 0 \<le> ass_runtimeConfigGeneration st \<and>
     0 \<le> ass_resourceConfigGeneration st \<and> 0 \<le> ass_stateGeneration st \<and>
     conditions_ok isAllowedReasonForSessionConditionType (ass_observedGeneration st) (ass_conditions st)"
  by (simp add: ValidateAgentSessionStatus_def validate_session_conditions_iff not_less)

end
