(* ===== verification/Provider_Messages.thy ===== *)
theory Provider_Messages
  imports Platform_Contract
begin

text \<open>
  The messages of providers and models (\<open>packages/proto/provider\<close>, \<open>packages/proto/model\<close>), with the
  fields that the modelled code reads or writes, the helpers of \<open>go-contract/provider/v1/runtime_helpers.go\<close>
  and the validation of models of \<open>go-contract/model/v1/validate.go\<close>. A oneof is a datatype with an
  unset constructor; a getter of a nil message answers the zero value.
\<close>

section \<open>Models\<close>

record ModelRef =
  mr_vendorId :: string
  mr_modelId :: string

datatype ModelShape = ShapeUnspecified | ShapeResponses | ShapeChatCompletions | ShapeAnthropicMessages

datatype AliasKind = AliasUnspecified | AliasStable | AliasSnapshot | AliasBedrock | AliasVertex

datatype ModelCapability = CapabilityUnspecified | Capability nat

datatype Modality = ModalityUnspecified | ModalityText | ModalityImage | ModalityAudio | ModalityVideo

record ModelAlias =
  al_kind :: AliasKind
  al_value :: string

record ModelVersion =
  mv_vendorId :: string
  mv_modelId :: string
  mv_aliases :: "ModelAlias option list"
  mv_capabilities :: "ModelCapability list"
  mv_primaryShape :: ModelShape
  mv_supportedShapes :: "ModelShape list"
  mv_inputModalities :: "Modality list"
  mv_outputModalities :: "Modality list"

record ResolvedModel =
  rm_modelId :: string
  rm_effectiveDefinition :: "ModelVersion option"

fun shape_string :: "ModelShape \<Rightarrow> string" where
  "shape_string ShapeUnspecified = ''MODEL_SHAPE_UNSPECIFIED''"
| "shape_string ShapeResponses = ''MODEL_SHAPE_RESPONSES''"
| "shape_string ShapeChatCompletions = ''MODEL_SHAPE_CHAT_COMPLETIONS''"
| "shape_string ShapeAnthropicMessages = ''MODEL_SHAPE_ANTHROPIC_MESSAGES''"

section \<open>Validation of models\<close>

definition ValidateRef :: "ModelRef option \<Rightarrow> go_error option" where
  "ValidateRef ref =
     (case ref of None \<Rightarrow> Some (PlainError ''modelv1: model ref is nil'')
      | Some r \<Rightarrow>
          if mr_modelId r = [] then Some (PlainError ''modelv1: model ref id is empty'')
          else if mr_vendorId r = [] then Some (PlainError ''modelv1: model ref vendor id is empty'')
          else None)"

fun validateAliases :: "ModelAlias option list \<Rightarrow> go_error option" where
  "validateAliases [] = None"
| "validateAliases (None # as) = Some (PlainError ''modelv1: model alias is nil'')"
| "validateAliases (Some a # as) =
     (if al_kind a = AliasUnspecified then Some (PlainError ''modelv1: model alias kind is unspecified'')
      else if al_value a = [] then Some (PlainError ''modelv1: model alias value is empty'')
      else validateAliases as)"

definition validateCapabilities :: "ModelCapability list \<Rightarrow> go_error option" where
  "validateCapabilities capabilities =
     (if CapabilityUnspecified \<in> set capabilities then Some (PlainError ''modelv1: model capability is unspecified'') else None)"

definition validateShapeList :: "string \<Rightarrow> ModelShape list \<Rightarrow> go_error option" where
  "validateShapeList label shapes =
     (if ShapeUnspecified \<in> set shapes then Some (PlainError (''modelv1: '' @ label @ '' is unspecified'')) else None)"

definition validateShapes :: "ModelShape \<Rightarrow> ModelShape list \<Rightarrow> go_error option" where
  "validateShapes primary supported =
     (case validateShapeList ''supported shape'' supported of Some e \<Rightarrow> Some e
      | None \<Rightarrow>
          if supported \<noteq> [] \<and> primary \<notin> set supported
          then Some (PlainError (''modelv1: supported shapes do not include primary shape '' @ shape_string primary))
          else None)"

definition validateModalities :: "string \<Rightarrow> Modality list \<Rightarrow> go_error option" where
  "validateModalities direction modalities =
     (if ModalityUnspecified \<in> set modalities
      then Some (PlainError (''modelv1: '' @ direction @ '' modality is unspecified'')) else None)"

definition validateSurfaceIdentity :: "string \<Rightarrow> string \<Rightarrow> go_error option" where
  "validateSurfaceIdentity vendorID modelID =
     (if TrimSpace vendorID = [] then Some (PlainError ''modelv1: model vendor id is empty'')
      else if TrimSpace modelID = [] then Some (PlainError ''modelv1: model id is empty'')
      else None)"

text \<open>The first of a sequence of checks that fails.\<close>

fun first_error :: "go_error option list \<Rightarrow> go_error option" where
  "first_error [] = None"
| "first_error (Some e # es) = Some e"
| "first_error (None # es) = first_error es"

lemma first_error_None [simp]: "first_error es = None \<longleftrightarrow> list_all (\<lambda>e. e = None) es"
  by (induction es rule: first_error.induct) auto

definition ValidateDefinition :: "ModelVersion option \<Rightarrow> go_error option" where
  "ValidateDefinition m =
     (case m of None \<Rightarrow> Some (PlainError ''modelv1: model definition is nil'')
      | Some d \<Rightarrow>
          if mv_modelId d = [] then Some (PlainError ''modelv1: model definition id is empty'')
          else if mv_primaryShape d = ShapeUnspecified then Some (PlainError ''modelv1: model primary shape is unspecified'')
          else first_error
            [validateAliases (mv_aliases d), validateCapabilities (mv_capabilities d),
             validateShapes (mv_primaryShape d) (mv_supportedShapes d),
             validateModalities ''input'' (mv_inputModalities d), validateModalities ''output'' (mv_outputModalities d),
             if TrimSpace (mv_vendorId d) = [] then Some (PlainError ''modelv1: model vendor id is empty'') else None,
             validateSurfaceIdentity (mv_vendorId d) (mv_modelId d)])"

definition ValidateResolvedModel :: "ResolvedModel \<Rightarrow> go_error option" where
  "ValidateResolvedModel resolved =
     (if rm_modelId resolved = [] then Some (PlainError ''modelv1: resolved model id is empty'')
      else case rm_effectiveDefinition resolved of
        None \<Rightarrow> Some (PlainError ''modelv1: resolved model effective_definition is nil'')
      | Some d \<Rightarrow>
          (case ValidateDefinition (Some d) of
             Some e \<Rightarrow> Some (Wrapped ''modelv1: resolved model effective_definition is invalid: '' e)
           | None \<Rightarrow>
               if mv_modelId d \<noteq> rm_modelId resolved
               then Some (PlainError (''modelv1: resolved model id '' @ go_quote (rm_modelId resolved) @
                 '' does not match effective definition id '' @ go_quote (mv_modelId d)))
               else None))"

section \<open>Providers\<close>

datatype Protocol = ProtocolUnspecified | OpenaiResponses | OpenaiCompatible | Anthropic | Gemini

fun protocol_string :: "Protocol \<Rightarrow> string" where
  "protocol_string ProtocolUnspecified = ''PROTOCOL_UNSPECIFIED''"
| "protocol_string OpenaiResponses = ''PROTOCOL_OPENAI_RESPONSES''"
| "protocol_string OpenaiCompatible = ''PROTOCOL_OPENAI_COMPATIBLE''"
| "protocol_string Anthropic = ''PROTOCOL_ANTHROPIC''"
| "protocol_string Gemini = ''PROTOCOL_GEMINI''"

datatype CatalogSource = SourceUnspecified | SourceModelService | SourceProtocolQuery | SourceFallbackConfig | SourceVendorPreset

record ProviderModelCatalogEntry =
  pme_providerModelId :: string
  pme_modelRef :: "ModelRef option"

record ProviderModelCatalog =
  pmc_models :: "ProviderModelCatalogEntry option list"
  pmc_source :: CatalogSource

text \<open>How a surface is called: an API with its protocol and base URL, or a CLI with its id.\<close>

datatype SurfaceAccess = AccessUnset | AccessApi Protocol string | AccessCli string

record SurfaceRuntime =
  srt_access :: SurfaceAccess
  srt_catalog :: "ProviderModelCatalog option"

record SurfaceBinding =
  sb_surfaceId :: string
  sb_runtime :: "SurfaceRuntime option"
  sb_credentialId :: string

datatype SurfaceKind = KindUnset | KindApi | KindCli

definition RuntimeKind :: "SurfaceRuntime \<Rightarrow> SurfaceKind" where
  "RuntimeKind r = (case srt_access r of AccessUnset \<Rightarrow> KindUnset | AccessApi p u \<Rightarrow> KindApi | AccessCli c \<Rightarrow> KindCli)"

definition RuntimeProtocol :: "SurfaceRuntime \<Rightarrow> Protocol" where
  "RuntimeProtocol r = (case srt_access r of AccessApi p u \<Rightarrow> p | _ \<Rightarrow> ProtocolUnspecified)"

definition RuntimeBaseURL :: "SurfaceRuntime \<Rightarrow> string" where
  "RuntimeBaseURL r = (case srt_access r of AccessApi p u \<Rightarrow> TrimSpace u | _ \<Rightarrow> [])"

definition RuntimeCLIID :: "SurfaceRuntime \<Rightarrow> string" where
  "RuntimeCLIID r = (case srt_access r of AccessCli c \<Rightarrow> TrimSpace c | _ \<Rightarrow> [])"

record ResolvedProviderModel =
  rpm_surfaceId :: string
  rpm_providerModelId :: string
  rpm_protocol :: Protocol
  rpm_baseUrl :: string
  rpm_model :: "ResolvedModel option"
  rpm_source :: CatalogSource
  rpm_surface :: "SurfaceRuntime option"

text \<open>What a run is bound to: the account, the granted credential, and the model it calls.\<close>

datatype RunAccess = RunAccessUnset | RunAccessApi Protocol | RunAccessCli

record ProviderRunBinding =
  prb_providerId :: string
  prb_grantId :: "string option"
  prb_runtimeUrl :: string
  prb_materializationKey :: string
  prb_runtimeCliId :: string
  prb_providerModelId :: string
  prb_canonicalModelId :: string
  prb_sourceModelId :: string
  prb_access :: RunAccess

datatype CredentialKind = KindUnspecified | KindApiKey | KindOAuth | KindSession

end
