(* ===== verification/Runtime_Types.thy ===== *)
theory Runtime_Types
  imports Provider_Messages
begin

text \<open>
  The data of the agent runtime: the proto messages of sessions, runs and actions
  (\<open>packages/go-contract/platform\<close>, generated code), and the resources of
  \<open>packages/platform-k8s/api/v1alpha1\<close> that store them.

  A pointer to a message is an \<open>option\<close>, and \<open>getf z f m\<close> is the generated getter that returns the
  zero value \<open>z\<close> on a nil message. Cloning a message is the identity here, since a value of HOL is
  never shared. A message of which the modelled code reads no field is a \<^typ>\<open>proto_blob\<close>.
  A resource phase is a string type with named constants: the constructors are the constants, the
  \<open>Unset\<close> one is the empty string and the \<open>Other\<close> one any other string.
\<close>

definition getf :: "'b \<Rightarrow> ('a \<Rightarrow> 'b) \<Rightarrow> 'a option \<Rightarrow> 'b" where
  "getf z f m = (case m of None \<Rightarrow> z | Some v \<Rightarrow> f v)"

lemma getf_simps [simp]: "getf z f None = z" "getf z f (Some v) = f v"
  by (simp_all add: getf_def)

section \<open>Messages\<close>

datatype InstructionKind = InstructionUnspecified | InstructionRule | InstructionSkill

datatype ToolKind = ToolUnspecified | ToolMCP

record InstructionResource =
  ir_kind :: InstructionKind
  ir_name :: string
  ir_content :: string

record ToolBinding =
  tb_name :: string
  tb_kind :: ToolKind
  tb_target :: string

record AgentResources =
  res_snapshotId :: string
  res_instructions :: "InstructionResource option list"
  res_toolBindings :: "ToolBinding option list"

text \<open>The parameters of a run are a proto \<open>Struct\<close>: of its values only the strings are read.\<close>

datatype ParamValue = StringParam string | OtherParam proto_blob

record RunInput =
  rin_text :: string
  rin_parameters :: "(string \<times> ParamValue) list option"

type_synonym RuntimeEnvironment = "string \<times> string"

record RunRequest =
  rq_runId :: string
  rq_traceId :: string
  rq_input :: "RunInput option"
  rq_resumeToken :: string
  rq_resolvedProviderModel :: "ResolvedProviderModel option"

record AgentRunAuthRequirement =
  auth_providerId :: string
  auth_providerSurfaceBindingId :: string
  auth_authStatus :: string
  auth_runtimeUrl :: string
  auth_materializationKey :: string
  auth_providerRunBinding :: "ProviderRunBinding option"

datatype PrepareJobRunType = RunTypeUnspecified | RunTypeInit | RunTypePerRun | RunTypeOnChanged

record AgentRunPrepareJob =
  job_jobId :: string
  job_jobType :: string
  job_runType :: PrepareJobRunType
  job_changeKey :: string
  job_cleanup :: bool
  job_parametersYaml :: string
  job_cliId :: string

record AgentSessionPrepareJob =
  sjob_jobId :: string
  sjob_cliId :: string
  sjob_jobType :: string
  sjob_runType :: PrepareJobRunType
  sjob_changeKey :: string
  sjob_cleanup :: bool
  sjob_parametersYaml :: string

text \<open>A runtime reference carries its surface id; the rest of it is opaque.\<close>

record ProviderRuntimeRef =
  prr_providerId :: string
  prr_surfaceId :: string
  prr_access :: proto_blob

text \<open>
  A selector is a oneof: the outer \<open>option\<close> of its uses is the unset oneof, the inner one a wrapper
  around a nil reference.
\<close>

datatype ModelSelector = SelectModelRef "ModelRef option" | SelectProviderModelId string

record RuntimeFallback =
  fb_providerRuntimeRef :: "ProviderRuntimeRef option"
  fb_modelSelector :: "ModelSelector option"

record AgentSessionRuntimeConfig =
  rc_providerRuntimeRef :: "ProviderRuntimeRef option"
  rc_fallbacks :: "RuntimeFallback option list"
  rc_primaryModelSelector :: "ModelSelector option"

record AgentSessionSpec =
  ss_sessionId :: string
  ss_providerId :: string
  ss_profileId :: string
  ss_runtimeConfig :: "AgentSessionRuntimeConfig option"
  ss_resourceConfig :: "AgentResources option"
  ss_workspaceRef :: "string option"
  ss_homeStateRef :: "string option"
  ss_profileGeneration :: int
  ss_executionClass :: string
  ss_prepareJobs :: "AgentSessionPrepareJob option list"

record AgentSessionState =
  ast_generation :: int
  ast_spec :: "AgentSessionSpec option"
  ast_status :: "AgentSessionStatus option"

record AgentRunSpec =
  rs_runId :: string
  rs_sessionId :: string
  rs_sessionGeneration :: int
  rs_runtimeConfigGeneration :: int
  rs_resourceConfigGeneration :: int
  rs_stateGeneration :: int
  rs_request :: "RunRequest option"
  rs_providerId :: string
  rs_executionClass :: string
  rs_containerImage :: string
  rs_cpuRequest :: string
  rs_memoryRequest :: string
  rs_authRequirement :: "AgentRunAuthRequirement option"
  rs_cancelRequested :: bool
  rs_runtimeEnvironment :: "RuntimeEnvironment option"
  rs_workspaceId :: string
  rs_homeStateId :: string
  rs_prepareJobs :: "AgentRunPrepareJob option list"
  rs_agentRuntimeId :: string

record AgentRunState =
  rst_generation :: int
  rst_spec :: AgentRunSpec
  rst_status :: AgentRunStatus

record RuntimeCandidate =
  cand_resolvedProviderModel :: "ResolvedProviderModel option"
  cand_authRequirement :: "AgentRunAuthRequirement option"

record RunTurnSnapshot =
  sn_runRequest :: "RunRequest option"
  sn_sessionGeneration :: int
  sn_runtimeConfigGeneration :: int
  sn_resourceConfigGeneration :: int
  sn_stateGeneration :: int
  sn_providerId :: string
  sn_executionClass :: string
  sn_containerImage :: string
  sn_cpuRequest :: string
  sn_memoryRequest :: string
  sn_authRequirement :: "AgentRunAuthRequirement option"
  sn_runtimeCandidates :: "RuntimeCandidate option list"
  sn_runtimeEnvironment :: "RuntimeEnvironment option"
  sn_workspaceId :: string
  sn_homeStateId :: string
  sn_prepareJobs :: "AgentRunPrepareJob option list"

datatype ActionSubject = SubjectUnspecified | SubjectResourceConfig | SubjectRule | SubjectSkill | SubjectMCP

record ReloadSubjectSnapshot =
  rl_sessionGeneration :: int
  rl_subject :: ActionSubject
  rl_snapshotId :: string
  rl_subjectRevision :: string
  rl_resourceConfig :: "AgentResources option"

record ResetWarmStateSnapshot =
  rw_sessionGeneration :: int
  rw_sourceHomeStateId :: string
  rw_targetHomeStateId :: string

datatype InputSnapshot = SnapRunTurn RunTurnSnapshot | SnapReload ReloadSubjectSnapshot
  | SnapReset ResetWarmStateSnapshot

datatype ActionType = TypeUnspecified | TypeRunTurn | TypeReloadSubject | TypeResetWarmState

record ActionSpec =
  as_actionId :: string
  as_sessionId :: string
  as_type :: ActionType
  as_turnId :: string
  as_inputSnapshot :: "InputSnapshot option"
  as_stopRequested :: bool

text \<open>The oneof getters \<open>GetInputSnapshot().GetRunTurn()\<close> and so on.\<close>

definition get_run_turn :: "ActionSpec \<Rightarrow> RunTurnSnapshot option" where
  "get_run_turn a = (case as_inputSnapshot a of Some (SnapRunTurn s) \<Rightarrow> Some s | _ \<Rightarrow> None)"

definition get_reload_subject :: "ActionSpec \<Rightarrow> ReloadSubjectSnapshot option" where
  "get_reload_subject a = (case as_inputSnapshot a of Some (SnapReload s) \<Rightarrow> Some s | _ \<Rightarrow> None)"

definition get_reset_warm_state :: "ActionSpec \<Rightarrow> ResetWarmStateSnapshot option" where
  "get_reset_warm_state a = (case as_inputSnapshot a of Some (SnapReset s) \<Rightarrow> Some s | _ \<Rightarrow> None)"

fun action_type_name :: "ActionType \<Rightarrow> string" where
  "action_type_name TypeUnspecified = ''AGENT_SESSION_ACTION_TYPE_UNSPECIFIED''"
| "action_type_name TypeRunTurn = ''AGENT_SESSION_ACTION_TYPE_RUN_TURN''"
| "action_type_name TypeReloadSubject = ''AGENT_SESSION_ACTION_TYPE_RELOAD_SUBJECT''"
| "action_type_name TypeResetWarmState = ''AGENT_SESSION_ACTION_TYPE_RESET_WARM_STATE''"

fun action_subject_name :: "ActionSubject \<Rightarrow> string" where
  "action_subject_name SubjectUnspecified = ''AGENT_SESSION_ACTION_SUBJECT_UNSPECIFIED''"
| "action_subject_name SubjectResourceConfig = ''AGENT_SESSION_ACTION_SUBJECT_RESOURCE_CONFIG''"
| "action_subject_name SubjectRule = ''AGENT_SESSION_ACTION_SUBJECT_RULE''"
| "action_subject_name SubjectSkill = ''AGENT_SESSION_ACTION_SUBJECT_SKILL''"
| "action_subject_name SubjectMCP = ''AGENT_SESSION_ACTION_SUBJECT_MCP''"

section \<open>Resources\<close>

record ObjectMeta =
  om_name :: string
  om_namespace :: string
  om_generation :: int
  om_resourceVersion :: string
  om_labels :: "(string \<times> string) list"
  om_creationTimestamp :: time
  om_deletionTimestamp :: "time option"
  om_finalizers :: "string list"

definition GroupName :: string where
  "GroupName = ''platform.code-code.internal''"

definition GroupVersion :: string where
  "GroupVersion = ''platform.code-code.internal/v1alpha1''"

datatype MetaConditionStatus = MetaTrue | MetaFalse | MetaUnknown | MetaStatusOther string

record MetaCondition =
  mc_type :: string
  mc_status :: MetaConditionStatus
  mc_reason :: string
  mc_message :: string
  mc_observedGeneration :: int
  mc_lastTransitionTime :: time

datatype SessionResourcePhase = SPhaseUnset | SPending | SReady | SRunning | SFailed | SPhaseOther string

record SessionResourceStatus =
  srs_observedGeneration :: int
  srs_conditions :: "MetaCondition list"
  srs_phase :: SessionResourcePhase
  srs_runtimeConfigGeneration :: int
  srs_resourceConfigGeneration :: int
  srs_realizedRuleRevision :: string
  srs_realizedSkillRevision :: string
  srs_realizedMCPRevision :: string
  srs_observedHomeStateID :: string
  srs_stateGeneration :: int
  srs_message :: string
  srs_activeRunID :: string
  srs_updatedAt :: "time option"

record SessionResource =
  sr_meta :: ObjectMeta
  sr_session :: "AgentSessionSpec option"
  sr_status :: SessionResourceStatus

datatype RunResourcePhase = RPhaseUnset | RPending | RScheduled | RRunning | RSucceeded | RFailed
  | RCanceled | RPhaseOther string

record RunResultSummary =
  rsum_status :: string
  rsum_errorCode :: string
  rsum_errorMessage :: string
  rsum_retryable :: bool

record RunResourceStatus =
  rrs_observedGeneration :: int
  rrs_conditions :: "MetaCondition list"
  rrs_phase :: RunResourcePhase
  rrs_message :: string
  rrs_workloadID :: string
  rrs_resultSummary :: "RunResultSummary option"
  rrs_prepareJobs :: "PrepareJobStatus option list"
  rrs_updatedAt :: "time option"

record RunResource =
  run_meta :: ObjectMeta
  run_spec :: "AgentRunSpec option"
  run_status :: RunResourceStatus

datatype ActionResourcePhase = APhaseUnset | APending | ARunning | ASucceeded | AFailed | ACanceled
  | APhaseOther string

datatype FailureClass = ClassUnset | ClassBlocked | ClassTransient | ClassPermanent | ClassManualRetry
  | ClassOther string

record ActionStatus =
  act_observedGeneration :: int
  act_conditions :: "MetaCondition list"
  act_phase :: ActionResourcePhase
  act_failureClass :: FailureClass
  act_message :: string
  act_retryCount :: int
  act_attemptCount :: int
  act_candidateIndex :: int
  act_nextRetryAt :: "time option"
  act_runID :: string
  act_createdAt :: "time option"
  act_updatedAt :: "time option"

record ActionResource =
  ar_apiVersion :: string
  ar_kind :: string
  ar_meta :: ObjectMeta
  ar_action :: "ActionSpec option"
  ar_status :: ActionStatus

abbreviation ar_name :: "ActionResource \<Rightarrow> string" where
  "ar_name r \<equiv> om_name (ar_meta r)"

fun action_phase_string :: "ActionResourcePhase \<Rightarrow> string" where
  "action_phase_string APhaseUnset = []"
| "action_phase_string APending = ''PENDING''"
| "action_phase_string ARunning = ''RUNNING''"
| "action_phase_string ASucceeded = ''SUCCEEDED''"
| "action_phase_string AFailed = ''FAILED''"
| "action_phase_string ACanceled = ''CANCELED''"
| "action_phase_string (APhaseOther s) = s"

fun failure_class_string :: "FailureClass \<Rightarrow> string" where
  "failure_class_string ClassUnset = []"
| "failure_class_string ClassBlocked = ''BLOCKED''"
| "failure_class_string ClassTransient = ''TRANSIENT''"
| "failure_class_string ClassPermanent = ''PERMANENT''"
| "failure_class_string ClassManualRetry = ''MANUAL_RETRY''"
| "failure_class_string (ClassOther s) = s"

fun run_phase_string :: "RunResourcePhase \<Rightarrow> string" where
  "run_phase_string RPhaseUnset = []"
| "run_phase_string RPending = ''PENDING''"
| "run_phase_string RScheduled = ''SCHEDULED''"
| "run_phase_string RRunning = ''RUNNING''"
| "run_phase_string RSucceeded = ''SUCCEEDED''"
| "run_phase_string RFailed = ''FAILED''"
| "run_phase_string RCanceled = ''CANCELED''"
| "run_phase_string (RPhaseOther s) = s"

fun session_phase_string :: "SessionResourcePhase \<Rightarrow> string" where
  "session_phase_string SPhaseUnset = []"
| "session_phase_string SPending = ''PENDING''"
| "session_phase_string SReady = ''READY''"
| "session_phase_string SRunning = ''RUNNING''"
| "session_phase_string SFailed = ''FAILED''"
| "session_phase_string (SPhaseOther s) = s"

text \<open>What a reconciler asks of its queue: \<open>ctrl.Result\<close>.\<close>

record CtrlResult =
  res_requeue :: bool
  res_requeueAfter :: duration

definition no_requeue :: CtrlResult where
  "no_requeue = \<lparr>res_requeue = False, res_requeueAfter = 0\<rparr>"

definition requeue_after :: "duration \<Rightarrow> CtrlResult" where
  "requeue_after d = \<lparr>res_requeue = False, res_requeueAfter = d\<rparr>"

definition requeue_now :: CtrlResult where
  "requeue_now = \<lparr>res_requeue = True, res_requeueAfter = 0\<rparr>"

section \<open>From resource fields to messages\<close>

text \<open>\<open>internal/platform/protostate\<close>.\<close>

definition protostate_ConditionStatus :: "MetaConditionStatus \<Rightarrow> ConditionStatus" where
  "protostate_ConditionStatus s = (case s of MetaTrue \<Rightarrow> ConditionStatusTrue
     | MetaFalse \<Rightarrow> ConditionStatusFalse | _ \<Rightarrow> ConditionStatusUnknown)"

definition protostate_Conditions :: "MetaCondition list \<Rightarrow> Condition option list" where
  "protostate_Conditions cs = map (\<lambda>c. Some
     \<lparr>cond_type = mc_type c, cond_status = protostate_ConditionStatus (mc_status c),
      cond_reason = mc_reason c, cond_message = mc_message c,
      cond_observedGeneration = mc_observedGeneration c,
      cond_lastTransitionTime = Some (mc_lastTransitionTime c)\<rparr>) cs"

definition protostate_Timestamp :: "time option \<Rightarrow> time option" where
  "protostate_Timestamp v = (case v of None \<Rightarrow> None | Some t \<Rightarrow> if time_is_zero t then None else Some t)"

lemma definite_status [simp]: "protostate_ConditionStatus s \<noteq> ConditionStatusUnspecified"
  by (cases s) (simp_all add: protostate_ConditionStatus_def)

end
