(* ===== verification/Action_Status.thy ===== *)
theory Action_Status
  imports Runtime_Types
begin

text \<open>
  The pure part of \<open>agentsessionactions\<close>: the retry policy (\<open>retry_policy.go\<close>), the status
  builders (\<open>status_builders.go\<close>, \<open>status.go\<close>), the retry and fallback schedule (\<open>retry.go\<close>),
  the queue order (\<open>queue.go\<close>), the view (\<open>view.go\<close>, \<open>state.go\<close>) and the timeline events
  (\<open>timeline.go\<close>).
\<close>

section \<open>Retry policy\<close>

record RetryPolicy =
  rp_maxRetries :: int
  rp_baseBackoff :: duration
  rp_maxBackoff :: duration

definition DefaultRetryPolicy :: RetryPolicy where
  "DefaultRetryPolicy = \<lparr>rp_maxRetries = 5, rp_baseBackoff = 2 * second, rp_maxBackoff = minute\<rparr>"

definition normalizeRetryPolicy :: "RetryPolicy \<Rightarrow> RetryPolicy" where
  "normalizeRetryPolicy policy =
     (let policy = (if rp_maxRetries policy < 0 then policy\<lparr>rp_maxRetries := 0\<rparr> else policy);
          policy = (if rp_baseBackoff policy \<le> 0
                    then policy\<lparr>rp_baseBackoff := rp_baseBackoff DefaultRetryPolicy\<rparr> else policy);
          policy = (if rp_maxBackoff policy \<le> 0
                    then policy\<lparr>rp_maxBackoff := rp_maxBackoff DefaultRetryPolicy\<rparr> else policy)
      in if rp_maxBackoff policy < rp_baseBackoff policy
         then policy\<lparr>rp_maxBackoff := rp_baseBackoff policy\<rparr> else policy)"

definition policy_ok :: "RetryPolicy \<Rightarrow> bool" where
  "policy_ok p \<longleftrightarrow> 0 \<le> rp_maxRetries p \<and> rp_maxRetries p < 2 ^ 31 \<and> 0 < rp_baseBackoff p
     \<and> rp_baseBackoff p \<le> rp_maxBackoff p \<and> rp_maxBackoff p < 2 ^ 63"

text \<open>The loop of \<open>retryDelay\<close>: \<open>n\<close> doublings are left.\<close>

fun retryDelay_loop :: "nat \<Rightarrow> duration \<Rightarrow> RetryPolicy \<Rightarrow> duration" where
  "retryDelay_loop 0 delay policy =
     (if delay > rp_maxBackoff policy then rp_maxBackoff policy else delay)"
| "retryDelay_loop (Suc n) delay policy =
     (let delay = i64 (delay * 2) in
      if delay \<ge> rp_maxBackoff policy then rp_maxBackoff policy else retryDelay_loop n delay policy)"

definition retryDelay :: "int \<Rightarrow> RetryPolicy \<Rightarrow> duration" where
  "retryDelay retryCount policy =
     (if retryCount \<le> 0 then rp_baseBackoff policy
      else retryDelay_loop (nat (retryCount - 1)) (rp_baseBackoff policy) policy)"

section \<open>Messages\<close>

definition message_prefixes :: "string list" where
  "message_prefixes = [''platformk8s/agentsessionactions: '', ''platformk8s/agentsessions: '',
     ''platformk8s/agentruns: '', ''platformk8s/agentexecution: '']"

definition sanitizeActionMessage :: "string \<Rightarrow> string" where
  "sanitizeActionMessage message =
     TrimSpace (fold (\<lambda>prefix m. TrimPrefix m prefix) message_prefixes (TrimSpace message))"

definition automaticRetryMessage :: "string \<Rightarrow> string" where
  "automaticRetryMessage message =
     (let m = sanitizeActionMessage message in
      if m = [] then ''AgentSessionAction automatic retry is scheduled.''
      else ''AgentSessionAction automatic retry is scheduled: '' @ m)"

definition exhaustedRetryMessage :: "string \<Rightarrow> string" where
  "exhaustedRetryMessage message =
     (let m = sanitizeActionMessage message in
      if m = [] then ''AgentSessionAction automatic retry budget was exhausted.''
      else ''AgentSessionAction automatic retry budget was exhausted: '' @ m)"

definition automaticFallbackMessage :: "string \<Rightarrow> string" where
  "automaticFallbackMessage message =
     (let m = sanitizeActionMessage message in
      if m = [] then ''AgentSessionAction automatic fallback is scheduled.''
      else ''AgentSessionAction automatic fallback is scheduled: '' @ m)"

section \<open>Creation time\<close>

text \<open>\<open>createdAt\<close> and \<open>actionCreatedAt\<close> take a resource that is never nil at their calls.\<close>

definition createdAt :: "ActionResource \<Rightarrow> time option" where
  "createdAt r =
     (case act_createdAt (ar_status r) of
        Some t \<Rightarrow> if \<not> time_is_zero t then Some t
          else if time_is_zero (om_creationTimestamp (ar_meta r)) then None
          else Some (om_creationTimestamp (ar_meta r))
      | None \<Rightarrow> if time_is_zero (om_creationTimestamp (ar_meta r)) then None
          else Some (om_creationTimestamp (ar_meta r)))"

definition actionCreatedAt :: "ActionResource \<Rightarrow> time" where
  "actionCreatedAt r =
     (case createdAt r of Some t \<Rightarrow> if \<not> time_is_zero t then t else 0 | None \<Rightarrow> 0)"

section \<open>Status builders\<close>

record actionStatusSpec =
  spec_phase :: ActionResourcePhase
  spec_runID :: string
  spec_message :: string
  spec_failureClass :: FailureClass
  spec_retryCount :: int
  spec_attemptCount :: int
  spec_candidateIndex :: int
  spec_nextRetryAt :: "time option"

definition buildStatus :: "ActionResource \<Rightarrow> time \<Rightarrow> actionStatusSpec \<Rightarrow> ActionStatus" where
  "buildStatus r now spec =
     (let created = (case createdAt r of None \<Rightarrow> Some now
                      | Some t \<Rightarrow> if time_is_zero t then Some now else Some t)
      in \<lparr>act_observedGeneration = om_generation (ar_meta r),
          act_conditions = [],
          act_phase = spec_phase spec,
          act_failureClass = spec_failureClass spec,
          act_message = TrimSpace (spec_message spec),
          act_retryCount = spec_retryCount spec,
          act_attemptCount = spec_attemptCount spec,
          act_candidateIndex = spec_candidateIndex spec,
          act_nextRetryAt = spec_nextRetryAt spec,
          act_runID = TrimSpace (spec_runID spec),
          act_createdAt = created,
          act_updatedAt = Some now\<rparr>)"

definition invalidActionStatus :: "time \<Rightarrow> string \<Rightarrow> ActionStatus" where
  "invalidActionStatus now message =
     \<lparr>act_observedGeneration = 0, act_conditions = [], act_phase = AFailed,
      act_failureClass = ClassPermanent, act_message = TrimSpace message, act_retryCount = 0,
      act_attemptCount = 0, act_candidateIndex = 0, act_nextRetryAt = None, act_runID = [],
      act_createdAt = None, act_updatedAt = Some now\<rparr>"

definition pendingBlockedStatus :: "ActionResource \<Rightarrow> time \<Rightarrow> string \<Rightarrow> ActionStatus" where
  "pendingBlockedStatus r now message = buildStatus r now
     \<lparr>spec_phase = APending, spec_runID = [], spec_message = sanitizeActionMessage message,
      spec_failureClass = ClassBlocked, spec_retryCount = act_retryCount (ar_status r),
      spec_attemptCount = act_attemptCount (ar_status r),
      spec_candidateIndex = act_candidateIndex (ar_status r), spec_nextRetryAt = None\<rparr>"

definition runningStatus ::
    "ActionResource \<Rightarrow> time \<Rightarrow> string \<Rightarrow> string \<Rightarrow> int \<Rightarrow> int \<Rightarrow> ActionStatus" where
  "runningStatus r now runID message attemptCount candidateIndex =
     (let message = (if TrimSpace message = [] then ''AgentSessionAction run is in progress.'' else message)
      in buildStatus r now
        \<lparr>spec_phase = ARunning, spec_runID = runID, spec_message = sanitizeActionMessage message,
         spec_failureClass = ClassUnset, spec_retryCount = act_retryCount (ar_status r),
         spec_attemptCount = attemptCount, spec_candidateIndex = candidateIndex,
         spec_nextRetryAt = None\<rparr>)"

definition terminalStatus ::
    "ActionResource \<Rightarrow> time \<Rightarrow> ActionResourcePhase \<Rightarrow> string \<Rightarrow> FailureClass \<Rightarrow> ActionStatus" where
  "terminalStatus r now phase message failureClass = buildStatus r now
     \<lparr>spec_phase = phase, spec_runID = act_runID (ar_status r),
      spec_message = sanitizeActionMessage message, spec_failureClass = failureClass,
      spec_retryCount = act_retryCount (ar_status r),
      spec_attemptCount = act_attemptCount (ar_status r),
      spec_candidateIndex = act_candidateIndex (ar_status r), spec_nextRetryAt = None\<rparr>"

definition canceledStatus :: "ActionResource \<Rightarrow> time \<Rightarrow> string \<Rightarrow> ActionStatus" where
  "canceledStatus r now message = terminalStatus r now ACanceled message ClassUnset"

definition action_failedStatus :: "ActionResource \<Rightarrow> time \<Rightarrow> string \<Rightarrow> ActionStatus" where
  "action_failedStatus r now message = buildStatus r now
     \<lparr>spec_phase = AFailed, spec_runID = [], spec_message = sanitizeActionMessage message,
      spec_failureClass = ClassPermanent, spec_retryCount = act_retryCount (ar_status r),
      spec_attemptCount = act_attemptCount (ar_status r),
      spec_candidateIndex = act_candidateIndex (ar_status r), spec_nextRetryAt = None\<rparr>"

definition exhaustedRetryStatus ::
    "ActionResource \<Rightarrow> time \<Rightarrow> string \<Rightarrow> FailureClass \<Rightarrow> ActionStatus" where
  "exhaustedRetryStatus r now message failureClass = buildStatus r now
     \<lparr>spec_phase = AFailed, spec_runID = [], spec_message = exhaustedRetryMessage message,
      spec_failureClass = failureClass, spec_retryCount = act_retryCount (ar_status r),
      spec_attemptCount = act_attemptCount (ar_status r),
      spec_candidateIndex = act_candidateIndex (ar_status r), spec_nextRetryAt = None\<rparr>"

definition invalidStatus :: "ActionResource option \<Rightarrow> time \<Rightarrow> ActionStatus option" where
  "invalidStatus resource now =
     (case resource of None \<Rightarrow> Some (invalidActionStatus now ''AgentSessionAction resource is required.'')
      | Some r \<Rightarrow>
        (case ar_action r of
           None \<Rightarrow> Some (action_failedStatus r now ''AgentSessionAction spec.action is required.'')
         | Some a \<Rightarrow>
             if TrimSpace (as_actionId a) = []
             then Some (action_failedStatus r now ''AgentSessionAction actionId is required.'')
             else if TrimSpace (as_sessionId a) = []
             then Some (action_failedStatus r now ''AgentSessionAction sessionId is required.'')
             else None))"

definition action_normalizedStatus :: "ActionStatus \<Rightarrow> ActionStatus" where
  "action_normalizedStatus st = st\<lparr>act_updatedAt := None\<rparr>"

definition action_statusSemanticallyEqual :: "ActionStatus \<Rightarrow> ActionStatus \<Rightarrow> bool" where
  "action_statusSemanticallyEqual previous next \<longleftrightarrow>
     action_normalizedStatus previous = action_normalizedStatus next"

definition action_isTerminalPhase :: "ActionResourcePhase \<Rightarrow> bool" where
  "action_isTerminalPhase p \<longleftrightarrow> p = ASucceeded \<or> p = AFailed \<or> p = ACanceled"

section \<open>Retry and fallback\<close>

definition pendingRetryWindow ::
    "ActionResource \<Rightarrow> time \<Rightarrow> (ActionStatus \<times> CtrlResult) option" where
  "pendingRetryWindow r now =
     (let st = ar_status r in
      if act_phase st \<noteq> APending \<or> act_failureClass st \<noteq> ClassTransient then None
      else case act_nextRetryAt st of None \<Rightarrow> None
      | Some at \<Rightarrow>
        (let until = time_sub at now in
         if until \<le> 0 then None
         else Some (buildStatus r now
           \<lparr>spec_phase = APending, spec_runID = [], spec_message = act_message st,
            spec_failureClass = ClassTransient, spec_retryCount = act_retryCount st,
            spec_attemptCount = act_attemptCount st, spec_candidateIndex = act_candidateIndex st,
            spec_nextRetryAt = act_nextRetryAt st\<rparr>, requeue_after until)))"

definition scheduleRetryStatus ::
    "ActionResource \<Rightarrow> time \<Rightarrow> string \<Rightarrow> FailureClass \<Rightarrow> RetryPolicy \<Rightarrow> ActionStatus \<times> CtrlResult" where
  "scheduleRetryStatus r now message exhaustedClass policy =
     (let retryCount = i32 (act_retryCount (ar_status r) + 1) in
      if retryCount > rp_maxRetries policy then
        (exhaustedRetryStatus (r\<lparr>ar_status := (ar_status r)\<lparr>act_retryCount := rp_maxRetries policy\<rparr>\<rparr>)
           now message exhaustedClass, no_requeue)
      else
        (let delay = retryDelay retryCount policy in
         (buildStatus r now
            \<lparr>spec_phase = APending, spec_runID = [], spec_message = automaticRetryMessage message,
             spec_failureClass = ClassTransient, spec_retryCount = retryCount,
             spec_attemptCount = act_attemptCount (ar_status r),
             spec_candidateIndex = act_candidateIndex (ar_status r),
             spec_nextRetryAt = Some (now + delay)\<rparr>, requeue_after delay)))"

definition scheduleFallbackStatus :: "ActionResource \<Rightarrow> time \<Rightarrow> string \<Rightarrow> int \<Rightarrow> ActionStatus" where
  "scheduleFallbackStatus r now message nextCandidateIndex = buildStatus r now
     \<lparr>spec_phase = APending, spec_runID = [], spec_message = automaticFallbackMessage message,
      spec_failureClass = ClassTransient, spec_retryCount = 0,
      spec_attemptCount = act_attemptCount (ar_status r),
      spec_candidateIndex = nextCandidateIndex, spec_nextRetryAt = None\<rparr>"

definition retryBudgetAvailable :: "ActionResource \<Rightarrow> RetryPolicy \<Rightarrow> bool" where
  "retryBudgetAvailable r policy \<longleftrightarrow> act_retryCount (ar_status r) < rp_maxRetries policy"

section \<open>Field equations\<close>

text \<open>Every builder goes through \<open>buildStatus\<close>; its fields are read off the specification.\<close>

lemmas builder_defs = pendingBlockedStatus_def runningStatus_def terminalStatus_def canceledStatus_def
  action_failedStatus_def exhaustedRetryStatus_def scheduleFallbackStatus_def

lemma buildStatus_fields [simp, status_simps]:
  "act_observedGeneration (buildStatus r now s) = om_generation (ar_meta r)"
  "act_phase (buildStatus r now s) = spec_phase s"
  "act_failureClass (buildStatus r now s) = spec_failureClass s"
  "act_message (buildStatus r now s) = TrimSpace (spec_message s)"
  "act_retryCount (buildStatus r now s) = spec_retryCount s"
  "act_attemptCount (buildStatus r now s) = spec_attemptCount s"
  "act_candidateIndex (buildStatus r now s) = spec_candidateIndex s"
  "act_nextRetryAt (buildStatus r now s) = spec_nextRetryAt s"
  "act_runID (buildStatus r now s) = TrimSpace (spec_runID s)"
  "act_updatedAt (buildStatus r now s) = Some now"
  by (simp_all add: buildStatus_def Let_def)

lemma pendingBlocked_fields [simp, status_simps]:
  "act_phase (pendingBlockedStatus r now m) = APending"
  "act_failureClass (pendingBlockedStatus r now m) = ClassBlocked"
  "act_retryCount (pendingBlockedStatus r now m) = act_retryCount (ar_status r)"
  "act_attemptCount (pendingBlockedStatus r now m) = act_attemptCount (ar_status r)"
  "act_candidateIndex (pendingBlockedStatus r now m) = act_candidateIndex (ar_status r)"
  "act_nextRetryAt (pendingBlockedStatus r now m) = None"
  "act_runID (pendingBlockedStatus r now m) = []"
  by (simp_all add: pendingBlockedStatus_def)

lemma running_fields [simp, status_simps]:
  "act_phase (runningStatus r now i m ac ci) = ARunning"
  "act_failureClass (runningStatus r now i m ac ci) = ClassUnset"
  "act_retryCount (runningStatus r now i m ac ci) = act_retryCount (ar_status r)"
  "act_attemptCount (runningStatus r now i m ac ci) = ac"
  "act_candidateIndex (runningStatus r now i m ac ci) = ci"
  "act_nextRetryAt (runningStatus r now i m ac ci) = None"
  "act_runID (runningStatus r now i m ac ci) = TrimSpace i"
  by (simp_all add: runningStatus_def Let_def)

lemma terminal_fields [simp, status_simps]:
  "act_phase (terminalStatus r now p m c) = p"
  "act_failureClass (terminalStatus r now p m c) = c"
  "act_retryCount (terminalStatus r now p m c) = act_retryCount (ar_status r)"
  "act_attemptCount (terminalStatus r now p m c) = act_attemptCount (ar_status r)"
  "act_candidateIndex (terminalStatus r now p m c) = act_candidateIndex (ar_status r)"
  "act_nextRetryAt (terminalStatus r now p m c) = None"
  "act_runID (terminalStatus r now p m c) = TrimSpace (act_runID (ar_status r))"
  by (simp_all add: terminalStatus_def)

lemma failed_fields [simp, status_simps]:
  "act_phase (action_failedStatus r now m) = AFailed"
  "act_failureClass (action_failedStatus r now m) = ClassPermanent"
  "act_retryCount (action_failedStatus r now m) = act_retryCount (ar_status r)"
  "act_attemptCount (action_failedStatus r now m) = act_attemptCount (ar_status r)"
  "act_candidateIndex (action_failedStatus r now m) = act_candidateIndex (ar_status r)"
  "act_nextRetryAt (action_failedStatus r now m) = None"
  "act_runID (action_failedStatus r now m) = []"
  by (simp_all add: action_failedStatus_def)

lemma exhausted_fields [simp, status_simps]:
  "act_phase (exhaustedRetryStatus r now m c) = AFailed"
  "act_failureClass (exhaustedRetryStatus r now m c) = c"
  "act_retryCount (exhaustedRetryStatus r now m c) = act_retryCount (ar_status r)"
  "act_attemptCount (exhaustedRetryStatus r now m c) = act_attemptCount (ar_status r)"
  "act_candidateIndex (exhaustedRetryStatus r now m c) = act_candidateIndex (ar_status r)"
  "act_nextRetryAt (exhaustedRetryStatus r now m c) = None"
  "act_runID (exhaustedRetryStatus r now m c) = []"
  by (simp_all add: exhaustedRetryStatus_def)

lemma fallback_fields [simp, status_simps]:
  "act_phase (scheduleFallbackStatus r now m i) = APending"
  "act_failureClass (scheduleFallbackStatus r now m i) = ClassTransient"
  "act_retryCount (scheduleFallbackStatus r now m i) = 0"
  "act_attemptCount (scheduleFallbackStatus r now m i) = act_attemptCount (ar_status r)"
  "act_candidateIndex (scheduleFallbackStatus r now m i) = i"
  "act_nextRetryAt (scheduleFallbackStatus r now m i) = None"
  "act_runID (scheduleFallbackStatus r now m i) = []"
  by (simp_all add: scheduleFallbackStatus_def)

section \<open>Well-formed statuses\<close>

text \<open>
  What every status built for a resource satisfies: it observes the resource's generation, its
  message and run id are trimmed, it has a creation time and an update time, it has a run id only
  if the action is running or over, and a pending transient status alone has a retry time.
\<close>

definition wf_status :: "int \<Rightarrow> ActionStatus \<Rightarrow> bool" where
  "wf_status g st \<longleftrightarrow>
     act_observedGeneration st = g \<and>
     TrimSpace (act_message st) = act_message st \<and>
     TrimSpace (act_runID st) = act_runID st \<and>
     (\<exists>t. act_createdAt st = Some t \<and> t \<noteq> 0) \<and>
     act_updatedAt st \<noteq> None \<and>
     (act_runID st \<noteq> [] \<longrightarrow> act_phase st = ARunning \<or> action_isTerminalPhase (act_phase st)) \<and>
     (act_nextRetryAt st \<noteq> None \<longrightarrow> act_phase st = APending \<and> act_failureClass st = ClassTransient)"

lemma buildStatus_created: "now \<noteq> 0 \<Longrightarrow> \<exists>t. act_createdAt (buildStatus r now s) = Some t \<and> t \<noteq> 0"
  by (auto simp: buildStatus_def Let_def time_is_zero_def split: option.splits)

lemma buildStatus_wf [wf_intros]:
  assumes "now \<noteq> 0"
    and "TrimSpace (spec_runID s) \<noteq> [] \<Longrightarrow>
      spec_phase s = ARunning \<or> action_isTerminalPhase (spec_phase s)"
    and "spec_nextRetryAt s \<noteq> None \<Longrightarrow> spec_phase s = APending \<and> spec_failureClass s = ClassTransient"
  shows "wf_status (om_generation (ar_meta r)) (buildStatus r now s)"
  using assms buildStatus_created [of now r s] by (simp add: wf_status_def)

lemma pendingBlocked_wf [wf_intros]:
  "now \<noteq> 0 \<Longrightarrow> wf_status (om_generation (ar_meta r)) (pendingBlockedStatus r now m)"
  unfolding pendingBlockedStatus_def by (rule buildStatus_wf) simp_all

lemma running_wf [wf_intros]:
  "now \<noteq> 0 \<Longrightarrow> wf_status (om_generation (ar_meta r)) (runningStatus r now i m ac ci)"
  unfolding runningStatus_def Let_def by (rule buildStatus_wf) simp_all

lemma terminal_wf [wf_intros]:
  "now \<noteq> 0 \<Longrightarrow> action_isTerminalPhase p \<Longrightarrow>
     wf_status (om_generation (ar_meta r)) (terminalStatus r now p m c)"
  unfolding terminalStatus_def by (rule buildStatus_wf) simp_all

lemma canceled_wf [wf_intros]:
  "now \<noteq> 0 \<Longrightarrow> wf_status (om_generation (ar_meta r)) (canceledStatus r now m)"
  unfolding canceledStatus_def by (rule terminal_wf) (simp_all add: action_isTerminalPhase_def)

lemma failed_wf [wf_intros]:
  "now \<noteq> 0 \<Longrightarrow> wf_status (om_generation (ar_meta r)) (action_failedStatus r now m)"
  unfolding action_failedStatus_def by (rule buildStatus_wf) simp_all

lemma exhausted_wf [wf_intros]:
  "now \<noteq> 0 \<Longrightarrow> wf_status (om_generation (ar_meta r)) (exhaustedRetryStatus r now m c)"
  unfolding exhaustedRetryStatus_def by (rule buildStatus_wf) simp_all

lemma fallback_wf [wf_intros]:
  "now \<noteq> 0 \<Longrightarrow> wf_status (om_generation (ar_meta r)) (scheduleFallbackStatus r now m i)"
  unfolding scheduleFallbackStatus_def by (rule buildStatus_wf) simp_all

lemma scheduleRetry_wf [wf_intros]:
  "now \<noteq> 0 \<Longrightarrow> wf_status (om_generation (ar_meta r)) (fst (scheduleRetryStatus r now m c p))"
  using exhausted_wf [of now "r\<lparr>ar_status := (ar_status r)\<lparr>act_retryCount := rp_maxRetries p\<rparr>\<rparr>" m c]
  by (auto simp: scheduleRetryStatus_def Let_def intro!: buildStatus_wf)

lemma pendingRetryWindow_wf [wf_intros]:
  "now \<noteq> 0 \<Longrightarrow> pendingRetryWindow r now = Some (st, res) \<Longrightarrow> wf_status (om_generation (ar_meta r)) st"
  by (auto simp: pendingRetryWindow_def Let_def split: if_splits option.splits intro!: buildStatus_wf)

section \<open>The retry delay\<close>

text \<open>A policy whose doubling cannot wrap around: the maximum is below \<open>2 ^ 62\<close> nanoseconds.\<close>

lemma retryDelay_loop_eq:
  "0 < d \<Longrightarrow> d \<le> rp_maxBackoff p \<Longrightarrow> rp_maxBackoff p < 2 ^ 62 \<Longrightarrow>
     retryDelay_loop n d p = min (rp_maxBackoff p) (d * 2 ^ n)"
proof (induction n arbitrary: d)
  case (Suc n)
  have w: "i64 (d * 2) = d * 2" using Suc.prems by (simp add: in_i64_def)
  show ?case
  proof (cases "d * 2 \<ge> rp_maxBackoff p")
    case True
    have "d * 2 * 1 \<le> d * 2 * 2 ^ n"
      by (rule mult_left_mono) (use Suc.prems in simp_all)
    with True w show ?thesis by (simp add: mult.assoc)
  next
    case False
    then have "retryDelay_loop n (d * 2) p = min (rp_maxBackoff p) (d * 2 * 2 ^ n)"
      using Suc.prems by (intro Suc.IH) simp_all
    with False w show ?thesis by (simp add: mult.assoc)
  qed
qed simp

section \<open>Properties\<close>

text \<open>
  Retries back off exponentially and saturate: under a policy whose maximum is below \<open>2 ^ 62\<close>
  nanoseconds, the delay before the \<open>k\<close>-th retry is the base doubled \<open>k - 1\<close> times, cut at the
  maximum, for every \<open>k\<close>; no doubling of the loop wraps around.
\<close>

theorem retryDelay_exponential:
  assumes "0 < rp_baseBackoff p" and "rp_baseBackoff p \<le> rp_maxBackoff p" and "rp_maxBackoff p < 2 ^ 62"
    and "0 < k"
  shows "retryDelay k p = min (rp_maxBackoff p) (rp_baseBackoff p * 2 ^ nat (k - 1))"
  using assms by (simp add: retryDelay_def retryDelay_loop_eq)

theorem retryDelay_exponential_witness:
  "retryDelay 4 DefaultRetryPolicy = 16 * second \<and> retryDelay 6 DefaultRetryPolicy = minute"
  using retryDelay_exponential [of DefaultRetryPolicy 4] retryDelay_exponential [of DefaultRetryPolicy 6]
  by (simp add: DefaultRetryPolicy_def second_def minute_def)

text \<open>
  The policy the reconciler runs with is sound whatever it was configured with: the number of
  retries is not negative, the base delay is positive and at most the maximum; a policy that is
  sound already is not changed.
\<close>

theorem normalizeRetryPolicy_sound:
  assumes "in_i32 (rp_maxRetries p)" and "in_i64 (rp_baseBackoff p)" and "in_i64 (rp_maxBackoff p)"
  shows "policy_ok (normalizeRetryPolicy p) \<and> (policy_ok p \<longrightarrow> normalizeRetryPolicy p = p)"
  using assms
  by (auto simp: normalizeRetryPolicy_def policy_ok_def in_i32_def in_i64_def Let_def
      DefaultRetryPolicy_def second_def minute_def)

theorem normalizeRetryPolicy_sound_witness:
  "policy_ok (normalizeRetryPolicy \<lparr>rp_maxRetries = -1, rp_baseBackoff = 90 * second, rp_maxBackoff = 0\<rparr>)"
  using normalizeRetryPolicy_sound [of "\<lparr>rp_maxRetries = -1, rp_baseBackoff = 90 * second, rp_maxBackoff = 0\<rparr>"]
  by (simp add: in_i32_def in_i64_def second_def)

end
