(* ===== verification/Action_Views.thy ===== *)
theory Action_Views
  imports Action_Status
begin

text \<open>
  What \<open>agentsessionactions\<close> reads off an action: its place in the serial queue of its session
  (\<open>queue.go\<close>), the state and view handed to clients (\<open>state.go\<close>, \<open>view.go\<close>), and the timeline
  events of a status change (\<open>timeline.go\<close>).
\<close>

section \<open>The queue\<close>

text \<open>
  \<open>sort.Slice\<close> orders by creation time, then by name. It is not stable, but the actions of one list
  have different names (the name is the primary key of the table), so the sorted list is unique.
\<close>

definition queue_key :: "ActionResource \<Rightarrow> time \<times> string" where
  "queue_key r = (actionCreatedAt r, ar_name r)"

definition sort_actions :: "ActionResource list \<Rightarrow> ActionResource list" where
  "sort_actions items = sort_key queue_key items"

definition isActiveAction :: "ActionResource \<Rightarrow> bool" where
  "isActiveAction r =
     (if action_isTerminalPhase (act_phase (ar_status r)) then False
      else if TrimSpace (act_runID (ar_status r)) \<noteq> [] then True
      else act_phase (ar_status r) = ARunning)"

fun firstActiveAction :: "ActionResource list \<Rightarrow> string" where
  "firstActiveAction [] = []"
| "firstActiveAction (r # rs) = (if isActiveAction r then TrimSpace (ar_name r) else firstActiveAction rs)"

fun firstNonterminal :: "ActionResource list \<Rightarrow> string" where
  "firstNonterminal [] = []"
| "firstNonterminal (r # rs) =
     (if action_isTerminalPhase (act_phase (ar_status r)) then firstNonterminal rs
      else TrimSpace (ar_name r))"

definition queueOwnerID :: "ActionResource list \<Rightarrow> string" where
  "queueOwnerID items =
     (let active = firstActiveAction items in if active \<noteq> [] then active else firstNonterminal items)"

section \<open>State and view\<close>

datatype DisplayPhase = DispUnspecified | DispQueued | DispRetrying | DispFallbacking | DispRunning
  | DispStopping | DispStopped | DispSucceeded | DispFailed

record ActionView =
  view_displayPhase :: DisplayPhase
  view_canStop :: bool
  view_canRetry :: bool

definition actionDisplayPhase :: "ActionResource option \<Rightarrow> DisplayPhase" where
  "actionDisplayPhase resource =
     (case resource of None \<Rightarrow> DispUnspecified | Some r \<Rightarrow>
      (case ar_action r of None \<Rightarrow> DispUnspecified | Some a \<Rightarrow>
       if as_stopRequested a \<and> \<not> action_isTerminalPhase (act_phase (ar_status r)) then DispStopping
       else (case act_phase (ar_status r) of
         APending \<Rightarrow>
           (if act_failureClass (ar_status r) = ClassTransient \<and> act_nextRetryAt (ar_status r) \<noteq> None
            then DispRetrying
            else if act_attemptCount (ar_status r) > 0 \<and> act_candidateIndex (ar_status r) > 0
            then DispFallbacking else DispQueued)
       | ARunning \<Rightarrow> DispRunning
       | ASucceeded \<Rightarrow> DispSucceeded
       | AFailed \<Rightarrow> DispFailed
       | ACanceled \<Rightarrow> DispStopped
       | _ \<Rightarrow> DispQueued)))"

definition canStopAction :: "ActionResource option \<Rightarrow> bool" where
  "canStopAction resource =
     (case resource of None \<Rightarrow> False | Some r \<Rightarrow>
      (case ar_action r of None \<Rightarrow> False | Some a \<Rightarrow>
       \<not> as_stopRequested a \<and> \<not> action_isTerminalPhase (act_phase (ar_status r))))"

definition canRetryAction :: "ActionResource option \<Rightarrow> bool" where
  "canRetryAction resource =
     (case resource of None \<Rightarrow> False | Some r \<Rightarrow>
      (case ar_action r of None \<Rightarrow> False | Some a \<Rightarrow>
       if as_type a \<noteq> TypeRunTurn then False
       else (case act_phase (ar_status r) of AFailed \<Rightarrow> True | ACanceled \<Rightarrow> True | _ \<Rightarrow> False)))"

definition actionViewFromResource :: "ActionResource option \<Rightarrow> ActionView" where
  "actionViewFromResource resource =
     \<lparr>view_displayPhase = actionDisplayPhase resource, view_canStop = canStopAction resource,
      view_canRetry = canRetryAction resource\<rparr>"

datatype ProtoFailureClass = PClassUnspecified | PClassBlocked | PClassTransient | PClassPermanent
  | PClassManualRetry

definition toProtoActionPhase :: "ActionResourcePhase \<Rightarrow> AgentSessionActionPhase" where
  "toProtoActionPhase p = (case p of APending \<Rightarrow> ActionPhasePending | ARunning \<Rightarrow> ActionPhaseRunning
     | ASucceeded \<Rightarrow> ActionPhaseSucceeded | AFailed \<Rightarrow> ActionPhaseFailed | ACanceled \<Rightarrow> ActionPhaseCanceled
     | _ \<Rightarrow> ActionPhaseUnspecified)"

definition toProtoActionFailureClass :: "FailureClass \<Rightarrow> ProtoFailureClass" where
  "toProtoActionFailureClass c = (case c of ClassBlocked \<Rightarrow> PClassBlocked
     | ClassTransient \<Rightarrow> PClassTransient | ClassPermanent \<Rightarrow> PClassPermanent
     | ClassManualRetry \<Rightarrow> PClassManualRetry | _ \<Rightarrow> PClassUnspecified)"

definition actionRunRef :: "string \<Rightarrow> string option" where
  "actionRunRef runID = (if TrimSpace runID = [] then None else Some (TrimSpace runID))"

record ProtoActionStatus =
  pas_actionId :: string
  pas_phase :: AgentSessionActionPhase
  pas_observedGeneration :: int
  pas_message :: string
  pas_run :: "string option"
  pas_createdAt :: "time option"
  pas_updatedAt :: "time option"
  pas_failureClass :: ProtoFailureClass
  pas_retryCount :: int
  pas_nextRetryAt :: "time option"
  pas_view :: ActionView
  pas_attemptCount :: int
  pas_candidateIndex :: int

record ActionState =
  acs_generation :: int
  acs_spec :: ActionSpec
  acs_status :: ProtoActionStatus

text \<open>\<open>errors.go\<close>\<close>

definition action_validation :: "string \<Rightarrow> go_error" where
  "action_validation message = DomainValidation (''platformk8s/agentsessionactions: '' @ message)"

definition actionStateFromResource :: "ActionResource option \<Rightarrow> ActionState result" where
  "actionStateFromResource resource =
     (case resource of None \<Rightarrow> Inl (action_validation ''action resource is invalid'') | Some r \<Rightarrow>
      (case ar_action r of None \<Rightarrow> Inl (action_validation ''action resource is invalid'') | Some a \<Rightarrow>
       (let spec = (if as_actionId a = [] then a\<lparr>as_actionId := ar_name r\<rparr> else a); st = ar_status r in
        Inr \<lparr>acs_generation = om_generation (ar_meta r), acs_spec = spec,
          acs_status =
            \<lparr>pas_actionId = as_actionId spec, pas_phase = toProtoActionPhase (act_phase st),
             pas_observedGeneration = act_observedGeneration st, pas_message = act_message st,
             pas_run = actionRunRef (act_runID st), pas_createdAt = protostate_Timestamp (createdAt r),
             pas_updatedAt = protostate_Timestamp (act_updatedAt st),
             pas_failureClass = toProtoActionFailureClass (act_failureClass st),
             pas_retryCount = act_retryCount st,
             pas_nextRetryAt = protostate_Timestamp (act_nextRetryAt st),
             pas_view = actionViewFromResource resource,
             pas_attemptCount = act_attemptCount st, pas_candidateIndex = act_candidateIndex st\<rparr>\<rparr>)))"

section \<open>Timeline events\<close>

text \<open>
  A Go map of attributes is the list of its entries, in the order the code adds them; the keys
  are distinct. \<open>cloneAttributes\<close> copies the map.
\<close>

definition cloneAttributes :: "attributes \<Rightarrow> attributes" where
  "cloneAttributes a = a"

definition present_time :: "time option \<Rightarrow> bool" where
  "present_time t = (case t of None \<Rightarrow> False | Some v \<Rightarrow> \<not> time_is_zero v)"

definition fallbackScheduled :: "ActionStatus option \<Rightarrow> ActionStatus \<Rightarrow> bool" where
  "fallbackScheduled previous next =
     (if act_phase next \<noteq> APending \<or> act_candidateIndex next \<le> 0 then False
      else case previous of None \<Rightarrow> True
      | Some p \<Rightarrow> act_candidateIndex next > act_candidateIndex p)"

definition retryScheduled :: "ActionStatus option \<Rightarrow> ActionStatus \<Rightarrow> bool" where
  "retryScheduled previous next =
     (if act_failureClass next \<noteq> ClassTransient \<or> \<not> present_time (act_nextRetryAt next) then False
      else case previous of None \<Rightarrow> True
      | Some p \<Rightarrow>
        if act_retryCount p \<noteq> act_retryCount next then True
        else if \<not> present_time (act_nextRetryAt p) then True
        else act_nextRetryAt p \<noteq> act_nextRetryAt next)"

definition action_attributes :: "ActionSpec \<Rightarrow> ActionStatus \<Rightarrow> attributes" where
  "action_attributes a next =
     [(''action_id'', as_actionId a), (''type'', TrimSpace (action_type_name (as_type a))),
      (''phase'', action_phase_string (act_phase next))]
     @ (let c = TrimSpace (failure_class_string (act_failureClass next)) in
        if c \<noteq> [] then [(''failure_class'', c)] else [])
     @ (if act_retryCount next > 0 then [(''retry_count'', show_int (act_retryCount next))] else [])
     @ (if act_attemptCount next > 0 then [(''attempt_count'', show_int (act_attemptCount next))] else [])
     @ (if act_candidateIndex next > 0 then [(''candidate_index'', show_int (act_candidateIndex next))] else [])
     @ (if TrimSpace (act_runID next) \<noteq> [] then [(''run_id'', TrimSpace (act_runID next))] else [])
     @ (case act_nextRetryAt next of None \<Rightarrow> []
        | Some t \<Rightarrow> if time_is_zero t then [] else [(''next_retry_at'', format_rfc3339 t)])"

text \<open>
  \<open>next.UpdatedAt.UTC()\<close> dereferences the pointer: every status the reconciler derives has one. The
  event of a status without one (a panic of the code) is given the zero time.
\<close>

definition action_event ::
    "ActionSpec \<Rightarrow> ActionStatus \<Rightarrow> string \<Rightarrow> string \<Rightarrow> TimelineEvent" where
  "action_event a next eventType action =
     \<lparr>te_scopeRef = \<lparr>tsr_scope = TimelineScopeSession, tsr_sessionID = as_sessionId a, tsr_turnID = []\<rparr>,
      te_eventType = eventType, te_subject = ''action'', te_action = action,
      te_occurredAt = (case act_updatedAt next of None \<Rightarrow> 0 | Some t \<Rightarrow> t),
      te_attributes = cloneAttributes (action_attributes a next)\<rparr>"

definition actionTimelineTransitions ::
    "ActionResource \<Rightarrow> ActionStatus option \<Rightarrow> ActionStatus option \<Rightarrow> TimelineEvent list" where
  "actionTimelineTransitions r previous next =
     (case ar_action r of None \<Rightarrow> [] | Some a \<Rightarrow>
      (case next of None \<Rightarrow> [] | Some n \<Rightarrow>
       (if retryScheduled previous n then [action_event a n ''RETRY_SCHEDULED'' ''retry''] else [])
       @ (if fallbackScheduled previous n then [action_event a n ''FALLBACK_SCHEDULED'' ''fallback''] else [])
       @ (if act_phase n = ARunning \<and> (case previous of None \<Rightarrow> True | Some p \<Rightarrow> act_phase p \<noteq> ARunning)
          then [action_event a n ''STARTED'' ''dispatch''] else [])
       @ (if action_isTerminalPhase (act_phase n)
             \<and> (case previous of None \<Rightarrow> True | Some p \<Rightarrow> \<not> action_isTerminalPhase (act_phase p))
          then [action_event a n ''FINISHED''
                 (if TrimSpace (act_runID n) \<noteq> [] then ''observe_run'' else ''complete'')] else [])))"

section \<open>The queue serialises the actions of a session\<close>

lemma sort_actions_sorted [simp]: "sorted (map queue_key (sort_actions items))"
  by (simp add: sort_actions_def)

lemma set_sort_actions [simp]: "set (sort_actions items) = set items"
  by (simp add: sort_actions_def)

lemma firstActiveAction_some:
  "firstActiveAction rs \<noteq> [] \<Longrightarrow>
     \<exists>r \<in> set rs. isActiveAction r \<and> firstActiveAction rs = TrimSpace (ar_name r)"
  by (induction rs) (auto split: if_splits)

lemma firstActiveAction_none:
  "firstActiveAction rs = [] \<Longrightarrow> r \<in> set rs \<Longrightarrow> TrimSpace (ar_name r) \<noteq> [] \<Longrightarrow> \<not> (isActiveAction r \<and>
     (\<forall>x \<in> set rs. TrimSpace (ar_name x) \<noteq> []))"
  by (induction rs) (auto split: if_splits)

lemma firstNonterminal_iff:
  "\<forall>x \<in> set rs. TrimSpace (ar_name x) \<noteq> [] \<Longrightarrow>
     firstNonterminal rs = [] \<longleftrightarrow> (\<forall>x \<in> set rs. action_isTerminalPhase (act_phase (ar_status x)))"
  by (induction rs) auto

lemma firstNonterminal_least:
  "sorted (map queue_key rs) \<Longrightarrow> r \<in> set rs \<Longrightarrow> \<not> action_isTerminalPhase (act_phase (ar_status r)) \<Longrightarrow>
     \<exists>o' \<in> set rs. firstNonterminal rs = TrimSpace (ar_name o') \<and> queue_key o' \<le> queue_key r
        \<and> \<not> action_isTerminalPhase (act_phase (ar_status o'))"
  by (induction rs) (auto simp del: of_nat_less_iff)

lemma isActive_nonterminal: "isActiveAction r \<Longrightarrow> \<not> action_isTerminalPhase (act_phase (ar_status r))"
  by (simp add: isActiveAction_def split: if_splits)

end
