(* ===== verification/Resource_Ops.thy ===== *)
theory Resource_Ops
  imports Runtime_Types
begin

text \<open>
  \<open>internal/platform/resourceops\<close> and \<open>internal/platform/resourcemeta\<close>: how the services write
  Kubernetes objects and name resources.

  The Kubernetes client is not part of the repository. It is a record of the calls the code makes,
  over an abstract world \<open>'w\<close>, for objects \<open>'o\<close>; \<open>kube_Create\<close>, \<open>kube_Update\<close> and
  \<open>kube_StatusUpdate\<close> return the object as the server sends it back. \<open>kube_retry\<close> is
  \<open>retry.RetryOnConflict(retry.DefaultRetry, _)\<close>; what its documentation promises is \<open>retry_law\<close>:
  the function is run again as long as it fails with a conflict, and the last result is returned.
\<close>

record ('o, 'w) kube =
  kube_Get :: "string \<Rightarrow> string \<Rightarrow> 'w \<Rightarrow> 'o result \<times> 'w"
  kube_Create :: "'o \<Rightarrow> 'w \<Rightarrow> 'o result \<times> 'w"
  kube_Update :: "'o \<Rightarrow> 'w \<Rightarrow> 'o result \<times> 'w"
  kube_StatusUpdate :: "'o \<Rightarrow> 'w \<Rightarrow> 'o result \<times> 'w"
  kube_retry :: "('w \<Rightarrow> 'o result \<times> 'w) \<Rightarrow> 'w \<Rightarrow> 'o result \<times> 'w"

definition is_conflict_result :: "'a result \<Rightarrow> bool" where
  "is_conflict_result x = (case x of Inl e \<Rightarrow> is_api_conflict e | Inr _ \<Rightarrow> False)"

definition retry_law :: "('o, 'w) kube \<Rightarrow> bool" where
  "retry_law k \<longleftrightarrow> (\<forall>f w. \<exists>n.
     (\<forall>i < n. is_conflict_result (fst (f (((snd \<circ> f) ^^ i) w)))) \<and>
     kube_retry k f w = f (((snd \<circ> f) ^^ n) w))"

definition wrap :: "string \<Rightarrow> 'a result \<times> 'w \<Rightarrow> 'a result \<times> 'w" where
  "wrap prefix rw = (case rw of (Inl e, w) \<Rightarrow> (Inl (Wrapped prefix e), w) | (Inr x, w) \<Rightarrow> (Inr x, w))"

section \<open>Writes\<close>

text \<open>The body that is retried: read the latest object, change it, write it.\<close>

definition get_mutate_write ::
    "('o, 'w) kube \<Rightarrow> ('o \<Rightarrow> 'w \<Rightarrow> 'o result \<times> 'w) \<Rightarrow> string \<Rightarrow> string \<Rightarrow> ('o \<Rightarrow> 'o result) \<Rightarrow> 'w
      \<Rightarrow> 'o result \<times> 'w" where
  "get_mutate_write k write ns name mutate w =
     (case kube_Get k ns name w of
        (Inl e, w) \<Rightarrow> (Inl e, w)
      | (Inr current, w) \<Rightarrow>
        (case mutate current of
           Inl e \<Rightarrow> (Inl e, w)
         | Inr current \<Rightarrow>
           (case write current w of (Inl e, w) \<Rightarrow> (Inl e, w) | (Inr _, w) \<Rightarrow> (Inr current, w))))"

definition object_key :: "string \<Rightarrow> string \<Rightarrow> string" where
  "object_key ns name = ns @ ''/'' @ name"

definition UpdateResource ::
    "('o, 'w) kube \<Rightarrow> string \<Rightarrow> string \<Rightarrow> ('o \<Rightarrow> 'o result) \<Rightarrow> 'w \<Rightarrow> 'o result \<times> 'w" where
  "UpdateResource k ns name mutate w =
     wrap (''platformk8s: update '' @ go_quote (object_key ns name) @ '': '')
       (kube_retry k (get_mutate_write k (kube_Update k) ns name mutate) w)"

definition UpdateStatus ::
    "('o, 'w) kube \<Rightarrow> string \<Rightarrow> string \<Rightarrow> ('o \<Rightarrow> 'o result) \<Rightarrow> 'w \<Rightarrow> 'o result \<times> 'w" where
  "UpdateStatus k ns name mutate w =
     wrap (''platformk8s: update status '' @ go_quote (object_key ns name) @ '': '')
       (kube_retry k (get_mutate_write k (kube_StatusUpdate k) ns name mutate) w)"

text \<open>\<open>kind\<close> is what \<open>%T\<close> prints.\<close>

definition CreateResource ::
    "('o, 'w) kube \<Rightarrow> string \<Rightarrow> 'o \<Rightarrow> string \<Rightarrow> string \<Rightarrow> 'w \<Rightarrow> 'o result \<times> 'w" where
  "CreateResource k kind obj ns name w =
     wrap (''platformk8s: create '' @ kind @ '' '' @ go_quote name @ '' in namespace '' @ go_quote ns @ '': '')
       (kube_Create k obj w)"

definition mergeStringMap :: "(string \<times> string) list \<Rightarrow> (string \<times> string) list \<Rightarrow> (string \<times> string) list" where
  "mergeStringMap base override = filter (\<lambda>kv. fst kv \<notin> fst ` set override) base @ override"

text \<open>
  \<open>preserve current next\<close> is \<open>preserveUnownedObjectMeta\<close> followed by taking over the resource
  version; the objects of each kind provide it.
\<close>

definition upsert_body ::
    "('o, 'w) kube \<Rightarrow> ('o \<Rightarrow> 'o \<Rightarrow> 'o) \<Rightarrow> string \<Rightarrow> 'o \<Rightarrow> string \<Rightarrow> string \<Rightarrow> 'w \<Rightarrow> 'o result \<times> 'w" where
  "upsert_body k preserve kind next ns name w =
     (case kube_Get k ns name w of
        (Inl e, w) \<Rightarrow>
          (if is_api_not_found e then CreateResource k kind next ns name w
           else (Inl (Wrapped (''platformk8s: get '' @ kind @ '' '' @ go_quote name @ '': '') e), w))
      | (Inr current, w) \<Rightarrow>
          (case kube_Update k (preserve current next) w of
             (Inl e, w) \<Rightarrow> (Inl e, w) | (Inr _, w) \<Rightarrow> (Inr (preserve current next), w)))"

definition UpsertResource ::
    "('o, 'w) kube \<Rightarrow> ('o \<Rightarrow> 'o \<Rightarrow> 'o) \<Rightarrow> string \<Rightarrow> 'o \<Rightarrow> string \<Rightarrow> string \<Rightarrow> 'w \<Rightarrow> 'o result \<times> 'w" where
  "UpsertResource k preserve kind next ns name w =
     wrap (''platformk8s: upsert '' @ kind @ '' '' @ go_quote name @ '': '')
       (kube_retry k (upsert_body k preserve kind next ns name) w)"

section \<open>Resource ids\<close>

text \<open>
  \<open>slugifyResourceID\<close>: after lowering, underscores and spaces become dashes, every other character
  outside \<open>[a-z0-9-]\<close> a dash (runs of them one dash), and the fields between dashes are joined
  by single dashes. Since \<open>FieldsFunc\<close> drops empty fields, only the fields matter: maximal
  runs of \<open>[a-z0-9]\<close>. The random suffix of \<open>EnsureResourceID\<close> is an argument: three bytes, or the
  error of the random source.
\<close>

definition is_slug_char :: "char \<Rightarrow> bool" where
  "is_slug_char c \<longleftrightarrow> ((97::nat) \<le> of_char c \<and> of_char c \<le> (122::nat))
     \<or> ((48::nat) \<le> of_char c \<and> of_char c \<le> (57::nat))"

fun dash_fields :: "string \<Rightarrow> string \<Rightarrow> string list" where
  "dash_fields acc [] = (if acc = [] then [] else [rev acc])"
| "dash_fields acc (c # cs) =
     (if is_slug_char c then dash_fields (c # acc) cs
      else if acc = [] then dash_fields [] cs else rev acc # dash_fields [] cs)"

fun join_dash :: "string list \<Rightarrow> string" where
  "join_dash [] = []"
| "join_dash [x] = x"
| "join_dash (x # xs) = x @ ''-'' @ join_dash xs"

definition slugifyResourceID :: "string \<Rightarrow> string" where
  "slugifyResourceID v = join_dash (dash_fields [] (ToLower (TrimSpace v)))"

definition hex_byte :: "nat \<Rightarrow> string" where
  "hex_byte b = [hex_digit (b div 16), hex_digit (b mod 16)]"

definition EncodeToString :: "nat list \<Rightarrow> string" where
  "EncodeToString bs = concat (map hex_byte bs)"

definition EnsureResourceID :: "nat list result \<Rightarrow> string \<Rightarrow> string \<Rightarrow> string \<Rightarrow> string result" where
  "EnsureResourceID rand resourceID displayName fallback =
     (if resourceID \<noteq> [] then Inr resourceID
      else
        (let base = slugifyResourceID displayName;
             base = (if base = [] then slugifyResourceID fallback else base);
             base = (if base = [] then ''provider'' else base)
         in case rand of
              Inl e \<Rightarrow> Inl (Wrapped ''platformk8s: generate resource id suffix: '' e)
            | Inr bs \<Rightarrow> Inr (base @ ''-'' @ EncodeToString bs)))"

section \<open>Generated ids are proper names\<close>

lemma dash_fields_slug:
  "list_all is_slug_char acc \<Longrightarrow> list_all (\<lambda>f. f \<noteq> [] \<and> list_all is_slug_char f) (dash_fields acc s)"
  by (induction acc s rule: dash_fields.induct) simp_all

lemma join_dash_hd: "list_all (\<lambda>f. f \<noteq> [] \<and> list_all is_slug_char f) fs \<Longrightarrow> join_dash fs \<noteq> [] \<Longrightarrow>
    is_slug_char (hd (join_dash fs))"
  by (induction fs rule: join_dash.induct) (auto simp: list_all_iff)

lemma slug_plain: "is_slug_char c \<Longrightarrow> plain_char c"
  by (auto simp: is_slug_char_def plain_char_def)

lemma slugify_hd: "slugifyResourceID v \<noteq> [] \<Longrightarrow> plain_char (hd (slugifyResourceID v))"
  unfolding slugifyResourceID_def by (intro slug_plain join_dash_hd dash_fields_slug) simp_all

lemma hex_digit_plain: "d < 16 \<Longrightarrow> plain_char (hex_digit d)"
  by (simp add: hex_digit_def plain_char_def)

lemma encoded_last: "last (CHR ''-'' # EncodeToString bs) = CHR ''-'' \<or> plain_char (last (CHR ''-'' # EncodeToString bs))"
proof (cases bs rule: rev_cases)
  case (snoc ys y)
  then show ?thesis by (simp add: EncodeToString_def hex_byte_def hex_digit_plain)
qed (simp add: EncodeToString_def)

lemma EnsureResourceID_proper:
  assumes "EnsureResourceID rand (TrimSpace x) d f = Inr i"
  shows "TrimSpace i = i" and "i \<noteq> []"
proof -
  have "TrimSpace i = i \<and> i \<noteq> []"
  proof (cases "TrimSpace x = []")
    case False
    with assms show ?thesis by (auto simp: EnsureResourceID_def)
  next
    case True
    define base where "base = (let base = slugifyResourceID d; base = (if base = [] then slugifyResourceID f else base)
      in if base = [] then ''provider'' else base)"
    have base: "base \<noteq> []" "plain_char (hd base)"
      using slugify_hd [of d] slugify_hd [of f] by (auto simp: base_def Let_def plain_char_def)
    from True assms obtain bs where i: "i = base @ CHR ''-'' # EncodeToString bs"
      by (auto simp: EnsureResourceID_def base_def Let_def split: sum.splits)
    have "plain_char (hd i)" "plain_char (last i)"
      using base encoded_last [of bs] by (auto simp: i plain_char_def)
    with TrimSpace_plain [of i] show ?thesis by (simp add: i)
  qed
  then show "TrimSpace i = i" "i \<noteq> []" by simp_all
qed

section \<open>Laws of the writes\<close>

lemma wrap_simps [simp]:
  "wrap p (Inl e, w) = (Inl (Wrapped p e), w)" "wrap p (Inr x, w) = (Inr x, w)"
  by (simp_all add: wrap_def)

lemma retry_no_conflict:
  assumes "retry_law k" and "\<not> is_conflict_result (fst (f w))"
  shows "kube_retry k f w = f w"
proof -
  from assms(1) obtain n where n: "\<forall>i < n. is_conflict_result (fst (f (((snd \<circ> f) ^^ i) w)))"
    and eq: "kube_retry k f w = f (((snd \<circ> f) ^^ n) w)"
    unfolding retry_law_def by blast
  have "n = 0"
  proof (rule ccontr)
    assume "n \<noteq> 0"
    with n have "is_conflict_result (fst (f (((snd \<circ> f) ^^ 0) w)))" by blast
    with assms(2) show False by simp
  qed
  with eq show ?thesis by simp
qed

text \<open>An invariant of the body is an invariant of the retried body.\<close>

lemma retry_invariant:
  assumes "retry_law k" and "\<And>w. I w \<Longrightarrow> I (snd (f w))" and "I w"
  shows "I (snd (kube_retry k f w))"
proof -
  from assms(1) obtain n where eq: "kube_retry k f w = f (((snd \<circ> f) ^^ n) w)"
    unfolding retry_law_def by blast
  have "I (((snd \<circ> f) ^^ n) w)"
    by (induction n) (use assms in auto)
  with eq assms(2) show ?thesis by simp
qed

lemma api_reason_wrapped [simp]: "is_api_not_found (Wrapped p e) = is_api_not_found e"
  "is_api_already_exists (Wrapped p e) = is_api_already_exists e"
  "is_api_conflict (Wrapped p e) = is_api_conflict e"
  by (simp_all add: is_api_not_found_def is_api_already_exists_def is_api_conflict_def)

end
