(* ===== verification/Action_Snapshot.thy ===== *)
theory Action_Snapshot
  imports Action_Views Resource_Ops
begin

text \<open>
  What an action carries to its runs (\<open>agentsessionactions/snapshot.go\<close>, \<open>prepare_jobs.go\<close> and the
  candidate selection of \<open>run_turn.go\<close>): the snapshot of a turn, its prepare jobs, the runtime
  candidate of an attempt and the id of its run.

  The execution resolver (\<open>agentexecution\<close>) is a parameter: a call over the world that returns the
  image, the resources and the candidates for a session and a request.
\<close>

record CreateRequest =
  crq_ActionID :: string
  crq_TurnID :: string
  crq_RunRequest :: "RunRequest option"

record RunTurnResolution =
  rtr_ContainerImage :: string
  rtr_CPURequest :: string
  rtr_MemoryRequest :: string
  rtr_AuthRequirement :: "AgentRunAuthRequirement option"
  rtr_RuntimeCandidates :: "RuntimeCandidate option list"

type_synonym 'w resolver = "SessionResource \<Rightarrow> RunRequest \<Rightarrow> 'w \<Rightarrow> RunTurnResolution result \<times> 'w"

section \<open>Prepare jobs\<close>

definition prepareJobID :: "string \<Rightarrow> nat \<Rightarrow> string" where
  "prepareJobID jobID index =
     (if TrimSpace jobID \<noteq> [] then TrimSpace jobID else ''job-'' @ show_int02 (int index + 1))"

definition authPrepareParametersYAML :: "AgentRunAuthRequirement option \<Rightarrow> string" where
  "authPrepareParametersYAML auth =
     (case auth of None \<Rightarrow> [] | Some a \<Rightarrow>
        ''providerSurfaceBindingId: '' @ go_quote (TrimSpace (auth_providerSurfaceBindingId a)) @ [CHR 0x0A]
        @ ''runtimeUrl: '' @ go_quote (TrimSpace (auth_runtimeUrl a)) @ [CHR 0x0A]
        @ ''authMaterializationKey: '' @ go_quote (TrimSpace (auth_materializationKey a)) @ [CHR 0x0A])"

definition defaultAuthPrepareJob :: "string \<Rightarrow> AgentRunAuthRequirement option \<Rightarrow> AgentRunPrepareJob" where
  "defaultAuthPrepareJob cliID auth =
     \<lparr>job_jobId = ''auth'', job_jobType = ''auth'', job_runType = RunTypePerRun, job_changeKey = [],
      job_cleanup = True, job_parametersYaml = authPrepareParametersYAML auth, job_cliId = TrimSpace cliID\<rparr>"

definition prepareJobFromSession ::
    "AgentSessionSpec \<Rightarrow> AgentSessionPrepareJob option \<Rightarrow> nat \<Rightarrow> AgentRunPrepareJob option result" where
  "prepareJobFromSession spec item index =
     (case item of None \<Rightarrow> Inr None | Some i \<Rightarrow>
      (let jobType = TrimSpace (sjob_jobType i) in
       if jobType = [] then
         Inl (action_validation (''session prepare job '' @ show_int (int index + 1) @ '' job_type is required''))
       else Inr (Some
         \<lparr>job_jobId = prepareJobID (sjob_jobId i) index, job_jobType = jobType,
          job_runType = (if sjob_runType i = RunTypeUnspecified then RunTypePerRun else sjob_runType i),
          job_changeKey = TrimSpace (sjob_changeKey i), job_cleanup = sjob_cleanup i,
          job_parametersYaml = sjob_parametersYaml i,
          job_cliId = firstNonEmpty [sjob_cliId i, ss_providerId spec]\<rparr>)))"

definition rebindAuthPrepareJob :: "AgentRunAuthRequirement option \<Rightarrow> AgentRunPrepareJob \<Rightarrow> AgentRunPrepareJob" where
  "rebindAuthPrepareJob auth job =
     (if TrimSpace (job_jobType job) = ''auth''
      then job\<lparr>job_cleanup := True, job_parametersYaml := authPrepareParametersYAML auth\<rparr> else job)"

text \<open>The loop over the session's jobs: the ids seen so far, and whether one is an auth job.\<close>

fun prepare_jobs_loop ::
    "AgentSessionSpec \<Rightarrow> AgentRunAuthRequirement option \<Rightarrow> nat \<Rightarrow> string list \<Rightarrow> AgentSessionPrepareJob option list
      \<Rightarrow> (AgentRunPrepareJob list \<times> bool) result" where
  "prepare_jobs_loop spec auth index seen [] = Inr ([], False)"
| "prepare_jobs_loop spec auth index seen (item # items) =
     (case prepareJobFromSession spec item index of
        Inl e \<Rightarrow> Inl e
      | Inr None \<Rightarrow> prepare_jobs_loop spec auth (Suc index) seen items
      | Inr (Some job) \<Rightarrow>
        if job_jobId job \<in> set seen then
          Inl (action_validation (''session prepare job '' @ go_quote (job_jobId job) @ '' is duplicated''))
        else case prepare_jobs_loop spec auth (Suc index) (job_jobId job # seen) items of
          Inl e \<Rightarrow> Inl e
        | Inr (jobs, hasAuth) \<Rightarrow>
            Inr (rebindAuthPrepareJob auth job # jobs, TrimSpace (job_jobType job) = ''auth'' \<or> hasAuth))"

definition prepareJobsForSession ::
    "AgentSessionSpec option \<Rightarrow> AgentRunAuthRequirement option \<Rightarrow> AgentRunPrepareJob list result" where
  "prepareJobsForSession spec auth =
     (case spec of None \<Rightarrow> Inl (action_validation ''session spec is invalid'') | Some s \<Rightarrow>
      (case prepare_jobs_loop s auth 0 [] (ss_prepareJobs s) of Inl e \<Rightarrow> Inl e
       | Inr (jobs, hasAuth) \<Rightarrow>
         Inr (if auth \<noteq> None \<and> \<not> hasAuth then jobs @ [defaultAuthPrepareJob (ss_providerId s) auth] else jobs)))"

definition rebindAuthPrepareJobs ::
    "AgentRunAuthRequirement option \<Rightarrow> AgentRunPrepareJob option list \<Rightarrow> AgentRunPrepareJob option list" where
  "rebindAuthPrepareJobs auth jobs = map (map_option (rebindAuthPrepareJob auth)) jobs"

section \<open>The snapshot of a turn\<close>

definition action_cloneRunRequest :: "CreateRequest option \<Rightarrow> RunRequest result" where
  "action_cloneRunRequest request =
     (case request of None \<Rightarrow> Inl (action_validation ''run request is nil'') | Some r \<Rightarrow>
      (case crq_RunRequest r of None \<Rightarrow> Inl (action_validation ''run request is nil'') | Some q \<Rightarrow>
       if rq_input q = None then Inl (action_validation ''run request input is nil'') else Inr q))"

definition cloneRuntimeCandidates :: "RuntimeCandidate option list \<Rightarrow> RuntimeCandidate option list" where
  "cloneRuntimeCandidates candidates =
     filter (\<lambda>c. c \<noteq> None \<and> cand_resolvedProviderModel (the c) \<noteq> None) candidates"

definition defaultRuntimeEnvironment :: RuntimeEnvironment where
  "defaultRuntimeEnvironment = (''/workspace'', ''/home/agent'')"

definition buildRunTurnSnapshot ::
    "'w resolver \<Rightarrow> SessionResource \<Rightarrow> CreateRequest option \<Rightarrow> 'w \<Rightarrow> RunTurnSnapshot result \<times> 'w" where
  "buildRunTurnSnapshot resolver session request w =
     (case action_cloneRunRequest request of Inl e \<Rightarrow> (Inl e, w) | Inr runRequest \<Rightarrow>
      (case sr_session session of None \<Rightarrow> (Inl (action_validation ''session is invalid''), w) | Some spec \<Rightarrow>
       (let g = om_generation (sr_meta session); st = sr_status session in
        if g = 0 then (Inl (action_validation ''session generation is not observed yet''), w)
        else if srs_runtimeConfigGeneration st \<noteq> g \<or> srs_resourceConfigGeneration st \<noteq> g \<or> srs_stateGeneration st = 0
        then (Inl (action_validation (''session '' @ go_quote (ss_sessionId spec) @ '' generations are not ready'')), w)
        else case resolver session runRequest w of (Inl e, w) \<Rightarrow> (Inl e, w)
        | (Inr res, w) \<Rightarrow>
          (case rtr_RuntimeCandidates res of
             Some c # _ \<Rightarrow>
               (case cand_resolvedProviderModel c of
                  None \<Rightarrow> (Inl (action_validation ''resolved runtime candidates are empty''), w)
                | Some model \<Rightarrow>
                  (case prepareJobsForSession (Some spec) (rtr_AuthRequirement res) of Inl e \<Rightarrow> (Inl e, w)
                   | Inr prepareJobs \<Rightarrow> (Inr
                      \<lparr>sn_runRequest = Some (runRequest\<lparr>rq_resolvedProviderModel := Some model\<rparr>),
                       sn_sessionGeneration = g,
                       sn_runtimeConfigGeneration = srs_runtimeConfigGeneration st,
                       sn_resourceConfigGeneration = srs_resourceConfigGeneration st,
                       sn_stateGeneration = srs_stateGeneration st,
                       sn_providerId = ss_providerId spec, sn_executionClass = ss_executionClass spec,
                       sn_containerImage = rtr_ContainerImage res, sn_cpuRequest = rtr_CPURequest res,
                       sn_memoryRequest = rtr_MemoryRequest res, sn_authRequirement = rtr_AuthRequirement res,
                       sn_runtimeCandidates = cloneRuntimeCandidates (rtr_RuntimeCandidates res),
                       sn_runtimeEnvironment = Some defaultRuntimeEnvironment,
                       sn_workspaceId = TrimSpace (getf [] id (ss_workspaceRef spec)),
                       sn_homeStateId = TrimSpace (getf [] id (ss_homeStateRef spec)),
                       sn_prepareJobs = map Some prepareJobs\<rparr>, w)))
           | _ \<Rightarrow> (Inl (action_validation ''resolved runtime candidates are empty''), w)))))"

section \<open>Attempts\<close>

definition currentAttemptCount :: "ActionResource \<Rightarrow> int" where
  "currentAttemptCount r =
     (if act_attemptCount (ar_status r) > 0 then act_attemptCount (ar_status r)
      else if TrimSpace (act_runID (ar_status r)) \<noteq> [] then 1 else 0)"

definition currentCandidateIndex :: "ActionResource \<Rightarrow> RunTurnSnapshot option \<Rightarrow> int" where
  "currentCandidateIndex r snapshot =
     (case snapshot of None \<Rightarrow> 0 | Some s \<Rightarrow>
      (let index = act_candidateIndex (ar_status r) in
       if index < 0 \<or> index \<ge> int (length (sn_runtimeCandidates s)) then 0 else index))"

definition nextCandidateIndex :: "ActionResource \<Rightarrow> RunTurnSnapshot option \<Rightarrow> int option" where
  "nextCandidateIndex r snapshot =
     (let next = i32 (currentCandidateIndex r snapshot + 1) in
      case snapshot of None \<Rightarrow> None
      | Some s \<Rightarrow> if next \<ge> int (length (sn_runtimeCandidates s)) then None else Some next)"

definition attemptRunID :: "string \<Rightarrow> int \<Rightarrow> string" where
  "attemptRunID actionID attemptCount =
     (let actionID = TrimSpace actionID in
      if attemptCount \<le> 1 then actionID else actionID @ ''-attempt-'' @ show_int attemptCount)"

definition nextRunAttempt :: "ActionResource \<Rightarrow> string \<times> int" where
  "nextRunAttempt r =
     (case ar_action r of None \<Rightarrow> ([], 0) | Some a \<Rightarrow>
      (let runID = TrimSpace (act_runID (ar_status r)) in
       if runID \<noteq> [] then (runID, currentAttemptCount r)
       else (let attemptCount = i32 (currentAttemptCount r + 1)
             in (attemptRunID (as_actionId a) attemptCount, attemptCount))))"

text \<open>
  The code writes to the run request of the clone: a snapshot without one would panic here. The
  snapshots of \<open>buildRunTurnSnapshot\<close> have one; here it stays absent, and the run service then
  refuses the run.
\<close>

definition snapshotForCandidate :: "RunTurnSnapshot option \<Rightarrow> int \<Rightarrow> string \<Rightarrow> RunTurnSnapshot result" where
  "snapshotForCandidate snapshot candidateIndex runID =
     (case snapshot of None \<Rightarrow> Inl (action_validation ''run_turn snapshot is nil'') | Some s \<Rightarrow>
      if candidateIndex < 0 \<or> candidateIndex \<ge> int (length (sn_runtimeCandidates s))
      then Inl (action_validation ''run_turn runtime candidate index is invalid'')
      else
        (let candidate = sn_runtimeCandidates s ! nat candidateIndex;
             auth = getf None cand_authRequirement candidate
         in Inr (s\<lparr>sn_runRequest := map_option (\<lambda>q. q\<lparr>rq_runId := runID,
                      rq_resolvedProviderModel := getf None cand_resolvedProviderModel candidate\<rparr>) (sn_runRequest s),
                   sn_authRequirement := auth,
                   sn_prepareJobs := rebindAuthPrepareJobs auth (sn_prepareJobs s)\<rparr>)))"

section \<open>Prepare jobs of a session\<close>

lemma rebind_id [simp]: "job_jobId (rebindAuthPrepareJob a j) = job_jobId j"
  "job_jobType (rebindAuthPrepareJob a j) = job_jobType j"
  by (simp_all add: rebindAuthPrepareJob_def)

text \<open>A step of the loop that succeeds: an absent job is skipped, a present one has a new id.\<close>

lemma prepare_jobs_loop_Cons:
  assumes "prepare_jobs_loop spec auth i seen (item # items) = Inr (jobs, b)"
  obtains "prepare_jobs_loop spec auth (Suc i) seen items = Inr (jobs, b)" and "prepareJobFromSession spec item i = Inr None"
  | job jobs' b' where "prepareJobFromSession spec item i = Inr (Some job)" and "job_jobId job \<notin> set seen"
    and "prepare_jobs_loop spec auth (Suc i) (job_jobId job # seen) items = Inr (jobs', b')"
    and "jobs = rebindAuthPrepareJob auth job # jobs'" and "b \<longleftrightarrow> TrimSpace (job_jobType job) = ''auth'' \<or> b'"
  using assms by (auto split: sum.splits option.splits if_splits prod.splits)

lemma prepare_jobs_loop_ids:
  "prepare_jobs_loop spec auth i seen items = Inr (jobs, b) \<Longrightarrow>
     distinct (map job_jobId jobs) \<and> set (map job_jobId jobs) \<inter> set seen = {}"
proof (induction items arbitrary: i seen jobs b)
  case (Cons item items)
  from Cons.prems show ?case
  proof (cases rule: prepare_jobs_loop_Cons)
    case 1
    from Cons.IH [OF 1(1)] show ?thesis .
  next
    case (2 job jobs' b')
    from Cons.IH [OF 2(3)] 2(2,4) show ?thesis by auto
  qed
qed simp

lemma prepare_jobs_loop_auth:
  "prepare_jobs_loop spec auth i seen items = Inr (jobs, b) \<Longrightarrow>
     (b \<longleftrightarrow> (\<exists>j \<in> set jobs. TrimSpace (job_jobType j) = ''auth'')) \<and>
     (\<forall>j \<in> set jobs. job_jobType j \<noteq> [] \<and> (TrimSpace (job_jobType j) = ''auth'' \<longrightarrow>
        job_cleanup j \<and> job_parametersYaml j = authPrepareParametersYAML auth))"
proof (induction items arbitrary: i seen jobs b)
  case (Cons item items)
  from Cons.prems show ?case
  proof (cases rule: prepare_jobs_loop_Cons)
    case 1
    from Cons.IH [OF 1(1)] show ?thesis .
  next
    case (2 job jobs' b')
    have "job_jobType job \<noteq> []"
      using 2(1) by (auto simp: prepareJobFromSession_def Let_def split: option.splits if_splits)
    with Cons.IH [OF 2(3)] 2(4,5) show ?thesis
      by (cases "TrimSpace (job_jobType job) = ''auth''") (simp_all add: rebindAuthPrepareJob_def)
  qed
qed simp

text \<open>The ids of the attempts of one action.\<close>

lemma attemptRunID_eq:
  "attemptRunID a m = attemptRunID a n \<longleftrightarrow> m = n \<or> m \<le> 1 \<and> n \<le> 1"
proof -
  have ne: "TrimSpace a \<noteq> TrimSpace a @ ''-attempt-'' @ show_int k" for k by simp
  show ?thesis
  proof (cases "m \<le> 1 \<or> n \<le> 1")
    case True
    with ne show ?thesis by (auto simp: attemptRunID_def Let_def)
  next
    case False
    with show_int_nonneg_inj [of m n] show ?thesis by (auto simp: attemptRunID_def Let_def)
  qed
qed

section \<open>Properties\<close>

text \<open>
  The prepare jobs of a run: if the session's jobs are accepted, every job of the run has a type,
  every auth job is cleaned up and parametrised with the authentication of the run, there is an auth
  job whenever the run needs authentication, and the ids of the jobs are distinct unless the
  session gave the id "auth" to a job of another type.
\<close>

theorem prepareJobsForSession_sound:
  assumes "prepareJobsForSession (Some spec) auth = Inr jobs"
  shows "(\<forall>j \<in> set jobs. job_jobType j \<noteq> [] \<and> (TrimSpace (job_jobType j) = ''auth'' \<longrightarrow>
      job_cleanup j \<and> job_parametersYaml j = authPrepareParametersYAML auth)) \<and>
    (auth \<noteq> None \<longrightarrow> (\<exists>j \<in> set jobs. TrimSpace (job_jobType j) = ''auth'')) \<and>
    (distinct (map job_jobId jobs) \<or> (\<exists>j \<in> set jobs. job_jobId j = ''auth'' \<and> TrimSpace (job_jobType j) \<noteq> ''auth''))"
proof -
  from assms obtain js b where loop: "prepare_jobs_loop spec auth 0 [] (ss_prepareJobs spec) = Inr (js, b)"
    and jobs: "jobs = (if auth \<noteq> None \<and> \<not> b then js @ [defaultAuthPrepareJob (ss_providerId spec) auth] else js)"
    by (auto simp: prepareJobsForSession_def split: sum.splits)
  have auth_type: "TrimSpace ''auth'' = ''auth''" by (rule TrimSpace_plain) (simp_all add: plain_char_def)
  note ids = prepare_jobs_loop_ids [OF loop] and au = prepare_jobs_loop_auth [OF loop]
  show ?thesis
  proof (cases "auth \<noteq> None \<and> \<not> b")
    case True
    then have js: "jobs = js @ [defaultAuthPrepareJob (ss_providerId spec) auth]" using jobs by simp
    have "distinct (map job_jobId jobs) \<or> (\<exists>j \<in> set js. job_jobId j = ''auth'')"
      using ids by (auto simp: js defaultAuthPrepareJob_def)
    with au True show ?thesis by (auto simp: js defaultAuthPrepareJob_def auth_type)
  next
    case False
    with jobs ids au show ?thesis by auto
  qed
qed

definition ex_job :: "string \<Rightarrow> string \<Rightarrow> AgentSessionPrepareJob" where
  "ex_job i t = \<lparr>sjob_jobId = i, sjob_cliId = [], sjob_jobType = t, sjob_runType = RunTypeUnspecified,
     sjob_changeKey = [], sjob_cleanup = False, sjob_parametersYaml = []\<rparr>"

definition ex_job_spec :: "AgentSessionPrepareJob list \<Rightarrow> AgentSessionSpec" where
  "ex_job_spec jobs = \<lparr>ss_sessionId = ''s1'', ss_providerId = ''codex'', ss_profileId = [], ss_runtimeConfig = None,
      ss_resourceConfig = None, ss_workspaceRef = None, ss_homeStateRef = None,
      ss_profileGeneration = 0, ss_executionClass = [], ss_prepareJobs = map Some jobs\<rparr>"

definition ex_job_auth :: AgentRunAuthRequirement where
  "ex_job_auth = \<lparr>auth_providerId = ''codex'', auth_providerSurfaceBindingId = ''b1'', auth_authStatus = [],
     auth_runtimeUrl = ''http://p'', auth_materializationKey = ''k1'', auth_providerRunBinding = None\<rparr>"

definition ok_jobs :: "AgentRunPrepareJob list result \<Rightarrow> AgentRunPrepareJob list" where
  "ok_jobs x = (case x of Inl e \<Rightarrow> [] | Inr js \<Rightarrow> js)"

lemma ok_jobs_some: "\<not> isl x \<Longrightarrow> x = Inr (ok_jobs x)"
  by (cases x) (simp_all add: ok_jobs_def)

theorem prepareJobsForSession_sound_witness:
  "let jobs = ok_jobs (prepareJobsForSession (Some (ex_job_spec [ex_job [] ''clone'', ex_job ''x'' ''mcp''])) (Some ex_job_auth))
   in map job_jobId jobs = [''job-01'', ''x'', ''auth''] \<and> (\<exists>j \<in> set jobs. TrimSpace (job_jobType j) = ''auth'')"
proof -
  let ?p = "prepareJobsForSession (Some (ex_job_spec [ex_job [] ''clone'', ex_job ''x'' ''mcp''])) (Some ex_job_auth)"
  have "?p = Inr (ok_jobs ?p)" by (rule ok_jobs_some) code_simp
  from prepareJobsForSession_sound [OF this] have "\<exists>j \<in> set (ok_jobs ?p). TrimSpace (job_jobType j) = ''auth''" by blast
  moreover have "map job_jobId (ok_jobs ?p) = [''job-01'', ''x'', ''auth'']" by code_simp
  ultimately show ?thesis unfolding Let_def by (rule conjI [rotated])
qed

text \<open>
  The escape in the previous property is real: a session with a job of another type whose id is
  "auth" is accepted, and the run gets two prepare jobs with the id "auth".
\<close>

theorem prepareJobsForSession_duplicate_auth:
  "\<exists>jobs. prepareJobsForSession (Some (ex_job_spec [ex_job ''auth'' ''clone''])) (Some ex_job_auth) = Inr jobs \<and>
     map job_jobId jobs = [''auth'', ''auth'']"
proof (intro exI conjI)
  let ?p = "prepareJobsForSession (Some (ex_job_spec [ex_job ''auth'' ''clone''])) (Some ex_job_auth)"
  show "?p = Inr (ok_jobs ?p)" by (rule ok_jobs_some) code_simp
  show "map job_jobId (ok_jobs ?p) = [''auth'', ''auth'']" by code_simp
qed

text \<open>
  Attempts of an action never share a run: two attempt numbers of the same action give the same
  run id only if both are at most one, that is, name the first attempt.
\<close>

theorem attemptRunID_injective:
  "attemptRunID a m = attemptRunID b n \<and> TrimSpace a = TrimSpace b \<longleftrightarrow> (m = n \<or> m \<le> 1 \<and> n \<le> 1) \<and> TrimSpace a = TrimSpace b"
proof -
  have "TrimSpace a = TrimSpace b \<Longrightarrow> attemptRunID b n = attemptRunID a n" by (simp add: attemptRunID_def)
  then show ?thesis by (auto simp: attemptRunID_eq)
qed

text \<open>
  Falling back to another runtime candidate keeps the prepare jobs right: rebinding the auth jobs
  of a snapshot, as \<open>snapshotForCandidate\<close> does, gives exactly the jobs that the session would have
  given for a run with the authentication of that candidate.
\<close>

theorem rebind_is_rebuild:
  assumes "prepareJobsForSession (Some spec) (Some a) = Inr jobs"
    and "snapshotForCandidate (Some s) i rid = Inr t" and "sn_prepareJobs s = map Some jobs"
    and "sn_authRequirement t = Some b"
  shows "\<exists>jobs'. prepareJobsForSession (Some spec) (Some b) = Inr jobs' \<and> sn_prepareJobs t = map Some jobs'"
proof -
  let ?r = "rebindAuthPrepareJob (Some b)"
  have rr: "?r (rebindAuthPrepareJob x j) = ?r j" for x j by (simp add: rebindAuthPrepareJob_def)
  have rd: "?r (defaultAuthPrepareJob p x) = defaultAuthPrepareJob p (Some b)" for p x
  proof -
    have "TrimSpace ''auth'' = ''auth''" by (rule TrimSpace_plain) (simp_all add: plain_char_def)
    then show ?thesis by (simp add: rebindAuthPrepareJob_def defaultAuthPrepareJob_def)
  qed
  have loop: "prepare_jobs_loop spec (Some a) k seen items = Inr (js, h) \<Longrightarrow>
      prepare_jobs_loop spec (Some b) k seen items = Inr (map ?r js, h)" for k seen items js h
  proof (induction items arbitrary: k seen js h)
    case (Cons item items)
    from Cons.prems show ?case
    proof (cases rule: prepare_jobs_loop_Cons)
      case 1
      with Cons.IH [OF 1(1)] show ?thesis by simp
    next
      case (2 job jobs' h')
      with Cons.IH [OF 2(3)] show ?thesis by (simp add: rr)
    qed
  qed simp
  from assms(1) obtain js h where l: "prepare_jobs_loop spec (Some a) 0 [] (ss_prepareJobs spec) = Inr (js, h)"
    and jobs: "jobs = (if h then js else js @ [defaultAuthPrepareJob (ss_providerId spec) (Some a)])"
    by (auto simp: prepareJobsForSession_def split: sum.splits if_splits)
  have "prepareJobsForSession (Some spec) (Some b) = Inr (map ?r jobs)"
    using loop [OF l] by (simp add: prepareJobsForSession_def jobs rd)
  moreover have "sn_prepareJobs t = map Some (map ?r jobs)"
    using assms(2-4) by (auto simp: snapshotForCandidate_def Let_def rebindAuthPrepareJobs_def split: if_splits)
  ultimately show ?thesis by blast
qed

end
