(* ===== verification/Resource_Config.thy ===== *)
theory Resource_Config
  imports Resource_Ops
begin

text \<open>
  \<open>internal/agentruntime/agentresourceconfig\<close>: the revisions of a session's resource config
  (\<open>subjects.go\<close>) and their materialization as a config map (\<open>materializer.go\<close>).

  The revision of a config is the hexadecimal SHA-256 of its deterministic wire form. Both the
  proto encoder and the hash are a parameter \<open>hash\<close> (the empty string when marshalling fails);
  the only fact used of it is \<open>hash_ok\<close>, that a hexadecimal string has no space to trim.
\<close>

record Revisions =
  rev_Rule :: string
  rev_Skill :: string
  rev_MCP :: string

definition no_revisions :: Revisions where
  "no_revisions = \<lparr>rev_Rule = [], rev_Skill = [], rev_MCP = []\<rparr>"

type_synonym hash = "AgentResources \<Rightarrow> string"

definition hash_ok :: "hash \<Rightarrow> bool" where
  "hash_ok h \<longleftrightarrow> (\<forall>c. TrimSpace (h c) = h c)"

record SubjectSnapshot =
  sub_Subject :: ActionSubject
  sub_SubjectRevision :: string
  sub_ResourceConfig :: AgentResources

definition revision :: "hash \<Rightarrow> AgentResources \<Rightarrow> string" where
  "revision hash config =
     (let normalized = config\<lparr>res_snapshotId := []\<rparr> in
      if res_instructions normalized = [] \<and> res_toolBindings normalized = [] then []
      else hash normalized)"

definition config_filter :: "AgentResources option \<Rightarrow> ActionSubject \<Rightarrow> AgentResources option" where
  "config_filter config subject =
     (case config of None \<Rightarrow> None | Some c \<Rightarrow>
      (let filtered = \<lparr>res_snapshotId = TrimSpace (res_snapshotId c), res_instructions = [],
                       res_toolBindings = []\<rparr> in
       case subject of
         SubjectResourceConfig \<Rightarrow> Some c
       | SubjectRule \<Rightarrow> Some (filtered\<lparr>res_instructions :=
           filter (\<lambda>i. getf False (\<lambda>x. ir_kind x = InstructionRule) i) (res_instructions c)\<rparr>)
       | SubjectSkill \<Rightarrow> Some (filtered\<lparr>res_instructions :=
           filter (\<lambda>i. getf False (\<lambda>x. ir_kind x = InstructionSkill) i) (res_instructions c)\<rparr>)
       | SubjectMCP \<Rightarrow> Some (filtered\<lparr>res_toolBindings :=
           filter (\<lambda>t. getf False (\<lambda>x. tb_kind x = ToolMCP) t) (res_toolBindings c)\<rparr>)
       | SubjectUnspecified \<Rightarrow> None))"

definition snapshotRevision :: "hash \<Rightarrow> AgentResources option \<Rightarrow> ActionSubject \<Rightarrow> string" where
  "snapshotRevision hash config subject =
     (case config_filter config subject of None \<Rightarrow> [] | Some f \<Rightarrow> revision hash f)"

definition DesiredRevisions :: "hash \<Rightarrow> AgentResources option \<Rightarrow> Revisions" where
  "DesiredRevisions hash config =
     \<lparr>rev_Rule = snapshotRevision hash config SubjectRule,
      rev_Skill = snapshotRevision hash config SubjectSkill,
      rev_MCP = snapshotRevision hash config SubjectMCP\<rparr>"

definition SnapshotID :: "hash \<Rightarrow> AgentResources option \<Rightarrow> string" where
  "SnapshotID hash config = snapshotRevision hash config SubjectResourceConfig"

definition config_Snapshot :: "hash \<Rightarrow> AgentResources option \<Rightarrow> ActionSubject \<Rightarrow> SubjectSnapshot option" where
  "config_Snapshot hash config subject =
     (case config_filter config subject of None \<Rightarrow> None
      | Some f \<Rightarrow> Some \<lparr>sub_Subject = subject, sub_SubjectRevision = revision hash f,
                       sub_ResourceConfig = f\<rparr>)"

definition PendingSubjects :: "hash \<Rightarrow> AgentResources option \<Rightarrow> Revisions \<Rightarrow> ActionSubject list" where
  "PendingSubjects hash config realized =
     (let desired = DesiredRevisions hash config in
      (if rev_Rule desired \<noteq> TrimSpace (rev_Rule realized) then [SubjectRule] else [])
      @ (if rev_Skill desired \<noteq> TrimSpace (rev_Skill realized) then [SubjectSkill] else [])
      @ (if rev_MCP desired \<noteq> TrimSpace (rev_MCP realized) then [SubjectMCP] else []))"

definition Ready :: "hash \<Rightarrow> AgentResources option \<Rightarrow> Revisions \<Rightarrow> bool" where
  "Ready hash config realized =
     (let desired = DesiredRevisions hash config in
      rev_Rule desired = TrimSpace (rev_Rule realized) \<and>
      rev_Skill desired = TrimSpace (rev_Skill realized) \<and>
      rev_MCP desired = TrimSpace (rev_MCP realized))"

definition revisionForSubject :: "Revisions \<Rightarrow> ActionSubject \<Rightarrow> string" where
  "revisionForSubject realized subject =
     (case subject of SubjectRule \<Rightarrow> TrimSpace (rev_Rule realized)
      | SubjectSkill \<Rightarrow> TrimSpace (rev_Skill realized)
      | SubjectMCP \<Rightarrow> TrimSpace (rev_MCP realized)
      | _ \<Rightarrow> [])"

definition Matches :: "hash \<Rightarrow> Revisions \<Rightarrow> ReloadSubjectSnapshot option \<Rightarrow> bool" where
  "Matches hash realized snapshot =
     (case snapshot of None \<Rightarrow> False | Some s \<Rightarrow>
      (case rl_subject s of
         SubjectResourceConfig \<Rightarrow>
           TrimSpace (rev_Rule realized) = snapshotRevision hash (rl_resourceConfig s) SubjectRule \<and>
           TrimSpace (rev_Skill realized) = snapshotRevision hash (rl_resourceConfig s) SubjectSkill \<and>
           TrimSpace (rev_MCP realized) = snapshotRevision hash (rl_resourceConfig s) SubjectMCP
       | _ \<Rightarrow> revisionForSubject realized (rl_subject s) = TrimSpace (rl_subjectRevision s)))"

definition config_Apply :: "hash \<Rightarrow> Revisions \<Rightarrow> ReloadSubjectSnapshot \<Rightarrow> Revisions" where
  "config_Apply hash realized snapshot =
     (let desired = DesiredRevisions hash (rl_resourceConfig snapshot) in
      case rl_subject snapshot of
        SubjectResourceConfig \<Rightarrow> \<lparr>rev_Rule = rev_Rule desired, rev_Skill = rev_Skill desired,
                                   rev_MCP = rev_MCP desired\<rparr>
      | SubjectRule \<Rightarrow> realized\<lparr>rev_Rule := rev_Rule desired\<rparr>
      | SubjectSkill \<Rightarrow> realized\<lparr>rev_Skill := rev_Skill desired\<rparr>
      | SubjectMCP \<Rightarrow> realized\<lparr>rev_MCP := rev_MCP desired\<rparr>
      | SubjectUnspecified \<Rightarrow> realized)"

fun SubjectSlug :: "ActionSubject \<Rightarrow> string" where
  "SubjectSlug SubjectResourceConfig = ''resource-config''"
| "SubjectSlug SubjectRule = ''rule''"
| "SubjectSlug SubjectSkill = ''skill''"
| "SubjectSlug SubjectMCP = ''mcp''"
| "SubjectSlug SubjectUnspecified = ''unknown''"

section \<open>Materialization\<close>

record ConfigMap =
  cm_name :: string
  cm_namespace :: string
  cm_resourceVersion :: string
  cm_labels :: "(string \<times> string) list"
  cm_annotations :: "(string \<times> string) list"
  cm_data :: "(string \<times> string) list"

definition materializationDataKey :: string where
  "materializationDataKey = ''agent_resources.json''"
definition materializationSnapshotKey :: string where
  "materializationSnapshotKey = ''agentsession.code-code.internal/resource-snapshot-id''"
definition materializationRuleKey :: string where
  "materializationRuleKey = ''agentsession.code-code.internal/rule-revision''"
definition materializationSkillKey :: string where
  "materializationSkillKey = ''agentsession.code-code.internal/skill-revision''"
definition materializationMCPKey :: string where
  "materializationMCPKey = ''agentsession.code-code.internal/mcp-revision''"
definition materializationSessionIDKey :: string where
  "materializationSessionIDKey = ''agentsession.code-code.internal/session-id''"
definition materializationManagedByKey :: string where
  "materializationManagedByKey = ''app.kubernetes.io/managed-by''"
definition materializationManagedByName :: string where
  "materializationManagedByName = ''platform-agent-runtime-service''"

lemmas materialization_keys = materializationDataKey_def materializationSnapshotKey_def
  materializationRuleKey_def materializationSkillKey_def materializationMCPKey_def
  materializationSessionIDKey_def materializationManagedByKey_def

definition MaterializationName :: "string \<Rightarrow> string" where
  "MaterializationName sessionID =
     (let s = TrimSpace sessionID in if s = [] then [] else s @ ''-resources'')"

text \<open>A lookup in a Go map of strings: the zero value for a missing key.\<close>

definition map_get :: "(string \<times> string) list \<Rightarrow> string \<Rightarrow> string" where
  "map_get m k = (case map_of m k of None \<Rightarrow> [] | Some v \<Rightarrow> v)"

definition cm_preserve :: "ConfigMap \<Rightarrow> ConfigMap \<Rightarrow> ConfigMap" where
  "cm_preserve current next = next
     \<lparr>cm_labels := mergeStringMap (cm_labels current) (cm_labels next),
      cm_annotations := mergeStringMap (cm_annotations current) (cm_annotations next),
      cm_resourceVersion := cm_resourceVersion current\<rparr>"

text \<open>\<open>protojson\<close> is a parameter: the text it marshals a config to, or its error.\<close>

type_synonym protojson = "AgentResources \<Rightarrow> string result"

definition config_map_for :: "hash \<Rightarrow> string \<Rightarrow> string \<Rightarrow> AgentResources \<Rightarrow> string \<Rightarrow> ConfigMap" where
  "config_map_for hash namespace sessionID config payload =
     (let revisions = DesiredRevisions hash (Some config) in
      \<lparr>cm_name = MaterializationName sessionID, cm_namespace = namespace, cm_resourceVersion = [],
       cm_labels = [(materializationSessionIDKey, sessionID),
                    (materializationManagedByKey, materializationManagedByName)],
       cm_annotations = [(materializationSnapshotKey, TrimSpace (res_snapshotId config)),
                         (materializationRuleKey, TrimSpace (rev_Rule revisions)),
                         (materializationSkillKey, TrimSpace (rev_Skill revisions)),
                         (materializationMCPKey, TrimSpace (rev_MCP revisions))],
       cm_data = [(materializationDataKey, payload)]\<rparr>)"

definition Materializer_Ensure ::
    "hash \<Rightarrow> protojson \<Rightarrow> (ConfigMap, 'w) kube \<Rightarrow> string \<Rightarrow> string \<Rightarrow> AgentResources option \<Rightarrow> 'w
      \<Rightarrow> unit result \<times> 'w" where
  "Materializer_Ensure hash marshal client namespace sessionID config w =
     (let sessionID = TrimSpace sessionID in
      if sessionID = [] then
        (Inl (PlainError ''platformk8s/agentresourceconfig: session_id is empty''), w)
      else case config of
        None \<Rightarrow> (Inl (PlainError ''platformk8s/agentresourceconfig: resource config is nil''), w)
      | Some c \<Rightarrow>
        (case marshal c of
           Inl e \<Rightarrow> (Inl (Wrapped ''platformk8s/agentresourceconfig: marshal resource config: '' e), w)
         | Inr payload \<Rightarrow>
           (let cm = config_map_for hash namespace sessionID c payload in
            case UpsertResource client cm_preserve ''*v1.ConfigMap'' cm namespace (cm_name cm) w of
              (Inl e, w) \<Rightarrow> (Inl e, w) | (Inr _, w) \<Rightarrow> (Inr (), w))))"

definition config_map_current :: "hash \<Rightarrow> AgentResources \<Rightarrow> ConfigMap \<Rightarrow> bool" where
  "config_map_current hash config current =
     (let revisions = DesiredRevisions hash (Some config); ann = map_get (cm_annotations current) in
      if TrimSpace (ann materializationSnapshotKey) \<noteq> TrimSpace (res_snapshotId config) then False
      else if TrimSpace (ann materializationRuleKey) \<noteq> TrimSpace (rev_Rule revisions) then False
      else if TrimSpace (ann materializationSkillKey) \<noteq> TrimSpace (rev_Skill revisions) then False
      else if TrimSpace (ann materializationMCPKey) \<noteq> TrimSpace (rev_MCP revisions) then False
      else if TrimSpace (map_get (cm_data current) materializationDataKey) = [] then False
      else True)"

definition Materializer_IsCurrent ::
    "hash \<Rightarrow> (ConfigMap, 'w) kube \<Rightarrow> string \<Rightarrow> string \<Rightarrow> AgentResources option \<Rightarrow> 'w
      \<Rightarrow> bool result \<times> 'w" where
  "Materializer_IsCurrent hash client namespace sessionID config w =
     (let sessionID = TrimSpace sessionID in
      if sessionID = [] then (Inr False, w)
      else case config of None \<Rightarrow> (Inr False, w)
      | Some c \<Rightarrow>
        (if TrimSpace (res_snapshotId c) = [] \<and> Ready hash (Some c) no_revisions then (Inr True, w)
         else case kube_Get client namespace (MaterializationName sessionID) w of
           (Inl e, w) \<Rightarrow> (if is_api_not_found e then (Inr False, w) else (Inl e, w))
         | (Inr current, w) \<Rightarrow> (Inr (config_map_current hash c current), w)))"

section \<open>Revisions\<close>

lemma TrimSpace_snapshotRevision: "hash_ok hash \<Longrightarrow>
    TrimSpace (snapshotRevision hash c s) = snapshotRevision hash c s"
  by (auto simp: snapshotRevision_def revision_def Let_def hash_ok_def split: option.splits)

lemma Ready_iff_desired:
  "Ready hash c r \<longleftrightarrow> DesiredRevisions hash c =
     \<lparr>rev_Rule = TrimSpace (rev_Rule r), rev_Skill = TrimSpace (rev_Skill r), rev_MCP = TrimSpace (rev_MCP r)\<rparr>"
  by (auto simp: Ready_def DesiredRevisions_def Let_def)

lemma PendingSubjects_set:
  "set (PendingSubjects hash c r) =
     {s \<in> {SubjectRule, SubjectSkill, SubjectMCP}. snapshotRevision hash c s \<noteq> revisionForSubject r s}"
  by (auto simp: PendingSubjects_def DesiredRevisions_def revisionForSubject_def Let_def)

lemma Ready_iff_pending: "Ready hash c r \<longleftrightarrow> PendingSubjects hash c r = []"
  by (simp add: Ready_def PendingSubjects_def Let_def)

lemma Ready_desired: "hash_ok hash \<Longrightarrow> Ready hash c (DesiredRevisions hash c)"
  by (simp add: Ready_def DesiredRevisions_def TrimSpace_snapshotRevision)

lemma distinct_PendingSubjects: "distinct (PendingSubjects hash c r)"
  by (simp add: PendingSubjects_def Let_def)

text \<open>Filtering by a subject is idempotent up to the trimmed snapshot id.\<close>

lemma config_filter_idem:
  "config_filter (Some c) s = Some f \<Longrightarrow> snapshotRevision hash (Some f) s = revision hash f"
  by (cases s) (auto simp: config_filter_def snapshotRevision_def revision_def Let_def)

lemma snapshotRevision_filter:
  "config_filter c s = Some f \<Longrightarrow> snapshotRevision hash (Some f) s = snapshotRevision hash c s"
proof -
  assume f: "config_filter c s = Some f"
  then obtain a where "c = Some a" by (cases c) (simp_all add: config_filter_def)
  with f have "snapshotRevision hash (Some f) s = revision hash f" by (simp add: config_filter_idem)
  with f show ?thesis by (simp add: snapshotRevision_def [of hash c])
qed

lemma map_get_merge [simp]:
  "map_get (mergeStringMap base override) k =
     (if k \<in> fst ` set override then map_get override k else map_get base k)"
proof (cases "k \<in> fst ` set override")
  case True
  then have "map_of (filter (\<lambda>kv. fst kv \<notin> fst ` set override) base) k = None"
    by (auto simp: map_of_eq_None_iff image_iff)
  with True show ?thesis by (simp add: map_get_def mergeStringMap_def map_add_def split: option.splits)
next
  case False
  then have "map_of override k = None" by (auto simp: map_of_eq_None_iff)
  moreover have "map_of (filter (\<lambda>kv. fst kv \<notin> fst ` set override) base) k = map_of base k"
    using False by (induction base) auto
  ultimately show ?thesis using False
    by (simp add: map_get_def mergeStringMap_def map_add_def del: not_None_eq split: option.splits)
qed

end
