(* ===== verification/Timeline_Sink.thy ===== *)
theory Timeline_Sink
  imports Runtime_Types
begin

text \<open>
  \<open>internal/agentruntime/timeline/sink.go\<close>: the sink every service records its timeline in. It
  validates a record, projects it to metrics, whose errors are only logged, and publishes it. The
  publisher (NATS) and the projector (OpenTelemetry) are records of calls over the world.
\<close>

record 'w Sink =
  sink_RecordStageInterval :: "StageInterval \<Rightarrow> 'w \<Rightarrow> unit result \<times> 'w"
  sink_RecordEvent :: "TimelineEvent \<Rightarrow> 'w \<Rightarrow> unit result \<times> 'w"

record 'w TimelinePort =
  port_Interval :: "StageInterval \<Rightarrow> 'w \<Rightarrow> unit result \<times> 'w"
  port_Event :: "TimelineEvent \<Rightarrow> 'w \<Rightarrow> unit result \<times> 'w"

definition timeline_RecordStageInterval ::
    "'w TimelinePort \<Rightarrow> 'w TimelinePort option \<Rightarrow> StageInterval option \<Rightarrow> 'w \<Rightarrow> unit result \<times> 'w" where
  "timeline_RecordStageInterval publisher projector interval w =
     (case ValidateStageInterval interval of Some e \<Rightarrow> (Inl e, w)
      | None \<Rightarrow> (case interval of None \<Rightarrow> (Inr (), w) | Some i \<Rightarrow>
         port_Interval publisher i
           (case projector of None \<Rightarrow> w | Some p \<Rightarrow> snd (port_Interval p i w))))"

definition timeline_RecordEvent ::
    "'w TimelinePort \<Rightarrow> 'w TimelinePort option \<Rightarrow> TimelineEvent option \<Rightarrow> 'w \<Rightarrow> unit result \<times> 'w" where
  "timeline_RecordEvent publisher projector event w =
     (case ValidateTimelineEvent event of Some e \<Rightarrow> (Inl e, w)
      | None \<Rightarrow> (case event of None \<Rightarrow> (Inr (), w) | Some ev \<Rightarrow>
         port_Event publisher ev
           (case projector of None \<Rightarrow> w | Some p \<Rightarrow> snd (port_Event p ev w))))"

definition timeline_sink :: "'w TimelinePort \<Rightarrow> 'w TimelinePort option \<Rightarrow> 'w Sink" where
  "timeline_sink publisher projector =
     \<lparr>sink_RecordStageInterval = (\<lambda>i. timeline_RecordStageInterval publisher projector (Some i)),
      sink_RecordEvent = (\<lambda>e. timeline_RecordEvent publisher projector (Some e))\<rparr>"

text \<open>The callers log the error of a record and go on.\<close>

definition record_event :: "'w Sink option \<Rightarrow> TimelineEvent \<Rightarrow> 'w \<Rightarrow> 'w" where
  "record_event sink event w =
     (case sink of None \<Rightarrow> w | Some s \<Rightarrow> snd (sink_RecordEvent s event w))"

definition record_interval :: "'w Sink option \<Rightarrow> StageInterval \<Rightarrow> 'w \<Rightarrow> 'w" where
  "record_interval sink interval w =
     (case sink of None \<Rightarrow> w | Some s \<Rightarrow> snd (sink_RecordStageInterval s interval w))"

definition record_events :: "'w Sink option \<Rightarrow> TimelineEvent list \<Rightarrow> 'w \<Rightarrow> 'w" where
  "record_events sink events w = fold (record_event sink) events w"

text \<open>The session-scoped event that the services of runs and actions record.\<close>

definition session_event ::
    "time \<Rightarrow> string \<Rightarrow> string \<Rightarrow> string \<Rightarrow> string \<Rightarrow> attributes \<Rightarrow> TimelineEvent" where
  "session_event now sessionID eventType subject action attrs =
     \<lparr>te_scopeRef = \<lparr>tsr_scope = TimelineScopeSession, tsr_sessionID = TrimSpace sessionID, tsr_turnID = []\<rparr>,
      te_eventType = eventType, te_subject = subject, te_action = action, te_occurredAt = now,
      te_attributes = attrs\<rparr>"

definition recordTimelineEvent ::
    "'w Sink option \<Rightarrow> time \<Rightarrow> string \<Rightarrow> string \<Rightarrow> string \<Rightarrow> string \<Rightarrow> attributes \<Rightarrow> 'w \<Rightarrow> 'w" where
  "recordTimelineEvent sink now sessionID eventType subject action attrs w =
     (if TrimSpace sessionID = [] then w
      else record_event sink (session_event now sessionID eventType subject action attrs) w)"

text \<open>An invariant of the sink is an invariant of what the callers do with it.\<close>

lemma record_event_invariant:
  "(\<And>s e w. sink = Some s \<Longrightarrow> I w \<Longrightarrow> I (snd (sink_RecordEvent s e w))) \<Longrightarrow> I w \<Longrightarrow> I (record_event sink e w)"
  by (auto simp: record_event_def split: option.splits)

lemma recordTimelineEvent_invariant:
  "(\<And>s e w. sink = Some s \<Longrightarrow> I w \<Longrightarrow> I (snd (sink_RecordEvent s e w))) \<Longrightarrow> I w \<Longrightarrow>
     I (recordTimelineEvent sink now sid et su ac at w)"
  by (auto simp: recordTimelineEvent_def intro: record_event_invariant)

lemma record_no_sink [simp]:
  "record_event None e w = w" "record_interval None i w = w"
  "recordTimelineEvent None now sid et su ac at w = w"
  by (simp_all add: record_event_def record_interval_def recordTimelineEvent_def)

lemma record_events_no_sink [simp]: "record_events None es w = w"
  by (induction es) (simp_all add: record_events_def)

end
