(* ===== verification/Run_Status.thy ===== *)
theory Run_Status
  imports Timeline_Sink
begin

text \<open>
  The pure part of \<open>agentruns\<close>: the run spec built from a snapshot (\<open>request.go\<close>), the state handed
  to clients (\<open>state.go\<close>, \<open>result.go\<close>), the statuses the reconciler derives (\<open>controller.go\<close>,
  \<open>cancel.go\<close>, \<open>workflow_prepare_status.go\<close>, \<open>temporal_state.go\<close>), and its timeline records.
\<close>

definition run_validation :: "string \<Rightarrow> go_error" where
  "run_validation message = DomainValidation (''platformk8s/agentruns: '' @ message)"

section \<open>The run spec\<close>

definition run_cloneRunRequest :: "RunRequest option \<Rightarrow> string \<Rightarrow> RunRequest result" where
  "run_cloneRunRequest request runID =
     (case request of None \<Rightarrow> Inl (run_validation ''run request is nil'')
      | Some q \<Rightarrow> if rq_input q = None then Inl (run_validation ''run request input is nil'')
                  else Inr (q\<lparr>rq_runId := runID\<rparr>))"

definition clonePrepareJobs :: "AgentRunPrepareJob option list \<Rightarrow> AgentRunPrepareJob option list" where
  "clonePrepareJobs jobs = filter (\<lambda>j. j \<noteq> None) jobs"

record CreateRunRequest =
  crr_RunID :: string
  crr_Snapshot :: "RunTurnSnapshot option"

definition buildRunSpec :: "string \<Rightarrow> CreateRunRequest option \<Rightarrow> string \<Rightarrow> AgentRunSpec result" where
  "buildRunSpec sessionID request runID =
     (case request of None \<Rightarrow> Inl (run_validation ''run snapshot is nil'') | Some rq \<Rightarrow>
      (case crr_Snapshot rq of None \<Rightarrow> Inl (run_validation ''run snapshot is nil'') | Some sn \<Rightarrow>
       (case run_cloneRunRequest (sn_runRequest sn) runID of Inl e \<Rightarrow> Inl e | Inr runRequest \<Rightarrow> Inr
         \<lparr>rs_runId = runID, rs_sessionId = sessionID, rs_sessionGeneration = sn_sessionGeneration sn,
          rs_runtimeConfigGeneration = sn_runtimeConfigGeneration sn,
          rs_resourceConfigGeneration = sn_resourceConfigGeneration sn,
          rs_stateGeneration = sn_stateGeneration sn, rs_request = Some runRequest,
          rs_providerId = sn_providerId sn, rs_executionClass = sn_executionClass sn,
          rs_containerImage = sn_containerImage sn, rs_cpuRequest = sn_cpuRequest sn,
          rs_memoryRequest = sn_memoryRequest sn, rs_authRequirement = sn_authRequirement sn,
          rs_cancelRequested = False, rs_runtimeEnvironment = sn_runtimeEnvironment sn,
          rs_workspaceId = sn_workspaceId sn, rs_homeStateId = sn_homeStateId sn,
          rs_prepareJobs = clonePrepareJobs (sn_prepareJobs sn), rs_agentRuntimeId = []\<rparr>)))"

section \<open>Results and states\<close>

fun run_status_name :: "RunStatus \<Rightarrow> string" where
  "run_status_name RunStatusUnspecified = ''RUN_STATUS_UNSPECIFIED''"
| "run_status_name RunStatusCompleted = ''RUN_STATUS_COMPLETED''"
| "run_status_name RunStatusFailed = ''RUN_STATUS_FAILED''"
| "run_status_name RunStatusCancelled = ''RUN_STATUS_CANCELLED''"
| "run_status_name RunStatusInterrupted = ''RUN_STATUS_INTERRUPTED''"

definition run_status_value :: "string \<Rightarrow> RunStatus option" where
  "run_status_value s = List.find (\<lambda>v. run_status_name v = s)
     [RunStatusUnspecified, RunStatusCompleted, RunStatusFailed, RunStatusCancelled, RunStatusInterrupted]"

definition resultSummary :: "RunResult \<Rightarrow> RunResultSummary" where
  "resultSummary r =
     (case rr_error r of
        None \<Rightarrow> \<lparr>rsum_status = run_status_name (rr_status r), rsum_errorCode = [], rsum_errorMessage = [],
                 rsum_retryable = False\<rparr>
      | Some e \<Rightarrow> \<lparr>rsum_status = run_status_name (rr_status r), rsum_errorCode = TrimSpace (re_code e),
                   rsum_errorMessage = TrimSpace (re_message e), rsum_retryable = re_retryable e\<rparr>)"

definition resultFromSummary :: "RunResultSummary option \<Rightarrow> RunResult option" where
  "resultFromSummary summary =
     (case summary of None \<Rightarrow> None | Some s \<Rightarrow>
      (let status = (case run_status_value (TrimSpace (rsum_status s)) of
                       Some v \<Rightarrow> v | None \<Rightarrow> RunStatusUnspecified)
       in Some \<lparr>rr_status = status, rr_resumeToken = [],
          rr_error = (if TrimSpace (rsum_errorCode s) \<noteq> [] \<or> TrimSpace (rsum_errorMessage s) \<noteq> []
                         \<or> rsum_retryable s
             then Some \<lparr>re_code = TrimSpace (rsum_errorCode s), re_message = TrimSpace (rsum_errorMessage s),
                        re_retryable = rsum_retryable s\<rparr>
             else None)\<rparr>))"

definition terminalResultMessage :: "RunResult \<Rightarrow> string" where
  "terminalResultMessage r =
     (if getf [] (\<lambda>e. TrimSpace (re_message e)) (rr_error r) \<noteq> []
      then getf [] (\<lambda>e. TrimSpace (re_message e)) (rr_error r)
      else (case rr_status r of
         RunStatusCompleted \<Rightarrow> ''AgentRun completed successfully.''
       | RunStatusCancelled \<Rightarrow> ''AgentRun canceled.''
       | RunStatusInterrupted \<Rightarrow> ''AgentRun interrupted.''
       | RunStatusFailed \<Rightarrow> ''AgentRun failed.''
       | RunStatusUnspecified \<Rightarrow> ''AgentRun terminal result recorded.''))"

definition toProtoRunPhase :: "RunResourcePhase \<Rightarrow> AgentRunPhase" where
  "toProtoRunPhase p = (case p of RPending \<Rightarrow> RunPhasePending | RScheduled \<Rightarrow> RunPhaseScheduled
     | RRunning \<Rightarrow> RunPhaseRunning | RSucceeded \<Rightarrow> RunPhaseSucceeded | RFailed \<Rightarrow> RunPhaseFailed
     | RCanceled \<Rightarrow> RunPhaseCanceled | _ \<Rightarrow> RunPhaseUnspecified)"

definition workloadRef :: "string \<Rightarrow> string option" where
  "workloadRef workloadID = (if TrimSpace workloadID = [] then None else Some (TrimSpace workloadID))"

definition clonePrepareJobStatuses :: "PrepareJobStatus option list \<Rightarrow> PrepareJobStatus option list" where
  "clonePrepareJobStatuses items = filter (\<lambda>i. i \<noteq> None) items"

definition runStateFromResource :: "RunResource option \<Rightarrow> AgentRunState result" where
  "runStateFromResource resource =
     (case resource of None \<Rightarrow> Inl (run_validation ''run resource is invalid'') | Some r \<Rightarrow>
      (case run_spec r of None \<Rightarrow> Inl (run_validation ''run resource is invalid'') | Some spec \<Rightarrow>
       (let name = om_name (run_meta r); st = run_status r;
            spec = (if rs_runId spec = [] then spec\<lparr>rs_runId := name\<rparr> else spec) in
        if rs_runId spec \<noteq> name then
          Inl (run_validation (''run id '' @ go_quote (rs_runId spec)
                 @ '' does not match resource name '' @ go_quote name))
        else Inr
          \<lparr>rst_generation = om_generation (run_meta r), rst_spec = spec,
           rst_status =
             \<lparr>ars_runId = rs_runId spec, ars_phase = toProtoRunPhase (rrs_phase st),
              ars_observedGeneration = rrs_observedGeneration st, ars_message = rrs_message st,
              ars_workload = workloadRef (rrs_workloadID st),
              ars_conditions = protostate_Conditions (rrs_conditions st),
              ars_result = resultFromSummary (rrs_resultSummary st),
              ars_updatedAt = protostate_Timestamp (rrs_updatedAt st),
              ars_prepareJobs = clonePrepareJobStatuses (rrs_prepareJobs st)\<rparr>\<rparr>)))"

section \<open>Workflow observations\<close>

record NodeState =
  node_ID :: string
  node_Name :: string
  node_DisplayName :: string
  node_TemplateName :: string
  node_Phase :: string
  node_Message :: string
  node_StartedAt :: "time option"
  node_FinishedAt :: "time option"

record WorkflowState =
  wf_Phase :: string
  wf_Message :: string
  wf_StartedAt :: "time option"
  wf_FinishedAt :: "time option"
  wf_Nodes :: "NodeState list"

datatype TemporalStatus = TemporalUnspecified | TemporalRunning | TemporalCompleted | TemporalFailed
  | TemporalCanceled | TemporalTerminated | TemporalContinuedAsNew | TemporalTimedOut

definition temporalWorkflowPhase :: "TemporalStatus \<Rightarrow> string" where
  "temporalWorkflowPhase s = (case s of TemporalRunning \<Rightarrow> ''Running'' | TemporalCompleted \<Rightarrow> ''Succeeded''
     | TemporalFailed \<Rightarrow> ''Failed'' | TemporalTimedOut \<Rightarrow> ''Failed'' | TemporalCanceled \<Rightarrow> ''Canceled''
     | TemporalTerminated \<Rightarrow> ''Canceled'' | _ \<Rightarrow> ''Pending'')"

text \<open>\<open>IDPart\<close> of \<open>internal/platform/temporalruntime\<close>, and the step name of a prepare job.\<close>

fun trim_dashes_left :: "string \<Rightarrow> string" where
  "trim_dashes_left (c # s) = (if c = CHR ''-'' then trim_dashes_left s else c # s)"
| "trim_dashes_left [] = []"

definition trim_dashes_right :: "string \<Rightarrow> string" where
  "trim_dashes_right s = rev (trim_dashes_left (rev s))"

definition id_char :: "char \<Rightarrow> string" where
  "id_char c = (if is_alnum c \<and> \<not> is_upper c then [c]
     else if c \<in> set ''-_.:'' then ''-'' else [])"

definition IDPart :: "string \<Rightarrow> string \<Rightarrow> string" where
  "IDPart v fallback =
     (let out = trim_dashes_right (trim_dashes_left (concat (map id_char (ToLower (TrimSpace v)))));
          out = (if out = [] then TrimSpace fallback else out)
      in if out = [] then ''unknown''
         else if length out > 80 then trim_dashes_right (take 80 out) else out)"

definition prepareStepName :: "nat \<Rightarrow> AgentRunPrepareJob option \<Rightarrow> string" where
  "prepareStepName index job =
     (let part = IDPart (getf [] job_jobId job) (''job-'' @ show_int (int index + 1));
          name = ''prepare-'' @ show_int02 (int index + 1) @ ''-'' @ part
      in if length name > 63 then trim_dashes_right (trim_dashes_left (take 63 name)) else name)"

definition nodeMatchesStep :: "NodeState \<Rightarrow> string \<Rightarrow> bool" where
  "nodeMatchesStep node stepName =
     (if TrimSpace stepName = [] then False
      else if TrimSpace (node_DisplayName node) = stepName \<or> TrimSpace (node_Name node) = stepName then True
      else HasSuffix (TrimSpace (node_Name node)) (''.'' @ stepName))"

definition prepareWorkflowNode ::
    "WorkflowState option \<Rightarrow> nat \<Rightarrow> AgentRunPrepareJob option \<Rightarrow> NodeState option" where
  "prepareWorkflowNode state index job =
     (case state of None \<Rightarrow> None | Some s \<Rightarrow>
      (if job = None then None
       else List.find (\<lambda>n. nodeMatchesStep n (prepareStepName index job)) (wf_Nodes s)))"

definition preparePhaseFromWorkflow :: "string \<Rightarrow> PrepareJobPhase \<Rightarrow> PrepareJobPhase" where
  "preparePhaseFromWorkflow phase fallback =
     (let p = ToLower (TrimSpace phase) in
      if p = ''pending'' then PrepPending else if p = ''running'' then PrepRunning
      else if p = ''succeeded'' then PrepSucceeded
      else if p = ''failed'' \<or> p = ''error'' then PrepFailed
      else if p = ''canceled'' \<or> p = ''cancelled'' then PrepCanceled
      else if p = ''skipped'' \<or> p = ''omitted'' then PrepSkipped else fallback)"

definition prepareFallbackPhase :: "string \<Rightarrow> PrepareJobPhase" where
  "prepareFallbackPhase phase =
     (let p = ToLower (TrimSpace phase) in
      if p = ''succeeded'' then PrepSucceeded
      else if p = ''canceled'' \<or> p = ''cancelled'' then PrepCanceled else PrepPending)"

definition timestampFromTime :: "time option \<Rightarrow> time option" where
  "timestampFromTime v = (case v of None \<Rightarrow> None | Some t \<Rightarrow> if time_is_zero t then None else Some t)"

definition prepareStatusMessage :: "AgentRunPrepareJob \<Rightarrow> PrepareJobPhase \<Rightarrow> string" where
  "prepareStatusMessage job phase =
     (let name = TrimSpace (job_jobType job);
          name = (if name = [] then TrimSpace (job_jobId job) else name);
          name = (if name = [] then ''prepare job'' else name)
      in case phase of PrepPending \<Rightarrow> name @ '' is pending.'' | PrepRunning \<Rightarrow> name @ '' is running.''
         | PrepSucceeded \<Rightarrow> name @ '' completed.'' | PrepFailed \<Rightarrow> name @ '' failed.''
         | PrepCanceled \<Rightarrow> name @ '' canceled.'' | PrepSkipped \<Rightarrow> name @ '' skipped.''
         | PrepUnspecified \<Rightarrow> [])"

definition prepare_job_status ::
    "WorkflowState option \<Rightarrow> PrepareJobPhase \<Rightarrow> nat \<Rightarrow> AgentRunPrepareJob \<Rightarrow> PrepareJobStatus" where
  "prepare_job_status state fallback index job =
     (let status = \<lparr>pjs_jobId = job_jobId job, pjs_phase = fallback, pjs_message = [],
                    pjs_startedAt = None, pjs_finishedAt = None\<rparr>;
          status = (case prepareWorkflowNode state index (Some job) of None \<Rightarrow> status
             | Some node \<Rightarrow> status
                \<lparr>pjs_phase := preparePhaseFromWorkflow (node_Phase node) fallback,
                 pjs_message := TrimSpace (node_Message node),
                 pjs_startedAt := timestampFromTime (node_StartedAt node),
                 pjs_finishedAt := timestampFromTime (node_FinishedAt node)\<rparr>)
      in if TrimSpace (pjs_message status) = []
         then status\<lparr>pjs_message := prepareStatusMessage job (pjs_phase status)\<rparr> else status)"

fun prepare_statuses_from ::
    "WorkflowState option \<Rightarrow> PrepareJobPhase \<Rightarrow> nat \<Rightarrow> AgentRunPrepareJob option list
      \<Rightarrow> PrepareJobStatus option list" where
  "prepare_statuses_from state fallback index [] = []"
| "prepare_statuses_from state fallback index (None # jobs) =
     prepare_statuses_from state fallback (Suc index) jobs"
| "prepare_statuses_from state fallback index (Some job # jobs) =
     Some (prepare_job_status state fallback index job)
       # prepare_statuses_from state fallback (Suc index) jobs"

definition prepareJobStatuses ::
    "RunResource \<Rightarrow> WorkflowState option \<Rightarrow> PrepareJobPhase \<Rightarrow> PrepareJobStatus option list" where
  "prepareJobStatuses r state fallback =
     (case run_spec r of None \<Rightarrow> []
      | Some spec \<Rightarrow> prepare_statuses_from state fallback 0 (rs_prepareJobs spec))"

end
