(* ===== verification/Run_Derive.thy ===== *)
theory Run_Derive
  imports Run_Status
begin

text \<open>
  The statuses the run reconciler derives from a run resource and a workflow observation
  (\<open>agentruns/controller.go\<close>, \<open>cancel.go\<close>, \<open>status.go\<close>), and the timeline records of a change.
\<close>

section \<open>Statuses\<close>

definition newCondition ::
    "string \<Rightarrow> bool \<Rightarrow> string \<Rightarrow> string \<Rightarrow> int \<Rightarrow> time \<Rightarrow> MetaCondition" where
  "newCondition conditionType accepted reason message generation now =
     \<lparr>mc_type = conditionType, mc_status = (if accepted then MetaTrue else MetaFalse),
      mc_reason = reason, mc_message = message, mc_observedGeneration = generation,
      mc_lastTransitionTime = now\<rparr>"

definition accepted_condition :: "int \<Rightarrow> time \<Rightarrow> MetaCondition" where
  "accepted_condition generation now =
     newCondition ''Accepted'' True ''Accepted'' ''AgentRun is accepted.'' generation now"

definition run_failedStatus :: "int \<Rightarrow> time \<Rightarrow> string \<Rightarrow> string \<Rightarrow> RunResourceStatus" where
  "run_failedStatus generation now reason message =
     \<lparr>rrs_observedGeneration = generation,
      rrs_conditions = [newCondition ''Accepted'' False reason message generation now],
      rrs_phase = RFailed, rrs_message = message, rrs_workloadID = [], rrs_resultSummary = None,
      rrs_prepareJobs = [], rrs_updatedAt = Some now\<rparr>"

definition deriveInvalidStatus :: "RunResource \<Rightarrow> time \<Rightarrow> RunResourceStatus option" where
  "deriveInvalidStatus r now =
     (let fail = (\<lambda>m. Some (run_failedStatus (om_generation (run_meta r)) now ''InvalidSpec'' m)) in
      case run_spec r of None \<Rightarrow> fail ''AgentRun spec.run is required.''
      | Some s \<Rightarrow>
        if TrimSpace (rs_runId s) = [] then fail ''AgentRun runId is required.''
        else if TrimSpace (rs_sessionId s) = [] then fail ''AgentRun sessionId is required.''
        else if TrimSpace (rs_executionClass s) = [] then fail ''AgentRun executionClass is required.''
        else if TrimSpace (rs_providerId s) = [] then fail ''AgentRun providerId is required.''
        else if TrimSpace (rs_containerImage s) = [] then fail ''AgentRun containerImage is required.''
        else if TrimSpace (rs_cpuRequest s) = [] then fail ''AgentRun cpuRequest is required.''
        else if TrimSpace (rs_memoryRequest s) = [] then fail ''AgentRun memoryRequest is required.''
        else case rs_authRequirement s of None \<Rightarrow> fail ''AgentRun authRequirement is required.''
        | Some a \<Rightarrow>
          if TrimSpace (auth_providerSurfaceBindingId a) = [] then
            fail ''AgentRun authRequirement.providerSurfaceBindingId is required.''
          else if TrimSpace (auth_providerId a) = [] then fail ''AgentRun authRequirement.providerId is required.''
          else if TrimSpace (auth_runtimeUrl a) = [] then fail ''AgentRun authRequirement.runtimeUrl is required.''
          else if TrimSpace (auth_materializationKey a) = [] then
            fail ''AgentRun authRequirement.materializationKey is required.''
          else None)"

definition pendingStatus :: "RunResource \<Rightarrow> time \<Rightarrow> RunResourceStatus" where
  "pendingStatus r now =
     \<lparr>rrs_observedGeneration = om_generation (run_meta r),
      rrs_conditions = [accepted_condition (om_generation (run_meta r)) now],
      rrs_phase = RPending, rrs_message = ''AgentRun is accepted.'', rrs_workloadID = [],
      rrs_resultSummary = None, rrs_prepareJobs = prepareJobStatuses r None PrepPending,
      rrs_updatedAt = Some now\<rparr>"

definition scheduledStatus :: "RunResource \<Rightarrow> string \<Rightarrow> time \<Rightarrow> RunResourceStatus" where
  "scheduledStatus r workloadID now =
     (let g = om_generation (run_meta r); message = ''AgentRun workflow submitted.'' in
      \<lparr>rrs_observedGeneration = g,
       rrs_conditions = [accepted_condition g now,
         newCondition ''WorkloadReady'' True ''WorkloadCreated'' message g now],
       rrs_phase = RScheduled, rrs_message = message, rrs_workloadID = workloadID,
       rrs_resultSummary = None, rrs_prepareJobs = prepareJobStatuses r None PrepPending,
       rrs_updatedAt = Some now\<rparr>)"

definition terminalWorkflowStatus ::
    "RunResourcePhase \<Rightarrow> int \<Rightarrow> string \<Rightarrow> string \<Rightarrow> string \<Rightarrow> time \<Rightarrow> RunResourceStatus" where
  "terminalWorkflowStatus phase generation workloadID reason message now =
     \<lparr>rrs_observedGeneration = generation,
      rrs_conditions = [accepted_condition generation now,
        newCondition ''Completed'' True reason message generation now],
      rrs_phase = phase, rrs_message = message, rrs_workloadID = workloadID,
      rrs_resultSummary = None, rrs_prepareJobs = [], rrs_updatedAt = Some now\<rparr>"

definition observedWorkflowStatus ::
    "RunResource \<Rightarrow> string \<Rightarrow> WorkflowState option \<Rightarrow> time \<Rightarrow> RunResourceStatus" where
  "observedWorkflowStatus r workloadID state now =
     (case state of None \<Rightarrow> scheduledStatus r workloadID now | Some s \<Rightarrow>
      (let g = om_generation (run_meta r); message = TrimSpace (wf_Message s);
           jobs = prepareJobStatuses r state (prepareFallbackPhase (wf_Phase s));
           p = ToLower (TrimSpace (wf_Phase s)) in
       if p = ''running'' then
         (let message = (if message = [] then ''AgentRun is running.'' else message) in
          \<lparr>rrs_observedGeneration = g,
           rrs_conditions = [accepted_condition g now,
             newCondition ''WorkloadReady'' True ''RunStarted'' message g now],
           rrs_phase = RRunning, rrs_message = message, rrs_workloadID = workloadID,
           rrs_resultSummary = None, rrs_prepareJobs = jobs, rrs_updatedAt = Some now\<rparr>)
       else if p = ''succeeded'' then
         (terminalWorkflowStatus RSucceeded g workloadID ''RunSucceeded''
            (if message = [] then ''AgentRun completed successfully.'' else message) now)
           \<lparr>rrs_prepareJobs := jobs\<rparr>
       else if p = ''failed'' \<or> p = ''error'' then
         (terminalWorkflowStatus RFailed g workloadID ''RunFailed''
            (if message = [] then ''AgentRun workflow failed.'' else message) now)
           \<lparr>rrs_prepareJobs := jobs\<rparr>
       else if p = ''cancelled'' \<or> p = ''canceled'' then
         (terminalWorkflowStatus RCanceled g workloadID ''RunCanceled''
            (if message = [] then ''AgentRun workflow canceled.'' else message) now)
           \<lparr>rrs_prepareJobs := jobs\<rparr>
       else scheduledStatus r workloadID now))"

definition cancelRequestedMessage :: "WorkflowState option \<Rightarrow> string" where
  "cancelRequestedMessage state =
     (let message = ''AgentRun cancel was requested.'' in
      case state of None \<Rightarrow> message | Some s \<Rightarrow>
        (let detail = TrimSpace (wf_Message s) in
         if detail = [] then message else message @ '' '' @ detail))"

text \<open>\<open>observedWorkflowStatus\<close> never returns nil, so the first branch of the code is not reached.\<close>

definition canceledWorkflowStatus ::
    "RunResource \<Rightarrow> string \<Rightarrow> WorkflowState option \<Rightarrow> time \<Rightarrow> RunResourceStatus" where
  "canceledWorkflowStatus r workloadID state now =
     (let next = observedWorkflowStatus r workloadID state now in
      if rrs_phase next = RScheduled \<or> rrs_phase next = RRunning
      then next\<lparr>rrs_message := cancelRequestedMessage state, rrs_updatedAt := Some now\<rparr>
      else next)"

definition run_isTerminalPhase :: "RunResourcePhase \<Rightarrow> bool" where
  "run_isTerminalPhase p \<longleftrightarrow> p = RSucceeded \<or> p = RFailed \<or> p = RCanceled"

definition isTerminalWorkflowState :: "WorkflowState option \<Rightarrow> bool" where
  "isTerminalWorkflowState state =
     (case state of None \<Rightarrow> False
      | Some s \<Rightarrow> ToLower (TrimSpace (wf_Phase s))
          \<in> set [''succeeded'', ''failed'', ''error'', ''cancelled'', ''canceled''])"

definition workflowPollInterval :: duration where
  "workflowPollInterval = 3 * second"

definition pollResultForPhase :: "RunResourcePhase \<Rightarrow> CtrlResult" where
  "pollResultForPhase p =
     (if p = RScheduled \<or> p = RRunning then requeue_after workflowPollInterval else no_requeue)"

definition run_normalizedStatus :: "RunResourceStatus \<Rightarrow> RunResourceStatus" where
  "run_normalizedStatus st = st
     \<lparr>rrs_updatedAt := None,
      rrs_conditions := map (\<lambda>c. c\<lparr>mc_lastTransitionTime := 0\<rparr>) (rrs_conditions st)\<rparr>"

definition run_statusSemanticallyEqual :: "RunResourceStatus \<Rightarrow> RunResourceStatus \<Rightarrow> bool" where
  "run_statusSemanticallyEqual previous next \<longleftrightarrow> run_normalizedStatus previous = run_normalizedStatus next"

section \<open>Timeline\<close>

definition timelineStageStatusFor :: "RunResourcePhase \<Rightarrow> TimelineStageStatus" where
  "timelineStageStatusFor p = (case p of RSucceeded \<Rightarrow> StageSucceeded | RCanceled \<Rightarrow> StageCanceled
     | _ \<Rightarrow> StageFailed)"

definition timeFromWorkflow :: "WorkflowState option \<Rightarrow> bool \<Rightarrow> time option" where
  "timeFromWorkflow state started =
     (case state of None \<Rightarrow> None | Some s \<Rightarrow> if started then wf_StartedAt s else wf_FinishedAt s)"

definition eventTime :: "time option \<Rightarrow> time option \<Rightarrow> time" where
  "eventTime workflowTime updatedAt =
     (case workflowTime of Some t \<Rightarrow> t | None \<Rightarrow> (case updatedAt of None \<Rightarrow> 0 | Some t \<Rightarrow> t))"

definition conditionTransitionTime ::
    "RunResourceStatus \<Rightarrow> string \<Rightarrow> string \<Rightarrow> time option" where
  "conditionTransitionTime st conditionType reason =
     map_option mc_lastTransitionTime (List.find (\<lambda>c. mc_type c = conditionType \<and> mc_reason c = reason
        \<and> \<not> time_is_zero (mc_lastTransitionTime c)) (rrs_conditions st))"

definition executeStageInterval ::
    "TimelineScopeRef \<Rightarrow> RunResourceStatus \<Rightarrow> RunResourceStatus \<Rightarrow> WorkflowState option \<Rightarrow> attributes
      \<Rightarrow> StageInterval option" where
  "executeStageInterval scope previous next state attrs =
     (let startedAt = timeFromWorkflow state True;
          startedAt = (if startedAt = None then conditionTransitionTime next ''WorkloadReady'' ''RunStarted''
                       else startedAt);
          startedAt = (if startedAt = None then conditionTransitionTime previous ''WorkloadReady'' ''RunStarted''
                       else startedAt);
          endedAt = timeFromWorkflow state False;
          endedAt = (if endedAt = None then rrs_updatedAt next else endedAt)
      in case startedAt of None \<Rightarrow> None | Some s \<Rightarrow>
         (case endedAt of None \<Rightarrow> None | Some e \<Rightarrow>
          if e < s then None
          else Some \<lparr>si_scopeRef = scope, si_stage = ''EXECUTE'', si_subject = ''run'',
                     si_action = ''workflow'', si_status = timelineStageStatusFor (rrs_phase next),
                     si_startedAt = s, si_endedAt = Some e, si_attributes = attrs\<rparr>))"

definition run_event ::
    "TimelineScopeRef \<Rightarrow> attributes \<Rightarrow> string \<Rightarrow> time \<Rightarrow> TimelineEvent" where
  "run_event scope attrs eventType occurredAt =
     \<lparr>te_scopeRef = scope, te_eventType = eventType, te_subject = ''run'', te_action = ''workflow'',
      te_occurredAt = occurredAt, te_attributes = attrs\<rparr>"

definition runTimelineTransitions ::
    "RunResource \<Rightarrow> RunResourceStatus \<Rightarrow> RunResourceStatus \<Rightarrow> WorkflowState option
      \<Rightarrow> StageInterval list \<times> TimelineEvent list" where
  "runTimelineTransitions r previous next state =
     (case run_spec r of None \<Rightarrow> ([], []) | Some s \<Rightarrow>
      if TrimSpace (rs_sessionId s) = [] \<or> TrimSpace (rs_runId s) = [] then ([], [])
      else
        (let scope = \<lparr>tsr_scope = TimelineScopeSession, tsr_sessionID = rs_sessionId s, tsr_turnID = []\<rparr>;
             attrs = [(''run_id'', rs_runId s), (''phase'', run_phase_string (rrs_phase next))]
               @ (if TrimSpace (rrs_workloadID next) \<noteq> []
                  then [(''workload_id'', TrimSpace (rrs_workloadID next))] else []);
             finished = run_isTerminalPhase (rrs_phase next) \<and> \<not> run_isTerminalPhase (rrs_phase previous)
         in (if finished then (case executeStageInterval scope previous next state attrs of
                                 None \<Rightarrow> [] | Some i \<Rightarrow> [i]) else [],
             (if rrs_phase next = RScheduled \<and> rrs_phase previous \<noteq> RScheduled
              then [run_event scope attrs ''SCHEDULED'' (eventTime None (rrs_updatedAt next))] else [])
             @ (if rrs_phase next = RRunning \<and> rrs_phase previous \<noteq> RRunning
                then [run_event scope attrs ''STARTED''
                        (eventTime (timeFromWorkflow state True) (rrs_updatedAt next))] else [])
             @ (if finished
                then [run_event scope attrs ''FINISHED''
                        (eventTime (timeFromWorkflow state False) (rrs_updatedAt next))] else []))))"

section \<open>Derived statuses are publishable\<close>

lemma run_conditions_ok:
  "conditions_ok isAllowedReasonForConditionType g (protostate_Conditions cs) \<longleftrightarrow>
     list_all (\<lambda>c. isAllowedReasonForConditionType (mc_type c) (mc_reason c)
        \<and> 0 \<le> mc_observedGeneration c \<and> mc_observedGeneration c \<le> g) cs
     \<and> distinct (map mc_type cs)"
  by (auto simp: conditions_ok_def protostate_Conditions_def list_all_iff condition_ok_def comp_def)

text \<open>
  The publishable run statuses: a known phase, a generation that is not negative, and conditions
  that the platform contract accepts.
\<close>

definition run_status_ok :: "RunResourceStatus \<Rightarrow> bool" where
  "run_status_ok st \<longleftrightarrow> toProtoRunPhase (rrs_phase st) \<noteq> RunPhaseUnspecified \<and>
     0 \<le> rrs_observedGeneration st \<and>
     conditions_ok isAllowedReasonForConditionType (rrs_observedGeneration st)
       (protostate_Conditions (rrs_conditions st))"

lemma allowed_reasons [simp]:
  "isAllowedReasonForConditionType ''Accepted'' ''Accepted''"
  "isAllowedReasonForConditionType ''Accepted'' ''InvalidSpec''"
  "isAllowedReasonForConditionType ''WorkloadReady'' ''WorkloadCreated''"
  "isAllowedReasonForConditionType ''WorkloadReady'' ''RunStarted''"
  "isAllowedReasonForConditionType ''Completed'' ''RunSucceeded''"
  "isAllowedReasonForConditionType ''Completed'' ''RunFailed''"
  "isAllowedReasonForConditionType ''Completed'' ''RunCanceled''"
  by (simp_all add: isAllowedReasonForConditionType_def conditionReasonsByType_def)

lemmas run_builder_defs = run_failedStatus_def pendingStatus_def scheduledStatus_def
  terminalWorkflowStatus_def newCondition_def accepted_condition_def

lemma failed_ok [wf_intros]: "0 \<le> g \<Longrightarrow> run_status_ok (run_failedStatus g now ''InvalidSpec'' m)"
  by (simp add: run_status_ok_def run_conditions_ok run_builder_defs toProtoRunPhase_def)

lemma pending_ok [wf_intros]: "0 \<le> om_generation (run_meta r) \<Longrightarrow> run_status_ok (pendingStatus r now)"
  by (simp add: run_status_ok_def run_conditions_ok run_builder_defs toProtoRunPhase_def)

lemma scheduled_ok [wf_intros]: "0 \<le> om_generation (run_meta r) \<Longrightarrow> run_status_ok (scheduledStatus r w now)"
  by (simp add: run_status_ok_def run_conditions_ok run_builder_defs toProtoRunPhase_def Let_def)

lemma terminal_ok [wf_intros]:
  "0 \<le> g \<Longrightarrow> run_isTerminalPhase p \<Longrightarrow> isAllowedReasonForConditionType ''Completed'' reason \<Longrightarrow>
     run_status_ok (terminalWorkflowStatus p g w reason m now)"
  by (auto simp: run_status_ok_def run_conditions_ok run_builder_defs toProtoRunPhase_def
      run_isTerminalPhase_def)

lemma run_status_ok_update [simp]:
  "run_status_ok (st\<lparr>rrs_prepareJobs := j\<rparr>) = run_status_ok st"
  "run_status_ok (st\<lparr>rrs_message := m\<rparr>) = run_status_ok st"
  "run_status_ok (st\<lparr>rrs_updatedAt := t\<rparr>) = run_status_ok st"
  "run_status_ok (st\<lparr>rrs_resultSummary := q\<rparr>) = run_status_ok st"
  by (simp_all add: run_status_ok_def)

lemma observed_ok [wf_intros]:
  assumes "0 \<le> om_generation (run_meta r)"
  shows "run_status_ok (observedWorkflowStatus r w state now)"
proof (cases state)
  case (Some s)
  let ?p = "ToLower (TrimSpace (wf_Phase s))"
  consider "?p = ''running''" | "?p = ''succeeded''" | "?p = ''failed'' \<or> ?p = ''error''"
    | "?p = ''cancelled'' \<or> ?p = ''canceled''"
    | "?p \<notin> {''running'', ''succeeded'', ''failed'', ''error'', ''cancelled'', ''canceled''}" by blast
  then show ?thesis
  proof cases
    case 1
    with Some assms show ?thesis
      by (simp add: observedWorkflowStatus_def Let_def run_status_ok_def run_conditions_ok
          run_builder_defs toProtoRunPhase_def)
  qed (use Some assms in \<open>auto simp: observedWorkflowStatus_def Let_def run_isTerminalPhase_def
        intro!: terminal_ok scheduled_ok\<close>)
qed (simp add: observedWorkflowStatus_def scheduled_ok assms)

lemma canceled_ok [wf_intros]:
  "0 \<le> om_generation (run_meta r) \<Longrightarrow> run_status_ok (canceledWorkflowStatus r w state now)"
  by (simp add: canceledWorkflowStatus_def Let_def observed_ok)

lemma invalid_ok [wf_intros]:
  "0 \<le> om_generation (run_meta r) \<Longrightarrow> deriveInvalidStatus r now = Some st \<Longrightarrow> run_status_ok st"
  by (auto simp: deriveInvalidStatus_def Let_def split: option.splits if_splits intro: failed_ok)

text \<open>What \<open>run_status_ok\<close> means to a client: the state of the run passes the contract's validator.\<close>

lemma run_status_ok_validates:
  assumes "run_status_ok (run_status r)" and "om_name (run_meta r) \<noteq> []"
    and "runStateFromResource (Some r) = Inr state"
  shows "ValidateAgentRunStatus (Some (rst_status state)) = None"
  using assms
  by (auto simp: runStateFromResource_def Let_def ValidateAgentRunStatus_def run_status_ok_def
      validate_run_conditions_iff split: option.splits if_splits)

end
