(* ===== verification/Session_Resource.thy ===== *)
theory Session_Resource
  imports Runtime_Types
begin

text \<open>
  The two shapes of a session in \<open>agentsessions\<close>: the state message of the session repository and
  the resource that the reconcilers of sessions, runs and actions work on (\<open>resource_state.go\<close>,
  \<open>state.go\<close>), and the generation of the observed warm state (\<open>state_generation.go\<close>).
\<close>

definition session_validation :: "string \<Rightarrow> go_error" where
  "session_validation message = DomainValidation (''platformk8s/agentsessions: '' @ message)"

section \<open>From state to resource\<close>

definition resourceSessionPhase :: "AgentSessionPhase \<Rightarrow> SessionResourcePhase" where
  "resourceSessionPhase p = (case p of SessionPhasePending \<Rightarrow> SPending | SessionPhaseReady \<Rightarrow> SReady
     | SessionPhaseRunning \<Rightarrow> SRunning | SessionPhaseFailed \<Rightarrow> SFailed | _ \<Rightarrow> SPhaseUnset)"

definition sessionMetaConditionStatus :: "ConditionStatus \<Rightarrow> MetaConditionStatus" where
  "sessionMetaConditionStatus s = (case s of ConditionStatusTrue \<Rightarrow> MetaTrue
     | ConditionStatusFalse \<Rightarrow> MetaFalse | ConditionStatusUnknown \<Rightarrow> MetaUnknown
     | _ \<Rightarrow> MetaStatusOther [])"

definition sessionMetaConditions :: "Condition option list \<Rightarrow> MetaCondition list" where
  "sessionMetaConditions items = List.map_filter (map_option (\<lambda>item.
     \<lparr>mc_type = cond_type item, mc_status = sessionMetaConditionStatus (cond_status item),
      mc_reason = cond_reason item, mc_message = cond_message item,
      mc_observedGeneration = cond_observedGeneration item,
      mc_lastTransitionTime = (case cond_lastTransitionTime item of None \<Rightarrow> 0 | Some t \<Rightarrow> t)\<rparr>)) items"

definition empty_session_status :: SessionResourceStatus where
  "empty_session_status =
     \<lparr>srs_observedGeneration = 0, srs_conditions = [], srs_phase = SPhaseUnset,
      srs_runtimeConfigGeneration = 0, srs_resourceConfigGeneration = 0,
      srs_realizedRuleRevision = [], srs_realizedSkillRevision = [], srs_realizedMCPRevision = [],
      srs_observedHomeStateID = [], srs_stateGeneration = 0, srs_message = [],
      srs_activeRunID = [], srs_updatedAt = None\<rparr>"

definition resourceStatusFromState :: "AgentSessionStatus option \<Rightarrow> SessionResourceStatus" where
  "resourceStatusFromState status =
     (case status of None \<Rightarrow> empty_session_status | Some st \<Rightarrow>
       \<lparr>srs_observedGeneration = ass_observedGeneration st,
        srs_conditions = sessionMetaConditions (ass_conditions st),
        srs_phase = resourceSessionPhase (ass_phase st),
        srs_runtimeConfigGeneration = ass_runtimeConfigGeneration st,
        srs_resourceConfigGeneration = ass_resourceConfigGeneration st,
        srs_realizedRuleRevision = ass_realizedRuleRevision st,
        srs_realizedSkillRevision = ass_realizedSkillRevision st,
        srs_realizedMCPRevision = ass_realizedMcpRevision st,
        srs_observedHomeStateID = ass_observedHomeStateId st,
        srs_stateGeneration = ass_stateGeneration st,
        srs_message = ass_message st,
        srs_activeRunID = TrimSpace (getf [] id (ass_activeRun st)),
        srs_updatedAt = ass_updatedAt st\<rparr>)"

definition ResourceFromState :: "AgentSessionState option \<Rightarrow> string \<Rightarrow> SessionResource result" where
  "ResourceFromState state namespace =
     (case state of None \<Rightarrow> Inl (session_validation ''session state is invalid'') | Some st \<Rightarrow>
      (case ast_spec st of None \<Rightarrow> Inl (session_validation ''session state is invalid'') | Some spec \<Rightarrow>
       (let sessionID = TrimSpace (ss_sessionId spec) in
        if sessionID = [] then Inl (session_validation ''session state session_id is empty'')
        else Inr
          \<lparr>sr_meta = \<lparr>om_name = sessionID, om_namespace = TrimSpace namespace,
                      om_generation = ast_generation st, om_resourceVersion = [], om_labels = [],
                      om_creationTimestamp = 0, om_deletionTimestamp = None, om_finalizers = []\<rparr>,
           sr_session = Some spec,
           sr_status = resourceStatusFromState (ast_status st)\<rparr>)))"

section \<open>From resource to state\<close>

definition toProtoSessionPhase :: "SessionResourcePhase \<Rightarrow> AgentSessionPhase" where
  "toProtoSessionPhase p = (case p of SPending \<Rightarrow> SessionPhasePending | SReady \<Rightarrow> SessionPhaseReady
     | SRunning \<Rightarrow> SessionPhaseRunning | SFailed \<Rightarrow> SessionPhaseFailed | _ \<Rightarrow> SessionPhaseUnspecified)"

definition activeRunRef :: "string \<Rightarrow> string option" where
  "activeRunRef runID = (if TrimSpace runID = [] then None else Some (TrimSpace runID))"

definition sessionStatusFromResourceStatus ::
    "SessionResource \<Rightarrow> SessionResourceStatus \<Rightarrow> AgentSessionStatus" where
  "sessionStatusFromResourceStatus r st =
     \<lparr>ass_sessionId = firstNonEmpty [getf [] ss_sessionId (sr_session r), om_name (sr_meta r)],
      ass_phase = toProtoSessionPhase (srs_phase st),
      ass_observedGeneration = srs_observedGeneration st,
      ass_runtimeConfigGeneration = srs_runtimeConfigGeneration st,
      ass_resourceConfigGeneration = srs_resourceConfigGeneration st,
      ass_stateGeneration = srs_stateGeneration st,
      ass_message = srs_message st,
      ass_activeRun = activeRunRef (srs_activeRunID st),
      ass_conditions = protostate_Conditions (srs_conditions st),
      ass_updatedAt = protostate_Timestamp (srs_updatedAt st),
      ass_realizedRuleRevision = srs_realizedRuleRevision st,
      ass_realizedSkillRevision = srs_realizedSkillRevision st,
      ass_realizedMcpRevision = srs_realizedMCPRevision st,
      ass_observedHomeStateId = srs_observedHomeStateID st\<rparr>"

definition sessionStateFromResource :: "SessionResource option \<Rightarrow> AgentSessionState result" where
  "sessionStateFromResource resource =
     (case resource of None \<Rightarrow> Inl (session_validation ''session resource is invalid'') | Some r \<Rightarrow>
      (case sr_session r of None \<Rightarrow> Inl (session_validation ''session resource is invalid'') | Some spec \<Rightarrow>
       (let spec = (if ss_sessionId spec = [] then spec\<lparr>ss_sessionId := om_name (sr_meta r)\<rparr> else spec) in
        if ss_sessionId spec \<noteq> om_name (sr_meta r) then
          Inl (session_validation (''session id '' @ go_quote (ss_sessionId spec)
                 @ '' does not match resource name '' @ go_quote (om_name (sr_meta r))))
        else Inr
          \<lparr>ast_generation = om_generation (sr_meta r), ast_spec = Some spec,
           ast_status = Some (sessionStatusFromResourceStatus (r\<lparr>sr_session := Some spec\<rparr>) (sr_status r))\<rparr>)))"

section \<open>The warm state generation\<close>

definition observeStateGeneration ::
    "SessionResourceStatus option \<Rightarrow> AgentSessionSpec \<Rightarrow> int \<Rightarrow> bool \<Rightarrow> int \<times> string" where
  "observeStateGeneration status session generation warmStateReady =
     (let currentHomeStateID = TrimSpace (getf [] id (ss_homeStateRef session)) in
      if \<not> warmStateReady \<or> currentHomeStateID = [] then (0, [])
      else
        (let previousGeneration = getf 0 srs_stateGeneration status;
             previousHomeStateID = getf [] (\<lambda>st. TrimSpace (srs_observedHomeStateID st)) status
         in if previousGeneration = 0 \<or> previousHomeStateID \<noteq> currentHomeStateID
            then (generation, currentHomeStateID)
            else (previousGeneration, currentHomeStateID)))"

section \<open>Round trips\<close>

lemma phase_roundtrip:
  "p \<in> {SPhaseUnset, SPending, SReady, SRunning, SFailed} \<Longrightarrow>
     resourceSessionPhase (toProtoSessionPhase p) = p"
  by (auto simp: resourceSessionPhase_def toProtoSessionPhase_def)

lemma proto_phase_roundtrip [simp]: "toProtoSessionPhase (resourceSessionPhase p) = p"
  by (cases p) (simp_all add: resourceSessionPhase_def toProtoSessionPhase_def)

lemma conditions_roundtrip:
  "list_all (\<lambda>c. mc_status c \<in> {MetaTrue, MetaFalse, MetaUnknown}) cs \<Longrightarrow>
     sessionMetaConditions (protostate_Conditions cs) = cs"
  by (induction cs)
    (auto simp: sessionMetaConditions_def protostate_Conditions_def List.map_filter_def
      sessionMetaConditionStatus_def protostate_ConditionStatus_def)

lemma activeRun_roundtrip [simp]: "TrimSpace (getf [] id (activeRunRef r)) = TrimSpace r"
  by (simp add: activeRunRef_def)

lemma Timestamp_roundtrip: "t \<noteq> Some 0 \<Longrightarrow> protostate_Timestamp t = t"
  by (auto simp: protostate_Timestamp_def time_is_zero_def split: option.splits)

text \<open>What a status must satisfy for the message to carry all of it.\<close>

definition session_status_canonical :: "SessionResourceStatus \<Rightarrow> bool" where
  "session_status_canonical st \<longleftrightarrow>
     srs_phase st \<in> {SPhaseUnset, SPending, SReady, SRunning, SFailed} \<and>
     list_all (\<lambda>c. mc_status c \<in> {MetaTrue, MetaFalse, MetaUnknown}) (srs_conditions st) \<and>
     TrimSpace (srs_activeRunID st) = srs_activeRunID st \<and> srs_updatedAt st \<noteq> Some 0"

lemma session_status_roundtrip:
  "session_status_canonical st \<Longrightarrow>
     resourceStatusFromState (Some (sessionStatusFromResourceStatus r st)) = st"
  by (simp add: session_status_canonical_def resourceStatusFromState_def
      sessionStatusFromResourceStatus_def phase_roundtrip conditions_roundtrip Timestamp_roundtrip)

lemma ResourceFromState_ok:
  "ResourceFromState st ns = Inr r \<Longrightarrow>
     \<exists>s spec. st = Some s \<and> ast_spec s = Some spec \<and> sr_session r = Some spec \<and>
       om_name (sr_meta r) = TrimSpace (ss_sessionId spec) \<and> om_name (sr_meta r) \<noteq> [] \<and>
       om_generation (sr_meta r) = ast_generation s \<and> sr_status r = resourceStatusFromState (ast_status s)"
  by (auto simp: ResourceFromState_def Let_def split: option.splits if_splits)

end
