(* ===== verification/Session_Store.thy ===== *)
theory Session_Store
  imports Session_Resource
begin

text \<open>
  \<open>packages/session\<close>: the Postgres repository of sessions.

  The table \<open>platform_sessions\<close> is a map from ids to rows (payload and generation column), the
  outbox the list of enqueued events. A stored time is \<^const>\<open>None\<close> for a text that
  \<open>time.Parse(RFC3339Nano)\<close> refuses; formatting a time and parsing it gives it back. The session spec inside
  a payload is protojson, a JSON value of type \<open>'j\<close>, and \<open>protojson\<close> is the parameter \<open>codec\<close>.

  An operation runs in a transaction (\<open>doTx\<close>): it works on the database and its changes are kept
  only if it and the commit succeed. What Postgres, the clock and the random source do in one
  call is the argument \<open>env\<close>: each field is the error of that request, if any, the time, and the
  event id. A failed commit is taken not to have been applied.
\<close>

section \<open>Stored resources\<close>

record StoredCondition =
  sc_type :: string
  sc_status :: string
  sc_reason :: string
  sc_message :: string
  sc_observedGeneration :: int
  sc_lastTransitionTime :: "time option"

record StoredStatus =
  sst_observedGeneration :: int
  sst_conditions :: "StoredCondition list"
  sst_phase :: string
  sst_runtimeConfigGeneration :: int
  sst_resourceConfigGeneration :: int
  sst_realizedRuleRevision :: string
  sst_realizedSkillRevision :: string
  sst_realizedMCPRevision :: string
  sst_observedHomeStateID :: string
  sst_stateGeneration :: int
  sst_message :: string
  sst_activeRunID :: string
  sst_updatedAt :: "time option"

record 'j StoredSession =
  sto_apiVersion :: string
  sto_kind :: string
  sto_name :: string
  sto_namespace :: string
  sto_generation :: int
  sto_resourceVersion :: string
  sto_creationTimestamp :: "time option"
  sto_finalizers :: "string list"
  sto_session :: "'j option"
  sto_status :: StoredStatus

record 'j codec =
  pj_marshal :: "AgentSessionSpec \<Rightarrow> 'j result"
  pj_unmarshal :: "'j \<Rightarrow> AgentSessionSpec result"

definition codec_ok :: "'j codec \<Rightarrow> bool" where
  "codec_ok c \<longleftrightarrow> (\<forall>s j. pj_marshal c s = Inr j \<longrightarrow> pj_unmarshal c j = Inr s)"

definition invalid_argument :: "string \<Rightarrow> go_error" where
  "invalid_argument m = GrpcError InvalidArgument m"

definition failed_precondition :: "string \<Rightarrow> go_error" where
  "failed_precondition m = GrpcError FailedPrecondition m"

text \<open>\<open>postgres_conditions.go\<close>\<close>

definition conditionStatusFromResource :: "string \<Rightarrow> ConditionStatus" where
  "conditionStatusFromResource s =
     (let t = TrimSpace s in
      if t \<in> set [''True'', ''true'', ''CONDITION_STATUS_TRUE''] then ConditionStatusTrue
      else if t \<in> set [''False'', ''false'', ''CONDITION_STATUS_FALSE''] then ConditionStatusFalse
      else if t \<in> set [''Unknown'', ''unknown'', ''CONDITION_STATUS_UNKNOWN''] then ConditionStatusUnknown
      else ConditionStatusUnspecified)"

definition resourceConditionStatus :: "ConditionStatus \<Rightarrow> string" where
  "resourceConditionStatus s = (case s of ConditionStatusTrue \<Rightarrow> ''True'' | ConditionStatusFalse \<Rightarrow> ''False''
     | ConditionStatusUnknown \<Rightarrow> ''Unknown'' | _ \<Rightarrow> [])"

definition conditionsFromResource :: "StoredCondition list \<Rightarrow> Condition option list" where
  "conditionsFromResource items = map (\<lambda>i. Some
     \<lparr>cond_type = sc_type i, cond_status = conditionStatusFromResource (sc_status i),
      cond_reason = sc_reason i, cond_message = sc_message i,
      cond_observedGeneration = sc_observedGeneration i,
      cond_lastTransitionTime = sc_lastTransitionTime i\<rparr>) items"

definition conditionsToResource :: "Condition option list \<Rightarrow> StoredCondition list" where
  "conditionsToResource items = List.map_filter (map_option (\<lambda>i.
     \<lparr>sc_type = cond_type i, sc_status = resourceConditionStatus (cond_status i),
      sc_reason = cond_reason i, sc_message = cond_message i,
      sc_observedGeneration = cond_observedGeneration i,
      sc_lastTransitionTime = cond_lastTransitionTime i\<rparr>)) items"

text \<open>\<open>postgres_resource.go\<close>\<close>

definition sessionPhase :: "string \<Rightarrow> AgentSessionPhase" where
  "sessionPhase s =
     (let t = TrimSpace s in
      if t = ''PENDING'' then SessionPhasePending else if t = ''READY'' then SessionPhaseReady
      else if t = ''RUNNING'' then SessionPhaseRunning else if t = ''FAILED'' then SessionPhaseFailed
      else SessionPhaseUnspecified)"

definition resourcePhase :: "AgentSessionPhase \<Rightarrow> string" where
  "resourcePhase p = (case p of SessionPhasePending \<Rightarrow> ''PENDING'' | SessionPhaseReady \<Rightarrow> ''READY''
     | SessionPhaseRunning \<Rightarrow> ''RUNNING'' | SessionPhaseFailed \<Rightarrow> ''FAILED'' | _ \<Rightarrow> [])"

definition empty_stored_status :: StoredStatus where
  "empty_stored_status =
     \<lparr>sst_observedGeneration = 0, sst_conditions = [], sst_phase = [], sst_runtimeConfigGeneration = 0,
      sst_resourceConfigGeneration = 0, sst_realizedRuleRevision = [], sst_realizedSkillRevision = [],
      sst_realizedMCPRevision = [], sst_observedHomeStateID = [], sst_stateGeneration = 0,
      sst_message = [], sst_activeRunID = [], sst_updatedAt = None\<rparr>"

definition marshalSessionSpec :: "'j codec \<Rightarrow> AgentSessionSpec \<Rightarrow> 'j result" where
  "marshalSessionSpec codec session = pj_marshal codec session"

definition newAgentSessionResource ::
    "'j codec \<Rightarrow> string \<Rightarrow> AgentSessionSpec \<Rightarrow> int \<Rightarrow> time \<Rightarrow> 'j StoredSession result" where
  "newAgentSessionResource codec namespace session generation now =
     (case marshalSessionSpec codec session of Inl e \<Rightarrow> Inl e | Inr payload \<Rightarrow> Inr
       \<lparr>sto_apiVersion = GroupVersion, sto_kind = ''AgentSessionResource'',
        sto_name = ss_sessionId session, sto_namespace = namespace, sto_generation = generation,
        sto_resourceVersion = show_int generation, sto_creationTimestamp = Some now,
        sto_finalizers = [], sto_session = Some payload, sto_status = empty_stored_status\<rparr>)"

definition specFromAgentSessionResource :: "'j codec \<Rightarrow> 'j StoredSession \<Rightarrow> AgentSessionSpec result" where
  "specFromAgentSessionResource codec r =
     (case sto_session r of None \<Rightarrow> Inl (invalid_argument ''session resource is invalid'')
      | Some j \<Rightarrow> (case pj_unmarshal codec j of Inl e \<Rightarrow> Inl e | Inr spec \<Rightarrow> Inr spec))"

definition status_of_stored :: "string \<Rightarrow> StoredStatus \<Rightarrow> AgentSessionStatus" where
  "status_of_stored sessionID st =
     \<lparr>ass_sessionId = sessionID, ass_phase = sessionPhase (sst_phase st),
      ass_observedGeneration = sst_observedGeneration st,
      ass_runtimeConfigGeneration = sst_runtimeConfigGeneration st,
      ass_resourceConfigGeneration = sst_resourceConfigGeneration st,
      ass_stateGeneration = sst_stateGeneration st, ass_message = sst_message st,
      ass_activeRun = (let a = TrimSpace (sst_activeRunID st) in if a \<noteq> [] then Some a else None),
      ass_conditions = conditionsFromResource (sst_conditions st),
      ass_updatedAt = sst_updatedAt st,
      ass_realizedRuleRevision = sst_realizedRuleRevision st,
      ass_realizedSkillRevision = sst_realizedSkillRevision st,
      ass_realizedMcpRevision = sst_realizedMCPRevision st,
      ass_observedHomeStateId = sst_observedHomeStateID st\<rparr>"

definition stateFromAgentSessionResource ::
    "'j codec \<Rightarrow> 'j StoredSession \<Rightarrow> int \<Rightarrow> AgentSessionState result" where
  "stateFromAgentSessionResource codec r generation =
     (case specFromAgentSessionResource codec r of Inl e \<Rightarrow> Inl e | Inr spec \<Rightarrow>
      (let spec = (if ss_sessionId spec = [] then spec\<lparr>ss_sessionId := sto_name r\<rparr> else spec) in
       Inr \<lparr>ast_generation = generation, ast_spec = Some spec,
            ast_status = Some (status_of_stored (ss_sessionId spec) (sto_status r))\<rparr>))"

text \<open>\<open>postgres_status.go\<close>\<close>

definition resourceStatusFromProto :: "AgentSessionStatus \<Rightarrow> StoredStatus" where
  "resourceStatusFromProto st =
     \<lparr>sst_observedGeneration = ass_observedGeneration st,
      sst_conditions = conditionsToResource (ass_conditions st),
      sst_phase = resourcePhase (ass_phase st),
      sst_runtimeConfigGeneration = ass_runtimeConfigGeneration st,
      sst_resourceConfigGeneration = ass_resourceConfigGeneration st,
      sst_realizedRuleRevision = ass_realizedRuleRevision st,
      sst_realizedSkillRevision = ass_realizedSkillRevision st,
      sst_realizedMCPRevision = ass_realizedMcpRevision st,
      sst_observedHomeStateID = ass_observedHomeStateId st,
      sst_stateGeneration = ass_stateGeneration st,
      sst_message = ass_message st,
      sst_activeRunID = (case ass_activeRun st of None \<Rightarrow> [] | Some r \<Rightarrow> TrimSpace r),
      sst_updatedAt = ass_updatedAt st\<rparr>"

section \<open>Normalization\<close>

text \<open>\<open>spec.go\<close>, \<open>status.go\<close>\<close>

definition DefaultWorkspaceRef :: "string \<Rightarrow> string" where
  "DefaultWorkspaceRef sessionID = TrimSpace sessionID @ ''-workspace''"

definition DefaultHomeStateRef :: "string \<Rightarrow> string" where
  "DefaultHomeStateRef sessionID = TrimSpace sessionID @ ''-home''"

definition NormalizeSpec :: "string \<Rightarrow> AgentSessionSpec option \<Rightarrow> AgentSessionSpec result" where
  "NormalizeSpec sessionID spec =
     (let sessionID = TrimSpace sessionID in
      if sessionID = [] then Inl (invalid_argument ''session_id is required'')
      else case spec of None \<Rightarrow> Inl (invalid_argument ''session is required'')
      | Some next \<Rightarrow>
        (let current = TrimSpace (ss_sessionId next) in
         if current \<noteq> [] \<and> current \<noteq> sessionID
         then Inl (invalid_argument ''session.session_id must match session_id'')
         else
           (let next = next\<lparr>ss_sessionId := sessionID\<rparr>;
                next = (if ss_workspaceRef next = None
                        then next\<lparr>ss_workspaceRef := Some (DefaultWorkspaceRef sessionID)\<rparr> else next);
                next = (if ss_homeStateRef next = None
                        then next\<lparr>ss_homeStateRef := Some (DefaultHomeStateRef sessionID)\<rparr> else next)
            in Inr next)))"

definition empty_session_spec :: AgentSessionSpec where
  "empty_session_spec =
     \<lparr>ss_sessionId = [], ss_providerId = [], ss_profileId = [], ss_runtimeConfig = None,
      ss_resourceConfig = None, ss_workspaceRef = None, ss_homeStateRef = None,
      ss_profileGeneration = 0, ss_executionClass = [], ss_prepareJobs = []\<rparr>"

definition NewProfileSpec :: "string \<Rightarrow> string \<Rightarrow> AgentSessionSpec result" where
  "NewProfileSpec sessionID profileID =
     (let profileID = TrimSpace profileID in
      if profileID = [] then Inl (invalid_argument ''profileId is required'')
      else NormalizeSpec sessionID (Some (empty_session_spec\<lparr>ss_profileId := profileID\<rparr>)))"

definition NormalizeStatus :: "time \<Rightarrow> string \<Rightarrow> AgentSessionStatus option \<Rightarrow> AgentSessionStatus result" where
  "NormalizeStatus now sessionID current =
     (let sessionID = TrimSpace sessionID in
      if sessionID = [] then Inl (invalid_argument ''session_id is required'')
      else case current of None \<Rightarrow> Inl (invalid_argument ''session status is required'')
      | Some next \<Rightarrow>
        (let statusSessionID = TrimSpace (ass_sessionId next) in
         if statusSessionID \<noteq> [] \<and> statusSessionID \<noteq> sessionID
         then Inl (invalid_argument ''status.session_id must match session_id'')
         else
           (let next = next\<lparr>ass_sessionId := sessionID\<rparr> in
            Inr (if ass_updatedAt next = None then next\<lparr>ass_updatedAt := Some now\<rparr> else next))))"

section \<open>The database\<close>

datatype DomainMutation = MutationCreated | MutationUpdated | MutationStatusUpdated | MutationDeleted

text \<open>\<open>postgres_events.go\<close>\<close>

definition sessionMutation :: "string \<Rightarrow> DomainMutation" where
  "sessionMutation v =
     (let t = TrimSpace v in
      if t = ''created'' then MutationCreated else if t = ''status_updated'' then MutationStatusUpdated
      else if t = ''deleted'' then MutationDeleted else MutationUpdated)"

text \<open>The three replacements of \<open>domainSubjectToken\<close> act on single characters.\<close>

definition domainSubjectToken :: "string \<Rightarrow> string" where
  "domainSubjectToken v =
     (let v = map (\<lambda>c. if c \<in> set ''.*>'' then CHR ''_'' else c) (TrimSpace (ToLower v)) in
      if v = [] then ''_'' else v)"

definition domainSubject :: "string \<Rightarrow> string \<Rightarrow> string" where
  "domainSubject aggregateType eventType =
     (let aggregate = domainSubjectToken aggregateType;
          mutation = domainSubjectToken (ToLower eventType);
          mutation = (if mutation = [] \<or> mutation = ''_'' then ''changed'' else mutation)
      in ''platform.domain.'' @ aggregate @ ''.'' @ mutation)"

record OutboxEvent =
  ev_eventId :: string
  ev_subject :: string
  ev_eventType :: string
  ev_aggregateType :: string
  ev_aggregateId :: string
  ev_aggregateVersion :: int
  ev_occurredAt :: time
  ev_producer :: string
  ev_mutation :: DomainMutation
  ev_state :: AgentSessionState

record 'j sdb =
  db_rows :: "string \<Rightarrow> ('j StoredSession \<times> int) option"
  db_outbox :: "OutboxEvent list"

record senv =
  se_begin :: "go_error option"
  se_query :: "go_error option"
  se_exec :: "go_error option"
  se_enqueue :: "go_error option"
  se_commit :: "go_error option"
  se_now :: time
  se_eventID :: string

record repo =
  repo_namespace :: string
  repo_producer :: string

definition newPostgresRepository :: "string \<Rightarrow> string \<Rightarrow> repo" where
  "newPostgresRepository namespace producer =
     (let namespace = TrimSpace namespace; producer = TrimSpace producer in
      \<lparr>repo_namespace = (if namespace = [] then ''code-code'' else namespace),
       repo_producer = (if producer = [] then ''platform-chat-service'' else producer)\<rparr>)"

text \<open>\<open>doTx\<close> of \<open>postgres_store.go\<close>.\<close>

definition doTx :: "senv \<Rightarrow> ('db \<Rightarrow> 'a result \<times> 'db) \<Rightarrow> 'db \<Rightarrow> 'a result \<times> 'db" where
  "doTx env fn db =
     (case se_begin env of Some e \<Rightarrow> (Inl e, db) | None \<Rightarrow>
      (case fn db of (Inl e, _) \<Rightarrow> (Inl e, db)
       | (Inr x, db') \<Rightarrow> (case se_commit env of Some e \<Rightarrow> (Inl e, db) | None \<Rightarrow> (Inr x, db'))))"

text \<open>
  \<open>getResourceWithLock\<close>. The lock keeps other transactions from the row until this one ends;
  within one transaction it changes nothing.
\<close>

definition getResource ::
    "repo \<Rightarrow> senv \<Rightarrow> string \<Rightarrow> 'j sdb \<Rightarrow> ('j StoredSession \<times> int) result" where
  "getResource r env sessionID db =
     (let sid = TrimSpace sessionID in
      case se_query env of Some e \<Rightarrow> Inl e | None \<Rightarrow>
      (case db_rows db sid of None \<Rightarrow> Inl (GrpcError NotFound ''session not found'')
       | Some (res, generation) \<Rightarrow>
         (let res = (if sto_name res = [] then res\<lparr>sto_name := sid\<rparr> else res);
              res = (if sto_namespace res = [] then res\<lparr>sto_namespace := repo_namespace r\<rparr> else res)
          in Inr (res, generation))))"

text \<open>\<open>update platform_sessions set payload = ... where id = ...\<close>\<close>

definition exec_update ::
    "senv \<Rightarrow> string \<Rightarrow> 'j StoredSession \<Rightarrow> int \<Rightarrow> 'j sdb \<Rightarrow> unit result \<times> 'j sdb" where
  "exec_update env sessionID res generation db =
     (case se_exec env of Some e \<Rightarrow> (Inl e, db) | None \<Rightarrow>
      (case db_rows db sessionID of None \<Rightarrow> (Inl (GrpcError NotFound ''session not found''), db)
       | Some _ \<Rightarrow> (Inr (), db\<lparr>db_rows := (db_rows db)(sessionID \<mapsto> (res, generation))\<rparr>)))"

definition enqueueSessionEvent ::
    "repo \<Rightarrow> senv \<Rightarrow> string \<Rightarrow> AgentSessionState \<Rightarrow> 'j sdb \<Rightarrow> unit result \<times> 'j sdb" where
  "enqueueSessionEvent r env eventType state db =
     (let sessionID = TrimSpace (getf [] ss_sessionId (ast_spec state)) in
      if sessionID = [] then (Inl (PlainError ''code-code/session: session event missing session_id''), db)
      else case se_enqueue env of Some e \<Rightarrow> (Inl e, db) | None \<Rightarrow>
       (let event = \<lparr>ev_eventId = se_eventID env, ev_subject = domainSubject ''agent_session'' (TrimSpace eventType),
              ev_eventType = TrimSpace eventType, ev_aggregateType = ''agent_session'',
              ev_aggregateId = sessionID, ev_aggregateVersion = ast_generation state,
              ev_occurredAt = se_now env, ev_producer = repo_producer r,
              ev_mutation = sessionMutation eventType, ev_state = state\<rparr>
        in (Inr (), if ev_eventId event \<in> ev_eventId ` set (db_outbox db) then db
                    else db\<lparr>db_outbox := db_outbox db @ [event]\<rparr>)))"

section \<open>Operations\<close>

definition repo_Get ::
    "'j codec \<Rightarrow> repo \<Rightarrow> senv \<Rightarrow> string \<Rightarrow> 'j sdb \<Rightarrow> AgentSessionState result" where
  "repo_Get codec r env sessionID db =
     (let sessionID = TrimSpace sessionID in
      if sessionID = [] then Inl (invalid_argument ''session_id is required'')
      else case getResource r env sessionID db of Inl e \<Rightarrow> Inl e
      | Inr (res, generation) \<Rightarrow> stateFromAgentSessionResource codec res generation)"

definition finish_write ::
    "'j codec \<Rightarrow> repo \<Rightarrow> senv \<Rightarrow> string \<Rightarrow> 'j StoredSession \<Rightarrow> int \<Rightarrow> 'j sdb
      \<Rightarrow> AgentSessionState result \<times> 'j sdb" where
  "finish_write codec r env eventType res generation db =
     (case stateFromAgentSessionResource codec res generation of Inl e \<Rightarrow> (Inl e, db)
      | Inr state \<Rightarrow>
        (case enqueueSessionEvent r env eventType state db of
           (Inl e, db) \<Rightarrow> (Inl e, db) | (Inr _, db) \<Rightarrow> (Inr state, db)))"

definition repo_Create ::
    "'j codec \<Rightarrow> repo \<Rightarrow> senv \<Rightarrow> AgentSessionSpec option \<Rightarrow> 'j sdb \<Rightarrow> AgentSessionState result \<times> 'j sdb" where
  "repo_Create codec r env session db = doTx env (\<lambda>db.
     case session of None \<Rightarrow> (Inl (invalid_argument ''session is required''), db)
     | Some s \<Rightarrow>
       (case NormalizeSpec (TrimSpace (ss_sessionId s)) session of Inl e \<Rightarrow> (Inl e, db)
        | Inr normalized \<Rightarrow>
          (case newAgentSessionResource codec (repo_namespace r) normalized 1 (se_now env) of
             Inl e \<Rightarrow> (Inl e, db)
           | Inr res \<Rightarrow>
             (case se_exec env of Some e \<Rightarrow> (Inl e, db) | None \<Rightarrow>
              (case db_rows db (ss_sessionId normalized) of
                 Some _ \<Rightarrow> (Inl (GrpcError AlreadyExists ''session already exists''), db)
               | None \<Rightarrow> finish_write codec r env ''created'' res 1
                   (db\<lparr>db_rows := (db_rows db)(ss_sessionId normalized \<mapsto> (res, 1))\<rparr>)))))) db"

definition repo_Update ::
    "'j codec \<Rightarrow> repo \<Rightarrow> senv \<Rightarrow> string \<Rightarrow> AgentSessionSpec option \<Rightarrow> 'j sdb
      \<Rightarrow> AgentSessionState result \<times> 'j sdb" where
  "repo_Update codec r env sessionID session db = doTx env (\<lambda>db.
     let sessionID = TrimSpace sessionID in
     if sessionID = [] then (Inl (invalid_argument ''session_id is required''), db)
     else case NormalizeSpec sessionID session of Inl e \<Rightarrow> (Inl e, db)
     | Inr normalized \<Rightarrow>
       (case getResource r env sessionID db of Inl e \<Rightarrow> (Inl e, db)
        | Inr (current, generation) \<Rightarrow>
          (case specFromAgentSessionResource codec current of Inl e \<Rightarrow> (Inl e, db)
           | Inr currentSpec \<Rightarrow>
             if currentSpec = normalized
             then (stateFromAgentSessionResource codec current generation, db)
             else
               (let nextGeneration = i64 (generation + 1) in
                case marshalSessionSpec codec normalized of Inl e \<Rightarrow> (Inl e, db)
                | Inr payload \<Rightarrow>
                  (let current = current\<lparr>sto_generation := nextGeneration,
                         sto_resourceVersion := show_int nextGeneration, sto_session := Some payload\<rparr> in
                   case exec_update env sessionID current nextGeneration db of (Inl e, db) \<Rightarrow> (Inl e, db)
                   | (Inr _, db) \<Rightarrow> finish_write codec r env ''updated'' current nextGeneration db))))) db"

text \<open>
  \<open>UpdateStatus\<close> reads the row without a lock and writes it back: its two halves are separate
  steps when transactions run concurrently. \<open>Inl\<close> of the first half is an early return.
\<close>

definition updateStatus_read ::
    "'j codec \<Rightarrow> repo \<Rightarrow> senv \<Rightarrow> string \<Rightarrow> AgentSessionStatus option \<Rightarrow> 'j sdb
      \<Rightarrow> AgentSessionState result + ('j StoredSession \<times> int)" where
  "updateStatus_read codec r env sessionID sessionStatus db =
     (let sessionID = TrimSpace sessionID in
      if sessionID = [] then Inl (Inl (invalid_argument ''session_id is required''))
      else case NormalizeStatus (se_now env) sessionID sessionStatus of Inl e \<Rightarrow> Inl (Inl e)
      | Inr normalized \<Rightarrow>
        (case getResource r env sessionID db of Inl e \<Rightarrow> Inl (Inl e)
         | Inr (current, generation) \<Rightarrow>
           if ass_observedGeneration normalized \<noteq> 0 \<and> ass_observedGeneration normalized \<noteq> generation
           then Inl (Inl (failed_precondition
                  ''status.observed_generation does not match current session generation''))
           else case stateFromAgentSessionResource codec current generation of Inl e \<Rightarrow> Inl (Inl e)
           | Inr currentState \<Rightarrow>
             if ast_status currentState = Some normalized then Inl (Inr currentState)
             else Inr (current\<lparr>sto_generation := generation, sto_resourceVersion := show_int generation,
                               sto_status := resourceStatusFromProto normalized\<rparr>, generation)))"

text \<open>The statement sets the payload only; the generation column keeps its value.\<close>

definition exec_update_payload ::
    "senv \<Rightarrow> string \<Rightarrow> 'j StoredSession \<Rightarrow> 'j sdb \<Rightarrow> unit result \<times> 'j sdb" where
  "exec_update_payload env sessionID res db =
     (case se_exec env of Some e \<Rightarrow> (Inl e, db) | None \<Rightarrow>
      (case db_rows db sessionID of None \<Rightarrow> (Inl (GrpcError NotFound ''session not found''), db)
       | Some (_, g) \<Rightarrow> (Inr (), db\<lparr>db_rows := (db_rows db)(sessionID \<mapsto> (res, g))\<rparr>)))"

definition updateStatus_write ::
    "'j codec \<Rightarrow> repo \<Rightarrow> senv \<Rightarrow> string \<Rightarrow> 'j StoredSession \<times> int \<Rightarrow> 'j sdb
      \<Rightarrow> AgentSessionState result \<times> 'j sdb" where
  "updateStatus_write codec r env sessionID cur db =
     (case exec_update_payload env (TrimSpace sessionID) (fst cur) db of (Inl e, db) \<Rightarrow> (Inl e, db)
      | (Inr _, db) \<Rightarrow> finish_write codec r env ''status_updated'' (fst cur) (snd cur) db)"

definition repo_UpdateStatus ::
    "'j codec \<Rightarrow> repo \<Rightarrow> senv \<Rightarrow> string \<Rightarrow> AgentSessionStatus option \<Rightarrow> 'j sdb
      \<Rightarrow> AgentSessionState result \<times> 'j sdb" where
  "repo_UpdateStatus codec r env sessionID sessionStatus db = doTx env (\<lambda>db.
     case updateStatus_read codec r env sessionID sessionStatus db of
       Inl res \<Rightarrow> (res, db)
     | Inr cur \<Rightarrow> updateStatus_write codec r env sessionID cur db) db"

text \<open>\<open>postgres_active_run.go\<close>\<close>

definition writeResource ::
    "senv \<Rightarrow> string \<Rightarrow> 'j StoredSession \<Rightarrow> int \<Rightarrow> 'j sdb \<Rightarrow> ('j StoredSession) result \<times> 'j sdb" where
  "writeResource env sessionID res generation db =
     (let res = res\<lparr>sto_generation := generation, sto_resourceVersion := show_int generation\<rparr> in
      case exec_update_payload env sessionID res db of (Inl e, db) \<Rightarrow> (Inl e, db) | (Inr _, db) \<Rightarrow> (Inr res, db))"

definition resourceConditionTrue :: "StoredCondition list \<Rightarrow> string \<Rightarrow> bool" where
  "resourceConditionTrue cs t = list_ex (\<lambda>c. sc_type c = t \<and> sc_status c = ''True'') cs"

definition activeRunDispatchReady :: "StoredCondition list \<Rightarrow> bool" where
  "activeRunDispatchReady cs \<longleftrightarrow>
     resourceConditionTrue cs ''WorkspaceReady'' \<and> resourceConditionTrue cs ''WarmStateReady''"

fun setResourceCondition :: "StoredCondition list \<Rightarrow> StoredCondition \<Rightarrow> StoredCondition list" where
  "setResourceCondition [] next = [next]"
| "setResourceCondition (c # cs) next =
     (if sc_type c = sc_type next then
        (if sc_status c = sc_status next \<and> sc_reason c = sc_reason next \<and> sc_message c = sc_message next
            \<and> sc_observedGeneration c = sc_observedGeneration next
         then c # cs else next # cs)
      else c # setResourceCondition cs next)"

definition claimed_resource :: "'j StoredSession \<Rightarrow> string \<Rightarrow> int \<Rightarrow> time \<Rightarrow> 'j StoredSession" where
  "claimed_resource current runID generation now =
     current\<lparr>sto_status := (sto_status current)
       \<lparr>sst_activeRunID := runID, sst_phase := resourcePhase SessionPhaseRunning,
        sst_message := ''AgentSession has an active run.'', sst_updatedAt := Some now,
        sst_conditions := setResourceCondition (sst_conditions (sto_status current))
          \<lparr>sc_type = ''ReadyForNextRun'', sc_status = ''False'', sc_reason = ''ActiveRunInProgress'',
           sc_message = ''AgentSession has an active run.'', sc_observedGeneration = generation,
           sc_lastTransitionTime = Some now\<rparr>\<rparr>\<rparr>"

definition repo_ClaimActiveRun ::
    "'j codec \<Rightarrow> repo \<Rightarrow> senv \<Rightarrow> string \<Rightarrow> string \<Rightarrow> 'j sdb \<Rightarrow> AgentSessionState result \<times> 'j sdb" where
  "repo_ClaimActiveRun codec r env sessionID runID db = doTx env (\<lambda>db.
     let sessionID = TrimSpace sessionID; runID = TrimSpace runID in
     if sessionID = [] then (Inl (invalid_argument ''session_id is required''), db)
     else if runID = [] then (Inl (invalid_argument ''run_id is required''), db)
     else case getResource r env sessionID db of Inl e \<Rightarrow> (Inl e, db)
     | Inr (current, generation) \<Rightarrow>
       if sto_session current = None then (Inl (failed_precondition ''session is missing payload''), db)
       else
         (let activeRunID = TrimSpace (sst_activeRunID (sto_status current)) in
          if activeRunID \<noteq> [] \<and> activeRunID \<noteq> runID
          then (Inl (failed_precondition ''session already has an active run''), db)
          else if activeRunID = runID then (stateFromAgentSessionResource codec current generation, db)
          else if \<not> activeRunDispatchReady (sst_conditions (sto_status current))
          then (Inl (failed_precondition ''session is not ready to dispatch''), db)
          else case writeResource env sessionID (claimed_resource current runID generation (se_now env)) generation db of
            (Inl e, db) \<Rightarrow> (Inl e, db)
          | (Inr current, db) \<Rightarrow> finish_write codec r env ''status_updated'' current generation db)) db"

definition released_resource :: "'j StoredSession \<Rightarrow> time \<Rightarrow> 'j StoredSession" where
  "released_resource current now =
     current\<lparr>sto_status := (sto_status current)
       \<lparr>sst_activeRunID := [], sst_phase := resourcePhase SessionPhasePending,
        sst_message := ''AgentSession active run completed; waiting for readiness reconcile.'',
        sst_updatedAt := Some now\<rparr>\<rparr>"

definition is_grpc_not_found :: "go_error \<Rightarrow> bool" where
  "is_grpc_not_found e = grpc_not_found e"

definition repo_ReleaseActiveRun ::
    "'j codec \<Rightarrow> repo \<Rightarrow> senv \<Rightarrow> string \<Rightarrow> string \<Rightarrow> 'j sdb \<Rightarrow> bool result \<times> 'j sdb" where
  "repo_ReleaseActiveRun codec r env sessionID runID db = doTx env (\<lambda>db.
     let sessionID = TrimSpace sessionID; runID = TrimSpace runID in
     if sessionID = [] \<or> runID = [] then (Inr False, db)
     else case getResource r env sessionID db of
       Inl e \<Rightarrow> (if is_grpc_not_found e then (Inr False, db) else (Inl e, db))
     | Inr (current, generation) \<Rightarrow>
       if TrimSpace (sst_activeRunID (sto_status current)) \<noteq> runID then (Inr False, db)
       else case writeResource env sessionID (released_resource current (se_now env)) generation db of
         (Inl e, db) \<Rightarrow> (Inl e, db)
       | (Inr current, db) \<Rightarrow>
         (case finish_write codec r env ''status_updated'' current generation db of
            (Inl e, db) \<Rightarrow> (Inl e, db) | (Inr _, db) \<Rightarrow> (Inr True, db))) db"

section \<open>Transactions\<close>

lemma doTx_error: "doTx env fn db = (Inl e, db') \<Longrightarrow> db' = db"
  by (auto simp: doTx_def split: option.splits sum.splits prod.splits)

lemma doTx_ok:
  "doTx env fn db = (Inr x, db') \<Longrightarrow> fn db = (Inr x, db')"
  by (auto simp: doTx_def split: option.splits sum.splits prod.splits)

lemma doTx_no_fault:
  "se_begin env = None \<Longrightarrow> se_commit env = None \<Longrightarrow> fn db = (Inr x, db') \<Longrightarrow> doTx env fn db = (Inr x, db')"
  by (simp add: doTx_def)

lemma enqueue_rows [simp]: "db_rows (snd (enqueueSessionEvent r env t st db)) = db_rows db"
  by (auto simp: enqueueSessionEvent_def Let_def split: option.splits)

lemma finish_write_rows [simp]: "db_rows (snd (finish_write codec r env t res g db)) = db_rows db"
proof (cases "stateFromAgentSessionResource codec res g")
  case (Inr state)
  have "db_rows (snd (enqueueSessionEvent r env t state db)) = db_rows db" by simp
  with Inr show ?thesis
    by (cases "enqueueSessionEvent r env t state db") (auto simp: finish_write_def split: sum.splits)
qed (simp add: finish_write_def)

text \<open>Only the outbox changes once a write is finished, and the state returned is that of the row.\<close>

lemma finish_write_ok:
  "finish_write codec r env t res g db = (Inr st, db') \<Longrightarrow>
     stateFromAgentSessionResource codec res g = Inr st \<and> db_rows db' = db_rows db \<and>
     TrimSpace (getf [] ss_sessionId (ast_spec st)) \<noteq> []"
  using finish_write_rows [of codec r env t res g db]
  by (auto simp: finish_write_def enqueueSessionEvent_def Let_def
      split: sum.splits prod.splits if_splits option.splits)

section \<open>The active run slot\<close>

definition slot_of :: "StoredStatus \<Rightarrow> string option" where
  "slot_of st = (let a = TrimSpace (sst_activeRunID st) in if a = [] then None else Some a)"

definition db_slot :: "'j sdb \<Rightarrow> string \<Rightarrow> string option" where
  "db_slot db sid = (case db_rows db sid of None \<Rightarrow> None | Some (res, g) \<Rightarrow> slot_of (sto_status res))"

lemma getResource_ok:
  "getResource r env sid db = Inr (res, g) \<Longrightarrow>
     \<exists>res0. db_rows db (TrimSpace sid) = Some (res0, g) \<and> sto_status res = sto_status res0
       \<and> sto_session res = sto_session res0"
  by (auto simp: getResource_def Let_def split: option.splits if_splits)

lemma writeResource_ok:
  "writeResource env sid res g db = (Inr res', db') \<Longrightarrow>
     \<exists>res0 g0. db_rows db sid = Some (res0, g0) \<and>
       db' = db\<lparr>db_rows := (db_rows db)(sid \<mapsto> (res', g0))\<rparr> \<and> sto_status res' = sto_status res"
  by (auto simp: writeResource_def exec_update_payload_def Let_def split: option.splits)

lemma claimed_slot: "TrimSpace rid = rid \<Longrightarrow> rid \<noteq> [] \<Longrightarrow>
    slot_of (sto_status (claimed_resource cur rid g now)) = Some rid"
  by (simp add: claimed_resource_def slot_of_def)

lemma released_slot: "slot_of (sto_status (released_resource cur now)) = None"
  by (simp add: released_resource_def slot_of_def)

lemma claim_error: "repo_ClaimActiveRun codec r env sid rid db = (Inl e, db') \<Longrightarrow> db' = db"
  unfolding repo_ClaimActiveRun_def by (erule doTx_error)

lemma release_error: "repo_ReleaseActiveRun codec r env sid rid db = (Inl e, db') \<Longrightarrow> db' = db"
  unfolding repo_ReleaseActiveRun_def by (erule doTx_error)

text \<open>
  A claim that succeeds found the slot free or already held by the same run, and leaves it held by
  the run; every other session keeps its row.
\<close>

lemma claim_ok:
  assumes "repo_ClaimActiveRun codec r env sid rid db = (Inr st, db')"
  shows "db_slot db' (TrimSpace sid) = Some (TrimSpace rid)"
    and "db_slot db (TrimSpace sid) \<in> {None, Some (TrimSpace rid)}"
    and "x \<noteq> TrimSpace sid \<Longrightarrow> db_rows db' x = db_rows db x"
    and "TrimSpace sid \<noteq> []" and "TrimSpace rid \<noteq> []"
proof -
  let ?s = "TrimSpace sid" and ?r = "TrimSpace rid"
  from doTx_ok [OF assms [unfolded repo_ClaimActiveRun_def]]
  obtain cur g where ne: "?s \<noteq> []" "?r \<noteq> []" and get: "getResource r env ?s db = Inr (cur, g)"
    and cases: "slot_of (sto_status cur) = Some ?r \<and> db' = db
      \<or> slot_of (sto_status cur) = None \<and> (\<exists>cur' db1.
          writeResource env ?s (claimed_resource cur ?r g (se_now env)) g db = (Inr cur', db1) \<and>
          finish_write codec r env ''status_updated'' cur' g db1 = (Inr st, db'))"
    by (auto simp: Let_def slot_of_def split: if_splits sum.splits prod.splits)
  from getResource_ok [OF get] have slot: "db_slot db ?s = slot_of (sto_status cur)"
    by (auto simp: db_slot_def)
  show "?s \<noteq> []" "?r \<noteq> []" by fact+
  show "db_slot db ?s \<in> {None, Some ?r}" using cases slot by auto
  from cases have "db_slot db' ?s = Some ?r \<and> (x \<noteq> ?s \<longrightarrow> db_rows db' x = db_rows db x)"
  proof
    assume "slot_of (sto_status cur) = Some ?r \<and> db' = db"
    with slot show ?thesis by simp
  next
    assume "slot_of (sto_status cur) = None \<and> (\<exists>cur' db1.
          writeResource env ?s (claimed_resource cur ?r g (se_now env)) g db = (Inr cur', db1) \<and>
          finish_write codec r env ''status_updated'' cur' g db1 = (Inr st, db'))"
    then obtain cur' db1 where w: "writeResource env ?s (claimed_resource cur ?r g (se_now env)) g db = (Inr cur', db1)"
      and f: "finish_write codec r env ''status_updated'' cur' g db1 = (Inr st, db')" by blast
    from finish_write_ok [OF f] have "db_rows db' = db_rows db1" by simp
    with writeResource_ok [OF w] claimed_slot [of ?r cur g "se_now env"] ne(2)
    show ?thesis by (auto simp: db_slot_def)
  qed
  then show "db_slot db' ?s = Some ?r" and "x \<noteq> ?s \<Longrightarrow> db_rows db' x = db_rows db x" by simp_all
qed

lemma release_true:
  assumes "repo_ReleaseActiveRun codec r env sid rid db = (Inr True, db')"
  shows "db_slot db (TrimSpace sid) = Some (TrimSpace rid)" and "db_slot db' (TrimSpace sid) = None"
    and "x \<noteq> TrimSpace sid \<Longrightarrow> db_rows db' x = db_rows db x"
proof -
  let ?s = "TrimSpace sid" and ?r = "TrimSpace rid"
  from doTx_ok [OF assms [unfolded repo_ReleaseActiveRun_def]]
  obtain cur g cur' db1 st where ne: "?s \<noteq> []" "?r \<noteq> []"
    and get: "getResource r env ?s db = Inr (cur, g)"
    and act: "TrimSpace (sst_activeRunID (sto_status cur)) = ?r"
    and w: "writeResource env ?s (released_resource cur (se_now env)) g db = (Inr cur', db1)"
    and f: "finish_write codec r env ''status_updated'' cur' g db1 = (Inr st, db')"
    by (auto simp: Let_def split: if_splits sum.splits prod.splits)
  from getResource_ok [OF get] act ne(2) show "db_slot db ?s = Some ?r"
    by (auto simp: db_slot_def slot_of_def)
  from finish_write_ok [OF f] have rows: "db_rows db' = db_rows db1" by simp
  with writeResource_ok [OF w] released_slot [of cur "se_now env"]
  show "db_slot db' ?s = None" and "x \<noteq> ?s \<Longrightarrow> db_rows db' x = db_rows db x"
    by (auto simp: db_slot_def)
qed

lemma release_false: "repo_ReleaseActiveRun codec r env sid rid db = (Inr False, db') \<Longrightarrow> db' = db"
  unfolding repo_ReleaseActiveRun_def
  by (drule doTx_ok) (auto simp: Let_def split: if_splits sum.splits prod.splits)

end
