(* ===== verification/Active_Run_Slots.thy ===== *)
theory Active_Run_Slots
  imports Session_Store
begin

text \<open>
  The interfaces through which the agent runtime reaches the session store: the session repository
  (\<open>agentsessions/status.go\<close>), implemented by \<open>packages/session\<close>, and the active run slot manager
  (\<open>agentsessions/active_run.go\<close>), which the run service and the run reconciler use.

  The locale \<open>active_run_slots\<close> is the contract of the slot manager: at most one run holds the slot
  of a session, a claim by another run fails and changes nothing, and only the holder releases it.
  It is interpreted on \<open>ActiveRunManager\<close> over the Postgres repository.
\<close>

record 'w SessionRepository =
  sess_Get :: "string \<Rightarrow> 'w \<Rightarrow> AgentSessionState result \<times> 'w"
  sess_Update :: "string \<Rightarrow> AgentSessionSpec \<Rightarrow> 'w \<Rightarrow> AgentSessionState result \<times> 'w"
  sess_UpdateStatus :: "string \<Rightarrow> AgentSessionStatus \<Rightarrow> 'w \<Rightarrow> AgentSessionState result \<times> 'w"
  sess_ClaimActiveRun :: "string \<Rightarrow> string \<Rightarrow> 'w \<Rightarrow> AgentSessionState result \<times> 'w"
  sess_ReleaseActiveRun :: "string \<Rightarrow> string \<Rightarrow> 'w \<Rightarrow> bool result \<times> 'w"

section \<open>The slot manager\<close>

definition ActiveRunManager_Claim ::
    "'w SessionRepository \<Rightarrow> string \<Rightarrow> string \<Rightarrow> string \<Rightarrow> 'w \<Rightarrow> SessionResource result \<times> 'w" where
  "ActiveRunManager_Claim sessions namespace sessionID runID w =
     (let sessionID = TrimSpace sessionID; runID = TrimSpace runID in
      if sessionID = [] then (Inl (DomainValidation ''platformk8s/agentsessions: session_id is required''), w)
      else if runID = [] then (Inl (DomainValidation ''platformk8s/agentsessions: run_id is required''), w)
      else case sess_ClaimActiveRun sessions sessionID runID w of
        (Inl e, w) \<Rightarrow> (Inl e, w)
      | (Inr state, w) \<Rightarrow> (ResourceFromState (Some state) namespace, w))"

definition ActiveRunManager_Release ::
    "'w SessionRepository \<Rightarrow> string \<Rightarrow> string \<Rightarrow> 'w \<Rightarrow> bool result \<times> 'w" where
  "ActiveRunManager_Release sessions sessionID runID w =
     (let sessionID = TrimSpace sessionID; runID = TrimSpace runID in
      if sessionID = [] \<or> runID = [] then (Inr False, w)
      else sess_ReleaseActiveRun sessions sessionID runID w)"

definition ActiveRunManager_Load ::
    "'w SessionRepository \<Rightarrow> string \<Rightarrow> string \<Rightarrow> 'w \<Rightarrow> SessionResource result \<times> 'w" where
  "ActiveRunManager_Load sessions namespace sessionID w =
     (case sess_Get sessions (TrimSpace sessionID) w of
        (Inl e, w) \<Rightarrow> (Inl e, w)
      | (Inr state, w) \<Rightarrow> (ResourceFromState (Some state) namespace, w))"

section \<open>The Postgres repository behind the interface\<close>

text \<open>
  The world of the repository: its database, and an oracle that gives each call its environment.
  The worlds of other components extend this record.
\<close>

record 'j sworld =
  sw_db :: "'j sdb"
  sw_env :: "nat \<Rightarrow> senv"
  sw_tick :: nat

definition sw_call ::
    "(senv \<Rightarrow> 'j sdb \<Rightarrow> 'a result \<times> 'j sdb) \<Rightarrow> ('j, 'z) sworld_scheme \<Rightarrow> 'a result \<times> ('j, 'z) sworld_scheme" where
  "sw_call f w = (case f (sw_env w (sw_tick w)) (sw_db w) of (res, db) \<Rightarrow>
     (res, w\<lparr>sw_db := db, sw_tick := Suc (sw_tick w)\<rparr>))"

definition pg_sessions :: "'j codec \<Rightarrow> repo \<Rightarrow> ('j, 'z) sworld_scheme SessionRepository" where
  "pg_sessions codec r =
     \<lparr>sess_Get = (\<lambda>sid. sw_call (\<lambda>env db. (repo_Get codec r env sid db, db))),
      sess_Update = (\<lambda>sid spec. sw_call (\<lambda>env. repo_Update codec r env sid (Some spec))),
      sess_UpdateStatus = (\<lambda>sid st. sw_call (\<lambda>env. repo_UpdateStatus codec r env sid (Some st))),
      sess_ClaimActiveRun = (\<lambda>sid rid. sw_call (\<lambda>env. repo_ClaimActiveRun codec r env sid rid)),
      sess_ReleaseActiveRun = (\<lambda>sid rid. sw_call (\<lambda>env. repo_ReleaseActiveRun codec r env sid rid))\<rparr>"

definition sw_slot :: "('j, 'z) sworld_scheme \<Rightarrow> string \<Rightarrow> string option" where
  "sw_slot w sid = db_slot (sw_db w) sid"

section \<open>The contract\<close>

locale active_run_slots =
  fixes claim :: "string \<Rightarrow> string \<Rightarrow> 'w \<Rightarrow> 'r result \<times> 'w"
    and release :: "string \<Rightarrow> string \<Rightarrow> 'w \<Rightarrow> bool result \<times> 'w"
    and slot :: "'w \<Rightarrow> string \<Rightarrow> string option"
  assumes claim_holds: "claim sid rid w = (Inr r, w') \<Longrightarrow> slot w' (TrimSpace sid) = Some (TrimSpace rid)"
    and claim_free: "claim sid rid w = (Inr r, w') \<Longrightarrow> slot w (TrimSpace sid) \<in> {None, Some (TrimSpace rid)}"
    and claim_other: "claim sid rid w = (x, w') \<Longrightarrow> s \<noteq> TrimSpace sid \<Longrightarrow> slot w' s = slot w s"
    and claim_fails: "claim sid rid w = (Inl e, w') \<Longrightarrow> slot w' s = slot w s"
    and release_holder: "release sid rid w = (Inr True, w') \<Longrightarrow> slot w (TrimSpace sid) = Some (TrimSpace rid)"
    and release_clears: "release sid rid w = (Inr True, w') \<Longrightarrow> slot w' (TrimSpace sid) = None"
    and release_other: "release sid rid w = (y, w') \<Longrightarrow> s \<noteq> TrimSpace sid \<Longrightarrow> slot w' s = slot w s"
    and release_idle: "release sid rid w = (Inr False, w') \<Longrightarrow> slot w' s = slot w s"
    and release_fails: "release sid rid w = (Inl e, w') \<Longrightarrow> slot w' s = slot w s"
begin

lemma claim_excludes:
  "slot w (TrimSpace sid) = Some a \<Longrightarrow> a \<noteq> TrimSpace rid \<Longrightarrow> \<exists>e w'. claim sid rid w = (Inl e, w')"
  using claim_free [of sid rid w] by (cases "claim sid rid w") (metis insert_iff option.distinct(1)
      option.inject singletonD sum.exhaust_sel)

text \<open>The claims and releases of any clients, in any order.\<close>

inductive slot_step :: "'w \<Rightarrow> 'w \<Rightarrow> bool" where
  step_claim: "claim sid rid w = (x, w') \<Longrightarrow> slot_step w w'"
| step_release: "release sid rid w = (y, w') \<Longrightarrow> slot_step w w'"

text \<open>A slot that changes hands is free in between.\<close>

lemma slot_step_free:
  "slot_step w w' \<Longrightarrow> slot w s = Some a \<Longrightarrow> slot w' s \<in> {None, Some a}"
proof (induction rule: slot_step.induct)
  case (step_claim sid rid w x w')
  show ?case
  proof (cases x)
    case (Inl e)
    with step_claim claim_fails [of sid rid w e w' s] show ?thesis by simp
  next
    case (Inr r)
    show ?thesis
    proof (cases "s = TrimSpace sid")
      case True
      with step_claim Inr claim_free [of sid rid w r w'] claim_holds [of sid rid w r w'] show ?thesis by auto
    next
      case False
      with step_claim claim_other [of sid rid w x w' s] show ?thesis by simp
    qed
  qed
next
  case (step_release sid rid w y w')
  show ?case
  proof (cases "s = TrimSpace sid")
    case True
    show ?thesis
    proof (cases y)
      case (Inl e)
      with step_release release_fails [of sid rid w e w' s] show ?thesis by simp
    next
      case (Inr b)
      with step_release True release_idle [of sid rid w w' s] release_clears [of sid rid w w']
      show ?thesis by (cases b) simp_all
    qed
  next
    case False
    with step_release release_other [of sid rid w y w' s] show ?thesis by simp
  qed
qed

lemma slot_keeps_holder:
  assumes "slot_step w w'" and "slot w s = Some a" and "slot w' s \<noteq> Some a"
  shows "\<exists>sid rid. TrimSpace sid = s \<and> TrimSpace rid = a \<and> release sid rid w = (Inr True, w')"
  using assms
proof (induction rule: slot_step.induct)
  case (step_claim sid rid w x w')
  show ?case
  proof (cases x)
    case (Inl e)
    with step_claim claim_fails [of sid rid w e w' s] show ?thesis by simp
  next
    case (Inr r)
    with step_claim claim_free [of sid rid w r w'] claim_holds [of sid rid w r w']
      claim_other [of sid rid w x w' s] show ?thesis by (cases "s = TrimSpace sid") auto
  qed
next
  case (step_release sid rid w y w')
  then have s: "s = TrimSpace sid" using release_other [of sid rid w y w' s] by metis
  show ?case
  proof (cases y)
    case (Inl e)
    with step_release release_fails [of sid rid w e w' s] show ?thesis by simp
  next
    case (Inr b)
    with step_release release_idle [of sid rid w w' s] have b: b by (cases b) simp_all
    with step_release Inr s have "release sid rid w = (Inr True, w')" and "slot w (TrimSpace sid) = Some a"
      by simp_all
    with s release_holder [of sid rid w w'] show ?thesis by force
  qed
qed

text \<open>A claim that is rolled back leaves every slot as it was, if the run did not hold it before.\<close>

lemma claim_rollback:
  assumes "claim sid rid w = (Inr r, w1)" and "release sid rid w1 = (Inr True, w2)"
    and "slot w (TrimSpace sid) \<noteq> Some (TrimSpace rid)"
  shows "slot w2 s = slot w s"
proof (cases "s = TrimSpace sid")
  case True
  from claim_free [OF assms(1)] assms(3) have "slot w (TrimSpace sid) = None" by simp
  with True release_clears [OF assms(2)] show ?thesis by simp
next
  case False
  with claim_other [OF assms(1)] release_other [OF assms(2)] show ?thesis by simp
qed

end

section \<open>The Postgres slot manager keeps the contract\<close>

lemma sw_call_split:
  "sw_call f w = (x, w') \<longleftrightarrow>
     (\<exists>db. f (sw_env w (sw_tick w)) (sw_db w) = (x, db) \<and>
       w' = w\<lparr>sw_db := db, sw_tick := Suc (sw_tick w)\<rparr>)"
  by (auto simp: sw_call_def split: prod.splits)

text \<open>A state the repository returns from a claim is that of a session with an id.\<close>

lemma claim_resource:
  assumes "repo_ClaimActiveRun codec r env sid rid db = (Inr st, db')"
    and "ResourceFromState (Some st) ns = Inl e"
  shows "db' = db"
proof (rule ccontr)
  assume ne: "db' \<noteq> db"
  let ?s = "TrimSpace sid" and ?r = "TrimSpace rid"
  from doTx_ok [OF assms(1) [unfolded repo_ClaimActiveRun_def]] ne
  obtain cur' db1 g where "finish_write codec r env ''status_updated'' cur' g db1 = (Inr st, db')"
    by (auto simp: Let_def split: if_splits sum.splits prod.splits)
  from finish_write_ok [OF this]
  have st: "stateFromAgentSessionResource codec cur' g = Inr st"
    and id: "TrimSpace (getf [] ss_sessionId (ast_spec st)) \<noteq> []" by simp_all
  from id obtain spec where "ast_spec st = Some spec" by (cases "ast_spec st") auto
  with id assms(2) show False by (simp add: ResourceFromState_def Let_def)
qed

lemma claim_other_any:
  "repo_ClaimActiveRun codec r env sid rid db = (x, db') \<Longrightarrow> s \<noteq> TrimSpace sid \<Longrightarrow>
     db_slot db' s = db_slot db s"
  by (cases x) (auto simp: db_slot_def dest: claim_error claim_ok(3))

lemma release_other_any:
  "repo_ReleaseActiveRun codec r env sid rid db = (x, db') \<Longrightarrow> s \<noteq> TrimSpace sid \<Longrightarrow>
     db_slot db' s = db_slot db s"
proof (cases x)
  case (Inr b)
  assume "repo_ReleaseActiveRun codec r env sid rid db = (x, db')" "s \<noteq> TrimSpace sid"
  with Inr show ?thesis by (cases b) (auto simp: db_slot_def dest: release_false release_true(3))
qed (auto dest: release_error)

interpretation pg_slots: active_run_slots
  "ActiveRunManager_Claim (pg_sessions codec r) ns"
  "ActiveRunManager_Release (pg_sessions codec r)"
  sw_slot
  for codec :: "'j codec" and r :: repo and ns :: string
proof (unfold_locales, goal_cases)
  case (1 sid rid w x w')
  then show ?case
    by (auto simp: ActiveRunManager_Claim_def Let_def pg_sessions_def sw_call_split sw_slot_def
        split: if_splits prod.splits sum.splits dest!: claim_ok(1))
next
  case (2 sid rid w x w')
  then show ?case
    by (auto simp: ActiveRunManager_Claim_def Let_def pg_sessions_def sw_call_split sw_slot_def
        split: if_splits prod.splits sum.splits dest!: claim_ok(2))
next
  case (3 sid rid w x w' s)
  then show ?case
    by (auto simp: ActiveRunManager_Claim_def Let_def pg_sessions_def sw_call_split sw_slot_def
        split: if_splits prod.splits sum.splits dest: claim_other_any)
next
  case (4 sid rid w e w' s)
  then show ?case
    by (auto simp: ActiveRunManager_Claim_def Let_def pg_sessions_def sw_call_split sw_slot_def
        split: if_splits prod.splits sum.splits dest: claim_error claim_resource)
next
  case (5 sid rid w w')
  then show ?case
    by (auto simp: ActiveRunManager_Release_def Let_def pg_sessions_def sw_call_split sw_slot_def
        split: if_splits dest: release_true(1))
next
  case (6 sid rid w w')
  then show ?case
    by (auto simp: ActiveRunManager_Release_def Let_def pg_sessions_def sw_call_split sw_slot_def
        split: if_splits dest: release_true(2))
next
  case (7 sid rid w x w' s)
  then show ?case
    by (auto simp: ActiveRunManager_Release_def Let_def pg_sessions_def sw_call_split sw_slot_def
        split: if_splits dest: release_other_any)
next
  case (8 sid rid w w' s)
  then show ?case
    by (auto simp: ActiveRunManager_Release_def Let_def pg_sessions_def sw_call_split sw_slot_def
        split: if_splits dest: release_false)
next
  case (9 sid rid w e w' s)
  then show ?case
    by (auto simp: ActiveRunManager_Release_def Let_def pg_sessions_def sw_call_split sw_slot_def
        split: if_splits dest: release_error)
qed

end
