(* ===== verification/Session_Invariants.thy ===== *)
theory Session_Invariants
  imports Active_Run_Slots
begin

text \<open>
  The invariant of the session table, that every operation of the repository keeps, and what the
  operations do on a table that satisfies it when the database reports no error.
\<close>

section \<open>The invariant\<close>

definition row_ok :: "'j codec \<Rightarrow> string \<Rightarrow> 'j StoredSession \<Rightarrow> bool" where
  "row_ok codec sid res \<longleftrightarrow> TrimSpace sid = sid \<and> sid \<noteq> [] \<and>
     (\<exists>j spec. sto_session res = Some j \<and> pj_unmarshal codec j = Inr spec \<and> ss_sessionId spec = sid)"

definition sdb_ok :: "'j codec \<Rightarrow> 'j sdb \<Rightarrow> bool" where
  "sdb_ok codec db \<longleftrightarrow> (\<forall>sid res g. db_rows db sid = Some (res, g) \<longrightarrow> row_ok codec sid res)"

text \<open>A request that Postgres answers without an error.\<close>

definition healthy :: "senv \<Rightarrow> bool" where
  "healthy env \<longleftrightarrow> se_begin env = None \<and> se_query env = None \<and> se_exec env = None \<and>
     se_enqueue env = None \<and> se_commit env = None"

lemma sdb_ok_rows: "db_rows db' = db_rows db \<Longrightarrow> sdb_ok codec db' = sdb_ok codec db"
  by (simp add: sdb_ok_def)

lemma sdb_ok_update:
  "sdb_ok codec db \<Longrightarrow> row_ok codec sid res \<Longrightarrow>
     sdb_ok codec (db\<lparr>db_rows := (db_rows db)(sid \<mapsto> (res, g))\<rparr>)"
  by (auto simp: sdb_ok_def)

lemma row_ok_status [simp]:
  "row_ok codec sid (res\<lparr>sto_status := s\<rparr>) = row_ok codec sid res"
  "row_ok codec sid (res\<lparr>sto_generation := g\<rparr>) = row_ok codec sid res"
  "row_ok codec sid (res\<lparr>sto_resourceVersion := v\<rparr>) = row_ok codec sid res"
  "row_ok codec sid (res\<lparr>sto_name := n\<rparr>) = row_ok codec sid res"
  "row_ok codec sid (res\<lparr>sto_namespace := n\<rparr>) = row_ok codec sid res"
  by (simp_all add: row_ok_def)

lemma row_ok_claimed [simp]: "row_ok codec sid (claimed_resource res rid g now) = row_ok codec sid res"
  by (simp add: claimed_resource_def)

lemma row_ok_released [simp]: "row_ok codec sid (released_resource res now) = row_ok codec sid res"
  by (simp add: released_resource_def)

lemma getResource_row_ok:
  assumes "sdb_ok codec db" and "getResource r env sid db = Inr (res, g)"
  shows "row_ok codec (TrimSpace sid) res"
proof -
  from assms(2) obtain res0 where "db_rows db (TrimSpace sid) = Some (res0, g)"
    and s: "sto_session res = sto_session res0" using getResource_ok [OF assms(2)] by blast
  with assms(1) have "row_ok codec (TrimSpace sid) res0" by (auto simp: sdb_ok_def)
  with s show ?thesis by (simp add: row_ok_def)
qed

lemma exec_update_payload_ok:
  "exec_update_payload env sid res db = (Inr u, db') \<Longrightarrow> sdb_ok codec db \<Longrightarrow> row_ok codec sid res \<Longrightarrow>
     sdb_ok codec db'"
  by (auto simp: exec_update_payload_def split: option.splits intro: sdb_ok_update)

lemma writeResource_keeps:
  "writeResource env sid res g db = (Inr res', db') \<Longrightarrow> sdb_ok codec db \<Longrightarrow> row_ok codec sid res \<Longrightarrow>
     sdb_ok codec db' \<and> row_ok codec sid res'"
  by (auto simp: writeResource_def Let_def split: sum.splits prod.splits dest!: exec_update_payload_ok)

lemma finish_write_keeps:
  "finish_write codec r env t res g db = (x, db') \<Longrightarrow> sdb_ok codec db \<Longrightarrow> sdb_ok codec db'"
  by (metis finish_write_rows sdb_ok_rows snd_conv)

lemma NormalizeSpec_ok:
  "NormalizeSpec sid spec = Inr s \<Longrightarrow> ss_sessionId s = TrimSpace sid \<and> TrimSpace sid \<noteq> [] \<and>
     ss_workspaceRef s \<noteq> None \<and> ss_homeStateRef s \<noteq> None"
  by (auto simp: NormalizeSpec_def Let_def split: option.splits if_splits)

lemma NormalizeSpec_idem:
  "NormalizeSpec sid spec = Inr s \<Longrightarrow> NormalizeSpec sid (Some s) = Inr s"
  by (auto simp: NormalizeSpec_def Let_def split: option.splits if_splits)

lemma marshal_row_ok:
  "codec_ok codec \<Longrightarrow> marshalSessionSpec codec s = Inr j \<Longrightarrow> ss_sessionId s = TrimSpace sid \<Longrightarrow>
     TrimSpace sid \<noteq> [] \<Longrightarrow> sto_session res = Some j \<Longrightarrow> row_ok codec (TrimSpace sid) res"
  by (auto simp: row_ok_def codec_ok_def marshalSessionSpec_def)

section \<open>Every operation keeps it\<close>

lemma doTx_keeps:
  "doTx env fn db = (x, db') \<Longrightarrow> I db \<Longrightarrow> (\<And>y db'. fn db = (Inr y, db') \<Longrightarrow> I db') \<Longrightarrow> I db'"
  by (cases x) (auto dest: doTx_error doTx_ok)

lemma Claim_keeps [wf_intros]:
  assumes "repo_ClaimActiveRun codec r env sid rid db = (x, db')" and ok: "sdb_ok codec db"
  shows "sdb_ok codec db'"
  using assms(1) [unfolded repo_ClaimActiveRun_def] ok
  by (rule doTx_keeps)
    (use ok in \<open>auto simp: Let_def split: if_splits sum.splits prod.splits
      dest!: writeResource_keeps [OF _ ok] finish_write_keeps dest: getResource_row_ok [OF ok]\<close>)

lemma Release_keeps [wf_intros]:
  assumes "repo_ReleaseActiveRun codec r env sid rid db = (x, db')" and ok: "sdb_ok codec db"
  shows "sdb_ok codec db'"
  using assms(1) [unfolded repo_ReleaseActiveRun_def] ok
  by (rule doTx_keeps)
    (use ok in \<open>auto simp: Let_def split: if_splits sum.splits prod.splits
      dest!: writeResource_keeps [OF _ ok] finish_write_keeps dest: getResource_row_ok [OF ok]\<close>)

lemma updateStatus_read_ok:
  "updateStatus_read codec r env sid st db = Inr (res, g) \<Longrightarrow> sdb_ok codec db \<Longrightarrow>
     row_ok codec (TrimSpace sid) res"
  by (auto simp: updateStatus_read_def Let_def split: if_splits sum.splits prod.splits
      dest: getResource_row_ok)

lemma updateStatus_write_keeps:
  "updateStatus_write codec r env sid (res, g) db = (Inr y, db') \<Longrightarrow> sdb_ok codec db \<Longrightarrow>
     row_ok codec (TrimSpace sid) res \<Longrightarrow> sdb_ok codec db'"
  by (auto simp: updateStatus_write_def split: sum.splits prod.splits
      dest!: exec_update_payload_ok finish_write_keeps)

lemma UpdateStatus_keeps [wf_intros]:
  assumes "repo_UpdateStatus codec r env sid st db = (x, db')" and ok: "sdb_ok codec db"
  shows "sdb_ok codec db'"
  using assms(1) [unfolded repo_UpdateStatus_def] ok
  by (rule doTx_keeps)
    (use ok in \<open>auto split: sum.splits dest: updateStatus_read_ok intro: updateStatus_write_keeps\<close>)

lemma Update_keeps [wf_intros]:
  assumes "repo_Update codec r env sid spec db = (x, db')" and ok: "sdb_ok codec db" and "codec_ok codec"
  shows "sdb_ok codec db'"
  using assms(1) [unfolded repo_Update_def] ok
proof (rule doTx_keeps)
  fix y db1
  assume "(let sessionID = TrimSpace sid in
     if sessionID = [] then (Inl (invalid_argument ''session_id is required''), db)
     else case NormalizeSpec sessionID spec of Inl e \<Rightarrow> (Inl e, db)
     | Inr normalized \<Rightarrow>
       (case getResource r env sessionID db of Inl e \<Rightarrow> (Inl e, db)
        | Inr (current, generation) \<Rightarrow>
          (case specFromAgentSessionResource codec current of Inl e \<Rightarrow> (Inl e, db)
           | Inr currentSpec \<Rightarrow>
             if currentSpec = normalized
             then (stateFromAgentSessionResource codec current generation, db)
             else
               (let nextGeneration = i64 (generation + 1) in
                case marshalSessionSpec codec normalized of Inl e \<Rightarrow> (Inl e, db)
                | Inr payload \<Rightarrow>
                  (let current = current\<lparr>sto_generation := nextGeneration,
                         sto_resourceVersion := show_int nextGeneration, sto_session := Some payload\<rparr> in
                   case exec_update env sessionID current nextGeneration db of (Inl e, db) \<Rightarrow> (Inl e, db)
                   | (Inr _, db) \<Rightarrow> finish_write codec r env ''updated'' current nextGeneration db)))))
     = (Inr y, db1)"
  then show "sdb_ok codec db1"
    using ok \<open>codec_ok codec\<close>
    by (auto simp: Let_def exec_update_def split: if_splits sum.splits prod.splits option.splits
        dest!: finish_write_keeps NormalizeSpec_ok intro!: sdb_ok_update marshal_row_ok)
qed

lemma Create_keeps [wf_intros]:
  assumes "repo_Create codec r env spec db = (x, db')" and ok: "sdb_ok codec db" and c: "codec_ok codec"
  shows "sdb_ok codec db'"
  using assms(1) [unfolded repo_Create_def] ok
proof (rule doTx_keeps)
  fix y db1
  assume a: "(case spec of None \<Rightarrow> (Inl (invalid_argument ''session is required''), db)
     | Some s \<Rightarrow>
       (case NormalizeSpec (TrimSpace (ss_sessionId s)) spec of Inl e \<Rightarrow> (Inl e, db)
        | Inr normalized \<Rightarrow>
          (case newAgentSessionResource codec (repo_namespace r) normalized 1 (se_now env) of
             Inl e \<Rightarrow> (Inl e, db)
           | Inr res \<Rightarrow>
             (case se_exec env of Some e \<Rightarrow> (Inl e, db) | None \<Rightarrow>
              (case db_rows db (ss_sessionId normalized) of
                 Some _ \<Rightarrow> (Inl (GrpcError AlreadyExists ''session already exists''), db)
               | None \<Rightarrow> finish_write codec r env ''created'' res 1
                   (db\<lparr>db_rows := (db_rows db)(ss_sessionId normalized \<mapsto> (res, 1))\<rparr>))))))
     = (Inr y, db1)"
  then obtain s where spec: "spec = Some s" by (cases spec) simp_all
  with a obtain n res where n: "NormalizeSpec (TrimSpace (ss_sessionId s)) spec = Inr n"
    and res: "newAgentSessionResource codec (repo_namespace r) n 1 (se_now env) = Inr res"
    and f: "finish_write codec r env ''created'' res 1
       (db\<lparr>db_rows := (db_rows db)(ss_sessionId n \<mapsto> (res, 1))\<rparr>) = (Inr y, db1)"
    by (auto split: option.splits sum.splits)
  from NormalizeSpec_ok [OF n] res c have "row_ok codec (TrimSpace (ss_sessionId s)) res"
    by (auto simp: newAgentSessionResource_def split: sum.splits intro: marshal_row_ok)
  with NormalizeSpec_ok [OF n] ok
  have "sdb_ok codec (db\<lparr>db_rows := (db_rows db)(ss_sessionId n \<mapsto> (res, 1))\<rparr>)"
    by (simp add: sdb_ok_update)
  with f show "sdb_ok codec db1" by (rule finish_write_keeps)
qed

section \<open>What a healthy database answers\<close>

lemma getResource_healthy:
  "healthy env \<Longrightarrow> db_rows db (TrimSpace sid) = Some (res0, g) \<Longrightarrow>
     \<exists>res. getResource r env sid db = Inr (res, g) \<and> sto_status res = sto_status res0
       \<and> sto_session res = sto_session res0"
  by (simp add: getResource_def healthy_def Let_def)

lemma writeResource_healthy:
  "healthy env \<Longrightarrow> db_rows db sid = Some (res0, g0) \<Longrightarrow>
     \<exists>res'. writeResource env sid res g db = (Inr res', db\<lparr>db_rows := (db_rows db)(sid \<mapsto> (res', g0))\<rparr>)
       \<and> sto_status res' = sto_status res \<and> sto_session res' = sto_session res"
  by (simp add: writeResource_def exec_update_payload_def healthy_def Let_def)

lemma state_of_row_ok:
  "row_ok codec sid res \<Longrightarrow> \<exists>spec. specFromAgentSessionResource codec res = Inr spec \<and> ss_sessionId spec = sid \<and>
     stateFromAgentSessionResource codec res g = Inr
       \<lparr>ast_generation = g, ast_spec = Some spec, ast_status = Some (status_of_stored sid (sto_status res))\<rparr>"
  by (auto simp: row_ok_def specFromAgentSessionResource_def stateFromAgentSessionResource_def Let_def)

lemma finish_write_healthy:
  assumes "healthy env" and "row_ok codec sid res"
  shows "\<exists>st db'. finish_write codec r env t res g db = (Inr st, db')
    \<and> stateFromAgentSessionResource codec res g = Inr st"
proof -
  from state_of_row_ok [OF assms(2), of g] obtain spec where "ss_sessionId spec = sid"
    and "stateFromAgentSessionResource codec res g = Inr
       \<lparr>ast_generation = g, ast_spec = Some spec, ast_status = Some (status_of_stored sid (sto_status res))\<rparr>"
    by blast
  with assms show ?thesis
    by (simp add: finish_write_def enqueueSessionEvent_def Let_def healthy_def row_ok_def)
qed

text \<open>The holder of a slot can always release it.\<close>

lemma release_healthy:
  assumes h: "healthy env" and ok: "sdb_ok codec db"
    and slot: "db_slot db (TrimSpace sid) = Some (TrimSpace rid)"
  shows "\<exists>db'. repo_ReleaseActiveRun codec r env sid rid db = (Inr True, db')"
proof -
  let ?s = "TrimSpace sid" and ?r = "TrimSpace rid"
  from slot obtain res0 g where row: "db_rows db ?s = Some (res0, g)"
    and act: "TrimSpace (sst_activeRunID (sto_status res0)) = ?r" and ne: "?r \<noteq> []"
    by (auto simp: db_slot_def slot_of_def Let_def split: option.splits if_splits)
  from ok row have rok: "row_ok codec ?s res0" by (auto simp: sdb_ok_def)
  then have sne: "?s \<noteq> []" by (simp add: row_ok_def)
  from getResource_healthy [OF h, of db ?s res0 g r] row obtain res
    where get: "getResource r env ?s db = Inr (res, g)" and st: "sto_status res = sto_status res0"
      and ss: "sto_session res = sto_session res0" by auto
  from writeResource_healthy [OF h row, of "released_resource res (se_now env)" g] obtain res'
    where w: "writeResource env ?s (released_resource res (se_now env)) g db =
        (Inr res', db\<lparr>db_rows := (db_rows db)(?s \<mapsto> (res', g))\<rparr>)"
      and s': "sto_session res' = sto_session (released_resource res (se_now env))" by blast
  have "row_ok codec ?s res'" using rok s' ss by (simp add: row_ok_def released_resource_def)
  from finish_write_healthy [OF h this] obtain st1 db1
    where f: "finish_write codec r env ''status_updated'' res' g
        (db\<lparr>db_rows := (db_rows db)(?s \<mapsto> (res', g))\<rparr>) = (Inr st1, db1)" by blast
  have "repo_ReleaseActiveRun codec r env sid rid db = (Inr True, db1)"
    unfolding repo_ReleaseActiveRun_def
    by (rule doTx_no_fault) (use h sne ne get st act w f in \<open>simp_all add: healthy_def Let_def\<close>)
  then show ?thesis by blast
qed

text \<open>A free slot of a session that is ready to dispatch can always be claimed.\<close>

lemma claim_healthy:
  assumes h: "healthy env" and ok: "sdb_ok codec db"
    and row: "db_rows db (TrimSpace sid) = Some (res0, g)" and free: "slot_of (sto_status res0) = None"
    and ready: "activeRunDispatchReady (sst_conditions (sto_status res0))" and ne: "TrimSpace rid \<noteq> []"
  shows "\<exists>st db'. repo_ClaimActiveRun codec r env sid rid db = (Inr st, db')"
proof -
  let ?s = "TrimSpace sid" and ?r = "TrimSpace rid"
  from ok row have rok: "row_ok codec ?s res0" by (auto simp: sdb_ok_def)
  then have sne: "?s \<noteq> []" by (simp add: row_ok_def)
  from getResource_healthy [OF h, of db ?s res0 g r] row obtain res
    where get: "getResource r env ?s db = Inr (res, g)" and st: "sto_status res = sto_status res0"
      and ss: "sto_session res = sto_session res0" by auto
  from rok ss have some: "sto_session res \<noteq> None" by (auto simp: row_ok_def)
  from free st have act: "TrimSpace (sst_activeRunID (sto_status res)) = []"
    by (simp add: slot_of_def Let_def split: if_splits)
  from writeResource_healthy [OF h row, of "claimed_resource res ?r g (se_now env)" g] obtain res'
    where w: "writeResource env ?s (claimed_resource res ?r g (se_now env)) g db =
        (Inr res', db\<lparr>db_rows := (db_rows db)(?s \<mapsto> (res', g))\<rparr>)"
      and s': "sto_session res' = sto_session (claimed_resource res ?r g (se_now env))" by blast
  have "row_ok codec ?s res'" using rok s' ss by (simp add: row_ok_def claimed_resource_def)
  from finish_write_healthy [OF h this] obtain st1 db1
    where f: "finish_write codec r env ''status_updated'' res' g
        (db\<lparr>db_rows := (db_rows db)(?s \<mapsto> (res', g))\<rparr>) = (Inr st1, db1)" by blast
  have "repo_ClaimActiveRun codec r env sid rid db = (Inr st1, db1)"
    unfolding repo_ClaimActiveRun_def
    by (rule doTx_no_fault)
      (use h sne ne get st act some ready w f in \<open>simp_all add: healthy_def Let_def\<close>)
  then show ?thesis by blast
qed

text \<open>A run that holds a slot can claim it again: nothing is written.\<close>

lemma claim_again_healthy:
  assumes h: "healthy env" and ok: "sdb_ok codec db"
    and slot: "db_slot db (TrimSpace sid) = Some (TrimSpace rid)"
  shows "\<exists>st. repo_ClaimActiveRun codec r env sid rid db = (Inr st, db)"
proof -
  let ?s = "TrimSpace sid" and ?r = "TrimSpace rid"
  from slot obtain res0 g where row: "db_rows db ?s = Some (res0, g)"
    and act: "TrimSpace (sst_activeRunID (sto_status res0)) = ?r" and ne: "?r \<noteq> []"
    by (auto simp: db_slot_def slot_of_def Let_def split: option.splits if_splits)
  from getResource_healthy [OF h, of db ?s res0 g r] row obtain res
    where get: "getResource r env ?s db = Inr (res, g)" and st: "sto_status res = sto_status res0" by auto
  from getResource_row_ok [OF ok get] have rok: "row_ok codec ?s res" by simp
  then have sne: "?s \<noteq> []" and some: "sto_session res \<noteq> None" by (auto simp: row_ok_def)
  from state_of_row_ok [OF rok, of g] obtain st1
    where "stateFromAgentSessionResource codec res g = Inr st1" by blast
  then have "repo_ClaimActiveRun codec r env sid rid db = (Inr st1, db)"
    unfolding repo_ClaimActiveRun_def
    by (intro doTx_no_fault) (use h sne ne get st act some in \<open>simp_all add: healthy_def Let_def\<close>)
  then show ?thesis by blast
qed

text \<open>The session a claim returns carries the id under which it was claimed.\<close>

lemma claim_state_id:
  assumes "repo_ClaimActiveRun codec r env sid rid db = (Inr st, db')" and ok: "sdb_ok codec db"
  shows "\<exists>spec. ast_spec st = Some spec \<and> ss_sessionId spec = TrimSpace sid"
proof -
  let ?s = "TrimSpace sid" and ?r = "TrimSpace rid"
  from doTx_ok [OF assms(1) [unfolded repo_ClaimActiveRun_def]]
  obtain cur g where get: "getResource r env ?s db = Inr (cur, g)"
    and cases: "stateFromAgentSessionResource codec cur g = Inr st \<or> (\<exists>cur' db1.
          writeResource env ?s (claimed_resource cur ?r g (se_now env)) g db = (Inr cur', db1) \<and>
          finish_write codec r env ''status_updated'' cur' g db1 = (Inr st, db'))"
    by (auto simp: Let_def split: if_splits sum.splits prod.splits)
  from getResource_row_ok [OF ok get] have rok: "row_ok codec ?s cur" by simp
  from cases show ?thesis
  proof
    assume "stateFromAgentSessionResource codec cur g = Inr st"
    with state_of_row_ok [OF rok, of g] show ?thesis by auto
  next
    assume "\<exists>cur' db1. writeResource env ?s (claimed_resource cur ?r g (se_now env)) g db = (Inr cur', db1) \<and>
          finish_write codec r env ''status_updated'' cur' g db1 = (Inr st, db')"
    then obtain cur' db1 where w: "writeResource env ?s (claimed_resource cur ?r g (se_now env)) g db = (Inr cur', db1)"
      and f: "finish_write codec r env ''status_updated'' cur' g db1 = (Inr st, db')" by blast
    from writeResource_keeps [OF w ok] rok have "row_ok codec ?s cur'" by simp
    with state_of_row_ok [OF this, of g] finish_write_ok [OF f] show ?thesis by auto
  qed
qed

end
