(* ===== verification/Run_Service.thy ===== *)
theory Run_Service
  imports Run_Derive Resource_Ops Session_Invariants
begin

text \<open>
  The run service (\<open>agentruns/service.go\<close>, \<open>control.go\<close>, \<open>result.go\<close>): runs are created, cancelled
  and given their result here; the reconciler of \<open>Run_Controller\<close> does the rest.

  The service is a record of what it is built from: the Kubernetes client and the uncached reader,
  the slot manager, the timeline sink, the clock and the random source, all calls over the world.
\<close>

record 'w Slots =
  slots_Claim :: "string \<Rightarrow> string \<Rightarrow> 'w \<Rightarrow> SessionResource result \<times> 'w"
  slots_Release :: "string \<Rightarrow> string \<Rightarrow> 'w \<Rightarrow> bool result \<times> 'w"

record 'w RunSvc =
  rsv_client :: "(RunResource, 'w) kube"
  rsv_reader_Get :: "string \<Rightarrow> string \<Rightarrow> 'w \<Rightarrow> RunResource result \<times> 'w"
  rsv_namespace :: string
  rsv_slots :: "'w Slots"
  rsv_sink :: "'w Sink option"
  rsv_now :: "'w \<Rightarrow> time"
  rsv_rand :: "'w \<Rightarrow> nat list result"

definition run_sessionIDLabelKey :: string where
  "run_sessionIDLabelKey = ''agentrun.code-code.internal/session-id''"

definition runs_record ::
    "'w RunSvc \<Rightarrow> string \<Rightarrow> string \<Rightarrow> string \<Rightarrow> string \<Rightarrow> attributes \<Rightarrow> 'w \<Rightarrow> 'w" where
  "runs_record s sessionID eventType subject action attrs w =
     recordTimelineEvent (rsv_sink s) (rsv_now s w) sessionID eventType subject action attrs w"

definition runs_Get :: "'w RunSvc \<Rightarrow> string \<Rightarrow> 'w \<Rightarrow> AgentRunState result \<times> 'w" where
  "runs_Get s runID w =
     (case rsv_reader_Get s (rsv_namespace s) (TrimSpace runID) w of
        (Inl e, w) \<Rightarrow> (Inl e, w)
      | (Inr r, w) \<Rightarrow> (runStateFromResource (Some r), w))"

definition normalizeRun ::
    "SessionResource \<Rightarrow> CreateRunRequest \<Rightarrow> string \<Rightarrow> AgentRunSpec result" where
  "normalizeRun session request runID =
     (case sr_session session of None \<Rightarrow> Inl (DomainValidation ''platformk8s/agentruns: session is invalid'')
      | Some spec \<Rightarrow> buildRunSpec (ss_sessionId spec) (Some request) runID)"

definition empty_run_status :: RunResourceStatus where
  "empty_run_status =
     \<lparr>rrs_observedGeneration = 0, rrs_conditions = [], rrs_phase = RPhaseUnset, rrs_message = [],
      rrs_workloadID = [], rrs_resultSummary = None, rrs_prepareJobs = [], rrs_updatedAt = None\<rparr>"

definition runToResource ::
    "string \<Rightarrow> SessionResource \<Rightarrow> CreateRunRequest \<Rightarrow> string \<Rightarrow> RunResource result" where
  "runToResource namespace session request runID =
     (case normalizeRun session request runID of Inl e \<Rightarrow> Inl e
      | Inr run \<Rightarrow> Inr
         \<lparr>run_meta = \<lparr>om_name = rs_runId run, om_namespace = namespace, om_generation = 0,
            om_resourceVersion = [], om_labels = [(run_sessionIDLabelKey, TrimSpace (rs_sessionId run))],
            om_creationTimestamp = 0, om_deletionTimestamp = None, om_finalizers = []\<rparr>,
          run_spec = Some run, run_status = empty_run_status\<rparr>)"

text \<open>The deferred rollback of \<open>Create\<close>: it gives the slot back and records it.\<close>

definition runs_rollback :: "'w RunSvc \<Rightarrow> SessionResource \<Rightarrow> string \<Rightarrow> 'w \<Rightarrow> 'w" where
  "runs_rollback s session runID w =
     (let sid = getf [] ss_sessionId (sr_session session) in
      case slots_Release (rsv_slots s) sid runID w of
        (Inl e, w) \<Rightarrow> runs_record s sid ''FINISHED'' ''session_slot'' ''rollback''
                        [(''run_id'', runID), (''error'', TrimSpace (err_message e))] w
      | (Inr _, w) \<Rightarrow> runs_record s sid ''FINISHED'' ''session_slot'' ''rollback'' [(''run_id'', runID)] w)"

definition runs_Create ::
    "'w RunSvc \<Rightarrow> string \<Rightarrow> CreateRunRequest option \<Rightarrow> 'w \<Rightarrow> AgentRunState result \<times> 'w" where
  "runs_Create s sessionID request w =
     (case request of None \<Rightarrow> (Inl (DomainValidation ''platformk8s/agentruns: run request is nil''), w)
      | Some rq \<Rightarrow>
        (let sessionID = TrimSpace sessionID in
         case EnsureResourceID (rsv_rand s w) (TrimSpace (crr_RunID rq)) sessionID ''run'' of
           Inl e \<Rightarrow> (Inl e, w)
         | Inr runID \<Rightarrow>
           (case slots_Claim (rsv_slots s) sessionID runID w of
              (Inl e, w) \<Rightarrow> (Inl e, w)
            | (Inr session, w) \<Rightarrow>
              (case runToResource (rsv_namespace s) session rq runID of
                 Inl e \<Rightarrow> (Inl e, runs_rollback s session runID w)
               | Inr resource \<Rightarrow>
                 (case CreateResource (rsv_client s) ''*v1alpha1.AgentRunResource'' resource
                         (rsv_namespace s) (om_name (run_meta resource)) w of
                    (Inl e, w) \<Rightarrow>
                      (if is_api_already_exists e \<or> is_api_conflict e
                       then (Inl (DomainAlreadyExists (''platformk8s/agentruns: run ''
                               @ go_quote (om_name (run_meta resource)) @ '' already exists'')),
                             runs_rollback s session runID w)
                       else (Inl e, runs_rollback s session runID w))
                  | (Inr resource, w) \<Rightarrow>
                      (runStateFromResource (Some resource),
                       runs_record s (getf [] ss_sessionId (sr_session session)) ''SUBMITTED'' ''run''
                         ''create'' [(''run_id'', runID)] w))))))"

definition getRunResource :: "'w RunSvc \<Rightarrow> string \<Rightarrow> 'w \<Rightarrow> RunResource result \<times> 'w" where
  "getRunResource s runID w =
     (let runID = TrimSpace runID in
      if runID = [] then (Inl (DomainValidation ''platformk8s/agentruns: run_id is required''), w)
      else case rsv_reader_Get s (rsv_namespace s) runID w of
        (Inl e, w) \<Rightarrow>
          (if is_api_not_found e
           then (Inl (DomainNotFound (''platformk8s/agentruns: run '' @ go_quote runID @ '' not found'')), w)
           else (Inl e, w))
      | (Inr r, w) \<Rightarrow> (Inr r, w))"

definition missing_payload :: "string \<Rightarrow> go_error" where
  "missing_payload name =
     DomainValidation (''platformk8s/agentruns: run '' @ go_quote name @ '' is missing payload'')"

definition request_cancel :: "string \<Rightarrow> RunResource \<Rightarrow> RunResource result" where
  "request_cancel name current =
     (case run_spec current of None \<Rightarrow> Inl (missing_payload name)
      | Some spec \<Rightarrow> Inr (current\<lparr>run_spec := Some (spec\<lparr>rs_cancelRequested := True\<rparr>)\<rparr>))"

definition runs_Cancel :: "'w RunSvc \<Rightarrow> string \<Rightarrow> 'w \<Rightarrow> AgentRunState result \<times> 'w" where
  "runs_Cancel s runID w =
     (case getRunResource s runID w of (Inl e, w) \<Rightarrow> (Inl e, w)
      | (Inr resource, w) \<Rightarrow>
        (let name = om_name (run_meta resource) in
         case run_spec resource of None \<Rightarrow> (Inl (missing_payload name), w)
         | Some spec \<Rightarrow>
           if run_isTerminalPhase (rrs_phase (run_status resource)) \<or> rs_cancelRequested spec
           then (runStateFromResource (Some resource), w)
           else
             (case UpdateResource (rsv_client s) (rsv_namespace s) name (request_cancel name) w of
                (Inl e, w) \<Rightarrow>
                  (if is_api_not_found e
                   then (Inl (DomainNotFound (''platformk8s/agentruns: run '' @ go_quote name @ '' not found'')), w)
                   else (Inl e, w))
              | (Inr _, w) \<Rightarrow>
                (case getRunResource s name w of (Inl e, w) \<Rightarrow> (Inl e, w)
                 | (Inr updated, w) \<Rightarrow>
                   (runStateFromResource (Some updated),
                    runs_record s (getf [] rs_sessionId (run_spec updated)) ''STOP_REQUESTED'' ''run''
                      ''cancel'' [(''run_id'', getf [] rs_runId (run_spec updated))] w)))))"

text \<open>
  The session id the closure of \<open>PublishTerminalResult\<close> captures is that of the object it read
  last, which is the one written.
\<close>

definition put_result :: "string \<Rightarrow> RunResult \<Rightarrow> time \<Rightarrow> RunResource \<Rightarrow> RunResource result" where
  "put_result runID result now current =
     (case run_spec current of None \<Rightarrow> Inl (missing_payload runID)
      | Some spec \<Rightarrow> Inr (current\<lparr>run_status := (run_status current)
          \<lparr>rrs_resultSummary := Some (resultSummary result),
           rrs_message := terminalResultMessage result, rrs_updatedAt := Some now\<rparr>\<rparr>))"

definition runs_PublishTerminalResult ::
    "'w RunSvc \<Rightarrow> string \<Rightarrow> RunResult option \<Rightarrow> 'w \<Rightarrow> unit result \<times> 'w" where
  "runs_PublishTerminalResult s runID result w =
     (let runID = TrimSpace runID in
      if runID = [] then (Inl (DomainValidation ''platformk8s/agentruns: run_id is required''), w)
      else case result of
        None \<Rightarrow> (Inl (DomainValidation ''platformk8s/agentruns: terminal result is required''), w)
      | Some res \<Rightarrow>
        (case UpdateStatus (rsv_client s) (rsv_namespace s) runID (put_result runID res (rsv_now s w)) w of
           (Inl e, w) \<Rightarrow> (Inl e, w)
         | (Inr written, w) \<Rightarrow>
           (Inr (), runs_record s (getf [] rs_sessionId (run_spec written)) ''RESULT_RECORDED'' ''run''
              ''publish_terminal_result'' [(''run_id'', runID)] w)))"

section \<open>Results survive the summary\<close>

lemma run_status_value_name [simp]: "run_status_value (run_status_name v) = Some v"
  by (cases v) (simp_all add: run_status_value_def)

lemma run_status_name_plain [simp]: "TrimSpace (run_status_name v) = run_status_name v"
  by (rule TrimSpace_plain) (cases v; simp add: plain_char_def)+

text \<open>
  A summary keeps of a result what the retry decision reads: the status, and the error with its
  trimmed code and message. An error with neither text nor the retry flag is read back as none.
\<close>

definition trim_error :: "RunError option \<Rightarrow> RunError option" where
  "trim_error e = (case e of None \<Rightarrow> None | Some x \<Rightarrow>
     if TrimSpace (re_code x) = [] \<and> TrimSpace (re_message x) = [] \<and> \<not> re_retryable x then None
     else Some \<lparr>re_code = TrimSpace (re_code x), re_message = TrimSpace (re_message x),
                re_retryable = re_retryable x\<rparr>)"

lemma result_roundtrip:
  "resultFromSummary (Some (resultSummary r)) =
     Some \<lparr>rr_status = rr_status r, rr_resumeToken = [], rr_error = trim_error (rr_error r)\<rparr>"
  by (auto simp: resultFromSummary_def resultSummary_def trim_error_def Let_def split: option.splits)

section \<open>The slot of a run that could not be created\<close>

text \<open>What the calls outside the session store leave alone.\<close>

definition keeps_sessions :: "(('j, 'z) sworld_scheme \<Rightarrow> 'a \<times> ('j, 'z) sworld_scheme) \<Rightarrow> bool" where
  "keeps_sessions f \<longleftrightarrow> (\<forall>w. sw_db (snd (f w)) = sw_db w \<and> sw_env (snd (f w)) = sw_env w)"

definition sink_keeps_sessions :: "('j, 'z) sworld_scheme Sink option \<Rightarrow> bool" where
  "sink_keeps_sessions sink \<longleftrightarrow> (\<forall>s e. sink = Some s \<longrightarrow> keeps_sessions (sink_RecordEvent s e))"

text \<open>A created object comes back with the name and the spec it was sent with.\<close>

definition create_returns :: "(RunResource, 'w) kube \<Rightarrow> bool" where
  "create_returns k \<longleftrightarrow> (\<forall>obj obj' w w'. kube_Create k obj w = (Inr obj', w') \<longrightarrow>
     om_name (run_meta obj') = om_name (run_meta obj) \<and> run_spec obj' = run_spec obj)"

text \<open>
  The service as it is wired: its slots are those of the Postgres session repository, and its
  client, reader and sink do not touch the session store.
\<close>

definition pg_run_service :: "'j codec \<Rightarrow> repo \<Rightarrow> string \<Rightarrow> ('j, 'z) sworld_scheme RunSvc \<Rightarrow> bool" where
  "pg_run_service codec r ns s \<longleftrightarrow>
     rsv_slots s = \<lparr>slots_Claim = ActiveRunManager_Claim (pg_sessions codec r) ns,
                    slots_Release = ActiveRunManager_Release (pg_sessions codec r)\<rparr> \<and>
     (\<forall>obj. keeps_sessions (kube_Create (rsv_client s) obj)) \<and> create_returns (rsv_client s) \<and>
     sink_keeps_sessions (rsv_sink s)"

lemma runs_record_slot [simp]:
  "sink_keeps_sessions (rsv_sink s) \<Longrightarrow> sw_slot (runs_record s sid et su ac at w) x = sw_slot w x"
  unfolding runs_record_def
  by (rule recordTimelineEvent_invariant [where I = "\<lambda>v. sw_slot v x = sw_slot w x"])
    (auto simp: sink_keeps_sessions_def keeps_sessions_def sw_slot_def)

lemma CreateResource_keeps:
  "keeps_sessions (kube_Create k obj) \<Longrightarrow> CreateResource k kind obj ns name w = (x, w') \<Longrightarrow>
     sw_db w' = sw_db w \<and> sw_env w' = sw_env w"
  by (cases "kube_Create k obj w"; cases "fst (kube_Create k obj w)")
    (auto simp: CreateResource_def keeps_sessions_def wrap_def dest!: spec [of _ w])

lemma CreateResource_ok:
  "CreateResource k kind obj ns name w = (Inr obj', w') \<Longrightarrow> kube_Create k obj w = (Inr obj', w')"
  by (auto simp: CreateResource_def wrap_def split: sum.splits prod.splits)

text \<open>In a healthy world the rollback gives back a slot that the run holds.\<close>

lemma rollback_releases:
  assumes "pg_run_service codec r ns s" and "sdb_ok codec (sw_db w)" and "\<forall>n. healthy (sw_env w n)"
    and "sw_slot w (TrimSpace sid) = Some (TrimSpace rid)" and "TrimSpace sid \<noteq> []" and "TrimSpace rid \<noteq> []"
    and "getf [] ss_sessionId (sr_session session) = TrimSpace sid"
  shows "\<exists>w1. ActiveRunManager_Release (pg_sessions codec r) sid rid w = (Inr True, w1) \<and>
    (\<forall>x. sw_slot (runs_rollback s session rid w) x = sw_slot w1 x)"
proof -
  from assms release_healthy [of "sw_env w (sw_tick w)" codec "sw_db w" "TrimSpace sid" "TrimSpace rid" r]
  obtain db' where rel: "repo_ReleaseActiveRun codec r (sw_env w (sw_tick w)) (TrimSpace sid) (TrimSpace rid) (sw_db w)
      = (Inr True, db')" by (auto simp: sw_slot_def)
  let ?w1 = "w\<lparr>sw_db := db', sw_tick := Suc (sw_tick w)\<rparr>"
  have call: "ActiveRunManager_Release (pg_sessions codec r) sid' rid w = (Inr True, ?w1)"
    if "TrimSpace sid' = TrimSpace sid" for sid'
    using that rel assms(5,6) by (simp add: ActiveRunManager_Release_def Let_def pg_sessions_def sw_call_def)
  from assms(1) have sl: "slots_Release (rsv_slots s) = ActiveRunManager_Release (pg_sessions codec r)"
    and snk: "sink_keeps_sessions (rsv_sink s)" by (simp_all add: pg_run_service_def)
  have "sw_slot (runs_rollback s session rid w) x = sw_slot ?w1 x" for x
    using call [of "TrimSpace sid"] assms(7) by (simp add: runs_rollback_def Let_def sl snk)
  with call [of sid] show ?thesis by blast
qed

text \<open>A claim of the slot manager as the service sees it.\<close>

lemma Claim_ok:
  assumes "ActiveRunManager_Claim (pg_sessions codec r) ns sid rid w = (Inr session, w1)"
    and ok: "sdb_ok codec (sw_db w)"
  shows "sdb_ok codec (sw_db w1)" and "sw_env w1 = sw_env w" and "TrimSpace sid \<noteq> []" and "TrimSpace rid \<noteq> []"
    and "\<exists>spec. sr_session session = Some spec \<and> ss_sessionId spec = TrimSpace sid"
proof -
  from assms(1) obtain st db' where ne: "TrimSpace sid \<noteq> []" "TrimSpace rid \<noteq> []"
    and c: "repo_ClaimActiveRun codec r (sw_env w (sw_tick w)) (TrimSpace sid) (TrimSpace rid) (sw_db w) = (Inr st, db')"
    and w1: "w1 = w\<lparr>sw_db := db', sw_tick := Suc (sw_tick w)\<rparr>"
    and res: "ResourceFromState (Some st) ns = Inr session"
    by (auto simp: ActiveRunManager_Claim_def Let_def pg_sessions_def sw_call_split
        split: if_splits prod.splits sum.splits)
  show "TrimSpace sid \<noteq> []" "TrimSpace rid \<noteq> []" by fact+
  show "sdb_ok codec (sw_db w1)" using Claim_keeps [OF c ok] w1 by simp
  show "sw_env w1 = sw_env w" using w1 by simp
  from claim_state_id [OF c ok] ResourceFromState_ok [OF res]
  show "\<exists>spec. sr_session session = Some spec \<and> ss_sessionId spec = TrimSpace sid" by auto
qed

lemma EnsureResourceID_given [simp]: "rid \<noteq> [] \<Longrightarrow> EnsureResourceID rand rid d f = Inr rid"
  by (simp add: EnsureResourceID_def)

text \<open>
  The ways a creation with a given run id can fail: before the claim and at the claim nothing has
  happened to the slot; after it, the rollback has run.
\<close>

lemma runs_Create_fails:
  assumes create: "runs_Create s sid (Some rq) w = (Inl e, w')"
    and s: "pg_run_service codec r ns s" and rid: "rid = TrimSpace (crr_RunID rq)" "rid \<noteq> []"
    and ok: "sdb_ok codec (sw_db w)"
  shows "(\<exists>e'. ActiveRunManager_Claim (pg_sessions codec r) ns (TrimSpace sid) rid w = (Inl e', w')) \<or>
    (\<exists>session w1 w2. ActiveRunManager_Claim (pg_sessions codec r) ns (TrimSpace sid) rid w = (Inr session, w1) \<and>
       sw_db w2 = sw_db w1 \<and> sw_env w2 = sw_env w1 \<and> w' = runs_rollback s session rid w2)"
proof -
  have sl: "slots_Claim (rsv_slots s) = ActiveRunManager_Claim (pg_sessions codec r) ns"
    and kc: "keeps_sessions (kube_Create (rsv_client s) obj)"
    and cr: "create_returns (rsv_client s)" for obj
    using s by (simp_all add: pg_run_service_def)
  show ?thesis
  proof (cases "ActiveRunManager_Claim (pg_sessions codec r) ns (TrimSpace sid) rid w")
    case (Pair res w1)
    show ?thesis
    proof (cases res)
      case (Inl e')
      with Pair create rid sl show ?thesis by (simp add: runs_Create_def Let_def)
    next
      case (Inr session)
      show ?thesis
      proof (cases "runToResource (rsv_namespace s) session rq rid")
        case (Inl e')
        with Pair Inr create rid sl show ?thesis
          by (auto simp: runs_Create_def Let_def)
      next
        case R: (Inr resource)
        have name: "om_name (run_meta resource) = rid"
          and spec: "\<exists>sp. run_spec resource = Some sp \<and> rs_runId sp = rid"
          using R by (auto simp: runToResource_def normalizeRun_def buildRunSpec_def
              split: sum.splits option.splits)
        obtain x w2 where C: "CreateResource (rsv_client s) ''*v1alpha1.AgentRunResource'' resource
                         (rsv_namespace s) (om_name (run_meta resource)) w1 = (x, w2)" by fastforce
        note keep = CreateResource_keeps [OF kc C]
        show ?thesis
        proof (cases x)
          case (Inl e')
          with Pair Inr R C create rid sl keep show ?thesis
            by (auto simp: runs_Create_def Let_def split: if_splits)
        next
          case X: (Inr obj)
          with C have "kube_Create (rsv_client s) resource w1 = (Inr obj, w2)"
            by (auto dest: CreateResource_ok)
          with cr name spec have "om_name (run_meta obj) = rid" "run_spec obj = run_spec resource"
            by (auto simp: create_returns_def)
          with spec rid(2) obtain st where "runStateFromResource (Some obj) = Inr st"
            by (auto simp: runStateFromResource_def Let_def)
          with Pair Inr R C X create rid sl show ?thesis by (simp add: runs_Create_def Let_def)
        qed
      qed
    qed
  qed
qed

lemma Claim_again:
  assumes "sdb_ok codec (sw_db w)" and "healthy (sw_env w (sw_tick w))"
    and "sw_slot w (TrimSpace sid) = Some (TrimSpace rid)" and "TrimSpace rid \<noteq> []"
  shows "\<exists>session w1. ActiveRunManager_Claim (pg_sessions codec r) ns sid rid w = (Inr session, w1)"
proof -
  from assms(1,3) have sne: "TrimSpace sid \<noteq> []"
    by (auto simp: sdb_ok_def row_ok_def sw_slot_def db_slot_def split: option.splits prod.splits)
  from claim_again_healthy [OF assms(2,1), of "TrimSpace sid" "TrimSpace rid" r] assms(3) obtain st
    where c: "repo_ClaimActiveRun codec r (sw_env w (sw_tick w)) (TrimSpace sid) (TrimSpace rid) (sw_db w)
      = (Inr st, sw_db w)" by (auto simp: sw_slot_def)
  from claim_state_id [OF c assms(1)] sne have "\<exists>session. ResourceFromState (Some st) ns = Inr session"
    by (auto simp: ResourceFromState_def Let_def)
  with c sne assms(4) show ?thesis
    by (auto simp: ActiveRunManager_Claim_def Let_def pg_sessions_def sw_call_def)
qed

section \<open>Properties\<close>

text \<open>
  C5: A creation of a run that fails leaves the active run slot of every session as it was, whatever
  step failed: the slot that was claimed for the run is given back. It is assumed that the database
  answers without errors during the call, that the rows of the session table are well-formed, and
  that the slot was not already held by the same run.
\<close>
theorem runs_Create_failure_restores_slots:
  assumes "pg_run_service codec r ns s" and "sdb_ok codec (sw_db w)" and "\<forall>n. healthy (sw_env w n)"
    and "TrimSpace (crr_RunID rq) \<noteq> []"
    and "sw_slot w (TrimSpace sid) \<noteq> Some (TrimSpace (crr_RunID rq))"
    and "runs_Create s sid (Some rq) w = (Inl e, w')"
  shows "sw_slot w' x = sw_slot w x"
proof -
  let ?rid = "TrimSpace (crr_RunID rq)"
  from runs_Create_fails [OF assms(6,1) refl assms(4,2)] show ?thesis
  proof (elim disjE exE conjE)
    fix e'
    assume "ActiveRunManager_Claim (pg_sessions codec r) ns (TrimSpace sid) ?rid w = (Inl e', w')"
    then show ?thesis by (rule pg_slots.claim_fails)
  next
    fix session w1 w2
    assume c: "ActiveRunManager_Claim (pg_sessions codec r) ns (TrimSpace sid) ?rid w = (Inr session, w1)"
      and db: "sw_db w2 = sw_db w1" and env: "sw_env w2 = sw_env w1" and w': "w' = runs_rollback s session ?rid w2"
    note cl = Claim_ok [OF c assms(2)]
    have slot1: "sw_slot w2 y = sw_slot w1 y" for y by (simp add: sw_slot_def db)
    have held: "sw_slot w2 (TrimSpace sid) = Some ?rid" using pg_slots.claim_holds [OF c] slot1 by simp
    from cl(3,5) assms(3) cl(1,2,4) db env held
    obtain w3 where rel: "ActiveRunManager_Release (pg_sessions codec r) (TrimSpace sid) ?rid w2 = (Inr True, w3)"
      and eq: "\<forall>x. sw_slot w' x = sw_slot w3 x"
      using rollback_releases [OF assms(1), of w2 "TrimSpace sid" ?rid session] w' by auto
    show ?thesis
    proof (cases "x = TrimSpace sid")
      case True
      with pg_slots.claim_free [OF c] assms(5) pg_slots.release_clears [OF rel] eq show ?thesis by simp
    next
      case False
      with pg_slots.claim_other [OF c] pg_slots.release_other [OF rel] slot1 eq show ?thesis by simp
    qed
  qed
qed

text \<open>
  The rollback does not ask whether this creation claimed the slot: a creation that fails for a
  run which already holds the slot of the session frees the slot. A repeated creation of a run that
  exists fails with "already exists" this way, and another run can then be started beside the first.
\<close>

theorem runs_Create_failure_frees_held_slot:
  assumes "pg_run_service codec r ns s" and "sdb_ok codec (sw_db w)" and "\<forall>n. healthy (sw_env w n)"
    and "sw_slot w (TrimSpace sid) = Some (TrimSpace (crr_RunID rq))" and "TrimSpace (crr_RunID rq) \<noteq> []"
    and "runs_Create s sid (Some rq) w = (Inl e, w')"
  shows "sw_slot w' (TrimSpace sid) = None"
proof -
  let ?rid = "TrimSpace (crr_RunID rq)"
  from Claim_again [of codec w "TrimSpace sid" ?rid r ns] assms(2-5) obtain session w1
    where c: "ActiveRunManager_Claim (pg_sessions codec r) ns (TrimSpace sid) ?rid w = (Inr session, w1)"
    by auto
  with runs_Create_fails [OF assms(6,1) refl assms(5,2)] obtain w2
    where db: "sw_db w2 = sw_db w1" and env: "sw_env w2 = sw_env w1"
      and w': "w' = runs_rollback s session ?rid w2" by auto
  note cl = Claim_ok [OF c assms(2)]
  have "sw_slot w2 (TrimSpace sid) = Some ?rid"
    using pg_slots.claim_holds [OF c] by (simp add: sw_slot_def db)
  with rollback_releases [OF assms(1), of w2 "TrimSpace sid" ?rid session] cl db env assms(3)
  obtain w3 where rel: "ActiveRunManager_Release (pg_sessions codec r) (TrimSpace sid) ?rid w2 = (Inr True, w3)"
    and eq: "\<forall>x. sw_slot w' x = sw_slot w3 x" using w' by auto
  from pg_slots.release_clears [OF rel] eq show ?thesis by simp
qed

end
