(* ===== verification/Frames.thy ===== *)
theory Frames
  imports Resource_Ops Timeline_Sink
begin

text \<open>
  What a call leaves alone. \<open>frame P f\<close> says that the call \<open>f\<close> never changes the observation \<open>P\<close> of the
  world; the composite operations of the library inherit it from the calls they are made of.
\<close>

definition frame :: "('w \<Rightarrow> 'p) \<Rightarrow> ('w \<Rightarrow> 'a \<times> 'w) \<Rightarrow> bool" where
  "frame P f \<longleftrightarrow> (\<forall>w. P (snd (f w)) = P w)"

lemma frameI: "(\<And>w x w'. f w = (x, w') \<Longrightarrow> P w' = P w) \<Longrightarrow> frame P f"
  unfolding frame_def by (metis prod.collapse)

lemma frameD: "frame P f \<Longrightarrow> f w = (x, w') \<Longrightarrow> P w' = P w"
  unfolding frame_def by (metis snd_conv)

lemma frame_comp: "frame P f \<Longrightarrow> frame (\<lambda>w. g (P w)) f"
  by (simp add: frame_def)

lemma frame_pair: "frame P f \<Longrightarrow> frame Q f \<Longrightarrow> frame (\<lambda>w. (P w, Q w)) f"
  by (simp add: frame_def)

lemma frame_wrap: "frame P f \<Longrightarrow> frame P (\<lambda>w. wrap p (f w))"
  by (rule frameI) (auto simp: wrap_def split: prod.splits sum.splits dest: frameD)

text \<open>A retried body: the last run decides, and the failed runs before it kept \<open>P\<close>.\<close>

lemma retry_last:
  assumes "retry_law k" and "\<And>w. is_conflict_result (fst (f w)) \<Longrightarrow> P (snd (f w)) = P w"
  shows "\<exists>v. P v = P w \<and> kube_retry k f w = f v"
proof -
  from assms(1) obtain n where n: "\<forall>i < n. is_conflict_result (fst (f (((snd \<circ> f) ^^ i) w)))"
    and eq: "kube_retry k f w = f (((snd \<circ> f) ^^ n) w)"
    unfolding retry_law_def by blast
  from n have "P (((snd \<circ> f) ^^ n) w) = P w"
    by (induction n) (use assms(2) in auto)
  with eq show ?thesis by blast
qed

lemma retry_frame: "retry_law k \<Longrightarrow> frame P f \<Longrightarrow> frame P (kube_retry k f)"
  using retry_last [of k f P] unfolding frame_def by metis

definition kube_frame :: "('w \<Rightarrow> 'p) \<Rightarrow> ('o, 'w) kube \<Rightarrow> bool" where
  "kube_frame P k \<longleftrightarrow> retry_law k \<and> (\<forall>ns n. frame P (kube_Get k ns n)) \<and> (\<forall>obj. frame P (kube_Create k obj)) \<and>
     (\<forall>obj. frame P (kube_Update k obj)) \<and> (\<forall>obj. frame P (kube_StatusUpdate k obj))"

lemma get_mutate_write_frame:
  assumes "frame P (kube_Get k ns n)" and "\<And>obj. frame P (write obj)"
  shows "frame P (get_mutate_write k write ns n m)"
  by (rule frameI) (auto simp: get_mutate_write_def split: prod.splits sum.splits
      dest!: frameD [OF assms(1)] frameD [OF assms(2)])

lemma UpdateResource_frame: "kube_frame P k \<Longrightarrow> frame P (UpdateResource k ns n m)"
  unfolding UpdateResource_def [abs_def] kube_frame_def
  by (intro frame_wrap retry_frame get_mutate_write_frame) auto

lemma UpdateStatus_frame: "kube_frame P k \<Longrightarrow> frame P (UpdateStatus k ns n m)"
  unfolding UpdateStatus_def [abs_def] kube_frame_def
  by (intro frame_wrap retry_frame get_mutate_write_frame) auto

lemma CreateResource_frame: "kube_frame P k \<Longrightarrow> frame P (CreateResource k kind obj ns n)"
  unfolding CreateResource_def [abs_def] kube_frame_def by (intro frame_wrap) auto

definition sink_frame :: "('w \<Rightarrow> 'p) \<Rightarrow> 'w Sink option \<Rightarrow> bool" where
  "sink_frame P sink \<longleftrightarrow> (\<forall>s. sink = Some s \<longrightarrow>
     (\<forall>e. frame P (sink_RecordEvent s e)) \<and> (\<forall>i. frame P (sink_RecordStageInterval s i)))"

lemma record_frame:
  assumes "sink_frame P sink"
  shows "P (record_event sink e w) = P w" and "P (record_interval sink i w) = P w"
    and "P (recordTimelineEvent sink now sid et su ac at w) = P w" and "P (record_events sink es w) = P w"
    and "P (fold (record_interval sink) is w) = P w"
proof -
  show e: "P (record_event sink e w) = P w" for e w
    using assms by (auto simp: record_event_def sink_frame_def frame_def split: option.splits)
  show i: "P (record_interval sink i w) = P w" for i w
    using assms by (auto simp: record_interval_def sink_frame_def frame_def split: option.splits)
  show "P (recordTimelineEvent sink now sid et su ac at w) = P w"
    by (simp add: recordTimelineEvent_def e)
  show "P (record_events sink es w) = P w"
    unfolding record_events_def by (induction es arbitrary: w) (simp_all add: e)
  show "P (fold (record_interval sink) is w) = P w"
    by (induction "is" arbitrary: w) (simp_all add: i)
qed

lemma sink_frame_pair: "sink_frame P s \<Longrightarrow> sink_frame Q s \<Longrightarrow> sink_frame (\<lambda>w. (P w, Q w)) s"
  by (auto simp: sink_frame_def intro: frame_pair)

lemma sink_frame_comp: "sink_frame P s \<Longrightarrow> sink_frame (\<lambda>w. g (P w)) s"
  by (auto simp: sink_frame_def intro: frame_comp)

end
