(* ===== verification/Action_Controller.thy ===== *)
theory Action_Controller
  imports Action_Snapshot Resource_Config Run_Service Frames
begin

text \<open>
  The action reconciler (\<open>agentsessionactions/controller.go\<close>, \<open>derive.go\<close>, \<open>run_turn.go\<close>, \<open>stop.go\<close>,
  \<open>reload_subject.go\<close>, \<open>reset_warm_state.go\<close>): the actions of a session are executed one at a time, in
  the order of their creation; a turn becomes a run, which is retried and moved to the next runtime
  candidate when it fails; the other actions change the session.
\<close>

record 'w ActionStore =
  astore_Get :: "string \<Rightarrow> 'w \<Rightarrow> ActionResource result \<times> 'w"
  astore_Create :: "ActionResource \<Rightarrow> 'w \<Rightarrow> ActionResource result \<times> 'w"
  astore_Update :: "string \<Rightarrow> (ActionResource \<Rightarrow> ActionResource result) \<Rightarrow> 'w \<Rightarrow> ActionResource result \<times> 'w"
  astore_UpdateStatus :: "string \<Rightarrow> ActionStatus \<Rightarrow> 'w \<Rightarrow> ActionResource result \<times> 'w"
  astore_ListBySession :: "string \<Rightarrow> 'w \<Rightarrow> ActionResource list result \<times> 'w"
  astore_HasNonterminalResetWarmState :: "string \<Rightarrow> 'w \<Rightarrow> bool result \<times> 'w"

record 'w ActionCtl =
  actl_store :: "'w ActionStore"
  actl_sessions :: "'w SessionRepository"
  actl_namespace :: string
  actl_now :: "'w \<Rightarrow> time"
  actl_runs :: "'w RunSvc"
  actl_sink :: "'w Sink option"
  actl_hash :: hash
  actl_marshal :: protojson
  actl_configMaps :: "(ConfigMap, 'w) kube"
  actl_policy :: RetryPolicy

definition runningRequeueAfter :: duration where
  "runningRequeueAfter = 30 * second"

type_synonym derived = "(ActionStatus \<times> CtrlResult) result"

definition listSessionActions :: "'w ActionStore \<Rightarrow> string \<Rightarrow> 'w \<Rightarrow> ActionResource list result \<times> 'w" where
  "listSessionActions store sessionID w =
     (case astore_ListBySession store (TrimSpace sessionID) w of
        (Inl e, w) \<Rightarrow> (Inl e, w) | (Inr items, w) \<Rightarrow> (Inr (sort_actions items), w))"

definition loadSession :: "'w ActionCtl \<Rightarrow> string \<Rightarrow> 'w \<Rightarrow> SessionResource result \<times> 'w" where
  "loadSession c sessionID w =
     (case sess_Get (actl_sessions c) (TrimSpace sessionID) w of
        (Inl e, w) \<Rightarrow> (Inl (if grpc_not_found e then api_not_found (''sessions.'' @ GroupName) (TrimSpace sessionID) else e), w)
      | (Inr state, w) \<Rightarrow> (ResourceFromState (Some state) (actl_namespace c), w))"

section \<open>Turns\<close>

definition runFailureMessage :: "AgentRunState \<Rightarrow> string" where
  "runFailureMessage st =
     (let m = getf [] (\<lambda>res. getf [] (\<lambda>e. TrimSpace (re_message e)) (rr_error res)) (ars_result (rst_status st))
      in if m \<noteq> [] then m else ars_message (rst_status st))"

definition runResultIsRetryable :: "RunResult option \<Rightarrow> bool" where
  "runResultIsRetryable res = getf False (\<lambda>x. getf False re_retryable (rr_error x)) res"

definition createOrGetRun ::
    "'w ActionCtl \<Rightarrow> ActionResource \<Rightarrow> ActionSpec \<Rightarrow> RunTurnSnapshot \<Rightarrow> 'w \<Rightarrow> (AgentRunState \<times> int) result \<times> 'w" where
  "createOrGetRun c r a snapshot w =
     (let (runID, attemptCount) = nextRunAttempt r in
      case snapshotForCandidate (Some snapshot) (currentCandidateIndex r (Some snapshot)) runID of
        Inl e \<Rightarrow> (Inl e, w)
      | Inr selected \<Rightarrow>
        (case runs_Create (actl_runs c) (as_sessionId a) (Some \<lparr>crr_RunID = runID, crr_Snapshot = Some selected\<rparr>) w of
           (Inr st, w) \<Rightarrow> (Inr (st, attemptCount), w)
         | (Inl e, w) \<Rightarrow>
           if as_already_exists e \<noteq> None then
             (case runs_Get (actl_runs c) runID w of
                (Inl e, w) \<Rightarrow> (Inl e, w) | (Inr st, w) \<Rightarrow> (Inr (st, attemptCount), w))
           else (Inl e, w)))"

definition run_started :: "ActionResource \<Rightarrow> time \<Rightarrow> RunTurnSnapshot \<Rightarrow> AgentRunState \<Rightarrow> int \<Rightarrow> ActionStatus \<times> CtrlResult" where
  "run_started r now snapshot st attemptCount =
     (runningStatus r now (rs_runId (rst_spec st)) (ars_message (rst_status st)) attemptCount
        (currentCandidateIndex r (Some snapshot)), requeue_after runningRequeueAfter)"

definition failedRunTurnStatus ::
    "ActionResource \<Rightarrow> time \<Rightarrow> RunTurnSnapshot \<Rightarrow> AgentRunState \<Rightarrow> RetryPolicy \<Rightarrow> ActionStatus" where
  "failedRunTurnStatus r now snapshot st policy =
     (let message = runFailureMessage st in
      if runResultIsRetryable (ars_result (rst_status st)) then
        (if retryBudgetAvailable r policy then fst (scheduleRetryStatus r now message ClassTransient policy)
         else case nextCandidateIndex r (Some snapshot) of
           Some next \<Rightarrow> scheduleFallbackStatus r now message next
         | None \<Rightarrow> terminalStatus r now AFailed message ClassManualRetry)
      else terminalStatus r now AFailed message ClassPermanent)"

definition observe_run ::
    "'w ActionCtl \<Rightarrow> ActionResource \<Rightarrow> time \<Rightarrow> RunTurnSnapshot \<Rightarrow> AgentRunState \<Rightarrow> ActionStatus \<times> CtrlResult" where
  "observe_run c r now snapshot st =
     (case ars_phase (rst_status st) of
        RunPhaseSucceeded \<Rightarrow> (terminalStatus r now ASucceeded (ars_message (rst_status st)) ClassUnset, no_requeue)
      | RunPhaseFailed \<Rightarrow> (failedRunTurnStatus r now snapshot st (actl_policy c), no_requeue)
      | RunPhaseCanceled \<Rightarrow> (terminalStatus r now ACanceled (ars_message (rst_status st)) ClassUnset, no_requeue)
      | _ \<Rightarrow> (runningStatus r now (act_runID (ar_status r)) (ars_message (rst_status st)) (currentAttemptCount r)
                (currentCandidateIndex r (Some snapshot)), requeue_after runningRequeueAfter))"

definition deriveRunTurnStatus ::
    "'w ActionCtl \<Rightarrow> ActionResource \<Rightarrow> ActionSpec \<Rightarrow> time \<Rightarrow> 'w \<Rightarrow> derived \<times> 'w" where
  "deriveRunTurnStatus c r a now w =
     (case get_run_turn a of
        None \<Rightarrow> (Inr (action_failedStatus r now ''AgentSessionAction run_turn requires input_snapshot.run_turn.'', no_requeue), w)
      | Some snapshot \<Rightarrow>
        (case loadSession c (as_sessionId a) w of
           (Inl e, w) \<Rightarrow>
             (if is_api_not_found e
              then (Inr (action_failedStatus r now ''AgentSession referenced session no longer exists.'', no_requeue), w)
              else (Inr (scheduleRetryStatus r now (err_message e) ClassManualRetry (actl_policy c)), w))
         | (Inr _, w) \<Rightarrow>
           if TrimSpace (act_runID (ar_status r)) = [] then
             (case createOrGetRun c r a snapshot w of
                (Inl e, w) \<Rightarrow>
                  (case as_validation e of
                     Some m \<Rightarrow> (Inr (pendingBlockedStatus r now m, no_requeue), w)
                   | None \<Rightarrow> (Inr (scheduleRetryStatus r now (err_message e) ClassManualRetry (actl_policy c)), w))
              | (Inr (st, attemptCount), w) \<Rightarrow> (Inr (run_started r now snapshot st attemptCount), w))
           else
             (case runs_Get (actl_runs c) (act_runID (ar_status r)) w of
                (Inl e, w) \<Rightarrow>
                  (if is_api_not_found e then
                     (case createOrGetRun c r a snapshot w of
                        (Inr (st, attemptCount), w) \<Rightarrow> (Inr (run_started r now snapshot st attemptCount), w)
                      | (Inl _, w) \<Rightarrow>
                        (Inr (scheduleRetryStatus r now ''AgentSessionAction run is missing and will be recreated.''
                                ClassManualRetry (actl_policy c)), w))
                   else (Inr (scheduleRetryStatus r now (err_message e) ClassManualRetry (actl_policy c)), w))
              | (Inr st, w) \<Rightarrow> (Inr (observe_run c r now snapshot st), w))))"

section \<open>Stopping\<close>

definition stop_message :: string where
  "stop_message = ''AgentSessionAction stop was requested.''"

definition deriveStoppedRunTurnStatus ::
    "'w ActionCtl \<Rightarrow> ActionResource \<Rightarrow> ActionSpec \<Rightarrow> time \<Rightarrow> 'w \<Rightarrow> derived \<times> 'w" where
  "deriveStoppedRunTurnStatus c r a now w =
     (let snapshot = get_run_turn a; runID = act_runID (ar_status r);
          running = (\<lambda>m. (runningStatus r now runID m (currentAttemptCount r) (currentCandidateIndex r snapshot),
                          requeue_after runningRequeueAfter)) in
      if runID = [] then (Inr (canceledStatus r now stop_message, no_requeue), w)
      else case runs_Cancel (actl_runs c) runID w of
        (Inl e, w) \<Rightarrow>
          (if is_api_not_found e then (Inr (canceledStatus r now stop_message, no_requeue), w)
           else (Inr (running ''AgentSessionAction stop was requested. Waiting for run cancel acceptance.''), w))
      | (Inr _, w) \<Rightarrow>
        (case runs_Get (actl_runs c) runID w of
           (Inl e, w) \<Rightarrow>
             (if is_api_not_found e then (Inr (canceledStatus r now stop_message, no_requeue), w)
              else (Inr (running ''AgentSessionAction stop was requested. Waiting for current run observation.''), w))
         | (Inr st, w) \<Rightarrow>
           (case ars_phase (rst_status st) of
              RunPhaseSucceeded \<Rightarrow> (Inr (terminalStatus r now ASucceeded (ars_message (rst_status st)) ClassUnset, no_requeue), w)
            | RunPhaseFailed \<Rightarrow> (Inr (canceledStatus r now stop_message, no_requeue), w)
            | RunPhaseCanceled \<Rightarrow> (Inr (canceledStatus r now stop_message, no_requeue), w)
            | _ \<Rightarrow> (Inr (running ''AgentSessionAction stop was requested. Current run will not be retried.''), w))))"

definition deriveStoppedStatus ::
    "'w ActionCtl \<Rightarrow> ActionResource \<Rightarrow> ActionSpec \<Rightarrow> time \<Rightarrow> 'w \<Rightarrow> derived \<times> 'w" where
  "deriveStoppedStatus c r a now w =
     (if as_type a \<noteq> TypeRunTurn then (Inr (canceledStatus r now stop_message, no_requeue), w)
      else deriveStoppedRunTurnStatus c r a now w)"

section \<open>Resetting the warm state\<close>

definition warmStateReady :: "SessionResource \<Rightarrow> bool" where
  "warmStateReady s = list_ex (\<lambda>c. mc_type c = ''WarmStateReady'' \<and> mc_status c = MetaTrue) (srs_conditions (sr_status s))"

definition session_homeState :: "AgentSessionSpec \<Rightarrow> string" where
  "session_homeState spec = TrimSpace (getf [] id (ss_homeStateRef spec))"

definition resetWarmStateSuperseded :: "SessionResource \<Rightarrow> ResetWarmStateSnapshot \<Rightarrow> bool" where
  "resetWarmStateSuperseded s snapshot =
     (case sr_session s of None \<Rightarrow> True
      | Some spec \<Rightarrow> session_homeState spec \<noteq> TrimSpace (rw_sourceHomeStateId snapshot)
          \<and> session_homeState spec \<noteq> TrimSpace (rw_targetHomeStateId snapshot))"

definition resetWarmStateApplied :: "SessionResource \<Rightarrow> ResetWarmStateSnapshot \<Rightarrow> bool" where
  "resetWarmStateApplied s snapshot =
     (case sr_session s of None \<Rightarrow> False
      | Some spec \<Rightarrow>
        (let target = TrimSpace (rw_targetHomeStateId snapshot) in
         if session_homeState spec \<noteq> target then False
         else if TrimSpace (srs_observedHomeStateID (sr_status s)) \<noteq> target then False
         else warmStateReady s \<and> srs_stateGeneration (sr_status s) > 0))"

definition applyResetWarmState ::
    "'w ActionCtl \<Rightarrow> string \<Rightarrow> ResetWarmStateSnapshot \<Rightarrow> 'w \<Rightarrow> unit result \<times> 'w" where
  "applyResetWarmState c sessionID snapshot w =
     (case sess_Get (actl_sessions c) (TrimSpace sessionID) w of (Inl e, w) \<Rightarrow> (Inl e, w)
      | (Inr state, w) \<Rightarrow>
        (case ast_spec state of
           None \<Rightarrow> (Inl (action_validation (''session '' @ go_quote sessionID @ '' is missing payload'')), w)
         | Some spec \<Rightarrow>
           (case sess_Update (actl_sessions c) sessionID
                   (spec\<lparr>ss_homeStateRef := Some (TrimSpace (rw_targetHomeStateId snapshot))\<rparr>) w of
              (Inl e, w) \<Rightarrow> (Inl e, w) | (Inr _, w) \<Rightarrow> (Inr (), w))))"

definition pendingResetWarmStateMessage :: string where
  "pendingResetWarmStateMessage = ''AgentSession warm state reset is waiting for new carrier observation.''"
definition completedResetWarmStateMessage :: string where
  "completedResetWarmStateMessage = ''AgentSession warm state reset completed.''"
definition canceledResetWarmStateMessage :: string where
  "canceledResetWarmStateMessage = ''AgentSession warm state reset was superseded by a newer carrier.''"

text \<open>A running action of a session keeps its counters and has no run.\<close>

definition keep_running :: "ActionResource \<Rightarrow> time \<Rightarrow> string \<Rightarrow> CtrlResult \<Rightarrow> ActionStatus \<times> CtrlResult" where
  "keep_running r now message res =
     (runningStatus r now [] message (act_attemptCount (ar_status r)) (act_candidateIndex (ar_status r)), res)"

definition deriveResetWarmStateStatus ::
    "'w ActionCtl \<Rightarrow> ActionResource \<Rightarrow> ActionSpec \<Rightarrow> time \<Rightarrow> 'w \<Rightarrow> derived \<times> 'w" where
  "deriveResetWarmStateStatus c r a now w =
     (case get_reset_warm_state a of
        None \<Rightarrow> (Inr (action_failedStatus r now
          ''AgentSessionAction reset_warm_state requires input_snapshot.reset_warm_state.'', no_requeue), w)
      | Some snapshot \<Rightarrow>
        (case loadSession c (as_sessionId a) w of
           (Inl e, w) \<Rightarrow>
             (if is_api_not_found e
              then (Inr (action_failedStatus r now ''AgentSession referenced session no longer exists.'', no_requeue), w)
              else (Inr (scheduleRetryStatus r now (err_message e) ClassPermanent (actl_policy c)), w))
         | (Inr session, w) \<Rightarrow>
           if resetWarmStateSuperseded session snapshot then
             (Inr (terminalStatus r now ACanceled canceledResetWarmStateMessage ClassUnset, no_requeue), w)
           else if resetWarmStateApplied session snapshot then
             (Inr (terminalStatus r now ASucceeded completedResetWarmStateMessage ClassUnset, no_requeue), w)
           else if act_phase (ar_status r) \<noteq> ARunning then
             (case applyResetWarmState c (om_name (sr_meta session)) snapshot w of
                (Inl e, w) \<Rightarrow> (Inr (scheduleRetryStatus r now (err_message e) ClassPermanent (actl_policy c)), w)
              | (Inr _, w) \<Rightarrow> (Inr (keep_running r now pendingResetWarmStateMessage requeue_now), w))
           else (Inr (keep_running r now pendingResetWarmStateMessage (requeue_after runningRequeueAfter)), w)))"

section \<open>Reloading a subject\<close>

definition sessionResourceRevisions :: "SessionResource \<Rightarrow> Revisions" where
  "sessionResourceRevisions s =
     \<lparr>rev_Rule = TrimSpace (srs_realizedRuleRevision (sr_status s)),
      rev_Skill = TrimSpace (srs_realizedSkillRevision (sr_status s)),
      rev_MCP = TrimSpace (srs_realizedMCPRevision (sr_status s))\<rparr>"

definition reloadSubjectSuperseded :: "hash \<Rightarrow> SessionResource \<Rightarrow> ReloadSubjectSnapshot \<Rightarrow> bool" where
  "reloadSubjectSuperseded hash s snapshot =
     (case sr_session s of None \<Rightarrow> True
      | Some spec \<Rightarrow>
        if TrimSpace (getf [] res_snapshotId (ss_resourceConfig spec)) \<noteq> TrimSpace (rl_snapshotId snapshot) then True
        else (case config_Snapshot hash (ss_resourceConfig spec) (rl_subject snapshot) of None \<Rightarrow> True
          | Some cur \<Rightarrow> TrimSpace (sub_SubjectRevision cur) \<noteq> TrimSpace (rl_subjectRevision snapshot)))"

definition reloadSubjectApplied :: "hash \<Rightarrow> SessionResource \<Rightarrow> ReloadSubjectSnapshot \<Rightarrow> bool" where
  "reloadSubjectApplied hash s snapshot \<longleftrightarrow> sr_session s \<noteq> None \<and> Matches hash (sessionResourceRevisions s) (Some snapshot)"

definition empty_proto_session_status :: "string \<Rightarrow> AgentSessionStatus" where
  "empty_proto_session_status sid =
     \<lparr>ass_sessionId = sid, ass_phase = SessionPhaseUnspecified, ass_observedGeneration = 0,
      ass_runtimeConfigGeneration = 0, ass_resourceConfigGeneration = 0, ass_stateGeneration = 0,
      ass_message = [], ass_activeRun = None, ass_conditions = [], ass_updatedAt = None,
      ass_realizedRuleRevision = [], ass_realizedSkillRevision = [], ass_realizedMcpRevision = [],
      ass_observedHomeStateId = []\<rparr>"

definition reload_status :: "hash \<Rightarrow> AgentSessionStatus \<Rightarrow> ReloadSubjectSnapshot \<Rightarrow> time \<Rightarrow> AgentSessionStatus" where
  "reload_status hash st snapshot now =
     (let realized = config_Apply hash
            \<lparr>rev_Rule = TrimSpace (ass_realizedRuleRevision st), rev_Skill = TrimSpace (ass_realizedSkillRevision st),
             rev_MCP = TrimSpace (ass_realizedMcpRevision st)\<rparr> snapshot
      in st\<lparr>ass_realizedRuleRevision := rev_Rule realized, ass_realizedSkillRevision := rev_Skill realized,
            ass_realizedMcpRevision := rev_MCP realized, ass_updatedAt := Some now\<rparr>)"

definition applyReloadSubject ::
    "'w ActionCtl \<Rightarrow> string \<Rightarrow> ReloadSubjectSnapshot \<Rightarrow> time \<Rightarrow> 'w \<Rightarrow> unit result \<times> 'w" where
  "applyReloadSubject c sessionID snapshot now w =
     (case sess_Get (actl_sessions c) (TrimSpace sessionID) w of (Inl e, w) \<Rightarrow> (Inl e, w)
      | (Inr state, w) \<Rightarrow>
        (case getf None ss_resourceConfig (ast_spec state) of
           None \<Rightarrow> (Inl (action_validation (''session '' @ go_quote sessionID @ '' resource config is missing'')), w)
         | Some config \<Rightarrow>
           (case Materializer_Ensure (actl_hash c) (actl_marshal c) (actl_configMaps c) (actl_namespace c) sessionID
                   (Some config) w of
              (Inl e, w) \<Rightarrow> (Inl e, w)
            | (Inr _, w) \<Rightarrow>
              (let st = (case ast_status state of None \<Rightarrow> empty_proto_session_status (TrimSpace sessionID) | Some st \<Rightarrow> st) in
               case sess_UpdateStatus (actl_sessions c) sessionID (reload_status (actl_hash c) st snapshot now) w of
                 (Inl e, w) \<Rightarrow> (Inl e, w) | (Inr _, w) \<Rightarrow> (Inr (), w)))))"

definition pendingReloadMessage :: "ReloadSubjectSnapshot \<Rightarrow> string" where
  "pendingReloadMessage s = ''AgentSession '' @ SubjectSlug (rl_subject s) @ '' reload is waiting for session observation.''"
definition completedReloadMessage :: "ReloadSubjectSnapshot \<Rightarrow> string" where
  "completedReloadMessage s = ''AgentSession '' @ SubjectSlug (rl_subject s) @ '' reload completed.''"
definition canceledReloadMessage :: "ReloadSubjectSnapshot \<Rightarrow> string" where
  "canceledReloadMessage s = ''AgentSession '' @ SubjectSlug (rl_subject s) @ '' reload was superseded by a newer revision.''"

definition deriveReloadSubjectStatus ::
    "'w ActionCtl \<Rightarrow> ActionResource \<Rightarrow> ActionSpec \<Rightarrow> time \<Rightarrow> 'w \<Rightarrow> derived \<times> 'w" where
  "deriveReloadSubjectStatus c r a now w =
     (case get_reload_subject a of
        None \<Rightarrow> (Inr (action_failedStatus r now
          ''AgentSessionAction reload_subject requires input_snapshot.reload_subject.'', no_requeue), w)
      | Some snapshot \<Rightarrow>
        (case loadSession c (as_sessionId a) w of
           (Inl e, w) \<Rightarrow>
             (if is_api_not_found e
              then (Inr (action_failedStatus r now ''AgentSession referenced session no longer exists.'', no_requeue), w)
              else (Inr (scheduleRetryStatus r now (err_message e) ClassPermanent (actl_policy c)), w))
         | (Inr session, w) \<Rightarrow>
           if reloadSubjectSuperseded (actl_hash c) session snapshot then
             (Inr (terminalStatus r now ACanceled (canceledReloadMessage snapshot) ClassUnset, no_requeue), w)
           else if reloadSubjectApplied (actl_hash c) session snapshot
                   \<and> (rl_subject snapshot \<noteq> SubjectResourceConfig \<or> act_phase (ar_status r) = ARunning) then
             (Inr (terminalStatus r now ASucceeded (completedReloadMessage snapshot) ClassUnset, no_requeue), w)
           else if act_phase (ar_status r) \<noteq> ARunning then
             (case applyReloadSubject c (om_name (sr_meta session)) snapshot now w of
                (Inl e, w) \<Rightarrow> (Inr (scheduleRetryStatus r now (err_message e) ClassPermanent (actl_policy c)), w)
              | (Inr _, w) \<Rightarrow> (Inr (keep_running r now (pendingReloadMessage snapshot) requeue_now), w))
           else (Inr (keep_running r now (pendingReloadMessage snapshot) (requeue_after runningRequeueAfter)), w)))"

section \<open>The reconciler\<close>

definition queueOwner :: "'w ActionCtl \<Rightarrow> string \<Rightarrow> 'w \<Rightarrow> string result \<times> 'w" where
  "queueOwner c sessionID w =
     (case listSessionActions (actl_store c) sessionID w of
        (Inl e, w) \<Rightarrow> (Inl e, w) | (Inr items, w) \<Rightarrow> (Inr (queueOwnerID items), w))"

text \<open>
  The branch for a resource without an action stands for the dereferences that follow in the code:
  \<open>invalidStatus\<close> has answered for such a resource already (\<open>invalidStatus_None\<close>), so it is never taken.
\<close>

definition action_deriveStatus :: "'w ActionCtl \<Rightarrow> ActionResource \<Rightarrow> 'w \<Rightarrow> derived \<times> 'w" where
  "action_deriveStatus c r w =
     (let now = actl_now c w in
      case invalidStatus (Some r) now of
        Some invalid \<Rightarrow> (Inr (invalid, no_requeue), w)
      | None \<Rightarrow>
        if action_isTerminalPhase (act_phase (ar_status r)) then (Inr (ar_status r, no_requeue), w)
        else case ar_action r of
          None \<Rightarrow> (Inr (action_failedStatus r now ''AgentSessionAction type is not supported yet.'', no_requeue), w)
        | Some a \<Rightarrow>
          if as_stopRequested a then deriveStoppedStatus c r a now w
          else case queueOwner c (as_sessionId a) w of
            (Inl e, w) \<Rightarrow> (Inl e, w)
          | (Inr owner, w) \<Rightarrow>
            if owner \<noteq> ar_name r then
              (Inr (pendingBlockedStatus r now ''AgentSessionAction is waiting for prior actions.'', no_requeue), w)
            else case pendingRetryWindow r now of
              Some waiting \<Rightarrow> (Inr waiting, w)
            | None \<Rightarrow>
              (case as_type a of
                 TypeRunTurn \<Rightarrow> deriveRunTurnStatus c r a now w
               | TypeResetWarmState \<Rightarrow> deriveResetWarmStateStatus c r a now w
               | TypeReloadSubject \<Rightarrow> deriveReloadSubjectStatus c r a now w
               | TypeUnspecified \<Rightarrow>
                   (Inr (action_failedStatus r now ''AgentSessionAction type is not supported yet.'', no_requeue), w)))"

definition action_Reconcile :: "'w ActionCtl \<Rightarrow> string \<Rightarrow> string \<Rightarrow> 'w \<Rightarrow> CtrlResult result \<times> 'w" where
  "action_Reconcile c namespace name w =
     (if namespace \<noteq> actl_namespace c then (Inr no_requeue, w)
      else case astore_Get (actl_store c) name w of
        (Inl e, w) \<Rightarrow> (if is_api_not_found e then (Inr no_requeue, w) else (Inl e, w))
      | (Inr r, w) \<Rightarrow>
        if om_deletionTimestamp (ar_meta r) \<noteq> None then (Inr no_requeue, w)
        else case action_deriveStatus c r w of
          (Inl e, w) \<Rightarrow> (Inl e, w)
        | (Inr (next, res), w) \<Rightarrow>
          if action_statusSemanticallyEqual (ar_status r) next then (Inr res, w)
          else case astore_UpdateStatus (actl_store c) name next w of
            (Inl e, w) \<Rightarrow> (Inl e, w)
          | (Inr _, w) \<Rightarrow>
            (Inr res, record_events (actl_sink c) (actionTimelineTransitions r (Some (ar_status r)) (Some next)) w))"

lemma invalidStatus_None:
  "invalidStatus (Some r) now = None \<longleftrightarrow> (\<exists>a. ar_action r = Some a \<and> TrimSpace (as_actionId a) \<noteq> [] \<and>
     TrimSpace (as_sessionId a) \<noteq> [])"
  by (auto simp: invalidStatus_def split: option.splits)

text \<open>The loops over the actions of a session stop at the first error and keep the results so far.\<close>

fun reconcile_all ::
    "'w ActionCtl \<Rightarrow> ActionResource list \<Rightarrow> 'w \<Rightarrow> (CtrlResult list \<times> go_error option) \<times> 'w" where
  "reconcile_all c [] w = (([], None), w)"
| "reconcile_all c (r # rs) w =
     (case action_Reconcile c (om_namespace (ar_meta r)) (ar_name r) w of
        (Inl e, w) \<Rightarrow> (([], Some e), w)
      | (Inr res, w) \<Rightarrow> (case reconcile_all c rs w of ((results, err), w) \<Rightarrow> ((res # results, err), w)))"

definition ReconcileSessionActions ::
    "'w ActionCtl \<Rightarrow> string \<Rightarrow> 'w \<Rightarrow> (CtrlResult list \<times> go_error option) \<times> 'w" where
  "ReconcileSessionActions c sessionID w =
     (case listSessionActions (actl_store c) (TrimSpace sessionID) w of
        (Inl e, w) \<Rightarrow> (([], Some e), w) | (Inr items, w) \<Rightarrow> reconcile_all c items w)"

definition ReconcileRunActions ::
    "'w ActionCtl \<Rightarrow> string \<Rightarrow> string \<Rightarrow> 'w \<Rightarrow> (CtrlResult list \<times> go_error option) \<times> 'w" where
  "ReconcileRunActions c sessionID runID w =
     (case listSessionActions (actl_store c) (TrimSpace sessionID) w of
        (Inl e, w) \<Rightarrow> (([], Some e), w)
      | (Inr items, w) \<Rightarrow> reconcile_all c (filter (\<lambda>r. ar_name r = runID
            \<or> TrimSpace (act_runID (ar_status r)) = TrimSpace runID) items) w)"

end
