(* ===== verification/Domain_Events.thy ===== *)
theory Domain_Events
  imports Go_Prelude "HOL-Library.Multiset"
begin

text \<open>
  \<open>internal/platform/domainevents\<close>: the transactional outbox of domain events (\<open>outbox.go\<close>), the
  publisher that moves them to the message stream (\<open>publisher.go\<close>) and the consumer that hands them
  to a handler (\<open>consumer.go\<close>).

  The table \<open>platform_domain_outbox\<close> is the list of its rows, the table of handled events a list of
  pairs (consumer, event id). Every statement is one request to Postgres, which may fail: the
  world gives the error of each request, if any, and its time. The stream (JetStream) is not part
  of the repository: publishing is a parameter \<open>js\<close>, a call over the world, and so is the handler. The
  payload of an event, a proto message, is of the type \<open>'e\<close>; encoding it does not fail.
\<close>

section \<open>Events and rows\<close>

record 'e DomainEvent =
  de_eventId :: string
  de_eventType :: string
  de_aggregateType :: string
  de_aggregateId :: string
  de_aggregateVersion :: int
  de_occurredAt :: "time option"
  de_producer :: string
  de_payload :: 'e

record 'e OutboxRow =
  or_eventId :: string
  or_subject :: string
  or_payload :: "'e DomainEvent"
  or_aggregateType :: string
  or_aggregateId :: string
  or_aggregateVersion :: int
  or_createdAt :: time
  or_publishedAt :: "time option"
  or_attempts :: int
  or_lastError :: string

text \<open>\<open>Record\<close>: what the publisher works on.\<close>

record 'e OutboxRecord =
  orec_EventID :: string
  orec_Subject :: string
  orec_Payload :: "'e DomainEvent"

text \<open>\<open>subjects.go\<close>; the three replacements act on single characters.\<close>

definition subjectToken :: "string \<Rightarrow> string" where
  "subjectToken value =
     (let value = map (\<lambda>c. if c \<in> set ''.*>'' then CHR ''_'' else c) (TrimSpace (ToLower value)) in
      if value = [] then ''_'' else value)"

definition SubjectFor :: "'e DomainEvent \<Rightarrow> string" where
  "SubjectFor event =
     (let aggregate = subjectToken (de_aggregateType event); mutation = subjectToken (ToLower (de_eventType event));
          mutation = (if mutation = [] \<or> mutation = ''_'' then ''changed'' else mutation)
      in ''platform.domain.'' @ aggregate @ ''.'' @ mutation)"

text \<open>The generated id (\<open>nuid.Next\<close>) and the clock are arguments.\<close>

definition normalizeEvent :: "string \<Rightarrow> time \<Rightarrow> string \<Rightarrow> 'e DomainEvent \<Rightarrow> 'e DomainEvent" where
  "normalizeEvent producer now nuid event =
     (let event = (if TrimSpace (de_eventId event) = [] then event\<lparr>de_eventId := nuid\<rparr> else event);
          event = (if de_occurredAt event = None then event\<lparr>de_occurredAt := Some now\<rparr> else event)
      in if TrimSpace (de_producer event) = [] then event\<lparr>de_producer := producer\<rparr> else event)"

definition NewOutbox_producer :: "string \<Rightarrow> string" where
  "NewOutbox_producer producer = (if TrimSpace producer = [] then ''platform-k8s'' else TrimSpace producer)"

definition outbox_row :: "time \<Rightarrow> 'e DomainEvent \<Rightarrow> 'e OutboxRow" where
  "outbox_row now event =
     \<lparr>or_eventId = de_eventId event, or_subject = SubjectFor event, or_payload = event,
      or_aggregateType = de_aggregateType event, or_aggregateId = de_aggregateId event,
      or_aggregateVersion = de_aggregateVersion event, or_createdAt = now, or_publishedAt = None,
      or_attempts = 0, or_lastError = []\<rparr>"

text \<open>\<open>enqueue\<close> inside the transaction of the caller; \<open>err\<close> is the error of the insert.\<close>

definition outbox_enqueue ::
    "string \<Rightarrow> time \<Rightarrow> string \<Rightarrow> go_error option \<Rightarrow> 'e DomainEvent \<Rightarrow> 'e OutboxRow list
      \<Rightarrow> unit result \<times> 'e OutboxRow list" where
  "outbox_enqueue producer now nuid err event rows =
     (let event = normalizeEvent producer now nuid event in
      case err of Some e \<Rightarrow> (Inl (Wrapped (''domainevents: enqueue '' @ go_quote (de_eventId event) @ '': '') e), rows)
      | None \<Rightarrow>
        (Inr (), if de_eventId event \<in> or_eventId ` set rows then rows else rows @ [outbox_row now event]))"

section \<open>Claiming and marking\<close>

record 'e oworld =
  ow_rows :: "'e OutboxRow list"
  ow_handled :: "(string \<times> string) list"
  ow_err :: "nat \<Rightarrow> go_error option"
  ow_clock :: "nat \<Rightarrow> time"
  ow_tick :: nat

definition ow_exec ::
    "('e OutboxRow list \<Rightarrow> 'e OutboxRow list) \<Rightarrow> ('e, 'z) oworld_scheme \<Rightarrow> unit result \<times> ('e, 'z) oworld_scheme" where
  "ow_exec f w = (let w' = w\<lparr>ow_tick := Suc (ow_tick w)\<rparr> in
     case ow_err w (ow_tick w) of Some e \<Rightarrow> (Inl e, w') | None \<Rightarrow> (Inr (), w'\<lparr>ow_rows := f (ow_rows w)\<rparr>))"

definition is_pending :: "'e OutboxRow \<Rightarrow> bool" where
  "is_pending row \<longleftrightarrow> or_publishedAt row = None"

definition next_batch :: "nat \<Rightarrow> 'e OutboxRow list \<Rightarrow> 'e OutboxRow list" where
  "next_batch n rows = take n (sort_key (\<lambda>row. (or_createdAt row, or_eventId row)) (filter is_pending rows))"

definition count_attempt :: "string set \<Rightarrow> 'e OutboxRow \<Rightarrow> 'e OutboxRow" where
  "count_attempt ids row = (if or_eventId row \<in> ids then row\<lparr>or_attempts := i32 (or_attempts row + 1)\<rparr> else row)"

definition record_of :: "'e OutboxRow \<Rightarrow> 'e OutboxRecord" where
  "record_of row = \<lparr>orec_EventID = or_eventId row, orec_Subject = or_subject row, orec_Payload = or_payload row\<rparr>"

text \<open>
  \<open>Claim\<close>. The rows of \<open>update ... returning\<close> come in an order that Postgres does not promise:
  \<open>order\<close> is any rearrangement.
\<close>

definition outbox_Claim ::
    "('e OutboxRow list \<Rightarrow> 'e OutboxRow list) \<Rightarrow> int \<Rightarrow> ('e, 'z) oworld_scheme
      \<Rightarrow> 'e OutboxRecord list result \<times> ('e, 'z) oworld_scheme" where
  "outbox_Claim order batchSize w =
     (let n = nat (if batchSize \<le> 0 then 32 else batchSize); batch = next_batch n (ow_rows w) in
      case ow_exec (map (count_attempt (or_eventId ` set batch))) w of
        (Inl e, w) \<Rightarrow> (Inl (Wrapped ''domainevents: claim outbox: '' e), w)
      | (Inr _, w) \<Rightarrow> (Inr (map record_of (order batch)), w))"

definition set_row :: "string \<Rightarrow> ('e OutboxRow \<Rightarrow> 'e OutboxRow) \<Rightarrow> 'e OutboxRow list \<Rightarrow> 'e OutboxRow list" where
  "set_row eventID f = map (\<lambda>row. if or_eventId row = eventID then f row else row)"

definition MarkPublished :: "string \<Rightarrow> ('e, 'z) oworld_scheme \<Rightarrow> unit result \<times> ('e, 'z) oworld_scheme" where
  "MarkPublished eventID w =
     (let eventID = TrimSpace eventID in
      if eventID = [] then (Inr (), w)
      else ow_exec (set_row eventID (\<lambda>row. row\<lparr>or_publishedAt := Some (ow_clock w (ow_tick w)), or_lastError := []\<rparr>)) w)"

definition MarkFailed :: "string \<Rightarrow> go_error \<Rightarrow> ('e, 'z) oworld_scheme \<Rightarrow> unit result \<times> ('e, 'z) oworld_scheme" where
  "MarkFailed eventID publishErr w =
     (let eventID = TrimSpace eventID in
      if eventID = [] then (Inr (), w)
      else ow_exec (set_row eventID (\<lambda>row. row\<lparr>or_lastError := TrimSpace (err_message publishErr)\<rparr>)) w)"

section \<open>The publisher\<close>

type_synonym ('e, 'w) stream = "'e OutboxRecord \<Rightarrow> 'w \<Rightarrow> unit result \<times> 'w"

fun publish_all ::
    "('e, ('e, 'z) oworld_scheme) stream \<Rightarrow> 'e OutboxRecord list \<Rightarrow> ('e, 'z) oworld_scheme
      \<Rightarrow> unit result \<times> ('e, 'z) oworld_scheme" where
  "publish_all js [] w = (Inr (), w)"
| "publish_all js (r # rs) w =
     (case js r w of
        (Inl e, w) \<Rightarrow> publish_all js rs (snd (MarkFailed (orec_EventID r) e w))
      | (Inr _, w) \<Rightarrow>
        (case MarkPublished (orec_EventID r) w of
           (Inl e, w) \<Rightarrow> (Inl e, w) | (Inr _, w) \<Rightarrow> publish_all js rs w))"

text \<open>\<open>connect\<close> is \<open>p.jetStream\<close>: the connection, kept between batches.\<close>

definition PublishPending ::
    "('e OutboxRow list \<Rightarrow> 'e OutboxRow list) \<Rightarrow> int \<Rightarrow> (('e, 'z) oworld_scheme \<Rightarrow> unit result \<times> ('e, 'z) oworld_scheme)
      \<Rightarrow> ('e, ('e, 'z) oworld_scheme) stream \<Rightarrow> ('e, 'z) oworld_scheme \<Rightarrow> unit result \<times> ('e, 'z) oworld_scheme" where
  "PublishPending order batchSize connect js w =
     (case outbox_Claim order batchSize w of (Inl e, w) \<Rightarrow> (Inl e, w)
      | (Inr records, w) \<Rightarrow>
        if records = [] then (Inr (), w)
        else (case connect w of (Inl e, w) \<Rightarrow> (Inl e, w) | (Inr _, w) \<Rightarrow> publish_all js records w))"

section \<open>The consumer\<close>

datatype Delivery = Acked | Naked | Terminated

definition ow_processed :: "string \<Rightarrow> string \<Rightarrow> ('e, 'z) oworld_scheme \<Rightarrow> bool result \<times> ('e, 'z) oworld_scheme" where
  "ow_processed durable eventID w = (let w' = w\<lparr>ow_tick := Suc (ow_tick w)\<rparr> in
     case ow_err w (ow_tick w) of Some e \<Rightarrow> (Inl e, w') | None \<Rightarrow> (Inr ((durable, eventID) \<in> set (ow_handled w)), w'))"

definition ow_markProcessed :: "string \<Rightarrow> string \<Rightarrow> ('e, 'z) oworld_scheme \<Rightarrow> unit result \<times> ('e, 'z) oworld_scheme" where
  "ow_markProcessed durable eventID w = (let w' = w\<lparr>ow_tick := Suc (ow_tick w)\<rparr> in
     case ow_err w (ow_tick w) of Some e \<Rightarrow> (Inl e, w')
     | None \<Rightarrow> (Inr (), if (durable, eventID) \<in> set (ow_handled w) then w'
                        else w'\<lparr>ow_handled := ow_handled w @ [(durable, eventID)]\<rparr>))"

text \<open>A message that does not decode is \<open>None\<close>.\<close>

definition consumer_handle ::
    "string \<Rightarrow> ('e DomainEvent \<Rightarrow> ('e, 'z) oworld_scheme \<Rightarrow> unit result \<times> ('e, 'z) oworld_scheme)
      \<Rightarrow> 'e DomainEvent option \<Rightarrow> ('e, 'z) oworld_scheme \<Rightarrow> Delivery \<times> ('e, 'z) oworld_scheme" where
  "consumer_handle durable handler msg w =
     (case msg of None \<Rightarrow> (Terminated, w) | Some event \<Rightarrow>
      (case ow_processed durable (de_eventId event) w of
         (Inl e, w) \<Rightarrow> (Naked, w)
       | (Inr True, w) \<Rightarrow> (Acked, w)
       | (Inr False, w) \<Rightarrow>
         (case handler event w of
            (Inl e, w) \<Rightarrow> (Naked, w)
          | (Inr _, w) \<Rightarrow>
            (case ow_markProcessed durable (de_eventId event) w of (Inl e, w) \<Rightarrow> (Naked, w) | (Inr _, w) \<Rightarrow> (Acked, w)))))"

section \<open>What the statements keep\<close>

text \<open>The identity of a row, which no statement changes after the insert.\<close>

definition row_core :: "'e OutboxRow \<Rightarrow> string \<times> string \<times> 'e DomainEvent \<times> time" where
  "row_core row = (or_eventId row, or_subject row, or_payload row, or_createdAt row)"

definition keeps_core :: "('e OutboxRow \<Rightarrow> 'e OutboxRow) \<Rightarrow> bool" where
  "keeps_core f \<longleftrightarrow> (\<forall>row. row_core (f row) = row_core row)"

lemma keeps_coreD: "keeps_core f \<Longrightarrow> or_eventId (f row) = or_eventId row"
  "keeps_core f \<Longrightarrow> or_createdAt (f row) = or_createdAt row" "keeps_core f \<Longrightarrow> record_of (f row) = record_of row"
  by (simp_all add: keeps_core_def row_core_def record_of_def)

lemma keeps_core_simps [simp]: "keeps_core (count_attempt ids)"
  by (simp add: keeps_core_def row_core_def count_attempt_def)

lemma map_keeps_core: "keeps_core f \<Longrightarrow> map row_core (map f rows) = map row_core rows"
  by (simp add: keeps_core_def)

lemma set_row_core:
  "keeps_core f \<Longrightarrow> map row_core (set_row i f rows) = map row_core rows"
  by (simp add: set_row_def keeps_core_def)

lemma sort_key_map_keep: "(\<And>x. k (f x) = k x) \<Longrightarrow> sort_key k (map f xs) = map f (sort_key k xs)"
proof (induction xs)
  case (Cons x xs)
  have "insort_key k (f x) (map f ys) = map f (insort_key k x ys)" for ys
    by (induction ys) (simp_all add: Cons.prems)
  with Cons show ?case by simp
qed simp

text \<open>A change that keeps the identity and the publication of the rows keeps the batch.\<close>

lemma next_batch_map:
  assumes "keeps_core f" and "\<And>row. is_pending (f row) = is_pending row"
  shows "next_batch n (map f rows) = map f (next_batch n rows)"
  using assms by (simp add: next_batch_def filter_map comp_def sort_key_map_keep keeps_coreD take_map)

lemma next_batch_set: "row \<in> set (next_batch n rows) \<Longrightarrow> row \<in> set rows \<and> is_pending row"
  unfolding next_batch_def by (drule in_set_takeD) simp

section \<open>Publishing\<close>

text \<open>
  A stream as documented: what it holds is observed by \<open>log\<close>; an accepted record is added, a refused
  one is not; it does not touch the tables, and the tables do not touch it.
\<close>

definition stream_ok ::
    "('e, ('e, 'z) oworld_scheme) stream \<Rightarrow> (('e, 'z) oworld_scheme \<Rightarrow> 'e OutboxRecord list) \<Rightarrow> bool" where
  "stream_ok js log \<longleftrightarrow>
     (\<forall>r w x w'. js r w = (x, w') \<longrightarrow> ow_rows w' = ow_rows w \<and> ow_handled w' = ow_handled w \<and> ow_err w' = ow_err w \<and>
        ow_tick w' = ow_tick w \<and> log w' = (case x of Inl e \<Rightarrow> log w | Inr _ \<Rightarrow> log w @ [r])) \<and>
     (\<forall>w rows t. log (w\<lparr>ow_rows := rows, ow_tick := t\<rparr>) = log w)"

definition connect_ok ::
    "(('e, 'z) oworld_scheme \<Rightarrow> unit result \<times> ('e, 'z) oworld_scheme) \<Rightarrow> (('e, 'z) oworld_scheme \<Rightarrow> 'e OutboxRecord list) \<Rightarrow> bool" where
  "connect_ok connect log \<longleftrightarrow> (\<forall>w x w'. connect w = (x, w') \<longrightarrow> ow_rows w' = ow_rows w \<and> ow_handled w' = ow_handled w \<and>
     ow_err w' = ow_err w \<and> ow_tick w' = ow_tick w \<and> log w' = log w)"

lemma stream_okD:
  assumes "stream_ok js log" and "js r w = (x, w')"
  shows "ow_rows w' = ow_rows w" "ow_err w' = ow_err w" "ow_tick w' = ow_tick w"
    "x = Inl e \<Longrightarrow> log w' = log w" "x = Inr u \<Longrightarrow> log w' = log w @ [r]"
  using assms by (auto simp: stream_ok_def)

lemma stream_log [simp]:
  assumes "stream_ok js log"
  shows "log (w\<lparr>ow_rows := rows, ow_tick := t\<rparr>) = log w" "log (w\<lparr>ow_tick := t\<rparr>) = log w"
proof -
  have "log (w\<lparr>ow_rows := rows', ow_tick := t'\<rparr>) = log w" for rows' t'
    using assms unfolding stream_ok_def by blast
  from this [where rows' = rows and t' = t] this [where rows' = "ow_rows w" and t' = t]
  show "log (w\<lparr>ow_rows := rows, ow_tick := t\<rparr>) = log w" "log (w\<lparr>ow_tick := t\<rparr>) = log w" by simp_all
qed

text \<open>The two marks, as one change of the rows.\<close>

lemma MarkFailed_effect:
  "\<exists>f t. keeps_core f \<and> (\<forall>row. or_publishedAt (f row) = or_publishedAt row) \<and>
     (snd (MarkFailed i e w) = w\<lparr>ow_rows := map f (ow_rows w), ow_tick := t\<rparr>)"
proof -
  let ?f = "\<lambda>row :: 'a OutboxRow. if or_eventId row = TrimSpace i then row\<lparr>or_lastError := TrimSpace (err_message e)\<rparr> else row"
  have id: "keeps_core id" "keeps_core ?f" by (simp_all add: keeps_core_def row_core_def)
  show ?thesis
  proof (cases "TrimSpace i = [] \<or> ow_err w (ow_tick w) \<noteq> None")
    case True
    then show ?thesis using id(1)
      by (intro exI [of _ id] exI [of _ "if TrimSpace i = [] then ow_tick w else Suc (ow_tick w)"])
        (auto simp: MarkFailed_def ow_exec_def Let_def)
  next
    case False
    then show ?thesis using id(2)
      by (intro exI [of _ ?f] exI [of _ "Suc (ow_tick w)"]) (auto simp: MarkFailed_def ow_exec_def Let_def set_row_def)
  qed
qed

lemma MarkPublished_effect:
  assumes "MarkPublished i w = (x, w')"
  shows "\<exists>f t. keeps_core f \<and> (\<forall>row. or_publishedAt (f row) \<noteq> or_publishedAt row \<longrightarrow> or_eventId row = TrimSpace i) \<and>
     w' = w\<lparr>ow_rows := map f (ow_rows w), ow_tick := t\<rparr>"
proof -
  let ?f = "\<lambda>row :: 'a OutboxRow. if or_eventId row = TrimSpace i
      then row\<lparr>or_publishedAt := Some (ow_clock w (ow_tick w)), or_lastError := []\<rparr> else row"
  have id: "keeps_core id" "keeps_core ?f" by (simp_all add: keeps_core_def row_core_def)
  show ?thesis
  proof (cases "TrimSpace i = [] \<or> ow_err w (ow_tick w) \<noteq> None")
    case True
    with assms show ?thesis using id(1)
      by (intro exI [of _ id] exI [of _ "if TrimSpace i = [] then ow_tick w else Suc (ow_tick w)"])
        (auto simp: MarkPublished_def ow_exec_def Let_def split: if_splits)
  next
    case False
    with assms show ?thesis using id(2)
      by (intro exI [of _ ?f] exI [of _ "Suc (ow_tick w)"]) (auto simp: MarkPublished_def ow_exec_def Let_def set_row_def)
  qed
qed

section \<open>No event is lost\<close>

definition outbox_inv :: "(('e, 'z) oworld_scheme \<Rightarrow> 'e OutboxRecord list) \<Rightarrow> ('e, 'z) oworld_scheme \<Rightarrow> bool" where
  "outbox_inv log w \<longleftrightarrow> distinct (map or_eventId (ow_rows w)) \<and>
     (\<forall>row \<in> set (ow_rows w). TrimSpace (or_eventId row) = or_eventId row \<and> or_eventId row \<noteq> []) \<and>
     (\<forall>row \<in> set (ow_rows w). or_publishedAt row \<noteq> None \<longrightarrow> record_of row \<in> set (log w))"

lemma outbox_inv_map:
  assumes "outbox_inv log w" and "keeps_core f" and "ow_rows w' = map f (ow_rows w)"
    and "\<And>row. row \<in> set (ow_rows w) \<Longrightarrow> or_publishedAt (f row) \<noteq> None \<Longrightarrow> record_of row \<in> set (log w')"
  shows "outbox_inv log w'"
proof -
  have "map or_eventId (map f (ow_rows w)) = map or_eventId (ow_rows w)" using assms(2) by (simp add: keeps_coreD)
  with assms show ?thesis unfolding outbox_inv_def assms(3) by (auto simp: keeps_coreD simp del: map_map)
qed

definition has_records :: "('e, 'z) oworld_scheme \<Rightarrow> 'e OutboxRecord list \<Rightarrow> bool" where
  "has_records w rs \<longleftrightarrow> set rs \<subseteq> record_of ` set (ow_rows w)"

lemma has_records_map: "keeps_core f \<Longrightarrow> has_records w rs \<Longrightarrow> ow_rows w' = map f (ow_rows w) \<Longrightarrow> has_records w' rs"
  by (auto simp: has_records_def image_iff keeps_coreD subset_iff)

definition extends :: "'a list \<Rightarrow> 'a list \<Rightarrow> bool" where
  "extends xs ys \<longleftrightarrow> (\<exists>zs. ys = xs @ zs)"

lemma extends_trans: "extends xs ys \<Longrightarrow> extends ys zs \<Longrightarrow> extends xs zs"
  by (auto simp: extends_def)

lemma extends_simps [simp]: "extends xs xs" "extends xs (xs @ ys)"
  by (simp_all add: extends_def)

lemma extends_set: "extends xs ys \<Longrightarrow> x \<in> set xs \<Longrightarrow> x \<in> set ys"
  by (auto simp: extends_def)

text \<open>What one record does to the tables and to the stream.\<close>

definition publish_one ::
    "('e, ('e, 'z) oworld_scheme) stream \<Rightarrow> 'e OutboxRecord \<Rightarrow> ('e, 'z) oworld_scheme \<Rightarrow> unit result \<times> ('e, 'z) oworld_scheme" where
  "publish_one js r w = (case js r w of (Inl e, w) \<Rightarrow> (Inr (), snd (MarkFailed (orec_EventID r) e w))
     | (Inr _, w) \<Rightarrow> MarkPublished (orec_EventID r) w)"

lemma publish_all_Cons:
  "publish_all js (r # rs) w = (case publish_one js r w of (Inl e, w) \<Rightarrow> (Inl e, w) | (Inr _, w) \<Rightarrow> publish_all js rs w)"
  by (auto simp: publish_one_def split: prod.splits sum.splits)

lemma publish_one_inv:
  assumes js: "stream_ok js log" and step: "publish_one js r w = (x, w')" and inv: "outbox_inv log w" and has: "has_records w [r]"
  shows "outbox_inv log w' \<and> (\<exists>f. keeps_core f \<and> ow_rows w' = map f (ow_rows w)) \<and> extends (log w) (log w')"
proof -
  obtain y w1 where j: "js r w = (y, w1)" by fastforce
  note d = stream_okD [OF js j]
  show ?thesis
  proof (cases y)
    case (Inl e)
    from MarkFailed_effect [of "orec_EventID r" e w1] obtain f t where f: "keeps_core f"
      "\<forall>row. or_publishedAt (f row) = or_publishedAt row"
      "snd (MarkFailed (orec_EventID r) e w1) = w1\<lparr>ow_rows := map f (ow_rows w1), ow_tick := t\<rparr>" by blast
    with step j Inl have w': "w' = w1\<lparr>ow_rows := map f (ow_rows w1), ow_tick := t\<rparr>" by (simp add: publish_one_def)
    with d Inl js have "log w' = log w" "ow_rows w' = map f (ow_rows w)" by simp_all
    moreover from this have "outbox_inv log w'"
      using inv f(2) by (intro outbox_inv_map [OF inv f(1)]) (auto simp: outbox_inv_def)
    ultimately show ?thesis using f(1) by auto
  next
    case (Inr u)
    with step j have "MarkPublished (orec_EventID r) w1 = (x, w')" by (simp add: publish_one_def)
    from MarkPublished_effect [OF this] obtain f t where f: "keeps_core f"
      "\<forall>row. or_publishedAt (f row) \<noteq> or_publishedAt row \<longrightarrow> or_eventId row = TrimSpace (orec_EventID r)"
      and w': "w' = w1\<lparr>ow_rows := map f (ow_rows w1), ow_tick := t\<rparr>" by blast
    with d Inr js have log: "log w' = log w @ [r]" and rows: "ow_rows w' = map f (ow_rows w)" by simp_all
    from has obtain row0 where row0: "row0 \<in> set (ow_rows w)" "record_of row0 = r" by (auto simp: has_records_def)
    have "record_of row \<in> set (log w')" if "row \<in> set (ow_rows w)" "or_publishedAt (f row) \<noteq> None" for row
    proof (cases "or_publishedAt (f row) = or_publishedAt row")
      case True
      with that inv log show ?thesis by (auto simp: outbox_inv_def)
    next
      case False
      with f(2) row0 inv have "or_eventId row = or_eventId row0" by (auto simp: outbox_inv_def record_of_def)
      with that(1) row0(1) inv have "row = row0"
        by (auto simp: outbox_inv_def distinct_map dest: inj_onD)
      with row0 log show ?thesis by simp
    qed
    with outbox_inv_map [OF inv f(1) rows] have "outbox_inv log w'" by blast
    with f(1) rows log show ?thesis by auto
  qed
qed

lemma publish_all_inv:
  assumes js: "stream_ok js log"
  shows "publish_all js rs w = (x, w') \<Longrightarrow> outbox_inv log w \<Longrightarrow> has_records w rs \<Longrightarrow>
    outbox_inv log w' \<and> map row_core (ow_rows w') = map row_core (ow_rows w) \<and> extends (log w) (log w')"
proof (induction rs arbitrary: w)
  case (Cons r rs)
  obtain y w1 where one: "publish_one js r w = (y, w1)" by fastforce
  have "has_records w [r]" using Cons.prems(3) by (simp add: has_records_def)
  from publish_one_inv [OF js one Cons.prems(2) this] obtain f where i: "outbox_inv log w1" "keeps_core f"
    "ow_rows w1 = map f (ow_rows w)" "extends (log w) (log w1)" by blast
  show ?case
  proof (cases y)
    case (Inl e)
    with Cons.prems(1) one i show ?thesis by (auto simp: publish_all_Cons keeps_core_def simp del: publish_all.simps)
  next
    case (Inr u)
    with Cons.prems(1) one have p: "publish_all js rs w1 = (x, w')" by (simp add: publish_all_Cons del: publish_all.simps)
    have "has_records w rs" using Cons.prems(3) by (simp add: has_records_def)
    from Cons.IH [OF p i(1) has_records_map [OF i(2) this i(3)]] i map_keeps_core [OF i(2), of "ow_rows w"]
    show ?thesis by (auto intro: extends_trans)
  qed
qed simp

definition rearranges :: "('a list \<Rightarrow> 'a list) \<Rightarrow> bool" where
  "rearranges order \<longleftrightarrow> (\<forall>xs. mset (order xs) = mset xs)"

lemma rearranges_set: "rearranges order \<Longrightarrow> set (order xs) = set xs"
  unfolding rearranges_def by (metis set_mset_mset)

abbreviation batch_size :: "int \<Rightarrow> nat" where
  "batch_size n \<equiv> nat (if n \<le> 0 then 32 else n)"

text \<open>A claim counts attempts, and returns records of rows.\<close>

lemma outbox_Claim_effect:
  assumes "outbox_Claim order n w = (x, w')" and "rearranges order"
  shows "\<exists>f t. keeps_core f \<and> (\<forall>row. or_publishedAt (f row) = or_publishedAt row) \<and>
    w' = w\<lparr>ow_rows := map f (ow_rows w), ow_tick := t\<rparr> \<and>
    (\<forall>rs. x = Inr rs \<longrightarrow> set rs = record_of ` set (next_batch (batch_size n) (ow_rows w)))"
proof -
  let ?b = "next_batch (batch_size n) (ow_rows w)" and ?t = "Suc (ow_tick w)"
  let ?f = "count_attempt (or_eventId ` set ?b)"
  have f: "keeps_core ?f" "\<forall>row. or_publishedAt (?f row) = or_publishedAt row"
    by (rule keeps_core_simps) (simp add: count_attempt_def)
  have id: "keeps_core id" by (simp add: keeps_core_def)
  show ?thesis
  proof (cases "ow_err w (ow_tick w)")
    case (Some e)
    with assms(1) have "w' = w\<lparr>ow_rows := map id (ow_rows w), ow_tick := ?t\<rparr>" "isl x"
      by (auto simp: outbox_Claim_def ow_exec_def Let_def)
    with id show ?thesis by (intro exI [of _ id] exI [of _ ?t]) auto
  next
    case None
    with assms(1) have "w' = w\<lparr>ow_rows := map ?f (ow_rows w), ow_tick := ?t\<rparr>" "x = Inr (map record_of (order ?b))"
      by (auto simp: outbox_Claim_def ow_exec_def Let_def)
    with f show ?thesis using rearranges_set [OF assms(2)] by (intro exI [of _ ?f] exI [of _ ?t]) auto
  qed
qed

text \<open>A refused record changes neither the identity nor the publication of a row.\<close>

definition quiet :: "('e OutboxRow \<Rightarrow> 'e OutboxRow) \<Rightarrow> bool" where
  "quiet f \<longleftrightarrow> keeps_core f \<and> (\<forall>row. or_publishedAt (f row) = or_publishedAt row)"

lemma quiet_comp: "quiet f \<Longrightarrow> quiet g \<Longrightarrow> quiet (\<lambda>row. f (g row))"
  by (simp add: quiet_def keeps_core_def)

lemma quiet_batch: "quiet f \<Longrightarrow> next_batch n (map f rows) = map f (next_batch n rows)"
  by (rule next_batch_map) (simp_all add: quiet_def is_pending_def)

lemma quiet_pending: "quiet f \<Longrightarrow> map or_eventId (filter is_pending (map f rows)) = map or_eventId (filter is_pending rows)"
  by (induction rows) (simp_all add: quiet_def is_pending_def keeps_coreD)

lemma publish_all_refused:
  assumes js: "stream_ok js log"
  shows "\<forall>r \<in> set rs. \<forall>v. isl (fst (js r v)) \<Longrightarrow>
    \<exists>f. quiet f \<and> ow_rows (snd (publish_all js rs w)) = map f (ow_rows w) \<and> fst (publish_all js rs w) = Inr ()"
proof (induction rs arbitrary: w)
  case Nil
  have "quiet (\<lambda>row. row)" by (simp add: quiet_def keeps_core_def)
  then show ?case by (intro exI [of _ "\<lambda>row. row"]) simp
next
  case (Cons r rs)
  from Cons.prems obtain e w1 where j: "js r w = (Inl e, w1)" by (metis isl_def list.set_intros(1) prod.collapse)
  from MarkFailed_effect [of "orec_EventID r" e w1] obtain f t where f: "quiet f"
    "snd (MarkFailed (orec_EventID r) e w1) = w1\<lparr>ow_rows := map f (ow_rows w1), ow_tick := t\<rparr>" by (auto simp: quiet_def)
  let ?w2 = "w1\<lparr>ow_rows := map f (ow_rows w1), ow_tick := t\<rparr>"
  from Cons.IH [of ?w2] Cons.prems obtain g where g: "quiet g"
    "ow_rows (snd (publish_all js rs ?w2)) = map g (ow_rows ?w2)" "fst (publish_all js rs ?w2) = Inr ()" by auto
  have "publish_all js (r # rs) w = publish_all js rs ?w2" using j f by simp
  with g stream_okD(1) [OF js j] quiet_comp [OF g(1) f(1)] show ?case
    by (intro exI [of _ "\<lambda>row. g (f row)"]) (simp add: comp_def)
qed

text \<open>Where every request succeeds and everything is accepted, the records become published.\<close>

lemma publish_all_accepted:
  assumes js: "stream_ok js log" and acc: "\<And>r v. \<not> isl (fst (js r v))"
  shows "\<forall>n. ow_err w n = None \<Longrightarrow> \<forall>r \<in> set rs. TrimSpace (orec_EventID r) = orec_EventID r \<and> orec_EventID r \<noteq> [] \<Longrightarrow>
    fst (publish_all js rs w) = Inr () \<and>
    map or_eventId (filter is_pending (ow_rows (snd (publish_all js rs w)))) =
      map or_eventId (filter (\<lambda>row. is_pending row \<and> or_eventId row \<notin> orec_EventID ` set rs) (ow_rows w))"
proof (induction rs arbitrary: w)
  case (Cons r rs)
  from acc [of r w] obtain u w1 where j: "js r w = (Inr u, w1)" by (cases "js r w"; cases "fst (js r w)") auto
  note d = stream_okD(1-3) [OF js j]
  let ?f = "\<lambda>row. row\<lparr>or_publishedAt := Some (ow_clock w1 (ow_tick w1)), or_lastError := []\<rparr>"
  let ?w2 = "w1\<lparr>ow_tick := Suc (ow_tick w1), ow_rows := set_row (orec_EventID r) ?f (ow_rows w1)\<rparr>"
  have m: "MarkPublished (orec_EventID r) w1 = (Inr (), ?w2)"
    using Cons.prems d by (simp add: MarkPublished_def ow_exec_def Let_def)
  have eq: "publish_all js (r # rs) w = publish_all js rs ?w2" using j m by simp
  have "\<forall>n. ow_err ?w2 n = None" using Cons.prems d by simp
  note IH = Cons.IH [OF this]
  have "map or_eventId (filter (\<lambda>row. is_pending row \<and> or_eventId row \<notin> orec_EventID ` set rs) (set_row (orec_EventID r) ?f rows))
      = map or_eventId (filter (\<lambda>row. is_pending row \<and> or_eventId row \<notin> orec_EventID ` set (r # rs)) rows)" for rows
    by (induction rows) (auto simp: set_row_def is_pending_def)
  with IH Cons.prems d eq show ?case by simp
qed simp

section \<open>A stream in memory\<close>

text \<open>A stream that keeps what it accepts, and refuses the ids of a given list.\<close>

record 'e busworld = "'e oworld" +
  bus_log :: "'e OutboxRecord list"

definition mem_stream :: "string list \<Rightarrow> ('e, 'e busworld) stream" where
  "mem_stream refused r w = (if orec_EventID r \<in> set refused then (Inl (PlainError ''refused''), w)
     else (Inr (), w\<lparr>bus_log := bus_log w @ [r]\<rparr>))"

definition mem_connect :: "'e busworld \<Rightarrow> unit result \<times> 'e busworld" where
  "mem_connect w = (Inr (), w)"

lemma mem_stream_ok:
  "stream_ok (mem_stream refused :: ('e, 'e busworld) stream) bus_log"
  "connect_ok (mem_connect :: 'e busworld \<Rightarrow> unit result \<times> 'e busworld) bus_log"
proof -
  have "ow_rows w' = ow_rows w \<and> ow_handled w' = ow_handled w \<and> ow_err w' = ow_err w \<and> ow_tick w' = ow_tick w \<and>
      bus_log w' = (case x of Inl e \<Rightarrow> bus_log w | Inr _ \<Rightarrow> bus_log w @ [r])"
    if "mem_stream refused r w = (x, w')" for r :: "'e OutboxRecord" and x and w w' :: "'e busworld"
    using that by (cases "orec_EventID r \<in> set refused") (auto simp: mem_stream_def)
  then show "stream_ok (mem_stream refused :: ('e, 'e busworld) stream) bus_log" unfolding stream_ok_def by (intro conjI) (blast, simp)
  show "connect_ok (mem_connect :: 'e busworld \<Rightarrow> unit result \<times> 'e busworld) bus_log" by (simp add: connect_ok_def mem_connect_def)
qed

definition ex_event :: "string \<Rightarrow> unit DomainEvent" where
  "ex_event i = \<lparr>de_eventId = i, de_eventType = ''created'', de_aggregateType = ''agent_run'', de_aggregateId = ''r1'',
     de_aggregateVersion = 1, de_occurredAt = Some 5, de_producer = ''p'', de_payload = ()\<rparr>"

definition ex_bus :: "string list \<Rightarrow> unit busworld" where
  "ex_bus ids = \<lparr>ow_rows = map (\<lambda>i. outbox_row 10 (ex_event i)) ids, ow_handled = [], ow_err = (\<lambda>n. None),
     ow_clock = (\<lambda>n. 20), ow_tick = 0, bus_log = []\<rparr>"

lemma ex_bus_inv: "outbox_inv bus_log (ex_bus [''e1'', ''e2'', ''e3''])"
proof -
  have t: "TrimSpace ''e1'' = ''e1''" "TrimSpace ''e2'' = ''e2''" "TrimSpace ''e3'' = ''e3''"
    by (rule TrimSpace_plain; simp add: plain_char_def)+
  then show ?thesis by (simp add: outbox_inv_def ex_bus_def outbox_row_def ex_event_def)
qed

section \<open>Properties\<close>



text \<open>
  Publishing makes progress: if the requests of a batch succeed and the stream accepts every record,
  the pending events are afterwards exactly those outside the oldest \<open>batchSize\<close> (by default 32)
  pending ones.
\<close>

theorem PublishPending_progress:
  assumes "stream_ok js log" and "connect_ok connect log" and "rearranges order" and "outbox_inv log w"
    and "\<forall>k. ow_err w k = None" and "\<And>r v. \<not> isl (fst (js r v))" and "\<And>v. \<not> isl (fst (connect v))"
  shows "fst (PublishPending order n connect js w) = Inr () \<and>
    set (map or_eventId (filter is_pending (ow_rows (snd (PublishPending order n connect js w))))) =
      set (map or_eventId (filter is_pending (ow_rows w))) - set (map or_eventId (next_batch (batch_size n) (ow_rows w)))"
proof -
  let ?b = "next_batch (batch_size n) (ow_rows w)"
  obtain y w1 where c: "outbox_Claim order n w = (y, w1)" by fastforce
  from outbox_Claim_effect [OF c assms(3)] obtain f t where f: "quiet f"
    and w1: "w1 = w\<lparr>ow_rows := map f (ow_rows w), ow_tick := t\<rparr>"
    and rs: "\<forall>rs. y = Inr rs \<longrightarrow> set rs = record_of ` set ?b" by (auto simp: quiet_def)
  from c assms(5) obtain rs' where y: "y = Inr rs'"
    by (auto simp: outbox_Claim_def ow_exec_def Let_def)
  with rs have ids: "orec_EventID ` set rs' = or_eventId ` set ?b" by (auto simp: record_of_def image_image)
  have trimmed: "\<forall>r \<in> set rs'. TrimSpace (orec_EventID r) = orec_EventID r \<and> orec_EventID r \<noteq> []"
    using rs y assms(4) by (auto simp: outbox_inv_def record_of_def dest!: next_batch_set)
  have pend: "set (map or_eventId (filter (\<lambda>row. is_pending row \<and> or_eventId row \<notin> A) (map f rows)))
      = set (map or_eventId (filter is_pending rows)) - A" for A rows
    using f by (induction rows) (auto simp: quiet_def is_pending_def keeps_coreD)
  show ?thesis
  proof (cases "rs' = []")
    case True
    with y c have "PublishPending order n connect js w = (Inr (), w1)" by (simp add: PublishPending_def)
    with pend [of "{}" "ow_rows w"] True ids w1 show ?thesis by simp
  next
    case False
    obtain z w2 where con: "connect w1 = (z, w2)" by fastforce
    with assms(7) [of w1] have z: "z = Inr ()" by (cases z) auto
    from con assms(2) have k: "ow_rows w2 = ow_rows w1" "ow_err w2 = ow_err w1" by (auto simp: connect_ok_def)
    have "\<forall>k. ow_err w2 k = None" using k w1 assms(5) by simp
    from publish_all_accepted [OF assms(1,6) this trimmed]
    have p: "fst (publish_all js rs' w2) = Inr ()" "map or_eventId (filter is_pending (ow_rows (snd (publish_all js rs' w2)))) =
        map or_eventId (filter (\<lambda>row. is_pending row \<and> or_eventId row \<notin> orec_EventID ` set rs') (map f (ow_rows w)))"
      using k w1 by simp_all
    have "PublishPending order n connect js w = publish_all js rs' w2"
      using c y False con z by (simp add: PublishPending_def)
    moreover have "set (map or_eventId (filter is_pending (ow_rows (snd (publish_all js rs' w2))))) =
        set (map or_eventId (filter is_pending (ow_rows w))) - or_eventId ` set ?b"
      by (simp only: p(2) pend ids)
    ultimately show ?thesis by (simp only: p(1) list.set_map)
  qed
qed

theorem PublishPending_progress_witness:
  "set (map or_eventId (filter is_pending (ow_rows (snd
     (PublishPending id 2 mem_connect (mem_stream []) (ex_bus [''e1'', ''e2'', ''e3''])))))) = {''e3''}"
proof -
  let ?w = "ex_bus [''e1'', ''e2'', ''e3'']"
  have "fst (PublishPending id 2 mem_connect (mem_stream []) ?w) = Inr () \<and>
    set (map or_eventId (filter is_pending (ow_rows (snd (PublishPending id 2 mem_connect (mem_stream []) ?w))))) =
      set (map or_eventId (filter is_pending (ow_rows ?w))) - set (map or_eventId (next_batch (batch_size 2) (ow_rows ?w)))"
    by (rule PublishPending_progress [OF mem_stream_ok _ ex_bus_inv])
      (simp add: rearranges_def, simp add: ex_bus_def, simp add: mem_stream_def, simp add: mem_connect_def)
  moreover have "map or_eventId (filter is_pending (ow_rows ?w)) = [''e1'', ''e2'', ''e3'']" by code_simp
  moreover have "map or_eventId (next_batch (batch_size 2) (ow_rows ?w)) = [''e1'', ''e2'']" by code_simp
  moreover have "set [''e1'', ''e2'', ''e3''] - set [''e1'', ''e2''] = {''e3''}" by simp
  ultimately show ?thesis by (simp only:)
qed

text \<open>
  The head of the outbox blocks the rest: there is no limit on attempts, so if the stream refuses
  the oldest \<open>batchSize\<close> pending events, publishing a batch leaves every other event pending and the
  next batch is the same events again. Events behind them are never published.
\<close>

theorem PublishPending_head_blocks:
  assumes "stream_ok js log" and "connect_ok connect log" and "rearranges order"
    and "\<forall>row \<in> set (next_batch (batch_size n) (ow_rows w)). \<forall>v. isl (fst (js (record_of row) v))"
    and "w' = snd (PublishPending order n connect js w)"
  shows "map or_eventId (filter is_pending (ow_rows w')) = map or_eventId (filter is_pending (ow_rows w)) \<and>
    map record_of (next_batch (batch_size n) (ow_rows w')) = map record_of (next_batch (batch_size n) (ow_rows w))"
proof -
  obtain y w1 where c: "outbox_Claim order n w = (y, w1)" by fastforce
  from outbox_Claim_effect [OF c assms(3)] obtain f t where f: "quiet f"
    and w1: "w1 = w\<lparr>ow_rows := map f (ow_rows w), ow_tick := t\<rparr>"
    and rs: "\<forall>rs. y = Inr rs \<longrightarrow> set rs = record_of ` set (next_batch (batch_size n) (ow_rows w))" by (auto simp: quiet_def)
  have "\<exists>g. quiet g \<and> ow_rows w' = map g (ow_rows w)"
  proof (cases "\<exists>rs. y = Inr rs \<and> rs \<noteq> []")
    case False
    with assms(5) c have "w' = w1" by (auto simp: PublishPending_def split: sum.splits if_splits)
    with f w1 show ?thesis by auto
  next
    case True
    then obtain rs' where y: "y = Inr rs'" "rs' \<noteq> []" by blast
    obtain z w2 where con: "connect w1 = (z, w2)" by fastforce
    with assms(2) have k: "ow_rows w2 = ow_rows w1" by (auto simp: connect_ok_def)
    show ?thesis
    proof (cases z)
      case (Inl e)
      with assms(5) c y con k w1 f show ?thesis by (auto simp: PublishPending_def)
    next
      case (Inr u)
      with assms(5) c y con have w': "w' = snd (publish_all js rs' w2)" by (simp add: PublishPending_def)
      have "\<forall>r \<in> set rs'. \<forall>v. isl (fst (js r v))" using rs y assms(4) by auto
      from publish_all_refused [OF assms(1) this, of w2] obtain g where "quiet g" "ow_rows w' = map g (ow_rows w2)"
        using w' by auto
      with f k w1 quiet_comp [of g f] show ?thesis
        by (intro exI [of _ "\<lambda>row. g (f row)"]) (simp add: comp_def)
    qed
  qed
  then obtain g where g: "quiet g" "ow_rows w' = map g (ow_rows w)" by blast
  with quiet_pending [OF g(1), of "ow_rows w"] quiet_batch [OF g(1), of "batch_size n" "ow_rows w"]
  show ?thesis by (simp add: quiet_def keeps_coreD)
qed

theorem PublishPending_head_blocks_witness:
  "let w' = snd (PublishPending id 2 mem_connect (mem_stream [''e1'', ''e2'']) (ex_bus [''e1'', ''e2'', ''e3'']))
   in map orec_EventID (map record_of (next_batch (batch_size 2) (ow_rows w'))) = [''e1'', ''e2'']"
proof -
  let ?w = "ex_bus [''e1'', ''e2'', ''e3'']" and ?js = "mem_stream [''e1'', ''e2''] :: (unit, unit busworld) stream"
  have b: "map orec_EventID (map record_of (next_batch (batch_size 2) (ow_rows ?w))) = [''e1'', ''e2'']" by code_simp
  have r: "\<forall>row \<in> set (next_batch (batch_size 2) (ow_rows ?w)). \<forall>v. isl (fst (?js (record_of row) v))"
  proof (intro ballI allI)
    fix row :: "unit OutboxRow" and v :: "unit busworld"
    assume row: "row \<in> set (next_batch (batch_size 2) (ow_rows ?w))"
    have "orec_EventID (record_of row) \<in> set (map orec_EventID (map record_of (next_batch (batch_size 2) (ow_rows ?w))))"
      using row by simp
    then have "orec_EventID (record_of row) \<in> {''e1'', ''e2''}" unfolding b by simp
    then show "isl (fst (?js (record_of row) v))" by (auto simp: mem_stream_def)
  qed
  have "rearranges (id :: unit OutboxRow list \<Rightarrow> unit OutboxRow list)" by (simp add: rearranges_def)
  from PublishPending_head_blocks [OF mem_stream_ok this r refl] b show ?thesis unfolding Let_def by metis
qed

text \<open>
  A consumer settles an event only when it is recorded as handled: a message is acknowledged exactly
  if the event is in the table afterwards and all requests succeeded, it is handled at most once
  after it has been recorded, and an event whose handler fails is delivered again.
\<close>

theorem consumer_handle_settles:
  assumes "\<And>e v x v'. handler e v = (x, v') \<Longrightarrow> ow_handled v' = ow_handled v"
  shows "(fst (consumer_handle durable handler (Some event) w) = Acked \<longrightarrow>
        (durable, de_eventId event) \<in> set (ow_handled (snd (consumer_handle durable handler (Some event) w)))) \<and>
    (set (ow_handled w) \<subseteq> set (ow_handled (snd (consumer_handle durable handler (Some event) w)))) \<and>
    ((durable, de_eventId event) \<in> set (ow_handled w) \<longrightarrow>
        consumer_handle durable handler (Some event) w = consumer_handle durable (\<lambda>e v. (Inl (PlainError []), v)) (Some event) w) \<and>
    ((durable, de_eventId event) \<notin> set (ow_handled w) \<and> (\<forall>v. isl (fst (handler event v))) \<longrightarrow>
        fst (consumer_handle durable handler (Some event) w) = Naked)"
proof -
  let ?w1 = "w\<lparr>ow_tick := Suc (ow_tick w)\<rparr>"
  obtain x w2 where h: "handler event ?w1 = (x, w2)" by fastforce
  with assms have k: "ow_handled w2 = ow_handled w" by fastforce
  show ?thesis
  proof (cases "ow_err w (ow_tick w)")
    case (Some e)
    then show ?thesis by (simp add: consumer_handle_def ow_processed_def Let_def)
  next
    case None
    with h k show ?thesis
      by (cases x; cases "(durable, de_eventId event) \<in> set (ow_handled w)"; cases "ow_err w2 (ow_tick w2)")
        (auto simp: consumer_handle_def ow_processed_def ow_markProcessed_def Let_def intro!: exI [of _ ?w1])
  qed
qed

theorem consumer_handle_settles_witness:
  "let w' = snd (consumer_handle ''c'' (\<lambda>e v. (Inr (), v)) (Some (ex_event ''e1'')) (ex_bus []))
   in (''c'', ''e1'') \<in> set (ow_handled w')"
proof -
  let ?h = "\<lambda>(e :: unit DomainEvent) (v :: unit busworld). (Inr () :: unit result, v)"
  have "fst (consumer_handle ''c'' ?h (Some (ex_event ''e1'')) (ex_bus [])) = Acked" by code_simp
  moreover have "de_eventId (ex_event ''e1'') = ''e1''" by (simp add: ex_event_def)
  ultimately show ?thesis
    using consumer_handle_settles [of ?h "''c''" "ex_event ''e1''" "ex_bus []"] by simp
qed

end
