(* ===== verification/Action_Store.thy ===== *)
theory Action_Store
  imports Action_Controller Domain_Events
begin

text \<open>
  The Postgres store of actions (\<open>agentsessionactions/store.go\<close>, \<open>labels.go\<close>).

  The table \<open>platform_agent_session_actions\<close> is the list of its rows. The payload of a row is the JSON
  document of the action resource, a value of the type \<open>'p\<close>; encoding, decoding and the two paths that the
  queries read from a document are the parameter \<open>action_codec\<close>. \<open>action_codec_ok\<close> states what
  \<open>encoding/json\<close> and \<open>jsonb\<close> are documented to do: a document gives back the resource, with its times
  cut to whole seconds, as \<open>metav1.Time\<close> writes them. What Postgres and the clock do in one call is an
  \<open>senv\<close>, as in \<open>Session_Store\<close>.
\<close>

section \<open>Documents\<close>

definition sessionIDLabelKey :: string where
  "sessionIDLabelKey = ''agentsessionaction.code-code.internal/session-id''"

definition typeLabelKey :: string where
  "typeLabelKey = ''agentsessionaction.code-code.internal/type''"

definition actionLabels :: "string \<Rightarrow> ActionType \<Rightarrow> (string \<times> string) list" where
  "actionLabels sessionID actionType =
     (sessionIDLabelKey, TrimSpace sessionID) #
     (if actionType \<noteq> TypeUnspecified then [(typeLabelKey, TrimSpace (action_type_name actionType))] else [])"

record 'p action_codec =
  acd_marshal :: "ActionResource \<Rightarrow> 'p result"
  acd_unmarshal :: "'p \<Rightarrow> ActionResource result"
  acd_namespace :: "'p \<Rightarrow> string option"
  acd_session :: "'p \<Rightarrow> string option"

definition trunc_time :: "time \<Rightarrow> time" where
  "trunc_time t = t - t mod second"

text \<open>A pointer to the zero time is written as null and read back as nil.\<close>

definition json_time :: "time option \<Rightarrow> time option" where
  "json_time t = (case t of None \<Rightarrow> None | Some v \<Rightarrow> if time_is_zero v then None else Some (trunc_time v))"

definition json_action :: "ActionResource \<Rightarrow> ActionResource" where
  "json_action r = r
     \<lparr>ar_meta := (ar_meta r)\<lparr>om_creationTimestamp := trunc_time (om_creationTimestamp (ar_meta r)),
        om_deletionTimestamp := json_time (om_deletionTimestamp (ar_meta r))\<rparr>,
      ar_status := (ar_status r)\<lparr>act_conditions := map (\<lambda>c. c\<lparr>mc_lastTransitionTime := trunc_time (mc_lastTransitionTime c)\<rparr>)
          (act_conditions (ar_status r)),
        act_nextRetryAt := json_time (act_nextRetryAt (ar_status r)),
        act_createdAt := json_time (act_createdAt (ar_status r)),
        act_updatedAt := json_time (act_updatedAt (ar_status r))\<rparr>\<rparr>"

definition action_codec_ok :: "'p action_codec \<Rightarrow> bool" where
  "action_codec_ok cd \<longleftrightarrow> (\<forall>r p. acd_marshal cd r = Inr p \<longrightarrow> acd_unmarshal cd p = Inr (json_action r) \<and>
     acd_namespace cd p = (if om_namespace (ar_meta r) = [] then None else Some (om_namespace (ar_meta r))) \<and>
     acd_session cd p = map_of (om_labels (ar_meta r)) sessionIDLabelKey)"

section \<open>The table\<close>

record 'p ActionRow =
  arow_id :: string
  arow_payload :: 'p
  arow_generation :: int
  arow_createdAt :: time

record ActionEvent =
  aev_mutation :: DomainMutation
  aev_state :: ActionState

record 'p adb =
  adb_rows :: "'p ActionRow list"
  adb_outbox :: "ActionEvent OutboxRow list"

text \<open>The store: its namespace, and the producer name of its outbox if it has one.\<close>

record PostgresStore =
  pgs_namespace :: string
  pgs_outbox :: "string option"

definition actionGroupResource :: string where
  "actionGroupResource = ''agentsessionactions.'' @ GroupName"

definition normalizeActionResource :: "string \<Rightarrow> int \<Rightarrow> time \<Rightarrow> ActionResource \<Rightarrow> ActionResource" where
  "normalizeActionResource namespace generation now r =
     (let r = (if ar_apiVersion r = [] then r\<lparr>ar_apiVersion := GroupVersion\<rparr> else r);
          r = (if ar_kind r = [] then r\<lparr>ar_kind := ''AgentSessionActionResource''\<rparr> else r);
          m = ar_meta r;
          m = (if TrimSpace (om_namespace m) = [] then m\<lparr>om_namespace := TrimSpace namespace\<rparr> else m);
          m = (if time_is_zero (om_creationTimestamp m) then m\<lparr>om_creationTimestamp := now\<rparr> else m);
          st = (if act_createdAt (ar_status r) = None
                then (ar_status r)\<lparr>act_createdAt := Some (om_creationTimestamp m)\<rparr> else ar_status r)
      in r\<lparr>ar_meta := m\<lparr>om_generation := generation, om_resourceVersion := show_int generation\<rparr>, ar_status := st\<rparr>)"

definition actionMutation :: "string \<Rightarrow> DomainMutation" where
  "actionMutation value =
     (let v = TrimSpace value in
      if v = ''created'' then MutationCreated else if v = ''status_updated'' then MutationStatusUpdated
      else if v = ''deleted'' then MutationDeleted else MutationUpdated)"

definition store_enqueue ::
    "PostgresStore \<Rightarrow> senv \<Rightarrow> ActionResource \<Rightarrow> string \<Rightarrow> 'p adb \<Rightarrow> unit result \<times> 'p adb" where
  "store_enqueue s env r mutation db =
     (case pgs_outbox s of None \<Rightarrow> (Inr (), db) | Some producer \<Rightarrow>
      (case actionStateFromResource (Some r) of Inl e \<Rightarrow> (Inl e, db) | Inr state \<Rightarrow>
       (let event = \<lparr>de_eventId = [], de_eventType = mutation, de_aggregateType = ''agent_session_action'',
              de_aggregateId = ar_name r, de_aggregateVersion = om_generation (ar_meta r), de_occurredAt = None,
              de_producer = [], de_payload = \<lparr>aev_mutation = actionMutation mutation, aev_state = state\<rparr>\<rparr>
        in case outbox_enqueue producer (se_now env) (se_eventID env) (se_enqueue env) event (adb_outbox db) of
             (Inl e, _) \<Rightarrow> (Inl e, db) | (Inr _, rows) \<Rightarrow> (Inr (), db\<lparr>adb_outbox := rows\<rparr>))))"

definition row_by_id :: "string \<Rightarrow> 'p adb \<Rightarrow> 'p ActionRow option" where
  "row_by_id i db = find (\<lambda>row. arow_id row = i) (adb_rows db)"

text \<open>\<open>get\<close>: every error of the query is reported as not found. The lock changes nothing within one transaction.\<close>

definition store_get ::
    "'p action_codec \<Rightarrow> PostgresStore \<Rightarrow> senv \<Rightarrow> string \<Rightarrow> 'p adb \<Rightarrow> (ActionResource \<times> int) result" where
  "store_get cd s env actionID db =
     (if actionID = [] then Inl (action_validation ''action_id is required'')
      else case (case se_query env of Some e \<Rightarrow> None | None \<Rightarrow> row_by_id actionID db) of
        None \<Rightarrow> Inl (api_not_found actionGroupResource actionID)
      | Some row \<Rightarrow>
        (case acd_unmarshal cd (arow_payload row) of Inl e \<Rightarrow> Inl e
         | Inr r \<Rightarrow> Inr (normalizeActionResource (pgs_namespace s) (arow_generation row) (se_now env) r, arow_generation row)))"

section \<open>Operations\<close>

definition store_Get ::
    "'p action_codec \<Rightarrow> PostgresStore \<Rightarrow> senv \<Rightarrow> string \<Rightarrow> 'p adb \<Rightarrow> ActionResource result" where
  "store_Get cd s env actionID db = map_sum id fst (store_get cd s env (TrimSpace actionID) db)"

text \<open>\<open>Create\<close> normalizes the resource it is given in place: the caller goes on with the result.\<close>

definition store_Create ::
    "'p action_codec \<Rightarrow> PostgresStore \<Rightarrow> senv \<Rightarrow> ActionResource \<Rightarrow> 'p adb \<Rightarrow> ActionResource result \<times> 'p adb" where
  "store_Create cd s env r db =
     (if ar_action r = None then (Inl (action_validation ''action resource is invalid''), db)
      else let r = normalizeActionResource (pgs_namespace s) 1 (se_now env) r in
      case acd_marshal cd r of Inl e \<Rightarrow> (Inl e, db) | Inr payload \<Rightarrow>
      doTx env (\<lambda>db.
        case se_exec env of Some e \<Rightarrow> (Inl e, db) | None \<Rightarrow>
        if row_by_id (ar_name r) db \<noteq> None then (Inl (api_already_exists actionGroupResource (ar_name r)), db)
        else
          (let row = \<lparr>arow_id = ar_name r, arow_payload = payload, arow_generation = 1, arow_createdAt = se_now env\<rparr> in
           case store_enqueue s env r ''created'' (db\<lparr>adb_rows := adb_rows db @ [row]\<rparr>) of
             (Inl e, db) \<Rightarrow> (Inl e, db) | (Inr _, db) \<Rightarrow> (Inr r, db))) db)"

definition set_action_row :: "string \<Rightarrow> 'p \<Rightarrow> int \<Rightarrow> 'p adb \<Rightarrow> 'p adb" where
  "set_action_row i payload generation db = db\<lparr>adb_rows := map (\<lambda>row. if arow_id row = i
     then row\<lparr>arow_payload := payload, arow_generation := generation\<rparr> else row) (adb_rows db)\<rparr>"

definition store_update ::
    "'p action_codec \<Rightarrow> PostgresStore \<Rightarrow> senv \<Rightarrow> string \<Rightarrow> bool \<Rightarrow> string \<Rightarrow> (ActionResource \<Rightarrow> ActionResource result)
      \<Rightarrow> 'p adb \<Rightarrow> ActionResource result \<times> 'p adb" where
  "store_update cd s env actionID incrementGeneration mutation mutate db =
     (let actionID = TrimSpace actionID in
      if actionID = [] then (Inl (action_validation ''action_id is required''), db)
      else doTx env (\<lambda>db.
        case store_get cd s env actionID db of Inl e \<Rightarrow> (Inl e, db)
        | Inr (r, generation) \<Rightarrow>
          (case mutate r of Inl e \<Rightarrow> (Inl e, db)
           | Inr r \<Rightarrow>
             (let generation = (if incrementGeneration then i64 (generation + 1) else generation);
                  r = normalizeActionResource (pgs_namespace s) generation (se_now env) r in
              case acd_marshal cd r of Inl e \<Rightarrow> (Inl e, db)
              | Inr payload \<Rightarrow>
                (case se_exec env of Some e \<Rightarrow> (Inl e, db) | None \<Rightarrow>
                 if row_by_id actionID db = None then (Inl (api_not_found actionGroupResource actionID), db)
                 else
                   (case store_enqueue s env r mutation (set_action_row actionID payload generation db) of
                      (Inl e, db) \<Rightarrow> (Inl e, db) | (Inr _, db) \<Rightarrow> (Inr r, db)))))) db)"

definition store_Update ::
    "'p action_codec \<Rightarrow> PostgresStore \<Rightarrow> senv \<Rightarrow> string \<Rightarrow> (ActionResource \<Rightarrow> ActionResource result) \<Rightarrow> 'p adb
      \<Rightarrow> ActionResource result \<times> 'p adb" where
  "store_Update cd s env actionID mutate db = store_update cd s env actionID True ''updated'' mutate db"

definition store_UpdateStatus ::
    "'p action_codec \<Rightarrow> PostgresStore \<Rightarrow> senv \<Rightarrow> string \<Rightarrow> ActionStatus option \<Rightarrow> 'p adb \<Rightarrow> ActionResource result \<times> 'p adb" where
  "store_UpdateStatus cd s env actionID next db = store_update cd s env actionID False ''status_updated''
     (\<lambda>current. Inr (case next of None \<Rightarrow> current | Some st \<Rightarrow> current\<lparr>ar_status := st\<rparr>)) db"

definition scanActionResource :: "'p action_codec \<Rightarrow> 'p ActionRow \<Rightarrow> ActionResource result" where
  "scanActionResource cd row = map_sum id (\<lambda>r. r\<lparr>ar_meta := (ar_meta r)
     \<lparr>om_generation := arow_generation row, om_resourceVersion := show_int (arow_generation row)\<rparr>\<rparr>)
     (acd_unmarshal cd (arow_payload row))"

fun scan_rows :: "'p action_codec \<Rightarrow> 'p ActionRow list \<Rightarrow> ActionResource list result" where
  "scan_rows cd [] = Inr []"
| "scan_rows cd (row # rows) =
     (case scanActionResource cd row of Inl e \<Rightarrow> Inl e
      | Inr r \<Rightarrow> (case scan_rows cd rows of Inl e \<Rightarrow> Inl e | Inr items \<Rightarrow> Inr (r # items)))"

definition session_rows :: "'p action_codec \<Rightarrow> PostgresStore \<Rightarrow> string \<Rightarrow> 'p adb \<Rightarrow> 'p ActionRow list" where
  "session_rows cd s sessionID db = sort_key (\<lambda>row. (arow_createdAt row, arow_id row))
     (filter (\<lambda>row. acd_namespace cd (arow_payload row) = Some (pgs_namespace s) \<and>
        acd_session cd (arow_payload row) = Some (TrimSpace sessionID)) (adb_rows db))"

definition store_ListBySession ::
    "'p action_codec \<Rightarrow> PostgresStore \<Rightarrow> senv \<Rightarrow> string \<Rightarrow> 'p adb \<Rightarrow> ActionResource list result" where
  "store_ListBySession cd s env sessionID db =
     (case se_query env of Some e \<Rightarrow> Inl e
      | None \<Rightarrow> map_sum id sort_actions (scan_rows cd (session_rows cd s sessionID db)))"

definition nonterminal_reset :: "ActionResource \<Rightarrow> bool" where
  "nonterminal_reset r = (case ar_action r of None \<Rightarrow> False
     | Some a \<Rightarrow> as_type a = TypeResetWarmState \<and> \<not> action_isTerminalPhase (act_phase (ar_status r)))"

definition store_HasNonterminalResetWarmState ::
    "'p action_codec \<Rightarrow> PostgresStore \<Rightarrow> senv \<Rightarrow> string \<Rightarrow> 'p adb \<Rightarrow> bool result" where
  "store_HasNonterminalResetWarmState cd s env sessionID db =
     map_sum id (list_ex nonterminal_reset) (store_ListBySession cd s env sessionID db)"

section \<open>The store behind its interface\<close>

record ('j, 'p) aworld = "'j sworld" +
  aw_db :: "'p adb"

definition aw_call ::
    "(senv \<Rightarrow> 'p adb \<Rightarrow> 'a \<times> 'p adb) \<Rightarrow> ('j, 'p, 'z) aworld_scheme \<Rightarrow> 'a \<times> ('j, 'p, 'z) aworld_scheme" where
  "aw_call f w = (case f (sw_env w (sw_tick w)) (aw_db w) of (x, db) \<Rightarrow>
     (x, w\<lparr>aw_db := db, sw_tick := Suc (sw_tick w)\<rparr>))"

definition pg_actions :: "'p action_codec \<Rightarrow> PostgresStore \<Rightarrow> ('j, 'p, 'z) aworld_scheme ActionStore" where
  "pg_actions cd s =
     \<lparr>astore_Get = (\<lambda>i. aw_call (\<lambda>env db. (store_Get cd s env i db, db))),
      astore_Create = (\<lambda>r. aw_call (\<lambda>env. store_Create cd s env r)),
      astore_Update = (\<lambda>i m. aw_call (\<lambda>env. store_Update cd s env i m)),
      astore_UpdateStatus = (\<lambda>i st. aw_call (\<lambda>env. store_UpdateStatus cd s env i (Some st))),
      astore_ListBySession = (\<lambda>sid. aw_call (\<lambda>env db. (store_ListBySession cd s env sid db, db))),
      astore_HasNonterminalResetWarmState = (\<lambda>sid. aw_call (\<lambda>env db. (store_HasNonterminalResetWarmState cd s env sid db, db)))\<rparr>"

section \<open>What the operations do to the table\<close>

lemma row_by_id_set [simp]:
  "row_by_id j (set_action_row i payload g db) =
     (if j = i then map_option (\<lambda>row. row\<lparr>arow_payload := payload, arow_generation := g\<rparr>) (row_by_id i db) else row_by_id j db)"
proof -
  have "find (\<lambda>row. arow_id row = j) (map (\<lambda>row. if arow_id row = i then row\<lparr>arow_payload := payload, arow_generation := g\<rparr> else row) rows)
      = (if j = i then map_option (\<lambda>row. row\<lparr>arow_payload := payload, arow_generation := g\<rparr>) (find (\<lambda>row. arow_id row = i) rows)
         else find (\<lambda>row. arow_id row = j) rows)" for rows :: "'a ActionRow list"
    by (induction rows) auto
  then show ?thesis by (simp add: row_by_id_def set_action_row_def)
qed

lemma row_by_id_append [simp]:
  "row_by_id j (db\<lparr>adb_rows := adb_rows db @ [row]\<rparr>) =
     (case row_by_id j db of Some x \<Rightarrow> Some x | None \<Rightarrow> if arow_id row = j then Some row else None)"
proof -
  have "find P (xs @ [x]) = (case find P xs of Some y \<Rightarrow> Some y | None \<Rightarrow> if P x then Some x else None)" for P :: "'a ActionRow \<Rightarrow> bool" and xs x
    by (induction xs) auto
  then show ?thesis by (simp add: row_by_id_def)
qed

lemma store_enqueue_rows: "store_enqueue s env r m db = (x, db') \<Longrightarrow> adb_rows db' = adb_rows db"
  by (auto simp: store_enqueue_def Let_def split: option.splits sum.splits prod.splits)

lemma store_enqueue_row_by_id: "store_enqueue s env r m db = (x, db') \<Longrightarrow> row_by_id i db' = row_by_id i db"
  by (simp add: row_by_id_def store_enqueue_rows)

lemma doTx_result: "doTx env fn db = (Inr x, db') \<Longrightarrow> fn db = (Inr x, db')"
  by (auto simp: doTx_def split: option.splits prod.splits sum.splits)

lemma doTx_fails: "doTx env fn db = (Inl e, db') \<Longrightarrow> db' = db"
  by (auto simp: doTx_def split: option.splits prod.splits sum.splits)

lemma store_update_fails: "store_update cd s env i inc m mut db = (Inl e, db') \<Longrightarrow> db' = db"
  by (auto simp: store_update_def Let_def split: if_splits dest: doTx_fails)

lemma store_update_ok:
  assumes "store_update cd s env i inc m mut db = (Inr r, db')"
  obtains r0 g r1 g' payload where "store_get cd s env (TrimSpace i) db = Inr (r0, g)" and "mut r0 = Inr r1"
    and "g' = (if inc then i64 (g + 1) else g)" and "r = normalizeActionResource (pgs_namespace s) g' (se_now env) r1"
    and "acd_marshal cd r = Inr payload" and "TrimSpace i \<noteq> []" and "row_by_id (TrimSpace i) db \<noteq> None"
    and "store_enqueue s env r m (set_action_row (TrimSpace i) payload g' db) = (Inr (), db')"
  using assms
  by (auto simp: store_update_def Let_def split: if_splits sum.splits option.splits prod.splits dest!: doTx_result)

lemma store_update_other:
  "store_update cd s env i inc m mut db = (x, db') \<Longrightarrow> j \<noteq> TrimSpace i \<Longrightarrow> row_by_id j db' = row_by_id j db"
proof (cases x)
  case (Inr r)
  assume j: "j \<noteq> TrimSpace i" and "store_update cd s env i inc m mut db = (x, db')"
  with Inr obtain payload g where "store_enqueue s env r m (set_action_row (TrimSpace i) payload g db) = (Inr (), db')"
    by (auto elim: store_update_ok)
  from store_enqueue_row_by_id [OF this, of j] j show ?thesis by simp
qed (auto dest: store_update_fails)

lemma store_Get_cong: "row_by_id (TrimSpace i) db' = row_by_id (TrimSpace i) db \<Longrightarrow> store_Get cd s env i db' = store_Get cd s env i db"
  unfolding store_Get_def store_get_def by (cases "se_query env") simp_all

text \<open>A row that was written is read back as the written resource, with its times in whole seconds.\<close>

lemma normalize_normalized:
  assumes "om_creationTimestamp (ar_meta r) \<noteq> 0" and "act_createdAt (ar_status r) \<noteq> None" and "ar_apiVersion r \<noteq> []"
    and "ar_kind r \<noteq> []" and "TrimSpace (om_namespace (ar_meta r)) \<noteq> []"
  shows "normalizeActionResource ns g now r =
    r\<lparr>ar_meta := (ar_meta r)\<lparr>om_generation := g, om_resourceVersion := show_int g\<rparr>\<rparr>"
  using assms by (simp add: normalizeActionResource_def Let_def time_is_zero_def)

definition proper_times :: "ActionResource \<Rightarrow> bool" where
  "proper_times r \<longleftrightarrow> second \<le> om_creationTimestamp (ar_meta r) \<and> act_createdAt (ar_status r) \<notin> {None, Some 0}"

lemma trunc_pos: "second \<le> t \<Longrightarrow> trunc_time t \<noteq> 0"
  by (auto simp: trunc_time_def second_def)

lemma normalize_fields [simp]:
  "ar_apiVersion (normalizeActionResource ns g now r) \<noteq> []" "ar_kind (normalizeActionResource ns g now r) \<noteq> []"
  "om_generation (ar_meta (normalizeActionResource ns g now r)) = g"
  "om_resourceVersion (ar_meta (normalizeActionResource ns g now r)) = show_int g"
  "ar_name (normalizeActionResource ns g now r) = ar_name r" "ar_action (normalizeActionResource ns g now r) = ar_action r"
  by (simp_all add: normalizeActionResource_def Let_def GroupVersion_def)

lemma normalize_namespace: "TrimSpace ns \<noteq> [] \<Longrightarrow> TrimSpace (om_namespace (ar_meta (normalizeActionResource ns g now r))) \<noteq> []"
  by (simp add: normalizeActionResource_def Let_def)

lemma read_back:
  assumes cd: "action_codec_ok cd" and row: "row_by_id (TrimSpace i) db = Some row" and m: "acd_marshal cd r = Inr (arow_payload row)"
    and g: "arow_generation row = om_generation (ar_meta r)" "om_resourceVersion (ar_meta r) = show_int (om_generation (ar_meta r))"
    and r: "r = normalizeActionResource (pgs_namespace s) g' now r1" and ns: "TrimSpace (pgs_namespace s) \<noteq> []"
    and t: "proper_times r" and i: "TrimSpace i \<noteq> []" and env: "se_query env = None"
  shows "store_Get cd s env i db = Inr (json_action r)"
proof -
  from cd m have u: "acd_unmarshal cd (arow_payload row) = Inr (json_action r)" by (simp add: action_codec_ok_def)
  have "normalizeActionResource (pgs_namespace s) (arow_generation row) (se_now env) (json_action r) =
      (json_action r)\<lparr>ar_meta := (ar_meta (json_action r))\<lparr>om_generation := arow_generation row,
        om_resourceVersion := show_int (arow_generation row)\<rparr>\<rparr>"
    by (rule normalize_normalized)
      (use t trunc_pos r ns normalize_namespace in \<open>auto simp: json_action_def proper_times_def json_time_def time_is_zero_def split: option.splits\<close>)
  also have "\<dots> = json_action r" using g by (simp add: json_action_def)
  finally show ?thesis using row u i env by (simp add: store_Get_def store_get_def)
qed

section \<open>The contract of the store\<close>

text \<open>
  What the reconciler relies on: reads change nothing, a status update touches one row, a failed one
  none, and no row disappears. \<open>row w i\<close> is the row of the action \<open>i\<close> in the world \<open>w\<close>.
\<close>

locale action_rows =
  fixes get :: "string \<Rightarrow> 'w \<Rightarrow> 'r result \<times> 'w"
    and put :: "string \<Rightarrow> 's \<Rightarrow> 'w \<Rightarrow> 'r result \<times> 'w"
    and row :: "'w \<Rightarrow> string \<Rightarrow> 'a option"
  assumes get_keeps: "get i w = (x, w') \<Longrightarrow> row w' j = row w j"
    and get_found: "get i w = (Inr r, w') \<Longrightarrow> row w (TrimSpace i) \<noteq> None"
    and put_fails: "put i st w = (Inl e, w') \<Longrightarrow> row w' j = row w j"
    and put_other: "put i st w = (x, w') \<Longrightarrow> j \<noteq> TrimSpace i \<Longrightarrow> row w' j = row w j"
    and put_found: "put i st w = (Inr r, w') \<Longrightarrow> row w (TrimSpace i) \<noteq> None \<and> row w' (TrimSpace i) \<noteq> None"
begin

inductive row_step :: "'w \<Rightarrow> 'w \<Rightarrow> bool" where
  step_get: "get i w = (x, w') \<Longrightarrow> row_step w w'"
| step_put: "put i st w = (x, w') \<Longrightarrow> row_step w w'"
| step_frame: "row w' = row w \<Longrightarrow> row_step w w'"

lemma row_step_keeps: "row_step w w' \<Longrightarrow> row w j \<noteq> None \<longleftrightarrow> row w' j \<noteq> None"
proof (induction rule: row_step.induct)
  case (step_get i w x w')
  then show ?case by (simp add: get_keeps)
next
  case (step_put i st w x w')
  show ?case
  proof (cases "j = TrimSpace i")
    case True
    show ?thesis
    proof (cases x)
      case (Inl e)
      with step_put show ?thesis by (auto dest: put_fails [of _ _ _ _ _ j])
    next
      case (Inr r)
      with step_put True show ?thesis by (auto dest: put_found)
    qed
  next
    case False
    with step_put show ?thesis by (auto dest: put_other [of _ _ _ _ _ j])
  qed
qed simp

text \<open>Any sequence of such steps: actions are neither created nor deleted by them.\<close>

lemma row_steps_keep: "row_step\<^sup>*\<^sup>* w w' \<Longrightarrow> row w j \<noteq> None \<longleftrightarrow> row w' j \<noteq> None"
  by (induction rule: rtranclp_induct) (use row_step_keeps in blast)+

text \<open>Read, work elsewhere, write back: only the row that was read may have changed.\<close>

lemma read_work_write:
  assumes "get i w = (Inr r, w1)" and "\<And>j. row w2 j = row w1 j" and "put i st w2 = (x, w3)"
  shows "j \<noteq> TrimSpace i \<Longrightarrow> row w3 j = row w j" and "row w3 j \<noteq> None \<longleftrightarrow> row w j \<noteq> None"
    and "isl x \<Longrightarrow> row w3 = row w"
proof -
  show other: "j \<noteq> TrimSpace i \<Longrightarrow> row w3 j = row w j"
    using put_other [OF assms(3)] assms(2) get_keeps [OF assms(1)] by simp
  have "row_step w w1" "row_step w1 w2" "row_step w2 w3"
    using assms row_step.intros by blast+
  then show "row w3 j \<noteq> None \<longleftrightarrow> row w j \<noteq> None" using row_step_keeps by blast
  show "isl x \<Longrightarrow> row w3 = row w"
    using put_fails assms get_keeps [OF assms(1)] by (cases x) auto
qed

end

definition action_row :: "('j, 'p, 'z) aworld_scheme \<Rightarrow> string \<Rightarrow> 'p ActionRow option" where
  "action_row w i = row_by_id i (aw_db w)"

interpretation pg_rows: action_rows "astore_Get (pg_actions cd s)" "astore_UpdateStatus (pg_actions cd s)" action_row
  for cd s
proof unfold_locales
  fix i j w x w' r st e
  show "astore_Get (pg_actions cd s) i w = (x, w') \<Longrightarrow> action_row w' j = action_row w j"
    by (auto simp: pg_actions_def aw_call_def action_row_def)
  show "astore_Get (pg_actions cd s) i w = (Inr r, w') \<Longrightarrow> action_row w (TrimSpace i) \<noteq> None"
    by (auto simp: pg_actions_def aw_call_def action_row_def store_Get_def store_get_def split: if_splits option.splits sum.splits)
  show "astore_UpdateStatus (pg_actions cd s) i st w = (Inl e, w') \<Longrightarrow> action_row w' j = action_row w j"
    by (auto simp: pg_actions_def aw_call_def action_row_def store_UpdateStatus_def split: prod.splits dest: store_update_fails)
  show "astore_UpdateStatus (pg_actions cd s) i st w = (x, w') \<Longrightarrow> j \<noteq> TrimSpace i \<Longrightarrow> action_row w' j = action_row w j"
    by (auto simp: pg_actions_def aw_call_def action_row_def store_UpdateStatus_def split: prod.splits dest: store_update_other)
  show "action_row w (TrimSpace i) \<noteq> None \<and> action_row w' (TrimSpace i) \<noteq> None"
    if put: "astore_UpdateStatus (pg_actions cd s) i st w = (Inr r, w')"
  proof -
    from put obtain db' where u: "store_update cd s (sw_env w (sw_tick w)) i False ''status_updated''
        (\<lambda>current. Inr (current\<lparr>ar_status := st\<rparr>)) (aw_db w) = (Inr r, db')" and w': "aw_db w' = db'"
      by (auto simp: pg_actions_def aw_call_def store_UpdateStatus_def split: prod.splits)
    from u obtain g payload where f: "row_by_id (TrimSpace i) (aw_db w) \<noteq> None"
      and e: "store_enqueue s (sw_env w (sw_tick w)) r ''status_updated'' (set_action_row (TrimSpace i) payload g (aw_db w)) = (Inr (), db')"
      by (auto elim: store_update_ok)
    from f store_enqueue_row_by_id [OF e, of "TrimSpace i"] w' show ?thesis by (simp add: action_row_def)
  qed
qed

section \<open>An instance\<close>

text \<open>Documents that are the resources themselves, with their times in whole seconds.\<close>

definition mem_action_codec :: "ActionResource action_codec" where
  "mem_action_codec =
     \<lparr>acd_marshal = (\<lambda>r. Inr (json_action r)), acd_unmarshal = Inr,
      acd_namespace = (\<lambda>r. if om_namespace (ar_meta r) = [] then None else Some (om_namespace (ar_meta r))),
      acd_session = (\<lambda>r. map_of (om_labels (ar_meta r)) sessionIDLabelKey)\<rparr>"

lemma mem_action_codec_ok: "action_codec_ok mem_action_codec"
  by (simp add: action_codec_ok_def mem_action_codec_def json_action_def)

definition empty_action_status :: ActionStatus where
  "empty_action_status =
     \<lparr>act_observedGeneration = 0, act_conditions = [], act_phase = APhaseUnset, act_failureClass = ClassUnset,
      act_message = [], act_retryCount = 0, act_attemptCount = 0, act_candidateIndex = 0, act_nextRetryAt = None,
      act_runID = [], act_createdAt = None, act_updatedAt = None\<rparr>"

definition new_action :: "string \<Rightarrow> string \<Rightarrow> string \<Rightarrow> ActionType \<Rightarrow> string \<Rightarrow> InputSnapshot \<Rightarrow> ActionResource" where
  "new_action namespace actionID sessionID actionType turnID snapshot =
     \<lparr>ar_apiVersion = GroupVersion, ar_kind = ''AgentSessionActionResource'',
      ar_meta = \<lparr>om_name = actionID, om_namespace = namespace, om_generation = 0, om_resourceVersion = [],
        om_labels = actionLabels sessionID actionType, om_creationTimestamp = 0, om_deletionTimestamp = None, om_finalizers = []\<rparr>,
      ar_action = Some \<lparr>as_actionId = actionID, as_sessionId = sessionID, as_type = actionType, as_turnId = turnID,
        as_inputSnapshot = Some snapshot, as_stopRequested = False\<rparr>,
      ar_status = empty_action_status\<rparr>"

definition ex_pgs :: PostgresStore where
  "ex_pgs = \<lparr>pgs_namespace = ''code-code'', pgs_outbox = Some ''p''\<rparr>"

definition env_at :: "time \<Rightarrow> string \<Rightarrow> senv" where
  "env_at t eventID = \<lparr>se_begin = None, se_query = None, se_exec = None, se_enqueue = None, se_commit = None,
     se_now = t, se_eventID = eventID\<rparr>"

definition ex_reset :: InputSnapshot where
  "ex_reset = SnapReset \<lparr>rw_sessionGeneration = 1, rw_sourceHomeStateId = ''h1'', rw_targetHomeStateId = ''h2''\<rparr>"

definition ex_created :: "string \<Rightarrow> time \<Rightarrow> ActionResource adb \<Rightarrow> ActionResource adb" where
  "ex_created i t db = snd (store_Create mem_action_codec ex_pgs (env_at t i)
     (new_action ''code-code'' i ''s1'' TypeResetWarmState [] ex_reset) db)"

text \<open>The ids of the queue of the session, and its owner.\<close>

definition ex_queue :: "ActionResource adb \<Rightarrow> (string list \<times> string) result" where
  "ex_queue db = map_sum id (\<lambda>items. (map ar_name items, queueOwnerID items))
     (store_ListBySession mem_action_codec ex_pgs (env_at (9 * second) ''e3'') ''s1'' db)"

section \<open>Properties\<close>

text \<open>
  C23: What is written to an action is what is read afterwards: after a successful update the action is
  read back as the resource the update returned, with its times in whole seconds; its payload is
  that of the mutation; the generation grows by one for an update of the spec and stays for an
  update of the status; the other actions are untouched, and the outbox got the event.
\<close>

theorem store_update_roundtrip:
  assumes "action_codec_ok cd" and "TrimSpace (pgs_namespace s) \<noteq> []"
    and "store_update cd s env i inc m mut db = (Inr r, db')" and "proper_times r" and "se_query env' = None"
  shows "store_Get cd s env' i db' = Inr (json_action r) \<and>
    (\<forall>j. TrimSpace j \<noteq> TrimSpace i \<longrightarrow> store_Get cd s env' j db' = store_Get cd s env' j db) \<and>
    (\<exists>r0 r1. store_Get cd s env i db = Inr r0 \<and> mut r0 = Inr r1 \<and> ar_action r = ar_action r1 \<and>
       om_generation (ar_meta r) = (if inc then i64 (om_generation (ar_meta r0) + 1) else om_generation (ar_meta r0))) \<and>
    (pgs_outbox s \<noteq> None \<and> TrimSpace (se_eventID env) \<noteq> [] \<longrightarrow> se_eventID env \<in> or_eventId ` set (adb_outbox db'))"
proof -
  from assms(3) obtain r0 g r1 g' payload where get: "store_get cd s env (TrimSpace i) db = Inr (r0, g)"
    and mut: "mut r0 = Inr r1" and g': "g' = (if inc then i64 (g + 1) else g)"
    and r: "r = normalizeActionResource (pgs_namespace s) g' (se_now env) r1" and p: "acd_marshal cd r = Inr payload"
    and i: "TrimSpace i \<noteq> []" and row: "row_by_id (TrimSpace i) db \<noteq> None"
    and e: "store_enqueue s env r m (set_action_row (TrimSpace i) payload g' db) = (Inr (), db')"
    by (rule store_update_ok)
  from row obtain x where x: "row_by_id (TrimSpace i) db = Some x" by blast
  have row': "row_by_id (TrimSpace i) db' = Some (x\<lparr>arow_payload := payload, arow_generation := g'\<rparr>)"
    using x store_enqueue_row_by_id [OF e, of "TrimSpace i"] by simp
  have readback: "store_Get cd s env' i db' = Inr (json_action r)"
    by (rule read_back [OF assms(1) row' _ _ _ r assms(2,4) i assms(5)]) (simp add: p, simp_all add: r)
  have others: "store_Get cd s env' j db' = store_Get cd s env' j db" if "TrimSpace j \<noteq> TrimSpace i" for j
    using store_update_other [OF assms(3) that] by (rule store_Get_cong)
  have g0: "store_Get cd s env i db = Inr r0" "om_generation (ar_meta r0) = g"
    using get by (auto simp: store_Get_def store_get_def split: if_splits option.splits sum.splits)
  have event: "pgs_outbox s \<noteq> None \<and> TrimSpace (se_eventID env) \<noteq> [] \<longrightarrow> se_eventID env \<in> or_eventId ` set (adb_outbox db')"
    using e by (auto simp: store_enqueue_def Let_def outbox_enqueue_def normalizeEvent_def outbox_row_def
        split: option.splits sum.splits prod.splits if_splits)
  from readback others g0 mut r g' event show ?thesis by auto
qed

theorem store_update_roundtrip_witness:
  "let a = new_action ''code-code'' ''a1'' ''s1'' TypeResetWarmState [] ex_reset;
       db1 = snd (store_Create mem_action_codec ex_pgs (env_at (7 * second) ''e1'') a \<lparr>adb_rows = [], adb_outbox = []\<rparr>);
       st = fst (scheduleRetryStatus a (8 * second + 5) ''x'' ClassPermanent DefaultRetryPolicy)
   in map_sum id (\<lambda>r. act_updatedAt (ar_status r))
        (store_Get mem_action_codec ex_pgs (env_at (9 * second) ''e3'') ''a1''
           (snd (store_UpdateStatus mem_action_codec ex_pgs (env_at (8 * second) ''e2'') ''a1'' (Some st) db1)))
      = Inr (Some (8 * second))"
proof -
  let ?a = "new_action ''code-code'' ''a1'' ''s1'' TypeResetWarmState [] ex_reset"
  let ?db1 = "snd (store_Create mem_action_codec ex_pgs (env_at (7 * second) ''e1'') ?a \<lparr>adb_rows = [], adb_outbox = []\<rparr>)"
  let ?st = "fst (scheduleRetryStatus ?a (8 * second + 5) ''x'' ClassPermanent DefaultRetryPolicy)"
  let ?m = "\<lambda>current. Inr (current\<lparr>ar_status := ?st\<rparr>)"
  let ?u = "store_update mem_action_codec ex_pgs (env_at (8 * second) ''e2'') ''a1'' False ''status_updated'' ?m ?db1"
  define ok where "ok = (\<lambda>x :: ActionResource result. case x of Inl e \<Rightarrow> False | Inr r \<Rightarrow> proper_times r \<and> act_updatedAt (ar_status r) = Some (8 * second + 5))"
  have "ok (fst ?u)" unfolding ok_def by code_simp
  then obtain r db' where u: "?u = (Inr r, db')" and r: "proper_times r" "act_updatedAt (ar_status r) = Some (8 * second + 5)"
    by (cases ?u) (auto simp: ok_def split: sum.splits)
  have "TrimSpace (pgs_namespace ex_pgs) \<noteq> []" by code_simp
  from store_update_roundtrip [OF mem_action_codec_ok this u r(1), of "env_at (9 * second) ''e3''"]
  have "store_Get mem_action_codec ex_pgs (env_at (9 * second) ''e3'') ''a1'' db' = Inr (json_action r)"
    by (simp add: env_at_def)
  moreover have "act_updatedAt (ar_status (json_action r)) = Some (8 * second)"
    using r(2) by (simp add: json_action_def json_time_def time_is_zero_def trunc_time_def second_def)
  ultimately show ?thesis using u by (simp add: store_UpdateStatus_def Let_def)
qed

text \<open>
  The queue is first in, first out only up to a second: creation times are kept in whole seconds and
  ties are decided by the id. Of two actions created within the same second, the one with the
  smaller id is executed first, also if it was created later.
\<close>

theorem same_second_not_fifo:
  "let db1 = ex_created ''b'' (7 * second + 100) \<lparr>adb_rows = [], adb_outbox = []\<rparr>;
       db2 = ex_created ''a'' (7 * second + 800) db1
   in ex_queue db1 = Inr ([''b''], ''b'') \<and> ex_queue db2 = Inr ([''a'', ''b''], ''a'')"
  by code_simp

end
