(* ===== verification/Turn_Machine.thy ===== *)
theory Turn_Machine
  imports Action_Controller
begin

text \<open>
  The life of a turn as a state machine: what the action reconciler promises about the runs it starts
  for one \<open>run_turn\<close> action. \<open>turn_step\<close> is the specification: a turn starts a run, observes it,
  waits, is retried on the same runtime candidate, falls back to the next candidate, or ends. The
  reconciler implements it (\<open>deriveRunTurnStatus_steps\<close>), and the bounds on retries, candidates
  and runs are proved on the specification by rule induction.
\<close>

section \<open>The specification\<close>

abbreviation turn_max :: "RetryPolicy \<Rightarrow> nat" where
  "turn_max p \<equiv> nat (rp_maxRetries p)"

text \<open>The counters of a turn: retries on the candidate, runs started, the candidate.\<close>

definition same_counts :: "ActionResource \<Rightarrow> ActionStatus \<Rightarrow> bool" where
  "same_counts r t \<longleftrightarrow> act_retryCount t = act_retryCount (ar_status r) \<and>
     act_attemptCount t = act_attemptCount (ar_status r) \<and> act_candidateIndex t = act_candidateIndex (ar_status r)"

definition live_run :: "ActionStatus \<Rightarrow> bool" where
  "live_run st \<longleftrightarrow> TrimSpace (act_runID st) \<noteq> []"

inductive turn_step :: "RetryPolicy \<Rightarrow> RunTurnSnapshot \<Rightarrow> string \<Rightarrow> ActionResource \<Rightarrow> ActionStatus \<Rightarrow> bool"
  for p :: RetryPolicy and sn :: RunTurnSnapshot and aid :: string where
  start: "\<lbrakk>\<not> live_run (ar_status r); act_phase t = ARunning;
      act_attemptCount t = i32 (currentAttemptCount r + 1);
      act_runID t = TrimSpace (attemptRunID aid (act_attemptCount t));
      act_retryCount t = act_retryCount (ar_status r); act_candidateIndex t = currentCandidateIndex r (Some sn)\<rbrakk>
    \<Longrightarrow> turn_step p sn aid r t"
| observe: "\<lbrakk>live_run (ar_status r); act_phase t = ARunning; act_runID t = TrimSpace (act_runID (ar_status r));
      act_attemptCount t = currentAttemptCount r;
      act_retryCount t = act_retryCount (ar_status r); act_candidateIndex t = currentCandidateIndex r (Some sn)\<rbrakk>
    \<Longrightarrow> turn_step p sn aid r t"
| hold: "\<lbrakk>\<not> live_run (ar_status r) \<or> act_phase (ar_status r) = APending; act_phase t = APending; act_runID t = [];
      same_counts r t\<rbrakk> \<Longrightarrow> turn_step p sn aid r t"
| retry: "\<lbrakk>act_retryCount (ar_status r) < rp_maxRetries p; act_phase t = APending; act_runID t = [];
      act_failureClass t = ClassTransient; act_nextRetryAt t \<noteq> None;
      act_retryCount t = act_retryCount (ar_status r) + 1;
      act_attemptCount t = act_attemptCount (ar_status r); act_candidateIndex t = act_candidateIndex (ar_status r)\<rbrakk>
    \<Longrightarrow> turn_step p sn aid r t"
| fallback: "\<lbrakk>rp_maxRetries p \<le> act_retryCount (ar_status r);
      currentCandidateIndex r (Some sn) + 1 < int (length (sn_runtimeCandidates sn));
      act_phase t = APending; act_runID t = []; act_failureClass t = ClassTransient;
      act_retryCount t = 0; act_attemptCount t = act_attemptCount (ar_status r);
      act_candidateIndex t = currentCandidateIndex r (Some sn) + 1\<rbrakk> \<Longrightarrow> turn_step p sn aid r t"
| finish: "\<lbrakk>action_isTerminalPhase (act_phase t); act_attemptCount t = act_attemptCount (ar_status r)\<rbrakk>
    \<Longrightarrow> turn_step p sn aid r t"

inductive turn_reach :: "RetryPolicy \<Rightarrow> RunTurnSnapshot \<Rightarrow> string \<Rightarrow> ActionResource \<Rightarrow> ActionResource \<Rightarrow> bool"
  for p :: RetryPolicy and sn :: RunTurnSnapshot and aid :: string and r0 :: ActionResource where
  reach_refl: "turn_reach p sn aid r0 r0"
| reach_step: "\<lbrakk>turn_reach p sn aid r0 r; \<not> action_isTerminalPhase (act_phase (ar_status r)); turn_step p sn aid r t\<rbrakk>
    \<Longrightarrow> turn_reach p sn aid r0 (r\<lparr>ar_status := t\<rparr>)"

section \<open>The budget\<close>

text \<open>
  The runs a turn may have: one and \<open>turn_max\<close> retries for each candidate. \<open>failures_left\<close> counts the
  failures that are still answered by another run.
\<close>

definition run_budget :: "RetryPolicy \<Rightarrow> RunTurnSnapshot \<Rightarrow> nat" where
  "run_budget p sn = max 1 (length (sn_runtimeCandidates sn)) * Suc (turn_max p)"

definition failures_left :: "RetryPolicy \<Rightarrow> RunTurnSnapshot \<Rightarrow> ActionResource \<Rightarrow> nat" where
  "failures_left p sn r =
     (length (sn_runtimeCandidates sn) - Suc (nat (currentCandidateIndex r (Some sn)))) * Suc (turn_max p)
       + nat (rp_maxRetries p - act_retryCount (ar_status r))"

lemma cand_range: "0 \<le> currentCandidateIndex r (Some sn)"
  "currentCandidateIndex r (Some sn) < int (max 1 (length (sn_runtimeCandidates sn)))"
  by (auto simp: currentCandidateIndex_def Let_def)

lemma cand_status:
  "act_candidateIndex t = act_candidateIndex (ar_status r) \<Longrightarrow>
     currentCandidateIndex (r\<lparr>ar_status := t\<rparr>) sn = currentCandidateIndex r sn"
  "act_candidateIndex t = currentCandidateIndex r (Some s) \<Longrightarrow>
     currentCandidateIndex (r\<lparr>ar_status := t\<rparr>) (Some s) = currentCandidateIndex r (Some s)"
  "act_candidateIndex t = currentCandidateIndex r (Some s) + 1 \<Longrightarrow>
     currentCandidateIndex r (Some s) + 1 < int (length (sn_runtimeCandidates s)) \<Longrightarrow>
     currentCandidateIndex (r\<lparr>ar_status := t\<rparr>) (Some s) = currentCandidateIndex r (Some s) + 1"
  by (auto simp: currentCandidateIndex_def Let_def split: option.splits)

lemma failures_left_keep:
  "act_retryCount t = act_retryCount (ar_status r) \<Longrightarrow>
     currentCandidateIndex (r\<lparr>ar_status := t\<rparr>) (Some sn) = currentCandidateIndex r (Some sn) \<Longrightarrow>
     failures_left p sn (r\<lparr>ar_status := t\<rparr>) = failures_left p sn r"
  by (simp add: failures_left_def)

lemma failures_left_retry:
  "act_retryCount t = act_retryCount (ar_status r) + 1 \<Longrightarrow> act_retryCount (ar_status r) < rp_maxRetries p \<Longrightarrow>
     act_candidateIndex t = act_candidateIndex (ar_status r) \<Longrightarrow>
     failures_left p sn r = Suc (failures_left p sn (r\<lparr>ar_status := t\<rparr>))"
  by (simp add: failures_left_def cand_status(1))

lemma failures_left_fallback:
  assumes "act_retryCount t = 0" and "rp_maxRetries p \<le> act_retryCount (ar_status r)"
    and "act_candidateIndex t = currentCandidateIndex r (Some sn) + 1"
    and "currentCandidateIndex r (Some sn) + 1 < int (length (sn_runtimeCandidates sn))"
  shows "failures_left p sn r = Suc (failures_left p sn (r\<lparr>ar_status := t\<rparr>))"
proof -
  let ?c = "nat (currentCandidateIndex r (Some sn))" and ?n = "length (sn_runtimeCandidates sn)"
  have c: "nat (currentCandidateIndex r (Some sn) + 1) = Suc ?c" and lt: "Suc ?c < ?n"
    using cand_range(1) [of r sn] assms(4) by linarith+
  from lt have "?n - Suc ?c = Suc (?n - Suc (Suc ?c))" by simp
  then have "(?n - Suc ?c) * Suc (turn_max p) = Suc (turn_max p) + (?n - Suc (Suc ?c)) * Suc (turn_max p)"
    by (simp only: mult_Suc)
  with assms show ?thesis
    unfolding failures_left_def cand_status(3) [OF assms(3,4)] c by simp
qed

lemma failures_left_less: "0 \<le> act_retryCount (ar_status r) \<Longrightarrow> failures_left p sn r < run_budget p sn"
proof -
  assume nn: "0 \<le> act_retryCount (ar_status r)"
  let ?c = "nat (currentCandidateIndex r (Some sn))" and ?n = "length (sn_runtimeCandidates sn)"
  have "(?n - Suc ?c) * Suc (turn_max p) \<le> (max 1 ?n - 1) * Suc (turn_max p)"
    by (rule mult_right_mono) auto
  moreover have "nat (rp_maxRetries p - act_retryCount (ar_status r)) < Suc (turn_max p)"
    using nn by linarith
  moreover have "max 1 ?n * Suc (turn_max p) = (max 1 ?n - 1) * Suc (turn_max p) + Suc (turn_max p)"
    by (metis Suc_diff_1 add.commute max.strict_coboundedI1 mult_Suc zero_less_one)
  ultimately show ?thesis unfolding failures_left_def run_budget_def by linarith
qed

section \<open>The invariant\<close>

text \<open>
  What holds in every reachable state: the counters are in range, a live run belongs to an action that
  is running or over, and every run that was started has either been paid for by a failure that
  can no longer happen, or is the live one.
\<close>

definition turn_inv :: "RetryPolicy \<Rightarrow> RunTurnSnapshot \<Rightarrow> ActionResource \<Rightarrow> bool" where
  "turn_inv p sn r \<longleftrightarrow> 0 \<le> act_attemptCount (ar_status r) \<and>
     nat (act_attemptCount (ar_status r)) \<le> run_budget p sn \<and>
     (\<not> action_isTerminalPhase (act_phase (ar_status r)) \<longrightarrow>
        0 \<le> act_retryCount (ar_status r) \<and> act_retryCount (ar_status r) \<le> rp_maxRetries p \<and>
        TrimSpace (act_runID (ar_status r)) = act_runID (ar_status r) \<and>
        (live_run (ar_status r) \<longrightarrow> act_phase (ar_status r) \<noteq> APending \<and> 0 < act_attemptCount (ar_status r)) \<and>
        nat (act_attemptCount (ar_status r)) + failures_left p sn r + (if live_run (ar_status r) then 0 else 1)
          \<le> run_budget p sn)"

definition fresh_turn :: "ActionResource \<Rightarrow> bool" where
  "fresh_turn r \<longleftrightarrow> act_retryCount (ar_status r) = 0 \<and> act_attemptCount (ar_status r) = 0 \<and> act_runID (ar_status r) = []"

lemma fresh_turn_inv: "fresh_turn r \<Longrightarrow> 0 \<le> rp_maxRetries p \<Longrightarrow> turn_inv p sn r"
  using failures_left_less [of r p sn] by (simp add: fresh_turn_def turn_inv_def live_run_def)

lemma turn_inv_status: "ar_status r' = ar_status r \<Longrightarrow> turn_inv p sn r' \<longleftrightarrow> turn_inv p sn r"
  by (simp add: turn_inv_def failures_left_def currentCandidateIndex_def)

lemma live_run_empty: "act_runID st = [] \<Longrightarrow> \<not> live_run st"
  by (simp add: live_run_def)

lemma live_run_trim: "act_runID t = TrimSpace x \<Longrightarrow> live_run t \<longleftrightarrow> TrimSpace x \<noteq> []"
  by (simp add: live_run_def)

lemma attempts_no_run: "0 \<le> act_attemptCount (ar_status r) \<Longrightarrow> \<not> live_run (ar_status r) \<Longrightarrow>
    currentAttemptCount r = act_attemptCount (ar_status r)"
  by (simp add: currentAttemptCount_def live_run_def)

lemma attempts_live: "0 < act_attemptCount (ar_status r) \<Longrightarrow> currentAttemptCount r = act_attemptCount (ar_status r)"
  by (simp add: currentAttemptCount_def)

text \<open>A run id is never blank, since the id of the action is not.\<close>

lemma attemptRunID_ne: "TrimSpace aid \<noteq> [] \<Longrightarrow> TrimSpace (attemptRunID aid k) \<noteq> []"
  using TrimSpace_has_plain [of "CHR ''a''" "TrimSpace aid @ ''-attempt-'' @ show_int k"]
  by (auto simp: attemptRunID_def Let_def plain_char_def)

lemma turn_step_inv:
  assumes "turn_inv p sn r" and "\<not> action_isTerminalPhase (act_phase (ar_status r))"
    and "turn_step p sn aid r t" and "int (run_budget p sn) < 2 ^ 31" and "TrimSpace aid \<noteq> []"
    and "0 \<le> rp_maxRetries p"
  shows "turn_inv p sn (r\<lparr>ar_status := t\<rparr>)"
  using assms(3)
proof cases
  case start
  have k: "currentAttemptCount r = act_attemptCount (ar_status r)"
    using assms(1) start(1) by (intro attempts_no_run) (simp_all add: turn_inv_def)
  have "in_i32 (act_attemptCount (ar_status r) + 1)"
    using assms(1,2,4) start(1) by (auto simp: turn_inv_def in_i32_def)
  with start k have t: "act_attemptCount t = act_attemptCount (ar_status r) + 1" by simp
  have "live_run t" using start(4) attemptRunID_ne [OF assms(5)] by (simp add: live_run_trim)
  with start t assms(1,2) show ?thesis
    by (auto simp: turn_inv_def failures_left_keep cand_status(2) action_isTerminalPhase_def)
next
  case observe
  from assms(1,2) observe(1) have k: "currentAttemptCount r = act_attemptCount (ar_status r)"
    by (intro attempts_live) (simp add: turn_inv_def)
  have "live_run t" using observe(1,3) by (simp add: live_run_trim live_run_def)
  with observe k assms(1,2) show ?thesis
    by (auto simp: turn_inv_def failures_left_keep cand_status(2) action_isTerminalPhase_def)
next
  case hold
  then have "\<not> live_run (ar_status r)" using assms(1,2) by (auto simp: turn_inv_def)
  with hold assms(1,2) show ?thesis
    by (simp add: turn_inv_def same_counts_def failures_left_keep cand_status(1) live_run_empty
        action_isTerminalPhase_def)
next
  case retry
  with assms(1,2) show ?thesis
    using failures_left_retry [OF retry(6,1,8), of sn]
    by (auto simp: turn_inv_def live_run_empty split: if_splits)
next
  case fallback
  with assms(1,2,6) show ?thesis
    using failures_left_fallback [OF fallback(6,1,8,2)]
    by (auto simp: turn_inv_def live_run_empty split: if_splits)
next
  case finish
  with assms(1) show ?thesis by (simp add: turn_inv_def)
qed

lemma turn_reach_inv:
  assumes "turn_reach p sn aid r0 r" and "fresh_turn r0" and "int (run_budget p sn) < 2 ^ 31" and "TrimSpace aid \<noteq> []"
    and "0 \<le> rp_maxRetries p"
  shows "turn_inv p sn r"
  using assms(1)
proof induction
  case reach_refl
  show ?case by (rule fresh_turn_inv [OF assms(2,5)])
next
  case (reach_step r t)
  from turn_step_inv [OF reach_step.IH reach_step.hyps(2,3) assms(3-5)] show ?case .
qed

section \<open>The reconciler implements the specification\<close>

text \<open>Created and read runs come back under the name they were asked for.\<close>

definition run_svc_returns :: "'w RunSvc \<Rightarrow> bool" where
  "run_svc_returns s \<longleftrightarrow> create_returns (rsv_client s) \<and>
     (\<forall>ns n w r w'. rsv_reader_Get s ns n w = (Inr r, w') \<longrightarrow> om_name (run_meta r) = n)"

lemma run_state_id: "runStateFromResource (Some r) = Inr st \<Longrightarrow> rs_runId (rst_spec st) = om_name (run_meta r)"
  by (auto simp: runStateFromResource_def Let_def split: option.splits if_splits)

lemma runs_Get_id: "run_svc_returns s \<Longrightarrow> runs_Get s i w = (Inr st, w') \<Longrightarrow> rs_runId (rst_spec st) = TrimSpace i"
  unfolding run_svc_returns_def runs_Get_def by (auto split: prod.splits sum.splits dest!: run_state_id) blast

lemma runToResource_name: "runToResource ns session rq rid = Inr res \<Longrightarrow> om_name (run_meta res) = rid"
  by (auto simp: runToResource_def normalizeRun_def buildRunSpec_def split: sum.splits option.splits)

lemma runs_Create_id:
  assumes "run_svc_returns s" and "runs_Create s sid (Some rq) w = (Inr st, w')" and "TrimSpace (crr_RunID rq) \<noteq> []"
  shows "rs_runId (rst_spec st) = TrimSpace (crr_RunID rq)"
proof -
  let ?rid = "TrimSpace (crr_RunID rq)"
  from assms(2,3) obtain session res obj w1 w2 where res: "runToResource (rsv_namespace s) session rq ?rid = Inr res"
    and obj: "CreateResource (rsv_client s) ''*v1alpha1.AgentRunResource'' res (rsv_namespace s)
      (om_name (run_meta res)) w1 = (Inr obj, w2)" and st: "runStateFromResource (Some obj) = Inr st"
    by (auto simp: runs_Create_def Let_def split: prod.splits sum.splits if_splits)
  from CreateResource_ok [OF obj] assms(1) have "om_name (run_meta obj) = om_name (run_meta res)"
    unfolding run_svc_returns_def create_returns_def by blast
  with runToResource_name [OF res] run_state_id [OF st] show ?thesis by simp
qed

lemma createOrGetRun_id:
  assumes "run_svc_returns (actl_runs c)" and "createOrGetRun c r a sn w = (Inr (st, k), w')"
    and "TrimSpace (fst (nextRunAttempt r)) \<noteq> []"
  shows "k = snd (nextRunAttempt r)" and "rs_runId (rst_spec st) = TrimSpace (fst (nextRunAttempt r))"
  using assms by (auto simp: createOrGetRun_def split: prod.splits sum.splits if_splits
      dest: runs_Create_id runs_Get_id)

lemma nextRunAttempt_cases:
  assumes "ar_action r = Some a"
  shows "\<not> live_run (ar_status r) \<Longrightarrow> nextRunAttempt r =
      (attemptRunID (as_actionId a) (i32 (currentAttemptCount r + 1)), i32 (currentAttemptCount r + 1))"
    and "live_run (ar_status r) \<Longrightarrow> nextRunAttempt r = (TrimSpace (act_runID (ar_status r)), currentAttemptCount r)"
  using assms by (simp_all add: nextRunAttempt_def live_run_def Let_def)

text \<open>A run that was created, or found, for a turn.\<close>

lemma run_started_step:
  assumes "run_svc_returns (actl_runs c)" and "createOrGetRun c r a sn w = (Inr (st, k), w')"
    and "ar_action r = Some a" and "TrimSpace (as_actionId a) \<noteq> []"
  shows "turn_step p sn (as_actionId a) r (fst (run_started r now sn st k))"
proof (cases "live_run (ar_status r)")
  case True
  note n = nextRunAttempt_cases(2) [OF assms(3) True]
  have "TrimSpace (fst (nextRunAttempt r)) \<noteq> []" using True n by (simp add: live_run_def)
  from createOrGetRun_id [OF assms(1,2) this] n True show ?thesis
    by (intro turn_step.observe) (simp_all add: run_started_def)
next
  case False
  note n = nextRunAttempt_cases(1) [OF assms(3) False]
  have "TrimSpace (fst (nextRunAttempt r)) \<noteq> []" using attemptRunID_ne [OF assms(4)] n by simp
  from createOrGetRun_id [OF assms(1,2) this] n False show ?thesis
    by (intro turn_step.start) (simp_all add: run_started_def)
qed

text \<open>A failure of the services around the run: a retry, or the end of the budget.\<close>

lemma scheduleRetry_step:
  assumes "act_retryCount (ar_status r) \<le> rp_maxRetries p" and "0 \<le> act_retryCount (ar_status r)"
    and "rp_maxRetries p < 2 ^ 31 - 1"
  shows "turn_step p sn aid r (fst (scheduleRetryStatus r now m cl p))"
proof -
  have i: "i32 (act_retryCount (ar_status r) + 1) = act_retryCount (ar_status r) + 1"
    using assms by (intro i32_id) (simp add: in_i32_def)
  show ?thesis
  proof (cases "act_retryCount (ar_status r) < rp_maxRetries p")
    case True
    with i show ?thesis by (intro turn_step.retry) (simp_all add: scheduleRetryStatus_def Let_def)
  next
    case False
    with i show ?thesis
      by (intro turn_step.finish) (simp_all add: scheduleRetryStatus_def Let_def action_isTerminalPhase_def)
  qed
qed

lemma failed_turn_step:
  assumes "act_retryCount (ar_status r) \<le> rp_maxRetries p" and "0 \<le> act_retryCount (ar_status r)"
    and "rp_maxRetries p < 2 ^ 31 - 1" and "int (length (sn_runtimeCandidates sn)) < 2 ^ 31"
  shows "turn_step p sn aid r (failedRunTurnStatus r now sn st p)"
proof -
  have "currentCandidateIndex r (Some sn) + 1 < 2 ^ 31"
    using cand_range [of r sn] assms(4) by (auto simp: max_def split: if_splits)
  then have c: "i32 (currentCandidateIndex r (Some sn) + 1) = currentCandidateIndex r (Some sn) + 1"
    using cand_range(1) [of r sn] by (intro i32_id) (simp add: in_i32_def)
  have fin: "turn_step p sn aid r (terminalStatus r now AFailed m cl)" for m cl
    by (rule turn_step.finish) (simp_all add: action_isTerminalPhase_def)
  show ?thesis
  proof (cases "runResultIsRetryable (ars_result (rst_status st)) \<and> \<not> retryBudgetAvailable r p
      \<and> currentCandidateIndex r (Some sn) + 1 < int (length (sn_runtimeCandidates sn))")
    case True
    then show ?thesis
      by (intro turn_step.fallback)
        (simp_all add: failedRunTurnStatus_def Let_def nextCandidateIndex_def c retryBudgetAvailable_def)
  next
    case False
    then show ?thesis
      using scheduleRetry_step [OF assms(1-3)] fin
      by (auto simp: failedRunTurnStatus_def Let_def nextCandidateIndex_def c)
  qed
qed

text \<open>What the steps of a turn assume of the action, its snapshot and the reconciler.\<close>

definition turn_ok :: "'w ActionCtl \<Rightarrow> RunTurnSnapshot \<Rightarrow> string \<Rightarrow> ActionResource \<Rightarrow> bool" where
  "turn_ok c sn aid r \<longleftrightarrow> run_svc_returns (actl_runs c) \<and> 0 \<le> rp_maxRetries (actl_policy c) \<and>
     int (run_budget (actl_policy c) sn) < 2 ^ 31 \<and> TrimSpace aid \<noteq> [] \<and>
     turn_inv (actl_policy c) sn r \<and> \<not> action_isTerminalPhase (act_phase (ar_status r)) \<and>
     (\<exists>a. ar_action r = Some a \<and> as_actionId a = aid \<and> as_type a = TypeRunTurn \<and> get_run_turn a = Some sn)"

lemma budget_bounds:
  assumes "int (run_budget p sn) < 2 ^ 31"
  shows "rp_maxRetries p < 2 ^ 31 - 1" and "int (length (sn_runtimeCandidates sn)) < 2 ^ 31"
proof -
  let ?n = "length (sn_runtimeCandidates sn)"
  have "Suc (turn_max p) \<le> run_budget p sn" "?n \<le> run_budget p sn"
    using mult_le_mono1 [of 1 "max 1 ?n" "Suc (turn_max p)"] mult_le_mono2 [of 1 "Suc (turn_max p)" "max 1 ?n"]
    by (simp_all add: run_budget_def)
  with assms show "rp_maxRetries p < 2 ^ 31 - 1" "int ?n < 2 ^ 31" by linarith+
qed

lemma turn_ok_facts:
  assumes "turn_ok c sn aid r"
  shows "run_svc_returns (actl_runs c)" "TrimSpace aid \<noteq> []"
    "act_retryCount (ar_status r) \<le> rp_maxRetries (actl_policy c)" "0 \<le> act_retryCount (ar_status r)"
    "rp_maxRetries (actl_policy c) < 2 ^ 31 - 1" "int (length (sn_runtimeCandidates sn)) < 2 ^ 31"
    "TrimSpace (act_runID (ar_status r)) = act_runID (ar_status r)"
    "live_run (ar_status r) \<Longrightarrow> act_phase (ar_status r) \<noteq> APending"
    "0 \<le> rp_maxRetries (actl_policy c)" "int (run_budget (actl_policy c) sn) < 2 ^ 31"
    "turn_inv (actl_policy c) sn r" "\<not> action_isTerminalPhase (act_phase (ar_status r))"
  using assms budget_bounds [of "actl_policy c" sn] by (auto simp: turn_ok_def turn_inv_def)

lemma turn_ok_action:
  "turn_ok c sn aid r \<Longrightarrow> ar_action r = Some a \<Longrightarrow> as_actionId a = aid \<and> as_type a = TypeRunTurn \<and> get_run_turn a = Some sn"
  by (auto simp: turn_ok_def)

lemma hold_step:
  assumes "turn_ok c sn aid r" and "\<not> live_run (ar_status r)"
  shows "turn_step (actl_policy c) sn aid r (pendingBlockedStatus r now m)"
  using assms(2) by (intro turn_step.hold) (simp_all add: same_counts_def)

lemma failed_step: "turn_step p sn aid r (action_failedStatus r now m)"
  by (rule turn_step.finish) (simp_all add: action_isTerminalPhase_def)

lemma over_step: "action_isTerminalPhase ph \<Longrightarrow> turn_step p sn aid r (terminalStatus r now ph m cl)"
  by (rule turn_step.finish) simp_all

lemmas over_steps = over_step [of ASucceeded, unfolded action_isTerminalPhase_def, simplified]
  over_step [of ACanceled, unfolded action_isTerminalPhase_def, simplified]
  over_step [of AFailed, unfolded action_isTerminalPhase_def, simplified]

lemma live_step:
  assumes "live_run (ar_status r)"
  shows "turn_step p sn aid r (runningStatus r now (act_runID (ar_status r)) m (currentAttemptCount r)
    (currentCandidateIndex r (Some sn)))"
  using assms by (intro turn_step.observe) simp_all

lemma observe_run_step:
  assumes "turn_ok c sn aid r" and "live_run (ar_status r)"
  shows "turn_step (actl_policy c) sn aid r (fst (observe_run c r now sn st))"
  using over_steps live_step [OF assms(2)] failed_turn_step [OF turn_ok_facts(3-6) [OF assms(1)]]
  by (auto simp: observe_run_def split: AgentRunPhase.splits)

lemma deriveRunTurnStatus_steps:
  assumes ok: "turn_ok c sn aid r" and a: "ar_action r = Some a"
    and d: "deriveRunTurnStatus c r a now w = (Inr (t, res), w')"
  shows "turn_step (actl_policy c) sn aid r t"
proof -
  note act = turn_ok_action [OF ok a] and f = turn_ok_facts [OF ok]
  have started: "createOrGetRun c r a sn v = (Inr (st, k), v') \<Longrightarrow>
      turn_step (actl_policy c) sn aid r (fst (run_started r now sn st k))" for v v' st k
    using run_started_step [OF f(1) _ a, of sn v st k v'] act f(2) by simp
  note retry = scheduleRetry_step [OF f(3-5), of sn aid now]
  show ?thesis
  proof (cases "live_run (ar_status r)")
    case True
    with act have "TrimSpace (act_runID (ar_status r)) \<noteq> []" by (simp add: live_run_def)
    with d act show ?thesis
      using failed_step [of "actl_policy c" sn aid r now] retry started observe_run_step [OF ok True, of now]
      by (auto simp: deriveRunTurnStatus_def split: prod.splits sum.splits if_splits) (metis fst_conv)+
  next
    case False
    with act have "TrimSpace (act_runID (ar_status r)) = []" by (simp add: live_run_def)
    with d act show ?thesis
      using failed_step [of "actl_policy c" sn aid r now] retry started hold_step [OF ok False, of now]
      by (auto simp: deriveRunTurnStatus_def split: prod.splits sum.splits if_splits option.splits) (metis fst_conv)+
  qed
qed

text \<open>A stopped turn is observed until its run is over; it is never retried.\<close>

lemma canceled_step: "turn_step p sn aid r (canceledStatus r now m)"
  unfolding canceledStatus_def by (rule over_steps)

lemma deriveStoppedStatus_steps:
  assumes ok: "turn_ok c sn aid r" and a: "ar_action r = Some a"
    and d: "deriveStoppedStatus c r a now w = (Inr (t, res), w')"
  shows "turn_step (actl_policy c) sn aid r t"
proof -
  note act = turn_ok_action [OF ok a] and f = turn_ok_facts [OF ok]
  have run: "deriveStoppedStatus c r a now w = deriveStoppedRunTurnStatus c r a now w"
    using act by (simp add: deriveStoppedStatus_def)
  show ?thesis
  proof (cases "act_runID (ar_status r) = []")
    case True
    with d run show ?thesis by (auto simp: deriveStoppedRunTurnStatus_def Let_def canceled_step)
  next
    case False
    with f(7) have "live_run (ar_status r)" by (simp add: live_run_def)
    note live = live_step [OF this, of "actl_policy c" sn aid now]
    from False d run act live over_steps canceled_step show ?thesis
      by (auto simp: deriveStoppedRunTurnStatus_def Let_def split: prod.splits sum.splits if_splits AgentRunPhase.splits)
  qed
qed

lemma retry_window_step:
  assumes "pendingRetryWindow r now = Some (t, res)"
  shows "turn_step p sn aid r t"
  using assms by (intro turn_step.hold)
    (auto simp: pendingRetryWindow_def Let_def same_counts_def split: if_splits option.splits)

text \<open>
  The whole derivation. While a run is live, the action is assumed to be the owner of its session's
  queue: the queue puts the first active action first (\<open>queueOwnerID_owner\<close>).
\<close>

lemma action_deriveStatus_steps:
  assumes ok: "turn_ok c sn aid r"
    and own: "live_run (ar_status r) \<Longrightarrow> \<forall>a. ar_action r = Some a \<longrightarrow> fst (queueOwner c (as_sessionId a) w) = Inr (ar_name r)"
    and d: "action_deriveStatus c r w = (Inr (t, res), w')"
  shows "turn_step (actl_policy c) sn aid r t"
proof -
  let ?now = "actl_now c w"
  from ok obtain a where a: "ar_action r = Some a" by (auto simp: turn_ok_def)
  note act = turn_ok_action [OF ok a] and f = turn_ok_facts [OF ok]
  show ?thesis
  proof (cases "invalidStatus (Some r) ?now")
    case (Some invalid)
    with d a failed_step [of "actl_policy c" sn aid r ?now] show ?thesis
      by (auto simp: action_deriveStatus_def Let_def invalidStatus_def split: if_splits)
  next
    case None
    show ?thesis
    proof (cases "as_stopRequested a")
      case True
      with None d a f(12) have "deriveStoppedStatus c r a ?now w = (Inr (t, res), w')"
        by (simp add: action_deriveStatus_def)
      from deriveStoppedStatus_steps [OF ok a this] show ?thesis .
    next
      case False
      obtain x w1 where q: "queueOwner c (as_sessionId a) w = (x, w1)" by fastforce
      show ?thesis
      proof (cases "x = Inr (ar_name r)")
        case True
        show ?thesis
        proof (cases "pendingRetryWindow r ?now")
          case (Some y)
          with None False True q d a f(12) have "y = (t, res)" by (simp add: action_deriveStatus_def)
          with Some show ?thesis by (simp add: retry_window_step)
        next
          case N: None
          with None False True q d a act f(12) have "deriveRunTurnStatus c r a ?now w1 = (Inr (t, res), w')"
            by (simp add: action_deriveStatus_def)
          from deriveRunTurnStatus_steps [OF ok a this] show ?thesis .
        qed
      next
        case ne: False
        with own a q have "\<not> live_run (ar_status r)" by auto
        note h = hold_step [OF ok this]
        from ne None False q d a f(12) h show ?thesis
          by (auto simp: action_deriveStatus_def Let_def split: sum.splits if_splits)
      qed
    qed
  qed
qed

text \<open>
  The life of a turn: reconciliations in arbitrary worlds, and between them changes of the action that
  keep its status, its id, its type and its snapshot (a stop request, a new generation, labels).
\<close>

definition same_turn :: "ActionResource \<Rightarrow> ActionResource \<Rightarrow> bool" where
  "same_turn r r' \<longleftrightarrow> ar_status r' = ar_status r \<and>
     map_option (\<lambda>a. (as_actionId a, as_type a, get_run_turn a)) (ar_action r') =
     map_option (\<lambda>a. (as_actionId a, as_type a, get_run_turn a)) (ar_action r)"

inductive turn_life :: "'w ActionCtl \<Rightarrow> ActionResource \<Rightarrow> ActionResource \<Rightarrow> bool" for c :: "'w ActionCtl" and r0 :: ActionResource where
  life_new: "turn_life c r0 r0"
| life_edit: "\<lbrakk>turn_life c r0 r; same_turn r r'\<rbrakk> \<Longrightarrow> turn_life c r0 r'"
| life_reconcile: "\<lbrakk>turn_life c r0 r; \<not> action_isTerminalPhase (act_phase (ar_status r));
     live_run (ar_status r) \<longrightarrow> (\<forall>a. ar_action r = Some a \<longrightarrow> fst (queueOwner c (as_sessionId a) w) = Inr (ar_name r));
     action_deriveStatus c r w = (Inr (t, res), w')\<rbrakk> \<Longrightarrow> turn_life c r0 (r\<lparr>ar_status := t\<rparr>)"

definition is_turn :: "RunTurnSnapshot \<Rightarrow> string \<Rightarrow> ActionResource \<Rightarrow> bool" where
  "is_turn sn aid r \<longleftrightarrow> (\<exists>a. ar_action r = Some a \<and> as_actionId a = aid \<and> as_type a = TypeRunTurn \<and> get_run_turn a = Some sn)"

lemma turn_life_inv:
  assumes "turn_life c r0 r" and "is_turn sn aid r0" and "fresh_turn r0" and "run_svc_returns (actl_runs c)"
    and "0 \<le> rp_maxRetries (actl_policy c)" and "int (run_budget (actl_policy c) sn) < 2 ^ 31" and "TrimSpace aid \<noteq> []"
  shows "turn_inv (actl_policy c) sn r \<and> is_turn sn aid r"
  using assms(1)
proof induction
  case life_new
  show ?case using fresh_turn_inv assms by blast
next
  case (life_edit r r')
  then show ?case by (auto simp: same_turn_def is_turn_def turn_inv_status [of r' r])
next
  case (life_reconcile r w t res w')
  then have ok: "turn_ok c sn aid r" using assms by (auto simp: turn_ok_def is_turn_def)
  have "turn_step (actl_policy c) sn aid r t"
    by (rule action_deriveStatus_steps [OF ok _ life_reconcile.hyps(4)]) (use life_reconcile.hyps(3) in blast)
  from turn_step_inv [OF _ life_reconcile.hyps(2) this assms(6,7,5)] life_reconcile.IH
  show ?case by (simp add: is_turn_def)
qed

section \<open>Properties\<close>


text \<open>
  C6: The reconciler implements the turn machine: every status it derives for a turn of which it is the
  queue owner (or that has no live run) is a step of the specification: it starts the run of the next
  attempt, observes the live run, waits, retries within the budget on the same candidate, falls back
  to the next candidate with a fresh budget, or ends the turn.
\<close>

theorem action_deriveStatus_refines:
  assumes "turn_ok c sn aid r" and "action_deriveStatus c r w = (Inr (t, res), w')"
    and "live_run (ar_status r) \<Longrightarrow> \<forall>a. ar_action r = Some a \<longrightarrow> fst (queueOwner c (as_sessionId a) w) = Inr (ar_name r)"
  shows "turn_step (actl_policy c) sn aid r t"
  using action_deriveStatus_steps [OF assms(1,3,2)] .

text \<open>
  C21: The retry budget is used up exactly: the failure of a run ends the turn if it is not retryable or
  no failure is left, and otherwise the turn waits for another run and exactly one failure less is
  left. Together: \<open>failures_left\<close> retryable failures are survived, the next one ends the turn, to be
  retried by hand.
\<close>

theorem failedRunTurnStatus_budget:
  assumes "act_retryCount (ar_status r) \<le> rp_maxRetries p" and "0 \<le> act_retryCount (ar_status r)"
    and "int (run_budget p sn) < 2 ^ 31"
    and "t = failedRunTurnStatus r now sn st p" and "runResultIsRetryable (ars_result (rst_status st)) = retryable"
  shows "(\<not> retryable \<longrightarrow> act_phase t = AFailed \<and> act_failureClass t = ClassPermanent) \<and>
    (retryable \<and> failures_left p sn r = 0 \<longrightarrow> act_phase t = AFailed \<and> act_failureClass t = ClassManualRetry) \<and>
    (retryable \<and> failures_left p sn r \<noteq> 0 \<longrightarrow> act_phase t = APending \<and> act_failureClass t = ClassTransient \<and>
       failures_left p sn r = Suc (failures_left p sn (r\<lparr>ar_status := t\<rparr>)))"
proof -
  let ?m = "runFailureMessage st" and ?c = "currentCandidateIndex r (Some sn)"
  note b = budget_bounds [OF assms(3)]
  have i: "i32 (act_retryCount (ar_status r) + 1) = act_retryCount (ar_status r) + 1"
    using assms(1,2) b(1) by (intro i32_id) (simp add: in_i32_def)
  have c: "i32 (?c + 1) = ?c + 1"
    using cand_range [of r sn] b(2) by (intro i32_id) (auto simp: in_i32_def max_def split: if_splits)
  consider (fatal) "\<not> retryable" | (retry) "retryable" "act_retryCount (ar_status r) < rp_maxRetries p"
    | (fallback) "retryable" "rp_maxRetries p \<le> act_retryCount (ar_status r)" "?c + 1 < int (length (sn_runtimeCandidates sn))"
    | (spent) "retryable" "rp_maxRetries p \<le> act_retryCount (ar_status r)" "int (length (sn_runtimeCandidates sn)) \<le> ?c + 1"
    by linarith
  then show ?thesis
  proof cases
    case fatal
    with assms(4,5) show ?thesis by (simp add: failedRunTurnStatus_def Let_def)
  next
    case retry
    with assms(4,5) i have t: "t = fst (scheduleRetryStatus r now ?m ClassTransient p)"
      by (simp add: failedRunTurnStatus_def Let_def retryBudgetAvailable_def)
    with retry i have f: "act_phase t = APending" "act_failureClass t = ClassTransient"
      "act_retryCount t = act_retryCount (ar_status r) + 1" "act_candidateIndex t = act_candidateIndex (ar_status r)"
      by (simp_all add: scheduleRetryStatus_def Let_def)
    with retry failures_left_retry [OF f(3) retry(2) f(4), of sn] show ?thesis by simp
  next
    case fallback
    with assms(4,5) c have t: "t = scheduleFallbackStatus r now ?m (?c + 1)"
      by (simp add: failedRunTurnStatus_def Let_def retryBudgetAvailable_def nextCandidateIndex_def)
    have "failures_left p sn r = Suc (failures_left p sn (r\<lparr>ar_status := t\<rparr>))"
      by (rule failures_left_fallback) (use t fallback in simp_all)
    with fallback t show ?thesis by simp
  next
    case spent
    have "length (sn_runtimeCandidates sn) \<le> Suc (nat ?c)" using spent(3) cand_range(1) [of r sn] by linarith
    with spent assms(4,5) c show ?thesis
      by (simp add: failedRunTurnStatus_def Let_def retryBudgetAvailable_def nextCandidateIndex_def failures_left_def)
  qed
qed

end
