(* ===== verification/Action_Laws.thy ===== *)
theory Action_Laws
  imports Turn_Machine
begin

text \<open>
  What the action reconciler guarantees for the actions of a session: the queue that serialises
  them, the shape of the statuses it derives, and how stopped actions and lost runs behave.
\<close>

section \<open>The queue\<close>

text \<open>The names of stored actions are trimmed and not empty.\<close>

definition names_ok :: "ActionResource list \<Rightarrow> bool" where
  "names_ok items \<longleftrightarrow> (\<forall>x \<in> set items. TrimSpace (ar_name x) = ar_name x \<and> ar_name x \<noteq> [])"

lemma names_ok_sort [simp]: "names_ok (sort_actions items) \<longleftrightarrow> names_ok items"
  by (simp add: names_ok_def)

text \<open>Both searches of the queue take the first action with a property: the least one, as the list is sorted.\<close>

lemma find_sorted:
  fixes f :: "'a \<Rightarrow> 'k::linorder"
  assumes "sorted (map f xs)" and "inj_on f (set xs)" and "x \<in> set xs"
  shows "find P xs = Some x \<longleftrightarrow> P x \<and> (\<forall>y \<in> set xs. P y \<longrightarrow> f x \<le> f y)"
  using assms
proof (induction xs)
  case (Cons y ys)
  show ?case
  proof (cases "P y")
    case True
    have "x = y" if "f x \<le> f y"
    proof (rule inj_onD [OF Cons.prems(2) _ Cons.prems(3)])
      from Cons.prems(1,3) have "f y \<le> f x" by auto
      with that show "f x = f y" by simp
    qed simp
    with True Cons.prems(1) show ?thesis by auto
  next
    case False
    have "inj_on f (set ys)" using Cons.prems(2) by (rule inj_on_subset) auto
    with False Cons show ?thesis by (cases "x = y") (auto dest: find_Some_iff [THEN iffD1] simp: find_Some_iff)
  qed
qed simp

definition first_name :: "ActionResource option \<Rightarrow> string" where
  "first_name r = (case r of None \<Rightarrow> [] | Some x \<Rightarrow> TrimSpace (ar_name x))"

lemma first_searches:
  "firstActiveAction rs = first_name (find isActiveAction rs)"
  "firstNonterminal rs = first_name (find (\<lambda>x. \<not> action_isTerminalPhase (act_phase (ar_status x))) rs)"
  by (induction rs) (simp_all add: first_name_def)

lemma find_set: "find P xs = Some x \<Longrightarrow> x \<in> set xs \<and> P x"
  by (auto simp: find_Some_iff)

lemma first_name_empty: "names_ok rs \<Longrightarrow> first_name (find P rs) = [] \<longleftrightarrow> (\<forall>x \<in> set rs. \<not> P x)"
  using find_None_iff [of P rs] by (cases "find P rs") (auto simp: first_name_def names_ok_def dest: find_set)

lemma first_name_least:
  assumes "names_ok rs" and "distinct (map ar_name rs)" and "r \<in> set rs" and "sorted (map queue_key rs)"
  shows "first_name (find P rs) = ar_name r \<longleftrightarrow> P r \<and> (\<forall>x \<in> set rs. P x \<longrightarrow> queue_key r \<le> queue_key x)"
proof -
  have inj: "inj_on ar_name (set rs)" using assms(2) by (simp add: distinct_map)
  then have "inj_on queue_key (set rs)" by (auto simp: inj_on_def queue_key_def)
  note fs = find_sorted [OF assms(4) this assms(3), of P]
  have "first_name (find P rs) = ar_name r \<longleftrightarrow> find P rs = Some r"
    using assms(1,3) inj_onD [OF inj] by (cases "find P rs") (auto simp: first_name_def names_ok_def dest!: find_set)
  with fs show ?thesis by simp
qed

lemma distinct_sort_actions: "distinct (map ar_name items) \<Longrightarrow> distinct (map ar_name (sort_actions items))"
  by (simp add: distinct_map sort_actions_def)

text \<open>Who owns the queue of a session.\<close>

lemma queueOwnerID_empty:
  assumes "names_ok items"
  shows "queueOwnerID (sort_actions items) = [] \<longleftrightarrow> (\<forall>x \<in> set items. action_isTerminalPhase (act_phase (ar_status x)))"
  using first_name_empty [of "sort_actions items"] assms
  by (auto simp: queueOwnerID_def Let_def first_searches dest: isActive_nonterminal)

lemma queueOwnerID_owner:
  assumes "names_ok items" and "distinct (map ar_name items)" and "r \<in> set items"
  shows "queueOwnerID (sort_actions items) = ar_name r \<longleftrightarrow>
    (if \<exists>x \<in> set items. isActiveAction x
     then isActiveAction r \<and> (\<forall>x \<in> set items. isActiveAction x \<longrightarrow> queue_key r \<le> queue_key x)
     else \<not> action_isTerminalPhase (act_phase (ar_status r)) \<and>
       (\<forall>x \<in> set items. \<not> action_isTerminalPhase (act_phase (ar_status x)) \<longrightarrow> queue_key r \<le> queue_key x))"
  using first_name_least [of "sort_actions items" r] first_name_empty [of "sort_actions items"] assms
  by (auto simp: queueOwnerID_def Let_def first_searches distinct_sort_actions sort_actions_sorted)

section \<open>Statuses\<close>

lemma fst_wf: "wf_status g (fst y) \<Longrightarrow> y = (t, res) \<Longrightarrow> wf_status g t"
  by simp

lemma over_wf [wf_intros]:
  "now \<noteq> 0 \<Longrightarrow> wf_status (om_generation (ar_meta r)) (terminalStatus r now ASucceeded m c)"
  "now \<noteq> 0 \<Longrightarrow> wf_status (om_generation (ar_meta r)) (terminalStatus r now AFailed m c)"
  "now \<noteq> 0 \<Longrightarrow> wf_status (om_generation (ar_meta r)) (terminalStatus r now ACanceled m c)"
  by (rule terminal_wf; simp add: action_isTerminalPhase_def)+

lemma failedRunTurn_wf [wf_intros]:
  "now \<noteq> 0 \<Longrightarrow> wf_status (om_generation (ar_meta r)) (failedRunTurnStatus r now sn st p)"
  by (auto simp: failedRunTurnStatus_def Let_def split: option.splits intro: wf_intros)

lemma observe_run_wf: "now \<noteq> 0 \<Longrightarrow> wf_status (om_generation (ar_meta r)) (fst (observe_run c r now sn st))"
  by (auto simp: observe_run_def split: AgentRunPhase.splits intro: wf_intros)

lemma run_started_wf: "now \<noteq> 0 \<Longrightarrow> wf_status (om_generation (ar_meta r)) (fst (run_started r now sn st k))"
  by (simp add: run_started_def wf_intros)

lemma deriveRunTurn_wf:
  assumes "deriveRunTurnStatus c r a now w = (Inr (t, res), w')" and "now \<noteq> 0"
  shows "wf_status (om_generation (ar_meta r)) t"
  using assms(1) fst_wf [OF scheduleRetry_wf [OF assms(2)]] fst_wf [OF observe_run_wf [OF assms(2)]]
    fst_wf [OF run_started_wf [OF assms(2)]] failed_wf [OF assms(2)] pendingBlocked_wf [OF assms(2)]
  by (auto simp: deriveRunTurnStatus_def split: option.splits prod.splits sum.splits if_splits)

lemma deriveStopped_wf:
  assumes "deriveStoppedStatus c r a now w = (Inr (t, res), w')" and "now \<noteq> 0"
  shows "wf_status (om_generation (ar_meta r)) t"
  using assms canceled_wf [OF assms(2)] running_wf [OF assms(2)] over_wf [OF assms(2)]
  by (auto simp: deriveStoppedStatus_def deriveStoppedRunTurnStatus_def Let_def
      split: prod.splits sum.splits if_splits AgentRunPhase.splits)

lemma deriveReset_wf:
  assumes "deriveResetWarmStateStatus c r a now w = (Inr (t, res), w')" and "now \<noteq> 0"
  shows "wf_status (om_generation (ar_meta r)) t"
  using assms(1) fst_wf [OF scheduleRetry_wf [OF assms(2)]] failed_wf [OF assms(2)] running_wf [OF assms(2)] over_wf [OF assms(2)]
  by (auto simp: deriveResetWarmStateStatus_def keep_running_def split: option.splits prod.splits sum.splits if_splits)

lemma deriveReload_wf:
  assumes "deriveReloadSubjectStatus c r a now w = (Inr (t, res), w')" and "now \<noteq> 0"
  shows "wf_status (om_generation (ar_meta r)) t"
  using assms(1) fst_wf [OF scheduleRetry_wf [OF assms(2)]] failed_wf [OF assms(2)] running_wf [OF assms(2)] over_wf [OF assms(2)]
  by (auto simp: deriveReloadSubjectStatus_def keep_running_def split: option.splits prod.splits sum.splits if_splits)

lemma invalid_wf: "invalidStatus (Some r) now = Some t \<Longrightarrow> now \<noteq> 0 \<Longrightarrow> wf_status (om_generation (ar_meta r)) t"
  by (auto simp: invalidStatus_def split: option.splits if_splits intro: wf_intros)

text \<open>A valid, unfinished action: the branches of the derivation.\<close>

lemma deriveStatus_cases [consumes 2, case_names invalid stopped waiting window turn reset reload unsupported]:
  assumes "action_deriveStatus c r w = (Inr (t, res), w')" and "\<not> action_isTerminalPhase (act_phase (ar_status r))"
  obtains (invalid) "invalidStatus (Some r) (actl_now c w) = Some t" "w' = w"
  | (stopped) a where "ar_action r = Some a" "as_stopRequested a" "deriveStoppedStatus c r a (actl_now c w) w = (Inr (t, res), w')"
  | (waiting) a owner where "ar_action r = Some a" "\<not> as_stopRequested a" "queueOwner c (as_sessionId a) w = (Inr owner, w')"
      "owner \<noteq> ar_name r" "t = pendingBlockedStatus r (actl_now c w) ''AgentSessionAction is waiting for prior actions.''"
  | (window) a where "ar_action r = Some a" "queueOwner c (as_sessionId a) w = (Inr (ar_name r), w')"
      "pendingRetryWindow r (actl_now c w) = Some (t, res)"
  | (turn) a w1 where "ar_action r = Some a" "as_type a = TypeRunTurn" "\<not> as_stopRequested a"
      "queueOwner c (as_sessionId a) w = (Inr (ar_name r), w1)" "deriveRunTurnStatus c r a (actl_now c w) w1 = (Inr (t, res), w')"
  | (reset) a w1 where "ar_action r = Some a" "as_type a = TypeResetWarmState" "\<not> as_stopRequested a"
      "queueOwner c (as_sessionId a) w = (Inr (ar_name r), w1)" "deriveResetWarmStateStatus c r a (actl_now c w) w1 = (Inr (t, res), w')"
  | (reload) a w1 where "ar_action r = Some a" "as_type a = TypeReloadSubject" "\<not> as_stopRequested a"
      "queueOwner c (as_sessionId a) w = (Inr (ar_name r), w1)" "deriveReloadSubjectStatus c r a (actl_now c w) w1 = (Inr (t, res), w')"
  | (unsupported) "\<exists>m. t = action_failedStatus r (actl_now c w) m"
  using assms that
  by (auto simp: action_deriveStatus_def Let_def split: option.splits if_splits prod.splits sum.splits ActionType.splits)

lemma derived_wf:
  assumes "action_deriveStatus c r w = (Inr (t, res), w')" and "\<not> action_isTerminalPhase (act_phase (ar_status r))"
    and "actl_now c w \<noteq> 0"
  shows "wf_status (om_generation (ar_meta r)) t"
  using assms(1,2)
proof (cases rule: deriveStatus_cases)
  case invalid
  with assms(3) show ?thesis by (simp add: invalid_wf)
next
  case (stopped a)
  with assms(3) show ?thesis by (simp add: deriveStopped_wf)
next
  case (window a)
  with assms(3) show ?thesis by (simp add: pendingRetryWindow_wf)
next
  case (turn a w1)
  with assms(3) show ?thesis by (simp add: deriveRunTurn_wf)
next
  case (reset a w1)
  with assms(3) show ?thesis by (simp add: deriveReset_wf)
next
  case (reload a w1)
  with assms(3) show ?thesis by (simp add: deriveReload_wf)
qed (use assms(3) in \<open>auto intro: wf_intros\<close>)

text \<open>An action that becomes active owns the queue of its session.\<close>

lemma activation_owner:
  assumes "action_deriveStatus c r w = (Inr (t, res), w')" and "\<not> action_isTerminalPhase (act_phase (ar_status r))"
    and "TrimSpace (act_runID (ar_status r)) = act_runID (ar_status r)" and "\<not> isActiveAction r"
    and "isActiveAction (r\<lparr>ar_status := t\<rparr>)"
  shows "\<exists>a w1. ar_action r = Some a \<and> queueOwner c (as_sessionId a) w = (Inr (ar_name r), w1)"
  using assms(1,2)
proof (cases rule: deriveStatus_cases)
  case (stopped a')
  from assms(2-4) have "act_runID (ar_status r) = []" by (auto simp: isActiveAction_def split: if_splits)
  with stopped assms(5) show ?thesis
    by (auto simp: deriveStoppedStatus_def deriveStoppedRunTurnStatus_def canceledStatus_def isActiveAction_def
        action_isTerminalPhase_def split: if_splits)
qed (use assms(5) in \<open>auto simp: invalidStatus_def isActiveAction_def action_isTerminalPhase_def split: option.splits if_splits\<close>)

section \<open>Runs that went missing\<close>

lemma runs_Cancel_missing:
  assumes "rsv_reader_Get s (rsv_namespace s) (TrimSpace rid) w = (Inl e, w1)" and "is_api_not_found e"
    and "TrimSpace rid \<noteq> []"
  shows "\<exists>e. runs_Cancel s rid w = (Inl e, w1) \<and> \<not> is_api_not_found e"
  using assms by (simp add: runs_Cancel_def getRunResource_def Let_def is_api_not_found_def)

section \<open>Properties\<close>

text \<open>
  The queue of a session is serial: if the actions have distinct proper names, there is an owner
  unless every action is over; the owner is not over; if some action is active the owner is the
  active action that comes first, and otherwise it is the first action that is not over, in the
  order of creation.
\<close>

theorem queueOwnerID_serialises:
  assumes "names_ok items" and "distinct (map ar_name items)"
  shows "(queueOwnerID (sort_actions items) = [] \<longleftrightarrow> (\<forall>x \<in> set items. action_isTerminalPhase (act_phase (ar_status x)))) \<and>
    (\<forall>r \<in> set items. queueOwnerID (sort_actions items) = ar_name r \<longleftrightarrow>
       (if \<exists>x \<in> set items. isActiveAction x
        then isActiveAction r \<and> (\<forall>x \<in> set items. isActiveAction x \<longrightarrow> queue_key r \<le> queue_key x)
        else \<not> action_isTerminalPhase (act_phase (ar_status r)) \<and>
          (\<forall>x \<in> set items. \<not> action_isTerminalPhase (act_phase (ar_status x)) \<longrightarrow> queue_key r \<le> queue_key x)))"
  using queueOwnerID_empty [OF assms(1)] queueOwnerID_owner [OF assms] by blast

text \<open>
  Every status the reconciler derives for an unfinished action is well-formed: it observes the
  generation of the action, its message and run id are trimmed, it has a creation and an update
  time, only a running or finished action has a run, and only a transient pending one a retry time.
\<close>

theorem action_deriveStatus_wf:
  assumes "action_deriveStatus c r w = (Inr (t, res), w')" and "\<not> action_isTerminalPhase (act_phase (ar_status r))"
    and "actl_now c w \<noteq> 0"
  shows "wf_status (om_generation (ar_meta r)) t"
  using derived_wf [OF assms] .

text \<open>
  An action that is over stays as it is: its reconciliation reads the action and does nothing else,
  no status is written, no event recorded, no run created, even if a stop is requested afterwards.
\<close>

theorem action_Reconcile_over:
  assumes "astore_Get (actl_store c) name w = (Inr r, w1)" and "action_isTerminalPhase (act_phase (ar_status r))"
    and "invalidStatus (Some r) (actl_now c w1) = None"
  shows "action_Reconcile c ns name w = (Inr no_requeue, if ns = actl_namespace c then w1 else w)"
  using assms by (simp add: action_Reconcile_def action_deriveStatus_def Let_def action_statusSemanticallyEqual_def)

text \<open>
  C3: Actions of a session do not overlap: an action that was not active becomes running only if it owns
  the queue in a list of the session's actions read in the same reconciliation, in which no action
  is active and no unfinished action was created before it.
\<close>

theorem action_starts_alone:
  assumes "action_deriveStatus c r w = (Inr (t, res), w')" and "act_phase t = ARunning"
    and "\<not> isActiveAction r" and "\<not> action_isTerminalPhase (act_phase (ar_status r))"
    and "TrimSpace (act_runID (ar_status r)) = act_runID (ar_status r)"
    and "ar_action r = Some a"
    and "\<And>items v. astore_ListBySession (actl_store c) (TrimSpace (as_sessionId a)) w = (Inr items, v) \<Longrightarrow>
      names_ok items \<and> distinct (map ar_name items) \<and> r \<in> set items"
  shows "\<exists>items v. astore_ListBySession (actl_store c) (TrimSpace (as_sessionId a)) w = (Inr items, v) \<and>
    (\<forall>x \<in> set items. \<not> isActiveAction x) \<and>
    (\<forall>x \<in> set items. \<not> action_isTerminalPhase (act_phase (ar_status x)) \<longrightarrow> queue_key r \<le> queue_key x)"
proof -
  have owned: ?thesis if q: "queueOwner c (as_sessionId a) w = (Inr (ar_name r), w1)" for w1
  proof -
    from q obtain items where l: "astore_ListBySession (actl_store c) (TrimSpace (as_sessionId a)) w = (Inr items, w1)"
      and o': "queueOwnerID (sort_actions items) = ar_name r"
      by (auto simp: queueOwner_def listSessionActions_def split: prod.splits sum.splits)
    from queueOwnerID_owner [of items r] assms(7) [OF l] o' assms(3) l show ?thesis by (auto split: if_splits)
  qed
  from assms(1,4) show ?thesis
  proof (cases rule: deriveStatus_cases)
    case (stopped a')
    from assms(3-5) have "act_runID (ar_status r) = []" by (auto simp: isActiveAction_def split: if_splits)
    with stopped assms(2) show ?thesis
      by (auto simp: deriveStoppedStatus_def deriveStoppedRunTurnStatus_def canceledStatus_def split: if_splits)
  qed (use owned assms(2,6) in \<open>auto simp: invalidStatus_def split: option.splits if_splits\<close>)
qed

text \<open>
  C26: A stopped turn is only wound up: deriving its status never fails, asks for no slot and so starts
  no run, spends no retry, and leaves the turn running on the run it had, succeeded or canceled,
  never waiting for another run.
\<close>

theorem stop_never_restarts:
  "deriveStoppedStatus (c\<lparr>actl_runs := (actl_runs c)\<lparr>rsv_slots := slots\<rparr>\<rparr>) r a now w = deriveStoppedStatus c r a now w \<and>
   (case fst (deriveStoppedStatus c r a now w) of Inl e \<Rightarrow> False | Inr (t, res) \<Rightarrow>
      act_retryCount t = act_retryCount (ar_status r) \<and>
      (if act_phase t = ARunning then act_runID t = TrimSpace (act_runID (ar_status r))
       else act_phase t = ASucceeded \<or> act_phase t = ACanceled))"
proof -
  let ?s = "actl_runs c" and ?s' = "(actl_runs c)\<lparr>rsv_slots := slots\<rparr>"
  have "runs_Get ?s' i v = runs_Get ?s i v" for i v by (simp add: runs_Get_def)
  moreover have "runs_Cancel ?s' i v = runs_Cancel ?s i v" for i v
    by (simp add: runs_Cancel_def getRunResource_def runs_record_def Let_def split: prod.split sum.split option.split)
  ultimately show ?thesis
    by (auto simp: deriveStoppedStatus_def deriveStoppedRunTurnStatus_def canceledStatus_def Let_def
        split: prod.splits sum.splits if_splits AgentRunPhase.splits)
qed

text \<open>
  C36: A stopped turn whose run is gone never ends: if the run object does not exist any more, cancelling
  it fails with a domain error, which the reconciler does not recognise as "not found"; the action
  stays running on the missing run, is reconciled again and again, and blocks the queue of its
  session.
\<close>

theorem stopped_turn_of_missing_run_stays:
  assumes "rsv_reader_Get (actl_runs c) (rsv_namespace (actl_runs c)) (act_runID (ar_status r)) w = (Inl e, w1)"
    and "is_api_not_found e" and "ar_action r = Some a" and "as_type a = TypeRunTurn" and "as_stopRequested a"
    and "TrimSpace (as_actionId a) \<noteq> []" and "TrimSpace (as_sessionId a) \<noteq> []"
    and "\<not> action_isTerminalPhase (act_phase (ar_status r))"
    and "TrimSpace (act_runID (ar_status r)) = act_runID (ar_status r)" and "act_runID (ar_status r) \<noteq> []"
  shows "\<exists>t w'. action_deriveStatus c r w = (Inr (t, requeue_after runningRequeueAfter), w') \<and> act_phase t = ARunning \<and>
    act_runID t = act_runID (ar_status r) \<and> isActiveAction (r\<lparr>ar_status := t\<rparr>)"
proof -
  obtain e w' where c: "runs_Cancel (actl_runs c) (act_runID (ar_status r)) w = (Inl e, w')" "\<not> is_api_not_found e"
    using runs_Cancel_missing [of "actl_runs c" "act_runID (ar_status r)" w] assms(1,2,9,10) by auto
  have "invalidStatus (Some r) (actl_now c w) = None" using assms(3,6,7) by (simp add: invalidStatus_None)
  with c assms(3-5,8-10) show ?thesis
    by (simp add: action_deriveStatus_def Let_def deriveStoppedStatus_def deriveStoppedRunTurnStatus_def
        isActiveAction_def action_isTerminalPhase_def)
qed

text \<open>
  C37: A transient error while a run is observed forgets the run: the turn is put back to pending without
  its run id, and its next attempt gets a new run id, although the run of this attempt may still be
  going on. The turn is then executed once more.
\<close>

theorem observation_error_forgets_run:
  assumes "ar_action r = Some a" and "get_run_turn a = Some sn" and "loadSession c (as_sessionId a) w = (Inr session, w1)"
    and "TrimSpace (act_runID (ar_status r)) \<noteq> []"
    and "act_runID (ar_status r) = attemptRunID (as_actionId a) (act_attemptCount (ar_status r))"
    and "0 < act_attemptCount (ar_status r)" and "act_attemptCount (ar_status r) < 2 ^ 31 - 1"
    and "0 \<le> act_retryCount (ar_status r)" and "act_retryCount (ar_status r) < rp_maxRetries (actl_policy c)"
    and "rp_maxRetries (actl_policy c) < 2 ^ 31"
    and "runs_Get (actl_runs c) (act_runID (ar_status r)) w1 = (Inl e, w2)" and "\<not> is_api_not_found e"
  shows "\<exists>t res. deriveRunTurnStatus c r a now w = (Inr (t, res), w2) \<and> act_phase t = APending \<and> act_runID t = [] \<and>
    nextRunAttempt (r\<lparr>ar_status := t\<rparr>) =
      (attemptRunID (as_actionId a) (act_attemptCount (ar_status r) + 1), act_attemptCount (ar_status r) + 1) \<and>
    fst (nextRunAttempt (r\<lparr>ar_status := t\<rparr>)) \<noteq> act_runID (ar_status r)"
proof -
  let ?n = "act_attemptCount (ar_status r)"
  let ?t = "fst (scheduleRetryStatus r now (err_message e) ClassManualRetry (actl_policy c))"
  have i: "i32 (act_retryCount (ar_status r) + 1) = act_retryCount (ar_status r) + 1" "i32 (?n + 1) = ?n + 1"
    using assms(6-10) by (simp_all add: in_i32_def)
  have t: "act_phase ?t = APending" "act_runID ?t = []" "act_attemptCount ?t = ?n"
    using i assms(9) by (simp_all add: scheduleRetryStatus_def Let_def)
  have "deriveRunTurnStatus c r a now w = (Inr (scheduleRetryStatus r now (err_message e) ClassManualRetry (actl_policy c)), w2)"
    using assms by (simp add: deriveRunTurnStatus_def)
  moreover have "nextRunAttempt (r\<lparr>ar_status := ?t\<rparr>) = (attemptRunID (as_actionId a) (?n + 1), ?n + 1)"
    using assms(1,6) t i by (simp add: nextRunAttempt_def currentAttemptCount_def Let_def)
  moreover have "attemptRunID (as_actionId a) (?n + 1) \<noteq> attemptRunID (as_actionId a) ?n"
    using assms(6) by (simp add: attemptRunID_eq)
  ultimately show ?thesis using t assms(5) by (metis fst_conv prod.collapse)
qed

end
