(* ===== verification/Action_Reconcile.thy ===== *)
theory Action_Reconcile
  imports Action_Store Action_Laws
begin

text \<open>
  The action reconciler over the Postgres store: what one reconciliation does to the table of actions.
\<close>

section \<open>Calls that leave the table of actions alone\<close>

lemma UpsertResource_frame: "kube_frame P k \<Longrightarrow> frame P (UpsertResource k pr kind obj ns n)"
proof -
  assume k: "kube_frame P k"
  then have get: "frame P (kube_Get k ns n)" and upd: "\<And>o'. frame P (kube_Update k o')" and r: "retry_law k"
    by (auto simp: kube_frame_def)
  have "frame P (upsert_body k pr kind obj ns n)"
    by (rule frameI) (auto simp: upsert_body_def split: prod.splits sum.splits if_splits
        dest!: frameD [OF get] frameD [OF upd] frameD [OF CreateResource_frame [OF k]])
  then show ?thesis unfolding UpsertResource_def [abs_def] by (intro frame_wrap retry_frame r)
qed

lemma Materializer_Ensure_frame: "kube_frame P k \<Longrightarrow> frame P (Materializer_Ensure h m k ns sid cfg)"
  by (rule frameI) (auto simp: Materializer_Ensure_def Let_def split: if_splits option.splits sum.splits prod.splits
      dest!: frameD [OF UpsertResource_frame])

lemma sw_call_frame: "frame aw_db (sw_call f)"
  by (rule frameI) (auto simp: sw_call_def split: prod.splits)

lemma pg_sessions_frame:
  "frame aw_db (sess_Get (pg_sessions codec rp) i)" "frame aw_db (sess_Update (pg_sessions codec rp) i spec)"
  "frame aw_db (sess_UpdateStatus (pg_sessions codec rp) i st)"
  "frame aw_db (sess_ClaimActiveRun (pg_sessions codec rp) i j)" "frame aw_db (sess_ReleaseActiveRun (pg_sessions codec rp) i j)"
  by (simp_all add: pg_sessions_def sw_call_frame)

lemma slots_frame:
  "frame aw_db (ActiveRunManager_Claim (pg_sessions codec rp) ns i j)"
  "frame aw_db (ActiveRunManager_Release (pg_sessions codec rp) i j)"
  by (rule frameI, auto simp: ActiveRunManager_Claim_def ActiveRunManager_Release_def Let_def
      split: if_splits sum.splits prod.splits dest: frameD [OF pg_sessions_frame(4)] frameD [OF pg_sessions_frame(5)])+

text \<open>The services around the reconciler: none of them writes the table of actions.\<close>

definition runs_keep_actions :: "'j codec \<Rightarrow> repo \<Rightarrow> string \<Rightarrow> ('j, 'p, 'z) aworld_scheme RunSvc \<Rightarrow> bool" where
  "runs_keep_actions codec rp ns s \<longleftrightarrow> kube_frame aw_db (rsv_client s) \<and> (\<forall>ns n. frame aw_db (rsv_reader_Get s ns n)) \<and>
     sink_frame aw_db (rsv_sink s) \<and>
     rsv_slots s = \<lparr>slots_Claim = ActiveRunManager_Claim (pg_sessions codec rp) ns,
                    slots_Release = ActiveRunManager_Release (pg_sessions codec rp)\<rparr>"

lemma runs_record_frame: "runs_keep_actions codec rp ns s \<Longrightarrow> aw_db (runs_record s sid et su ac at w) = aw_db w"
  by (simp add: runs_record_def record_frame(3) runs_keep_actions_def)

lemma runs_rollback_frame: "runs_keep_actions codec rp ns s \<Longrightarrow> aw_db (runs_rollback s session rid w) = aw_db w"
  using runs_record_frame [of codec rp ns s]
  by (auto simp: runs_rollback_def Let_def runs_keep_actions_def split: prod.splits sum.splits
      dest: frameD [OF slots_frame(2)])

lemma runs_frame:
  assumes s: "runs_keep_actions codec rp ns s"
  shows "frame aw_db (runs_Get s i)" "frame aw_db (runs_Create s sid rq)" "frame aw_db (runs_Cancel s i)"
proof -
  from s have rd: "frame aw_db (rsv_reader_Get s n k)" and sl: "rsv_slots s =
      \<lparr>slots_Claim = ActiveRunManager_Claim (pg_sessions codec rp) ns, slots_Release = ActiveRunManager_Release (pg_sessions codec rp)\<rparr>"
    and cl: "kube_frame aw_db (rsv_client s)" for n k
    by (auto simp: runs_keep_actions_def)
  show "frame aw_db (runs_Get s i)"
    by (rule frameI) (auto simp: runs_Get_def split: prod.splits sum.splits dest: frameD [OF rd])
  show "frame aw_db (runs_Create s sid rq)"
    by (rule frameI) (auto simp: runs_Create_def Let_def sl runs_record_frame [OF s] runs_rollback_frame [OF s]
        split: option.splits prod.splits sum.splits if_splits
        dest!: frameD [OF slots_frame(1)] frameD [OF CreateResource_frame [OF cl]])
  have get: "frame aw_db (getRunResource s k)" for k
    by (rule frameI) (auto simp: getRunResource_def Let_def split: prod.splits sum.splits if_splits dest: frameD [OF rd])
  show "frame aw_db (runs_Cancel s i)"
    by (rule frameI) (auto simp: runs_Cancel_def Let_def runs_record_frame [OF s]
        split: option.splits prod.splits sum.splits if_splits
        dest!: frameD [OF get] frameD [OF UpdateResource_frame [OF cl]])
qed

section \<open>A derivation leaves the table of actions alone\<close>

definition action_ctl_ok ::
    "'p action_codec \<Rightarrow> PostgresStore \<Rightarrow> 'j codec \<Rightarrow> repo \<Rightarrow> ('j, 'p, 'z) aworld_scheme ActionCtl \<Rightarrow> bool" where
  "action_ctl_ok cd s codec rp c \<longleftrightarrow> actl_store c = pg_actions cd s \<and> actl_sessions c = pg_sessions codec rp \<and>
     runs_keep_actions codec rp (actl_namespace c) (actl_runs c) \<and> kube_frame aw_db (actl_configMaps c) \<and>
     sink_frame aw_db (actl_sink c)"

lemma action_ctl_frames:
  assumes "action_ctl_ok cd s codec rp c"
  shows "frame aw_db (loadSession c sid)" "frame aw_db (createOrGetRun c r a sn)" "frame aw_db (queueOwner c sid)"
    "frame aw_db (applyResetWarmState c sid rw)" "frame aw_db (applyReloadSubject c sid rl now)"
proof -
  from assms have c: "actl_store c = pg_actions cd s" "actl_sessions c = pg_sessions codec rp"
    and runs: "runs_keep_actions codec rp (actl_namespace c) (actl_runs c)" and cm: "kube_frame aw_db (actl_configMaps c)"
    by (simp_all add: action_ctl_ok_def)
  note sess = pg_sessions_frame [of codec rp] and rf = runs_frame [OF runs]
  show "frame aw_db (loadSession c sid)"
    by (rule frameI) (auto simp: loadSession_def c split: prod.splits sum.splits dest: frameD [OF sess(1)])
  show "frame aw_db (createOrGetRun c r a sn)"
    by (rule frameI) (auto simp: createOrGetRun_def split: prod.splits sum.splits if_splits
        dest!: frameD [OF rf(1)] frameD [OF rf(2)])
  show "frame aw_db (queueOwner c sid)"
    by (rule frameI) (auto simp: queueOwner_def listSessionActions_def c pg_actions_def aw_call_def split: prod.splits sum.splits)
  show "frame aw_db (applyResetWarmState c sid rw)"
    by (rule frameI) (auto simp: applyResetWarmState_def c split: prod.splits sum.splits option.splits
        dest!: frameD [OF sess(1)] frameD [OF sess(2)])
  show "frame aw_db (applyReloadSubject c sid rl now)"
    by (rule frameI) (auto simp: applyReloadSubject_def c Let_def split: prod.splits sum.splits option.splits
        dest!: frameD [OF sess(1)] frameD [OF sess(3)] frameD [OF Materializer_Ensure_frame [OF cm]])
qed

lemma derive_frames:
  assumes "action_ctl_ok cd s codec rp c"
  shows "frame aw_db (deriveRunTurnStatus c r a now)" "frame aw_db (deriveStoppedStatus c r a now)"
    "frame aw_db (deriveResetWarmStateStatus c r a now)" "frame aw_db (deriveReloadSubjectStatus c r a now)"
proof -
  note f = action_ctl_frames [OF assms]
  from assms have "runs_keep_actions codec rp (actl_namespace c) (actl_runs c)" by (simp add: action_ctl_ok_def)
  note rf = runs_frame [OF this]
  show "frame aw_db (deriveRunTurnStatus c r a now)"
    by (rule frameI) (auto simp: deriveRunTurnStatus_def split: option.splits prod.splits sum.splits if_splits
        dest!: frameD [OF f(1)] frameD [OF f(2)] frameD [OF rf(1)])
  show "frame aw_db (deriveStoppedStatus c r a now)"
    by (rule frameI) (auto simp: deriveStoppedStatus_def deriveStoppedRunTurnStatus_def Let_def
        split: prod.splits sum.splits if_splits AgentRunPhase.splits dest!: frameD [OF rf(1)] frameD [OF rf(3)])
  show "frame aw_db (deriveResetWarmStateStatus c r a now)"
    by (rule frameI) (auto simp: deriveResetWarmStateStatus_def split: option.splits prod.splits sum.splits if_splits
        dest!: frameD [OF f(1)] frameD [OF f(4)])
  show "frame aw_db (deriveReloadSubjectStatus c r a now)"
    by (rule frameI) (auto simp: deriveReloadSubjectStatus_def split: option.splits prod.splits sum.splits if_splits
        dest!: frameD [OF f(1)] frameD [OF f(5)])
qed

lemma action_deriveStatus_frame:
  assumes "action_ctl_ok cd s codec rp c"
  shows "frame aw_db (action_deriveStatus c r)"
  using derive_frames [OF assms] action_ctl_frames(3) [OF assms]
  by (intro frameI) (auto simp: action_deriveStatus_def Let_def split: option.splits if_splits prod.splits sum.splits ActionType.splits
      dest!: frameD [OF derive_frames(1) [OF assms]] frameD [OF derive_frames(2) [OF assms]] frameD [OF derive_frames(3) [OF assms]]
        frameD [OF derive_frames(4) [OF assms]] frameD [OF action_ctl_frames(3) [OF assms]])

section \<open>Properties\<close>

text \<open>
  C22: A reconciliation writes one action: whatever it does to runs, sessions and config maps, in the
  table of actions it changes at most the row of the action it is called for, no row appears or
  disappears, and nothing is changed when it returns an error.
\<close>

theorem action_Reconcile_writes_own_row:
  assumes "action_ctl_ok cd s codec rp c" and "action_Reconcile c ns name w = (x, w')"
  shows "(\<forall>j. j \<noteq> TrimSpace name \<longrightarrow> action_row w' j = action_row w j) \<and>
    (\<forall>j. action_row w' j \<noteq> None \<longleftrightarrow> action_row w j \<noteq> None) \<and> (isl x \<longrightarrow> action_row w' = action_row w)"
proof -
  from assms(1) have st: "actl_store c = pg_actions cd s" and snk: "sink_frame aw_db (actl_sink c)"
    by (simp_all add: action_ctl_ok_def)
  show ?thesis
  proof (cases "ns = actl_namespace c")
    case False
    with assms(2) show ?thesis by (auto simp: action_Reconcile_def)
  next
    case True
    obtain y w1 where g: "astore_Get (pg_actions cd s) name w = (y, w1)" by fastforce
    from pg_rows.get_keeps [OF g] have k1: "action_row w1 = action_row w" by blast
    show ?thesis
    proof (cases y)
      case (Inl e)
      with True assms(2) g k1 st show ?thesis by (auto simp: action_Reconcile_def split: if_splits)
    next
      case (Inr r)
      obtain z w2 where d: "action_deriveStatus c r w1 = (z, w2)" by fastforce
      from frameD [OF action_deriveStatus_frame [OF assms(1)] d] have k2: "action_row w2 j = action_row w1 j" for j
        by (simp add: action_row_def)
      show ?thesis
      proof (cases "\<exists>t res. z = Inr (t, res) \<and> om_deletionTimestamp (ar_meta r) = None \<and> \<not> action_statusSemanticallyEqual (ar_status r) t")
        case False
        with True assms(2) g Inr d st have "w' = w1 \<or> w' = w2"
          by (auto simp: action_Reconcile_def split: if_splits sum.splits prod.splits)
        with k1 k2 show ?thesis by auto
      next
        case True2: True
        then obtain t res where z: "z = Inr (t, res)" "om_deletionTimestamp (ar_meta r) = None"
          "\<not> action_statusSemanticallyEqual (ar_status r) t" by blast
        obtain v w3 where p: "astore_UpdateStatus (pg_actions cd s) name t w2 = (v, w3)" by fastforce
        note rw = pg_rows.read_work_write [OF g [unfolded Inr] k2 p]
        have "action_row w' = action_row w3 \<and> (isl x \<longrightarrow> isl v)"
          using True assms(2) g Inr d st z p record_frame(4) [OF snk]
          by (cases v) (auto simp: action_Reconcile_def action_row_def fun_eq_iff)
        with rw show ?thesis by auto
      qed
    qed
  qed
qed

text \<open>
  A database error looks like a deleted action: the store reports every failed query as "not found",
  so a reconciliation whose read fails returns without an error and without a requeue, and the
  event that triggered it is lost.
\<close>

theorem action_Reconcile_drops_on_database_error:
  assumes "actl_store c = pg_actions cd s" and "se_query (sw_env w (sw_tick w)) = Some e" and "TrimSpace name \<noteq> []"
  shows "fst (action_Reconcile c (actl_namespace c) name w) = Inr no_requeue"
  using assms by (simp add: action_Reconcile_def pg_actions_def aw_call_def store_Get_def store_get_def)

end
