(* ===== verification/Run_Controller.thy ===== *)
theory Run_Controller
  imports Run_Service Frames
begin

text \<open>
  The run reconciler (\<open>agentruns/controller.go\<close>, \<open>cancel.go\<close>, \<open>status.go\<close>): it submits the workflow of
  a run, polls it, writes the observed status, and gives the active run slot of the session back
  when the run ends. The workflow runtime (Temporal) is a record of calls over the world.
\<close>

record 'w WorkflowRuntime =
  wr_Submit :: "RunResource \<Rightarrow> 'w \<Rightarrow> string result \<times> 'w"
  wr_Get :: "string \<Rightarrow> 'w \<Rightarrow> WorkflowState option result \<times> 'w"
  wr_Cancel :: "string \<Rightarrow> 'w \<Rightarrow> unit result \<times> 'w"
  wr_Delete :: "string \<Rightarrow> 'w \<Rightarrow> unit result \<times> 'w"
  wr_Cleanup :: "RunResource \<Rightarrow> 'w \<Rightarrow> unit result \<times> 'w"

record 'w RunCtl =
  rctl_client :: "(RunResource, 'w) kube"
  rctl_namespace :: string
  rctl_workflow :: "'w WorkflowRuntime"
  rctl_now :: "'w \<Rightarrow> time"
  rctl_sink :: "'w Sink option"
  rctl_slots :: "'w Slots"

definition agentRunCleanupFinalizer :: string where
  "agentRunCleanupFinalizer = ''agentrun.code-code.internal/runtime-cleanup''"

text \<open>\<open>controllerutil.AddFinalizer\<close>, \<open>RemoveFinalizer\<close> and \<open>ContainsFinalizer\<close>.\<close>

definition run_has_finalizer :: "RunResource \<Rightarrow> bool" where
  "run_has_finalizer r \<longleftrightarrow> agentRunCleanupFinalizer \<in> set (om_finalizers (run_meta r))"

definition run_add_finalizer :: "RunResource \<Rightarrow> RunResource" where
  "run_add_finalizer r =
     (if run_has_finalizer r then r
      else r\<lparr>run_meta := (run_meta r)\<lparr>om_finalizers := om_finalizers (run_meta r) @ [agentRunCleanupFinalizer]\<rparr>\<rparr>)"

definition run_remove_finalizer :: "RunResource \<Rightarrow> RunResource" where
  "run_remove_finalizer r = r\<lparr>run_meta := (run_meta r)\<lparr>om_finalizers :=
     filter (\<lambda>f. f \<noteq> agentRunCleanupFinalizer) (om_finalizers (run_meta r))\<rparr>\<rparr>"

section \<open>Writing a status\<close>

definition run_put_status :: "RunResourceStatus \<Rightarrow> RunResource \<Rightarrow> RunResource result" where
  "run_put_status next current = Inr (current\<lparr>run_status :=
     (if rrs_resultSummary next = None \<and> rrs_resultSummary (run_status current) \<noteq> None
      then next\<lparr>rrs_resultSummary := rrs_resultSummary (run_status current)\<rparr> else next)\<rparr>)"

definition run_updateStatus ::
    "'w RunCtl \<Rightarrow> string \<Rightarrow> RunResourceStatus \<Rightarrow> 'w \<Rightarrow> RunResource result \<times> 'w" where
  "run_updateStatus c name next w = UpdateStatus (rctl_client c) (rctl_namespace c) name (run_put_status next) w"

definition releaseSessionSlot ::
    "'w RunCtl \<Rightarrow> RunResource \<Rightarrow> RunResourceStatus \<Rightarrow> RunResourceStatus \<Rightarrow> 'w \<Rightarrow> unit result \<times> 'w" where
  "releaseSessionSlot c resource previous next w =
     (case run_spec resource of None \<Rightarrow> (Inr (), w)
      | Some spec \<Rightarrow>
        if \<not> run_isTerminalPhase (rrs_phase next) then (Inr (), w)
        else if run_isTerminalPhase (rrs_phase previous) then (Inr (), w)
        else case slots_Release (rctl_slots c) (rs_sessionId spec) (rs_runId spec) w of
          (Inl e, w) \<Rightarrow> (Inl e, w) | (Inr _, w) \<Rightarrow> (Inr (), w))"

definition run_recordTimelineTransitions ::
    "'w Sink option \<Rightarrow> StageInterval list \<times> TimelineEvent list \<Rightarrow> 'w \<Rightarrow> 'w" where
  "run_recordTimelineTransitions sink transitions w =
     record_events sink (snd transitions) (fold (record_interval sink) (fst transitions) w)"

definition updateObservedStatus ::
    "'w RunCtl \<Rightarrow> string \<Rightarrow> RunResource \<Rightarrow> RunResourceStatus \<Rightarrow> RunResourceStatus \<Rightarrow> WorkflowState option
      \<Rightarrow> CtrlResult \<Rightarrow> 'w \<Rightarrow> CtrlResult result \<times> 'w" where
  "updateObservedStatus c name resource previous next state result w =
     (if run_statusSemanticallyEqual previous next then (Inr result, w)
      else case (if run_isTerminalPhase (rrs_phase next) \<and> \<not> run_isTerminalPhase (rrs_phase previous)
                 then wr_Cleanup (rctl_workflow c) resource w else (Inr (), w)) of
        (Inl e, w) \<Rightarrow> (Inl e, w)
      | (Inr _, w) \<Rightarrow>
        (case run_updateStatus c name next w of
           (Inl e, w) \<Rightarrow> (Inl e, w)
         | (Inr _, w) \<Rightarrow>
           (case releaseSessionSlot c resource previous next w of
              (Inl e, w) \<Rightarrow> (Inl e, w)
            | (Inr _, w) \<Rightarrow>
              (Inr result, run_recordTimelineTransitions (rctl_sink c)
                 (runTimelineTransitions resource previous next state) w))))"

section \<open>Cancellation\<close>

definition canceled_terminal :: "RunResource \<Rightarrow> string \<Rightarrow> string \<Rightarrow> time \<Rightarrow> RunResourceStatus" where
  "canceled_terminal resource workloadID message now =
     (terminalWorkflowStatus RCanceled (om_generation (run_meta resource)) workloadID ''RunCanceled'' message now)
       \<lparr>rrs_prepareJobs := prepareJobStatuses resource None PrepCanceled\<rparr>"

definition reconcileCanceledRun ::
    "'w RunCtl \<Rightarrow> string \<Rightarrow> RunResource \<Rightarrow> RunResourceStatus \<Rightarrow> time \<Rightarrow> 'w \<Rightarrow> CtrlResult result \<times> 'w" where
  "reconcileCanceledRun c name resource previous now w =
     (if run_spec resource = None then (Inr no_requeue, w)
      else
        (let workloadID = TrimSpace (rrs_workloadID previous);
             gone = canceled_terminal resource workloadID ''AgentRun workflow was canceled.'' now in
         if workloadID = [] then
           updateObservedStatus c name resource previous
             (canceled_terminal resource [] ''AgentRun cancel was requested before workload submission.'' now)
             None no_requeue w
         else case wr_Cancel (rctl_workflow c) workloadID w of
           (Inl e, w) \<Rightarrow>
             (if is_api_not_found e then updateObservedStatus c name resource previous gone None no_requeue w
              else (Inl e, w))
         | (Inr _, w) \<Rightarrow>
           (case wr_Get (rctl_workflow c) workloadID w of
              (Inl e, w) \<Rightarrow>
                (if is_api_not_found e then updateObservedStatus c name resource previous gone None no_requeue w
                 else (Inl e, w))
            | (Inr state, w) \<Rightarrow>
              (let next = canceledWorkflowStatus resource workloadID state now in
               updateObservedStatus c name resource previous next state (pollResultForPhase (rrs_phase next)) w))))"

section \<open>Deletion\<close>

definition finish_deleted_run :: "'w RunCtl \<Rightarrow> RunResource \<Rightarrow> 'w \<Rightarrow> CtrlResult result \<times> 'w" where
  "finish_deleted_run c resource w =
     (case wr_Cleanup (rctl_workflow c) resource w of (Inl e, w) \<Rightarrow> (Inl e, w)
      | (Inr _, w) \<Rightarrow>
        (case UpdateResource (rctl_client c) (om_namespace (run_meta resource)) (om_name (run_meta resource))
                (\<lambda>current. Inr (run_remove_finalizer current)) w of
           (Inl e, w) \<Rightarrow> (Inl e, w) | (Inr _, w) \<Rightarrow> (Inr no_requeue, w)))"

definition reconcileDeletedRun :: "'w RunCtl \<Rightarrow> RunResource \<Rightarrow> 'w \<Rightarrow> CtrlResult result \<times> 'w" where
  "reconcileDeletedRun c resource w =
     (if \<not> run_has_finalizer resource then (Inr no_requeue, w)
      else
        (let workloadID = TrimSpace (rrs_workloadID (run_status resource)) in
         if workloadID = [] then finish_deleted_run c resource w
         else case wr_Get (rctl_workflow c) workloadID w of
           (Inl e, w) \<Rightarrow> (if is_api_not_found e then finish_deleted_run c resource w else (Inl e, w))
         | (Inr state, w) \<Rightarrow>
             if \<not> isTerminalWorkflowState state then
               (case wr_Cancel (rctl_workflow c) workloadID w of
                  (Inl e, w) \<Rightarrow>
                    (if is_api_not_found e then (Inr (requeue_after workflowPollInterval), w) else (Inl e, w))
                | (Inr _, w) \<Rightarrow> (Inr (requeue_after workflowPollInterval), w))
             else
               (case wr_Delete (rctl_workflow c) workloadID w of
                  (Inl e, w) \<Rightarrow> (if is_api_not_found e then finish_deleted_run c resource w else (Inl e, w))
                | (Inr _, w) \<Rightarrow> finish_deleted_run c resource w)))"

section \<open>The reconciler\<close>

definition submit_run ::
    "'w RunCtl \<Rightarrow> string \<Rightarrow> RunResource \<Rightarrow> RunResourceStatus \<Rightarrow> time \<Rightarrow> 'w \<Rightarrow> CtrlResult result \<times> 'w" where
  "submit_run c name resource previous now w =
     (case wr_Submit (rctl_workflow c) resource w of (Inl e, w) \<Rightarrow> (Inl e, w)
      | (Inr workloadID, w) \<Rightarrow>
        (let next = scheduledStatus resource workloadID now in
         updateObservedStatus c name resource previous next None (pollResultForPhase (rrs_phase next)) w))"

text \<open>What \<open>Reconcile\<close> does with a live object that has its finalizer.\<close>

definition reconcile_live_run :: "'w RunCtl \<Rightarrow> string \<Rightarrow> RunResource \<Rightarrow> 'w \<Rightarrow> CtrlResult result \<times> 'w" where
  "reconcile_live_run c name resource w =
     (let previous = run_status resource; now = rctl_now c w;
          cancel = getf False rs_cancelRequested (run_spec resource) in
      case deriveInvalidStatus resource now of
        Some invalid \<Rightarrow> updateObservedStatus c name resource previous invalid None no_requeue w
      | None \<Rightarrow>
        if rrs_phase previous = RPhaseUnset then
          (if cancel then reconcileCanceledRun c name resource previous now w
           else updateObservedStatus c name resource previous (pendingStatus resource now) None requeue_now w)
        else if run_isTerminalPhase (rrs_phase previous)
                  \<and> rrs_observedGeneration previous = om_generation (run_meta resource) then
          (case wr_Cleanup (rctl_workflow c) resource w of (Inl e, w) \<Rightarrow> (Inl e, w) | (Inr _, w) \<Rightarrow> (Inr no_requeue, w))
        else if cancel then reconcileCanceledRun c name resource previous now w
        else if TrimSpace (rrs_workloadID previous) = [] then submit_run c name resource previous now w
        else case wr_Get (rctl_workflow c) (TrimSpace (rrs_workloadID previous)) w of
          (Inl e, w) \<Rightarrow> (if is_api_not_found e then submit_run c name resource previous now w else (Inl e, w))
        | (Inr state, w) \<Rightarrow>
          (let next = observedWorkflowStatus resource (TrimSpace (rrs_workloadID previous)) state now in
           updateObservedStatus c name resource previous next state (pollResultForPhase (rrs_phase next)) w))"

definition run_Reconcile :: "'w RunCtl \<Rightarrow> string \<Rightarrow> string \<Rightarrow> 'w \<Rightarrow> CtrlResult result \<times> 'w" where
  "run_Reconcile c namespace name w =
     (if namespace \<noteq> rctl_namespace c then (Inr no_requeue, w)
      else case kube_Get (rctl_client c) namespace name w of
        (Inl e, w) \<Rightarrow> (if is_api_not_found e then (Inr no_requeue, w) else (Inl e, w))
      | (Inr resource, w) \<Rightarrow>
        if om_deletionTimestamp (run_meta resource) \<noteq> None then reconcileDeletedRun c resource w
        else if \<not> run_has_finalizer resource then
          (case UpdateResource (rctl_client c) namespace name (\<lambda>current. Inr (run_add_finalizer current)) w of
             (Inl e, w) \<Rightarrow> (Inl e, w)
           | (Inr _, w) \<Rightarrow> reconcile_live_run c name (run_add_finalizer resource) w)
        else reconcile_live_run c name resource w)"

section \<open>The API server of the runs\<close>

text \<open>
  What is relied on of the Kubernetes API server, for the map \<open>stored\<close> of the runs it holds: a read
  returns the stored object and changes nothing; a status write that succeeds replaces the status
  and keeps the rest; an update that succeeds keeps the status, does not lower the generation,
  and may remove the object (when its last finalizer goes); a write that fails changes nothing.
\<close>

type_synonym 'w runs_of = "'w \<Rightarrow> string \<Rightarrow> RunResource option"

definition status_written :: "RunResource \<Rightarrow> (string \<Rightarrow> RunResource option) \<Rightarrow> (string \<Rightarrow> RunResource option) \<Rightarrow> bool" where
  "status_written obj before after \<longleftrightarrow> (\<exists>cur new. before (om_name (run_meta obj)) = Some cur \<and>
     after = before(om_name (run_meta obj) \<mapsto> new) \<and> run_status new = run_status obj \<and>
     run_spec new = run_spec cur \<and> om_generation (run_meta new) = om_generation (run_meta cur))"

definition resource_written :: "RunResource \<Rightarrow> (string \<Rightarrow> RunResource option) \<Rightarrow> (string \<Rightarrow> RunResource option) \<Rightarrow> bool" where
  "resource_written obj before after \<longleftrightarrow> (\<exists>cur new. before (om_name (run_meta obj)) = Some cur \<and>
     after \<in> {before(om_name (run_meta obj) \<mapsto> new), before(om_name (run_meta obj) := None)} \<and>
     run_status new = run_status cur \<and> run_spec new = run_spec obj \<and>
     om_generation (run_meta cur) \<le> om_generation (run_meta new))"

definition run_api :: "(RunResource, 'w) kube \<Rightarrow> 'w runs_of \<Rightarrow> bool" where
  "run_api k stored \<longleftrightarrow> retry_law k \<and>
     (\<forall>ns n w x w'. kube_Get k ns n w = (x, w') \<longrightarrow> stored w' = stored w \<and>
        (\<forall>r. x = Inr r \<longrightarrow> stored w n = Some r \<and> om_name (run_meta r) = n)) \<and>
     (\<forall>obj w x w'. kube_StatusUpdate k obj w = (x, w') \<longrightarrow>
        (case x of Inl e \<Rightarrow> stored w' = stored w | Inr _ \<Rightarrow> status_written obj (stored w) (stored w'))) \<and>
     (\<forall>obj w x w'. kube_Update k obj w = (x, w') \<longrightarrow>
        (case x of Inl e \<Rightarrow> stored w' = stored w | Inr _ \<Rightarrow> resource_written obj (stored w) (stored w')))"

lemma run_api_Get:
  assumes "run_api k stored" and "kube_Get k ns n w = (x, w')"
  shows "stored w' = stored w" and "x = Inr r \<Longrightarrow> stored w n = Some r \<and> om_name (run_meta r) = n"
  using assms unfolding run_api_def by blast+

text \<open>A read, a change of the object, a write: what is stored afterwards.\<close>

definition stored_after ::
    "(RunResource \<Rightarrow> (string \<Rightarrow> RunResource option) \<Rightarrow> (string \<Rightarrow> RunResource option) \<Rightarrow> bool) \<Rightarrow> string
      \<Rightarrow> (RunResource \<Rightarrow> RunResource result) \<Rightarrow> (string \<Rightarrow> RunResource option) \<Rightarrow> RunResource result
      \<Rightarrow> (string \<Rightarrow> RunResource option) \<Rightarrow> bool" where
  "stored_after Q n m before x after \<longleftrightarrow> (case x of Inl e \<Rightarrow> after = before
    | Inr obj \<Rightarrow> \<exists>cur. before n = Some cur \<and> om_name (run_meta cur) = n \<and> m cur = Inr obj \<and> Q obj before after)"

lemma gmw_stored:
  fixes wr :: "RunResource \<Rightarrow> 'w \<Rightarrow> RunResource result \<times> 'w"
  assumes api: "run_api k stored"
    and wlaw: "\<And>obj w x w'. wr obj w = (x, w') \<Longrightarrow>
      (case x of Inl e \<Rightarrow> stored w' = stored w | Inr _ \<Rightarrow> Q obj (stored w) (stored w'))"
    and step: "get_mutate_write k wr ns n m w = (x, w')"
  shows "stored_after Q n m (stored w) x (stored w')"
proof (cases "kube_Get k ns n w")
  case (Pair x1 w1)
  note get = run_api_Get [OF api Pair]
  show ?thesis
  proof (cases x1)
    case (Inl e)
    with Pair step get show ?thesis by (auto simp: get_mutate_write_def stored_after_def)
  next
    case (Inr cur)
    show ?thesis
    proof (cases "m cur")
      case M: (Inl e)
      with Pair Inr step get show ?thesis
        by (auto simp: get_mutate_write_def stored_after_def split: sum.splits)
    next
      case M: (Inr obj)
      obtain x2 w2 where W: "wr obj w1 = (x2, w2)" by fastforce
      with Pair Inr M step get wlaw [OF W] show ?thesis
        by (cases x2) (auto simp: get_mutate_write_def stored_after_def split: sum.splits)
    qed
  qed
qed

lemma retried_stored:
  fixes wr :: "RunResource \<Rightarrow> 'w \<Rightarrow> RunResource result \<times> 'w"
  assumes api: "run_api k stored"
    and wlaw: "\<And>obj w x w'. wr obj w = (x, w') \<Longrightarrow>
      (case x of Inl e \<Rightarrow> stored w' = stored w | Inr _ \<Rightarrow> Q obj (stored w) (stored w'))"
    and step: "wrap p (kube_retry k (get_mutate_write k wr ns n m) w) = (x, w')"
  shows "stored_after Q n m (stored w) x (stored w')"
proof -
  let ?f = "get_mutate_write k wr ns n m"
  have "stored (snd (?f v)) = stored v" if "is_conflict_result (fst (?f v))" for v
    using gmw_stored [where Q = Q and wr = wr and ns = ns and n = n and m = m and w = v, OF api wlaw prod.collapse [symmetric]] that
    by (cases "fst (?f v)") (auto simp: is_conflict_result_def stored_after_def)
  with retry_last [of k ?f stored w] api obtain v where v: "stored v = stored w" and eq: "kube_retry k ?f w = ?f v"
    unfolding run_api_def by blast
  obtain x1 w1 where f: "?f v = (x1, w1)" by fastforce
  from gmw_stored [where Q = Q, OF api wlaw f] v step eq f show ?thesis
    by (cases x1) (auto simp: stored_after_def)
qed

lemma UpdateStatus_stored:
  assumes "run_api k stored" and "UpdateStatus k ns n m w = (x, w')"
  shows "stored_after status_written n m (stored w) x (stored w')"
  by (rule retried_stored [OF assms(1) _ assms(2) [unfolded UpdateStatus_def]])
    (use assms(1) in \<open>unfold run_api_def, blast\<close>)

lemma UpdateResource_stored:
  assumes "run_api k stored" and "UpdateResource k ns n m w = (x, w')"
  shows "stored_after resource_written n m (stored w) x (stored w')"
  by (rule retried_stored [OF assms(1) _ assms(2) [unfolded UpdateResource_def]])
    (use assms(1) in \<open>unfold run_api_def, blast\<close>)

section \<open>The shape of a reconciliation\<close>

text \<open>What a reconciliation can change: the stored runs and the session store.\<close>

definition run_view :: "('j, 'z) sworld_scheme runs_of \<Rightarrow> ('j, 'z) sworld_scheme
    \<Rightarrow> (string \<Rightarrow> RunResource option) \<times> 'j sdb \<times> (nat \<Rightarrow> senv)" where
  "run_view stored w = (stored w, sw_db w, sw_env w)"

lemma run_view_eq [simp]:
  "run_view stored v = run_view stored w \<longleftrightarrow> stored v = stored w \<and> sw_db v = sw_db w \<and> sw_env v = sw_env w"
  by (simp add: run_view_def)

text \<open>
  The reconciler as it is wired: its slots are those of the Postgres session repository, its client
  keeps the laws of the API server, and neither the client, the workflow runtime nor the sink
  touches what belongs to another.
\<close>

definition workflow_frame :: "('w \<Rightarrow> 'p) \<Rightarrow> 'w WorkflowRuntime \<Rightarrow> bool" where
  "workflow_frame P rt \<longleftrightarrow> (\<forall>r. frame P (wr_Submit rt r)) \<and> (\<forall>n. frame P (wr_Get rt n)) \<and>
     (\<forall>n. frame P (wr_Cancel rt n)) \<and> (\<forall>n. frame P (wr_Delete rt n)) \<and> (\<forall>r. frame P (wr_Cleanup rt r))"

lemma workflow_frameD:
  assumes "workflow_frame P rt"
  shows "wr_Submit rt r w = (x1, w') \<Longrightarrow> P w' = P w" and "wr_Get rt n w = (x2, w') \<Longrightarrow> P w' = P w"
    and "wr_Cancel rt n w = (x3, w') \<Longrightarrow> P w' = P w" and "wr_Delete rt n w = (x3, w') \<Longrightarrow> P w' = P w"
    and "wr_Cleanup rt r w = (x3, w') \<Longrightarrow> P w' = P w"
  using assms unfolding workflow_frame_def by (blast dest: frameD)+

definition run_ctl_ok ::
    "'j codec \<Rightarrow> repo \<Rightarrow> string \<Rightarrow> ('j, 'z) sworld_scheme runs_of \<Rightarrow> ('j, 'z) sworld_scheme RunCtl \<Rightarrow> bool" where
  "run_ctl_ok codec r ns stored c \<longleftrightarrow>
     run_api (rctl_client c) stored \<and> kube_frame (\<lambda>w. (sw_db w, sw_env w)) (rctl_client c) \<and>
     rctl_slots c = \<lparr>slots_Claim = ActiveRunManager_Claim (pg_sessions codec r) ns,
                     slots_Release = ActiveRunManager_Release (pg_sessions codec r)\<rparr> \<and>
     (\<forall>w db t. stored (w\<lparr>sw_db := db, sw_tick := t\<rparr>) = stored w) \<and>
     workflow_frame (run_view stored) (rctl_workflow c) \<and> sink_frame (run_view stored) (rctl_sink c)"

definition observes ::
    "('j, 'z) sworld_scheme runs_of \<Rightarrow> ('j, 'z) sworld_scheme RunCtl \<Rightarrow> string \<Rightarrow> RunResource
      \<Rightarrow> ('j, 'z) sworld_scheme \<Rightarrow> CtrlResult result \<times> ('j, 'z) sworld_scheme \<Rightarrow> bool" where
  "observes stored c name resource w xw \<longleftrightarrow>
     run_view stored (snd xw) = run_view stored w \<or>
     (\<exists>next state res v. run_view stored v = run_view stored w \<and>
        (0 \<le> om_generation (run_meta resource) \<longrightarrow> run_status_ok next) \<and>
        xw = updateObservedStatus c name resource (run_status resource) next state res v)"

lemma observes_quiet: "run_view stored w' = run_view stored w \<Longrightarrow> observes stored c name resource w (x, w')"
  by (simp add: observes_def)

lemma observes_update:
  "run_view stored v = run_view stored w \<Longrightarrow> (0 \<le> om_generation (run_meta resource) \<Longrightarrow> run_status_ok next) \<Longrightarrow>
     observes stored c name resource w (updateObservedStatus c name resource (run_status resource) next state res v)"
  unfolding observes_def by blast

lemma canceled_terminal_ok: "0 \<le> om_generation (run_meta r) \<Longrightarrow> run_status_ok (canceled_terminal r wid m now)"
  by (simp add: canceled_terminal_def terminal_ok run_isTerminalPhase_def)

lemma submit_shape:
  assumes "run_ctl_ok codec r ns stored c"
  shows "observes stored c name resource w (submit_run c name resource (run_status resource) now w)"
proof (cases "wr_Submit (rctl_workflow c) resource w")
  case (Pair x w1)
  from assms have rt: "workflow_frame (run_view stored) (rctl_workflow c)" by (simp add: run_ctl_ok_def)
  from Pair workflow_frameD(1) [OF rt Pair] show ?thesis
    by (cases x) (auto simp: submit_run_def Let_def intro!: observes_quiet observes_update scheduled_ok)
qed

lemma canceled_shape:
  assumes "run_ctl_ok codec r ns stored c"
  shows "observes stored c name resource w (reconcileCanceledRun c name resource (run_status resource) now w)"
proof -
  let ?wid = "TrimSpace (rrs_workloadID (run_status resource))"
  from assms have rt: "workflow_frame (run_view stored) (rctl_workflow c)" by (simp add: run_ctl_ok_def)
  obtain x1 w1 where C: "wr_Cancel (rctl_workflow c) ?wid w = (x1, w1)" by fastforce
  obtain x2 w2 where G: "wr_Get (rctl_workflow c) ?wid w1 = (x2, w2)" by fastforce
  show ?thesis
    using C G workflow_frameD(3) [OF rt C] workflow_frameD(2) [OF rt G]
    by (cases x1; cases x2) (auto simp: reconcileCanceledRun_def Let_def
        intro!: observes_quiet observes_update canceled_terminal_ok canceled_ok)
qed

lemma live_shape:
  assumes "run_ctl_ok codec r ns stored c"
  shows "observes stored c name resource w (reconcile_live_run c name resource w)"
proof -
  let ?st = "run_status resource" and ?now = "rctl_now c w"
  let ?wid = "TrimSpace (rrs_workloadID ?st)"
  from assms have rt: "workflow_frame (run_view stored) (rctl_workflow c)" by (simp add: run_ctl_ok_def)
  obtain x1 w1 where C: "wr_Cleanup (rctl_workflow c) resource w = (x1, w1)" by fastforce
  obtain x2 w2 where G: "wr_Get (rctl_workflow c) ?wid w = (x2, w2)" by fastforce
  note views = workflow_frameD(5) [OF rt C] workflow_frameD(2) [OF rt G]
  have sub: "observes stored c name resource w (submit_run c name resource ?st ?now w2)"
    using submit_shape [OF assms, of name resource w2 ?now] views(2) by (simp add: observes_def)
  show ?thesis
  proof (cases "deriveInvalidStatus resource ?now")
    case (Some st)
    then show ?thesis
      by (auto simp: reconcile_live_run_def Let_def intro!: observes_update intro: invalid_ok)
  next
    case None
    then show ?thesis
      using C G views sub submit_shape [OF assms, of name resource w ?now] canceled_shape [OF assms, of name resource w ?now]
      by (cases x1; cases x2) (auto simp: reconcile_live_run_def Let_def
          intro!: observes_quiet observes_update pending_ok observed_ok)
  qed
qed

section \<open>The effect of an observation\<close>

definition ends_run :: "RunResourceStatus \<Rightarrow> RunResourceStatus \<Rightarrow> bool" where
  "ends_run previous next \<longleftrightarrow> run_isTerminalPhase (rrs_phase next) \<and> \<not> run_isTerminalPhase (rrs_phase previous)"

text \<open>
  The status is written under the name of the run, and if it ends the run, the slot is released in
  a world \<open>v\<close> with the same session store.
\<close>

definition status_replaced ::
    "string \<Rightarrow> RunResourceStatus \<Rightarrow> (string \<Rightarrow> RunResource option) \<Rightarrow> (string \<Rightarrow> RunResource option) \<Rightarrow> bool" where
  "status_replaced name next before after \<longleftrightarrow> (\<exists>cur new s. before name = Some cur \<and> after = before(name \<mapsto> new) \<and>
     run_status new = next\<lparr>rrs_resultSummary := s\<rparr> \<and> run_spec new = run_spec cur \<and>
     om_generation (run_meta new) = om_generation (run_meta cur))"

definition slot_released ::
    "'j codec \<Rightarrow> repo \<Rightarrow> RunResource \<Rightarrow> ('j, 'z) sworld_scheme \<Rightarrow> bool \<Rightarrow> ('j, 'z) sworld_scheme \<Rightarrow> bool" where
  "slot_released codec r resource w failed w' \<longleftrightarrow> (\<exists>spec (v :: ('j, 'z) sworld_scheme) y u. run_spec resource = Some spec \<and>
     sw_db v = sw_db w \<and> sw_env v = sw_env w \<and>
     ActiveRunManager_Release (pg_sessions codec r) (rs_sessionId spec) (rs_runId spec) v = (y, u) \<and>
     sw_db w' = sw_db u \<and> failed = isl y)"

lemma Release_env: "ActiveRunManager_Release (pg_sessions codec r) sid rid w = (x, w') \<Longrightarrow>
    sw_env w' = sw_env w \<and> (\<forall>stored. (\<forall>w db t. stored (w\<lparr>sw_db := db, sw_tick := t\<rparr>) = stored w) \<longrightarrow> stored w' = stored w)"
  by (auto simp: ActiveRunManager_Release_def Let_def pg_sessions_def sw_call_split split: if_splits)

lemma run_updateStatus_effect:
  assumes ok: "run_ctl_ok codec r ns stored c" and step: "run_updateStatus c name next w = (x, w')"
  shows "sw_db w' = sw_db w \<and> sw_env w' = sw_env w" and "isl x \<Longrightarrow> stored w' = stored w"
    and "\<not> isl x \<Longrightarrow> status_replaced name next (stored w) (stored w')"
proof -
  from ok have api: "run_api (rctl_client c) stored"
    and fr: "kube_frame (\<lambda>w. (sw_db w, sw_env w)) (rctl_client c)" by (simp_all add: run_ctl_ok_def)
  from frameD [OF UpdateStatus_frame [OF fr] step [unfolded run_updateStatus_def]]
  show "sw_db w' = sw_db w \<and> sw_env w' = sw_env w" by simp
  from UpdateStatus_stored [OF api step [unfolded run_updateStatus_def]]
  have after: "stored_after status_written name (run_put_status next) (stored w) x (stored w')" .
  then show "isl x \<Longrightarrow> stored w' = stored w" by (cases x) (simp_all add: stored_after_def)
  assume "\<not> isl x"
  with after obtain obj cur where c: "stored w name = Some cur" and n: "om_name (run_meta cur) = name"
    and m: "run_put_status next cur = Inr obj" and q: "status_written obj (stored w) (stored w')"
    by (cases x) (auto simp: stored_after_def)
  have self: "\<exists>s. next = next\<lparr>rrs_resultSummary := s\<rparr>" "\<exists>s. next\<lparr>rrs_resultSummary := y\<rparr> = next\<lparr>rrs_resultSummary := s\<rparr>" for y
    by (rule exI [of _ "rrs_resultSummary next"], simp) blast
  from m have "\<exists>s. run_status obj = next\<lparr>rrs_resultSummary := s\<rparr>" "om_name (run_meta obj) = om_name (run_meta cur)"
    using self by (auto simp: run_put_status_def split: if_splits)
  with q c n show "status_replaced name next (stored w) (stored w')"
    unfolding status_written_def status_replaced_def by metis
qed

lemma observed_effect:
  assumes ok: "run_ctl_ok codec r ns stored c"
    and step: "updateObservedStatus c name resource previous next state res w = (x, w')"
  shows "run_view stored w' = run_view stored w \<or>
    status_replaced name next (stored w) (stored w') \<and> sw_env w' = sw_env w \<and>
      (if ends_run previous next \<and> run_spec resource \<noteq> None then slot_released codec r resource w (isl x) w'
       else sw_db w' = sw_db w)"
proof -
  from ok have rt: "workflow_frame (run_view stored) (rctl_workflow c)" and sk: "sink_frame (run_view stored) (rctl_sink c)"
    and sl: "slots_Release (rctl_slots c) = ActiveRunManager_Release (pg_sessions codec r)"
    and st: "stored (w\<lparr>sw_db := db, sw_tick := t\<rparr>) = stored w" for w db t
    by (simp_all add: run_ctl_ok_def)
  obtain x1 w1 where C: "(if ends_run previous next then wr_Cleanup (rctl_workflow c) resource w else (Inr (), w)) = (x1, w1)"
    by fastforce
  obtain x2 w2 where U: "run_updateStatus c name next w1 = (x2, w2)" by fastforce
  obtain x3 w3 where R: "releaseSessionSlot c resource previous next w2 = (x3, w3)" by fastforce
  let ?rec = "run_recordTimelineTransitions (rctl_sink c) (runTimelineTransitions resource previous next state) w3"
  have v1: "run_view stored w1 = run_view stored w"
    using C workflow_frameD(5) [OF rt] by (auto split: if_splits)
  note u = run_updateStatus_effect [OF ok U]
  have rec: "run_view stored ?rec = run_view stored w3"
    using record_frame(4,5) [OF sk] by (simp add: run_recordTimelineTransitions_def)
  have unfolded: "(x, w') = (if run_statusSemanticallyEqual previous next then (Inr res, w)
     else case x1 of Inl e \<Rightarrow> (Inl e, w1) | Inr _ \<Rightarrow>
       (case x2 of Inl e \<Rightarrow> (Inl e, w2) | Inr _ \<Rightarrow> (case x3 of Inl e \<Rightarrow> (Inl e, w3) | Inr _ \<Rightarrow> (Inr res, ?rec))))"
    unfolding step [symmetric] updateObservedStatus_def ends_run_def [symmetric] C
    by (cases x1; cases x2; cases x3) (simp_all add: U R)
  consider (quiet) "w' = w" | (cleanup) "w' = w1" | (status) "w' = w2" "isl x2"
    | (written) "\<not> isl x2" "isl x = isl x3" "w' = (if isl x3 then w3 else ?rec)"
    using unfolded by (cases "run_statusSemanticallyEqual previous next"; cases x1; cases x2; cases x3) simp_all
  then show ?thesis
  proof cases
    case status
    with u(1,2) v1 show ?thesis by simp
  next
    case written
    have rep: "status_replaced name next (stored w) (stored w2)" using u(3) written(1) v1 by simp
    show ?thesis
    proof (cases "ends_run previous next \<and> run_spec resource \<noteq> None")
      case E: True
      then obtain spec where sp: "run_spec resource = Some spec" by auto
      obtain y u4 where rel: "ActiveRunManager_Release (pg_sessions codec r) (rs_sessionId spec) (rs_runId spec) w2 = (y, u4)"
        by fastforce
      with R E sp sl have w3: "w3 = u4 \<and> isl x3 = isl y"
        by (cases y) (auto simp: releaseSessionSlot_def ends_run_def)
      have keep: "stored u4 = stored w2" "sw_env u4 = sw_env w2" using Release_env [OF rel] st by blast+
      have "sw_db w' = sw_db u4" using written(3) rec w3 by (cases "isl x3") simp_all
      with sp rel w3 written(2) u(1) v1 have "slot_released codec r resource w (isl x) w'"
        unfolding slot_released_def by (intro exI [of _ spec] exI [of _ w2]) auto
      with E written(3) rec w3 keep rep u(1) v1 show ?thesis by (cases "isl x3") simp_all
    next
      case E: False
      with R have "w3 = w2 \<and> x3 = Inr ()"
        by (auto simp: releaseSessionSlot_def ends_run_def split: option.splits if_splits)
      with written(3) rec rep E u(1) v1 show ?thesis by auto
    qed
  qed (use v1 in simp_all)
qed

section \<open>The effect of a reconciliation\<close>

definition statuses_kept :: "(string \<Rightarrow> RunResource option) \<Rightarrow> (string \<Rightarrow> RunResource option) \<Rightarrow> bool" where
  "statuses_kept before after \<longleftrightarrow> (\<forall>n r'. after n = Some r' \<longrightarrow> (\<exists>r. before n = Some r \<and>
     run_status r' = run_status r \<and> run_spec r' = run_spec r \<and> om_generation (run_meta r) \<le> om_generation (run_meta r')))"

lemma statuses_kept_refl [simp]: "statuses_kept f f"
  by (simp add: statuses_kept_def)

lemma finalizer_fields [simp]:
  "run_status (run_add_finalizer r) = run_status r" "run_spec (run_add_finalizer r) = run_spec r"
  "run_status (run_remove_finalizer r) = run_status r" "run_spec (run_remove_finalizer r) = run_spec r"
  "om_name (run_meta (run_add_finalizer r)) = om_name (run_meta r)"
  "om_name (run_meta (run_remove_finalizer r)) = om_name (run_meta r)"
  "om_generation (run_meta (run_add_finalizer r)) = om_generation (run_meta r)"
  by (simp_all add: run_add_finalizer_def run_remove_finalizer_def)

lemma UpdateResource_kept:
  assumes ok: "run_ctl_ok codec r ns stored c" and step: "UpdateResource (rctl_client c) ns' n (\<lambda>cur. Inr (f cur)) w = (x, w')"
    and f: "\<And>cur. run_status (f cur) = run_status cur \<and> run_spec (f cur) = run_spec cur \<and>
      om_name (run_meta (f cur)) = om_name (run_meta cur)"
  shows "statuses_kept (stored w) (stored w') \<and> sw_db w' = sw_db w \<and> sw_env w' = sw_env w"
proof -
  from ok have api: "run_api (rctl_client c) stored"
    and fr: "kube_frame (\<lambda>w. (sw_db w, sw_env w)) (rctl_client c)" by (simp_all add: run_ctl_ok_def)
  have "statuses_kept (stored w) (stored w')"
  proof (cases x)
    case (Inl e)
    with UpdateResource_stored [OF api step] show ?thesis by (simp add: stored_after_def)
  next
    case (Inr obj)
    with UpdateResource_stored [OF api step] obtain cur where c: "stored w n = Some cur" and n: "om_name (run_meta cur) = n"
      and obj: "obj = f cur" and q: "resource_written obj (stored w) (stored w')" by (auto simp: stored_after_def)
    from q obtain new where "stored w' \<in> {(stored w)(n \<mapsto> new), (stored w)(n := None)}"
      and "run_status new = run_status cur" "run_spec new = run_spec cur"
      and "om_generation (run_meta cur) \<le> om_generation (run_meta new)"
      using c n f [of cur] by (auto simp: resource_written_def obj)
    with c show ?thesis by (auto simp: statuses_kept_def split: if_splits)
  qed
  with frameD [OF UpdateResource_frame [OF fr] step] show ?thesis by simp
qed

definition run_quiet :: "('j, 'z) sworld_scheme runs_of \<Rightarrow> ('j, 'z) sworld_scheme \<Rightarrow> ('j, 'z) sworld_scheme \<Rightarrow> bool" where
  "run_quiet stored w w' \<longleftrightarrow> statuses_kept (stored w) (stored w') \<and> sw_db w' = sw_db w \<and> sw_env w' = sw_env w"

lemma run_quiet_view:
  assumes "run_view stored v = run_view stored w"
  shows "run_quiet stored v w' = run_quiet stored w w'" and "run_quiet stored w v"
  using assms by (simp_all add: run_quiet_def)

lemma deleted_quiet:
  assumes ok: "run_ctl_ok codec r ns stored c" and step: "reconcileDeletedRun c resource w = (x, w')"
  shows "run_quiet stored w w'"
proof -
  from ok have rt: "workflow_frame (run_view stored) (rctl_workflow c)" by (simp add: run_ctl_ok_def)
  have fin: "run_quiet stored v w'" if "finish_deleted_run c resource v = (x, w')" for v
  proof (cases "wr_Cleanup (rctl_workflow c) resource v")
    case (Pair y u)
    with that workflow_frameD(5) [OF rt Pair]
      UpdateResource_kept [OF ok, of "om_namespace (run_meta resource)" "om_name (run_meta resource)" run_remove_finalizer u]
    show ?thesis by (cases y) (auto simp: finish_deleted_run_def run_quiet_def split: prod.splits sum.splits)
  qed
  let ?wid = "TrimSpace (rrs_workloadID (run_status resource))"
  obtain x1 w1 where G: "wr_Get (rctl_workflow c) ?wid w = (x1, w1)" by fastforce
  obtain x2 w2 where C: "wr_Cancel (rctl_workflow c) ?wid w1 = (x2, w2)" by fastforce
  obtain x3 w3 where D: "wr_Delete (rctl_workflow c) ?wid w1 = (x3, w3)" by fastforce
  note v = workflow_frameD(2) [OF rt G] workflow_frameD(3) [OF rt C] workflow_frameD(4) [OF rt D]
  have "w' \<in> {w, w1, w2, w3} \<or> (\<exists>v \<in> {w, w1, w3}. finish_deleted_run c resource v = (x, w'))"
    using step G C D
    by (cases x1; cases x2; cases x3) (auto simp: reconcileDeletedRun_def Let_def split: if_splits)
  with fin show ?thesis
    using run_quiet_view [OF v(1)] run_quiet_view [of stored w2 w] run_quiet_view [of stored w3 w] v
    by (auto simp: run_quiet_view(2) [of stored w w])
qed

text \<open>
  Either nothing changes but finalizers, or the object that was read first is reconciled, in a world
  that differs from the first at most in finalizers.
\<close>

definition same_run :: "RunResource \<Rightarrow> RunResource \<Rightarrow> bool" where
  "same_run r r0 \<longleftrightarrow> run_status r = run_status r0 \<and> run_spec r = run_spec r0 \<and>
     om_generation (run_meta r) = om_generation (run_meta r0)"

lemma Reconcile_live:
  assumes ok: "run_ctl_ok codec r ns stored c" and step: "run_Reconcile c ns' name w = (x, w')"
  shows "run_quiet stored w w' \<or> (\<exists>r0 resource v. stored w name = Some r0 \<and> same_run resource r0 \<and>
    run_quiet stored w v \<and> (x, w') = reconcile_live_run c name resource v)"
proof (cases "ns' = rctl_namespace c")
  case False
  with step show ?thesis by (simp add: run_Reconcile_def run_quiet_def)
next
  case True
  from ok have api: "run_api (rctl_client c) stored"
    and fr: "kube_frame (\<lambda>w. (sw_db w, sw_env w)) (rctl_client c)" by (simp_all add: run_ctl_ok_def)
  obtain x1 w1 where G: "kube_Get (rctl_client c) ns' name w = (x1, w1)" by fastforce
  note get = run_api_Get [OF api G]
  have s1: "run_quiet stored w w1"
    using fr G get(1) by (auto simp: kube_frame_def run_quiet_def dest: frameD)
  show ?thesis
  proof (cases x1)
    case (Inl e)
    with step True G s1 show ?thesis by (auto simp: run_Reconcile_def split: if_splits)
  next
    case (Inr r0)
    note r0 = get(2) [OF Inr]
    show ?thesis
    proof (cases "om_deletionTimestamp (run_meta r0) \<noteq> None")
      case D: True
      with step True G Inr have "reconcileDeletedRun c r0 w1 = (x, w')" by (simp add: run_Reconcile_def)
      from deleted_quiet [OF ok this] get(1) s1 show ?thesis by (simp add: run_quiet_def)
    next
      case D: False
      show ?thesis
      proof (cases "run_has_finalizer r0")
        case True
        with step \<open>ns' = _\<close> G Inr D have "(x, w') = reconcile_live_run c name r0 w1" by (simp add: run_Reconcile_def)
        with s1 r0 show ?thesis unfolding same_run_def by blast
      next
        case F: False
        obtain x2 w2 where U: "UpdateResource (rctl_client c) ns' name (\<lambda>current. Inr (run_add_finalizer current)) w1 = (x2, w2)"
          by fastforce
        from UpdateResource_kept [OF ok U] get(1) s1 have q2: "run_quiet stored w w2" by (simp add: run_quiet_def)
        show ?thesis
        proof (cases x2)
          case (Inl e)
          with step True G \<open>x1 = _\<close> D F U q2 show ?thesis by (simp add: run_Reconcile_def)
        next
          case I2: (Inr u)
          with step True G Inr D F U have "(x, w') = reconcile_live_run c name (run_add_finalizer r0) w2"
            by (simp add: run_Reconcile_def)
          moreover have "same_run (run_add_finalizer r0) r0" by (simp add: same_run_def)
          ultimately show ?thesis using q2 r0 by blast
        qed
      qed
    qed
  qed
qed

lemma Reconcile_shape:
  assumes ok: "run_ctl_ok codec r ns stored c" and step: "run_Reconcile c ns' name w = (x, w')"
  shows "run_quiet stored w w' \<or> (\<exists>r0 resource next state res v. stored w name = Some r0 \<and>
    same_run resource r0 \<and> run_quiet stored w v \<and> (0 \<le> om_generation (run_meta r0) \<longrightarrow> run_status_ok next) \<and>
    updateObservedStatus c name resource (run_status r0) next state res v = (x, w'))"
proof -
  { fix r0 resource v
    assume r0: "stored w name = Some r0" and same: "same_run resource r0" and q: "run_quiet stored w v"
      and "(x, w') = reconcile_live_run c name resource v"
    with live_shape [OF ok, of name resource v] have "observes stored c name resource v (x, w')" by simp
    then have ?thesis
    proof (unfold observes_def, elim disjE exE conjE)
      assume "run_view stored (snd (x, w')) = run_view stored v"
      with q show ?thesis by (simp add: run_quiet_def)
    next
      fix next' state res u
      assume u: "run_view stored u = run_view stored v"
        and "0 \<le> om_generation (run_meta resource) \<longrightarrow> run_status_ok next'"
        and "(x, w') = updateObservedStatus c name resource (run_status resource) next' state res u"
      moreover have "run_quiet stored w u" using q u by (simp add: run_quiet_def)
      ultimately show ?thesis using r0 same unfolding same_run_def by metis
    qed }
  with Reconcile_live [OF assms] show ?thesis by blast
qed

text \<open>A run that ended is only cleaned up.\<close>

lemma live_ended_quiet:
  assumes ok: "run_ctl_ok codec r ns stored c" and t: "run_isTerminalPhase (rrs_phase (run_status resource))"
    and g: "rrs_observedGeneration (run_status resource) = om_generation (run_meta resource)"
    and v: "deriveInvalidStatus resource (rctl_now c w) = None"
  shows "run_view stored (snd (reconcile_live_run c name resource w)) = run_view stored w"
proof -
  from ok have rt: "workflow_frame (run_view stored) (rctl_workflow c)" by (simp add: run_ctl_ok_def)
  obtain x1 w1 where C: "wr_Cleanup (rctl_workflow c) resource w = (x1, w1)" by fastforce
  from t have "rrs_phase (run_status resource) \<noteq> RPhaseUnset" by (auto simp: run_isTerminalPhase_def)
  with C t g v workflow_frameD(5) [OF rt C] show ?thesis
    by (cases x1) (simp_all add: reconcile_live_run_def Let_def)
qed

text \<open>A release that reports no error leaves the slot free of the run.\<close>

lemma Release_frees:
  fixes v u :: "('j, 'z) sworld_scheme"
  assumes R: "ActiveRunManager_Release (pg_sessions codec r) sid rid v = (Inr b, u)"
    and ok: "sdb_ok codec (sw_db v)" and h: "\<forall>n. healthy (sw_env v n)"
  shows "sw_slot u (TrimSpace sid) \<noteq> Some (TrimSpace rid)"
proof (cases b)
  case True
  with R pg_slots.release_clears [of codec r sid rid v u] show ?thesis by simp
next
  case False
  show ?thesis
  proof
    assume "sw_slot u (TrimSpace sid) = Some (TrimSpace rid)"
    with R False pg_slots.release_idle [of codec r sid rid v u] have slot: "sw_slot v (TrimSpace sid) = Some (TrimSpace rid)"
      by simp
    then have ne: "TrimSpace sid \<noteq> [] \<and> TrimSpace rid \<noteq> []"
      using ok by (auto simp: sw_slot_def db_slot_def slot_of_def Let_def sdb_ok_def row_ok_def
          split: option.splits if_splits)
    from release_healthy [OF spec [OF h, of "sw_tick v"] ok, of "TrimSpace sid" "TrimSpace rid" r] slot
    obtain db' where "repo_ReleaseActiveRun codec r (sw_env v (sw_tick v)) (TrimSpace sid) (TrimSpace rid) (sw_db v) = (Inr True, db')"
      by (auto simp: sw_slot_def)
    with R False ne show False
      by (simp add: ActiveRunManager_Release_def Let_def pg_sessions_def sw_call_def)
  qed
qed

section \<open>Properties\<close>

definition runs_publishable :: "(string \<Rightarrow> RunResource option) \<Rightarrow> bool" where
  "runs_publishable runs \<longleftrightarrow> (\<forall>n r. runs n = Some r \<longrightarrow> 0 \<le> om_generation (run_meta r) \<and>
     (rrs_phase (run_status r) = RPhaseUnset \<or> run_status_ok (run_status r)))"

lemma runs_publishable_kept: "runs_publishable f \<Longrightarrow> statuses_kept f g \<Longrightarrow> runs_publishable g"
  unfolding runs_publishable_def statuses_kept_def by (metis order_trans)

lemma runs_publishable_replaced:
  assumes "runs_publishable f" and "run_status_ok next" and "status_replaced n next f g"
  shows "runs_publishable g"
  unfolding runs_publishable_def
proof (intro allI impI)
  fix m r assume g: "g m = Some r"
  from assms(3) obtain cur new s where "f n = Some cur" "g = f(n \<mapsto> new)"
    "run_status new = next\<lparr>rrs_resultSummary := s\<rparr>" "om_generation (run_meta new) = om_generation (run_meta cur)"
    unfolding status_replaced_def by blast
  note upd = this
  show "0 \<le> om_generation (run_meta r) \<and> (rrs_phase (run_status r) = RPhaseUnset \<or> run_status_ok (run_status r))"
  proof (cases "m = n")
    case True
    with upd g have "r = new" by simp
    with upd assms(1,2) show ?thesis by (simp add: runs_publishable_def)
  next
    case False
    with upd g have "f m = Some r" by simp
    with assms(1) show ?thesis unfolding runs_publishable_def by blast
  qed
qed

text \<open>
  C24: The run reconciler only ever writes publishable statuses: if every stored run has no status yet
  or one with a known phase, a non-negative generation and conditions the platform contract accepts,
  this is so again after any reconciliation, whatever the workflow runtime answers and whichever
  write fails.
\<close>

theorem run_Reconcile_publishable:
  assumes "run_ctl_ok codec r ns stored c" and "runs_publishable (stored w)"
    and "run_Reconcile c ns' name w = (x, w')"
  shows "runs_publishable (stored w')"
  using Reconcile_shape [OF assms(1,3)]
proof (elim disjE exE conjE)
  assume "run_quiet stored w w'"
  with assms(2) show ?thesis by (auto simp: run_quiet_def intro: runs_publishable_kept)
next
  fix r0 resource next' state res v
  assume r0: "stored w name = Some r0" and q: "run_quiet stored w v"
    and nok: "0 \<le> om_generation (run_meta r0) \<longrightarrow> run_status_ok next'"
    and u: "updateObservedStatus c name resource (run_status r0) next' state res v = (x, w')"
  from q assms(2) have pv: "runs_publishable (stored v)" by (auto simp: run_quiet_def intro: runs_publishable_kept)
  from nok r0 assms(2) have nok: "run_status_ok next'" by (auto simp: runs_publishable_def)
  from observed_effect [OF assms(1) u] have "stored w' = stored v \<or> status_replaced name next' (stored v) (stored w')"
    by auto
  with pv nok show ?thesis by (metis runs_publishable_replaced)
qed

text \<open>
  C7: The run reconciler gives a slot back only when it ends the run that holds it: if a
  reconciliation changes the active run slot of some session, then the reconciled run belonged to
  this session and held its slot, it had not ended before, its stored status is terminal
  afterwards, and the slot is free.
\<close>

theorem run_Reconcile_releases_only_at_end:
  fixes w w' :: "('j, 'z) sworld_scheme"
  assumes "run_ctl_ok codec r ns stored c" and "run_Reconcile c ns' name w = (x, w')"
    and "sw_slot w' s \<noteq> sw_slot w s"
  shows "\<exists>r0 spec r1. stored w name = Some r0 \<and> run_spec r0 = Some spec \<and> stored w' name = Some r1 \<and>
    \<not> run_isTerminalPhase (rrs_phase (run_status r0)) \<and> run_isTerminalPhase (rrs_phase (run_status r1)) \<and>
    s = TrimSpace (rs_sessionId spec) \<and> sw_slot w s = Some (TrimSpace (rs_runId spec)) \<and> sw_slot w' s = None"
  using Reconcile_shape [OF assms(1,2)]
proof (elim disjE exE conjE)
  assume "run_quiet stored w w'"
  with assms(3) show ?thesis by (simp add: run_quiet_def sw_slot_def)
next
  fix r0 resource next' state res v
  assume r0: "stored w name = Some r0" and same: "same_run resource r0" and q: "run_quiet stored w v"
    and u: "updateObservedStatus c name resource (run_status r0) next' state res v = (x, w')"
  from assms(3) q have "sw_db w' \<noteq> sw_db v" by (auto simp: run_quiet_def sw_slot_def)
  with observed_effect [OF assms(1) u] have rep: "status_replaced name next' (stored v) (stored w')"
    and ends: "ends_run (run_status r0) next'" and rel: "slot_released codec r resource v (isl x) w'"
    by (auto split: if_splits)
  from rel obtain spec and v1 :: "('j, 'z) sworld_scheme" and y u1 where sp: "run_spec resource = Some spec" and v1: "sw_db v1 = sw_db v"
    and R: "ActiveRunManager_Release (pg_sessions codec r) (rs_sessionId spec) (rs_runId spec) v1 = (y, u1)"
    and w': "sw_db w' = sw_db u1" unfolding slot_released_def by blast
  have slots: "sw_slot v1 z = sw_slot w z" "sw_slot u1 z = sw_slot w' z" for z
    using v1 w' q by (simp_all add: sw_slot_def run_quiet_def)
  have "y = Inr True"
  proof (cases y)
    case (Inl e)
    with R assms(3) slots pg_slots.release_fails [of codec r "rs_sessionId spec" "rs_runId spec" v1 e u1 s]
    show ?thesis by simp
  next
    case (Inr b)
    with R assms(3) slots pg_slots.release_idle [of codec r "rs_sessionId spec" "rs_runId spec" v1 u1 s]
    show ?thesis by (cases b) simp_all
  qed
  note R = R [unfolded this]
  from assms(3) slots pg_slots.release_other [OF R] have s: "s = TrimSpace (rs_sessionId spec)" by metis
  from s slots pg_slots.release_holder [OF R] pg_slots.release_clears [OF R]
  have "sw_slot w s = Some (TrimSpace (rs_runId spec)) \<and> sw_slot w' s = None" by simp
  moreover from rep ends obtain r1 where "stored w' name = Some r1"
    "run_isTerminalPhase (rrs_phase (run_status r1))" "\<not> run_isTerminalPhase (rrs_phase (run_status r0))"
    by (auto simp: status_replaced_def ends_run_def)
  moreover have "run_spec r0 = Some spec" using sp same by (simp add: same_run_def)
  ultimately show ?thesis using r0 s by blast
qed

text \<open>
  A run that ended stays as it is: once its terminal status has been observed at the current
  generation of its spec, a reconciliation neither changes its status nor touches any slot.
\<close>

theorem run_Reconcile_ended_stable:
  assumes "run_ctl_ok codec r ns stored c" and "stored w name = Some r0"
    and "run_isTerminalPhase (rrs_phase (run_status r0))"
    and "rrs_observedGeneration (run_status r0) = om_generation (run_meta r0)"
    and "\<forall>now. deriveInvalidStatus r0 now = None" and "run_Reconcile c ns' name w = (x, w')"
  shows "(stored w' name = None \<or> (\<exists>r1. stored w' name = Some r1 \<and> run_status r1 = run_status r0)) \<and>
    sw_slot w' s = sw_slot w s"
proof -
  have quiet: ?thesis if "run_quiet stored w w'"
    using that assms(2) by (cases "stored w' name") (force simp: run_quiet_def statuses_kept_def sw_slot_def)+
  { fix r0' resource v
    assume r: "stored w name = Some r0'" and same: "same_run resource r0'" and q: "run_quiet stored w v"
      and l: "(x, w') = reconcile_live_run c name resource v"
    have inv: "deriveInvalidStatus resource (rctl_now c v) = None"
      using assms(2,5) r same by (simp add: deriveInvalidStatus_def same_run_def)
    from live_ended_quiet [OF assms(1) _ _ inv, of name] assms(2-4) r same
    have "run_view stored w' = run_view stored v" by (simp add: same_run_def flip: l)
    with q have "run_quiet stored w w'" by (simp add: run_quiet_def) }
  with Reconcile_live [OF assms(1,6)] quiet show ?thesis by blast
qed

text \<open>
  C8: The end of a run frees its slot: when a reconciliation reports no error and the stored status of
  the run went from a non-terminal to a terminal phase in it, the run does not hold the slot of its
  session any more. The database is assumed to answer without errors and to hold well-formed rows.
\<close>

theorem run_Reconcile_end_frees_slot:
  fixes w w' :: "('j, 'z) sworld_scheme"
  assumes "run_ctl_ok codec r ns stored c" and "sdb_ok codec (sw_db w)" and "\<forall>n. healthy (sw_env w n)"
    and "run_Reconcile c ns' name w = (Inr res, w')" and "stored w name = Some r0" and "run_spec r0 = Some spec"
    and "\<not> run_isTerminalPhase (rrs_phase (run_status r0))" and "stored w' name = Some r1"
    and "run_isTerminalPhase (rrs_phase (run_status r1))"
  shows "sw_slot w' (TrimSpace (rs_sessionId spec)) \<noteq> Some (TrimSpace (rs_runId spec))"
  using Reconcile_shape [OF assms(1,4)]
proof (elim disjE exE conjE)
  assume "run_quiet stored w w'"
  with assms(5,7-9) show ?thesis by (force simp: run_quiet_def statuses_kept_def)
next
  fix r0' resource next' state res' v
  assume r0: "stored w name = Some r0'" and same: "same_run resource r0'" and q: "run_quiet stored w v"
    and u: "updateObservedStatus c name resource (run_status r0') next' state res' v = (Inr res, w')"
  have "\<not> run_view stored w' = run_view stored v"
    using q assms(5,7-9) by (force simp: run_quiet_def statuses_kept_def)
  with observed_effect [OF assms(1) u] have rep: "status_replaced name next' (stored v) (stored w')"
    and rel: "if ends_run (run_status r0') next' \<and> run_spec resource \<noteq> None
      then slot_released codec r resource v (isl (Inr res :: CtrlResult result)) w' else sw_db w' = sw_db v" by auto
  from rep assms(8,9) have "run_isTerminalPhase (rrs_phase next')" by (auto simp: status_replaced_def)
  with rel r0 assms(5-7) same have "slot_released codec r resource v False w'"
    by (simp add: ends_run_def same_run_def)
  then obtain spec' and v1 :: "('j, 'z) sworld_scheme" and y u1 where sp: "run_spec resource = Some spec'"
    and v1: "sw_db v1 = sw_db v" "sw_env v1 = sw_env v"
    and R: "ActiveRunManager_Release (pg_sessions codec r) (rs_sessionId spec') (rs_runId spec') v1 = (y, u1)"
    and w': "sw_db w' = sw_db u1" and y: "\<not> isl y" unfolding slot_released_def by blast
  from y obtain b where "y = Inr b" by (cases y) auto
  from Release_frees [OF R [unfolded this]] assms(2,3) v1 q sp same r0 assms(5,6) w' show ?thesis
    by (simp add: run_quiet_def same_run_def sw_slot_def)
qed

text \<open>
  C35: A cancellation can overwrite the result of a run that succeeded: if a cancel request raises the
  generation of a run after its success was observed, and the finished workflow is gone (cancelling it
  is answered with "not found"), a reconciliation without error stores the run as cancelled.
\<close>

theorem run_cancel_overwrites_success:
  assumes "run_ctl_ok codec r ns stored c" and "kube_Get (rctl_client c) (rctl_namespace c) name w = (Inr r0, w1)"
    and "run_spec r0 = Some spec" and "rs_cancelRequested spec"
    and "rrs_phase (run_status r0) = RSucceeded"
    and "rrs_observedGeneration (run_status r0) \<noteq> om_generation (run_meta r0)"
    and "TrimSpace (rrs_workloadID (run_status r0)) \<noteq> []"
    and "om_deletionTimestamp (run_meta r0) = None" and "run_has_finalizer r0"
    and "\<forall>now. deriveInvalidStatus r0 now = None"
    and "\<forall>v. \<exists>e v'. wr_Cancel (rctl_workflow c) (TrimSpace (rrs_workloadID (run_status r0))) v = (Inl e, v') \<and> is_api_not_found e"
    and "run_Reconcile c (rctl_namespace c) name w = (Inr res, w')"
  shows "\<exists>r1. stored w' name = Some r1 \<and> rrs_phase (run_status r1) = RCanceled"
proof -
  let ?wid = "TrimSpace (rrs_workloadID (run_status r0))"
  let ?next = "canceled_terminal r0 ?wid ''AgentRun workflow was canceled.'' (rctl_now c w1)"
  from assms(11) obtain e v where C: "wr_Cancel (rctl_workflow c) ?wid w1 = (Inl e, v)" and e: "is_api_not_found e"
    by blast
  have u: "updateObservedStatus c name r0 (run_status r0) ?next None no_requeue v = (Inr res, w')"
    using assms(2-10,12) C e
    by (simp add: run_Reconcile_def reconcile_live_run_def reconcileCanceledRun_def Let_def run_isTerminalPhase_def)
  have ph: "rrs_phase ?next = RCanceled" by (simp add: canceled_terminal_def terminalWorkflowStatus_def)
  have "\<not> run_statusSemanticallyEqual (run_status r0) ?next"
  proof
    assume "run_statusSemanticallyEqual (run_status r0) ?next"
    then have "rrs_phase (run_normalizedStatus (run_status r0)) = rrs_phase (run_normalizedStatus ?next)"
      by (simp add: run_statusSemanticallyEqual_def)
    with ph assms(5) show False by (simp add: run_normalizedStatus_def)
  qed
  then obtain obj v2 where U: "run_updateStatus c name ?next v = (Inr obj, v2)"
    and w': "w' = run_recordTimelineTransitions (rctl_sink c) (runTimelineTransitions r0 (run_status r0) ?next None) v2"
    using u ph assms(3,5)
    by (auto simp: updateObservedStatus_def releaseSessionSlot_def run_isTerminalPhase_def split: prod.splits sum.splits)
  from assms(1) have sk: "sink_frame (run_view stored) (rctl_sink c)" by (simp add: run_ctl_ok_def)
  have "run_view stored w' = run_view stored v2"
    using record_frame(4,5) [OF sk] by (simp add: w' run_recordTimelineTransitions_def)
  with run_updateStatus_effect(3) [OF assms(1) U] ph show ?thesis
    by (auto simp: status_replaced_def)
qed

end
