(* ===== verification/Runtime_World.thy ===== *)
theory Runtime_World
  imports Run_Controller Action_Store
begin

text \<open>
  A concrete world in which the parameters of the model are functions that behave as documented: an
  API server for runs that keeps its objects in a map, with generations, resource versions and
  optimistic concurrency, beside the tables of the sessions and the actions. The witnesses of the properties live in it.
\<close>

record 'j rtworld = "('j, ActionResource) aworld" +
  rt_runs :: "string \<Rightarrow> RunResource option"
  rt_now :: time
  rt_events :: "TimelineEvent list"

definition mem_Get :: "string \<Rightarrow> string \<Rightarrow> 'j rtworld \<Rightarrow> RunResource result \<times> 'j rtworld" where
  "mem_Get ns name w =
     (case rt_runs w name of None \<Rightarrow> (Inl (api_not_found ''agentruns'' name), w)
      | Some r \<Rightarrow> if om_name (run_meta r) = name then (Inr r, w) else (Inl (api_not_found ''agentruns'' name), w))"

definition mem_Create :: "RunResource \<Rightarrow> 'j rtworld \<Rightarrow> RunResource result \<times> 'j rtworld" where
  "mem_Create r w =
     (let name = om_name (run_meta r) in
      case rt_runs w name of Some _ \<Rightarrow> (Inl (api_already_exists ''agentruns'' name), w)
      | None \<Rightarrow>
        (let r = r\<lparr>run_meta := (run_meta r)\<lparr>om_generation := 1, om_resourceVersion := ''1'',
                     om_creationTimestamp := rt_now w\<rparr>\<rparr>
         in (Inr r, w\<lparr>rt_runs := (rt_runs w)(name \<mapsto> r)\<rparr>)))"

definition mem_conflict :: "string \<Rightarrow> go_error" where
  "mem_conflict name = ApiError ApiConflict (''agentruns '' @ go_quote name @ '' has been modified'')"

definition mem_write ::
    "(RunResource \<Rightarrow> RunResource \<Rightarrow> RunResource) \<Rightarrow> RunResource \<Rightarrow> 'j rtworld \<Rightarrow> RunResource result \<times> 'j rtworld" where
  "mem_write merge r w =
     (let name = om_name (run_meta r) in
      case rt_runs w name of None \<Rightarrow> (Inl (api_not_found ''agentruns'' name), w)
      | Some cur \<Rightarrow>
        if om_resourceVersion (run_meta r) \<noteq> om_resourceVersion (run_meta cur) then (Inl (mem_conflict name), w)
        else
          (let new = merge cur r;
               new = new\<lparr>run_meta := (run_meta new)\<lparr>om_resourceVersion := om_resourceVersion (run_meta cur) @ ''+''\<rparr>\<rparr>
           in (Inr new, w\<lparr>rt_runs := (rt_runs w)(name \<mapsto> new)\<rparr>)))"

text \<open>An update keeps the stored status and counts changes of the spec; a status update keeps the rest.\<close>

definition mem_Update :: "RunResource \<Rightarrow> 'j rtworld \<Rightarrow> RunResource result \<times> 'j rtworld" where
  "mem_Update = mem_write (\<lambda>cur r.
     r\<lparr>run_status := run_status cur, run_meta := (run_meta r)\<lparr>om_generation :=
        (if run_spec r = run_spec cur then om_generation (run_meta cur)
         else om_generation (run_meta cur) + 1)\<rparr>\<rparr>)"

definition mem_StatusUpdate :: "RunResource \<Rightarrow> 'j rtworld \<Rightarrow> RunResource result \<times> 'j rtworld" where
  "mem_StatusUpdate = mem_write (\<lambda>cur r. cur\<lparr>run_status := run_status r\<rparr>)"

definition mem_kube :: "(RunResource, 'j rtworld) kube" where
  "mem_kube = \<lparr>kube_Get = mem_Get, kube_Create = mem_Create, kube_Update = mem_Update,
     kube_StatusUpdate = mem_StatusUpdate, kube_retry = (\<lambda>f. f)\<rparr>"

definition mem_sink :: "'j rtworld Sink" where
  "mem_sink = \<lparr>sink_RecordStageInterval = (\<lambda>i w. (Inr (), w)),
     sink_RecordEvent = (\<lambda>e w. (Inr (), w\<lparr>rt_events := rt_events w @ [e]\<rparr>))\<rparr>"

definition mem_run_service :: "'j codec \<Rightarrow> repo \<Rightarrow> string \<Rightarrow> 'j rtworld RunSvc" where
  "mem_run_service codec r ns =
     \<lparr>rsv_client = mem_kube, rsv_reader_Get = mem_Get, rsv_namespace = ns,
      rsv_slots = \<lparr>slots_Claim = ActiveRunManager_Claim (pg_sessions codec r) ns,
                   slots_Release = ActiveRunManager_Release (pg_sessions codec r)\<rparr>,
      rsv_sink = Some mem_sink, rsv_now = rt_now, rsv_rand = (\<lambda>w. Inr [0, 0, 0])\<rparr>"

lemma mem_kube_laws: "retry_law mem_kube" "create_returns mem_kube"
  by (auto simp: retry_law_def mem_kube_def create_returns_def mem_Create_def Let_def
      split: option.splits intro: exI [of _ 0])

lemma mem_run_service_ok: "pg_run_service codec r ns (mem_run_service codec r ns)"
  by (simp add: pg_run_service_def mem_run_service_def mem_kube_laws)
    (auto simp: keeps_sessions_def sink_keeps_sessions_def mem_kube_def mem_sink_def mem_Create_def Let_def
      split: option.splits)

text \<open>A workflow runtime that accepts every run, shows one state for it, and has no workflow to cancel.\<close>

definition mem_workflow :: "WorkflowState option \<Rightarrow> 'w WorkflowRuntime" where
  "mem_workflow st = \<lparr>wr_Submit = (\<lambda>r w. (Inr (om_name (run_meta r)), w)), wr_Get = (\<lambda>n w. (Inr st, w)),
     wr_Cancel = (\<lambda>n w. (Inl (api_not_found ''workflows'' n), w)), wr_Delete = (\<lambda>n w. (Inr (), w)),
     wr_Cleanup = (\<lambda>r w. (Inr (), w))\<rparr>"

definition mem_run_ctl :: "'j codec \<Rightarrow> repo \<Rightarrow> string \<Rightarrow> WorkflowState option \<Rightarrow> 'j rtworld RunCtl" where
  "mem_run_ctl codec r ns st =
     \<lparr>rctl_client = mem_kube, rctl_namespace = ns, rctl_workflow = mem_workflow st, rctl_now = rt_now,
      rctl_sink = Some mem_sink,
      rctl_slots = \<lparr>slots_Claim = ActiveRunManager_Claim (pg_sessions codec r) ns,
                    slots_Release = ActiveRunManager_Release (pg_sessions codec r)\<rparr>\<rparr>"

lemma mem_kube_frame: "kube_frame (\<lambda>w. (sw_db w, sw_env w)) mem_kube"
  unfolding kube_frame_def
  by (intro conjI mem_kube_laws(1)) (auto simp: frame_def mem_kube_def mem_Get_def mem_Create_def
      mem_Update_def mem_StatusUpdate_def mem_write_def Let_def split: option.splits)

lemma mem_run_api: "run_api mem_kube rt_runs"
  unfolding run_api_def
  by (intro conjI mem_kube_laws(1)) (auto simp: status_written_def resource_written_def mem_kube_def mem_Get_def
      mem_Update_def mem_StatusUpdate_def mem_write_def Let_def split: option.splits sum.splits if_splits)

lemma mem_run_ctl_ok: "run_ctl_ok codec r ns rt_runs (mem_run_ctl codec r ns st)"
  by (auto simp: run_ctl_ok_def mem_run_ctl_def mem_run_api mem_kube_frame workflow_frame_def mem_workflow_def
      sink_frame_def mem_sink_def frame_def)

section \<open>An example\<close>

definition ex_codec :: "AgentSessionSpec codec" where
  "ex_codec = \<lparr>pj_marshal = Inr, pj_unmarshal = Inr\<rparr>"

definition ex_repo :: repo where
  "ex_repo = newPostgresRepository ''code-code'' []"

definition ex_env :: senv where
  "ex_env = \<lparr>se_begin = None, se_query = None, se_exec = None, se_enqueue = None, se_commit = None,
     se_now = 1000, se_eventID = ''e1''\<rparr>"

definition ex_spec :: AgentSessionSpec where
  "ex_spec = empty_session_spec\<lparr>ss_sessionId := ''s1'', ss_providerId := ''codex'',
     ss_executionClass := ''default'', ss_workspaceRef := Some ''s1-workspace'',
     ss_homeStateRef := Some ''s1-home''\<rparr>"

definition ex_condition :: "string \<Rightarrow> StoredCondition" where
  "ex_condition t = \<lparr>sc_type = t, sc_status = ''True'', sc_reason = ''Prepared'', sc_message = [],
     sc_observedGeneration = 1, sc_lastTransitionTime = Some 500\<rparr>"

definition ex_stored :: "string \<Rightarrow> AgentSessionSpec StoredSession" where
  "ex_stored active = \<lparr>sto_apiVersion = GroupVersion, sto_kind = ''AgentSessionResource'', sto_name = ''s1'',
     sto_namespace = ''code-code'', sto_generation = 1, sto_resourceVersion = ''1'',
     sto_creationTimestamp = Some 100, sto_finalizers = [], sto_session = Some ex_spec,
     sto_status = empty_stored_status\<lparr>sst_conditions := [ex_condition ''WorkspaceReady'', ex_condition ''WarmStateReady''],
       sst_activeRunID := active\<rparr>\<rparr>"

text \<open>One session, whose slot is held by \<open>active\<close> (free if empty), and the given runs.\<close>

definition ex_world :: "string \<Rightarrow> (string \<Rightarrow> RunResource option) \<Rightarrow> AgentSessionSpec rtworld" where
  "ex_world active runs =
     \<lparr>sw_db = \<lparr>db_rows = [''s1'' \<mapsto> (ex_stored active, 1)], db_outbox = []\<rparr>, sw_env = (\<lambda>n. ex_env), sw_tick = 0,
      aw_db = \<lparr>adb_rows = [], adb_outbox = []\<rparr>, rt_runs = runs, rt_now = 2000, rt_events = []\<rparr>"

definition ex_model :: "string \<Rightarrow> ResolvedProviderModel" where
  "ex_model m = \<lparr>rpm_surfaceId = ''b1'', rpm_providerModelId = m, rpm_protocol = Anthropic, rpm_baseUrl = ''http://p'',
     rpm_model = None, rpm_source = SourceFallbackConfig, rpm_surface = None\<rparr>"

definition ex_auth :: AgentRunAuthRequirement where
  "ex_auth = \<lparr>auth_providerId = ''codex'', auth_providerSurfaceBindingId = ''b1'', auth_authStatus = ''bound'',
     auth_runtimeUrl = ''http://p'', auth_materializationKey = ''k1'', auth_providerRunBinding = None\<rparr>"

definition ex_snapshot :: RunTurnSnapshot where
  "ex_snapshot =
     \<lparr>sn_runRequest = Some \<lparr>rq_runId = [], rq_traceId = [], rq_input = Some \<lparr>rin_text = ''hi'', rin_parameters = None\<rparr>,
        rq_resumeToken = [], rq_resolvedProviderModel = None\<rparr>,
      sn_sessionGeneration = 1, sn_runtimeConfigGeneration = 1, sn_resourceConfigGeneration = 1,
      sn_stateGeneration = 1, sn_providerId = ''codex'', sn_executionClass = ''default'',
      sn_containerImage = ''img'', sn_cpuRequest = ''1'', sn_memoryRequest = ''1Gi'',
      sn_authRequirement = Some ex_auth,
      sn_runtimeCandidates = [Some \<lparr>cand_resolvedProviderModel = Some (ex_model ''m1''), cand_authRequirement = Some ex_auth\<rparr>,
        Some \<lparr>cand_resolvedProviderModel = Some (ex_model ''m2''), cand_authRequirement = Some ex_auth\<rparr>],
      sn_runtimeEnvironment = None, sn_workspaceId = ''s1-workspace'', sn_homeStateId = ''s1-home'',
      sn_prepareJobs = []\<rparr>"

definition ex_request :: "string \<Rightarrow> CreateRunRequest" where
  "ex_request rid = \<lparr>crr_RunID = rid, crr_Snapshot = Some ex_snapshot\<rparr>"

abbreviation ex_runs :: "AgentSessionSpec rtworld RunSvc" where
  "ex_runs \<equiv> mem_run_service ex_codec ex_repo ''code-code''"

lemma ex_world_ok [simp]:
  "sdb_ok ex_codec (sw_db (ex_world a rs))" "healthy (sw_env (ex_world a rs) n)" "codec_ok ex_codec"
proof -
  have t: "TrimSpace ''s1'' = ''s1''" by (rule TrimSpace_plain) (simp_all add: plain_char_def)
  show "sdb_ok ex_codec (sw_db (ex_world a rs))"
    using t by (simp add: sdb_ok_def ex_world_def row_ok_def ex_stored_def ex_codec_def ex_spec_def)
  show "healthy (sw_env (ex_world a rs) n)" by (simp add: healthy_def ex_world_def ex_env_def)
  show "codec_ok ex_codec" by (simp add: codec_ok_def ex_codec_def)
qed

section \<open>Witnesses of the run service\<close>

definition ex_no_snapshot :: CreateRunRequest where
  "ex_no_snapshot = \<lparr>crr_RunID = ''r1'', crr_Snapshot = None\<rparr>"

lemma ex_run_id [simp]: "TrimSpace ''r1'' = ''r1''" "TrimSpace ''s1'' = ''s1''"
  by (rule TrimSpace_plain; simp add: plain_char_def)+

lemma ex_slot [simp]:
  "sw_slot (ex_world a rs) sid = (if sid = ''s1'' \<and> TrimSpace a \<noteq> [] then Some (TrimSpace a) else None)"
  by (simp add: sw_slot_def db_slot_def ex_world_def ex_stored_def slot_of_def)

lemma ex_world_runs [simp]: "rt_runs (ex_world a rs) = rs"
  by (simp add: ex_world_def)

text \<open>A creation whose snapshot is missing fails after the claim: the slot is free again.\<close>

theorem runs_Create_failure_restores_slots_witness:
  "\<exists>e w'. runs_Create ex_runs ''s1'' (Some ex_no_snapshot) (ex_world [] Map.empty) = (Inl e, w') \<and>
     (\<forall>x. sw_slot w' x = None)"
proof -
  have "isl (fst (runs_Create ex_runs ''s1'' (Some ex_no_snapshot) (ex_world [] Map.empty)))" by code_simp
  then obtain e w' where c: "runs_Create ex_runs ''s1'' (Some ex_no_snapshot) (ex_world [] Map.empty) = (Inl e, w')"
    by (cases "runs_Create ex_runs ''s1'' (Some ex_no_snapshot) (ex_world [] Map.empty)") (auto simp: isl_def)
  have "sw_slot w' x = sw_slot (ex_world [] Map.empty) x" for x
    by (rule runs_Create_failure_restores_slots [OF mem_run_service_ok _ _ _ _ c])
      (simp_all add: ex_no_snapshot_def)
  with c show ?thesis by simp
qed

text \<open>The run \<open>r1\<close> exists and holds the slot; creating it once more frees the slot.\<close>

definition ex_running :: RunResource where
  "ex_running = (case runToResource ''code-code''
       \<lparr>sr_meta = \<lparr>om_name = ''s1'', om_namespace = ''code-code'', om_generation = 1, om_resourceVersion = [],
          om_labels = [], om_creationTimestamp = 0, om_deletionTimestamp = None, om_finalizers = []\<rparr>,
        sr_session = Some ex_spec, sr_status = empty_session_status\<rparr> (ex_request ''r1'') ''r1''
     of Inr r \<Rightarrow> r\<lparr>run_meta := (run_meta r)\<lparr>om_generation := 1\<rparr>,
       run_status := (run_status r)\<lparr>rrs_phase := RRunning\<rparr>\<rparr>)"

theorem runs_Create_failure_frees_held_slot_witness:
  "\<exists>e w'. runs_Create ex_runs ''s1'' (Some (ex_request ''r1'')) (ex_world ''r1'' [''r1'' \<mapsto> ex_running])
     = (Inl e, w') \<and> sw_slot (ex_world ''r1'' [''r1'' \<mapsto> ex_running]) ''s1'' = Some ''r1'' \<and>
     sw_slot w' ''s1'' = None"
proof -
  let ?w = "ex_world ''r1'' [''r1'' \<mapsto> ex_running]"
  have "isl (fst (runs_Create ex_runs ''s1'' (Some (ex_request ''r1'')) ?w))" by code_simp
  then obtain e w' where c: "runs_Create ex_runs ''s1'' (Some (ex_request ''r1'')) ?w = (Inl e, w')"
    by (cases "runs_Create ex_runs ''s1'' (Some (ex_request ''r1'')) ?w") (auto simp: isl_def)
  have "sw_slot w' (TrimSpace ''s1'') = None"
    by (rule runs_Create_failure_frees_held_slot [OF mem_run_service_ok _ _ _ _ c])
      (simp_all add: ex_request_def)
  with c show ?thesis by simp
qed

section \<open>Witnesses of the run reconciler\<close>

text \<open>A run in a given phase, observed at generation 1, with a workflow.\<close>

definition ex_run :: "RunResourcePhase \<Rightarrow> int \<Rightarrow> bool \<Rightarrow> RunResource" where
  "ex_run phase generation cancel = ex_running
     \<lparr>run_meta := (run_meta ex_running)\<lparr>om_generation := generation, om_finalizers := [agentRunCleanupFinalizer]\<rparr>,
      run_spec := map_option (\<lambda>sp. sp\<lparr>rs_cancelRequested := cancel\<rparr>) (run_spec ex_running),
      run_status := \<lparr>rrs_observedGeneration = 1, rrs_conditions = [], rrs_phase = phase, rrs_message = [],
        rrs_workloadID = ''r1'', rrs_resultSummary = None, rrs_prepareJobs = [], rrs_updatedAt = None\<rparr>\<rparr>"

definition ex_state :: "string \<Rightarrow> WorkflowState option" where
  "ex_state phase = Some \<lparr>wf_Phase = phase, wf_Message = [], wf_StartedAt = Some 1500, wf_FinishedAt = None, wf_Nodes = []\<rparr>"

abbreviation ex_ctl :: "string \<Rightarrow> AgentSessionSpec rtworld RunCtl" where
  "ex_ctl phase \<equiv> mem_run_ctl ex_codec ex_repo ''code-code'' (ex_state phase)"

definition ex_run_world :: "RunResourcePhase \<Rightarrow> int \<Rightarrow> bool \<Rightarrow> AgentSessionSpec rtworld" where
  "ex_run_world phase generation cancel = ex_world ''r1'' [''r1'' \<mapsto> ex_run phase generation cancel]"

abbreviation ex_reconciled :: "string \<Rightarrow> RunResourcePhase \<Rightarrow> CtrlResult result \<times> AgentSessionSpec rtworld" where
  "ex_reconciled phase p \<equiv> run_Reconcile (ex_ctl phase) ''code-code'' ''r1'' (ex_run_world p 1 False)"

definition isr_ended :: "CtrlResult result \<times> AgentSessionSpec rtworld \<Rightarrow> bool" where
  "isr_ended xw = (case xw of (Inl e, w) \<Rightarrow> False | (Inr res, w) \<Rightarrow>
     (case rt_runs w ''r1'' of None \<Rightarrow> False | Some r \<Rightarrow> run_isTerminalPhase (rrs_phase (run_status r))))"

lemma ex_reconciled_facts:
  "rt_runs (ex_run_world p g b) n = (if n = ''r1'' then Some (ex_run p g b) else None)"
  "sdb_ok ex_codec (sw_db (ex_run_world p g b))" "healthy (sw_env (ex_run_world p g b) k)"
  "sw_slot (ex_run_world p g b) ''s1'' = Some ''r1''"
  by (simp_all add: ex_run_world_def)

theorem run_Reconcile_publishable_witness:
  "runs_publishable (rt_runs (snd (ex_reconciled ''Succeeded'' RRunning)))"
proof (rule run_Reconcile_publishable [OF mem_run_ctl_ok _ prod.collapse [symmetric]])
  have "0 \<le> om_generation (run_meta (ex_run RRunning 1 False))" "run_status_ok (run_status (ex_run RRunning 1 False))"
    by code_simp+
  then show "runs_publishable (rt_runs (ex_run_world RRunning 1 False))"
    by (simp add: runs_publishable_def ex_reconciled_facts)
qed

theorem run_Reconcile_releases_only_at_end_witness:
  "\<exists>r0 spec r1. rt_runs (ex_run_world RRunning 1 False) ''r1'' = Some r0 \<and> run_spec r0 = Some spec \<and>
     rt_runs (snd (ex_reconciled ''Succeeded'' RRunning)) ''r1'' = Some r1 \<and>
     \<not> run_isTerminalPhase (rrs_phase (run_status r0)) \<and> run_isTerminalPhase (rrs_phase (run_status r1)) \<and>
     ''s1'' = TrimSpace (rs_sessionId spec) \<and> sw_slot (ex_run_world RRunning 1 False) ''s1'' = Some (TrimSpace (rs_runId spec)) \<and>
     sw_slot (snd (ex_reconciled ''Succeeded'' RRunning)) ''s1'' = None"
proof (rule run_Reconcile_releases_only_at_end [OF mem_run_ctl_ok prod.collapse [symmetric]])
  show "sw_slot (snd (ex_reconciled ''Succeeded'' RRunning)) ''s1'' \<noteq> sw_slot (ex_run_world RRunning 1 False) ''s1''"
    by code_simp
qed

theorem run_Reconcile_ended_stable_witness:
  "rrs_phase (run_status (ex_run RSucceeded 1 False)) = RSucceeded \<and>
   (let w' = snd (ex_reconciled ''Succeeded'' RSucceeded) in
    (rt_runs w' ''r1'' = None \<or> (\<exists>r1. rt_runs w' ''r1'' = Some r1 \<and> run_status r1 = run_status (ex_run RSucceeded 1 False))) \<and>
    sw_slot w' ''s1'' = sw_slot (ex_run_world RSucceeded 1 False) ''s1'')"
proof -
  have v: "deriveInvalidStatus (ex_run RSucceeded 1 False) now = None" for now by code_simp
  have p: "rrs_phase (run_status (ex_run RSucceeded 1 False)) = RSucceeded"
    "rrs_observedGeneration (run_status (ex_run RSucceeded 1 False)) = om_generation (run_meta (ex_run RSucceeded 1 False))"
    by code_simp+
  show ?thesis
    unfolding Let_def
    by (rule conjI [OF p(1)], rule run_Reconcile_ended_stable [OF mem_run_ctl_ok _ _ p(2) _ prod.collapse [symmetric]])
      (simp_all add: ex_reconciled_facts p v run_isTerminalPhase_def)
qed

theorem run_Reconcile_end_frees_slot_witness:
  "sw_slot (snd (ex_reconciled ''Failed'' RRunning)) ''s1'' \<noteq> Some ''r1''"
proof -
  have "isr_ended (ex_reconciled ''Failed'' RRunning)" by code_simp
  then obtain res w' r1 where st: "ex_reconciled ''Failed'' RRunning = (Inr res, w')"
    and r1: "rt_runs w' ''r1'' = Some r1" "run_isTerminalPhase (rrs_phase (run_status r1))"
    by (auto simp: isr_ended_def split: prod.splits sum.splits option.splits)
  have "map_option (\<lambda>sp. (rs_sessionId sp, rs_runId sp)) (run_spec (ex_run RRunning 1 False)) = Some (''s1'', ''r1'')"
    by code_simp
  then obtain sp where sp: "run_spec (ex_run RRunning 1 False) = Some sp" "rs_sessionId sp = ''s1''" "rs_runId sp = ''r1''"
    by auto
  have ph: "rrs_phase (run_status (ex_run RRunning 1 False)) = RRunning" by code_simp
  have "sw_slot w' (TrimSpace (rs_sessionId sp)) \<noteq> Some (TrimSpace (rs_runId sp))"
    by (rule run_Reconcile_end_frees_slot [OF mem_run_ctl_ok _ _ st _ sp(1) _ r1])
      (simp_all add: ex_reconciled_facts ph run_isTerminalPhase_def)
  with st sp show ?thesis by simp
qed

text \<open>The run \<open>r1\<close> succeeded at generation 1; a cancel request made it generation 2.\<close>

theorem run_cancel_overwrites_success_witness:
  "rrs_phase (run_status (ex_run RSucceeded 2 True)) = RSucceeded \<and>
   (\<exists>r1. rt_runs (snd (run_Reconcile (ex_ctl ''Succeeded'') ''code-code'' ''r1'' (ex_run_world RSucceeded 2 True))) ''r1''
      = Some r1 \<and> rrs_phase (run_status r1) = RCanceled)"
proof -
  let ?r = "ex_run RSucceeded 2 True" and ?w = "ex_run_world RSucceeded 2 True" and ?c = "ex_ctl ''Succeeded''"
  have "isr_ended (run_Reconcile ?c ''code-code'' ''r1'' ?w)" by code_simp
  then obtain res w' where st: "run_Reconcile ?c (rctl_namespace ?c) ''r1'' ?w = (Inr res, w')"
    by (auto simp: isr_ended_def mem_run_ctl_def split: prod.splits sum.splits option.splits)
  have "map_option rs_cancelRequested (run_spec ?r) = Some True" by code_simp
  then obtain sp where sp: "run_spec ?r = Some sp" "rs_cancelRequested sp" by auto
  have f: "rrs_phase (run_status ?r) = RSucceeded" "rrs_observedGeneration (run_status ?r) \<noteq> om_generation (run_meta ?r)"
    "TrimSpace (rrs_workloadID (run_status ?r)) \<noteq> []" "om_deletionTimestamp (run_meta ?r) = None"
    "run_has_finalizer ?r" "om_name (run_meta ?r) = ''r1''" "deriveInvalidStatus ?r now = None" for now
    by code_simp+
  have get: "kube_Get (rctl_client ?c) (rctl_namespace ?c) ''r1'' ?w = (Inr ?r, ?w)"
    by (simp add: mem_run_ctl_def mem_kube_def mem_Get_def ex_reconciled_facts f)
  have "\<exists>r1. rt_runs w' ''r1'' = Some r1 \<and> rrs_phase (run_status r1) = RCanceled"
    by (rule run_cancel_overwrites_success [OF mem_run_ctl_ok get sp f(1-5) _ _ st])
      (simp_all add: f mem_run_ctl_def mem_workflow_def)
  with st f(1) show ?thesis by (simp add: mem_run_ctl_def)
qed

end
