(* ===== verification/Action_World.thy ===== *)
theory Action_World
  imports Action_Reconcile Runtime_World
begin

text \<open>
  The concrete world of the actions: one session, its runs, and a table of actions. The witnesses of
  the properties of the action reconciler live in it.
\<close>

definition mem_configMaps :: "(ConfigMap, 'w) kube" where
  "mem_configMaps = \<lparr>kube_Get = (\<lambda>ns n w. (Inl (api_not_found ''configmaps'' n), w)), kube_Create = (\<lambda>o' w. (Inr o', w)),
     kube_Update = (\<lambda>o' w. (Inr o', w)), kube_StatusUpdate = (\<lambda>o' w. (Inr o', w)), kube_retry = (\<lambda>f. f)\<rparr>"

definition mem_action_ctl :: "RetryPolicy \<Rightarrow> AgentSessionSpec rtworld ActionCtl" where
  "mem_action_ctl policy =
     \<lparr>actl_store = pg_actions mem_action_codec ex_pgs, actl_sessions = pg_sessions ex_codec ex_repo,
      actl_namespace = ''code-code'', actl_now = rt_now, actl_runs = ex_runs, actl_sink = Some mem_sink,
      actl_hash = (\<lambda>cfg. ''h''), actl_marshal = (\<lambda>cfg. Inr ''{}''), actl_configMaps = mem_configMaps,
      actl_policy = policy\<rparr>"

definition small_policy :: RetryPolicy where
  "small_policy = \<lparr>rp_maxRetries = 1, rp_baseBackoff = 2, rp_maxBackoff = 4\<rparr>"

abbreviation ex_actl :: "AgentSessionSpec rtworld ActionCtl" where
  "ex_actl \<equiv> mem_action_ctl small_policy"

text \<open>A turn of the session \<open>s1\<close>, and the world with some actions in its table.\<close>

definition ex_turn :: "string \<Rightarrow> time \<Rightarrow> bool \<Rightarrow> ActionResourcePhase \<Rightarrow> string \<Rightarrow> int \<Rightarrow> ActionResource" where
  "ex_turn i created stop phase rid attempts =
     (let r = new_action ''code-code'' i ''s1'' TypeRunTurn ''t1'' (SnapRunTurn ex_snapshot)
      in r\<lparr>ar_meta := (ar_meta r)\<lparr>om_generation := 1, om_resourceVersion := ''1'', om_creationTimestamp := created\<rparr>,
           ar_action := map_option (\<lambda>a. a\<lparr>as_stopRequested := stop\<rparr>) (ar_action r),
           ar_status := (ar_status r)\<lparr>act_phase := phase, act_runID := rid, act_attemptCount := attempts,
             act_createdAt := Some created\<rparr>\<rparr>)"

definition ex_actions_world ::
    "ActionResource list \<Rightarrow> string \<Rightarrow> (string \<Rightarrow> RunResource option) \<Rightarrow> AgentSessionSpec rtworld" where
  "ex_actions_world items active runs = (ex_world active runs)\<lparr>aw_db := \<lparr>adb_rows = map (\<lambda>r.
     \<lparr>arow_id = ar_name r, arow_payload = r, arow_generation = om_generation (ar_meta r),
      arow_createdAt = om_creationTimestamp (ar_meta r)\<rparr>) items, adb_outbox = []\<rparr>\<rparr>"

lemma mem_action_ctl_sel [simp]:
  "actl_store (mem_action_ctl p) = pg_actions mem_action_codec ex_pgs" "actl_runs (mem_action_ctl p) = ex_runs"
  "actl_now (mem_action_ctl p) = rt_now" "actl_policy (mem_action_ctl p) = p" "actl_namespace (mem_action_ctl p) = ''code-code''"
  by (simp_all add: mem_action_ctl_def)

lemma mem_runs_return: "run_svc_returns (mem_run_service codec r ns)"
  by (auto simp: run_svc_returns_def mem_run_service_def mem_kube_laws mem_Get_def split: option.splits if_splits)

lemma mem_kube_keeps_actions: "kube_frame aw_db mem_kube" "kube_frame aw_db mem_configMaps"
  unfolding kube_frame_def
  by (intro conjI mem_kube_laws(1); auto simp: frame_def mem_kube_def mem_Get_def mem_Create_def
      mem_Update_def mem_StatusUpdate_def mem_write_def Let_def mem_configMaps_def retry_law_def split: option.splits intro: exI [of _ 0])+

lemma mem_action_ctl_ok: "action_ctl_ok mem_action_codec ex_pgs ex_codec ex_repo (mem_action_ctl p)"
  by (auto simp: action_ctl_ok_def mem_action_ctl_def runs_keep_actions_def mem_run_service_def mem_kube_keeps_actions
      sink_frame_def mem_sink_def frame_def mem_Get_def split: option.splits)

text \<open>How the result of a derivation is inspected.\<close>

definition derived_status :: "derived \<times> 'w \<Rightarrow> ActionStatus" where
  "derived_status xw = (case fst xw of Inr (t, _) \<Rightarrow> t | Inl _ \<Rightarrow> empty_action_status)"

definition derived_res :: "derived \<times> 'w \<Rightarrow> CtrlResult" where
  "derived_res xw = (case fst xw of Inr (_, res) \<Rightarrow> res | Inl _ \<Rightarrow> no_requeue)"

lemma derived_split: "\<not> isl (fst x) \<Longrightarrow> x = (Inr (derived_status x, derived_res x), snd x)"
  by (cases x) (auto simp: derived_status_def derived_res_def isl_def split: sum.splits)

text \<open>The first reconciliation of a turn: it owns the queue and starts its run.\<close>

abbreviation ex_new :: ActionResource where
  "ex_new \<equiv> ex_turn ''a1'' 5 False APhaseUnset [] 0"

definition ex_first :: "derived \<times> AgentSessionSpec rtworld" where
  "ex_first = action_deriveStatus ex_actl ex_new (ex_actions_world [ex_new] [] Map.empty)"

text \<open>The check takes the derivation as an argument, so that it is evaluated once.\<close>

definition first_check :: "derived \<times> 'w \<Rightarrow> bool" where
  "first_check x \<longleftrightarrow> \<not> isl (fst x) \<and> act_attemptCount (derived_status x) = 1 \<and> act_phase (derived_status x) = ARunning \<and>
     act_runID (derived_status x) = ''a1''"

lemma ex_first_check: "first_check (action_deriveStatus ex_actl ex_new (ex_actions_world [ex_new] [] Map.empty))"
  by code_simp

lemma ex_first_facts:
  "\<not> isl (fst ex_first) \<and> act_attemptCount (derived_status ex_first) = 1 \<and> act_phase (derived_status ex_first) = ARunning \<and>
   act_runID (derived_status ex_first) = ''a1''"
  using ex_first_check by (simp only: first_check_def ex_first_def simp_thms)

lemma ex_first_derived:
  "action_deriveStatus ex_actl ex_new (ex_actions_world [ex_new] [] Map.empty) = (Inr (derived_status ex_first, derived_res ex_first), snd ex_first)"
  using derived_split ex_first_facts unfolding ex_first_def by blast

lemma TrimSpace_ids [simp]: "TrimSpace ''a1'' = ''a1''" "TrimSpace ''a2'' = ''a2''" "TrimSpace ''code-code'' = ''code-code''"
  by (rule TrimSpace_plain; simp add: plain_char_def)+

lemma ex_turn_sel [simp]:
  "act_phase (ar_status (ex_turn i k b ph rid n)) = ph" "act_runID (ar_status (ex_turn i k b ph rid n)) = rid"
  "act_retryCount (ar_status (ex_turn i k b ph rid n)) = 0" "act_attemptCount (ar_status (ex_turn i k b ph rid n)) = n"
  "ar_name (ex_turn i k b ph rid n) = i"
  "ar_action (ex_turn i k b ph rid n) = Some \<lparr>as_actionId = i, as_sessionId = ''s1'', as_type = TypeRunTurn, as_turnId = ''t1'',
     as_inputSnapshot = Some (SnapRunTurn ex_snapshot), as_stopRequested = b\<rparr>"
  by (simp_all add: ex_turn_def new_action_def empty_action_status_def Let_def)

lemma small_budget: "run_budget small_policy ex_snapshot = 4" "rp_maxRetries small_policy = 1"
  by (simp_all add: run_budget_def small_policy_def ex_snapshot_def)

lemma ex_new_turn: "is_turn ex_snapshot ''a1'' ex_new" "fresh_turn ex_new"
  by (simp_all add: is_turn_def fresh_turn_def get_run_turn_def)

lemma ex_turn_life: "turn_life ex_actl ex_new (ex_new\<lparr>ar_status := derived_status ex_first\<rparr>)"
  by (rule life_reconcile [OF life_new _ _ ex_first_derived]) (simp_all add: live_run_def action_isTerminalPhase_def)


theorem action_deriveStatus_refines_witness:
  "turn_step small_policy ex_snapshot ''a1'' ex_new (derived_status ex_first) \<and> act_phase (derived_status ex_first) = ARunning"
proof -
  have "turn_ok ex_actl ex_snapshot ''a1'' ex_new"
    using fresh_turn_inv [OF ex_new_turn(2), of small_policy ex_snapshot]
    by (simp add: turn_ok_def mem_runs_return small_budget get_run_turn_def action_isTerminalPhase_def)
  from action_deriveStatus_refines [OF this ex_first_derived] ex_first_facts show ?thesis
    by (simp add: live_run_def)
qed

text \<open>A retryable failure of the last retry of the first candidate: the turn falls back to the second one.\<close>

definition ex_failed_run :: AgentRunState where
  "ex_failed_run = (case runStateFromResource (Some ex_running) of Inr st \<Rightarrow>
     st\<lparr>rst_status := (rst_status st)\<lparr>ars_result := Some \<lparr>rr_status = RunStatusFailed, rr_resumeToken = [],
        rr_error = Some \<lparr>re_code = [], re_message = ''x'', re_retryable = True\<rparr>\<rparr>\<rparr>\<rparr>)"

definition ex_retried :: ActionResource where
  "ex_retried = (let r = ex_turn ''a1'' 5 False ARunning ''a1'' 1 in r\<lparr>ar_status := (ar_status r)\<lparr>act_retryCount := 1\<rparr>\<rparr>)"

theorem failedRunTurnStatus_budget_witness:
  "let t = failedRunTurnStatus ex_retried 9 ex_snapshot ex_failed_run small_policy in
   act_phase t = APending \<and> failures_left small_policy ex_snapshot ex_retried = Suc 1 \<and>
   failures_left small_policy ex_snapshot (ex_retried\<lparr>ar_status := t\<rparr>) = 1"
proof -
  have "runResultIsRetryable (ars_result (rst_status ex_failed_run)) = True"
    by code_simp
  moreover have "failures_left small_policy ex_snapshot ex_retried = Suc 1" "act_retryCount (ar_status ex_retried) = 1" by code_simp+
  ultimately show ?thesis
    using failedRunTurnStatus_budget [of ex_retried small_policy ex_snapshot _ 9 ex_failed_run True, OF _ _ _ refl]
    by (simp add: small_budget Let_def)
qed

end
