(* ===== verification/Action_Witnesses.thy ===== *)
theory Action_Witnesses
  imports Action_World
begin

text \<open>
  The properties of the action reconciler at concrete inputs: two turns of the session \<open>s1\<close>, one that
  is over and one that waits, runs that are missing or unreachable, and failing queries.
\<close>

lemma codec_transparent: "acd_unmarshal mem_action_codec = Inr" "acd_marshal mem_action_codec r = Inr (json_action r)"
  by (simp_all add: mem_action_codec_def)

lemma not_isl_split: "\<not> isl x \<Longrightarrow> \<exists>y. x = Inr y" "\<not> isl (fst z) \<Longrightarrow> \<exists>y w. z = (Inr y, w)"
  by (cases x, simp_all) (cases z, cases "fst z", simp_all)

text \<open>What the store reads back of a turn is the turn.\<close>

lemma ex_turn_meta:
  "ar_meta (ex_turn i k b ph rid n) = \<lparr>om_name = i, om_namespace = ''code-code'', om_generation = 1, om_resourceVersion = ''1'',
     om_labels = actionLabels ''s1'' TypeRunTurn, om_creationTimestamp = k, om_deletionTimestamp = None, om_finalizers = []\<rparr>"
  "act_createdAt (ar_status (ex_turn i k b ph rid n)) = Some k"
  "ar_apiVersion (ex_turn i k b ph rid n) \<noteq> []" "ar_kind (ex_turn i k b ph rid n) \<noteq> []"
  by (simp_all add: ex_turn_def new_action_def Let_def GroupVersion_def)

lemma show_one: "show_int 1 = ''1''"
  by code_simp

lemma ex_turn_read:
  assumes "k \<noteq> 0"
  shows "normalizeActionResource ns 1 now (ex_turn i k b ph rid n) = ex_turn i k b ph rid n"
    and "scanActionResource mem_action_codec \<lparr>arow_id = i', arow_payload = ex_turn i k b ph rid n, arow_generation = 1, arow_createdAt = k'\<rparr>
      = Inr (ex_turn i k b ph rid n)"
proof -
  have "(ex_turn i k b ph rid n)\<lparr>ar_meta := (ar_meta (ex_turn i k b ph rid n))\<lparr>om_generation := 1, om_resourceVersion := ''1''\<rparr>\<rparr>
      = ex_turn i k b ph rid n"
    by (simp add: ex_turn_def Let_def)
  moreover have "TrimSpace (om_namespace (ar_meta (ex_turn i k b ph rid n))) \<noteq> []" by (simp add: ex_turn_meta)
  ultimately show "normalizeActionResource ns 1 now (ex_turn i k b ph rid n) = ex_turn i k b ph rid n"
    "scanActionResource mem_action_codec \<lparr>arow_id = i', arow_payload = ex_turn i k b ph rid n, arow_generation = 1, arow_createdAt = k'\<rparr>
      = Inr (ex_turn i k b ph rid n)"
    using assms by (simp_all add: normalize_normalized scanActionResource_def ex_turn_meta codec_transparent show_one)
qed

lemma ex_list_one: "store_ListBySession mem_action_codec ex_pgs env ''s1'' (aw_db (ex_actions_world [ex_new] [] rs)) = Inr [ex_new]"
  if "se_query env = None"
proof -
  have "acd_namespace mem_action_codec ex_new = Some (pgs_namespace ex_pgs)" "acd_session mem_action_codec ex_new = Some ''s1''"
    by (simp_all add: mem_action_codec_def ex_turn_meta ex_pgs_def actionLabels_def)
  with that show ?thesis
    by (simp add: store_ListBySession_def session_rows_def ex_actions_world_def ex_turn_read sort_actions_def
        ex_turn_meta(1))
qed

text \<open>Two turns: \<open>a1\<close> waits for its first run, \<open>a2\<close> was created before and is over.\<close>

abbreviation ex_over :: ActionResource where
  "ex_over \<equiv> ex_turn ''a2'' 4 True ASucceeded ''a2'' 1"

definition ex_two :: "AgentSessionSpec rtworld" where
  "ex_two = ex_actions_world [ex_new, ex_over] [] Map.empty"

lemma ex_names: "names_ok [ex_new, ex_over]" "distinct (map ar_name [ex_new, ex_over])"
  by (simp_all add: names_ok_def)

theorem queueOwnerID_serialises_witness:
  "queueOwnerID (sort_actions [ex_new, ex_over]) = ''a1''"
proof -
  let ?items = "[ex_new, ex_over]"
  have f: "\<not> isActiveAction ex_new" "\<not> isActiveAction ex_over" "\<not> action_isTerminalPhase (act_phase (ar_status ex_new))"
    "action_isTerminalPhase (act_phase (ar_status ex_over))"
    by (simp_all add: isActiveAction_def action_isTerminalPhase_def)
  have "ex_new \<in> set ?items" by simp
  from queueOwnerID_serialises [OF ex_names, THEN conjunct2, rule_format, OF this] f show ?thesis by simp
qed

theorem action_deriveStatus_wf_witness: "wf_status 1 (derived_status ex_first)"
proof -
  have "om_generation (ar_meta ex_new) = 1" by (simp add: ex_turn_def Let_def)
  moreover have "wf_status (om_generation (ar_meta ex_new)) (derived_status ex_first)"
    by (rule action_deriveStatus_wf [OF ex_first_derived])
      (simp_all add: action_isTerminalPhase_def ex_actions_world_def ex_world_def)
  ultimately show ?thesis by simp
qed

lemma ex_two_rows [simp]:
  "adb_rows (aw_db ex_two) = [\<lparr>arow_id = ''a1'', arow_payload = ex_new, arow_generation = 1, arow_createdAt = 5\<rparr>,
     \<lparr>arow_id = ''a2'', arow_payload = ex_over, arow_generation = 1, arow_createdAt = 4\<rparr>]"
  by (simp add: ex_two_def ex_actions_world_def) (simp add: ex_turn_def Let_def)

lemma ex_two_env [simp]: "sw_env ex_two n = ex_env" "sw_tick ex_two = 0"
  by (simp_all add: ex_two_def ex_actions_world_def ex_world_def)

theorem action_Reconcile_over_witness:
  "act_phase (ar_status ex_over) = ASucceeded \<and>
   (\<exists>w1. action_Reconcile ex_actl ''code-code'' ''a2'' ex_two = (Inr no_requeue, w1) \<and> aw_db w1 = aw_db ex_two)"
proof -
  let ?w1 = "ex_two\<lparr>aw_db := aw_db ex_two, sw_tick := 1\<rparr>"
  have g: "astore_Get (actl_store ex_actl) ''a2'' ex_two = (Inr ex_over, ?w1)"
    by (simp add: pg_actions_def aw_call_def store_Get_def store_get_def row_by_id_def codec_transparent ex_turn_read ex_env_def)
  have i: "invalidStatus (Some ex_over) (actl_now ex_actl ?w1) = None" by (simp add: invalidStatus_None)
  have "action_Reconcile ex_actl ''code-code'' ''a2'' ex_two = (Inr no_requeue, ?w1)"
    using action_Reconcile_over [OF g _ i, of "''code-code''"] by (simp add: action_isTerminalPhase_def)
  then show ?thesis by simp
qed

theorem action_starts_alone_witness:
  "act_phase (derived_status ex_first) = ARunning \<and>
   (\<exists>items v. astore_ListBySession (actl_store ex_actl) ''s1'' (ex_actions_world [ex_new] [] Map.empty) = (Inr items, v) \<and>
     (\<forall>x \<in> set items. \<not> isActiveAction x))"
proof -
  let ?w = "ex_actions_world [ex_new] [] Map.empty"
  let ?a = "\<lparr>as_actionId = ''a1'', as_sessionId = ''s1'', as_type = TypeRunTurn, as_turnId = ''t1'',
     as_inputSnapshot = Some (SnapRunTurn ex_snapshot), as_stopRequested = False\<rparr>"
  have "se_query (sw_env ?w (sw_tick ?w)) = None" by (simp add: ex_actions_world_def ex_world_def ex_env_def)
  then have l: "astore_ListBySession (actl_store ex_actl) (TrimSpace (as_sessionId ?a)) ?w = (Inr items, v) \<Longrightarrow>
      names_ok items \<and> distinct (map ar_name items) \<and> ex_new \<in> set items" for items v
    by (auto simp: pg_actions_def aw_call_def ex_list_one names_ok_def)
  have p: "act_phase (derived_status ex_first) = ARunning" using ex_first_facts by blast
  have "\<not> isActiveAction ex_new" "\<not> action_isTerminalPhase (act_phase (ar_status ex_new))"
    by (simp_all add: isActiveAction_def action_isTerminalPhase_def)
  then have "\<exists>items v. astore_ListBySession (actl_store ex_actl) (TrimSpace (as_sessionId ?a)) ?w = (Inr items, v) \<and>
      (\<forall>x \<in> set items. \<not> isActiveAction x) \<and>
      (\<forall>x \<in> set items. \<not> action_isTerminalPhase (act_phase (ar_status x)) \<longrightarrow> queue_key ex_new \<le> queue_key x)"
    by (intro action_starts_alone [OF ex_first_derived p _ _ _ ex_turn_sel(6)] l) simp_all
  with p show ?thesis by (simp only: TrimSpace_ids ex_run_id ActionSpec.simps) blast
qed

section \<open>Missing and unreachable runs\<close>

text \<open>A running turn, a world without runs, and a client of the runs whose reads fail.\<close>

abbreviation ex_live :: "bool \<Rightarrow> ActionResource" where
  "ex_live stop \<equiv> ex_turn ''a1'' 5 stop ARunning ''a1'' 1"

abbreviation ex_live_world :: "bool \<Rightarrow> AgentSessionSpec rtworld" where
  "ex_live_world stop \<equiv> ex_actions_world [ex_live stop] [] Map.empty"

definition ex_offline :: "AgentSessionSpec rtworld ActionCtl" where
  "ex_offline = ex_actl\<lparr>actl_runs := ex_runs\<lparr>rsv_reader_Get := (\<lambda>ns n w. (Inl (ApiError ApiConflict ''timeout''), w))\<rparr>\<rparr>"

theorem stopped_turn_of_missing_run_stays_witness:
  "\<exists>t w'. action_deriveStatus ex_actl (ex_live True) (ex_live_world True) = (Inr (t, requeue_after runningRequeueAfter), w') \<and>
     act_phase t = ARunning \<and> act_runID t = ''a1''"
proof -
  have "rsv_reader_Get (actl_runs ex_actl) (rsv_namespace (actl_runs ex_actl)) (act_runID (ar_status (ex_live True))) (ex_live_world True)
      = (Inl (api_not_found ''agentruns'' ''a1''), ex_live_world True)"
    by (simp add: mem_run_service_def mem_Get_def ex_actions_world_def)
  moreover have "is_api_not_found (api_not_found ''agentruns'' ''a1'')" by (simp add: is_api_not_found_def api_not_found_def)
  ultimately show ?thesis
    using stopped_turn_of_missing_run_stays [of ex_actl "ex_live True" "ex_live_world True", OF _ _ ex_turn_sel(6)]
    by (fastforce simp: action_isTerminalPhase_def)
qed

theorem observation_error_forgets_run_witness:
  "\<exists>t res. fst (deriveRunTurnStatus ex_offline (ex_live False) (the (ar_action (ex_live False))) 9 (ex_live_world False))
      = Inr (t, res) \<and> act_phase t = APending \<and> act_runID t = [] \<and>
     fst (nextRunAttempt ((ex_live False)\<lparr>ar_status := t\<rparr>)) \<noteq> ''a1''"
proof -
  let ?r = "ex_live False" and ?w = "ex_live_world False"
  have "\<not> isl (fst (loadSession ex_offline ''s1'' ?w))" by code_simp
  then obtain session w1 where s: "loadSession ex_offline ''s1'' ?w = (Inr session, w1)"
    using not_isl_split(2) by blast
  let ?e = "ApiError ApiConflict ''timeout''"
  have g: "runs_Get (actl_runs ex_offline) (act_runID (ar_status ?r)) w1 = (Inl ?e, w1)"
    by (simp add: ex_offline_def runs_Get_def)
  have p: "actl_policy ex_offline = small_policy" by (simp add: ex_offline_def)
  have a: "act_runID (ar_status ?r) = attemptRunID ''a1'' (act_attemptCount (ar_status ?r))" by (simp add: attemptRunID_def)
  have sn: "get_run_turn (the (ar_action ?r)) = Some ex_snapshot" by (simp add: get_run_turn_def)
  have "\<exists>t res. deriveRunTurnStatus ex_offline ?r (the (ar_action ?r)) 9 ?w = (Inr (t, res), w1) \<and> act_phase t = APending \<and>
      act_runID t = [] \<and> nextRunAttempt (?r\<lparr>ar_status := t\<rparr>) = (attemptRunID (as_actionId (the (ar_action ?r))) (act_attemptCount (ar_status ?r) + 1),
        act_attemptCount (ar_status ?r) + 1) \<and> fst (nextRunAttempt (?r\<lparr>ar_status := t\<rparr>)) \<noteq> act_runID (ar_status ?r)"
    by (rule observation_error_forgets_run [OF _ sn _ _ _ _ _ _ _ _ g])
      (simp_all add: s p a [simplified, symmetric] small_budget is_api_not_found_def)
  then show ?thesis by auto
qed

section \<open>The table of actions\<close>

theorem action_Reconcile_writes_own_row_witness:
  "action_row (snd (action_Reconcile ex_actl ''code-code'' ''a1'' ex_two)) ''a2'' = action_row ex_two ''a2'' \<and>
   action_row (snd (action_Reconcile ex_actl ''code-code'' ''a1'' ex_two)) ''a1'' \<noteq> None \<and> action_row ex_two ''a1'' \<noteq> None"
  using action_Reconcile_writes_own_row [OF mem_action_ctl_ok [of small_policy] prod.collapse [symmetric], of "''a1''" "''code-code''" ex_two]
  by (simp add: action_row_def row_by_id_def)

definition ex_no_query :: "AgentSessionSpec rtworld" where
  "ex_no_query = ex_two\<lparr>sw_env := (\<lambda>n. ex_env\<lparr>se_query := Some (PlainError ''connection refused'')\<rparr>)\<rparr>"

theorem action_Reconcile_drops_on_database_error_witness:
  "fst (action_Reconcile ex_actl ''code-code'' ''a1'' ex_no_query) = Inr no_requeue \<and> action_row ex_no_query ''a1'' \<noteq> None"
proof -
  have "se_query (sw_env ex_no_query (sw_tick ex_no_query)) = Some (PlainError ''connection refused'')" by (simp add: ex_no_query_def)
  from action_Reconcile_drops_on_database_error [OF mem_action_ctl_sel(1) [of small_policy] this, of "''a1''"]
  show ?thesis by (simp add: action_row_def row_by_id_def ex_no_query_def)
qed

section \<open>Prepare jobs\<close>

definition ex_auth2 :: AgentRunAuthRequirement where
  "ex_auth2 = ex_auth\<lparr>auth_providerSurfaceBindingId := ''b2''\<rparr>"

definition ex_prepared :: RunTurnSnapshot where
  "ex_prepared = ex_snapshot\<lparr>sn_prepareJobs := (case prepareJobsForSession (Some ex_spec) (Some ex_auth) of Inr jobs \<Rightarrow> map Some jobs),
     sn_runtimeCandidates := [Some \<lparr>cand_resolvedProviderModel = Some (ex_model ''m1''), cand_authRequirement = Some ex_auth\<rparr>,
        Some \<lparr>cand_resolvedProviderModel = Some (ex_model ''m2''), cand_authRequirement = Some ex_auth2\<rparr>]\<rparr>"

theorem rebind_is_rebuild_witness:
  "\<exists>t jobs'. snapshotForCandidate (Some ex_prepared) 1 ''r2'' = Inr t \<and> sn_authRequirement t = Some ex_auth2 \<and>
     prepareJobsForSession (Some ex_spec) (Some ex_auth2) = Inr jobs' \<and> sn_prepareJobs t = map Some jobs'"
proof -
  have j: "\<not> isl (prepareJobsForSession (Some ex_spec) (Some ex_auth))" by code_simp
  then obtain jobs where jobs: "prepareJobsForSession (Some ex_spec) (Some ex_auth) = Inr jobs"
    using not_isl_split(1) by blast
  then have p: "sn_prepareJobs ex_prepared = map Some jobs" by (simp add: ex_prepared_def)
  obtain t where t: "snapshotForCandidate (Some ex_prepared) 1 ''r2'' = Inr t" "sn_authRequirement t = Some ex_auth2"
    by (simp add: snapshotForCandidate_def Let_def ex_prepared_def)
  from rebind_is_rebuild [OF jobs t(1) p t(2)] t show ?thesis by blast
qed

end
