(* ===== verification/Action_Service.thy ===== *)
theory Action_Service
  imports Action_Reconcile
begin

text \<open>
  The action service (\<open>agentsessionactions/service.go\<close>, \<open>control.go\<close>, \<open>service_reset.go\<close>,
  \<open>request.go\<close>): it admits turns and resets of a session, stops actions, and retries turns that ended
  without success. \<open>meta.FindStatusCondition\<close> of the Kubernetes API machinery is the parameter
  \<open>asv_find\<close>; the random bytes of generated ids are \<open>asv_rand\<close>.
\<close>

record 'w ActionSvc =
  asv_store :: "'w ActionStore"
  asv_sessions :: "'w SessionRepository"
  asv_namespace :: string
  asv_resolver :: "'w resolver"
  asv_sink :: "'w Sink option"
  asv_now :: "'w \<Rightarrow> time"
  asv_find :: "MetaCondition list \<Rightarrow> string \<Rightarrow> MetaCondition option"
  asv_rand :: "'w \<Rightarrow> nat list result"

definition find_status_ok :: "(MetaCondition list \<Rightarrow> string \<Rightarrow> MetaCondition option) \<Rightarrow> bool" where
  "find_status_ok f \<longleftrightarrow> (\<forall>cs t. f cs t = find (\<lambda>c. mc_type c = t) cs)"

definition actions_record ::
    "'w ActionSvc \<Rightarrow> string \<Rightarrow> string \<Rightarrow> string \<Rightarrow> string \<Rightarrow> attributes \<Rightarrow> 'w \<Rightarrow> 'w" where
  "actions_record s sessionID eventType subject action attrs w =
     recordTimelineEvent (asv_sink s) (asv_now s w) sessionID eventType subject action attrs w"

section \<open>Reading\<close>

definition getActionResource :: "'w ActionSvc \<Rightarrow> string \<Rightarrow> 'w \<Rightarrow> ActionResource result \<times> 'w" where
  "getActionResource s actionID w =
     (let actionID = TrimSpace actionID in
      if actionID = [] then (Inl (action_validation ''action_id is required''), w)
      else case astore_Get (asv_store s) actionID w of
        (Inl e, w) \<Rightarrow>
          (if is_api_not_found e
           then (Inl (DomainNotFound (''platformk8s/agentsessionactions: action '' @ go_quote actionID @ '' not found'')), w)
           else (Inl e, w))
      | (Inr r, w) \<Rightarrow> (Inr r, w))"

definition actions_Get :: "'w ActionSvc \<Rightarrow> string \<Rightarrow> 'w \<Rightarrow> ActionState result \<times> 'w" where
  "actions_Get s actionID w =
     (case getActionResource s actionID w of (Inl e, w) \<Rightarrow> (Inl e, w) | (Inr r, w) \<Rightarrow> (actionStateFromResource (Some r), w))"

section \<open>Turns\<close>

definition session_says :: "string \<Rightarrow> string \<Rightarrow> go_error" where
  "session_says sessionID what = action_validation (''session '' @ go_quote sessionID @ what)"

definition loadReadySession :: "'w ActionSvc \<Rightarrow> string \<Rightarrow> 'w \<Rightarrow> SessionResource result \<times> 'w" where
  "loadReadySession s sessionID w =
     (case sess_Get (asv_sessions s) sessionID w of (Inl e, w) \<Rightarrow> (Inl e, w)
      | (Inr state, w) \<Rightarrow>
        (case ResourceFromState (Some state) (asv_namespace s) of Inl e \<Rightarrow> (Inl e, w)
         | Inr r \<Rightarrow>
           (let g = om_generation (sr_meta r); st = sr_status r in
            if sr_session r = None then (Inl (session_says sessionID '' is missing payload''), w)
            else case asv_find s (srs_conditions st) ''ReadyForNextRun'' of
              None \<Rightarrow> (Inl (session_says sessionID '' is not ready for next run''), w)
            | Some condition \<Rightarrow>
              if mc_status condition \<noteq> MetaTrue then (Inl (session_says sessionID '' is not ready for next run''), w)
              else if mc_observedGeneration condition \<noteq> g then (Inl (session_says sessionID '' readiness is stale''), w)
              else if srs_runtimeConfigGeneration st \<noteq> g then (Inl (session_says sessionID '' runtime config generation is stale''), w)
              else if srs_resourceConfigGeneration st \<noteq> g then (Inl (session_says sessionID '' resource config generation is stale''), w)
              else case astore_HasNonterminalResetWarmState (asv_store s) sessionID w of
                (Inl e, w) \<Rightarrow> (Inl e, w)
              | (Inr True, w) \<Rightarrow> (Inl (session_says sessionID '' warm state reset is in progress''), w)
              | (Inr False, w) \<Rightarrow> (Inr r, w))))"

definition normalizeTurnID :: "string \<Rightarrow> string" where
  "normalizeTurnID value = TrimSpace value"

text \<open>Storing a new action, with the error of the store translated, and the record of its submission.\<close>

definition submit_action ::
    "'w ActionSvc \<Rightarrow> string \<Rightarrow> ActionResource \<Rightarrow> 'w \<Rightarrow> ActionState result \<times> 'w" where
  "submit_action s sessionID r w =
     (case astore_Create (asv_store s) r w of
        (Inl e, w) \<Rightarrow>
          (if is_api_already_exists e \<or> is_api_conflict e
           then (Inl (DomainAlreadyExists (''platformk8s/agentsessionactions: action '' @ go_quote (ar_name r) @ '' already exists'')), w)
           else (Inl e, w))
      | (Inr stored, w) \<Rightarrow>
        (actionStateFromResource (Some stored),
         actions_record s sessionID ''SUBMITTED'' ''action'' ''create''
           [(''action_id'', ar_name r), (''type'', action_type_name (getf TypeUnspecified as_type (ar_action r)))] w))"

definition actions_Create :: "'w ActionSvc \<Rightarrow> string \<Rightarrow> CreateRequest option \<Rightarrow> 'w \<Rightarrow> ActionState result \<times> 'w" where
  "actions_Create s sessionID request w =
     (let sessionID = TrimSpace sessionID in
      if sessionID = [] then (Inl (action_validation ''session_id is required''), w)
      else case loadReadySession s sessionID w of (Inl e, w) \<Rightarrow> (Inl e, w)
      | (Inr session, w) \<Rightarrow>
        (case buildRunTurnSnapshot (asv_resolver s) session request w of (Inl e, w) \<Rightarrow> (Inl e, w)
         | (Inr snapshot, w) \<Rightarrow>
           (case EnsureResourceID (asv_rand s w) (TrimSpace (getf [] crq_ActionID request)) sessionID ''action'' of
              Inl e \<Rightarrow> (Inl e, w)
            | Inr actionID \<Rightarrow>
              submit_action s sessionID (new_action (asv_namespace s) actionID sessionID TypeRunTurn
                (normalizeTurnID (getf [] crq_TurnID request)) (SnapRunTurn snapshot)) w)))"

section \<open>Stopping and retrying\<close>

definition request_stop :: "string \<Rightarrow> ActionResource \<Rightarrow> ActionResource result" where
  "request_stop name current =
     (case ar_action current of
        None \<Rightarrow> Inl (action_validation (''action '' @ go_quote name @ '' is missing payload''))
      | Some a \<Rightarrow> Inr (current\<lparr>ar_action := Some (a\<lparr>as_stopRequested := True\<rparr>)\<rparr>))"

definition actions_Stop :: "'w ActionSvc \<Rightarrow> string \<Rightarrow> 'w \<Rightarrow> ActionState result \<times> 'w" where
  "actions_Stop s actionID w =
     (case getActionResource s actionID w of (Inl e, w) \<Rightarrow> (Inl e, w)
      | (Inr r, w) \<Rightarrow>
        let name = ar_name r in
        (case ar_action r of
           None \<Rightarrow> (Inl (action_validation (''action '' @ go_quote name @ '' is missing payload'')), w)
         | Some a \<Rightarrow>
           if action_isTerminalPhase (act_phase (ar_status r)) \<or> as_stopRequested a then (actionStateFromResource (Some r), w)
           else case astore_Update (asv_store s) name (request_stop name) w of
             (Inl e, w) \<Rightarrow>
               (if is_api_not_found e
                then (Inl (DomainNotFound (''platformk8s/agentsessionactions: action '' @ go_quote name @ '' not found'')), w)
                else (Inl e, w))
           | (Inr _, w) \<Rightarrow>
             (case getActionResource s name w of (Inl e, w) \<Rightarrow> (Inl e, w)
              | (Inr updated, w) \<Rightarrow>
                (actionStateFromResource (Some updated),
                 actions_record s (getf [] as_sessionId (ar_action updated)) ''STOP_REQUESTED'' ''action'' ''stop''
                   [(''action_id'', getf [] as_actionId (ar_action updated)),
                    (''type'', action_type_name (getf TypeUnspecified as_type (ar_action updated)))] w))))"

definition validateRetrySource :: "ActionResource option \<Rightarrow> unit result" where
  "validateRetrySource resource =
     (case resource of None \<Rightarrow> Inl (action_validation ''source action is invalid'') | Some r \<Rightarrow>
      (case ar_action r of None \<Rightarrow> Inl (action_validation ''source action is invalid'') | Some a \<Rightarrow>
       if as_type a \<noteq> TypeRunTurn
       then Inl (action_validation (''action '' @ go_quote (ar_name r) @ '' is not a run_turn action''))
       else if act_phase (ar_status r) \<noteq> AFailed \<and> act_phase (ar_status r) \<noteq> ACanceled
       then Inl (action_validation (''action '' @ go_quote (ar_name r) @ '' is not terminal retryable''))
       else (case get_run_turn a of
           None \<Rightarrow> Inl (action_validation (''action '' @ go_quote (ar_name r) @ '' is missing source run_request''))
         | Some snapshot \<Rightarrow>
           if sn_runRequest snapshot = None
           then Inl (action_validation (''action '' @ go_quote (ar_name r) @ '' is missing source run_request''))
           else Inr ())))"

type_synonym RetryRequest = string

definition retryTurnID :: "RetryRequest option \<Rightarrow> string" where
  "retryTurnID request = (case request of None \<Rightarrow> [] | Some turnID \<Rightarrow> TrimSpace turnID)"

definition retry_request :: "ActionResource \<Rightarrow> RetryRequest option \<Rightarrow> CreateRequest" where
  "retry_request r request =
     \<lparr>crq_ActionID = retryTurnID request, crq_TurnID = retryTurnID request,
      crq_RunRequest = getf None sn_runRequest (getf None get_run_turn (ar_action r))\<rparr>"

definition actions_Retry :: "'w ActionSvc \<Rightarrow> string \<Rightarrow> RetryRequest option \<Rightarrow> 'w \<Rightarrow> ActionState result \<times> 'w" where
  "actions_Retry s sourceActionID request w =
     (case getActionResource s sourceActionID w of (Inl e, w) \<Rightarrow> (Inl e, w)
      | (Inr r, w) \<Rightarrow>
        (case validateRetrySource (Some r) of Inl e \<Rightarrow> (Inl e, w)
         | Inr _ \<Rightarrow>
           (case actions_Create s (getf [] as_sessionId (ar_action r)) (Some (retry_request r request)) w of
              (Inl e, w) \<Rightarrow> (Inl e, w)
            | (Inr next, w) \<Rightarrow>
              (Inr next, actions_record s (getf [] as_sessionId (ar_action r)) ''RETRIED'' ''action'' ''retry''
                 [(''source_action_id'', getf [] as_actionId (ar_action r)), (''action_id'', as_actionId (acs_spec next))] w))))"

section \<open>Resetting the warm state\<close>

definition loadSessionForWarmStateReset :: "'w ActionSvc \<Rightarrow> string \<Rightarrow> 'w \<Rightarrow> SessionResource result \<times> 'w" where
  "loadSessionForWarmStateReset s sessionID w =
     (let sessionID = TrimSpace sessionID in
      if sessionID = [] then (Inl (action_validation ''session_id is required''), w)
      else case sess_Get (asv_sessions s) sessionID w of (Inl e, w) \<Rightarrow> (Inl e, w)
      | (Inr state, w) \<Rightarrow>
        (case ResourceFromState (Some state) (asv_namespace s) of Inl e \<Rightarrow> (Inl e, w)
         | Inr r \<Rightarrow>
           (case sr_session r of None \<Rightarrow> (Inl (session_says sessionID '' is missing payload''), w)
            | Some spec \<Rightarrow>
              if session_homeState spec = []
              then (Inl (session_says sessionID '' home_state_ref.home_state_id is required''), w)
              else (Inr r, w))))"

definition buildResetWarmStateSnapshot :: "nat list result \<Rightarrow> SessionResource option \<Rightarrow> ResetWarmStateSnapshot result" where
  "buildResetWarmStateSnapshot rand session =
     (case session of None \<Rightarrow> Inl (action_validation ''session is invalid'') | Some r \<Rightarrow>
      (case sr_session r of None \<Rightarrow> Inl (action_validation ''session is invalid'') | Some spec \<Rightarrow>
       (let source = session_homeState spec in
        case EnsureResourceID rand [] source ''home-state'' of Inl e \<Rightarrow> Inl e
        | Inr target \<Rightarrow>
          if target = source then Inl (action_validation ''target home_state_id must differ from source'')
          else Inr \<lparr>rw_sessionGeneration = om_generation (sr_meta r), rw_sourceHomeStateId = source,
                     rw_targetHomeStateId = target\<rparr>)))"

text \<open>The request is its action id; the two ids are drawn one after the other: \<open>rand2\<close> is the second draw.\<close>

definition actions_ResetWarmState ::
    "('w \<Rightarrow> nat list result) \<Rightarrow> 'w ActionSvc \<Rightarrow> string \<Rightarrow> string option \<Rightarrow> 'w \<Rightarrow> ActionState result \<times> 'w" where
  "actions_ResetWarmState rand2 s sessionID request w =
     (case loadSessionForWarmStateReset s sessionID w of (Inl e, w) \<Rightarrow> (Inl e, w)
      | (Inr session, w) \<Rightarrow>
        (let sid = getf [] ss_sessionId (sr_session session) in
         case astore_HasNonterminalResetWarmState (asv_store s) sid w of (Inl e, w) \<Rightarrow> (Inl e, w)
         | (Inr True, w) \<Rightarrow> (Inl (session_says sid '' already has a warm state reset in progress''), w)
         | (Inr False, w) \<Rightarrow>
           (case buildResetWarmStateSnapshot (asv_rand s w) (Some session) of Inl e \<Rightarrow> (Inl e, w)
            | Inr snapshot \<Rightarrow>
              (case EnsureResourceID (rand2 w) (TrimSpace (getf [] id request)) sid ''reset-warm-state'' of Inl e \<Rightarrow> (Inl e, w)
               | Inr actionID \<Rightarrow>
                 submit_action s sid (new_action (asv_namespace s) actionID sid TypeResetWarmState [] (SnapReset snapshot)) w))))"

end
