(* ===== verification/Action_Table.thy ===== *)
theory Action_Table
  imports Action_Service
begin

text \<open>
  The table of actions as a whole: every operation of the service and of the reconciler keeps it in
  order, and at most one action of a session is active at any time.
\<close>

section \<open>Rows in order\<close>

definition session_of :: "ActionResource \<Rightarrow> string" where
  "session_of r = TrimSpace (getf [] as_sessionId (ar_action r))"

definition stored_ok :: "string \<Rightarrow> ActionResource \<Rightarrow> bool" where
  "stored_ok ns r \<longleftrightarrow> ar_action r \<noteq> None \<and> map_of (om_labels (ar_meta r)) sessionIDLabelKey = Some (session_of r) \<and>
     om_namespace (ar_meta r) = ns \<and> TrimSpace (ar_name r) = ar_name r \<and> ar_name r \<noteq> [] \<and>
     TrimSpace (act_runID (ar_status r)) = act_runID (ar_status r)"

definition arow_ok :: "'p action_codec \<Rightarrow> string \<Rightarrow> 'p ActionRow \<Rightarrow> bool" where
  "arow_ok cd ns row \<longleftrightarrow> (\<exists>r. acd_unmarshal cd (arow_payload row) = Inr r \<and> ar_name r = arow_id row \<and> stored_ok ns r \<and>
     acd_namespace cd (arow_payload row) = Some ns \<and> acd_session cd (arow_payload row) = Some (session_of r))"

definition active_ids :: "'p action_codec \<Rightarrow> 'p adb \<Rightarrow> string \<Rightarrow> string set" where
  "active_ids cd db sid = {arow_id row |row r. row \<in> set (adb_rows db) \<and> acd_unmarshal cd (arow_payload row) = Inr r \<and>
     session_of r = sid \<and> isActiveAction r}"

definition table_ok :: "'p action_codec \<Rightarrow> string \<Rightarrow> 'p adb \<Rightarrow> bool" where
  "table_ok cd ns db \<longleftrightarrow> distinct (map arow_id (adb_rows db)) \<and> (\<forall>row \<in> set (adb_rows db). arow_ok cd ns row) \<and>
     (\<forall>sid. \<forall>i \<in> active_ids cd db sid. \<forall>j \<in> active_ids cd db sid. i = j)"

text \<open>Documents and normalization keep what the table is about.\<close>

lemma session_of_cong: "ar_action r' = ar_action r \<Longrightarrow> session_of r' = session_of r"
  by (simp add: session_of_def)

lemma isActive_cong: "act_phase (ar_status r') = act_phase (ar_status r) \<Longrightarrow> act_runID (ar_status r') = act_runID (ar_status r) \<Longrightarrow>
    isActiveAction r' = isActiveAction r"
  by (simp add: isActiveAction_def)

lemma json_fields [simp]:
  "ar_name (json_action r) = ar_name r" "ar_action (json_action r) = ar_action r"
  "om_labels (ar_meta (json_action r)) = om_labels (ar_meta r)" "om_namespace (ar_meta (json_action r)) = om_namespace (ar_meta r)"
  "act_phase (ar_status (json_action r)) = act_phase (ar_status r)" "act_runID (ar_status (json_action r)) = act_runID (ar_status r)"
  by (simp_all add: json_action_def)

lemma normalize_keeps [simp]:
  "om_labels (ar_meta (normalizeActionResource ns g now r)) = om_labels (ar_meta r)"
  "act_phase (ar_status (normalizeActionResource ns g now r)) = act_phase (ar_status r)"
  "act_runID (ar_status (normalizeActionResource ns g now r)) = act_runID (ar_status r)"
  "TrimSpace (om_namespace (ar_meta r)) \<noteq> [] \<Longrightarrow> om_namespace (ar_meta (normalizeActionResource ns g now r)) = om_namespace (ar_meta r)"
  by (simp_all add: normalizeActionResource_def Let_def)

lemma stored_ok_cong:
  "stored_ok ns r \<Longrightarrow> ar_name r' = ar_name r \<Longrightarrow> ar_action r' = ar_action r \<Longrightarrow> om_labels (ar_meta r') = om_labels (ar_meta r) \<Longrightarrow>
    om_namespace (ar_meta r') = om_namespace (ar_meta r) \<Longrightarrow> act_runID (ar_status r') = act_runID (ar_status r) \<Longrightarrow> stored_ok ns r'"
  by (simp add: stored_ok_def session_of_def)

lemma stored_ok_json: "stored_ok ns r \<Longrightarrow> stored_ok ns (json_action r)"
  by (rule stored_ok_cong) simp_all

lemma stored_ok_normalize: "stored_ok ns r \<Longrightarrow> TrimSpace ns \<noteq> [] \<Longrightarrow> stored_ok ns (normalizeActionResource ns' g now r)"
  by (rule stored_ok_cong) (simp_all add: stored_ok_def)

lemma json_session [simp]: "session_of (json_action r) = session_of r" "isActiveAction (json_action r) = isActiveAction r"
  by (simp_all add: session_of_def isActiveAction_def)

lemma normalize_session [simp]: "session_of (normalizeActionResource ns g now r) = session_of r"
  "isActiveAction (normalizeActionResource ns g now r) = isActiveAction r"
  by (simp_all add: session_of_def isActiveAction_def)

lemma arow_ok_written:
  assumes "action_codec_ok cd" and "acd_marshal cd r = Inr (arow_payload row)" and "stored_ok ns r" and "arow_id row = ar_name r" and "ns \<noteq> []"
  shows "arow_ok cd ns row" and "acd_unmarshal cd (arow_payload row) = Inr (json_action r)"
proof -
  from assms(1,2) have c: "acd_unmarshal cd (arow_payload row) = Inr (json_action r)"
    "acd_namespace cd (arow_payload row) = (if om_namespace (ar_meta r) = [] then None else Some (om_namespace (ar_meta r)))"
    "acd_session cd (arow_payload row) = map_of (om_labels (ar_meta r)) sessionIDLabelKey"
    by (simp_all add: action_codec_ok_def)
  show "acd_unmarshal cd (arow_payload row) = Inr (json_action r)" by (fact c(1))
  from stored_ok_json [OF assms(3)] c assms(3-5) show "arow_ok cd ns row"
    by (auto simp: arow_ok_def stored_ok_def session_of_def)
qed

text \<open>A row is found by its id, which is the name of the action in it.\<close>

lemma row_by_id_in: "row_by_id i db = Some row \<Longrightarrow> row \<in> set (adb_rows db) \<and> arow_id row = i"
  by (auto simp: row_by_id_def find_Some_iff)

lemma row_by_id_none: "row_by_id i db = None \<longleftrightarrow> i \<notin> arow_id ` set (adb_rows db)"
  by (auto simp: row_by_id_def find_None_iff)

lemma table_row: "table_ok cd ns db \<Longrightarrow> row \<in> set (adb_rows db) \<Longrightarrow> arow_ok cd ns row"
  by (simp add: table_ok_def)

lemma found_row:
  assumes "table_ok cd ns db" and "row_by_id i db = Some row" and "acd_unmarshal cd (arow_payload row) = Inr d"
  shows "ar_name d = i" and "stored_ok ns d" and "TrimSpace i = i" and "ar_action d \<noteq> None"
  using table_row [OF assms(1), of row] row_by_id_in [OF assms(2)] assms(3) by (auto simp: arow_ok_def stored_ok_def)

lemma table_same_rows: "adb_rows db' = adb_rows db \<Longrightarrow> table_ok cd ns db' = table_ok cd ns db"
  by (simp add: table_ok_def active_ids_def)

section \<open>Inserting and updating\<close>

lemma store_Create_rows:
  assumes "store_Create cd s env r db = (x, db')"
  shows "adb_rows db' = adb_rows db \<and> isl x \<or> (\<exists>r1 row. x = Inr r1 \<and> r1 = normalizeActionResource (pgs_namespace s) 1 (se_now env) r \<and>
    acd_marshal cd r1 = Inr (arow_payload row) \<and> row_by_id (ar_name r) db = None \<and> arow_id row = ar_name r \<and>
    adb_rows db' = adb_rows db @ [row])"
proof (cases x)
  case (Inl e)
  with assms show ?thesis by (auto simp: store_Create_def Let_def split: if_splits sum.splits dest: doTx_fails)
next
  case (Inr r1)
  with assms show ?thesis
    by (fastforce simp: store_Create_def Let_def split: if_splits sum.splits option.splits prod.splits
        dest!: doTx_result store_enqueue_rows)
qed

lemma active_append:
  assumes "adb_rows db' = adb_rows db @ [row]" and "acd_unmarshal cd (arow_payload row) = Inr r" and "\<not> isActiveAction r"
  shows "active_ids cd db' sid = active_ids cd db sid"
  using assms by (auto simp: active_ids_def)

lemma table_append:
  assumes "table_ok cd ns db" and "adb_rows db' = adb_rows db @ [row]" and "acd_unmarshal cd (arow_payload row) = Inr r"
    and "\<not> isActiveAction r" and "arow_ok cd ns row" and "row_by_id (arow_id row) db = None"
  shows "table_ok cd ns db'"
  using assms active_append [OF assms(2-4)] by (auto simp: table_ok_def row_by_id_none)

lemma store_Create_table:
  assumes t: "table_ok cd (pgs_namespace s) db" and cd: "action_codec_ok cd" and ns: "TrimSpace (pgs_namespace s) \<noteq> []"
    and r: "stored_ok (pgs_namespace s) r" "\<not> isActiveAction r" and c: "store_Create cd s env r db = (x, db')"
  shows "table_ok cd (pgs_namespace s) db'"
  using store_Create_rows [OF c]
proof (elim disjE exE conjE)
  fix r1 row
  assume r1: "r1 = normalizeActionResource (pgs_namespace s) 1 (se_now env) r" and m: "acd_marshal cd r1 = Inr (arow_payload row)"
    and f: "row_by_id (ar_name r) db = None" "arow_id row = ar_name r" "adb_rows db' = adb_rows db @ [row]"
  from ns have "pgs_namespace s \<noteq> []" by auto
  from arow_ok_written [OF cd m _ _ this] stored_ok_normalize [OF r(1) ns] f(2) r1
  have "arow_ok cd (pgs_namespace s) row" "acd_unmarshal cd (arow_payload row) = Inr (json_action r1)" by simp_all
  then show ?thesis using table_append [OF t f(3), of "json_action r1"] f(1,2) r(2) r1 by simp
qed (use t table_same_rows in blast)

lemma active_update:
  assumes "adb_rows db' = map (\<lambda>row. if arow_id row = i then row\<lparr>arow_payload := p, arow_generation := g\<rparr> else row) (adb_rows db)"
    and "acd_unmarshal cd p = Inr r'" and "row_by_id i db = Some row0"
    and "acd_unmarshal cd (arow_payload row0) = Inr r0" and "session_of r' = session_of r0" and "distinct (map arow_id (adb_rows db))"
    and alone: "isActiveAction r' \<Longrightarrow> isActiveAction r0 \<or> active_ids cd db (session_of r0) = {}"
    and serial: "\<And>sid i j. i \<in> active_ids cd db sid \<Longrightarrow> j \<in> active_ids cd db sid \<Longrightarrow> i = j"
  shows "k \<in> active_ids cd db' sid \<Longrightarrow> l \<in> active_ids cd db' sid \<Longrightarrow> k = l"
proof -
  have sub: "active_ids cd db' sid \<subseteq> (active_ids cd db sid - {i}) \<union> (if isActiveAction r' \<and> session_of r0 = sid then {i} else {})"
  proof
    fix m assume "m \<in> active_ids cd db' sid"
    then obtain row r where row: "row \<in> set (adb_rows db)" and m: "m = arow_id row"
      and u: "acd_unmarshal cd (if arow_id row = i then p else arow_payload row) = Inr r" "session_of r = sid" "isActiveAction r"
      unfolding active_ids_def assms(1) by (auto split: if_splits)
    show "m \<in> (active_ids cd db sid - {i}) \<union> (if isActiveAction r' \<and> session_of r0 = sid then {i} else {})"
    proof (cases "arow_id row = i")
      case True
      with u assms(2) have "r = r'" by simp
      with u(2,3) True m assms(5) show ?thesis by simp
    next
      case False
      with u row m show ?thesis unfolding active_ids_def by auto
    qed
  qed
  have i: "isActiveAction r0 \<Longrightarrow> i \<in> active_ids cd db (session_of r0)"
    using row_by_id_in [OF assms(3)] assms(4) by (auto simp: active_ids_def)
  assume k: "k \<in> active_ids cd db' sid" "l \<in> active_ids cd db' sid"
  show "k = l"
  proof (cases "isActiveAction r' \<and> session_of r0 = sid")
    case True
    with alone i serial [of _ sid i] have "active_ids cd db sid \<subseteq> {i}" by blast
    with sub True have "active_ids cd db' sid \<subseteq> {i}" by auto
    with k show ?thesis by blast
  next
    case False
    with sub have "active_ids cd db' sid \<subseteq> active_ids cd db sid" by (auto split: if_splits)
    with k serial show ?thesis by blast
  qed
qed

lemma store_get_row:
  assumes "store_get cd s env i db = Inr (r, g)"
  obtains row d where "row_by_id i db = Some row" and "acd_unmarshal cd (arow_payload row) = Inr d"
    and "r = normalizeActionResource (pgs_namespace s) (arow_generation row) (se_now env) d" and "g = arow_generation row"
  using assms by (auto simp: store_get_def split: if_splits option.splits sum.splits)

lemma store_Get_row:
  assumes "store_Get cd s env i db = Inr r"
  obtains row d where "row_by_id (TrimSpace i) db = Some row" and "acd_unmarshal cd (arow_payload row) = Inr d"
    and "r = normalizeActionResource (pgs_namespace s) (arow_generation row) (se_now env) d"
proof (cases "store_get cd s env (TrimSpace i) db")
  case (Inr y)
  with assms have "store_get cd s env (TrimSpace i) db = Inr (r, snd y)" by (cases y) (simp add: store_Get_def)
  with that show ?thesis by (elim store_get_row)
qed (use assms in \<open>simp add: store_Get_def\<close>)

text \<open>An update that keeps the identity of the action, and activates it only if no action of its session is active.\<close>

lemma store_update_table:
  assumes t: "table_ok cd (pgs_namespace s) db" and cd: "action_codec_ok cd" and ns: "TrimSpace (pgs_namespace s) \<noteq> []"
    and u: "store_update cd s env i inc m mut db = (x, db')"
    and keeps: "\<And>r0 r1. store_Get cd s env i db = Inr r0 \<Longrightarrow> mut r0 = Inr r1 \<Longrightarrow> stored_ok (pgs_namespace s) r0 \<Longrightarrow>
      stored_ok (pgs_namespace s) r1 \<and> ar_name r1 = ar_name r0 \<and> session_of r1 = session_of r0 \<and>
      (isActiveAction r1 \<longrightarrow> isActiveAction r0 \<or> active_ids cd db (session_of r0) = {})"
  shows "table_ok cd (pgs_namespace s) db'"
proof (cases x)
  case (Inl e)
  with u t show ?thesis by (auto dest: store_update_fails)
next
  case (Inr r)
  let ?ns = "pgs_namespace s" and ?i = "TrimSpace i"
  from u Inr obtain r0 g r1 g' payload where get: "store_get cd s env ?i db = Inr (r0, g)" and mut: "mut r0 = Inr r1"
    and r: "r = normalizeActionResource ?ns g' (se_now env) r1" and p: "acd_marshal cd r = Inr payload"
    and e: "store_enqueue s env r m (set_action_row ?i payload g' db) = (Inr (), db')"
    by (auto elim: store_update_ok)
  from get obtain row d where row: "row_by_id ?i db = Some row" and d: "acd_unmarshal cd (arow_payload row) = Inr d"
    and r0: "r0 = normalizeActionResource ?ns (arow_generation row) (se_now env) d"
    by (rule store_get_row)
  from row_by_id_in [OF row] have in_row: "row \<in> set (adb_rows db)" "arow_id row = ?i" by simp_all
  from table_row [OF t in_row(1)] d have dok: "stored_ok ?ns d" "ar_name d = arow_id row" by (auto simp: arow_ok_def)
  from stored_ok_normalize [OF dok(1) ns] r0 have "stored_ok ?ns r0" by simp
  moreover from get have "store_Get cd s env i db = Inr r0" by (simp add: store_Get_def)
  ultimately have r1: "stored_ok ?ns r1" "ar_name r1 = ar_name r0" "session_of r1 = session_of r0"
    "isActiveAction r1 \<Longrightarrow> isActiveAction r0 \<or> active_ids cd db (session_of r0) = {}"
    using keeps mut by blast+
  let ?row = "row\<lparr>arow_payload := payload, arow_generation := g'\<rparr>"
  from ns have ne: "?ns \<noteq> []" by auto
  from stored_ok_normalize [OF r1(1) ns] r have rok: "stored_ok ?ns r" by simp
  have nm: "arow_id ?row = ar_name r" using r r1(2) r0 dok(2) by simp
  have w: "arow_ok cd ?ns ?row" "acd_unmarshal cd payload = Inr (json_action r)"
    using arow_ok_written [OF cd _ rok nm ne] p by simp_all
  have rows: "adb_rows db' = map (\<lambda>row. if arow_id row = ?i then row\<lparr>arow_payload := payload, arow_generation := g'\<rparr> else row) (adb_rows db)"
    using store_enqueue_rows [OF e] by (simp add: set_action_row_def)
  have "k = l" if "k \<in> active_ids cd db' sid" "l \<in> active_ids cd db' sid" for k l sid
    by (rule active_update [OF rows w(2) row d _ _ _ _ that]) (use t r1(3,4) r r0 in \<open>auto simp: table_ok_def\<close>)
  moreover have "arow_ok cd ?ns row'" if "row' \<in> set (adb_rows db')" for row'
  proof -
    from that obtain y where y: "y \<in> set (adb_rows db)" "row' = (if arow_id y = ?i then y\<lparr>arow_payload := payload, arow_generation := g'\<rparr> else y)"
      by (auto simp: rows)
    show ?thesis
    proof (cases "arow_id y = ?i")
      case True
      with w(1) y in_row(2) show ?thesis by (simp add: arow_ok_def)
    qed (use y table_row [OF t] in auto)
  qed
  moreover have "map arow_id (adb_rows db') = map arow_id (adb_rows db)" by (simp add: rows)
  ultimately show ?thesis using t unfolding table_ok_def by metis
qed

section \<open>Listing\<close>

text \<open>The listed actions of a session are those of the table.\<close>

lemma scan_rows_ok:
  assumes "scan_rows cd rows = Inr items"
  shows "\<exists>f. items = map f rows \<and> (\<forall>row \<in> set rows. scanActionResource cd row = Inr (f row))"
proof -
  have "items = map (\<lambda>row. case scanActionResource cd row of Inr r \<Rightarrow> r) rows \<and>
      (\<forall>row \<in> set rows. scanActionResource cd row = Inr (case scanActionResource cd row of Inr r \<Rightarrow> r))"
    using assms by (induction rows arbitrary: items) (auto split: sum.splits)
  then show ?thesis by blast
qed

lemma scan_fields:
  assumes "acd_unmarshal cd (arow_payload row) = Inr d" and "scanActionResource cd row = Inr r"
  shows "ar_name r = ar_name d" and "isActiveAction r = isActiveAction d" and "ar_status r = ar_status d" and "ar_action r = ar_action d"
  using assms by (auto simp: scanActionResource_def isActiveAction_def)

lemma listed:
  assumes t: "table_ok cd (pgs_namespace s) db" and l: "store_ListBySession cd s env sid db = Inr items"
  shows "names_ok items" and "distinct (map ar_name items)"
    and "\<And>row d. row \<in> set (adb_rows db) \<Longrightarrow> acd_unmarshal cd (arow_payload row) = Inr d \<Longrightarrow> session_of d = TrimSpace sid \<Longrightarrow>
      \<exists>x \<in> set items. ar_name x = ar_name d \<and> isActiveAction x = isActiveAction d"
proof -
  let ?rows = "session_rows cd s sid db"
  from l obtain xs where xs: "scan_rows cd ?rows = Inr xs" "items = sort_actions xs"
    by (auto simp: store_ListBySession_def split: option.splits sum.splits) (metis map_sum.simps(2) obj_sumE sum.inject(2) sum.distinct(1) map_sum.simps(1))
  from scan_rows_ok [OF xs(1)] obtain f where f: "xs = map f ?rows" "\<And>row. row \<in> set ?rows \<Longrightarrow> scanActionResource cd row = Inr (f row)"
    by blast
  have sub: "set ?rows \<subseteq> set (adb_rows db)" and dis: "distinct (map arow_id ?rows)"
    using t by (auto simp: session_rows_def table_ok_def distinct_map inj_on_def)
  have name: "ar_name (f row) = arow_id row \<and> stored_ok (pgs_namespace s) (f row)" if "row \<in> set ?rows" for row
  proof -
    from that sub table_row [OF t] obtain d where "acd_unmarshal cd (arow_payload row) = Inr d" "ar_name d = arow_id row" "stored_ok (pgs_namespace s) d"
      by (auto simp: arow_ok_def)
    moreover from this(1) f(2) [OF that] have "f row = d\<lparr>ar_meta := (ar_meta d)\<lparr>om_generation := arow_generation row,
        om_resourceVersion := show_int (arow_generation row)\<rparr>\<rparr>"
      by (simp add: scanActionResource_def)
    ultimately show ?thesis by (simp add: stored_ok_def session_of_def)
  qed
  have "TrimSpace (ar_name (f row)) = ar_name (f row) \<and> ar_name (f row) \<noteq> []" if "row \<in> set ?rows" for row
    using name [OF that] unfolding stored_ok_def by blast
  then show "names_ok items" using f(1) xs(2) by (simp add: names_ok_def)
  have "map ar_name xs = map arow_id ?rows" using name f(1) by simp
  with dis show "distinct (map ar_name items)" using xs(2) by (simp add: distinct_sort_actions)
  fix row d
  assume row: "row \<in> set (adb_rows db)" and d: "acd_unmarshal cd (arow_payload row) = Inr d" and sid: "session_of d = TrimSpace sid"
  from row table_row [OF t row] d sid have "row \<in> set ?rows" by (auto simp: session_rows_def arow_ok_def)
  with scan_fields [OF d f(2)] f(1) xs(2) show "\<exists>x \<in> set items. ar_name x = ar_name d \<and> isActiveAction x = isActiveAction d"
    by auto
qed

section \<open>The service keeps the table in order\<close>

text \<open>The service over the Postgres stores; the resolver and the sink do not write the table of actions.\<close>

definition action_svc_ok ::
    "'p action_codec \<Rightarrow> PostgresStore \<Rightarrow> 'j codec \<Rightarrow> repo \<Rightarrow> ('j, 'p, 'z) aworld_scheme ActionSvc \<Rightarrow> bool" where
  "action_svc_ok cd s codec rp v \<longleftrightarrow> asv_store v = pg_actions cd s \<and> asv_sessions v = pg_sessions codec rp \<and>
     asv_namespace v = pgs_namespace s \<and> (\<forall>x q. frame aw_db (asv_resolver v x q)) \<and> sink_frame aw_db (asv_sink v)"

lemma pg_actions_calls:
  "astore_Get (pg_actions cd s) i w = (x, w') \<Longrightarrow> x = store_Get cd s (sw_env w (sw_tick w)) i (aw_db w) \<and> aw_db w' = aw_db w"
  "astore_ListBySession (pg_actions cd s) sid w = (y, w') \<Longrightarrow>
     y = store_ListBySession cd s (sw_env w (sw_tick w)) sid (aw_db w) \<and> aw_db w' = aw_db w"
  "astore_HasNonterminalResetWarmState (pg_actions cd s) sid w = (z, w') \<Longrightarrow>
     z = store_HasNonterminalResetWarmState cd s (sw_env w (sw_tick w)) sid (aw_db w) \<and> aw_db w' = aw_db w"
  "astore_Create (pg_actions cd s) r w = (x, w') \<Longrightarrow> store_Create cd s (sw_env w (sw_tick w)) r (aw_db w) = (x, aw_db w')"
  "astore_Update (pg_actions cd s) i m w = (x, w') \<Longrightarrow> store_Update cd s (sw_env w (sw_tick w)) i m (aw_db w) = (x, aw_db w')"
  "astore_UpdateStatus (pg_actions cd s) i st w = (x, w') \<Longrightarrow>
     store_UpdateStatus cd s (sw_env w (sw_tick w)) i (Some st) (aw_db w) = (x, aw_db w')"
  by (auto simp: pg_actions_def aw_call_def split: prod.splits)

lemma actions_record_frame: "action_svc_ok cd s codec rp v \<Longrightarrow> aw_db (actions_record v sid et su ac at w) = aw_db w"
  by (simp add: actions_record_def record_frame(3) action_svc_ok_def)

lemma svc_reads:
  assumes "action_svc_ok cd s codec rp v"
  shows "frame aw_db (getActionResource v i)" "frame aw_db (loadReadySession v sid)" "frame aw_db (loadSessionForWarmStateReset v sid)"
    "frame aw_db (buildRunTurnSnapshot (asv_resolver v) x q)"
proof -
  from assms have v: "asv_store v = pg_actions cd s" "asv_sessions v = pg_sessions codec rp"
    and rs: "frame aw_db (asv_resolver v x q)" for x q
    by (simp_all add: action_svc_ok_def)
  note get = frameD [OF pg_sessions_frame(1)]
  show "frame aw_db (getActionResource v i)"
    by (rule frameI) (auto simp: getActionResource_def Let_def v split: if_splits prod.splits sum.splits dest!: pg_actions_calls(1))
  show "frame aw_db (loadReadySession v sid)"
    by (rule frameI) (auto simp: loadReadySession_def Let_def v split: if_splits prod.splits sum.splits option.splits bool.splits
        dest!: pg_actions_calls(3) get)
  show "frame aw_db (loadSessionForWarmStateReset v sid)"
    by (rule frameI) (auto simp: loadSessionForWarmStateReset_def Let_def v split: if_splits prod.splits sum.splits option.splits dest!: get)
  show "frame aw_db (buildRunTurnSnapshot (asv_resolver v) x q)"
    by (rule frameI) (auto simp: buildRunTurnSnapshot_def Let_def
        split: if_splits prod.splits sum.splits option.splits list.splits dest!: frameD [OF rs])
qed

text \<open>A new action is well-formed and not active.\<close>

lemma new_action_ok:
  assumes "TrimSpace i = i" and "i \<noteq> []"
  shows "stored_ok ns (new_action ns i sid ty turn sn)" and "\<not> isActiveAction (new_action ns i sid ty turn sn)"
  using assms by (simp_all add: stored_ok_def new_action_def session_of_def actionLabels_def isActiveAction_def empty_action_status_def)

lemma submit_action_table:
  assumes v: "action_svc_ok cd s codec rp v" and cd: "action_codec_ok cd" and ns: "TrimSpace (pgs_namespace s) \<noteq> []"
    and t: "table_ok cd (pgs_namespace s) (aw_db w)" and i: "TrimSpace i = i" "i \<noteq> []"
    and c: "submit_action v sid (new_action (pgs_namespace s) i sid' ty turn sn) w = (x, w')"
  shows "table_ok cd (pgs_namespace s) (aw_db w')"
proof -
  let ?r = "new_action (pgs_namespace s) i sid' ty turn sn"
  from v have st: "asv_store v = pg_actions cd s" by (simp add: action_svc_ok_def)
  obtain y w1 where y: "astore_Create (pg_actions cd s) ?r w = (y, w1)" by fastforce
  from store_Create_table [OF t cd ns new_action_ok [OF i] pg_actions_calls(4) [OF y]]
  have "table_ok cd (pgs_namespace s) (aw_db w1)" .
  moreover from c y st actions_record_frame [OF v] have "aw_db w' = aw_db w1"
    by (auto simp: submit_action_def split: sum.splits if_splits)
  ultimately show ?thesis by simp
qed

lemma actions_Create_table:
  assumes v: "action_svc_ok cd s codec rp v" and cd: "action_codec_ok cd" and ns: "TrimSpace (pgs_namespace s) \<noteq> []"
    and t: "table_ok cd (pgs_namespace s) (aw_db w)" and c: "actions_Create v sid rq w = (x, w')"
  shows "table_ok cd (pgs_namespace s) (aw_db w')"
proof -
  let ?sid = "TrimSpace sid"
  obtain y w1 where y: "loadReadySession v ?sid w = (y, w1)" by fastforce
  with svc_reads(2) [OF v] have db1: "aw_db w1 = aw_db w" by (blast dest: frameD)
  show ?thesis
  proof (cases "?sid = [] \<or> isl y")
    case True
    with c y t db1 show ?thesis by (cases y) (auto simp: actions_Create_def Let_def split: if_splits)
  next
    case False
    then obtain session where session: "y = Inr session" by (cases y) auto
    obtain z w2 where z: "buildRunTurnSnapshot (asv_resolver v) session rq w1 = (z, w2)" by fastforce
    with svc_reads(4) [OF v] db1 have db2: "aw_db w2 = aw_db w" by (metis frameD)
    show ?thesis
    proof (cases "\<exists>sn i. z = Inr sn \<and> EnsureResourceID (asv_rand v w2) (TrimSpace (getf [] crq_ActionID rq)) ?sid ''action'' = Inr i")
      case True
      then obtain sn i where f: "z = Inr sn"
        "EnsureResourceID (asv_rand v w2) (TrimSpace (getf [] crq_ActionID rq)) ?sid ''action'' = Inr i" by blast
      with False c y session z have "submit_action v ?sid (new_action (asv_namespace v) i ?sid TypeRunTurn
          (normalizeTurnID (getf [] crq_TurnID rq)) (SnapRunTurn sn)) w2 = (x, w')"
        by (simp add: actions_Create_def Let_def)
      moreover from v have "asv_namespace v = pgs_namespace s" by (simp add: action_svc_ok_def)
      ultimately show ?thesis
        using submit_action_table [OF v cd ns _ EnsureResourceID_proper [OF f(2)]] t db2 by metis
    next
      case F: False
      with False c y session z t db2 show ?thesis by (auto simp: actions_Create_def Let_def split: sum.splits)
    qed
  qed
qed

lemma actions_ResetWarmState_table:
  assumes v: "action_svc_ok cd s codec rp v" and cd: "action_codec_ok cd" and ns: "TrimSpace (pgs_namespace s) \<noteq> []"
    and t: "table_ok cd (pgs_namespace s) (aw_db w)" and c: "actions_ResetWarmState rand2 v sid rq w = (x, w')"
  shows "table_ok cd (pgs_namespace s) (aw_db w')"
proof -
  from v have st: "asv_store v = pg_actions cd s" and n: "asv_namespace v = pgs_namespace s" by (simp_all add: action_svc_ok_def)
  obtain y w1 where y: "loadSessionForWarmStateReset v sid w = (y, w1)" by fastforce
  with svc_reads(3) [OF v] have db1: "aw_db w1 = aw_db w" by (blast dest: frameD)
  show ?thesis
  proof (cases y)
    case (Inl e)
    with c y t db1 show ?thesis by (auto simp: actions_ResetWarmState_def)
  next
    case (Inr session)
    let ?sid = "getf [] ss_sessionId (sr_session session)"
    obtain z w2 where z: "astore_HasNonterminalResetWarmState (pg_actions cd s) ?sid w1 = (z, w2)" by fastforce
    with pg_actions_calls(3) [OF z] db1 have db2: "aw_db w2 = aw_db w" by simp
    show ?thesis
    proof (cases "z = Inr False \<and> (\<exists>sn i. buildResetWarmStateSnapshot (asv_rand v w2) (Some session) = Inr sn \<and>
        EnsureResourceID (rand2 w2) (TrimSpace (getf [] id rq)) ?sid ''reset-warm-state'' = Inr i)")
      case True
      then obtain sn i where f: "z = Inr False" "buildResetWarmStateSnapshot (asv_rand v w2) (Some session) = Inr sn"
        "EnsureResourceID (rand2 w2) (TrimSpace (getf [] id rq)) ?sid ''reset-warm-state'' = Inr i" by blast
      with c y Inr z st n have "submit_action v ?sid (new_action (pgs_namespace s) i ?sid TypeResetWarmState [] (SnapReset sn)) w2 = (x, w')"
        by (simp add: actions_ResetWarmState_def Let_def)
      then show ?thesis using submit_action_table [OF v cd ns _ EnsureResourceID_proper [OF f(3)]] t db2 by metis
    next
      case F: False
      with c y Inr z st t db2 show ?thesis
        by (auto simp: actions_ResetWarmState_def Let_def split: sum.splits bool.splits)
    qed
  qed
qed

lemma request_stop_keeps:
  assumes "request_stop n r0 = Inr r1" and "stored_ok ns r0"
  shows "stored_ok ns r1 \<and> ar_name r1 = ar_name r0 \<and> session_of r1 = session_of r0 \<and> isActiveAction r1 = isActiveAction r0"
  using assms by (auto simp: request_stop_def stored_ok_def session_of_def isActiveAction_def split: option.splits)

lemma actions_Stop_table:
  assumes v: "action_svc_ok cd s codec rp v" and cd: "action_codec_ok cd" and ns: "TrimSpace (pgs_namespace s) \<noteq> []"
    and t: "table_ok cd (pgs_namespace s) (aw_db w)" and c: "actions_Stop v i w = (x, w')"
  shows "table_ok cd (pgs_namespace s) (aw_db w')"
proof -
  from v have st: "asv_store v = pg_actions cd s" by (simp add: action_svc_ok_def)
  note get = frameD [OF svc_reads(1) [OF v]]
  obtain y w1 where y: "getActionResource v i w = (y, w1)" by fastforce
  from get [OF this] have db1: "aw_db w1 = aw_db w" .
  show ?thesis
  proof (cases "\<exists>r a. y = Inr r \<and> ar_action r = Some a \<and> \<not> action_isTerminalPhase (act_phase (ar_status r)) \<and> \<not> as_stopRequested a")
    case False
    with c y t db1 show ?thesis by (auto simp: actions_Stop_def Let_def split: sum.splits option.splits)
  next
    case True
    then obtain r a where r: "y = Inr r" "ar_action r = Some a" "\<not> action_isTerminalPhase (act_phase (ar_status r))" "\<not> as_stopRequested a"
      by blast
    obtain z w2 where z: "astore_Update (pg_actions cd s) (ar_name r) (request_stop (ar_name r)) w1 = (z, w2)" by fastforce
    have "table_ok cd (pgs_namespace s) (aw_db w2)"
      using store_update_table [OF t cd ns pg_actions_calls(5) [OF z, unfolded store_Update_def db1]] request_stop_keeps by blast
    moreover have "aw_db w' = aw_db w2"
      using c y r z st actions_record_frame [OF v] by (auto simp: actions_Stop_def Let_def split: sum.splits prod.splits if_splits dest!: get)
    ultimately show ?thesis by simp
  qed
qed

lemma actions_Retry_table:
  assumes v: "action_svc_ok cd s codec rp v" and cd: "action_codec_ok cd" and ns: "TrimSpace (pgs_namespace s) \<noteq> []"
    and t: "table_ok cd (pgs_namespace s) (aw_db w)" and c: "actions_Retry v i rq w = (x, w')"
  shows "table_ok cd (pgs_namespace s) (aw_db w')"
proof -
  obtain y w1 where y: "getActionResource v i w = (y, w1)" by fastforce
  with svc_reads(1) [OF v] have db1: "aw_db w1 = aw_db w" by (blast dest: frameD)
  show ?thesis
  proof (cases "\<exists>r. y = Inr r \<and> \<not> isl (validateRetrySource (Some r))")
    case False
    with c y t db1 show ?thesis by (auto simp: actions_Retry_def split: sum.splits)
  next
    case True
    then obtain r where r: "y = Inr r" "\<not> isl (validateRetrySource (Some r))" by blast
    obtain z w2 where z: "actions_Create v (getf [] as_sessionId (ar_action r)) (Some (retry_request r rq)) w1 = (z, w2)" by fastforce
    from actions_Create_table [OF v cd ns _ z] t db1 have "table_ok cd (pgs_namespace s) (aw_db w2)" by simp
    moreover have "aw_db w' = aw_db w2"
      using c y r z actions_record_frame [OF v] by (auto simp: actions_Retry_def split: sum.splits)
    ultimately show ?thesis by simp
  qed
qed

section \<open>The reconciler keeps the table in order\<close>

text \<open>If no action of a session is active and an action owns its queue, the table has no active action of the session.\<close>

lemma owner_alone:
  assumes t: "table_ok cd (pgs_namespace s) (aw_db w)" and st: "actl_store c = pg_actions cd s"
    and q: "queueOwner c sid w = (Inr (ar_name r), w1)" and row: "row \<in> set (adb_rows (aw_db w))"
    and d: "acd_unmarshal cd (arow_payload row) = Inr d" "ar_name d = ar_name r" "session_of d = TrimSpace sid" "\<not> isActiveAction d"
  shows "active_ids cd (aw_db w) (TrimSpace sid) = {}"
proof -
  from q st obtain items where l: "astore_ListBySession (pg_actions cd s) (TrimSpace sid) w = (Inr items, w1)"
    and o': "queueOwnerID (sort_actions items) = ar_name r"
    by (auto simp: queueOwner_def listSessionActions_def split: prod.splits sum.splits)
  from pg_actions_calls(2) [OF l] have "store_ListBySession cd s (sw_env w (sw_tick w)) (TrimSpace sid) (aw_db w) = Inr items" by simp
  note li = listed [OF t this]
  from li(3) [OF row d(1)] d(3) obtain x where x: "x \<in> set items" "ar_name x = ar_name d" "isActiveAction x = isActiveAction d" by auto
  from queueOwnerID_owner [OF li(1,2) x(1)] o' d(2,4) x have none: "\<forall>y \<in> set items. \<not> isActiveAction y"
    by (auto split: if_splits)
  have "False" if "i \<in> active_ids cd (aw_db w) (TrimSpace sid)" for i
  proof -
    from that obtain row' e where e: "row' \<in> set (adb_rows (aw_db w))" "acd_unmarshal cd (arow_payload row') = Inr e"
      "session_of e = TrimSpace sid" "isActiveAction e"
      unfolding active_ids_def by blast
    from li(3) [OF e(1,2)] e(3,4) none show False by auto
  qed
  then show ?thesis by blast
qed

text \<open>A reconciliation leaves the table alone, or writes a status it derived from what it read.\<close>

lemma Reconcile_table_cases:
  assumes c: "action_ctl_ok cd s codec rp c" and rc: "action_Reconcile c n name w = (x, w')"
  obtains (same) "aw_db w' = aw_db w"
  | (written) env r w1 t res w2 env' v where "store_Get cd s env name (aw_db w) = Inr r" and "aw_db w1 = aw_db w"
      and "action_deriveStatus c r w1 = (Inr (t, res), w2)" and "\<not> action_statusSemanticallyEqual (ar_status r) t"
      and "store_UpdateStatus cd s env' name (Some t) (aw_db w) = (v, aw_db w')"
proof -
  from c have st: "actl_store c = pg_actions cd s" and snk: "sink_frame aw_db (actl_sink c)" by (simp_all add: action_ctl_ok_def)
  obtain y w1 where g: "astore_Get (pg_actions cd s) name w = (y, w1)" by fastforce
  from pg_actions_calls(1) [OF g] have y: "y = store_Get cd s (sw_env w (sw_tick w)) name (aw_db w)" and db1: "aw_db w1 = aw_db w" by simp_all
  show thesis
  proof (cases "n = actl_namespace c \<and> (\<exists>r. y = Inr r)")
    case False
    with rc g st db1 same show ?thesis by (auto simp: action_Reconcile_def split: if_splits sum.splits)
  next
    case True
    then obtain r where r: "y = Inr r" by blast
    obtain z w2 where d: "action_deriveStatus c r w1 = (z, w2)" by fastforce
    from frameD [OF action_deriveStatus_frame [OF c] d] db1 have db2: "aw_db w2 = aw_db w" by simp
    show ?thesis
    proof (cases "\<exists>t res. z = Inr (t, res) \<and> om_deletionTimestamp (ar_meta r) = None \<and> \<not> action_statusSemanticallyEqual (ar_status r) t")
      case False
      with True rc g r d st db1 db2 same show ?thesis
        by (auto simp: action_Reconcile_def split: if_splits sum.splits prod.splits)
    next
      case T: True
      then obtain t res where z: "z = Inr (t, res)" "om_deletionTimestamp (ar_meta r) = None" "\<not> action_statusSemanticallyEqual (ar_status r) t"
        by blast
      obtain v w3 where p: "astore_UpdateStatus (pg_actions cd s) name t w2 = (v, w3)" by fastforce
      have "aw_db w' = aw_db w3"
        using True rc g r d st z p record_frame(4) [OF snk] by (cases v) (auto simp: action_Reconcile_def)
      with pg_actions_calls(6) [OF p] db2 y r db1 d z show ?thesis by (intro written) auto
    qed
  qed
qed

text \<open>What a derived status may do to an action: its run id is trimmed, and it activates the action only alone.\<close>

lemma derived_keeps:
  assumes t: "table_ok cd (pgs_namespace s) (aw_db w)" and st: "actl_store c = pg_actions cd s" and now: "actl_now c w \<noteq> 0"
    and d: "action_deriveStatus c r w = (Inr (tn, res), w')" and ne: "\<not> action_statusSemanticallyEqual (ar_status r) tn"
    and row: "row \<in> set (adb_rows (aw_db w))" "acd_unmarshal cd (arow_payload row) = Inr d0"
    and r: "r = normalizeActionResource ns g n d0"
  shows "TrimSpace (act_runID tn) = act_runID tn" and
    "isActiveAction (r\<lparr>ar_status := tn\<rparr>) \<Longrightarrow> isActiveAction r \<or> active_ids cd (aw_db w) (session_of r) = {}"
proof -
  have "stored_ok (pgs_namespace s) d0" using table_row [OF t row(1)] row(2) by (auto simp: arow_ok_def)
  with r have rid: "TrimSpace (act_runID (ar_status r)) = act_runID (ar_status r)" by (simp add: stored_ok_def)
  have "TrimSpace (act_runID tn) = act_runID tn \<and> (isActiveAction (r\<lparr>ar_status := tn\<rparr>) \<longrightarrow> isActiveAction r \<or> active_ids cd (aw_db w) (session_of r) = {})"
  proof (cases "action_isTerminalPhase (act_phase (ar_status r))")
    case True
    with d have "tn = ar_status r \<or> action_isTerminalPhase (act_phase tn) \<and> act_runID tn = []"
      by (auto simp: action_deriveStatus_def Let_def invalidStatus_def action_isTerminalPhase_def split: option.splits if_splits)
    with ne show ?thesis by (auto simp: isActiveAction_def action_statusSemanticallyEqual_def)
  next
    case live: False
    from derived_wf [OF d live now] have "TrimSpace (act_runID tn) = act_runID tn" by (simp add: wf_status_def)
    moreover have "active_ids cd (aw_db w) (session_of r) = {}" if a: "isActiveAction (r\<lparr>ar_status := tn\<rparr>)" and na: "\<not> isActiveAction r"
    proof -
      from activation_owner [OF d live rid na a] obtain b w4 where
        b: "ar_action r = Some b" "queueOwner c (as_sessionId b) w = (Inr (ar_name r), w4)" by blast
      from b(1) have sid: "session_of r = TrimSpace (as_sessionId b)" by (simp add: session_of_def)
      show ?thesis
        unfolding sid by (rule owner_alone [OF t st b(2) row(1,2)]) (use r na sid in simp_all)
    qed
    ultimately show ?thesis by blast
  qed
  then show "TrimSpace (act_runID tn) = act_runID tn"
    "isActiveAction (r\<lparr>ar_status := tn\<rparr>) \<Longrightarrow> isActiveAction r \<or> active_ids cd (aw_db w) (session_of r) = {}" by blast+
qed

lemma action_Reconcile_table:
  assumes c: "action_ctl_ok cd s codec rp c" and cd: "action_codec_ok cd" and ns: "TrimSpace (pgs_namespace s) \<noteq> []"
    and now: "\<And>w. actl_now c w \<noteq> 0"
    and t: "table_ok cd (pgs_namespace s) (aw_db w)" and rc: "action_Reconcile c n name w = (x, w')"
  shows "table_ok cd (pgs_namespace s) (aw_db w')"
  using c rc
proof (cases rule: Reconcile_table_cases)
  case (written env r w1 tn res w2 env' v)
  from c have st: "actl_store c = pg_actions cd s" by (simp add: action_ctl_ok_def)
  from written(1) obtain row d0 where row: "row_by_id (TrimSpace name) (aw_db w) = Some row"
    and d0: "acd_unmarshal cd (arow_payload row) = Inr d0"
    and rn: "r = normalizeActionResource (pgs_namespace s) (arow_generation row) (se_now env) d0"
    by (rule store_Get_row)
  from row_by_id_in [OF row] have "row \<in> set (adb_rows (aw_db w1))" using written(2) by simp
  note dk = derived_keeps [OF _ st now written(3,4) this d0 rn]
  show ?thesis
  proof (rule store_update_table [OF t cd ns written(5) [unfolded store_UpdateStatus_def]])
    fix r0 r1
    assume r0: "store_Get cd s env' name (aw_db w) = Inr r0" "stored_ok (pgs_namespace s) r0"
      and r1: "(Inr (case Some tn of None \<Rightarrow> r0 | Some st \<Rightarrow> r0\<lparr>ar_status := st\<rparr>) :: ActionResource result) = Inr r1"
    from r0(1) row d0 have "r0 = normalizeActionResource (pgs_namespace s) (arow_generation row) (se_now env') d0"
      by (elim store_Get_row) simp
    with rn have "isActiveAction r0 = isActiveAction r" "session_of r0 = session_of r" by simp_all
    moreover have "isActiveAction r1 = isActiveAction (r\<lparr>ar_status := tn\<rparr>)" using r1 by (auto simp: isActiveAction_def)
    ultimately show "stored_ok (pgs_namespace s) r1 \<and> ar_name r1 = ar_name r0 \<and> session_of r1 = session_of r0 \<and>
        (isActiveAction r1 \<longrightarrow> isActiveAction r0 \<or> active_ids cd (aw_db w) (session_of r0) = {})"
      using dk t written(2) r0(2) r1 by (auto simp: stored_ok_def session_of_def)
  qed
qed (use t in simp)

section \<open>The system of actions\<close>

text \<open>
  The service and the reconciler over one table, in any order, with any services around them and any
  changes elsewhere (sessions, runs, the outbox): every call is one step.
\<close>

inductive action_system ::
    "'p action_codec \<Rightarrow> PostgresStore \<Rightarrow> 'j codec \<Rightarrow> repo \<Rightarrow> ('j, 'p, 'z) aworld_scheme \<Rightarrow> bool"
  for cd :: "'p action_codec" and s :: PostgresStore and codec :: "'j codec" and rp :: repo where
  sys_empty: "adb_rows (aw_db w) = [] \<Longrightarrow> action_system cd s codec rp w"
| sys_elsewhere: "\<lbrakk>action_system cd s codec rp w; adb_rows (aw_db w') = adb_rows (aw_db w)\<rbrakk> \<Longrightarrow> action_system cd s codec rp w'"
| sys_create: "\<lbrakk>action_system cd s codec rp w; action_svc_ok cd s codec rp v; actions_Create v sid rq w = (x, w')\<rbrakk>
    \<Longrightarrow> action_system cd s codec rp w'"
| sys_stop: "\<lbrakk>action_system cd s codec rp w; action_svc_ok cd s codec rp v; actions_Stop v i w = (x, w')\<rbrakk>
    \<Longrightarrow> action_system cd s codec rp w'"
| sys_retry: "\<lbrakk>action_system cd s codec rp w; action_svc_ok cd s codec rp v; actions_Retry v i rt w = (x, w')\<rbrakk>
    \<Longrightarrow> action_system cd s codec rp w'"
| sys_reset: "\<lbrakk>action_system cd s codec rp w; action_svc_ok cd s codec rp v; actions_ResetWarmState rnd v sid rs w = (x, w')\<rbrakk>
    \<Longrightarrow> action_system cd s codec rp w'"
| sys_reconcile: "\<lbrakk>action_system cd s codec rp w; action_ctl_ok cd s codec rp c; \<And>w. actl_now c w \<noteq> 0;
      action_Reconcile c n name w = (y, w')\<rbrakk> \<Longrightarrow> action_system cd s codec rp w'"

lemma action_system_table:
  assumes "action_system cd s codec rp w" and "action_codec_ok cd" and "TrimSpace (pgs_namespace s) \<noteq> []"
  shows "table_ok cd (pgs_namespace s) (aw_db w)"
  using assms(1)
proof induction
  case (sys_empty w)
  then show ?case by (simp add: table_ok_def active_ids_def)
next
  case (sys_elsewhere w w')
  then show ?case using table_same_rows by blast
next
  case (sys_create w v sid rq x w')
  then show ?case using actions_Create_table assms(2,3) by blast
next
  case (sys_stop w v i x w')
  then show ?case using actions_Stop_table assms(2,3) by blast
next
  case (sys_retry w v i rt x w')
  then show ?case using actions_Retry_table assms(2,3) by blast
next
  case (sys_reset w v rnd sid rs x w')
  then show ?case using actions_ResetWarmState_table assms(2,3) by blast
next
  case (sys_reconcile w c n name y w')
  then show ?case using action_Reconcile_table assms(2,3) by blast
qed

section \<open>Properties\<close>


end
