(* ===== verification/Action_Admission.thy ===== *)
theory Action_Admission
  imports Action_Table
begin

text \<open>
  What the action service promises its callers: which turns it admits and what it stores for them, what
  a stop does, and which actions can be retried.
\<close>

lemma actions_Create_ok:
  assumes "actions_Create v sid rq w = (Inr st, w')"
  obtains session w1 sn w2 i r w3 where "loadReadySession v (TrimSpace sid) w = (Inr session, w1)"
    and "buildRunTurnSnapshot (asv_resolver v) session rq w1 = (Inr sn, w2)"
    and "EnsureResourceID (asv_rand v w2) (TrimSpace (getf [] crq_ActionID rq)) (TrimSpace sid) ''action'' = Inr i"
    and "astore_Create (asv_store v) (new_action (asv_namespace v) i (TrimSpace sid) TypeRunTurn
           (normalizeTurnID (getf [] crq_TurnID rq)) (SnapRunTurn sn)) w2 = (Inr r, w3)"
    and "actionStateFromResource (Some r) = Inr st"
    and "w' = actions_record v (TrimSpace sid) ''SUBMITTED'' ''action'' ''create''
           [(''action_id'', i), (''type'', action_type_name TypeRunTurn)] w3"
  using assms
  by (auto simp: actions_Create_def submit_action_def Let_def new_action_def split: if_splits prod.splits sum.splits)

text \<open>A session that is ready: its conditions and the generations its status has observed.\<close>

definition ready_session :: "SessionResource \<Rightarrow> bool" where
  "ready_session r \<longleftrightarrow> (let g = om_generation (sr_meta r); st = sr_status r in
     sr_session r \<noteq> None \<and> srs_runtimeConfigGeneration st = g \<and> srs_resourceConfigGeneration st = g \<and>
     (\<exists>c \<in> set (srs_conditions st). mc_type c = ''ReadyForNextRun'' \<and> mc_status c = MetaTrue \<and> mc_observedGeneration c = g))"

lemma loadReadySession_ok:
  assumes "loadReadySession v sid w = (Inr session, w')" and "find_status_ok (asv_find v)"
  shows "ready_session session" and "\<exists>u state. sess_Get (asv_sessions v) sid w = (Inr state, u) \<and>
      ResourceFromState (Some state) (asv_namespace v) = Inr session \<and>
      astore_HasNonterminalResetWarmState (asv_store v) sid u = (Inr False, w')"
  using assms
  by (auto simp: loadReadySession_def Let_def find_status_ok_def ready_session_def find_Some_iff
      split: prod.splits sum.splits if_splits option.splits bool.splits)

lemma buildRunTurnSnapshot_ok:
  assumes "buildRunTurnSnapshot R session rq w = (Inr sn, w')"
  shows "om_generation (sr_meta session) \<noteq> 0" and "sn_sessionGeneration sn = om_generation (sr_meta session)"
    and "sn_stateGeneration sn = srs_stateGeneration (sr_status session)" and "sn_stateGeneration sn \<noteq> 0"
    and "sn_runtimeCandidates sn \<noteq> []"
    and "\<exists>c q. hd (sn_runtimeCandidates sn) = Some c \<and> cand_resolvedProviderModel c \<noteq> None \<and> sn_runRequest sn = Some q \<and>
      rq_resolvedProviderModel q = cand_resolvedProviderModel c \<and>
      getf None crq_RunRequest rq = Some (q\<lparr>rq_resolvedProviderModel := getf None rq_resolvedProviderModel (getf None crq_RunRequest rq)\<rparr>)"
proof -
  note b = assms [unfolded buildRunTurnSnapshot_def Let_def]
  from b obtain q where q: "action_cloneRunRequest rq = Inr q" by (auto split: sum.splits)
  from b q obtain spec where spec: "sr_session session = Some spec" by (auto split: option.splits)
  from b q spec have g: "om_generation (sr_meta session) \<noteq> 0" "srs_stateGeneration (sr_status session) \<noteq> 0"
    by (auto split: if_splits)
  from b q spec g obtain res w1 where res: "R session q w = (Inr res, w1)" by (auto split: if_splits prod.splits sum.splits)
  from b q spec g res obtain c cs where cs: "rtr_RuntimeCandidates res = Some c # cs"
    by (auto split: if_splits list.splits option.splits)
  from b q spec g res cs obtain model where m: "cand_resolvedProviderModel c = Some model"
    by (auto split: if_splits option.splits)
  from b q spec g res cs m have sn: "sn_runRequest sn = Some (q\<lparr>rq_resolvedProviderModel := Some model\<rparr>)"
    "sn_sessionGeneration sn = om_generation (sr_meta session)" "sn_stateGeneration sn = srs_stateGeneration (sr_status session)"
    "sn_runtimeCandidates sn = cloneRuntimeCandidates (rtr_RuntimeCandidates res)"
    by (auto split: if_splits sum.splits)
  show "om_generation (sr_meta session) \<noteq> 0" "sn_sessionGeneration sn = om_generation (sr_meta session)"
    "sn_stateGeneration sn = srs_stateGeneration (sr_status session)" "sn_stateGeneration sn \<noteq> 0"
    using g sn by simp_all
  have hd: "sn_runtimeCandidates sn = Some c # cloneRuntimeCandidates cs" using sn(4) cs m by (simp add: cloneRuntimeCandidates_def)
  then show "sn_runtimeCandidates sn \<noteq> []" by simp
  from q have rq: "getf None crq_RunRequest rq = Some q"
    by (auto simp: action_cloneRunRequest_def split: option.splits if_splits)
  have "q = (q\<lparr>rq_resolvedProviderModel := Some model\<rparr>)\<lparr>rq_resolvedProviderModel := rq_resolvedProviderModel q\<rparr>" by simp
  with hd m sn(1) rq show "\<exists>c q. hd (sn_runtimeCandidates sn) = Some c \<and> cand_resolvedProviderModel c \<noteq> None \<and> sn_runRequest sn = Some q \<and>
      rq_resolvedProviderModel q = cand_resolvedProviderModel c \<and>
      getf None crq_RunRequest rq = Some (q\<lparr>rq_resolvedProviderModel := getf None rq_resolvedProviderModel (getf None crq_RunRequest rq)\<rparr>)"
    by simp
qed

section \<open>Stopping\<close>

lemma getActionResource_row:
  assumes v: "action_svc_ok cd s codec rp v" and g: "getActionResource v i w = (Inr r, w')"
  obtains env :: senv and row d where "row_by_id (TrimSpace i) (aw_db w) = Some row" and "acd_unmarshal cd (arow_payload row) = Inr d"
    and "r = normalizeActionResource (pgs_namespace s) (arow_generation row) (se_now env) d"
proof -
  from v g have "astore_Get (pg_actions cd s) (TrimSpace i) w = (Inr r, w')"
    by (auto simp: getActionResource_def Let_def action_svc_ok_def split: if_splits prod.splits sum.splits)
  from pg_actions_calls(1) [OF this] have "store_Get cd s (sw_env w (sw_tick w)) (TrimSpace i) (aw_db w) = Inr r" by simp
  from this show ?thesis by (rule store_Get_row) (rule that [where env = "sw_env w (sw_tick w)"], simp_all)
qed

text \<open>The row of an action that is over or already stopped is left alone.\<close>

lemma actions_Stop_noop:
  assumes v: "action_svc_ok cd s codec rp v" and row: "row_by_id (TrimSpace i) (aw_db w) = Some row"
    and d: "acd_unmarshal cd (arow_payload row) = Inr d" and a: "ar_action d = Some a"
    and over: "action_isTerminalPhase (act_phase (ar_status d)) \<or> as_stopRequested a" and c: "actions_Stop v i w = (y, w')"
  shows "aw_db w' = aw_db w"
proof -
  obtain x w1 where x: "getActionResource v i w = (x, w1)" by fastforce
  with svc_reads(1) [OF v] have db: "aw_db w1 = aw_db w" by (blast dest: frameD)
  show ?thesis
  proof (cases x)
    case (Inr r)
    with x row d have "ar_action r = Some a" "act_phase (ar_status r) = act_phase (ar_status d)"
      by (auto elim!: getActionResource_row [OF v] simp: a)
    with over c x Inr db show ?thesis by (auto simp: actions_Stop_def)
  qed (use c x db in \<open>auto simp: actions_Stop_def\<close>)
qed

lemma actions_Stop_writes:
  assumes v: "action_svc_ok cd s codec rp v" and cd: "action_codec_ok cd" and t: "table_ok cd (pgs_namespace s) (aw_db w)"
    and row: "row_by_id (TrimSpace i) (aw_db w) = Some row" and d: "acd_unmarshal cd (arow_payload row) = Inr d"
    and a: "ar_action d = Some a" and live: "\<not> action_isTerminalPhase (act_phase (ar_status d))" "\<not> as_stopRequested a"
    and c: "actions_Stop v i w = (Inr st, w')"
  shows "(\<exists>row' d'. row_by_id (TrimSpace i) (aw_db w') = Some row' \<and> acd_unmarshal cd (arow_payload row') = Inr d' \<and>
      ar_action d' = Some (a\<lparr>as_stopRequested := True\<rparr>) \<and> act_phase (ar_status d') = act_phase (ar_status d) \<and>
      act_runID (ar_status d') = act_runID (ar_status d) \<and> act_attemptCount (ar_status d') = act_attemptCount (ar_status d) \<and>
      arow_generation row' = i64 (arow_generation row + 1)) \<and>
    (\<forall>j. j \<noteq> TrimSpace i \<longrightarrow> row_by_id j (aw_db w') = row_by_id j (aw_db w))"
proof -
  from v have st: "asv_store v = pg_actions cd s" by (simp add: action_svc_ok_def)
  from c obtain r w1 where g: "getActionResource v i w = (Inr r, w1)" by (auto simp: actions_Stop_def split: prod.splits sum.splits)
  from frameD [OF svc_reads(1) [OF v] g] have db1: "aw_db w1 = aw_db w" .
  have nm: "ar_name d = TrimSpace i" "TrimSpace (TrimSpace i) = TrimSpace i"
    using found_row [OF t row d] by simp_all
  from g row d have r: "ar_action r = Some a" "act_phase (ar_status r) = act_phase (ar_status d)" "ar_name r = TrimSpace i"
    by (auto elim!: getActionResource_row [OF v] simp: a nm)
  obtain z w2 where z: "astore_Update (pg_actions cd s) (TrimSpace i) (request_stop (TrimSpace i)) w1 = (z, w2)" by fastforce
  have "\<not> isl z \<and> aw_db w' = aw_db w2"
    using c g r live z st actions_record_frame [OF v]
    by (auto simp: actions_Stop_def Let_def split: sum.splits prod.splits if_splits dest!: frameD [OF svc_reads(1) [OF v]])
  then obtain y where y: "z = Inr y" and db2: "aw_db w' = aw_db w2" by (cases z) auto
  let ?e = "sw_env w1 (sw_tick w1)"
  from pg_actions_calls(5) [OF z] y db1 db2 have "store_update cd s ?e (TrimSpace i) True ''updated'' (request_stop (TrimSpace i)) (aw_db w) = (Inr y, aw_db w')"
    by (simp add: store_Update_def)
  then obtain r0 g0 r1 g' payload where u: "store_get cd s ?e (TrimSpace (TrimSpace i)) (aw_db w) = Inr (r0, g0)"
    "request_stop (TrimSpace i) r0 = Inr r1" "g' = i64 (g0 + 1)" "y = normalizeActionResource (pgs_namespace s) g' (se_now ?e) r1"
    "acd_marshal cd y = Inr payload" "store_enqueue s ?e y ''updated'' (set_action_row (TrimSpace (TrimSpace i)) payload g' (aw_db w)) = (Inr (), aw_db w')"
    by (rule store_update_ok) simp
  from u(1) row d nm(2) have r0: "r0 = normalizeActionResource (pgs_namespace s) (arow_generation row) (se_now ?e) d" "g0 = arow_generation row"
    by (auto elim!: store_get_row)
  with u(2) a have r1: "r1 = r0\<lparr>ar_action := Some (a\<lparr>as_stopRequested := True\<rparr>)\<rparr>" by (auto simp: request_stop_def)
  have un: "acd_unmarshal cd payload = Inr (json_action y)" using cd u(5) by (simp add: action_codec_ok_def)
  have counts: "act_attemptCount (ar_status (json_action (normalizeActionResource ns k n q))) = act_attemptCount (ar_status q)" for ns k n q
    by (simp add: json_action_def normalizeActionResource_def Let_def)
  have "row_by_id j (aw_db w') = row_by_id j (set_action_row (TrimSpace i) payload g' (aw_db w))" for j
    using store_enqueue_row_by_id [OF u(6)] nm(2) by simp
  moreover have "act_attemptCount (ar_status r0) = act_attemptCount (ar_status d)"
    using r0(1) by (simp add: normalizeActionResource_def Let_def)
  ultimately show ?thesis using row un u(3,4) r0 r1 counts by simp
qed

section \<open>Properties\<close>

text \<open>
  C9: Only a ready session gets a turn, and a turn starts from a clean slate: if the service creates an
  action, the session was ready in its current generation and no reset of its warm state was open;
  the table got one row, under a new id, with a turn of the session that has not been attempted,
  whose snapshot is that of the session's generation and has a runtime candidate; no other row
  changed, and the answer describes what was stored.
\<close>

theorem actions_Create_admits:
  assumes "action_svc_ok cd s codec rp v" and "action_codec_ok cd" and "find_status_ok (asv_find v)"
    and "actions_Create v sid rq w = (Inr st, w')"
  shows "\<exists>state u1 u2 session i sn r row. sess_Get (asv_sessions v) (TrimSpace sid) w = (Inr state, u1) \<and>
      ResourceFromState (Some state) (asv_namespace v) = Inr session \<and> ready_session session \<and>
      astore_HasNonterminalResetWarmState (asv_store v) (TrimSpace sid) u1 = (Inr False, u2) \<and>
      action_row w i = None \<and> adb_rows (aw_db w') = adb_rows (aw_db w) @ [row] \<and> arow_id row = i \<and>
      acd_unmarshal cd (arow_payload row) = Inr (json_action r) \<and> actionStateFromResource (Some r) = Inr st \<and>
      fresh_turn r \<and> is_turn sn i r \<and> session_of r = TrimSpace sid \<and> \<not> isActiveAction r \<and>
      sn_sessionGeneration sn = om_generation (sr_meta session) \<and> sn_sessionGeneration sn \<noteq> 0 \<and> sn_runtimeCandidates sn \<noteq> []"
proof -
  from assms(4) obtain session w1 sn w2 i r w3 where l: "loadReadySession v (TrimSpace sid) w = (Inr session, w1)"
    and b: "buildRunTurnSnapshot (asv_resolver v) session rq w1 = (Inr sn, w2)"
    and i: "EnsureResourceID (asv_rand v w2) (TrimSpace (getf [] crq_ActionID rq)) (TrimSpace sid) ''action'' = Inr i"
    and c: "astore_Create (asv_store v) (new_action (asv_namespace v) i (TrimSpace sid) TypeRunTurn
           (normalizeTurnID (getf [] crq_TurnID rq)) (SnapRunTurn sn)) w2 = (Inr r, w3)"
    and st: "actionStateFromResource (Some r) = Inr st"
    and w': "w' = actions_record v (TrimSpace sid) ''SUBMITTED'' ''action'' ''create''
           [(''action_id'', i), (''type'', action_type_name TypeRunTurn)] w3"
    by (rule actions_Create_ok)
  let ?r = "new_action (asv_namespace v) i (TrimSpace sid) TypeRunTurn (normalizeTurnID (getf [] crq_TurnID rq)) (SnapRunTurn sn)"
  have db: "aw_db w2 = aw_db w" "aw_db w' = aw_db w3"
    using frameD [OF svc_reads(2) [OF assms(1)] l] frameD [OF svc_reads(4) [OF assms(1)] b] actions_record_frame [OF assms(1)] w'
    by simp_all
  from assms(1) have "asv_store v = pg_actions cd s" by (simp add: action_svc_ok_def)
  with c have "store_Create cd s (sw_env w2 (sw_tick w2)) ?r (aw_db w) = (Inr r, aw_db w')"
    using pg_actions_calls(4) [of cd s ?r w2] db by simp
  from store_Create_rows [OF this] obtain row where r: "r = normalizeActionResource (pgs_namespace s) 1 (se_now (sw_env w2 (sw_tick w2))) ?r"
    and row: "acd_marshal cd r = Inr (arow_payload row)" "row_by_id (ar_name ?r) (aw_db w) = None" "arow_id row = ar_name ?r"
      "adb_rows (aw_db w') = adb_rows (aw_db w) @ [row]"
    by auto
  have u: "acd_unmarshal cd (arow_payload row) = Inr (json_action r)" using assms(2) row(1) by (simp add: action_codec_ok_def)
  have n: "ar_name ?r = i" "ar_action r = ar_action ?r" "session_of r = TrimSpace (TrimSpace sid)" "isActiveAction r = isActiveAction ?r"
    using r by (simp_all add: new_action_def session_of_def)
  have fresh: "fresh_turn r" using r by (simp add: fresh_turn_def new_action_def normalizeActionResource_def Let_def empty_action_status_def)
  have turn: "is_turn sn i r" using n(2) by (simp add: is_turn_def new_action_def get_run_turn_def)
  have "\<not> isActiveAction ?r" using EnsureResourceID_proper [OF i] by (rule new_action_ok(2))
  moreover obtain u1 state where "sess_Get (asv_sessions v) (TrimSpace sid) w = (Inr state, u1)"
    "ResourceFromState (Some state) (asv_namespace v) = Inr session"
    "astore_HasNonterminalResetWarmState (asv_store v) (TrimSpace sid) u1 = (Inr False, w1)"
    using loadReadySession_ok(2) [OF l assms(3)] by blast
  ultimately show ?thesis
    using loadReadySession_ok(1) [OF l assms(3)] buildRunTurnSnapshot_ok(1,2,5) [OF b] row u st n fresh turn
    by (intro exI [of _ state] exI [of _ u1] exI [of _ w1] exI [of _ session] exI [of _ i] exI [of _ sn] exI [of _ r] exI [of _ row])
      (simp add: action_row_def)
qed


text \<open>
  What the view promises can be retried: a retry is accepted exactly for the actions whose view shows
  that they can be retried, and that still carry the request of their run.
\<close>

theorem validateRetrySource_iff:
  "validateRetrySource r = Inr () \<longleftrightarrow> view_canRetry (actionViewFromResource r) \<and>
     (\<exists>x a sn. r = Some x \<and> ar_action x = Some a \<and> get_run_turn a = Some sn \<and> sn_runRequest sn \<noteq> None)"
  by (auto simp: validateRetrySource_def actionViewFromResource_def canRetryAction_def
      split: option.splits if_splits ActionResourcePhase.splits)

end
