(* ===== verification/Admission_World.thy ===== *)
theory Admission_World
  imports Action_Admission Action_World
begin

text \<open>The action service in the concrete world: a session that is ready, and a turn that is requested, stopped and run.\<close>

definition ex_resolution :: RunTurnResolution where
  "ex_resolution = \<lparr>rtr_ContainerImage = ''img'', rtr_CPURequest = ''1'', rtr_MemoryRequest = ''1Gi'',
     rtr_AuthRequirement = Some ex_auth,
     rtr_RuntimeCandidates = [Some \<lparr>cand_resolvedProviderModel = Some (ex_model ''m1''), cand_authRequirement = Some ex_auth\<rparr>]\<rparr>"

definition mem_action_svc :: "AgentSessionSpec rtworld ActionSvc" where
  "mem_action_svc =
     \<lparr>asv_store = pg_actions mem_action_codec ex_pgs, asv_sessions = pg_sessions ex_codec ex_repo, asv_namespace = ''code-code'',
      asv_resolver = (\<lambda>session rq w. (Inr ex_resolution, w)), asv_sink = Some mem_sink, asv_now = rt_now,
      asv_find = (\<lambda>cs t. find (\<lambda>c. mc_type c = t) cs), asv_rand = (\<lambda>w. Inr [0, 0, 0])\<rparr>"

lemma mem_action_svc_ok: "action_svc_ok mem_action_codec ex_pgs ex_codec ex_repo mem_action_svc" "find_status_ok (asv_find mem_action_svc)"
  by (simp_all add: action_svc_ok_def mem_action_svc_def ex_pgs_def frame_def sink_frame_def mem_sink_def find_status_ok_def)

definition ex_ready_status :: StoredStatus where
  "ex_ready_status = empty_stored_status\<lparr>sst_conditions := [ex_condition ''WorkspaceReady'', ex_condition ''WarmStateReady'',
     ex_condition ''ReadyForNextRun''], sst_runtimeConfigGeneration := 1, sst_resourceConfigGeneration := 1, sst_stateGeneration := 1\<rparr>"

definition ex_ready :: "AgentSessionSpec rtworld" where
  "ex_ready = (ex_world [] Map.empty)\<lparr>sw_db := \<lparr>db_rows = [''s1'' \<mapsto> ((ex_stored [])\<lparr>sto_status := ex_ready_status\<rparr>, 1)], db_outbox = []\<rparr>\<rparr>"

definition ex_create :: CreateRequest where
  "ex_create = \<lparr>crq_ActionID = ''a1'', crq_TurnID = ''t1'', crq_RunRequest = Some \<lparr>rq_runId = [], rq_traceId = [],
     rq_input = Some \<lparr>rin_text = ''hi'', rin_parameters = None\<rparr>, rq_resumeToken = [], rq_resolvedProviderModel = None\<rparr>\<rparr>"

definition ex_created_turn :: "ActionState result \<times> AgentSessionSpec rtworld" where
  "ex_created_turn = actions_Create mem_action_svc ''s1'' (Some ex_create) ex_ready"

text \<open>The reconciler with a clock that stands still.\<close>

definition ex_clock :: "AgentSessionSpec rtworld ActionCtl" where
  "ex_clock = ex_actl\<lparr>actl_now := (\<lambda>w. 2000)\<rparr>"

definition ex_started_turn :: "CtrlResult result \<times> AgentSessionSpec rtworld" where
  "ex_started_turn = action_Reconcile ex_clock ''code-code'' ''a1'' (snd ex_created_turn)"

definition ex_stopped_turn :: "ActionState result \<times> AgentSessionSpec rtworld" where
  "ex_stopped_turn = actions_Stop mem_action_svc ''a1'' (snd ex_created_turn)"

text \<open>The active actions of the table, and those whose stop is requested.\<close>

definition ex_flags :: "AgentSessionSpec rtworld \<Rightarrow> (string \<times> bool \<times> bool) list" where
  "ex_flags w = map (\<lambda>row. (arow_id row, isActiveAction (arow_payload row), getf False as_stopRequested (ar_action (arow_payload row))))
     (adb_rows (aw_db w))"

text \<open>The checks take the created turn as an argument, so that its creation is evaluated once.\<close>

definition flags_are :: "'r result \<times> AgentSessionSpec rtworld \<Rightarrow> bool \<Rightarrow> bool \<Rightarrow> bool" where
  "flags_are x active stopped \<longleftrightarrow> \<not> isl (fst x) \<and> ex_flags (snd x) = [(''a1'', active, stopped)]"

definition turn_checks :: "ActionState result \<times> AgentSessionSpec rtworld \<Rightarrow> bool" where
  "turn_checks created \<longleftrightarrow> flags_are created False False \<and>
     flags_are (actions_Stop mem_action_svc ''a1'' (snd created)) False True \<and>
     flags_are (action_Reconcile ex_clock ''code-code'' ''a1'' (snd created)) True False"

lemma ex_turn_checks: "turn_checks (actions_Create mem_action_svc ''s1'' (Some ex_create) ex_ready)"
  by code_simp

lemma ex_turn_facts:
  "\<not> isl (fst ex_created_turn) \<and> \<not> isl (fst ex_stopped_turn) \<and> ex_flags (snd ex_stopped_turn) = [(''a1'', False, True)] \<and>
   ex_flags (snd ex_created_turn) = [(''a1'', False, False)] \<and>
   ex_flags (snd ex_started_turn) = [(''a1'', True, False)]"
  using ex_turn_checks
  by (simp only: turn_checks_def flags_are_def ex_created_turn_def ex_stopped_turn_def ex_started_turn_def simp_thms)

lemma ex_turn_system: "action_system mem_action_codec ex_pgs ex_codec ex_repo (snd ex_started_turn)"
  "action_system mem_action_codec ex_pgs ex_codec ex_repo (snd ex_created_turn)"
proof -
  have "action_system mem_action_codec ex_pgs ex_codec ex_repo ex_ready"
    by (rule sys_empty) (simp add: ex_ready_def ex_world_def)
  from sys_create [OF this mem_action_svc_ok(1), of "''s1''" "Some ex_create" "fst ex_created_turn" "snd ex_created_turn"]
  show c: "action_system mem_action_codec ex_pgs ex_codec ex_repo (snd ex_created_turn)" by (simp add: ex_created_turn_def)
  have "action_ctl_ok mem_action_codec ex_pgs ex_codec ex_repo ex_clock"
    using mem_action_ctl_ok [of small_policy] by (simp add: action_ctl_ok_def ex_clock_def)
  from sys_reconcile [OF c this, of "''code-code''" "''a1''" "fst ex_started_turn" "snd ex_started_turn"]
  show "action_system mem_action_codec ex_pgs ex_codec ex_repo (snd ex_started_turn)"
    by (simp add: ex_clock_def ex_started_turn_def)
qed

lemma ex_pgs_namespace: "TrimSpace (pgs_namespace ex_pgs) \<noteq> []"
  by (simp add: ex_pgs_def)


theorem actions_Create_admits_witness:
  "\<exists>sn i r row. adb_rows (aw_db (snd ex_created_turn)) = [row] \<and> arow_id row = i \<and> is_turn sn i r \<and> fresh_turn r \<and>
     session_of r = ''s1'' \<and> sn_runtimeCandidates sn \<noteq> []"
proof -
  from ex_turn_facts have "\<not> isl (fst ex_created_turn)" by blast
  then obtain st where st: "actions_Create mem_action_svc ''s1'' (Some ex_create) ex_ready = (Inr st, snd ex_created_turn)"
    by (cases ex_created_turn; cases "fst ex_created_turn") (auto simp: ex_created_turn_def)
  have "adb_rows (aw_db ex_ready) = []" by (simp add: ex_ready_def ex_world_def)
  with actions_Create_admits [OF mem_action_svc_ok(1) mem_action_codec_ok mem_action_svc_ok(2) st] show ?thesis
    by (simp only: append_Nil ex_run_id) blast
qed


end
