(* ===== verification/Session_Readiness.thy ===== *)
theory Session_Readiness
  imports Session_Resource Resource_Config Timeline_Sink
begin

text \<open>
  The readiness of a session (\<open>agentsessions/readiness.go\<close>, \<open>resource_readiness.go\<close>), and the parts of
  \<open>controller.go\<close> and \<open>status.go\<close> that are functions of the resource: the status of a failed
  session and the timeline of a change.

  \<open>meta.SetStatusCondition\<close> of the Kubernetes API machinery is a parameter, a \<open>set_condition\<close>; what its
  documentation promises is \<open>set_condition_ok\<close>.
\<close>

type_synonym set_condition = "MetaCondition list \<Rightarrow> MetaCondition \<Rightarrow> MetaCondition list"

text \<open>
  The first condition of the type takes over every field of the new one, except that its transition
  time stays if its status does; a condition of a new type is appended.
\<close>

fun put_condition :: "MetaCondition list \<Rightarrow> MetaCondition \<Rightarrow> MetaCondition list" where
  "put_condition [] c = [c]"
| "put_condition (x # xs) c =
     (if mc_type x = mc_type c
      then c\<lparr>mc_lastTransitionTime := (if mc_status x = mc_status c then mc_lastTransitionTime x
                                       else mc_lastTransitionTime c)\<rparr> # xs
      else x # put_condition xs c)"

definition set_condition_ok :: "set_condition \<Rightarrow> bool" where
  "set_condition_ok f \<longleftrightarrow> (\<forall>cs c. \<not> time_is_zero (mc_lastTransitionTime c) \<longrightarrow> f cs c = put_condition cs c)"

section \<open>The evaluation\<close>

record readinessEvaluation =
  ev_workspaceReady :: bool
  ev_workspaceMessage :: string
  ev_warmStateReady :: bool
  ev_warmStateMessage :: string
  ev_runtimeReady :: bool
  ev_resourceReady :: bool
  ev_resourceMessage :: string
  ev_phase :: SessionResourcePhase
  ev_message :: string

definition no_evaluation :: readinessEvaluation where
  "no_evaluation =
     \<lparr>ev_workspaceReady = False, ev_workspaceMessage = [], ev_warmStateReady = False, ev_warmStateMessage = [],
      ev_runtimeReady = False, ev_resourceReady = False, ev_resourceMessage = [], ev_phase = SPhaseUnset,
      ev_message = []\<rparr>"

definition realizedResourceConfigRevisions :: "SessionResource option \<Rightarrow> Revisions" where
  "realizedResourceConfigRevisions resource =
     (case resource of None \<Rightarrow> no_revisions | Some r \<Rightarrow>
       \<lparr>rev_Rule = TrimSpace (srs_realizedRuleRevision (sr_status r)),
        rev_Skill = TrimSpace (srs_realizedSkillRevision (sr_status r)),
        rev_MCP = TrimSpace (srs_realizedMCPRevision (sr_status r))\<rparr>)"

fun join_comma :: "string list \<Rightarrow> string" where
  "join_comma [] = []"
| "join_comma [x] = x"
| "join_comma (x # xs) = x @ '', '' @ join_comma xs"

definition resourceConfigReadinessMessage :: "hash \<Rightarrow> AgentResources option \<Rightarrow> Revisions \<Rightarrow> string" where
  "resourceConfigReadinessMessage hash config realized =
     (case config of None \<Rightarrow> ''Resource config is missing.'' | Some c \<Rightarrow>
      if Ready hash config realized then ''Resource config is ready.''
      else if TrimSpace (res_snapshotId c) = [] then ''Resource config requires snapshotId.''
      else (let pending = PendingSubjects hash config realized in
        if pending = [] then ''Resource config reload is pending.''
        else ''Resource config reload is pending for '' @ join_comma (map SubjectSlug pending) @ ''.''))"

definition runtimeConfigReady :: "AgentSessionRuntimeConfig option \<Rightarrow> bool" where
  "runtimeConfigReady config =
     (case config of None \<Rightarrow> False
      | Some c \<Rightarrow> TrimSpace (getf [] prr_surfaceId (rc_providerRuntimeRef c)) \<noteq> [])"

definition resourceConfigReady :: "hash \<Rightarrow> AgentResources option \<Rightarrow> Revisions \<Rightarrow> bool" where
  "resourceConfigReady hash config realized \<longleftrightarrow> config \<noteq> None \<and> Ready hash config realized"

definition or_default :: "string \<Rightarrow> string \<Rightarrow> string" where
  "or_default message fallback = (if TrimSpace message = [] then fallback else message)"

definition summarizeReadiness :: "readinessEvaluation \<Rightarrow> string \<Rightarrow> readinessEvaluation" where
  "summarizeReadiness ev runtimeMessage =
     (if \<not> ev_workspaceReady ev then ev\<lparr>ev_phase := SPending,
        ev_message := or_default (TrimSpace (ev_workspaceMessage ev)) ''AgentSession workspace is not ready.''\<rparr>
      else if \<not> ev_warmStateReady ev then ev\<lparr>ev_phase := SPending,
        ev_message := or_default (TrimSpace (ev_warmStateMessage ev)) ''AgentSession warm state is not ready.''\<rparr>
      else if \<not> ev_runtimeReady ev then ev\<lparr>ev_phase := SPending,
        ev_message := or_default runtimeMessage ''AgentSession runtime config is not ready.''\<rparr>
      else if \<not> ev_resourceReady ev then
        (let message = or_default (ev_resourceMessage ev) ''AgentSession resource config is not ready.'' in
         ev\<lparr>ev_phase := SPending, ev_resourceMessage := message, ev_message := message\<rparr>)
      else ev\<lparr>ev_phase := SReady, ev_message := ''AgentSession is ready for the next run.''\<rparr>)"

definition evaluateReadiness :: "hash \<Rightarrow> SessionResource option \<Rightarrow> readinessEvaluation" where
  "evaluateReadiness hash resource =
     (let session = getf None sr_session resource;
          config = getf None ss_resourceConfig session;
          realized = realizedResourceConfigRevisions resource in
      summarizeReadiness
        (no_evaluation
          \<lparr>ev_workspaceReady := TrimSpace (getf [] id (getf None ss_workspaceRef session)) \<noteq> [],
           ev_workspaceMessage := ''Workspace reference is missing.'',
           ev_warmStateReady := TrimSpace (getf [] id (getf None ss_homeStateRef session)) \<noteq> [],
           ev_warmStateMessage := ''Warm state reference is missing.'',
           ev_runtimeReady := runtimeConfigReady (getf None ss_runtimeConfig session),
           ev_resourceReady := resourceConfigReady hash config realized,
           ev_resourceMessage := resourceConfigReadinessMessage hash config realized\<rparr>) [])"

section \<open>Conditions\<close>

definition setStatusCondition ::
    "set_condition \<Rightarrow> string \<Rightarrow> MetaConditionStatus \<Rightarrow> string \<Rightarrow> string \<Rightarrow> int \<Rightarrow> time
      \<Rightarrow> MetaCondition list \<Rightarrow> MetaCondition list" where
  "setStatusCondition put t status reason message generation now conditions =
     put conditions \<lparr>mc_type = t, mc_status = status, mc_reason = reason, mc_message = message,
       mc_observedGeneration = generation, mc_lastTransitionTime = now\<rparr>"

definition setCondition ::
    "set_condition \<Rightarrow> string \<Rightarrow> bool \<Rightarrow> string \<Rightarrow> string \<Rightarrow> string \<Rightarrow> string \<Rightarrow> int \<Rightarrow> time
      \<Rightarrow> MetaCondition list \<Rightarrow> MetaCondition list" where
  "setCondition put t ready readyReason notReadyReason readyMessage notReadyMessage generation now conditions =
     (if ready then setStatusCondition put t MetaTrue readyReason readyMessage generation now conditions
      else setStatusCondition put t MetaFalse notReadyReason notReadyMessage generation now conditions)"

definition knownSessionConditions :: "MetaCondition list \<Rightarrow> MetaCondition list" where
  "knownSessionConditions conditions = filter (\<lambda>c. IsKnownAgentSessionConditionType (mc_type c)) conditions"

definition readyForNextRun_now :: "readinessEvaluation \<Rightarrow> bool \<Rightarrow> bool" where
  "readyForNextRun_now e activeRun \<longleftrightarrow>
     ev_workspaceReady e \<and> ev_warmStateReady e \<and> ev_runtimeReady e \<and> ev_resourceReady e \<and> \<not> activeRun"

definition readiness_conditions ::
    "set_condition \<Rightarrow> readinessEvaluation \<Rightarrow> MetaCondition list \<Rightarrow> int \<Rightarrow> time \<Rightarrow> bool \<Rightarrow> MetaCondition list" where
  "readiness_conditions put e previous generation now activeRun =
     (let reason = (if activeRun then ''ActiveRunInProgress'' else ''SessionNotReady'');
          message = (if activeRun then ''AgentSession has an active run.'' else ev_message e);
          cs = knownSessionConditions previous;
          cs = setCondition put ''WorkspaceReady'' (ev_workspaceReady e) ''WorkspacePrepared'' ''WorkspaceUnavailable''
                 ''Workspace is ready.'' (ev_workspaceMessage e) generation now cs;
          cs = setCondition put ''WarmStateReady'' (ev_warmStateReady e) ''WarmStatePrepared'' ''WarmStateUnavailable''
                 ''Warm state is ready.'' (ev_warmStateMessage e) generation now cs;
          cs = setCondition put ''RuntimeConfigReady'' (ev_runtimeReady e) ''RuntimeConfigPrepared'' ''RuntimeConfigInvalid''
                 ''Runtime config is ready.'' ''Runtime config requires providerRuntimeRef.surfaceId.'' generation now cs;
          cs = setCondition put ''ResourceConfigReady'' (ev_resourceReady e) ''ResourceConfigPrepared'' ''ResourceConfigInvalid''
                 ''Resource config is ready.'' (ev_resourceMessage e) generation now cs
      in setCondition put ''ReadyForNextRun'' (readyForNextRun_now e activeRun) ''Ready'' reason
           ''AgentSession is ready for the next run.'' message generation now cs)"

section \<open>Statuses\<close>

definition previousConditions :: "SessionResourceStatus option \<Rightarrow> MetaCondition list" where
  "previousConditions status = getf [] srs_conditions status"

fun readyForNextRunCondition :: "MetaCondition list \<Rightarrow> MetaCondition list" where
  "readyForNextRunCondition [] = []"
| "readyForNextRunCondition (c # cs) =
     (if mc_type c = ''ReadyForNextRun'' then [c] else readyForNextRunCondition cs)"

definition session_failedStatus ::
    "set_condition \<Rightarrow> SessionResourceStatus option \<Rightarrow> int \<Rightarrow> time \<Rightarrow> string \<Rightarrow> string \<Rightarrow> SessionResourceStatus" where
  "session_failedStatus put previous generation now reason message =
     empty_session_status
       \<lparr>srs_observedGeneration := generation,
        srs_conditions := setStatusCondition put ''ReadyForNextRun'' MetaFalse reason message generation now
          (readyForNextRunCondition (previousConditions previous)),
        srs_phase := SFailed, srs_message := message, srs_updatedAt := Some now\<rparr>"

definition observedConfigGeneration :: "int \<Rightarrow> bool \<Rightarrow> int \<Rightarrow> int" where
  "observedConfigGeneration previous ready current = (if ready then current else previous)"

definition previousConfigGenerations :: "SessionResourceStatus option \<Rightarrow> int \<times> int \<times> int" where
  "previousConfigGenerations status = (case status of None \<Rightarrow> (0, 0, 0)
     | Some st \<Rightarrow> (srs_runtimeConfigGeneration st, srs_resourceConfigGeneration st, srs_stateGeneration st))"

definition agentSessionReadinessRequeueInterval :: duration where
  "agentSessionReadinessRequeueInterval = 5 * second"

definition readinessRequeueFor :: "SessionResourceStatus option \<Rightarrow> CtrlResult" where
  "readinessRequeueFor status =
     (case status of None \<Rightarrow> no_requeue | Some st \<Rightarrow>
       if srs_phase st \<noteq> SPending then no_requeue
       else requeue_after agentSessionReadinessRequeueInterval)"

definition session_normalizedStatus :: "SessionResourceStatus option \<Rightarrow> SessionResourceStatus option" where
  "session_normalizedStatus status = map_option (\<lambda>st. st\<lparr>srs_updatedAt := None\<rparr>) status"

definition session_statusSemanticallyEqual ::
    "SessionResourceStatus option \<Rightarrow> SessionResourceStatus option \<Rightarrow> bool" where
  "session_statusSemanticallyEqual previous next \<longleftrightarrow>
     session_normalizedStatus previous = session_normalizedStatus next"

definition session_isTerminalRunPhase :: "RunResourcePhase \<Rightarrow> bool" where
  "session_isTerminalRunPhase p = (case p of RSucceeded \<Rightarrow> True | RFailed \<Rightarrow> True | RCanceled \<Rightarrow> True | _ \<Rightarrow> False)"

section \<open>Timeline\<close>

definition session_scope :: "string \<Rightarrow> TimelineScopeRef" where
  "session_scope sessionID = \<lparr>tsr_scope = TimelineScopeSession, tsr_sessionID = sessionID, tsr_turnID = []\<rparr>"

definition sessionTimelineEvents ::
    "SessionResource \<Rightarrow> SessionResourceStatus option \<Rightarrow> SessionResourceStatus option \<Rightarrow> time \<Rightarrow> TimelineEvent list" where
  "sessionTimelineEvents resource previous next now =
     (case (sr_session resource, next) of
        (Some spec, Some nx) \<Rightarrow>
          (if TrimSpace (ss_sessionId spec) = [] then []
           else
             (let first = (case previous of None \<Rightarrow> True | Some p \<Rightarrow> srs_phase p = SPhaseUnset);
                  event = (\<lambda>et su ac attrs. \<lparr>te_scopeRef = session_scope (ss_sessionId spec), te_eventType = et,
                     te_subject = su, te_action = ac, te_occurredAt = now, te_attributes = attrs\<rparr>);
                  runID = TrimSpace (srs_activeRunID nx) in
              (if first then [event ''CREATED'' ''session'' ''reconcile'' [(''phase'', session_phase_string (srs_phase nx))]]
               else [])
              @ (if srs_phase nx = SReady \<and> (first \<or> getf SPhaseUnset srs_phase previous \<noteq> SReady)
                 then [event ''READY'' ''session'' ''reconcile'' []] else [])
              @ (if srs_phase nx = SRunning \<and> (previous = None \<or> getf SPhaseUnset srs_phase previous \<noteq> SRunning)
                 then [event ''STARTED'' ''run'' ''claim'' (if runID = [] then [] else [(''run_id'', runID)])] else [])))
      | _ \<Rightarrow> [])"

section \<open>What the conditions of a reconciliation are\<close>

text \<open>A condition that the platform contract allows, of the generation \<open>g\<close>.\<close>

definition fresh_condition :: "int \<Rightarrow> MetaCondition \<Rightarrow> bool" where
  "fresh_condition g c \<longleftrightarrow> isAllowedReasonForSessionConditionType (mc_type c) (mc_reason c) \<and>
     mc_status c \<in> {MetaTrue, MetaFalse} \<and> mc_observedGeneration c = g"

text \<open>At most one condition per type, all of known types, those of the types \<open>T\<close> fresh.\<close>

definition settled :: "string set \<Rightarrow> int \<Rightarrow> MetaCondition list \<Rightarrow> bool" where
  "settled T g cs \<longleftrightarrow> distinct (map mc_type cs) \<and>
     (\<forall>c \<in> set cs. IsKnownAgentSessionConditionType (mc_type c) \<and> (mc_type c \<in> T \<longrightarrow> fresh_condition g c))"

lemma put_types:
  "set (map mc_type (put_condition cs c)) = insert (mc_type c) (set (map mc_type cs))"
  by (induction cs) auto

lemma put_distinct: "distinct (map mc_type cs) \<Longrightarrow> distinct (map mc_type (put_condition cs c))"
proof (induction cs)
  case (Cons x xs)
  with put_types [of xs c] show ?case by auto
qed simp

lemma put_members:
  "distinct (map mc_type cs) \<Longrightarrow> x \<in> set (put_condition cs c) \<Longrightarrow>
     x \<in> set cs \<and> mc_type x \<noteq> mc_type c \<or> (\<exists>t. x = c\<lparr>mc_lastTransitionTime := t\<rparr>)"
proof (induction cs)
  case (Cons y ys)
  then show ?case by (cases "mc_type y = mc_type c") (auto simp: image_iff)
qed (auto intro: exI [of _ "mc_lastTransitionTime c"])

lemma put_new: "\<exists>t. c\<lparr>mc_lastTransitionTime := t\<rparr> \<in> set (put_condition cs c)"
  by (induction cs) (auto intro: exI [of _ "mc_lastTransitionTime c"])

lemma settled_put:
  assumes "settled T g cs" and "fresh_condition g c"
  shows "settled (insert (mc_type c) T) g (put_condition cs c)"
proof -
  from assms(2) have known: "IsKnownAgentSessionConditionType (mc_type c)"
    using allowed_session_reason by (auto simp: fresh_condition_def)
  have "fresh_condition g (c\<lparr>mc_lastTransitionTime := t\<rparr>)" for t using assms(2) by (simp add: fresh_condition_def)
  with assms known show ?thesis
    by (auto simp: settled_def put_distinct dest!: put_members [rotated])
qed

lemma settled_known: "distinct (map mc_type previous) \<Longrightarrow> settled {} g (knownSessionConditions previous)"
  by (auto simp: settled_def knownSessionConditions_def distinct_map_filter)

lemma settled_set:
  assumes "set_condition_ok set_cond" and "\<not> time_is_zero now" and "settled T g cs"
    and "isAllowedReasonForSessionConditionType t yes" and "isAllowedReasonForSessionConditionType t no"
  shows "settled (insert t T) g (setCondition set_cond t ready yes no ym nm g now cs)"
  using assms settled_put [OF assms(3), of "\<lparr>mc_type = t, mc_status = MetaTrue, mc_reason = yes, mc_message = ym,
      mc_observedGeneration = g, mc_lastTransitionTime = now\<rparr>"]
    settled_put [OF assms(3), of "\<lparr>mc_type = t, mc_status = MetaFalse, mc_reason = no, mc_message = nm,
      mc_observedGeneration = g, mc_lastTransitionTime = now\<rparr>"]
  by (simp add: setCondition_def setStatusCondition_def set_condition_ok_def fresh_condition_def)

lemma setCondition_put:
  assumes "set_condition_ok set_cond" and "\<not> time_is_zero now"
  shows "\<exists>n. setCondition set_cond t ready yes no ym nm g now cs = put_condition cs n \<and> mc_type n = t \<and>
      mc_observedGeneration n = g \<and> mc_status n = (if ready then MetaTrue else MetaFalse)"
  using assms by (cases ready) (force simp: setCondition_def setStatusCondition_def set_condition_ok_def)+

lemma session_reasons:
  "isAllowedReasonForSessionConditionType ''WorkspaceReady'' ''WorkspacePrepared''"
  "isAllowedReasonForSessionConditionType ''WorkspaceReady'' ''WorkspaceUnavailable''"
  "isAllowedReasonForSessionConditionType ''WarmStateReady'' ''WarmStatePrepared''"
  "isAllowedReasonForSessionConditionType ''WarmStateReady'' ''WarmStateUnavailable''"
  "isAllowedReasonForSessionConditionType ''RuntimeConfigReady'' ''RuntimeConfigPrepared''"
  "isAllowedReasonForSessionConditionType ''RuntimeConfigReady'' ''RuntimeConfigInvalid''"
  "isAllowedReasonForSessionConditionType ''ResourceConfigReady'' ''ResourceConfigPrepared''"
  "isAllowedReasonForSessionConditionType ''ResourceConfigReady'' ''ResourceConfigInvalid''"
  "isAllowedReasonForSessionConditionType ''ReadyForNextRun'' ''Ready''"
  "isAllowedReasonForSessionConditionType ''ReadyForNextRun'' ''ActiveRunInProgress''"
  "isAllowedReasonForSessionConditionType ''ReadyForNextRun'' ''SessionNotReady''"
  by (simp_all add: isAllowedReasonForSessionConditionType_def sessionConditionReasonsByType_def)

lemma readiness_conditions_last:
  assumes "set_condition_ok set_cond" and "\<not> time_is_zero now" and "distinct (map mc_type previous)"
  obtains cs reason message where
    "readiness_conditions set_cond e previous g now activeRun =
       setCondition set_cond ''ReadyForNextRun'' (readyForNextRun_now e activeRun) ''Ready'' reason
         ''AgentSession is ready for the next run.'' message g now cs"
    and "settled {''ResourceConfigReady'', ''RuntimeConfigReady'', ''WarmStateReady'', ''WorkspaceReady''} g cs"
    and "isAllowedReasonForSessionConditionType ''ReadyForNextRun'' reason"
proof (rule that)
  show "settled {''ResourceConfigReady'', ''RuntimeConfigReady'', ''WarmStateReady'', ''WorkspaceReady''} g
    (setCondition set_cond ''ResourceConfigReady'' (ev_resourceReady e) ''ResourceConfigPrepared'' ''ResourceConfigInvalid''
      ''Resource config is ready.'' (ev_resourceMessage e) g now
      (setCondition set_cond ''RuntimeConfigReady'' (ev_runtimeReady e) ''RuntimeConfigPrepared'' ''RuntimeConfigInvalid''
       ''Runtime config is ready.'' ''Runtime config requires providerRuntimeRef.surfaceId.'' g now
      (setCondition set_cond ''WarmStateReady'' (ev_warmStateReady e) ''WarmStatePrepared'' ''WarmStateUnavailable''
       ''Warm state is ready.'' (ev_warmStateMessage e) g now
      (setCondition set_cond ''WorkspaceReady'' (ev_workspaceReady e) ''WorkspacePrepared'' ''WorkspaceUnavailable''
       ''Workspace is ready.'' (ev_workspaceMessage e) g now (knownSessionConditions previous)))))"
    by (intro settled_set settled_known assms session_reasons)
  show "isAllowedReasonForSessionConditionType ''ReadyForNextRun''
      (if activeRun then ''ActiveRunInProgress'' else ''SessionNotReady'')"
    by (simp add: session_reasons)
qed (simp add: readiness_conditions_def Let_def)

text \<open>Every condition of a derived status is fresh, and \<open>ReadyForNextRun\<close> says what was evaluated.\<close>

lemma readiness_conditions_fresh:
  assumes "set_condition_ok set_cond" and "\<not> time_is_zero now" and "distinct (map mc_type previous)"
  shows "distinct (map mc_type (readiness_conditions set_cond e previous g now activeRun))"
    and "list_all (fresh_condition g) (readiness_conditions set_cond e previous g now activeRun)"
proof -
  obtain cs reason message where r: "readiness_conditions set_cond e previous g now activeRun =
       setCondition set_cond ''ReadyForNextRun'' (readyForNextRun_now e activeRun) ''Ready'' reason
         ''AgentSession is ready for the next run.'' message g now cs"
    and s: "settled {''ResourceConfigReady'', ''RuntimeConfigReady'', ''WarmStateReady'', ''WorkspaceReady''} g cs"
    and a: "isAllowedReasonForSessionConditionType ''ReadyForNextRun'' reason"
    using readiness_conditions_last [OF assms] by blast
  have "settled (insert ''ReadyForNextRun'' {''ResourceConfigReady'', ''RuntimeConfigReady'', ''WarmStateReady'', ''WorkspaceReady''})
      g (readiness_conditions set_cond e previous g now activeRun)"
    unfolding r by (rule settled_set [OF assms(1,2) s session_reasons(9) a])
  then show "distinct (map mc_type (readiness_conditions set_cond e previous g now activeRun))"
    and "list_all (fresh_condition g) (readiness_conditions set_cond e previous g now activeRun)"
    by (auto simp: settled_def list_all_iff IsKnownAgentSessionConditionType_def)
qed

lemma readiness_conditions_ready:
  fixes e :: readinessEvaluation and activeRun :: bool and g :: int
  assumes "set_condition_ok set_cond" and "\<not> time_is_zero now" and "distinct (map mc_type previous)"
  defines "cs \<equiv> readiness_conditions set_cond e previous g now activeRun"
  shows "c \<in> set cs \<Longrightarrow> mc_type c = ''ReadyForNextRun'' \<Longrightarrow>
      mc_status c = (if readyForNextRun_now e activeRun then MetaTrue else MetaFalse)"
    and "\<exists>c \<in> set cs. mc_type c = ''ReadyForNextRun'' \<and> mc_observedGeneration c = g"
proof -
  obtain ds reason message where r: "cs =
       setCondition set_cond ''ReadyForNextRun'' (readyForNextRun_now e activeRun) ''Ready'' reason
         ''AgentSession is ready for the next run.'' message g now ds"
    and d: "distinct (map mc_type ds)"
    using readiness_conditions_last [OF assms(1-3)] unfolding cs_def settled_def by metis
  obtain n where cs: "cs = put_condition ds n" and n: "mc_type n = ''ReadyForNextRun''" "mc_observedGeneration n = g"
      "mc_status n = (if readyForNextRun_now e activeRun then MetaTrue else MetaFalse)"
    using setCondition_put [OF assms(1,2)] unfolding r by metis
  from n put_members [OF d] show "c \<in> set cs \<Longrightarrow> mc_type c = ''ReadyForNextRun'' \<Longrightarrow>
      mc_status c = (if readyForNextRun_now e activeRun then MetaTrue else MetaFalse)"
    unfolding cs by force
  from put_new [of n ds] obtain t where "n\<lparr>mc_lastTransitionTime := t\<rparr> \<in> set cs" unfolding cs by blast
  then show "\<exists>c \<in> set cs. mc_type c = ''ReadyForNextRun'' \<and> mc_observedGeneration c = g"
    by (rule rev_bexI) (simp add: n)
qed

text \<open>What the phase of an evaluation says.\<close>

lemma summarizeReadiness_keeps [simp]:
  "ev_workspaceReady (summarizeReadiness e m) = ev_workspaceReady e"
  "ev_warmStateReady (summarizeReadiness e m) = ev_warmStateReady e"
  "ev_runtimeReady (summarizeReadiness e m) = ev_runtimeReady e"
  "ev_resourceReady (summarizeReadiness e m) = ev_resourceReady e"
  "ev_workspaceMessage (summarizeReadiness e m) = ev_workspaceMessage e"
  "ev_warmStateMessage (summarizeReadiness e m) = ev_warmStateMessage e"
  by (simp_all add: summarizeReadiness_def Let_def)

lemma summarizeReadiness_phase [simp]:
  "ev_phase (summarizeReadiness e m) = (if readyForNextRun_now e False then SReady else SPending)"
  by (simp add: summarizeReadiness_def readyForNextRun_now_def Let_def)

lemma readyForNextRun_now_summary [simp]:
  "readyForNextRun_now (summarizeReadiness e m) b = readyForNextRun_now e b"
  by (simp add: readyForNextRun_now_def)

end
