(* ===== verification/Session_Reload.thy ===== *)
theory Session_Reload
  imports Session_Readiness Action_Controller Action_Store
begin

text \<open>
  The reload actions of a session whose resource config has changed (\<open>agentsessions/resource_reload.go\<close>):
  one per subject whose realized revision is not the desired one.
\<close>

section \<open>The actions\<close>

definition reloadSubjectActionLabels :: "string \<Rightarrow> ActionSubject \<Rightarrow> (string \<times> string) list" where
  "reloadSubjectActionLabels sessionID subject =
     [(''agentsessionaction.code-code.internal/session-id'', TrimSpace sessionID),
      (''agentsessionaction.code-code.internal/type'', TrimSpace (action_type_name TypeReloadSubject))]
     @ (if subject = SubjectUnspecified then []
        else [(''agentsessionaction.code-code.internal/subject'', TrimSpace (action_subject_name subject))])"

definition buildReloadSubjectAction :: "hash \<Rightarrow> SessionResource option \<Rightarrow> ActionSubject \<Rightarrow> ActionResource option" where
  "buildReloadSubjectAction hash resource subject =
     (case resource of None \<Rightarrow> None | Some r \<Rightarrow>
      (case sr_session r of None \<Rightarrow> None | Some spec \<Rightarrow>
       (let sessionID = TrimSpace (ss_sessionId spec);
            snapshotID = TrimSpace (getf [] res_snapshotId (ss_resourceConfig spec)) in
        case config_Snapshot hash (ss_resourceConfig spec) subject of None \<Rightarrow> None
        | Some snapshot \<Rightarrow>
          if sessionID = [] \<or> snapshotID = [] then None
          else
            (let generation = om_generation (sr_meta r);
                 actionID = sessionID @ ''-'' @ SubjectSlug subject @ ''-reload-g'' @ show_int generation in
             Some \<lparr>ar_apiVersion = GroupVersion, ar_kind = ''AgentSessionActionResource'',
               ar_meta = \<lparr>om_name = actionID, om_namespace = om_namespace (sr_meta r), om_generation = 0,
                 om_resourceVersion = [], om_labels = reloadSubjectActionLabels sessionID subject,
                 om_creationTimestamp = 0, om_deletionTimestamp = None, om_finalizers = []\<rparr>,
               ar_action = Some \<lparr>as_actionId = actionID, as_sessionId = sessionID, as_type = TypeReloadSubject,
                 as_turnId = [], as_inputSnapshot = Some (SnapReload
                   \<lparr>rl_sessionGeneration = generation, rl_subject = subject, rl_snapshotId = snapshotID,
                    rl_subjectRevision = sub_SubjectRevision snapshot,
                    rl_resourceConfig = Some (sub_ResourceConfig snapshot)\<rparr>),
                 as_stopRequested = False\<rparr>,
               ar_status = empty_action_status\<rparr>))))"

definition buildReloadSubjectActions :: "hash \<Rightarrow> SessionResource option \<Rightarrow> readinessEvaluation \<Rightarrow> ActionResource list" where
  "buildReloadSubjectActions hash resource e =
     (case resource of None \<Rightarrow> [] | Some r \<Rightarrow>
      (case sr_session r of None \<Rightarrow> [] | Some spec \<Rightarrow>
        if \<not> ev_workspaceReady e \<or> \<not> ev_warmStateReady e \<or> \<not> ev_runtimeReady e then []
        else if TrimSpace (getf [] res_snapshotId (ss_resourceConfig spec)) = [] then []
        else
          (let subjects = PendingSubjects hash (ss_resourceConfig spec) (realizedResourceConfigRevisions resource) in
           if subjects = [] then []
           else if TrimSpace (ss_sessionId spec) = [] then []
           else List.map_filter (buildReloadSubjectAction hash resource) subjects)))"

section \<open>Applying them makes the config ready\<close>

definition reload_snapshot :: "ActionResource \<Rightarrow> ReloadSubjectSnapshot" where
  "reload_snapshot a = the (get_reload_subject (the (ar_action a)))"

definition status_revisions :: "AgentSessionStatus \<Rightarrow> Revisions" where
  "status_revisions st = \<lparr>rev_Rule = TrimSpace (ass_realizedRuleRevision st),
     rev_Skill = TrimSpace (ass_realizedSkillRevision st), rev_MCP = TrimSpace (ass_realizedMcpRevision st)\<rparr>"

abbreviation config_subjects :: "ActionSubject set" where
  "config_subjects \<equiv> {SubjectRule, SubjectSkill, SubjectMCP}"

lemma Ready_iff_subjects:
  "Ready hash c v \<longleftrightarrow> (\<forall>s \<in> config_subjects. snapshotRevision hash c s = revisionForSubject v s)"
  by (simp add: Ready_def DesiredRevisions_def revisionForSubject_def Let_def)

text \<open>An action built for a subject carries the session's own part of it.\<close>

lemma built_action:
  assumes "sr_session r = Some spec" and "ss_resourceConfig spec = Some cfg"
    and "TrimSpace (ss_sessionId spec) \<noteq> []" and "TrimSpace (res_snapshotId cfg) \<noteq> []" and "s \<in> config_subjects"
  obtains a f where "buildReloadSubjectAction hash (Some r) s = Some a" and "config_filter (Some cfg) s = Some f"
    and "reload_snapshot a = \<lparr>rl_sessionGeneration = om_generation (sr_meta r), rl_subject = s,
       rl_snapshotId = TrimSpace (res_snapshotId cfg), rl_subjectRevision = revision hash f, rl_resourceConfig = Some f\<rparr>"
    and "ar_name a = TrimSpace (ss_sessionId spec) @ ''-'' @ SubjectSlug s @ ''-reload-g'' @ show_int (om_generation (sr_meta r))"
    and "getf [] as_sessionId (ar_action a) = TrimSpace (ss_sessionId spec)"
proof -
  from assms(5) obtain f where "config_filter (Some cfg) s = Some f" by (auto simp: config_filter_def Let_def)
  with assms show ?thesis
    by (intro that [of "the (buildReloadSubjectAction hash (Some r) s)" f])
      (simp_all add: buildReloadSubjectAction_def config_Snapshot_def reload_snapshot_def get_reload_subject_def Let_def)
qed

lemma reload_status_revision:
  assumes "hash_ok hash" and "config_filter c s = Some f" and "s \<in> config_subjects" and "x \<in> config_subjects"
    and "rl_subject sn = s" and "rl_resourceConfig sn = Some f"
  shows "revisionForSubject (status_revisions (reload_status hash st sn now)) x =
     (if x = s then snapshotRevision hash c s else revisionForSubject (status_revisions st) x)"
  using assms snapshotRevision_filter [OF assms(2), of hash] TrimSpace_snapshotRevision [OF assms(1)]
  by (auto simp: reload_status_def status_revisions_def config_Apply_def DesiredRevisions_def revisionForSubject_def Let_def)

lemma built_actions:
  fixes hash :: hash
  assumes "sr_session r = Some spec" and "ss_resourceConfig spec = Some cfg" and "set subjects \<subseteq> config_subjects"
    and "TrimSpace (ss_sessionId spec) \<noteq> []" and "TrimSpace (res_snapshotId cfg) \<noteq> []"
  defines "acts \<equiv> List.map_filter (buildReloadSubjectAction hash (Some r)) subjects"
  shows "map (\<lambda>a. rl_subject (reload_snapshot a)) acts = subjects \<and>
     list_all (\<lambda>a. \<not> reloadSubjectSuperseded hash r (reload_snapshot a)) acts \<and>
     (hash_ok hash \<longrightarrow> (\<forall>st. \<forall>x \<in> config_subjects.
       revisionForSubject (status_revisions (fold (\<lambda>a st. reload_status hash st (reload_snapshot a) now) acts st)) x =
       (if x \<in> set subjects then snapshotRevision hash (Some cfg) x else revisionForSubject (status_revisions st) x)))"
  using assms(3) unfolding acts_def
proof (induction subjects)
  case (Cons s ss)
  then have sub: "set ss \<subseteq> config_subjects" and "s \<in> config_subjects" by simp_all
  from assms(1,2,4,5) this(2) obtain a f where a: "buildReloadSubjectAction hash (Some r) s = Some a"
    and f: "config_filter (Some cfg) s = Some f"
    and sn: "reload_snapshot a = \<lparr>rl_sessionGeneration = om_generation (sr_meta r), rl_subject = s,
       rl_snapshotId = TrimSpace (res_snapshotId cfg), rl_subjectRevision = revision hash f, rl_resourceConfig = Some f\<rparr>"
    using built_action by metis
  have one: "revisionForSubject (status_revisions (reload_status hash st (reload_snapshot a) now)) x =
        (if x = s then snapshotRevision hash (Some cfg) s else revisionForSubject (status_revisions st) x)"
    if "hash_ok hash" "x \<in> config_subjects" for st x
    using that \<open>s \<in> config_subjects\<close> by (intro reload_status_revision [OF _ f]) (simp_all add: sn)
  have acts: "List.map_filter (buildReloadSubjectAction hash (Some r)) (s # ss) =
      a # List.map_filter (buildReloadSubjectAction hash (Some r)) ss"
    using a by (simp add: List.map_filter_def)
  have current: "\<not> reloadSubjectSuperseded hash r (reload_snapshot a)"
    using f assms(1,2) by (simp add: sn reloadSubjectSuperseded_def config_Snapshot_def)
  have subject: "rl_subject (reload_snapshot a) = s" by (simp add: sn)
  have IH: "map (\<lambda>a. rl_subject (reload_snapshot a)) (List.map_filter (buildReloadSubjectAction hash (Some r)) ss) = ss"
    "list_all (\<lambda>a. \<not> reloadSubjectSuperseded hash r (reload_snapshot a)) (List.map_filter (buildReloadSubjectAction hash (Some r)) ss)"
    "\<And>st x. hash_ok hash \<Longrightarrow> x \<in> config_subjects \<Longrightarrow>
       revisionForSubject (status_revisions (fold (\<lambda>a st. reload_status hash st (reload_snapshot a) now)
         (List.map_filter (buildReloadSubjectAction hash (Some r)) ss) st)) x =
       (if x \<in> set ss then snapshotRevision hash (Some cfg) x else revisionForSubject (status_revisions st) x)"
    using Cons.IH sub by blast+
  show ?case unfolding acts
    using IH current one \<open>s \<in> config_subjects\<close> by (intro conjI impI allI ballI) (simp_all add: subject)
qed (simp add: List.map_filter_def)

section \<open>Properties\<close>

lemma reload_actions_facts:
  assumes "hash_ok hash" and "sr_session r = Some spec" and "ss_resourceConfig spec = Some cfg"
    and "TrimSpace (ss_sessionId spec) \<noteq> []" and "TrimSpace (res_snapshotId cfg) \<noteq> []"
    and "ev_workspaceReady e" and "ev_warmStateReady e" and "ev_runtimeReady e"
  shows "map (\<lambda>a. rl_subject (reload_snapshot a)) (buildReloadSubjectActions hash (Some r) e) =
      PendingSubjects hash (Some cfg) (realizedResourceConfigRevisions (Some r))"
    and "list_all (\<lambda>a. \<not> reloadSubjectSuperseded hash r (reload_snapshot a)) (buildReloadSubjectActions hash (Some r) e)"
    and "resourceConfigReady hash (Some cfg) (status_revisions
      (fold (\<lambda>a st. reload_status hash st (reload_snapshot a) now) (buildReloadSubjectActions hash (Some r) e)
        (sessionStatusFromResourceStatus r (sr_status r))))"
proof -
  define ss where "ss = PendingSubjects hash (Some cfg) (realizedResourceConfigRevisions (Some r))"
  have sub: "set ss \<subseteq> config_subjects" by (auto simp: ss_def PendingSubjects_set)
  have acts: "buildReloadSubjectActions hash (Some r) e = List.map_filter (buildReloadSubjectAction hash (Some r)) ss"
    using assms(2-8) by (simp add: buildReloadSubjectActions_def ss_def Let_def List.map_filter_def)
  note b = built_actions [OF assms(2,3) sub assms(4,5), of hash now]
  from b show "map (\<lambda>a. rl_subject (reload_snapshot a)) (buildReloadSubjectActions hash (Some r) e) =
      PendingSubjects hash (Some cfg) (realizedResourceConfigRevisions (Some r))"
    and "list_all (\<lambda>a. \<not> reloadSubjectSuperseded hash r (reload_snapshot a)) (buildReloadSubjectActions hash (Some r) e)"
    by (simp_all add: acts ss_def)
  have "status_revisions (sessionStatusFromResourceStatus r (sr_status r)) = realizedResourceConfigRevisions (Some r)"
    by (simp add: status_revisions_def sessionStatusFromResourceStatus_def realizedResourceConfigRevisions_def)
  with b assms(1) show "resourceConfigReady hash (Some cfg) (status_revisions
      (fold (\<lambda>a st. reload_status hash st (reload_snapshot a) now) (buildReloadSubjectActions hash (Some r) e)
        (sessionStatusFromResourceStatus r (sr_status r))))"
    by (auto simp: resourceConfigReady_def Ready_iff_subjects acts ss_def PendingSubjects_set)
qed

text \<open>
  The reload actions of a session cover exactly the subjects that are pending, none of them is
  superseded, and once the reconciler of the actions has applied them all, in whatever state the
  session's status was, its resource config is ready. They are built as soon as the carriers and the
  runtime are ready and the config has a snapshot id.
\<close>

theorem reload_actions_converge:
  assumes "hash_ok hash" and "sr_session r = Some spec" and "ss_resourceConfig spec = Some cfg"
    and "TrimSpace (ss_sessionId spec) \<noteq> []" and "TrimSpace (res_snapshotId cfg) \<noteq> []"
    and "ev_workspaceReady e" and "ev_warmStateReady e" and "ev_runtimeReady e"
  shows "map (\<lambda>a. rl_subject (reload_snapshot a)) (buildReloadSubjectActions hash (Some r) e) =
      PendingSubjects hash (Some cfg) (realizedResourceConfigRevisions (Some r)) \<and>
    list_all (\<lambda>a. \<not> reloadSubjectSuperseded hash r (reload_snapshot a)) (buildReloadSubjectActions hash (Some r) e) \<and>
    resourceConfigReady hash (Some cfg) (status_revisions
      (fold (\<lambda>a st. reload_status hash st (reload_snapshot a) now) (buildReloadSubjectActions hash (Some r) e)
        (sessionStatusFromResourceStatus r (sr_status r))))"
  using reload_actions_facts [OF assms] by blast

definition ex_reload_config :: AgentResources where
  "ex_reload_config = \<lparr>res_snapshotId = ''v1'',
     res_instructions = [Some \<lparr>ir_kind = InstructionRule, ir_name = ''style'', ir_content = ''be brief''\<rparr>],
     res_toolBindings = [Some \<lparr>tb_name = ''web'', tb_kind = ToolMCP, tb_target = ''mcp://web''\<rparr>]\<rparr>"

definition ex_reload_spec :: AgentSessionSpec where
  "ex_reload_spec = empty_session_spec\<lparr>ss_sessionId := ''s1'', ss_resourceConfig := Some ex_reload_config\<rparr>"

definition ex_reload_session :: SessionResource where
  "ex_reload_session = \<lparr>sr_meta = \<lparr>om_name = ''s1'', om_namespace = ''code-code'', om_generation = 2,
      om_resourceVersion = [], om_labels = [], om_creationTimestamp = 0, om_deletionTimestamp = None, om_finalizers = []\<rparr>,
     sr_session = Some ex_reload_spec, sr_status = empty_session_status\<rparr>"

definition ex_carriers_ready :: readinessEvaluation where
  "ex_carriers_ready = no_evaluation\<lparr>ev_workspaceReady := True, ev_warmStateReady := True, ev_runtimeReady := True\<rparr>"

theorem reload_actions_converge_witness:
  "map (\<lambda>a. rl_subject (reload_snapshot a)) (buildReloadSubjectActions (\<lambda>c. ''h'') (Some ex_reload_session) ex_carriers_ready)
     = [SubjectRule, SubjectMCP] \<and>
   resourceConfigReady (\<lambda>c. ''h'') (Some ex_reload_config) (status_revisions
      (fold (\<lambda>a st. reload_status (\<lambda>c. ''h'') st (reload_snapshot a) 5)
        (buildReloadSubjectActions (\<lambda>c. ''h'') (Some ex_reload_session) ex_carriers_ready)
        (sessionStatusFromResourceStatus ex_reload_session (sr_status ex_reload_session))))"
proof -
  have h: "hash_ok (\<lambda>c. ''h'')" by (simp add: hash_ok_def) code_simp
  have r: "sr_session ex_reload_session = Some ex_reload_spec" "ss_resourceConfig ex_reload_spec = Some ex_reload_config"
    by (simp_all add: ex_reload_session_def ex_reload_spec_def)
  have t: "TrimSpace (ss_sessionId ex_reload_spec) \<noteq> []" "TrimSpace (res_snapshotId ex_reload_config) \<noteq> []"
    and p: "PendingSubjects (\<lambda>c. ''h'') (Some ex_reload_config) (realizedResourceConfigRevisions (Some ex_reload_session)) =
      [SubjectRule, SubjectMCP]" by code_simp+
  have "ev_workspaceReady ex_carriers_ready" "ev_warmStateReady ex_carriers_ready" "ev_runtimeReady ex_carriers_ready"
    by (simp_all add: ex_carriers_ready_def)
  from reload_actions_converge [OF h r t this] p show ?thesis by simp
qed

end
