(* ===== verification/Session_Carriers.thy ===== *)
theory Session_Carriers
  imports Session_Readiness Action_Controller Run_Status
begin

text \<open>
  The carriers of a session (\<open>agentsessions/carrier_pvc.go\<close>, \<open>carrier_ensure.go\<close>, \<open>carrier_manager.go\<close>):
  the volume claims that hold its workspace and its warm state. The manager creates the claims of the
  current spec, reports whether they are bound, and deletes the claims that nothing refers to any more.

  The Kubernetes client is a record of the calls the code makes, over the world \<open>'w\<close>. The digest in the
  name of a claim, five bytes of SHA-1 in hexadecimal, is the parameter \<open>digest\<close>. Of a claim the code
  fixes the access mode, the volume mode and the storage request; they are not part of the record.
\<close>

type_synonym digest = "string \<Rightarrow> string"

record OwnerReference =
  or_apiVersion :: string
  or_kind :: string
  or_name :: string
  or_uid :: string
  or_controller :: bool
  or_blockOwnerDeletion :: bool

record PVC =
  pvc_name :: string
  pvc_namespace :: string
  pvc_labels :: "(string \<times> string) list"
  pvc_owners :: "OwnerReference list"
  pvc_lost :: bool

section \<open>Names\<close>

datatype carrierKind = carrierKindWorkspace | carrierKindHomeState

fun carrierKind_string :: "carrierKind \<Rightarrow> string" where
  "carrierKind_string carrierKindWorkspace = ''workspace''"
| "carrierKind_string carrierKindHomeState = ''home-state''"

definition carrierSessionIDLabel :: string where
  "carrierSessionIDLabel = ''agentsession.code-code.internal/session-id''"
definition carrierKindLabel :: string where
  "carrierKindLabel = ''agentsession.code-code.internal/carrier-kind''"
definition carrierIDLabel :: string where
  "carrierIDLabel = ''agentsession.code-code.internal/carrier-id''"
definition carrierManagedByLabel :: string where
  "carrierManagedByLabel = ''app.kubernetes.io/managed-by''"
definition carrierManagedByValue :: string where
  "carrierManagedByValue = ''platform-agent-runtime-service''"
definition maxCarrierNamePrefix :: nat where
  "maxCarrierNamePrefix = 40"

text \<open>\<open>carrierNamePattern.ReplaceAllString(_, "-")\<close>: a run of other characters becomes one dash.\<close>

fun dash_runs :: "bool \<Rightarrow> string \<Rightarrow> string" where
  "dash_runs inside [] = []"
| "dash_runs inside (c # cs) =
     (if is_slug_char c \<or> c = CHR ''-'' then c # dash_runs False cs
      else if inside then dash_runs True cs else CHR ''-'' # dash_runs True cs)"

definition trim_dashes :: "string \<Rightarrow> string" where
  "trim_dashes s = rev (dropWhile (\<lambda>c. c = CHR ''-'') (rev (dropWhile (\<lambda>c. c = CHR ''-'') s)))"

definition carrierNamePrefix :: "string \<Rightarrow> string" where
  "carrierNamePrefix sessionID =
     (let normalized = trim_dashes (dash_runs False (ToLower (TrimSpace sessionID))) in
      if normalized = [] then ''session''
      else
        (let normalized = (if length normalized > maxCarrierNamePrefix
                           then trim_dashes (take maxCarrierNamePrefix normalized) else normalized)
         in if normalized = [] then ''session'' else normalized))"

definition carrierPVCName :: "digest \<Rightarrow> string \<Rightarrow> carrierKind \<Rightarrow> string \<Rightarrow> string" where
  "carrierPVCName digest sessionID kind carrierID =
     (let sessionID = TrimSpace sessionID; carrierID = TrimSpace carrierID in
      if sessionID = [] \<or> carrierID = [] then []
      else carrierNamePrefix sessionID @ ''-'' @ carrierKind_string kind @ ''-''
        @ digest (sessionID @ ''/'' @ carrierKind_string kind @ ''/'' @ carrierID))"

definition WorkspacePVCName :: "digest \<Rightarrow> string \<Rightarrow> string \<Rightarrow> string" where
  "WorkspacePVCName digest sessionID workspaceID = carrierPVCName digest sessionID carrierKindWorkspace workspaceID"

definition HomeStatePVCName :: "digest \<Rightarrow> string \<Rightarrow> string \<Rightarrow> string" where
  "HomeStatePVCName digest sessionID homeStateID = carrierPVCName digest sessionID carrierKindHomeState homeStateID"

text \<open>The resource built from the repository's state carries no UID.\<close>

definition buildCarrierPVC :: "digest \<Rightarrow> SessionResource \<Rightarrow> string \<Rightarrow> carrierKind \<Rightarrow> string \<Rightarrow> PVC" where
  "buildCarrierPVC digest session namespace kind carrierID =
     \<lparr>pvc_name = carrierPVCName digest (om_name (sr_meta session)) kind carrierID, pvc_namespace = namespace,
      pvc_labels = [(carrierSessionIDLabel, TrimSpace (om_name (sr_meta session))),
                    (carrierKindLabel, carrierKind_string kind), (carrierIDLabel, TrimSpace carrierID),
                    (carrierManagedByLabel, carrierManagedByValue)],
      pvc_owners = (if TrimSpace namespace = TrimSpace (om_namespace (sr_meta session))
        then [\<lparr>or_apiVersion = GroupVersion, or_kind = ''AgentSessionResource'', or_name = om_name (sr_meta session),
               or_uid = [], or_controller = True, or_blockOwnerDeletion = True\<rparr>] else []),
      pvc_lost = False\<rparr>"

section \<open>The names are names\<close>

text \<open>A label of the DNS: at most 63 of the characters a-z, 0-9 and dash, the ends not dashes.\<close>

definition dns_label :: "string \<Rightarrow> bool" where
  "dns_label s \<longleftrightarrow> s \<noteq> [] \<and> length s \<le> 63 \<and> list_all (\<lambda>c. is_slug_char c \<or> c = CHR ''-'') s \<and>
     is_slug_char (hd s) \<and> is_slug_char (last s)"

lemma dash_runs_chars: "list_all (\<lambda>c. is_slug_char c \<or> c = CHR ''-'') (dash_runs b s)"
  by (induction b s rule: dash_runs.induct) auto

lemma trim_dashes_set: "set (trim_dashes s) \<subseteq> set s"
  unfolding trim_dashes_def by (auto dest!: set_dropWhileD)

lemma trim_dashes_hd: "trim_dashes s \<noteq> [] \<Longrightarrow> hd (trim_dashes s) \<noteq> CHR ''-''"
proof -
  define t where "t = dropWhile (\<lambda>c. c = CHR ''-'') s"
  assume ne: "trim_dashes s \<noteq> []"
  have "t = rev (takeWhile (\<lambda>c. c = CHR ''-'') (rev t) @ dropWhile (\<lambda>c. c = CHR ''-'') (rev t))" by simp
  then have u: "t = trim_dashes s @ rev (takeWhile (\<lambda>c. c = CHR ''-'') (rev t))"
    unfolding rev_append by (simp only: trim_dashes_def t_def [symmetric])
  then have "hd (trim_dashes s) = hd t" using ne by (metis hd_append2)
  moreover from u ne have "t \<noteq> []" by (metis append_is_Nil_conv)
  ultimately show ?thesis using hd_dropWhile [of "\<lambda>c. c = CHR ''-''" s] by (simp add: t_def)
qed

lemma trim_dashes_length: "length (trim_dashes s) \<le> length s"
proof -
  have "length (dropWhile p (rev t)) \<le> length t" for p and t :: string using length_dropWhile_le [of p "rev t"] by simp
  then show ?thesis unfolding trim_dashes_def length_rev by (rule order_trans) (rule length_dropWhile_le)
qed

lemma carrierNamePrefix_label:
  "carrierNamePrefix s \<noteq> [] \<and> length (carrierNamePrefix s) \<le> 40 \<and>
   list_all (\<lambda>c. is_slug_char c \<or> c = CHR ''-'') (carrierNamePrefix s) \<and> is_slug_char (hd (carrierNamePrefix s))"
proof -
  define n where "n = trim_dashes (dash_runs False (ToLower (TrimSpace s)))"
  define t where "t = trim_dashes (take 40 n)"
  have n: "list_all (\<lambda>c. is_slug_char c \<or> c = CHR ''-'') n"
    using dash_runs_chars trim_dashes_set unfolding n_def list_all_iff by blast
  then have t: "list_all (\<lambda>c. is_slug_char c \<or> c = CHR ''-'') t"
    using trim_dashes_set [of "take 40 n"] set_take_subset [of 40 n] unfolding t_def list_all_iff by blast
  have h: "is_slug_char (hd (trim_dashes u))" if "trim_dashes u \<noteq> []" "list_all (\<lambda>c. is_slug_char c \<or> c = CHR ''-'') (trim_dashes u)" for u
    using that trim_dashes_hd [OF that(1)] by (cases "trim_dashes u") auto
  have "length t \<le> 40" using trim_dashes_length [of "take 40 n"] by (simp add: t_def)
  with n t h [of "dash_runs False (ToLower (TrimSpace s))"] h [of "take 40 n"]
  show ?thesis
    by (auto simp: carrierNamePrefix_def Let_def n_def [symmetric] t_def [symmetric] maxCarrierNamePrefix_def is_slug_char_def)
qed

section \<open>The manager\<close>

record 'w CarrierClient =
  cc_claims :: "(PVC, 'w) kube"
  cc_Delete :: "PVC \<Rightarrow> 'w \<Rightarrow> unit result \<times> 'w"
  cc_ListClaims :: "string \<Rightarrow> (string \<times> string) list \<Rightarrow> 'w \<Rightarrow> PVC list result \<times> 'w"
  cc_ListRuns :: "string \<Rightarrow> (string \<times> string) list \<Rightarrow> 'w \<Rightarrow> RunResource list result \<times> 'w"

record 'w CarrierManager =
  car_client :: "'w CarrierClient"
  car_controlNamespace :: string
  car_runtimeNamespace :: string
  car_actions :: "'w ActionStore option"
  car_digest :: digest

record carrierObservation =
  co_workspaceReady :: bool
  co_workspaceMessage :: string
  co_warmStateReady :: bool
  co_warmStateMessage :: string

text \<open>\<open>resourceops.DeleteResource\<close> of a claim: deleting a missing object succeeds.\<close>

definition DeleteResource :: "'w CarrierClient \<Rightarrow> string \<Rightarrow> string \<Rightarrow> 'w \<Rightarrow> unit result \<times> 'w" where
  "DeleteResource client namespace name w =
     (case kube_Get (cc_claims client) namespace name w of
        (Inl e, w) \<Rightarrow>
          (if is_api_not_found e then (Inr (), w)
           else (Inl (Wrapped (''platformk8s: get *v1.PersistentVolumeClaim '' @ go_quote name @ '' for delete: '') e), w))
      | (Inr obj, w) \<Rightarrow>
        (case cc_Delete client obj w of
           (Inl e, w) \<Rightarrow>
             (if is_api_not_found e then (Inr (), w)
              else (Inl (Wrapped (''platformk8s: delete *v1.PersistentVolumeClaim '' @ go_quote name @ '': '') e), w))
         | (Inr _, w) \<Rightarrow> (Inr (), w)))"

definition ensureCarrierPVC ::
    "'w CarrierManager \<Rightarrow> SessionResource \<Rightarrow> carrierKind \<Rightarrow> string \<Rightarrow> 'w \<Rightarrow> unit result \<times> 'w" where
  "ensureCarrierPVC m session kind carrierID w =
     (let next = buildCarrierPVC (car_digest m) session (car_runtimeNamespace m) kind carrierID in
      case kube_Get (cc_claims (car_client m)) (car_runtimeNamespace m) (pvc_name next) w of
        (Inl e, w) \<Rightarrow>
          (if is_api_not_found e then
             (case CreateResource (cc_claims (car_client m)) ''*v1.PersistentVolumeClaim'' next
                     (car_runtimeNamespace m) (pvc_name next) w of
                (Inl e, w) \<Rightarrow> (Inl e, w) | (Inr _, w) \<Rightarrow> (Inr (), w))
           else (Inl e, w))
      | (Inr _, w) \<Rightarrow> (Inr (), w))"

definition session_workspaceID :: "SessionResource \<Rightarrow> string" where
  "session_workspaceID session = getf [] id (getf None ss_workspaceRef (sr_session session))"

definition session_homeStateID :: "SessionResource \<Rightarrow> string" where
  "session_homeStateID session = getf [] id (getf None ss_homeStateRef (sr_session session))"

definition ensure_if_named ::
    "'w CarrierManager \<Rightarrow> SessionResource \<Rightarrow> carrierKind \<Rightarrow> string \<Rightarrow> 'w \<Rightarrow> unit result \<times> 'w" where
  "ensure_if_named m session kind carrierID w =
     (if TrimSpace carrierID = [] then (Inr (), w) else ensureCarrierPVC m session kind (TrimSpace carrierID) w)"

definition ensureCurrentPVCs :: "'w CarrierManager \<Rightarrow> SessionResource \<Rightarrow> 'w \<Rightarrow> unit result \<times> 'w" where
  "ensureCurrentPVCs m session w =
     (case ensure_if_named m session carrierKindWorkspace (session_workspaceID session) w of
        (Inl e, w) \<Rightarrow> (Inl e, w)
      | (Inr _, w) \<Rightarrow> ensure_if_named m session carrierKindHomeState (session_homeStateID session) w)"

section \<open>What is still referred to\<close>

text \<open>
  The names a run turn or a run needs: both claims, or nothing is known of it (a legacy reference, that
  carries no ids).
\<close>

definition carrier_names :: "digest \<Rightarrow> string \<Rightarrow> string \<Rightarrow> string \<Rightarrow> string list option" where
  "carrier_names digest sessionID workspaceID homeStateID =
     (if TrimSpace workspaceID = [] \<or> TrimSpace homeStateID = [] then None
      else Some [WorkspacePVCName digest sessionID (TrimSpace workspaceID),
                 HomeStatePVCName digest sessionID (TrimSpace homeStateID)])"

definition addSnapshotPVCNames :: "digest \<Rightarrow> string \<Rightarrow> RunTurnSnapshot option \<Rightarrow> string list option" where
  "addSnapshotPVCNames digest sessionID snapshot =
     (case snapshot of None \<Rightarrow> None
      | Some s \<Rightarrow> carrier_names digest sessionID (sn_workspaceId s) (sn_homeStateId s))"

definition addSpecPVCNames :: "digest \<Rightarrow> string \<Rightarrow> AgentRunSpec \<Rightarrow> string list option" where
  "addSpecPVCNames digest sessionID run = carrier_names digest sessionID (rs_workspaceId run) (rs_homeStateId run)"

definition isTerminalActionResourcePhase :: "ActionResourcePhase \<Rightarrow> bool" where
  "isTerminalActionResourcePhase p = (case p of ASucceeded \<Rightarrow> True | AFailed \<Rightarrow> True | ACanceled \<Rightarrow> True | _ \<Rightarrow> False)"

text \<open>An action, or a run, of the session that still uses its carriers.\<close>

definition live_turn :: "string \<Rightarrow> ActionResource \<Rightarrow> bool" where
  "live_turn sessionID a = (case ar_action a of None \<Rightarrow> False
     | Some s \<Rightarrow> TrimSpace (as_sessionId s) = TrimSpace sessionID
         \<and> \<not> isTerminalActionResourcePhase (act_phase (ar_status a)) \<and> as_type s = TypeRunTurn)"

definition live_run_of :: "string \<Rightarrow> RunResource \<Rightarrow> bool" where
  "live_run_of sessionID r = (case run_spec r of None \<Rightarrow> False
     | Some s \<Rightarrow> TrimSpace (rs_sessionId s) = TrimSpace sessionID
         \<and> \<not> session_isTerminalRunPhase (rrs_phase (run_status r)))"

text \<open>The loops over actions and runs: the names kept so far, and whether a legacy reference was met.\<close>

fun keep_actions :: "digest \<Rightarrow> string \<Rightarrow> ActionResource list \<Rightarrow> string list \<Rightarrow> string list \<times> bool" where
  "keep_actions digest sessionID [] keep = (keep, False)"
| "keep_actions digest sessionID (a # actions) keep =
     (if \<not> live_turn sessionID a then keep_actions digest sessionID actions keep
      else case addSnapshotPVCNames digest sessionID (getf None get_run_turn (ar_action a)) of
        None \<Rightarrow> (keep, True)
      | Some names \<Rightarrow> keep_actions digest sessionID actions (keep @ names))"

fun keep_runs :: "digest \<Rightarrow> string \<Rightarrow> RunResource list \<Rightarrow> string list \<Rightarrow> string list \<times> bool" where
  "keep_runs digest sessionID [] keep = (keep, False)"
| "keep_runs digest sessionID (r # runs) keep =
     (if \<not> live_run_of sessionID r then keep_runs digest sessionID runs keep
      else case getf None (addSpecPVCNames digest sessionID) (run_spec r) of
        None \<Rightarrow> (keep, True)
      | Some names \<Rightarrow> keep_runs digest sessionID runs (keep @ names))"

definition current_names :: "digest \<Rightarrow> SessionResource \<Rightarrow> string list" where
  "current_names digest session =
     (let name = om_name (sr_meta session); ws = TrimSpace (session_workspaceID session);
          home = TrimSpace (session_homeStateID session) in
      (if ws = [] then [] else [WorkspacePVCName digest name ws])
      @ (if home = [] then [] else [HomeStatePVCName digest name home]))"

definition runSessionIDLabelKey :: string where
  "runSessionIDLabelKey = ''agentrun.code-code.internal/session-id''"

definition referencedPVCNames ::
    "'w CarrierManager \<Rightarrow> SessionResource \<Rightarrow> 'w \<Rightarrow> (string list \<times> bool) result \<times> 'w" where
  "referencedPVCNames m session w =
     (let name = om_name (sr_meta session); keep = current_names (car_digest m) session;
          listed = (case car_actions m of None \<Rightarrow> (Inr [], w) | Some s \<Rightarrow> astore_ListBySession s (TrimSpace name) w) in
      case listed of (Inl e, w) \<Rightarrow> (Inl e, w)
      | (Inr actions, w) \<Rightarrow>
        (case keep_actions (car_digest m) name actions keep of
           (keep, True) \<Rightarrow> (Inr (keep, True), w)
         | (keep, False) \<Rightarrow>
           (case cc_ListRuns (car_client m) (car_controlNamespace m) [(runSessionIDLabelKey, TrimSpace name)] w of
              (Inl e, w) \<Rightarrow> (Inl e, w)
            | (Inr runs, w) \<Rightarrow> (Inr (keep_runs (car_digest m) name runs keep), w))))"

section \<open>Cleaning up\<close>

definition session_claim_labels :: "SessionResource \<Rightarrow> (string \<times> string) list" where
  "session_claim_labels session = [(carrierSessionIDLabel, TrimSpace (om_name (sr_meta session))),
     (carrierManagedByLabel, carrierManagedByValue)]"

fun delete_claims :: "'w CarrierManager \<Rightarrow> string list \<Rightarrow> PVC list \<Rightarrow> 'w \<Rightarrow> unit result \<times> 'w" where
  "delete_claims m keep [] w = (Inr (), w)"
| "delete_claims m keep (p # ps) w =
     (if pvc_name p \<in> set keep then delete_claims m keep ps w
      else case DeleteResource (car_client m) (car_runtimeNamespace m) (pvc_name p) w of
        (Inl e, w) \<Rightarrow> (Inl e, w) | (Inr _, w) \<Rightarrow> delete_claims m keep ps w)"

definition cleanupStalePVCs :: "'w CarrierManager \<Rightarrow> SessionResource \<Rightarrow> 'w \<Rightarrow> unit result \<times> 'w" where
  "cleanupStalePVCs m session w =
     (case referencedPVCNames m session w of (Inl e, w) \<Rightarrow> (Inl e, w)
      | (Inr (keep, True), w) \<Rightarrow> (Inr (), w)
      | (Inr (keep, False), w) \<Rightarrow>
        (case cc_ListClaims (car_client m) (car_runtimeNamespace m) (session_claim_labels session) w of
           (Inl e, w) \<Rightarrow> (Inl e, w) | (Inr items, w) \<Rightarrow> delete_claims m keep items w))"

definition carriers_Ensure :: "'w CarrierManager \<Rightarrow> SessionResource option \<Rightarrow> 'w \<Rightarrow> unit result \<times> 'w" where
  "carriers_Ensure m session w =
     (case session of None \<Rightarrow> (Inr (), w) | Some s \<Rightarrow>
       if sr_session s = None then (Inr (), w)
       else case ensureCurrentPVCs m s w of (Inl e, w) \<Rightarrow> (Inl e, w) | (Inr _, w) \<Rightarrow> cleanupStalePVCs m s w)"

definition carriers_Cleanup :: "'w CarrierManager \<Rightarrow> SessionResource option \<Rightarrow> 'w \<Rightarrow> unit result \<times> 'w" where
  "carriers_Cleanup m session w =
     (case session of None \<Rightarrow> (Inr (), w) | Some s \<Rightarrow>
       (case cc_ListClaims (car_client m) (car_runtimeNamespace m) (session_claim_labels s) w of
          (Inl e, w) \<Rightarrow> (Inl e, w) | (Inr items, w) \<Rightarrow> delete_claims m [] items w))"

section \<open>Observing\<close>

fun carrierPendingMessage :: "carrierKind \<Rightarrow> string" where
  "carrierPendingMessage carrierKindWorkspace = ''Workspace carrier is not ready.''"
| "carrierPendingMessage carrierKindHomeState = ''Warm state carrier is not ready.''"

definition observeCarrier ::
    "'w CarrierManager \<Rightarrow> string \<Rightarrow> string \<Rightarrow> carrierKind \<Rightarrow> string \<Rightarrow> 'w \<Rightarrow> (bool \<times> string) result \<times> 'w" where
  "observeCarrier m sessionID carrierID kind missingMessage w =
     (let carrierID = TrimSpace carrierID in
      if carrierID = [] then (Inr (False, missingMessage), w)
      else case kube_Get (cc_claims (car_client m)) (car_runtimeNamespace m)
                  (carrierPVCName (car_digest m) sessionID kind carrierID) w of
        (Inl e, w) \<Rightarrow>
          (if is_api_not_found e then (Inr (False, carrierPendingMessage kind), w) else (Inl e, w))
      | (Inr p, w) \<Rightarrow> (if pvc_lost p then (Inr (False, carrierPendingMessage kind), w) else (Inr (True, []), w)))"

definition no_observation :: carrierObservation where
  "no_observation = \<lparr>co_workspaceReady = False, co_workspaceMessage = [], co_warmStateReady = False, co_warmStateMessage = []\<rparr>"

definition carriers_Observe :: "'w CarrierManager \<Rightarrow> SessionResource option \<Rightarrow> 'w \<Rightarrow> carrierObservation result \<times> 'w" where
  "carriers_Observe m session w =
     (case session of None \<Rightarrow> (Inr no_observation, w) | Some s \<Rightarrow>
       if sr_session s = None then (Inr no_observation, w)
       else case observeCarrier m (om_name (sr_meta s)) (session_workspaceID s) carrierKindWorkspace
                   ''Workspace reference is missing.'' w of
         (Inl e, w) \<Rightarrow> (Inl e, w)
       | (Inr (wsReady, wsMessage), w) \<Rightarrow>
         (case observeCarrier m (om_name (sr_meta s)) (session_homeStateID s) carrierKindHomeState
                 ''Warm state reference is missing.'' w of
            (Inl e, w) \<Rightarrow> (Inl e, w)
          | (Inr (warmReady, warmMessage), w) \<Rightarrow>
              (Inr \<lparr>co_workspaceReady = wsReady, co_workspaceMessage = wsMessage,
                    co_warmStateReady = warmReady, co_warmStateMessage = warmMessage\<rparr>, w)))"

section \<open>The API server\<close>

text \<open>
  What the Kubernetes API documents of the calls: reading changes nothing, creating an object never
  replaces one, deleting an object leaves the others, and a list holds the stored objects with the labels.
  \<open>claims\<close> shows the claims of the runtime namespace by name, \<open>runs\<close> the stored runs.
\<close>

definition reads_only :: "('w \<Rightarrow> 'v) \<Rightarrow> ('w \<Rightarrow> 'a \<times> 'w) \<Rightarrow> bool" where
  "reads_only view f \<longleftrightarrow> (\<forall>w. view (snd (f w)) = view w)"

definition carrier_client_ok ::
    "('w \<Rightarrow> string \<Rightarrow> PVC option) \<Rightarrow> ('w \<Rightarrow> RunResource set) \<Rightarrow> string \<Rightarrow> 'w CarrierClient \<Rightarrow> bool" where
  "carrier_client_ok claims runs ns c \<longleftrightarrow>
     (\<forall>n. reads_only (\<lambda>w. (claims w, runs w)) (kube_Get (cc_claims c) ns n)) \<and>
     (\<forall>n w p. fst (kube_Get (cc_claims c) ns n w) = Inr p \<longrightarrow> pvc_name p = n) \<and>
     (\<forall>p w. runs (snd (kube_Create (cc_claims c) p w)) = runs w \<and>
        (\<forall>n q. claims w n = Some q \<longrightarrow> claims (snd (kube_Create (cc_claims c) p w)) n = Some q)) \<and>
     (\<forall>p w n. n \<noteq> pvc_name p \<longrightarrow> claims (snd (cc_Delete c p w)) n = claims w n) \<and>
     (\<forall>labels. reads_only (\<lambda>w. (claims w, runs w)) (cc_ListClaims c ns labels)) \<and>
     (\<forall>labels w ps p. fst (cc_ListClaims c ns labels w) = Inr ps \<longrightarrow> p \<in> set ps \<longrightarrow>
        claims w (pvc_name p) = Some p \<and> set labels \<subseteq> set (pvc_labels p)) \<and>
     (\<forall>cns labels. reads_only (\<lambda>w. (claims w, runs w)) (cc_ListRuns c cns labels)) \<and>
     (\<forall>cns labels w rs r. fst (cc_ListRuns c cns labels w) = Inr rs \<longrightarrow> r \<in> runs w \<longrightarrow>
        om_namespace (run_meta r) = cns \<longrightarrow> set labels \<subseteq> set (om_labels (run_meta r)) \<longrightarrow> r \<in> set rs)"

lemma carrier_reads:
  assumes "carrier_client_ok claims runs ns c"
  shows "kube_Get (cc_claims c) ns n w = (x, w') \<Longrightarrow> claims w' = claims w \<and> runs w' = runs w"
    and "cc_ListClaims c ns labels w = (y, w') \<Longrightarrow> claims w' = claims w \<and> runs w' = runs w"
    and "cc_ListRuns c cns labels w = (z, w') \<Longrightarrow> claims w' = claims w \<and> runs w' = runs w"
    and "kube_Get (cc_claims c) ns n w = (Inr p, w') \<Longrightarrow> pvc_name p = n"
    and "cc_ListClaims c ns labels w = (Inr ps, w') \<Longrightarrow> q \<in> set ps \<Longrightarrow>
      claims w (pvc_name q) = Some q \<and> set labels \<subseteq> set (pvc_labels q)"
    and "cc_ListRuns c cns labels w = (Inr rs, w') \<Longrightarrow> r \<in> runs w \<Longrightarrow> om_namespace (run_meta r) = cns \<Longrightarrow>
      set labels \<subseteq> set (om_labels (run_meta r)) \<Longrightarrow> r \<in> set rs"
    and "cc_Delete c p w = (u, w') \<Longrightarrow> n \<noteq> pvc_name p \<Longrightarrow> claims w' n = claims w n"
    and "kube_Create (cc_claims c) p w = (v, w') \<Longrightarrow> runs w' = runs w \<and> (claims w n = Some q \<longrightarrow> claims w' n = Some q)"
  using assms unfolding carrier_client_ok_def reads_only_def by (metis fst_conv snd_conv prod.inject)+

lemma ensure_keeps:
  assumes ok: "carrier_client_ok claims runs (car_runtimeNamespace m) (car_client m)"
    and "ensureCurrentPVCs m s w = (x, w')"
  shows "runs w' = runs w" and "claims w n = Some p \<Longrightarrow> claims w' n = Some p"
proof -
  have one: "runs v' = runs v \<and> (claims v n = Some p \<longrightarrow> claims v' n = Some p)"
    if "ensure_if_named m s kind i v = (y, v')" for kind i v y v'
    using that carrier_reads(1) [OF ok] carrier_reads(8) [OF ok]
    by (fastforce simp: ensure_if_named_def ensureCarrierPVC_def CreateResource_def wrap_def Let_def
        split: if_splits prod.splits sum.splits)
  with assms(2) show "runs w' = runs w" and "claims w n = Some p \<Longrightarrow> claims w' n = Some p"
    by (fastforce simp: ensureCurrentPVCs_def split: prod.splits sum.splits)+
qed

lemma delete_changes:
  assumes ok: "carrier_client_ok claims runs (car_runtimeNamespace m) (car_client m)"
  shows "delete_claims m keep ps w = (x, w') \<Longrightarrow> claims w' n \<noteq> claims w n \<Longrightarrow> n \<in> pvc_name ` set ps \<and> n \<notin> set keep"
proof (induction ps arbitrary: w)
  case (Cons p ps)
  have one: "claims v n = claims w n" if "DeleteResource (car_client m) (car_runtimeNamespace m) (pvc_name p) w = (y, v)"
      "n \<noteq> pvc_name p" for y v
    using that carrier_reads(1,4) [OF ok] carrier_reads(7) [OF ok]
    by (fastforce simp: DeleteResource_def split: prod.splits sum.splits if_splits)
  show ?case
  proof (cases "pvc_name p \<in> set keep")
    case True
    with Cons show ?thesis by simp
  next
    case False
    obtain y v where d: "DeleteResource (car_client m) (car_runtimeNamespace m) (pvc_name p) w = (y, v)" by force
    show ?thesis
    proof (cases "n = pvc_name p")
      case True
      with False show ?thesis by simp
    next
      case other: False
      from Cons.prems d False one [OF d other] obtain u where "y = Inr u" and "delete_claims m keep ps v = (x, w')"
        by (cases y) auto
      with Cons.IH Cons.prems(2) one [OF d other] show ?thesis by simp
    qed
  qed
qed simp

section \<open>The names that are kept\<close>

lemma keep_actions_all:
  "keep_actions d sid actions keep = (keep', False) \<Longrightarrow> set keep \<subseteq> set keep' \<and>
     (\<forall>a \<in> set actions. live_turn sid a \<longrightarrow> (\<exists>names.
        addSnapshotPVCNames d sid (getf None get_run_turn (ar_action a)) = Some names \<and> set names \<subseteq> set keep'))"
proof (induction actions arbitrary: keep)
  case (Cons a actions)
  then show ?case by (fastforce split: if_splits option.splits)
qed simp

lemma keep_runs_all:
  "keep_runs d sid items keep = (keep', False) \<Longrightarrow> set keep \<subseteq> set keep' \<and>
     (\<forall>r \<in> set items. live_run_of sid r \<longrightarrow> (\<exists>names.
        getf None (addSpecPVCNames d sid) (run_spec r) = Some names \<and> set names \<subseteq> set keep'))"
proof (induction items arbitrary: keep)
  case (Cons a items)
  then show ?case by (fastforce split: if_splits option.splits)
qed simp

text \<open>A claim a run or a turn needs, whatever way its session is written.\<close>

lemma carrierPVCName_session: "TrimSpace a = TrimSpace b \<Longrightarrow> carrierPVCName d a k i = carrierPVCName d b k i"
  by (simp add: carrierPVCName_def)

lemma names_of_carriers:
  "carrier_names d sid ws home = Some names \<Longrightarrow> TrimSpace sid' = TrimSpace sid \<Longrightarrow>
     set names = {WorkspacePVCName d sid' ws, HomeStatePVCName d sid' home}"
  by (auto simp: carrier_names_def WorkspacePVCName_def HomeStatePVCName_def carrierPVCName_def split: if_splits)

definition turn_claims :: "digest \<Rightarrow> string \<Rightarrow> ActionResource \<Rightarrow> string set" where
  "turn_claims d sid a = (case getf None get_run_turn (ar_action a) of None \<Rightarrow> {}
     | Some sn \<Rightarrow> {WorkspacePVCName d sid (sn_workspaceId sn), HomeStatePVCName d sid (sn_homeStateId sn)})"

definition run_claims :: "digest \<Rightarrow> RunResource \<Rightarrow> string set" where
  "run_claims d r = (case run_spec r of None \<Rightarrow> {}
     | Some spec \<Rightarrow> {WorkspacePVCName d (rs_sessionId spec) (rs_workspaceId spec),
                    HomeStatePVCName d (rs_sessionId spec) (rs_homeStateId spec)})"

lemma kept_turn:
  assumes "addSnapshotPVCNames d sid (getf None get_run_turn (ar_action a)) = Some names"
  shows "turn_claims d sid a = set names"
  using assms names_of_carriers [of d sid _ _ names sid]
  by (auto simp: addSnapshotPVCNames_def turn_claims_def split: option.splits)

lemma kept_run:
  assumes "live_run_of sid r" and "getf None (addSpecPVCNames d sid) (run_spec r) = Some names"
  shows "run_claims d r = set names"
proof -
  from assms(1) obtain spec where "run_spec r = Some spec" and "TrimSpace (rs_sessionId spec) = TrimSpace sid"
    by (auto simp: live_run_of_def split: option.splits)
  with assms(2) names_of_carriers [of d sid _ _ names "rs_sessionId spec"] show ?thesis
    by (simp add: addSpecPVCNames_def run_claims_def)
qed

lemma reads_onlyD: "reads_only view f \<Longrightarrow> f w = (x, w') \<Longrightarrow> view w' = view w"
  unfolding reads_only_def by (metis snd_conv)

text \<open>The list of the session's actions, empty without a reader.\<close>

definition listed_actions :: "'w CarrierManager \<Rightarrow> SessionResource \<Rightarrow> 'w \<Rightarrow> ActionResource list result \<times> 'w" where
  "listed_actions m s w = (case car_actions m of None \<Rightarrow> (Inr [], w)
     | Some store \<Rightarrow> astore_ListBySession store (TrimSpace (om_name (sr_meta s))) w)"

definition listing_reads :: "('w \<Rightarrow> 'v) \<Rightarrow> 'w CarrierManager \<Rightarrow> SessionResource \<Rightarrow> bool" where
  "listing_reads view m s \<longleftrightarrow> reads_only view (listed_actions m s)"

lemma referenced_split:
  "referencedPVCNames m s w = (case listed_actions m s w of (Inl e, w) \<Rightarrow> (Inl e, w)
     | (Inr actions, w) \<Rightarrow>
       (case keep_actions (car_digest m) (om_name (sr_meta s)) actions (current_names (car_digest m) s) of
          (keep, True) \<Rightarrow> (Inr (keep, True), w)
        | (keep, False) \<Rightarrow>
          (case cc_ListRuns (car_client m) (car_controlNamespace m)
                  [(runSessionIDLabelKey, TrimSpace (om_name (sr_meta s)))] w of
             (Inl e, w) \<Rightarrow> (Inl e, w)
           | (Inr items, w) \<Rightarrow> (Inr (keep_runs (car_digest m) (om_name (sr_meta s)) items keep), w))))"
  by (simp add: referencedPVCNames_def listed_actions_def Let_def)

lemma referenced_reads:
  assumes ok: "carrier_client_ok claims runs (car_runtimeNamespace m) (car_client m)"
    and "listing_reads (\<lambda>w. (claims w, runs w)) m s" and "referencedPVCNames m s w = (y, v)"
  shows "claims v = claims w"
proof -
  obtain z u where l: "listed_actions m s w = (z, u)" by force
  from reads_onlyD [OF assms(2) [unfolded listing_reads_def] l] have u: "claims u = claims w" by simp
  show ?thesis
  proof (cases z)
    case (Inl e)
    with assms(3) l u show ?thesis by (simp add: referenced_split)
  next
    case (Inr actions)
    obtain k b where k: "keep_actions (car_digest m) (om_name (sr_meta s)) actions (current_names (car_digest m) s) = (k, b)" by force
    obtain t v' where r: "cc_ListRuns (car_client m) (car_controlNamespace m)
        [(runSessionIDLabelKey, TrimSpace (om_name (sr_meta s)))] u = (t, v')" by force
    from carrier_reads(3) [OF ok r] u have "claims v' = claims w" by simp
    with assms(3) l u Inr k r show ?thesis
      by (cases b; cases t) (simp_all add: referenced_split)
  qed
qed

lemma cleanup_deletes:
  assumes ok: "carrier_client_ok claims runs (car_runtimeNamespace m) (car_client m)"
    and reads: "listing_reads (\<lambda>w. (claims w, runs w)) m s"
    and "cleanupStalePVCs m s w = (x, w')" and "claims w n = Some p" and "claims w' n \<noteq> Some p"
  obtains keep v where "referencedPVCNames m s w = (Inr (keep, False), v)" and "n \<notin> set keep"
    and "set (session_claim_labels s) \<subseteq> set (pvc_labels p)"
proof -
  obtain y v where r: "referencedPVCNames m s w = (y, v)" by force
  note eq = referenced_reads [OF ok reads r]
  from assms(3-5) r eq obtain keep where y: "y = Inr (keep, False)"
    by (auto simp: cleanupStalePVCs_def split: sum.splits prod.splits bool.splits)
  obtain z u where l: "cc_ListClaims (car_client m) (car_runtimeNamespace m) (session_claim_labels s) v = (z, u)" by force
  from carrier_reads(2) [OF ok l] eq have u: "claims u = claims w" by simp
  with assms(3-5) r y l obtain ps where z: "z = Inr ps" and d: "delete_claims m keep ps u = (x, w')"
    by (cases z) (auto simp: cleanupStalePVCs_def)
  from delete_changes [OF ok d, of n] assms(4,5) u have n: "n \<in> pvc_name ` set ps" "n \<notin> set keep" by auto
  then obtain q where q: "q \<in> set ps" "pvc_name q = n" by blast
  from carrier_reads(5) [OF ok l [unfolded z] q(1)] q(2) eq assms(4)
  have "set (session_claim_labels s) \<subseteq> set (pvc_labels p)" by simp
  with r y n(2) show ?thesis using that by blast
qed

lemma referenced_names:
  assumes ok: "carrier_client_ok claims runs (car_runtimeNamespace m) (car_client m)"
    and reads: "listing_reads (\<lambda>w. (claims w, runs w)) m s"
    and r: "referencedPVCNames m s w = (Inr (keep, False), v)"
  shows "set (current_names (car_digest m) s) \<subseteq> set keep"
    and "\<exists>items u. listed_actions m s w = (Inr items, u) \<and>
      (\<forall>a \<in> set items. live_turn (om_name (sr_meta s)) a \<longrightarrow> turn_claims (car_digest m) (om_name (sr_meta s)) a \<subseteq> set keep)"
    and "q \<in> runs w \<Longrightarrow> om_namespace (run_meta q) = car_controlNamespace m \<Longrightarrow>
      (runSessionIDLabelKey, TrimSpace (om_name (sr_meta s))) \<in> set (om_labels (run_meta q)) \<Longrightarrow>
      live_run_of (om_name (sr_meta s)) q \<Longrightarrow> run_claims (car_digest m) q \<subseteq> set keep"
proof -
  from r obtain actions u k rs v' where l: "listed_actions m s w = (Inr actions, u)"
    and k: "keep_actions (car_digest m) (om_name (sr_meta s)) actions (current_names (car_digest m) s) = (k, False)"
    and rs: "cc_ListRuns (car_client m) (car_controlNamespace m)
      [(runSessionIDLabelKey, TrimSpace (om_name (sr_meta s)))] u = (Inr rs, v')"
    and kr: "keep_runs (car_digest m) (om_name (sr_meta s)) rs k = (keep, False)"
    by (auto simp: referenced_split split: sum.splits prod.splits bool.splits)
  from reads_onlyD [OF reads [unfolded listing_reads_def] l] have u: "runs u = runs w" by simp
  note ka = keep_actions_all [OF k] and kb = keep_runs_all [OF kr]
  show "set (current_names (car_digest m) s) \<subseteq> set keep" using ka kb by blast
  have "turn_claims (car_digest m) (om_name (sr_meta s)) a \<subseteq> set keep"
    if "a \<in> set actions" "live_turn (om_name (sr_meta s)) a" for a
    using ka kb that kept_turn by (metis order_trans)
  with l show "\<exists>items u. listed_actions m s w = (Inr items, u) \<and>
      (\<forall>a \<in> set items. live_turn (om_name (sr_meta s)) a \<longrightarrow> turn_claims (car_digest m) (om_name (sr_meta s)) a \<subseteq> set keep)"
    by blast
  show "run_claims (car_digest m) q \<subseteq> set keep" if "q \<in> runs w" "om_namespace (run_meta q) = car_controlNamespace m"
      "(runSessionIDLabelKey, TrimSpace (om_name (sr_meta s))) \<in> set (om_labels (run_meta q))" "live_run_of (om_name (sr_meta s)) q"
  proof -
    from carrier_reads(6) [OF ok rs, of q] that u have "q \<in> set rs" by simp
    with kb that(4) kept_run show ?thesis by metis
  qed
qed

section \<open>Properties\<close>

text \<open>
  The name of a carrier's claim is a DNS label that Kubernetes accepts, whatever the ids of the session
  and the carrier are made of, and however long they are.
\<close>

theorem carrierPVCName_label:
  assumes "length (digest (TrimSpace sid @ ''/'' @ carrierKind_string kind @ ''/'' @ TrimSpace cid)) = 10"
    and "list_all is_slug_char (digest (TrimSpace sid @ ''/'' @ carrierKind_string kind @ ''/'' @ TrimSpace cid))"
    and "TrimSpace sid \<noteq> []" and "TrimSpace cid \<noteq> []"
  shows "dns_label (carrierPVCName digest sid kind cid)"
proof -
  define d where "d = digest (TrimSpace sid @ ''/'' @ carrierKind_string kind @ ''/'' @ TrimSpace cid)"
  have k: "length (carrierKind_string kind) \<le> 10" "list_all (\<lambda>c. is_slug_char c \<or> c = CHR ''-'') (carrierKind_string kind)"
    by (cases kind; simp add: is_slug_char_def)+
  have "d \<noteq> []" "is_slug_char (last d)" "list_all (\<lambda>c. is_slug_char c \<or> c = CHR ''-'') d" "length d = 10"
    using assms(1,2) [folded d_def] last_in_set [of d] by (cases "d = []"; auto simp: list_all_iff)+
  moreover have "carrierPVCName digest sid kind cid =
      carrierNamePrefix (TrimSpace sid) @ ''-'' @ carrierKind_string kind @ ''-'' @ d"
    using assms(3,4) by (simp add: carrierPVCName_def d_def Let_def)
  ultimately show ?thesis using k carrierNamePrefix_label [of "TrimSpace sid"] by (simp add: dns_label_def hd_append)
qed

text \<open>
  C39: Ensuring the carriers of a session deletes a volume claim only if it is one of the session's own
  claims and nothing uses it: not the session's current spec, not a turn of the session in the action
  table that has not ended, and not a run of the session that has not ended.
\<close>

theorem carriers_in_use_survive:
  assumes "carrier_client_ok claims runs (car_runtimeNamespace m) (car_client m)"
    and "listing_reads (\<lambda>w. (claims w, runs w)) m s"
    and "carriers_Ensure m (Some s) w = (x, w')" and "claims w n = Some p" and "claims w' n \<noteq> Some p"
  shows "set (session_claim_labels s) \<subseteq> set (pvc_labels p) \<and> n \<notin> set (current_names (car_digest m) s) \<and>
    (\<exists>v items u. ensureCurrentPVCs m s w = (Inr (), v) \<and> listed_actions m s v = (Inr items, u) \<and>
       (\<forall>a \<in> set items. live_turn (om_name (sr_meta s)) a \<longrightarrow> n \<notin> turn_claims (car_digest m) (om_name (sr_meta s)) a)) \<and>
    (\<forall>r \<in> runs w. om_namespace (run_meta r) = car_controlNamespace m \<and>
       (runSessionIDLabelKey, TrimSpace (om_name (sr_meta s))) \<in> set (om_labels (run_meta r)) \<and>
       live_run_of (om_name (sr_meta s)) r \<longrightarrow> n \<notin> run_claims (car_digest m) r)"
proof -
  obtain y v where e: "ensureCurrentPVCs m s w = (y, v)" by force
  note kept = ensure_keeps [OF assms(1) e]
  from kept(2) assms(3-5) e have y: "y = Inr ()" and c: "cleanupStalePVCs m s v = (x, w')"
    by (auto simp: carriers_Ensure_def split: if_splits sum.splits)
  obtain keep u where r: "referencedPVCNames m s v = (Inr (keep, False), u)" and n: "n \<notin> set keep"
    and labels: "set (session_claim_labels s) \<subseteq> set (pvc_labels p)"
    using cleanup_deletes [OF assms(1,2) c kept(2) [OF assms(4)] assms(5)] by blast
  note names = referenced_names [OF assms(1,2) r]
  from names(2) n obtain items u' where "listed_actions m s v = (Inr items, u')"
    and "\<forall>a \<in> set items. live_turn (om_name (sr_meta s)) a \<longrightarrow> n \<notin> turn_claims (car_digest m) (om_name (sr_meta s)) a"
    by blast
  with e y have used: "\<exists>v items u. ensureCurrentPVCs m s w = (Inr (), v) \<and> listed_actions m s v = (Inr items, u) \<and>
       (\<forall>a \<in> set items. live_turn (om_name (sr_meta s)) a \<longrightarrow> n \<notin> turn_claims (car_digest m) (om_name (sr_meta s)) a)"
    by blast
  have "n \<notin> run_claims (car_digest m) q" if "q \<in> runs w" "om_namespace (run_meta q) = car_controlNamespace m"
      "(runSessionIDLabelKey, TrimSpace (om_name (sr_meta s))) \<in> set (om_labels (run_meta q))" "live_run_of (om_name (sr_meta s)) q" for q
    using names(3) [of q] that kept(1) n by blast
  with labels n names(1) used show ?thesis by blast
qed

end
