(* ===== verification/Session_Specs.thy ===== *)
theory Session_Specs
  imports Session_Invariants
begin

text \<open>
  The interface a reconciler relies on when it writes a session and reads it again: an update stores the
  normalized spec, a read returns it, and a status write sets the slot of the active run to what the
  status says. The locale states the first two, for an encoding of specs that loses nothing; the Postgres
  repository provides them.
\<close>

locale session_specs =
  fixes update :: "string \<Rightarrow> AgentSessionSpec \<Rightarrow> 'w \<Rightarrow> AgentSessionState result \<times> 'w"
    and get :: "string \<Rightarrow> 'w \<Rightarrow> AgentSessionState result \<times> 'w"
    and spec_of :: "'w \<Rightarrow> string \<Rightarrow> AgentSessionSpec option"
    and lossless :: bool
  assumes update_stores: "lossless \<Longrightarrow> update sid s w = (Inr st, w') \<Longrightarrow>
      \<exists>n. NormalizeSpec sid (Some s) = Inr n \<and> spec_of w' (TrimSpace sid) = Some n"
    and get_reads: "get sid w = (Inr st, w') \<Longrightarrow> spec_of w (TrimSpace sid) = Some n \<Longrightarrow> ss_sessionId n \<noteq> [] \<Longrightarrow>
      ast_spec st = Some n"
begin

text \<open>What is written is what is read, as long as nobody writes in between.\<close>

lemma read_back_spec:
  assumes lossless and "update sid s w = (Inr st, w1)" and "spec_of w2 (TrimSpace sid) = spec_of w1 (TrimSpace sid)"
    and "get sid w2 = (Inr st2, w3)"
  shows "\<exists>n. NormalizeSpec sid (Some s) = Inr n \<and> ast_spec st2 = Some n"
proof -
  from update_stores [OF assms(1,2)] obtain n where n: "NormalizeSpec sid (Some s) = Inr n"
    and "spec_of w1 (TrimSpace sid) = Some n" by blast
  with get_reads [OF assms(4), of n] assms(3) NormalizeSpec_ok [OF n] show ?thesis by auto
qed

text \<open>A spec that is complete already is stored as it is.\<close>

lemma complete_spec_read_back:
  assumes lossless and "update sid s w = (Inr st, w1)" and "spec_of w2 (TrimSpace sid) = spec_of w1 (TrimSpace sid)"
    and "get sid w2 = (Inr st2, w3)"
    and "ss_sessionId s = TrimSpace sid" and "ss_workspaceRef s \<noteq> None" and "ss_homeStateRef s \<noteq> None"
  shows "ast_spec st2 = Some s"
  using read_back_spec [OF assms(1-4)] assms(5-7) by (auto simp: NormalizeSpec_def Let_def split: if_splits)

end

section \<open>The Postgres repository provides them\<close>

definition stored_spec :: "'j codec \<Rightarrow> 'j sdb \<Rightarrow> string \<Rightarrow> AgentSessionSpec option" where
  "stored_spec codec db sid = (case db_rows db sid of None \<Rightarrow> None
     | Some (res, g) \<Rightarrow> (case specFromAgentSessionResource codec res of Inl e \<Rightarrow> None | Inr spec \<Rightarrow> Some spec))"

lemma stored_spec_rows: "db_rows db' = db_rows db \<Longrightarrow> stored_spec codec db' = stored_spec codec db"
  by (simp add: stored_spec_def fun_eq_iff)

lemma NormalizeSpec_trim [simp]: "NormalizeSpec (TrimSpace sid) s = NormalizeSpec sid s"
  by (simp add: NormalizeSpec_def)

lemma getResource_stored:
  assumes "getResource r env sid db = Inr (res, g)"
  shows "stored_spec codec db (TrimSpace sid) = (case specFromAgentSessionResource codec res of Inl e \<Rightarrow> None | Inr s \<Rightarrow> Some s)"
proof -
  from getResource_ok [OF assms] obtain res0 where "db_rows db (TrimSpace sid) = Some (res0, g)"
    and "sto_session res = sto_session res0" by blast
  then show ?thesis by (simp add: stored_spec_def specFromAgentSessionResource_def)
qed

lemma marshal_spec:
  "codec_ok codec \<Longrightarrow> marshalSessionSpec codec s = Inr j \<Longrightarrow> sto_session res = Some j \<Longrightarrow>
     specFromAgentSessionResource codec res = Inr s"
  by (simp add: codec_ok_def marshalSessionSpec_def specFromAgentSessionResource_def)

lemma Update_stored:
  assumes "repo_Update codec r env sid (Some s) db = (Inr st, db')" and c: "codec_ok codec"
  shows "\<exists>n. NormalizeSpec sid (Some s) = Inr n \<and> stored_spec codec db' (TrimSpace sid) = Some n"
proof -
  let ?s = "TrimSpace sid"
  from doTx_ok [OF assms(1) [unfolded repo_Update_def]]
  obtain n cur g old where n: "NormalizeSpec sid (Some s) = Inr n" and get: "getResource r env ?s db = Inr (cur, g)"
    and old: "specFromAgentSessionResource codec cur = Inr old"
    and cases: "old = n \<and> db' = db \<or> (\<exists>payload cur' db1. marshalSessionSpec codec n = Inr payload \<and>
        sto_session cur' = Some payload \<and> exec_update env ?s cur' (i64 (g + 1)) db = (Inr (), db1) \<and>
        finish_write codec r env ''updated'' cur' (i64 (g + 1)) db1 = (Inr st, db'))"
    by (fastforce simp: Let_def split: if_splits sum.splits prod.splits)
  from cases have "stored_spec codec db' ?s = Some n"
  proof
    assume "old = n \<and> db' = db"
    with getResource_stored [OF get, of codec] old show ?thesis by simp
  next
    assume "\<exists>payload cur' db1. marshalSessionSpec codec n = Inr payload \<and>
        sto_session cur' = Some payload \<and> exec_update env ?s cur' (i64 (g + 1)) db = (Inr (), db1) \<and>
        finish_write codec r env ''updated'' cur' (i64 (g + 1)) db1 = (Inr st, db')"
    then obtain payload cur' db1 where m: "marshalSessionSpec codec n = Inr payload" "sto_session cur' = Some payload"
      and e: "exec_update env ?s cur' (i64 (g + 1)) db = (Inr (), db1)"
      and f: "finish_write codec r env ''updated'' cur' (i64 (g + 1)) db1 = (Inr st, db')" by blast
    from e have "db_rows db1 ?s = Some (cur', i64 (g + 1))" by (auto simp: exec_update_def split: option.splits)
    with marshal_spec [OF c m] finish_write_ok [OF f] show ?thesis by (simp add: stored_spec_def)
  qed
  with n show ?thesis by blast
qed

lemma Get_stored:
  assumes "repo_Get codec r env sid db = Inr st" and "stored_spec codec db (TrimSpace sid) = Some n" and "ss_sessionId n \<noteq> []"
  shows "ast_spec st = Some n"
proof -
  from assms(1) obtain res g where get: "getResource r env (TrimSpace sid) db = Inr (res, g)"
    and st: "stateFromAgentSessionResource codec res g = Inr st"
    by (auto simp: repo_Get_def Let_def split: if_splits sum.splits)
  from getResource_stored [OF get, of codec] assms(2) have "specFromAgentSessionResource codec res = Inr n"
    by (simp split: sum.splits)
  with st assms(3) show ?thesis by (auto simp: stateFromAgentSessionResource_def Let_def)
qed

definition sw_spec :: "'j codec \<Rightarrow> ('j, 'z) sworld_scheme \<Rightarrow> string \<Rightarrow> AgentSessionSpec option" where
  "sw_spec codec w sid = stored_spec codec (sw_db w) sid"

interpretation pg_specs: session_specs "sess_Update (pg_sessions codec r)" "sess_Get (pg_sessions codec r)"
    "sw_spec codec" "codec_ok codec" for codec :: "'j codec" and r :: repo
proof
  fix sid s and w :: "('j, 'z) sworld_scheme" and st w'
  assume c: "codec_ok codec" and "sess_Update (pg_sessions codec r) sid s w = (Inr st, w')"
  then obtain db where "repo_Update codec r (sw_env w (sw_tick w)) sid (Some s) (sw_db w) = (Inr st, db)" and "sw_db w' = db"
    by (auto simp: pg_sessions_def sw_call_split)
  with Update_stored [OF _ c] show "\<exists>n. NormalizeSpec sid (Some s) = Inr n \<and> sw_spec codec w' (TrimSpace sid) = Some n"
    by (auto simp: sw_spec_def)
next
  fix sid and w :: "('j, 'z) sworld_scheme" and st w' n
  assume "sess_Get (pg_sessions codec r) sid w = (Inr st, w')" and "sw_spec codec w (TrimSpace sid) = Some n" and "ss_sessionId n \<noteq> []"
  then show "ast_spec st = Some n"
    by (intro Get_stored [where db = "sw_db w"]) (auto simp: pg_sessions_def sw_call_split sw_spec_def)
qed

section \<open>The slot a status write leaves\<close>

text \<open>A status write that succeeds sets the slot to what the status says, whatever it was before.\<close>

lemma UpdateStatus_slot:
  assumes "repo_UpdateStatus codec r env sid (Some st) db = (Inr x, db')"
  shows "db_slot db' (TrimSpace sid) = (let a = getf [] TrimSpace (ass_activeRun st) in if a = [] then None else Some a)"
proof -
  let ?s = "TrimSpace sid"
  from doTx_ok [OF assms [unfolded repo_UpdateStatus_def]]
  consider (same) "updateStatus_read codec r env sid (Some st) db = Inl (Inr x)" "db' = db"
    | (written) cur where "updateStatus_read codec r env sid (Some st) db = Inr cur"
        "updateStatus_write codec r env sid cur db = (Inr x, db')"
    by (auto split: sum.splits)
  then show ?thesis
  proof cases
    case same
    then obtain n res g where n: "NormalizeStatus (se_now env) ?s (Some st) = Inr n"
      and get: "getResource r env ?s db = Inr (res, g)"
      and state: "stateFromAgentSessionResource codec res g = Inr x" "ast_status x = Some n"
      by (auto simp: updateStatus_read_def Let_def split: if_splits sum.splits prod.splits)
    from n have a: "ass_activeRun n = ass_activeRun st" by (auto simp: NormalizeStatus_def Let_def split: if_splits)
    from state have "ass_activeRun n = (let a = TrimSpace (sst_activeRunID (sto_status res)) in if a \<noteq> [] then Some a else None)"
      by (auto simp: stateFromAgentSessionResource_def status_of_stored_def Let_def split: sum.splits)
    with a getResource_ok [OF get] same(2) show ?thesis
      by (cases "ass_activeRun st") (auto simp: db_slot_def slot_of_def Let_def split: if_splits)
  next
    case (written cur)
    then obtain n g where n: "NormalizeStatus (se_now env) ?s (Some st) = Inr n"
      and cur: "sto_status (fst cur) = resourceStatusFromProto n" "snd cur = g"
      by (auto simp: updateStatus_read_def Let_def split: if_splits sum.splits prod.splits)
    from n have a: "ass_activeRun n = ass_activeRun st" by (auto simp: NormalizeStatus_def Let_def split: if_splits)
    from written(2) obtain db1 where e: "exec_update_payload env ?s (fst cur) db = (Inr (), db1)"
      and f: "finish_write codec r env ''status_updated'' (fst cur) (snd cur) db1 = (Inr x, db')"
      by (auto simp: updateStatus_write_def split: sum.splits prod.splits)
    from e obtain g0 where "db_rows db1 ?s = Some (fst cur, g0)" by (auto simp: exec_update_payload_def split: option.splits)
    with finish_write_ok [OF f] cur(1) a show ?thesis
      by (auto simp: db_slot_def slot_of_def resourceStatusFromProto_def Let_def split: option.splits)
  qed
qed

end
