(* ===== verification/Session_Profile.thy ===== *)
theory Session_Profile
  imports Session_Specs Session_Readiness
begin

text \<open>
  Sessions that follow an agent profile (\<open>agentsessions/profile_projection.go\<close>, \<open>profile_source.go\<close>,
  \<open>profile_sync.go\<close>, \<open>model_ref.go\<close>): the spec of such a session is projected from its profile each time it
  is reconciled, and stored when it has changed. The profile service is a record of calls over the world.
\<close>

section \<open>Profiles\<close>

record ProfileCandidate =
  pc_providerRuntimeRef :: "ProviderRuntimeRef option"
  pc_modelSelector :: "ModelSelector option"

record SelectionStrategy =
  sel_providerId :: string
  sel_executionClass :: string
  sel_fallbacks :: "ProfileCandidate option list"

record AgentProfile =
  pf_profileId :: string
  pf_name :: string
  pf_selectionStrategy :: "SelectionStrategy option"
  pf_mcpIds :: "string list"
  pf_skillIds :: "string list"
  pf_ruleIds :: "string list"

record ProfileText =
  pt_id :: string
  pt_name :: string
  pt_content :: string

record ProfileServer =
  ps_mcpId :: string
  ps_name :: string

record 'w ProfileSource =
  src_GetProfile :: "string \<Rightarrow> 'w \<Rightarrow> (AgentProfile option \<times> int) result \<times> 'w"
  src_GetRule :: "string \<Rightarrow> 'w \<Rightarrow> ProfileText option result \<times> 'w"
  src_GetSkill :: "string \<Rightarrow> 'w \<Rightarrow> ProfileText option result \<times> 'w"
  src_GetMCP :: "string \<Rightarrow> 'w \<Rightarrow> ProfileServer option result \<times> 'w"

text \<open>\<open>RemoteProfileProjectionSource\<close>: the calls of the profile service, with the id trimmed.\<close>

definition remote_source :: "'w ProfileSource \<Rightarrow> 'w ProfileSource" where
  "remote_source client =
     \<lparr>src_GetProfile = (\<lambda>i. src_GetProfile client (TrimSpace i)), src_GetRule = (\<lambda>i. src_GetRule client (TrimSpace i)),
      src_GetSkill = (\<lambda>i. src_GetSkill client (TrimSpace i)), src_GetMCP = (\<lambda>i. src_GetMCP client (TrimSpace i))\<rparr>"

section \<open>The runtime\<close>

definition normalizeFallbackModelRef :: "ModelRef option \<Rightarrow> ModelRef option" where
  "normalizeFallbackModelRef r =
     (case r of None \<Rightarrow> None | Some m \<Rightarrow>
      if TrimSpace (mr_modelId m) = [] then None
      else Some \<lparr>mr_vendorId = TrimSpace (mr_vendorId m), mr_modelId = TrimSpace (mr_modelId m)\<rparr>)"

definition profileModelSelector :: "ProfileCandidate option \<Rightarrow> ModelSelector option" where
  "profileModelSelector candidate =
     (case candidate of None \<Rightarrow> None | Some c \<Rightarrow>
      (case pc_modelSelector c of
         Some (SelectModelRef m) \<Rightarrow> Some (SelectModelRef (normalizeFallbackModelRef m))
       | Some (SelectProviderModelId v) \<Rightarrow>
           (if TrimSpace v = [] then None else Some (SelectProviderModelId (TrimSpace v)))
       | None \<Rightarrow> None))"

definition fallbackFromProfile :: "ProfileCandidate option \<Rightarrow> RuntimeFallback option" where
  "fallbackFromProfile candidate =
     (case candidate of None \<Rightarrow> None | Some c \<Rightarrow> Some
       \<lparr>fb_providerRuntimeRef = pc_providerRuntimeRef c,
        fb_modelSelector = (case pc_modelSelector c of
            Some (SelectModelRef m) \<Rightarrow> Some (SelectModelRef (normalizeFallbackModelRef m))
          | Some (SelectProviderModelId v) \<Rightarrow> Some (SelectProviderModelId (TrimSpace v))
          | None \<Rightarrow> None)\<rparr>)"

definition runtimeConfigFromProfile :: "AgentProfile option \<Rightarrow> AgentSessionRuntimeConfig result" where
  "runtimeConfigFromProfile profile =
     (case getf None pf_selectionStrategy profile of
        None \<Rightarrow> Inl (session_validation ''profile selection strategy is missing'')
      | Some strategy \<Rightarrow>
        (case sel_fallbacks strategy of
           Some primary # items \<Rightarrow> Inr
             \<lparr>rc_providerRuntimeRef = pc_providerRuntimeRef primary,
              rc_fallbacks = map fallbackFromProfile (filter (\<lambda>i. i \<noteq> None) items),
              rc_primaryModelSelector = profileModelSelector (Some primary)\<rparr>
         | _ \<Rightarrow> Inl (session_validation (''profile '' @ go_quote (getf [] pf_profileId profile)
                  @ '' primary runtime candidate is missing''))))"

section \<open>The resources\<close>

definition displayName :: "string \<Rightarrow> string \<Rightarrow> string" where
  "displayName name fallback = (if TrimSpace name \<noteq> [] then TrimSpace name else TrimSpace fallback)"

text \<open>\<open>loadRule\<close>, \<open>loadSkill\<close> and \<open>loadMCP\<close> differ in the call and the noun only.\<close>

definition load_part ::
    "string \<Rightarrow> (string \<Rightarrow> 'w \<Rightarrow> 'a option result \<times> 'w) \<Rightarrow> string \<Rightarrow> 'w \<Rightarrow> 'a result \<times> 'w" where
  "load_part noun get i w =
     (case get (TrimSpace i) w of (Inl e, w) \<Rightarrow> (Inl e, w)
      | (Inr None, w) \<Rightarrow> (Inl (session_validation (noun @ '' '' @ go_quote i @ '' is missing payload'')), w)
      | (Inr (Some x), w) \<Rightarrow> (Inr x, w))"

definition loadRule :: "'w ProfileSource \<Rightarrow> string \<Rightarrow> 'w \<Rightarrow> ProfileText result \<times> 'w" where
  "loadRule p = load_part ''rule'' (src_GetRule p)"

definition loadSkill :: "'w ProfileSource \<Rightarrow> string \<Rightarrow> 'w \<Rightarrow> ProfileText result \<times> 'w" where
  "loadSkill p = load_part ''skill'' (src_GetSkill p)"

definition loadMCP :: "'w ProfileSource \<Rightarrow> string \<Rightarrow> 'w \<Rightarrow> ProfileServer result \<times> 'w" where
  "loadMCP p = load_part ''mcp'' (src_GetMCP p)"

text \<open>A loop that loads the parts in order and ends at the first error.\<close>

fun load_all :: "(string \<Rightarrow> 'w \<Rightarrow> 'a result \<times> 'w) \<Rightarrow> string list \<Rightarrow> 'w \<Rightarrow> 'a list result \<times> 'w" where
  "load_all load [] w = (Inr [], w)"
| "load_all load (i # ids) w =
     (case load i w of (Inl e, w) \<Rightarrow> (Inl e, w)
      | (Inr x, w) \<Rightarrow> (case load_all load ids w of (Inl e, w) \<Rightarrow> (Inl e, w) | (Inr xs, w) \<Rightarrow> (Inr (x # xs), w)))"

definition profile_instruction :: "InstructionKind \<Rightarrow> ProfileText \<Rightarrow> InstructionResource option" where
  "profile_instruction kind t = Some \<lparr>ir_kind = kind, ir_name = displayName (pt_name t) (pt_id t),
     ir_content = TrimSpace (pt_content t)\<rparr>"

definition profile_tool :: "ProfileServer \<Rightarrow> ToolBinding option" where
  "profile_tool s = Some \<lparr>tb_name = displayName (ps_name s) (ps_mcpId s), tb_kind = ToolMCP,
     tb_target = ''mcp://'' @ TrimSpace (ps_mcpId s)\<rparr>"

definition resourceConfigFromProfile ::
    "hash \<Rightarrow> 'w ProfileSource \<Rightarrow> AgentProfile \<Rightarrow> 'w \<Rightarrow> AgentResources result \<times> 'w" where
  "resourceConfigFromProfile hash p profile w =
     (case load_all (loadRule p) (pf_ruleIds profile) w of (Inl e, w) \<Rightarrow> (Inl e, w)
      | (Inr rules, w) \<Rightarrow>
        (case load_all (loadSkill p) (pf_skillIds profile) w of (Inl e, w) \<Rightarrow> (Inl e, w)
         | (Inr skills, w) \<Rightarrow>
           (case load_all (loadMCP p) (pf_mcpIds profile) w of (Inl e, w) \<Rightarrow> (Inl e, w)
            | (Inr servers, w) \<Rightarrow>
              (let config = \<lparr>res_snapshotId = [],
                     res_instructions = map (profile_instruction InstructionRule) rules
                       @ map (profile_instruction InstructionSkill) skills,
                     res_toolBindings = map profile_tool servers\<rparr>
               in (Inr (config\<lparr>res_snapshotId := SnapshotID hash (Some config)\<rparr>), w)))))"

section \<open>The projection\<close>

definition loadProfile :: "'w ProfileSource \<Rightarrow> string \<Rightarrow> 'w \<Rightarrow> (AgentProfile \<times> int) result \<times> 'w" where
  "loadProfile p profileID w =
     (case src_GetProfile p (TrimSpace profileID) w of (Inl e, w) \<Rightarrow> (Inl e, w)
      | (Inr (None, g), w) \<Rightarrow> (Inl (session_validation (''profile '' @ go_quote profileID @ '' is missing payload'')), w)
      | (Inr (Some profile, g), w) \<Rightarrow> (Inr (profile, g), w))"

definition profile_Project ::
    "hash \<Rightarrow> 'w ProfileSource \<Rightarrow> AgentSessionSpec option \<Rightarrow> 'w \<Rightarrow> AgentSessionSpec result \<times> 'w" where
  "profile_Project hash p base w =
     (case base of None \<Rightarrow> (Inl (session_validation ''session request is nil''), w) | Some b \<Rightarrow>
      (let profileID = TrimSpace (ss_profileId b) in
       if profileID = [] then (Inr b, w)
       else case loadProfile p profileID w of (Inl e, w) \<Rightarrow> (Inl e, w)
       | (Inr (profile, generation), w) \<Rightarrow>
         (case runtimeConfigFromProfile (Some profile) of Inl e \<Rightarrow> (Inl e, w)
          | Inr runtimeConfig \<Rightarrow>
            (case resourceConfigFromProfile hash p profile w of (Inl e, w) \<Rightarrow> (Inl e, w)
             | (Inr resourceConfig, w) \<Rightarrow>
                (Inr \<lparr>ss_sessionId = TrimSpace (ss_sessionId b),
                  ss_providerId = TrimSpace (getf [] sel_providerId (pf_selectionStrategy profile)),
                  ss_profileId = pf_profileId profile, ss_runtimeConfig = Some runtimeConfig,
                  ss_resourceConfig = Some resourceConfig, ss_workspaceRef = ss_workspaceRef b,
                  ss_homeStateRef = ss_homeStateRef b, ss_profileGeneration = generation,
                  ss_executionClass = TrimSpace (getf [] sel_executionClass (pf_selectionStrategy profile)),
                  ss_prepareJobs = []\<rparr>, w)))))"

text \<open>\<open>proto.Equal\<close> is equality of the values. The projector is never nil, its constructor sees to it.\<close>

definition syncProfileBackedSession ::
    "hash \<Rightarrow> 'w ProfileSource \<Rightarrow> 'w SessionRepository \<Rightarrow> SessionResource option \<Rightarrow> 'w \<Rightarrow> bool result \<times> 'w" where
  "syncProfileBackedSession hash p sessions resource w =
     (case resource of None \<Rightarrow> (Inr False, w) | Some r \<Rightarrow>
      (case sr_session r of None \<Rightarrow> (Inr False, w) | Some spec \<Rightarrow>
       if TrimSpace (ss_profileId spec) = [] then (Inr False, w)
       else case profile_Project hash p (Some spec) w of (Inl e, w) \<Rightarrow> (Inl e, w)
       | (Inr projected, w) \<Rightarrow>
         if projected = spec then (Inr False, w)
         else case sess_Update sessions (firstNonEmpty [ss_sessionId spec, om_name (sr_meta r)]) projected w of
           (Inl e, w) \<Rightarrow> (Inl e, w) | (Inr _, w) \<Rightarrow> (Inr True, w)))"

section \<open>A projection that is stored is a fixed point\<close>

text \<open>A service whose contents do not change: each call has one answer and leaves the world alone.\<close>

definition steady :: "('k \<Rightarrow> 'w \<Rightarrow> 'a \<times> 'w) \<Rightarrow> bool" where
  "steady f \<longleftrightarrow> (\<forall>k. \<exists>x. \<forall>w. f k w = (x, w))"

text \<open>The profile service finds a profile by its id.\<close>

definition steady_profiles :: "'w ProfileSource \<Rightarrow> bool" where
  "steady_profiles p \<longleftrightarrow> steady (src_GetProfile p) \<and> steady (src_GetRule p) \<and> steady (src_GetSkill p) \<and>
     steady (src_GetMCP p) \<and>
     (\<forall>i w pf g w'. src_GetProfile p i w = (Inr (Some pf, g), w') \<longrightarrow> TrimSpace (pf_profileId pf) = TrimSpace i)"

lemma steadyD: "steady f \<Longrightarrow> f k w = (x, w') \<Longrightarrow> w' = w \<and> f k v = (x, v)"
  unfolding steady_def by (metis prod.inject)

lemma steady_load_part: "steady get \<Longrightarrow> steady (load_part noun get)"
  unfolding steady_def
proof (rule allI)
  fix i assume s: "\<forall>k. \<exists>x. \<forall>w. get k w = (x, w)"
  then obtain x where x: "\<And>w. get (TrimSpace i) w = (x, w)" by blast
  show "\<exists>x. \<forall>w. load_part noun get i w = (x, w)"
    by (cases x; cases "projr x") (auto simp: load_part_def x)
qed

lemma steady_load_all:
  assumes "steady load"
  shows "steady (load_all load)"
  unfolding steady_def
proof (rule allI)
  fix ids
  show "\<exists>x. \<forall>w. load_all load ids w = (x, w)"
  proof (induction ids)
    case (Cons i ids)
    then obtain xs where xs: "\<And>w. load_all load ids w = (xs, w)" by blast
    from assms obtain x where x: "\<And>w. load i w = (x, w)" unfolding steady_def by blast
    show ?case by (cases x; cases xs) (auto simp: x xs)
  qed simp
qed

lemma steady_resources:
  assumes "steady_profiles p"
  shows "steady (resourceConfigFromProfile hash p)"
  unfolding steady_def
proof (rule allI)
  fix pf :: AgentProfile
  have "steady (load_all (loadRule p))" "steady (load_all (loadSkill p))" "steady (load_all (loadMCP p))"
    using assms unfolding steady_profiles_def loadRule_def loadSkill_def loadMCP_def
    by (intro steady_load_all steady_load_part; blast)+
  then obtain a b c where "\<And>w. load_all (loadRule p) (pf_ruleIds pf) w = (a, w)"
    and "\<And>w. load_all (loadSkill p) (pf_skillIds pf) w = (b, w)" and "\<And>w. load_all (loadMCP p) (pf_mcpIds pf) w = (c, w)"
    unfolding steady_def by metis
  then show "\<exists>x. \<forall>w. resourceConfigFromProfile hash p pf w = (x, w)"
    by (cases a; cases b; cases c) (auto simp: resourceConfigFromProfile_def)
qed

lemma steady_loadProfile:
  assumes "steady_profiles p"
  shows "steady (loadProfile p)"
  unfolding steady_def
proof (rule allI)
  fix i
  from assms obtain x where x: "\<And>w. src_GetProfile p (TrimSpace i) w = (x, w)"
    unfolding steady_profiles_def steady_def by metis
  show "\<exists>x. \<forall>w. loadProfile p i w = (x, w)"
    by (cases x; cases "fst (projr x)") (auto simp: loadProfile_def x split: prod.splits)
qed

lemma loadProfile_id:
  assumes "steady_profiles p" and "loadProfile p i w = (Inr (pf, g), w')"
  shows "TrimSpace (pf_profileId pf) = TrimSpace i"
    and "loadProfile p (TrimSpace (pf_profileId pf)) v = (Inr (pf, g), v)"
proof -
  from assms(2) have get: "src_GetProfile p (TrimSpace i) w = (Inr (Some pf, g), w')"
    by (auto simp: loadProfile_def split: prod.splits sum.splits option.splits)
  with assms(1) show i: "TrimSpace (pf_profileId pf) = TrimSpace i" unfolding steady_profiles_def by fastforce
  from get steadyD [of "src_GetProfile p"] assms(1) have "src_GetProfile p (TrimSpace i) v = (Inr (Some pf, g), v)"
    unfolding steady_profiles_def by blast
  with i show "loadProfile p (TrimSpace (pf_profileId pf)) v = (Inr (pf, g), v)" by (simp add: loadProfile_def)
qed

lemma Project_again:
  assumes p: "steady_profiles p" and "profile_Project hash p (Some b) w = (Inr q, w')" and id: "TrimSpace (ss_profileId b) \<noteq> []"
  shows "profile_Project hash p (Some q) v = (Inr q, v)" and "TrimSpace (ss_profileId q) = TrimSpace (ss_profileId b)"
    and "ss_sessionId q = TrimSpace (ss_sessionId b)" and "ss_workspaceRef q = ss_workspaceRef b"
    and "ss_homeStateRef q = ss_homeStateRef b" and "ss_prepareJobs q = []" and "w' = w"
proof -
  from assms(2) id obtain pf g w1 rc cfg where l: "loadProfile p (TrimSpace (ss_profileId b)) w = (Inr (pf, g), w1)"
    and rc: "runtimeConfigFromProfile (Some pf) = Inr rc" and cfg: "resourceConfigFromProfile hash p pf w1 = (Inr cfg, w')"
    and q: "q = \<lparr>ss_sessionId = TrimSpace (ss_sessionId b), ss_providerId = TrimSpace (getf [] sel_providerId (pf_selectionStrategy pf)),
       ss_profileId = pf_profileId pf, ss_runtimeConfig = Some rc, ss_resourceConfig = Some cfg,
       ss_workspaceRef = ss_workspaceRef b, ss_homeStateRef = ss_homeStateRef b, ss_profileGeneration = g,
       ss_executionClass = TrimSpace (getf [] sel_executionClass (pf_selectionStrategy pf)), ss_prepareJobs = []\<rparr>"
    by (auto simp: profile_Project_def Let_def split: prod.splits sum.splits)
  note i = loadProfile_id [OF p l]
  from steadyD [OF steady_loadProfile [OF p] l] have "w1 = w" by simp
  with steadyD [OF steady_resources [OF p] cfg] show "w' = w" by simp
  from steadyD [OF steady_resources [OF p] cfg] have cfg': "resourceConfigFromProfile hash p pf u = (Inr cfg, u)" for u by blast
  show "TrimSpace (ss_profileId q) = TrimSpace (ss_profileId b)" using i(1) by (simp add: q)
  show "profile_Project hash p (Some q) v = (Inr q, v)"
    using i id cfg' rc by (simp add: profile_Project_def q)
  show "ss_sessionId q = TrimSpace (ss_sessionId b)" and "ss_workspaceRef q = ss_workspaceRef b"
    and "ss_homeStateRef q = ss_homeStateRef b" and "ss_prepareJobs q = []" by (simp_all add: q)
qed

section \<open>Properties\<close>

text \<open>
  A session that follows a profile settles: when a reconciliation has stored a new projection, the next
  one, which reads the session back, finds nothing to store, as long as the profile does not change; what
  it finds is the projection, in which the prepare jobs of the session are gone.
\<close>

theorem profile_sync_settles:
  assumes "steady_profiles p" and "codec_ok codec"
    and "sr_session s = Some spec" and "TrimSpace (ss_sessionId spec) \<noteq> []"
    and "ss_workspaceRef spec \<noteq> None" and "ss_homeStateRef spec \<noteq> None"
    and "syncProfileBackedSession hash p (pg_sessions codec r) (Some s) w = (Inr True, w1)"
    and "sess_Get (pg_sessions codec r) (ss_sessionId spec) w1 = (Inr st, w2)"
    and "ResourceFromState (Some st) ns = Inr s2"
  shows "syncProfileBackedSession hash p (pg_sessions codec r) (Some s2) w3 = (Inr False, w3) \<and>
    getf [] ss_prepareJobs (sr_session s2) = [] \<and>
    (\<exists>q. profile_Project hash p (Some spec) w = (Inr q, w) \<and> sr_session s2 = Some q)"
proof -
  from assms(3,4,7) obtain q u x where id: "TrimSpace (ss_profileId spec) \<noteq> []"
    and q: "profile_Project hash p (Some spec) w = (Inr q, u)"
    and up: "sess_Update (pg_sessions codec r) (TrimSpace (ss_sessionId spec)) q u = (Inr x, w1)"
    by (auto simp: syncProfileBackedSession_def split: if_splits prod.splits sum.splits)
  note again = Project_again [OF assms(1) q id]
  have get: "sess_Get (pg_sessions codec r) (TrimSpace (ss_sessionId spec)) w1 = (Inr st, w2)"
    using assms(8) by (simp add: pg_sessions_def repo_Get_def)
  have "ast_spec st = Some q"
    by (rule pg_specs.complete_spec_read_back [OF assms(2) up refl get]) (use again assms(5,6) in simp_all)
  with ResourceFromState_ok [OF assms(9)] have s2: "sr_session s2 = Some q" by auto
  with again id q show ?thesis by (simp add: syncProfileBackedSession_def)
qed

end
