(* ===== verification/Session_Controller.thy ===== *)
theory Session_Controller
  imports Session_Reload Session_Carriers Session_Profile
begin

text \<open>
  The session reconciler (\<open>agentsessions/controller.go\<close>, \<open>status_derive.go\<close>, \<open>status.go\<close>,
  \<open>resource_reload.go\<close>): it keeps a session in step with its profile, sees to its carriers, derives the
  status from what it observes, and writes it when it has changed.

  The execution resolver (\<open>agentexecution\<close>), the Kubernetes clients and \<open>meta.SetStatusCondition\<close> are
  fields of the reconciler's record; the constructor sees to it that none of the others is nil.
\<close>

record 'w SessionCtl =
  sctl_runs_Get :: "string \<Rightarrow> string \<Rightarrow> 'w \<Rightarrow> RunResource result \<times> 'w"
  sctl_actions :: "(ActionResource, 'w) kube"
  sctl_namespace :: string
  sctl_now :: "'w \<Rightarrow> time"
  sctl_sink :: "'w Sink option"
  sctl_resolve :: "SessionResource \<Rightarrow> 'w \<Rightarrow> unit result \<times> 'w"
  sctl_source :: "'w ProfileSource"
  sctl_hash :: hash
  sctl_configMaps :: "(ConfigMap, 'w) kube"
  sctl_carriers :: "'w CarrierManager"
  sctl_sessions :: "'w SessionRepository"
  sctl_reader :: "'w ActionStore option"
  sctl_set :: set_condition

section \<open>Readiness\<close>

text \<open>The evaluation after an observation failed keeps what was known of the rest.\<close>

definition carriers_failed :: "readinessEvaluation \<Rightarrow> go_error \<Rightarrow> readinessEvaluation" where
  "carriers_failed ev e = summarizeReadiness (no_evaluation
     \<lparr>ev_workspaceMessage := ''AgentSession workspace carrier observation failed: '' @ TrimSpace (err_message e),
      ev_warmStateMessage := ''AgentSession warm state carrier observation failed: '' @ TrimSpace (err_message e),
      ev_runtimeReady := ev_runtimeReady ev, ev_resourceReady := ev_resourceReady ev,
      ev_resourceMessage := ev_resourceMessage ev\<rparr>) []"

definition reset_failed :: "readinessEvaluation \<Rightarrow> go_error \<Rightarrow> readinessEvaluation" where
  "reset_failed ev e = summarizeReadiness (no_evaluation
     \<lparr>ev_workspaceReady := ev_workspaceReady ev, ev_workspaceMessage := ev_workspaceMessage ev,
      ev_warmStateMessage := ''AgentSession warm state reset observation failed: '' @ TrimSpace (err_message e),
      ev_runtimeReady := ev_runtimeReady ev, ev_resourceReady := ev_resourceReady ev,
      ev_resourceMessage := ev_resourceMessage ev\<rparr>) []"

definition runtime_failed :: "readinessEvaluation \<Rightarrow> go_error \<Rightarrow> readinessEvaluation" where
  "runtime_failed ev e = summarizeReadiness (no_evaluation
     \<lparr>ev_workspaceReady := ev_workspaceReady ev, ev_warmStateReady := ev_warmStateReady ev,
      ev_resourceReady := ev_resourceReady ev\<rparr>)
     (''AgentSession runtime config is not ready: '' @ TrimSpace (err_message e))"

definition resources_failed :: "readinessEvaluation \<Rightarrow> go_error \<Rightarrow> readinessEvaluation" where
  "resources_failed ev e = summarizeReadiness (no_evaluation
     \<lparr>ev_workspaceReady := ev_workspaceReady ev, ev_warmStateReady := ev_warmStateReady ev,
      ev_runtimeReady := ev_runtimeReady ev,
      ev_resourceMessage := ''AgentSession resource materialization is unavailable: '' @ TrimSpace (err_message e)\<rparr>) []"

definition hasResetPending :: "'w SessionCtl \<Rightarrow> string \<Rightarrow> 'w \<Rightarrow> bool result \<times> 'w" where
  "hasResetPending c sessionID w =
     (case sctl_reader c of None \<Rightarrow> (Inr False, w)
      | Some reader \<Rightarrow> astore_HasNonterminalResetWarmState reader sessionID w)"

text \<open>The last part of the evaluation: the runtime and the materialized resources.\<close>

definition evaluate_runtime ::
    "'w SessionCtl \<Rightarrow> SessionResource \<Rightarrow> readinessEvaluation \<Rightarrow> 'w \<Rightarrow> readinessEvaluation \<times> 'w" where
  "evaluate_runtime c r ev w =
     (if \<not> ev_runtimeReady ev then (summarizeReadiness ev [], w)
      else case sctl_resolve c r w of
        (Inl e, w) \<Rightarrow> (runtime_failed ev e, w)
      | (Inr _, w) \<Rightarrow>
        (case Materializer_IsCurrent (sctl_hash c) (sctl_configMaps c) (sctl_namespace c)
                (getf [] ss_sessionId (sr_session r)) (getf None ss_resourceConfig (sr_session r)) w of
           (Inl e, w) \<Rightarrow> (resources_failed ev e, w)
         | (Inr True, w) \<Rightarrow> (summarizeReadiness ev [], w)
         | (Inr False, w) \<Rightarrow> (summarizeReadiness (ev\<lparr>ev_resourceReady := False,
             ev_resourceMessage := ''Resource config materialization is not current.''\<rparr>) [], w)))"

definition session_evaluateReadiness ::
    "'w SessionCtl \<Rightarrow> SessionResource \<Rightarrow> 'w \<Rightarrow> readinessEvaluation \<times> 'w" where
  "session_evaluateReadiness c r w =
     (let ev = evaluateReadiness (sctl_hash c) (Some r) in
      case carriers_Observe (sctl_carriers c) (Some r) w of
        (Inl e, w) \<Rightarrow> (carriers_failed ev e, w)
      | (Inr o', w) \<Rightarrow>
        (let ev = ev\<lparr>ev_workspaceReady := co_workspaceReady o', ev_workspaceMessage := co_workspaceMessage o',
                     ev_warmStateReady := co_warmStateReady o', ev_warmStateMessage := co_warmStateMessage o'\<rparr> in
         case hasResetPending c (getf [] ss_sessionId (sr_session r)) w of
           (Inl e, w) \<Rightarrow> (reset_failed ev e, w)
         | (Inr True, w) \<Rightarrow> (summarizeReadiness (ev\<lparr>ev_warmStateReady := False,
             ev_warmStateMessage := ''AgentSession warm state reset is in progress.''\<rparr>) [], w)
         | (Inr False, w) \<Rightarrow> evaluate_runtime c r ev w))"

section \<open>Deriving the status\<close>

definition observeActiveRun :: "'w SessionCtl \<Rightarrow> string \<Rightarrow> 'w \<Rightarrow> (string \<times> bool) \<times> 'w" where
  "observeActiveRun c activeRunID w =
     (let activeRunID = TrimSpace activeRunID in
      if activeRunID = [] then (([], False), w)
      else case sctl_runs_Get c (sctl_namespace c) activeRunID w of
        (Inl e, w) \<Rightarrow> (if is_api_not_found e then (([], False), w) else ((activeRunID, True), w))
      | (Inr r, w) \<Rightarrow>
          (if session_isTerminalRunPhase (rrs_phase (run_status r)) then (([], False), w)
           else ((activeRunID, True), w)))"

definition observed_status ::
    "'w SessionCtl \<Rightarrow> SessionResource \<Rightarrow> AgentSessionSpec \<Rightarrow> readinessEvaluation \<Rightarrow> string \<Rightarrow> bool \<Rightarrow> time
      \<Rightarrow> SessionResourceStatus" where
  "observed_status c r spec ev activeRunID hasActiveRun now =
     (let prev = sr_status r; g = om_generation (sr_meta r);
          (previousRuntimeGen, previousResourceGen, _) = previousConfigGenerations (Some prev);
          (stateGeneration, observedHomeStateID) = observeStateGeneration (Some prev) spec g (ev_warmStateReady ev);
          status = \<lparr>srs_observedGeneration = g,
            srs_conditions = readiness_conditions (sctl_set c) ev (previousConditions (Some prev)) g now hasActiveRun,
            srs_phase = ev_phase ev,
            srs_runtimeConfigGeneration = observedConfigGeneration previousRuntimeGen (ev_runtimeReady ev) g,
            srs_resourceConfigGeneration = observedConfigGeneration previousResourceGen (ev_resourceReady ev) g,
            srs_realizedRuleRevision = TrimSpace (srs_realizedRuleRevision prev),
            srs_realizedSkillRevision = TrimSpace (srs_realizedSkillRevision prev),
            srs_realizedMCPRevision = TrimSpace (srs_realizedMCPRevision prev),
            srs_observedHomeStateID = observedHomeStateID, srs_stateGeneration = stateGeneration,
            srs_message = ev_message ev, srs_activeRunID = activeRunID, srs_updatedAt = Some now\<rparr>
      in if hasActiveRun then status\<lparr>srs_phase := SRunning, srs_message := ''AgentSession has an active run.''\<rparr>
         else status)"

definition invalid_session :: "SessionResource \<Rightarrow> string option" where
  "invalid_session r =
     (case sr_session r of None \<Rightarrow> Some ''AgentSession spec.session is required.''
      | Some spec \<Rightarrow>
        if TrimSpace (ss_sessionId spec) = [] then Some ''AgentSession sessionId is required.''
        else if TrimSpace (ss_providerId spec) = [] then Some ''AgentSession providerId is required.''
        else if TrimSpace (ss_executionClass spec) = [] then Some ''AgentSession executionClass is required.''
        else None)"

definition session_deriveStatus :: "'w SessionCtl \<Rightarrow> SessionResource \<Rightarrow> time \<Rightarrow> 'w \<Rightarrow> SessionResourceStatus \<times> 'w" where
  "session_deriveStatus c r now w =
     (case (invalid_session r, sr_session r) of
        (None, Some spec) \<Rightarrow>
          (case session_evaluateReadiness c r w of (ev, w) \<Rightarrow>
           (case observeActiveRun c (srs_activeRunID (sr_status r)) w of ((activeRunID, hasActiveRun), w) \<Rightarrow>
             (observed_status c r spec ev activeRunID hasActiveRun now, w)))
      | (message, _) \<Rightarrow>
          (session_failedStatus (sctl_set c) (Some (sr_status r)) (om_generation (sr_meta r)) now ''InvalidSpec''
             (getf [] id message), w))"

section \<open>Reload actions\<close>

text \<open>The actions are created with the Kubernetes client of the reconciler.\<close>

fun create_reload_actions ::
    "'w SessionCtl \<Rightarrow> string \<Rightarrow> time \<Rightarrow> ActionResource list \<Rightarrow> 'w \<Rightarrow> unit result \<times> 'w" where
  "create_reload_actions c sessionID now [] w = (Inr (), w)"
| "create_reload_actions c sessionID now (a # actions) w =
     (case CreateResource (sctl_actions c) ''*v1alpha1.AgentSessionActionResource'' a (sctl_namespace c) (ar_name a) w of
        (Inl e, w) \<Rightarrow>
          (if is_api_already_exists e \<or> is_api_conflict e then create_reload_actions c sessionID now actions w
           else (Inl e, w))
      | (Inr _, w) \<Rightarrow>
        create_reload_actions c sessionID now actions
          (record_event (sctl_sink c)
            \<lparr>te_scopeRef = session_scope sessionID, te_eventType = ''SUBMITTED'', te_subject = ''action'',
             te_action = ''create'', te_occurredAt = now,
             te_attributes = [(''action_id'', ar_name a), (''type'', action_type_name TypeReloadSubject),
               (''subject'', action_subject_name (rl_subject (reload_snapshot a)))]\<rparr> w))"

definition ensureReloadSubjectActions ::
    "'w SessionCtl \<Rightarrow> SessionResource \<Rightarrow> readinessEvaluation \<Rightarrow> time \<Rightarrow> 'w \<Rightarrow> unit result \<times> 'w" where
  "ensureReloadSubjectActions c r ev now w =
     create_reload_actions c (getf [] ss_sessionId (sr_session r)) now
       (buildReloadSubjectActions (sctl_hash c) (Some r) ev) w"

section \<open>The reconciler\<close>

definition session_updateStatus ::
    "'w SessionRepository \<Rightarrow> SessionResource \<Rightarrow> SessionResourceStatus \<Rightarrow> 'w \<Rightarrow> unit result \<times> 'w" where
  "session_updateStatus sessions r next w =
     (let status = sessionStatusFromResourceStatus r next in
      case sess_UpdateStatus sessions (ass_sessionId status) status w of
        (Inl e, w) \<Rightarrow> (Inl e, w) | (Inr _, w) \<Rightarrow> (Inr (), w))"

text \<open>The answer to a profile that cannot be projected.\<close>

definition projection_failed :: "'w SessionCtl \<Rightarrow> SessionResource \<Rightarrow> go_error \<Rightarrow> 'w \<Rightarrow> CtrlResult result \<times> 'w" where
  "projection_failed c r e w =
     (let status = session_failedStatus (sctl_set c) (Some (sr_status r)) (om_generation (sr_meta r)) (sctl_now c w)
            ''ProfileProjectionFailed'' (err_message e) in
      if session_statusSemanticallyEqual (Some (sr_status r)) (Some status) then (Inr no_requeue, w)
      else case session_updateStatus (sctl_sessions c) r status w of
        (Inl e, w) \<Rightarrow> (Inl e, w) | (Inr _, w) \<Rightarrow> (Inr no_requeue, w))"

definition reconcile_session_status :: "'w SessionCtl \<Rightarrow> SessionResource \<Rightarrow> 'w \<Rightarrow> CtrlResult result \<times> 'w" where
  "reconcile_session_status c r w =
     (let now = sctl_now c w in
      case session_deriveStatus c r now w of (status, w) \<Rightarrow>
      (case session_evaluateReadiness c r w of (ev, w) \<Rightarrow>
       (case ensureReloadSubjectActions c r ev now w of
          (Inl e, w) \<Rightarrow> (Inl e, w)
        | (Inr _, w) \<Rightarrow>
          (if session_statusSemanticallyEqual (Some (sr_status r)) (Some status)
           then (Inr (readinessRequeueFor (Some status)), w)
           else case session_updateStatus (sctl_sessions c) r status w of
             (Inl e, w) \<Rightarrow> (Inl e, w)
           | (Inr _, w) \<Rightarrow>
               (Inr (readinessRequeueFor (Some status)),
                record_events (sctl_sink c) (sessionTimelineEvents r (Some (sr_status r)) (Some status) now) w)))))"

definition session_Reconcile :: "'w SessionCtl \<Rightarrow> string \<Rightarrow> string \<Rightarrow> 'w \<Rightarrow> CtrlResult result \<times> 'w" where
  "session_Reconcile c namespace name w =
     (if namespace \<noteq> sctl_namespace c then (Inr no_requeue, w)
      else case sess_Get (sctl_sessions c) name w of
        (Inl e, w) \<Rightarrow> (if is_api_not_found e \<or> grpc_not_found e then (Inr no_requeue, w) else (Inl e, w))
      | (Inr state, w) \<Rightarrow>
        (case ResourceFromState (Some state) (sctl_namespace c) of Inl e \<Rightarrow> (Inl e, w)
         | Inr r \<Rightarrow>
           (case syncProfileBackedSession (sctl_hash c) (sctl_source c) (sctl_sessions c) (Some r) w of
              (Inl e, w) \<Rightarrow> projection_failed c r e w
            | (Inr True, w) \<Rightarrow> (Inr requeue_now, w)
            | (Inr False, w) \<Rightarrow>
              (case carriers_Ensure (sctl_carriers c) (Some r) w of
                 (Inl e, w) \<Rightarrow> (Inl e, w) | (Inr _, w) \<Rightarrow> reconcile_session_status c r w))))"

end
