(* ===== verification/Session_Laws.thy ===== *)
theory Session_Laws
  imports Session_Controller Action_Admission
begin

text \<open>
  What the session reconciler promises: the statuses it derives keep the platform contract, they say
  \<open>READY\<close> exactly when the action service would admit a turn, and what a status write does to the slot of
  the active run.
\<close>

section \<open>The evaluation is a summary\<close>

lemma evaluation_summary: "\<exists>e m. fst (session_evaluateReadiness c r w) = summarizeReadiness e m"
  unfolding session_evaluateReadiness_def evaluate_runtime_def carriers_failed_def reset_failed_def
    runtime_failed_def resources_failed_def Let_def
  by (auto split: prod.splits sum.splits bool.splits)

lemma derived_cases:
  assumes "session_deriveStatus c r now w = (st, w')"
  obtains (invalid) message where "invalid_session r = Some message"
      "st = session_failedStatus (sctl_set c) (Some (sr_status r)) (om_generation (sr_meta r)) now ''InvalidSpec'' message"
  | (observed) spec e m a b where "invalid_session r = None" "sr_session r = Some spec"
      "st = observed_status c r spec (summarizeReadiness e m) a b now" "b \<longleftrightarrow> a \<noteq> []"
      "a = [] \<or> a = TrimSpace (srs_activeRunID (sr_status r))"
proof (cases "invalid_session r")
  case None
  then obtain spec where spec: "sr_session r = Some spec" by (auto simp: invalid_session_def split: option.splits)
  obtain e m u where e: "session_evaluateReadiness c r w = (summarizeReadiness e m, u)"
    using evaluation_summary by (metis prod.collapse)
  obtain a b v where o': "observeActiveRun c (srs_activeRunID (sr_status r)) u = ((a, b), v)" by (metis prod.collapse)
  then have "b \<longleftrightarrow> a \<noteq> []" "a = [] \<or> a = TrimSpace (srs_activeRunID (sr_status r))"
    by (auto simp: observeActiveRun_def Let_def split: if_splits prod.splits sum.splits)
  moreover from assms None spec e o' have "st = observed_status c r spec (summarizeReadiness e m) a b now"
    by (simp add: session_deriveStatus_def)
  ultimately show ?thesis using observed None spec by blast
next
  case (Some message)
  with assms invalid show ?thesis by (simp add: session_deriveStatus_def)
qed

lemma observed_fields:
  "srs_observedGeneration (observed_status c r spec ev a b now) = om_generation (sr_meta r)"
  "srs_conditions (observed_status c r spec ev a b now) =
     readiness_conditions (sctl_set c) ev (srs_conditions (sr_status r)) (om_generation (sr_meta r)) now b"
  "srs_phase (observed_status c r spec ev a b now) = (if b then SRunning else ev_phase ev)"
  "srs_activeRunID (observed_status c r spec ev a b now) = a"
  "srs_runtimeConfigGeneration (observed_status c r spec ev a b now) =
     (if ev_runtimeReady ev then om_generation (sr_meta r) else srs_runtimeConfigGeneration (sr_status r))"
  "srs_resourceConfigGeneration (observed_status c r spec ev a b now) =
     (if ev_resourceReady ev then om_generation (sr_meta r) else srs_resourceConfigGeneration (sr_status r))"
  "srs_stateGeneration (observed_status c r spec ev a b now) \<in>
     {0, om_generation (sr_meta r), srs_stateGeneration (sr_status r)}"
  by (auto simp: observed_status_def previousConfigGenerations_def previousConditions_def observedConfigGeneration_def
      observeStateGeneration_def Let_def)

lemma session_failed_fields:
  "srs_phase (session_failedStatus f p g now reason m) = SFailed"
  "srs_activeRunID (session_failedStatus f p g now reason m) = []"
  by (simp_all add: session_failedStatus_def empty_session_status_def)

section \<open>The conditions of a failed session\<close>

lemma only_ready_condition:
  "readyForNextRunCondition cs = [] \<or> (\<exists>c. readyForNextRunCondition cs = [c] \<and> mc_type c = ''ReadyForNextRun'')"
  by (induction cs) auto

lemma failed_conditions:
  assumes "set_condition_ok f" and "\<not> time_is_zero now"
  shows "\<exists>t. srs_conditions (session_failedStatus f p g now reason m) =
     [\<lparr>mc_type = ''ReadyForNextRun'', mc_status = MetaFalse, mc_reason = reason, mc_message = m,
       mc_observedGeneration = g, mc_lastTransitionTime = t\<rparr>]"
  using only_ready_condition [of "previousConditions p"] assms
  by (auto simp: session_failedStatus_def setStatusCondition_def set_condition_ok_def)

section \<open>Reading a session and writing its status\<close>

lemma session_read:
  assumes "sess_Get (pg_sessions codec rp) sid w = (Inr st, w1)" and "ResourceFromState (Some st) ns = Inr r"
    and "sdb_ok codec (sw_db w)"
  shows "om_name (sr_meta r) = TrimSpace sid" and "getf [] ss_sessionId (sr_session r) = TrimSpace sid"
    and "sw_slot w (TrimSpace sid) = (if srs_activeRunID (sr_status r) = [] then None else Some (srs_activeRunID (sr_status r)))"
    and "sw_db w1 = sw_db w"
proof -
  from assms(1) have g: "repo_Get codec rp (sw_env w (sw_tick w)) sid (sw_db w) = Inr st" and db: "sw_db w1 = sw_db w"
    by (auto simp: pg_sessions_def sw_call_split)
  from g obtain res gen where get: "getResource rp (sw_env w (sw_tick w)) (TrimSpace sid) (sw_db w) = Inr (res, gen)"
    and st: "stateFromAgentSessionResource codec res gen = Inr st"
    by (auto simp: repo_Get_def Let_def split: if_splits sum.splits)
  from getResource_row_ok [OF assms(3) get] have row: "row_ok codec (TrimSpace sid) res" by simp
  from state_of_row_ok [OF row, of gen] st obtain spec where spec: "ss_sessionId spec = TrimSpace sid"
    "st = \<lparr>ast_generation = gen, ast_spec = Some spec, ast_status = Some (status_of_stored (TrimSpace sid) (sto_status res))\<rparr>"
    by auto
  from ResourceFromState_ok [OF assms(2)] spec show "om_name (sr_meta r) = TrimSpace sid"
    and "getf [] ss_sessionId (sr_session r) = TrimSpace sid" by auto
  from ResourceFromState_ok [OF assms(2)] spec have "srs_activeRunID (sr_status r) = TrimSpace (sst_activeRunID (sto_status res))"
    by (auto simp: resourceStatusFromState_def status_of_stored_def Let_def)
  with getResource_ok [OF get] show "sw_slot w (TrimSpace sid) =
      (if srs_activeRunID (sr_status r) = [] then None else Some (srs_activeRunID (sr_status r)))"
    by (auto simp: sw_slot_def db_slot_def slot_of_def Let_def)
  show "sw_db w1 = sw_db w" by (rule db)
qed

lemma equal_statuses_slot:
  "session_statusSemanticallyEqual (Some a) (Some b) \<Longrightarrow> srs_activeRunID a = srs_activeRunID b"
  by (auto simp: session_statusSemanticallyEqual_def session_normalizedStatus_def dest: arg_cong [where f = srs_activeRunID])

text \<open>Writing a status sets the slot to its run, whoever held it.\<close>

lemma session_write_slot:
  assumes "session_updateStatus (pg_sessions codec rp) r st w = (Inr (), w')"
    and "om_name (sr_meta r) = TrimSpace sid" and "getf [] ss_sessionId (sr_session r) = TrimSpace sid"
  shows "sw_slot w' (TrimSpace sid) =
      (if TrimSpace (srs_activeRunID st) = [] then None else Some (TrimSpace (srs_activeRunID st)))"
proof -
  have id: "TrimSpace (ass_sessionId (sessionStatusFromResourceStatus r st)) = TrimSpace sid"
    using assms(2,3) by (simp add: sessionStatusFromResourceStatus_def)
  from assms(1) obtain x db where "repo_UpdateStatus codec rp (sw_env w (sw_tick w)) (ass_sessionId (sessionStatusFromResourceStatus r st))
      (Some (sessionStatusFromResourceStatus r st)) (sw_db w) = (Inr x, db)" and "sw_db w' = db"
    by (auto simp: session_updateStatus_def pg_sessions_def sw_call_split Let_def split: prod.splits sum.splits)
  with UpdateStatus_slot [of codec rp _ _ _ "sw_db w" x db] id show ?thesis
    by (fastforce simp: sw_slot_def sessionStatusFromResourceStatus_def activeRunRef_def)
qed

section \<open>Properties\<close>

text \<open>The session and the conditions of its last status are what the repository can hold.\<close>

definition session_resource_ok :: "SessionResource \<Rightarrow> bool" where
  "session_resource_ok r \<longleftrightarrow> distinct (map mc_type (srs_conditions (sr_status r))) \<and>
     TrimSpace (om_name (sr_meta r)) \<noteq> [] \<and> 0 \<le> om_generation (sr_meta r) \<and>
     0 \<le> srs_runtimeConfigGeneration (sr_status r) \<and> 0 \<le> srs_resourceConfigGeneration (sr_status r) \<and>
     0 \<le> srs_stateGeneration (sr_status r)"

lemma fresh_conditions_ok:
  assumes "list_all (fresh_condition g) cs" and "distinct (map mc_type cs)" and "0 \<le> g"
  shows "conditions_ok isAllowedReasonForSessionConditionType g (protostate_Conditions cs)"
  using assms by (auto simp: conditions_ok_def condition_ok_def protostate_Conditions_def list_all_iff fresh_condition_def
      comp_def)

text \<open>
  The status derived for a session is one the platform contract accepts if and only if the session's
  spec is valid: with an invalid spec the reason of \<open>ReadyForNextRun\<close> is \<open>InvalidSpec\<close>, which the contract
  does not know.
\<close>

theorem derived_status_publishable_iff:
  assumes "set_condition_ok (sctl_set c)" and "\<not> time_is_zero now" and "session_resource_ok r"
    and "session_deriveStatus c r now w = (st, w')"
  shows "ValidateAgentSessionStatus (Some (sessionStatusFromResourceStatus r st)) = None \<longleftrightarrow> invalid_session r = None"
  using assms(4)
proof (cases rule: derived_cases)
  case (invalid message)
  with failed_conditions [OF assms(1,2), of "Some (sr_status r)" "om_generation (sr_meta r)" "''InvalidSpec''" message]
  have "\<not> conditions_ok isAllowedReasonForSessionConditionType g (ass_conditions (sessionStatusFromResourceStatus r st))" for g
    by (auto simp: sessionStatusFromResourceStatus_def protostate_Conditions_def conditions_ok_def condition_ok_def
        isAllowedReasonForSessionConditionType_def sessionConditionReasonsByType_def)
  with invalid(1) show ?thesis by (simp add: ValidateAgentSessionStatus_iff)
next
  case (observed spec e m a b)
  have "firstNonEmpty [getf [] ss_sessionId (sr_session r), om_name (sr_meta r)] \<noteq> []"
    using assms(3) by (simp add: session_resource_ok_def)
  moreover have "toProtoSessionPhase (srs_phase st) \<noteq> SessionPhaseUnspecified"
    by (simp add: observed(3) observed_fields toProtoSessionPhase_def)
  moreover have "0 \<le> srs_stateGeneration st"
    using assms(3) observed_fields(7) [of c r spec "summarizeReadiness e m" a b now]
    by (auto simp: session_resource_ok_def observed(3))
  moreover have "conditions_ok isAllowedReasonForSessionConditionType (om_generation (sr_meta r))
      (protostate_Conditions (srs_conditions st))"
    using assms(3) readiness_conditions_fresh [OF assms(1,2)]
    by (intro fresh_conditions_ok) (simp_all add: observed(3) observed_fields session_resource_ok_def)
  ultimately show ?thesis using assms(3) observed(1)
    by (simp add: ValidateAgentSessionStatus_iff sessionStatusFromResourceStatus_def session_resource_ok_def observed(3) observed_fields)
qed


text \<open>
  The reconciler writes the status it derived from what it read at its start. When a run claims the
  session in between, the write, if it succeeds, takes the slot away from the run: \<open>UpdateStatus\<close> checks the
  generation of the spec, which a claim does not change.
\<close>

theorem stale_status_frees_claimed_slot:
  assumes "sdb_ok codec (sw_db w)" and "sess_Get (pg_sessions codec rp) sid w = (Inr state, w1)"
    and "ResourceFromState (Some state) ns = Inr r" and "sw_slot w (TrimSpace sid) = None"
    and "session_deriveStatus c r now w2 = (st, w3)"
    and "sess_ClaimActiveRun (pg_sessions codec rp) sid rid w4 = (Inr claimed, w5)"
    and "session_updateStatus (pg_sessions codec rp) r st w5 = (Inr (), w6)"
  shows "sw_slot w5 (TrimSpace sid) = Some (TrimSpace rid) \<and> sw_slot w6 (TrimSpace sid) = None"
proof -
  note read = session_read [OF assms(2,3,1)]
  from read(3) assms(4) have idle: "srs_activeRunID (sr_status r) = []" by (simp split: if_splits)
  from assms(5) have "srs_activeRunID st = []"
  proof (cases rule: derived_cases)
    case (observed spec e m a b)
    with idle show ?thesis by (auto simp: observed_fields)
  qed (simp add: session_failed_fields)
  with session_write_slot [OF assms(7) read(1,2)] have "sw_slot w6 (TrimSpace sid) = None" by simp
  moreover from assms(6) obtain db where
    "repo_ClaimActiveRun codec rp (sw_env w4 (sw_tick w4)) sid rid (sw_db w4) = (Inr claimed, db)" and "sw_db w5 = db"
    by (auto simp: pg_sessions_def sw_call_split)
  with claim_ok(1) have "sw_slot w5 (TrimSpace sid) = Some (TrimSpace rid)" by (simp add: sw_slot_def)
  ultimately show ?thesis by simp
qed

text \<open>
  When the profile of a session cannot be projected, be it for a moment, a reconciliation that does
  not fail itself leaves the session without an active run, whatever run is going on in it.
\<close>

theorem profile_error_frees_slot:
  assumes "sctl_sessions c = pg_sessions codec rp" and "sdb_ok codec (sw_db w)"
    and "sess_Get (pg_sessions codec rp) sid w = (Inr state, w1)"
    and "ResourceFromState (Some state) (sctl_namespace c) = Inr r"
    and "syncProfileBackedSession (sctl_hash c) (sctl_source c) (pg_sessions codec rp) (Some r) w1 = (Inl e, w2)"
    and "sw_slot w (TrimSpace sid) = Some rid"
    and "session_Reconcile c (sctl_namespace c) sid w = (Inr res, w')"
  shows "sw_slot w' (TrimSpace sid) = None"
proof -
  note read = session_read [OF assms(3,4,2)]
  define st where "st = session_failedStatus (sctl_set c) (Some (sr_status r)) (om_generation (sr_meta r)) (sctl_now c w2)
      ''ProfileProjectionFailed'' (err_message e)"
  from read(3) assms(6) have "srs_activeRunID (sr_status r) \<noteq> []" by (simp split: if_splits)
  moreover have idle: "srs_activeRunID st = []" by (simp add: st_def session_failed_fields)
  ultimately have "\<not> session_statusSemanticallyEqual (Some (sr_status r)) (Some st)"
    using equal_statuses_slot by metis
  with assms(1,3-5,7) have "session_updateStatus (pg_sessions codec rp) r st w2 = (Inr (), w')"
    by (auto simp: session_Reconcile_def projection_failed_def st_def [symmetric] Let_def split: prod.splits sum.splits)
  from session_write_slot [OF this read(1,2)] idle show ?thesis by simp
qed

end
