(* ===== verification/Session_World.thy ===== *)
theory Session_World
  imports Session_Laws Admission_World
begin

text \<open>The session reconciler in the concrete world: the witnesses of the properties of sessions and their carriers.\<close>

section \<open>The reconciler\<close>

text \<open>An API server in which every claim is bound, and one that stores none.\<close>

definition bound_claim :: "string \<Rightarrow> string \<Rightarrow> PVC" where
  "bound_claim ns n = \<lparr>pvc_name = n, pvc_namespace = ns, pvc_labels = [], pvc_owners = [], pvc_lost = False\<rparr>"

definition bound_claims :: "'w CarrierClient" where
  "bound_claims =
     \<lparr>cc_claims = \<lparr>kube_Get = (\<lambda>ns n w. (Inr (bound_claim ns n), w)), kube_Create = (\<lambda>p w. (Inr p, w)),
        kube_Update = (\<lambda>p w. (Inr p, w)), kube_StatusUpdate = (\<lambda>p w. (Inr p, w)), kube_retry = (\<lambda>f. f)\<rparr>,
      cc_Delete = (\<lambda>p w. (Inr (), w)), cc_ListClaims = (\<lambda>ns ls w. (Inr [], w)), cc_ListRuns = (\<lambda>ns ls w. (Inr [], w))\<rparr>"

definition ex_candidate :: ProfileCandidate where
  "ex_candidate = \<lparr>pc_providerRuntimeRef = Some \<lparr>prr_providerId = ''codex'', prr_surfaceId = ''sf1'', prr_access = []\<rparr>,
     pc_modelSelector = Some (SelectProviderModelId '' m1 '')\<rparr>"

definition ex_profile :: AgentProfile where
  "ex_profile = \<lparr>pf_profileId = ''p1'', pf_name = ''first'', pf_selectionStrategy = Some \<lparr>sel_providerId = ''codex'',
       sel_executionClass = ''default'', sel_fallbacks = [Some ex_candidate]\<rparr>,
     pf_mcpIds = [], pf_skillIds = [], pf_ruleIds = []\<rparr>"

text \<open>A profile service with one profile, or one that does not answer.\<close>

definition ex_source :: "bool \<Rightarrow> 'w ProfileSource" where
  "ex_source up =
     \<lparr>src_GetProfile = (\<lambda>i w. (if up \<and> TrimSpace i = ''p1'' then Inr (Some ex_profile, 3) else Inl (PlainError ''unavailable''), w)),
      src_GetRule = (\<lambda>i w. (Inr None, w)), src_GetSkill = (\<lambda>i w. (Inr None, w)), src_GetMCP = (\<lambda>i w. (Inr None, w))\<rparr>"

definition ex_sctl :: "bool \<Rightarrow> AgentSessionSpec rtworld SessionCtl" where
  "ex_sctl up =
     \<lparr>sctl_runs_Get = mem_Get, sctl_actions = \<lparr>kube_Get = (\<lambda>ns n w. (Inl (api_not_found ''actions'' n), w)),
        kube_Create = (\<lambda>a w. (Inr a, w)), kube_Update = (\<lambda>a w. (Inr a, w)), kube_StatusUpdate = (\<lambda>a w. (Inr a, w)),
        kube_retry = (\<lambda>f. f)\<rparr>,
      sctl_namespace = ''code-code'', sctl_now = rt_now, sctl_sink = Some mem_sink,
      sctl_resolve = (\<lambda>r w. (Inr (), w)), sctl_source = ex_source up, sctl_hash = (\<lambda>c. ''h''),
      sctl_configMaps = mem_configMaps,
      sctl_carriers = \<lparr>car_client = bound_claims, car_controlNamespace = ''code-code'', car_runtimeNamespace = ''runs'',
        car_actions = Some (pg_actions mem_action_codec ex_pgs), car_digest = (\<lambda>s. ''0123456789'')\<rparr>,
      sctl_sessions = pg_sessions ex_codec ex_repo, sctl_reader = Some (pg_actions mem_action_codec ex_pgs),
      sctl_set = put_condition\<rparr>"

lemma ex_sctl_sel [simp]:
  "sctl_set (ex_sctl up) = put_condition" "sctl_sessions (ex_sctl up) = pg_sessions ex_codec ex_repo"
  "sctl_namespace (ex_sctl up) = ''code-code''" "sctl_hash (ex_sctl up) = (\<lambda>c. ''h'')" "sctl_source (ex_sctl up) = ex_source up"
  by (simp_all add: ex_sctl_def)

lemma put_condition_ok: "set_condition_ok put_condition"
  by (simp add: set_condition_ok_def)

lemma ex_codec_lossless: "codec_ok ex_codec"
  by (simp add: codec_ok_def ex_codec_def)

section \<open>A session that follows a profile\<close>

definition ex_profile_spec :: AgentSessionSpec where
  "ex_profile_spec = ex_spec\<lparr>ss_profileId := ''p1''\<rparr>"

definition ex_profile_world :: "string \<Rightarrow> AgentSessionSpec rtworld" where
  "ex_profile_world active = (ex_world active Map.empty)\<lparr>sw_db := \<lparr>db_rows =
     [''s1'' \<mapsto> ((ex_stored active)\<lparr>sto_session := Some ex_profile_spec\<rparr>, 1)], db_outbox = []\<rparr>\<rparr>"

definition ex_get :: "AgentSessionSpec rtworld \<Rightarrow> AgentSessionState result \<times> AgentSessionSpec rtworld" where
  "ex_get w = sess_Get (pg_sessions ex_codec ex_repo) ''s1'' w"

definition ex_read_state :: "AgentSessionSpec rtworld \<Rightarrow> AgentSessionState" where
  "ex_read_state w = projr (fst (ex_get w))"

definition ex_resource :: "AgentSessionSpec rtworld \<Rightarrow> SessionResource" where
  "ex_resource w = projr (ResourceFromState (Some (ex_read_state w)) ''code-code'')"

lemma ex_get_split: "\<not> isl (fst (ex_get w)) \<Longrightarrow>
    sess_Get (pg_sessions ex_codec ex_repo) ''s1'' w = (Inr (ex_read_state w), snd (ex_get w))"
  by (cases "ex_get w") (auto simp: ex_read_state_def ex_get_def isl_def split: sum.splits)

lemma ex_resource_split: "\<not> isl (ResourceFromState (Some (ex_read_state w)) ''code-code'') \<Longrightarrow>
    ResourceFromState (Some (ex_read_state w)) ''code-code'' = Inr (ex_resource w)"
  by (auto simp: ex_resource_def isl_def split: sum.splits)

lemma ex_profile_table: "sdb_ok ex_codec (sw_db (ex_profile_world active))"
proof -
  have "TrimSpace ''s1'' = ''s1''" by code_simp
  then show ?thesis
    by (simp add: sdb_ok_def ex_profile_world_def ex_world_def row_ok_def ex_codec_def ex_profile_spec_def ex_spec_def)
qed

lemma ex_profile_reads:
  "\<not> isl (fst (ex_get (ex_profile_world a)))" if "a = [] \<or> a = ''r1''"
  using that by (elim disjE; simp only:; code_simp)

definition ex_sync :: "bool result \<times> AgentSessionSpec rtworld" where
  "ex_sync = syncProfileBackedSession (\<lambda>c. ''h'') (ex_source True) (pg_sessions ex_codec ex_repo)
     (Some (ex_resource (ex_profile_world []))) (ex_profile_world [])"

definition ex_projected :: SessionResource where
  "ex_projected = ex_resource (snd ex_sync)"

text \<open>The checks take the values they are about as arguments: each value is computed once.\<close>

definition readable_state :: "AgentSessionSpec rtworld \<Rightarrow> bool" where
  "readable_state w \<longleftrightarrow> \<not> isl (ResourceFromState (Some (ex_read_state w)) ''code-code'')"

definition synced_ok :: "bool result \<times> AgentSessionSpec rtworld \<Rightarrow> bool" where
  "synced_ok sync \<longleftrightarrow> fst sync = Inr True \<and> \<not> isl (fst (ex_get (snd sync))) \<and> readable_state (snd sync) \<and>
     om_generation (sr_meta (ex_resource (snd sync))) = 2"

lemma ex_sync_checked: "synced_ok ex_sync \<and> readable_state (ex_profile_world [])"
  by code_simp

lemma ex_sync_facts:
  "fst ex_sync = Inr True \<and> \<not> isl (fst (ex_get (snd ex_sync))) \<and> om_generation (sr_meta ex_projected) = 2 \<and>
   \<not> isl (ResourceFromState (Some (ex_read_state (snd ex_sync))) ''code-code'') \<and>
   \<not> isl (ResourceFromState (Some (ex_read_state (ex_profile_world []))) ''code-code'')"
  using ex_sync_checked by (simp add: synced_ok_def readable_state_def ex_projected_def)

lemma ex_profile_resource:
  "sr_session (ex_resource (ex_profile_world [])) = Some ex_profile_spec \<and> TrimSpace (ss_sessionId ex_profile_spec) = ''s1'' \<and>
   ss_workspaceRef ex_profile_spec \<noteq> None \<and> ss_homeStateRef ex_profile_spec \<noteq> None"
  by code_simp

lemma ex_steady: "steady_profiles (ex_source up)"
  by (auto simp: steady_profiles_def steady_def ex_source_def ex_profile_def split: if_splits) (code_simp+)?

theorem profile_sync_settles_witness:
  "syncProfileBackedSession (\<lambda>c. ''h'') (ex_source True) (pg_sessions ex_codec ex_repo) (Some ex_projected) (snd ex_sync)
     = (Inr False, snd ex_sync)"
proof -
  have sync: "syncProfileBackedSession (\<lambda>c. ''h'') (ex_source True) (pg_sessions ex_codec ex_repo)
      (Some (ex_resource (ex_profile_world []))) (ex_profile_world []) = (Inr True, snd ex_sync)"
    using ex_sync_facts by (metis ex_sync_def prod.collapse)
  have id: "ss_sessionId ex_profile_spec = ''s1''" by (simp add: ex_profile_spec_def ex_spec_def)
  from ex_sync_facts have get: "sess_Get (pg_sessions ex_codec ex_repo) (ss_sessionId ex_profile_spec) (snd ex_sync) =
      (Inr (ex_read_state (snd ex_sync)), snd (ex_get (snd ex_sync)))" unfolding id by (intro ex_get_split) simp
  from ex_sync_facts have res: "ResourceFromState (Some (ex_read_state (snd ex_sync))) ''code-code'' = Inr ex_projected"
    unfolding ex_projected_def by (intro ex_resource_split) simp
  from profile_sync_settles [OF ex_steady ex_codec_lossless _ _ _ _ sync get res] ex_profile_resource show ?thesis by simp
qed

section \<open>Deriving its status\<close>

definition ex_derived :: SessionResourceStatus where
  "ex_derived = fst (session_deriveStatus (ex_sctl True) ex_projected 2000 (snd ex_sync))"

definition unobserved_resource :: "SessionResource \<Rightarrow> bool" where
  "unobserved_resource r \<longleftrightarrow> invalid_session r = None \<and>
   map mc_type (srs_conditions (sr_status r)) = [''WorkspaceReady'', ''WarmStateReady''] \<and>
   TrimSpace (om_name (sr_meta r)) = ''s1'' \<and>
   srs_runtimeConfigGeneration (sr_status r) = 0 \<and> srs_resourceConfigGeneration (sr_status r) = 0 \<and>
   srs_stateGeneration (sr_status r) = 0"

definition derived_phase :: "AgentSessionSpec rtworld \<Rightarrow> SessionResource \<Rightarrow> SessionResourcePhase" where
  "derived_phase w r = srs_phase (fst (session_deriveStatus (ex_sctl True) r 2000 w))"

lemma ex_unobserved: "unobserved_resource ex_projected"
  by code_simp

lemma ex_derived_phase: "derived_phase (snd ex_sync) ex_projected = SReady"
  by code_simp

lemma ex_derived_facts:
  "srs_phase ex_derived = SReady \<and> invalid_session ex_projected = None \<and>
   map mc_type (srs_conditions (sr_status ex_projected)) = [''WorkspaceReady'', ''WarmStateReady''] \<and>
   TrimSpace (om_name (sr_meta ex_projected)) = ''s1'' \<and>
   srs_runtimeConfigGeneration (sr_status ex_projected) = 0 \<and> srs_resourceConfigGeneration (sr_status ex_projected) = 0 \<and>
   srs_stateGeneration (sr_status ex_projected) = 0"
  using ex_unobserved ex_derived_phase by (simp add: unobserved_resource_def derived_phase_def ex_derived_def)

lemma ex_projected_ok: "session_resource_ok ex_projected" "\<not> time_is_zero 2000"
  using ex_derived_facts ex_sync_facts by (simp_all add: session_resource_ok_def time_is_zero_def)

theorem derived_status_publishable_iff_witness:
  "ValidateAgentSessionStatus (Some (sessionStatusFromResourceStatus ex_projected ex_derived)) = None"
proof -
  have d: "session_deriveStatus (ex_sctl True) ex_projected 2000 (snd ex_sync) =
      (ex_derived, snd (session_deriveStatus (ex_sctl True) ex_projected 2000 (snd ex_sync)))" by (simp add: ex_derived_def)
  from derived_status_publishable_iff [OF _ ex_projected_ok(2,1) d] ex_derived_facts show ?thesis
    by (simp add: put_condition_ok)
qed


section \<open>Slots that are lost\<close>

lemma succeeded: "\<not> isl (fst x) \<Longrightarrow> \<exists>y. x = (Inr y, snd x)"
  by (cases x; cases "fst x") auto

definition ex_idle_resource :: SessionResource where
  "ex_idle_resource = ex_resource (ex_profile_world [])"

definition ex_stale :: SessionResourceStatus where
  "ex_stale = fst (session_deriveStatus (ex_sctl True) ex_idle_resource 2000 (ex_profile_world []))"

definition ex_claimed :: "AgentSessionState result \<times> AgentSessionSpec rtworld" where
  "ex_claimed = sess_ClaimActiveRun (pg_sessions ex_codec ex_repo) ''s1'' ''r1'' (ex_profile_world [])"

definition ex_overwritten :: "unit result \<times> AgentSessionSpec rtworld" where
  "ex_overwritten = session_updateStatus (pg_sessions ex_codec ex_repo) ex_idle_resource ex_stale (snd ex_claimed)"

lemma ex_stale_facts:
  "\<not> isl (fst ex_claimed) \<and> \<not> isl (fst ex_overwritten) \<and> sw_slot (ex_profile_world []) ''s1'' = None \<and>
   TrimSpace ''s1'' = ''s1'' \<and> TrimSpace ''r1'' = ''r1''"
  by code_simp

theorem stale_status_frees_claimed_slot_witness:
  "sw_slot (snd ex_claimed) ''s1'' = Some ''r1'' \<and> sw_slot (snd ex_overwritten) ''s1'' = None"
proof -
  from ex_stale_facts obtain st where claim: "sess_ClaimActiveRun (pg_sessions ex_codec ex_repo) ''s1'' ''r1'' (ex_profile_world [])
      = (Inr st, snd ex_claimed)" using succeeded unfolding ex_claimed_def by blast
  from ex_stale_facts have upd: "session_updateStatus (pg_sessions ex_codec ex_repo) ex_idle_resource ex_stale (snd ex_claimed)
      = (Inr (), snd ex_overwritten)" using succeeded [of ex_overwritten] unfolding ex_overwritten_def by auto
  have d: "session_deriveStatus (ex_sctl True) ex_idle_resource 2000 (ex_profile_world []) =
      (ex_stale, snd (session_deriveStatus (ex_sctl True) ex_idle_resource 2000 (ex_profile_world [])))" by (simp add: ex_stale_def)
  from ex_sync_facts have res: "ResourceFromState (Some (ex_read_state (ex_profile_world []))) ''code-code'' = Inr ex_idle_resource"
    unfolding ex_idle_resource_def by (intro ex_resource_split) simp
  from stale_status_frees_claimed_slot [OF ex_profile_table ex_get_split res _ d claim upd] ex_profile_reads ex_stale_facts
  show ?thesis by simp
qed

definition ex_unprojected :: "CtrlResult result \<times> AgentSessionSpec rtworld" where
  "ex_unprojected = session_Reconcile (ex_sctl False) ''code-code'' ''s1'' (ex_profile_world ''r1'')"

lemma ex_unprojected_facts:
  "\<not> isl (fst ex_unprojected) \<and> sw_slot (ex_profile_world ''r1'') ''s1'' = Some ''r1'' \<and>
   isl (fst (syncProfileBackedSession (\<lambda>c. ''h'') (ex_source False) (pg_sessions ex_codec ex_repo)
     (Some (ex_resource (ex_profile_world ''r1''))) (snd (ex_get (ex_profile_world ''r1''))))) \<and>
   \<not> isl (ResourceFromState (Some (ex_read_state (ex_profile_world ''r1''))) ''code-code'')"
  by code_simp

theorem profile_error_frees_slot_witness:
  "sw_slot (ex_profile_world ''r1'') ''s1'' = Some ''r1'' \<and> sw_slot (snd ex_unprojected) ''s1'' = None"
proof -
  let ?w = "ex_profile_world ''r1''"
  from ex_unprojected_facts obtain e u where sync: "syncProfileBackedSession (\<lambda>c. ''h'') (ex_source False) (pg_sessions ex_codec ex_repo)
     (Some (ex_resource ?w)) (snd (ex_get ?w)) = (Inl e, u)" by (metis prod.collapse isl_def)
  from ex_unprojected_facts obtain res where r: "session_Reconcile (ex_sctl False) ''code-code'' ''s1'' ?w = (Inr res, snd ex_unprojected)"
    using succeeded unfolding ex_unprojected_def by blast
  have res: "ResourceFromState (Some (ex_read_state ?w)) ''code-code'' = Inr (ex_resource ?w)"
    using ex_unprojected_facts by (intro ex_resource_split) simp
  have get: "sess_Get (pg_sessions ex_codec ex_repo) ''s1'' ?w = (Inr (ex_read_state ?w), snd (ex_get ?w))"
    by (intro ex_get_split ex_profile_reads) simp
  have "sw_slot (snd ex_unprojected) (TrimSpace ''s1'') = None"
    by (rule profile_error_frees_slot [OF _ ex_profile_table get, where c = "ex_sctl False"])
      (use res sync r ex_unprojected_facts ex_stale_facts in simp_all)
  with ex_unprojected_facts ex_stale_facts show ?thesis by simp
qed

end
