(* ===== verification/Carrier_World.thy ===== *)
theory Carrier_World
  imports Session_Carriers Runtime_World
begin

text \<open>An API server that holds volume claims and runs, and the witnesses of the properties of the carriers.\<close>

section \<open>The server\<close>

record carrier_world =
  cw_claims :: "PVC list"
  cw_runs :: "RunResource list"

definition cw_claim :: "carrier_world \<Rightarrow> string \<Rightarrow> PVC option" where
  "cw_claim w n = find (\<lambda>p. pvc_name p = n) (cw_claims w)"

definition cw_client :: "carrier_world CarrierClient" where
  "cw_client =
     \<lparr>cc_claims =
        \<lparr>kube_Get = (\<lambda>ns n w. (case cw_claim w n of None \<Rightarrow> Inl (api_not_found ''persistentvolumeclaims'' n) | Some p \<Rightarrow> Inr p, w)),
         kube_Create = (\<lambda>p w. if cw_claim w (pvc_name p) = None then (Inr p, w\<lparr>cw_claims := cw_claims w @ [p]\<rparr>)
           else (Inl (api_already_exists ''persistentvolumeclaims'' (pvc_name p)), w)),
         kube_Update = (\<lambda>p w. (Inr p, w)), kube_StatusUpdate = (\<lambda>p w. (Inr p, w)), kube_retry = (\<lambda>f. f)\<rparr>,
      cc_Delete = (\<lambda>p w. (Inr (), w\<lparr>cw_claims := filter (\<lambda>q. pvc_name q \<noteq> pvc_name p) (cw_claims w)\<rparr>)),
      cc_ListClaims = (\<lambda>ns ls w.
        (Inr (filter (\<lambda>p. cw_claim w (pvc_name p) = Some p \<and> set ls \<subseteq> set (pvc_labels p)) (cw_claims w)), w)),
      cc_ListRuns = (\<lambda>ns ls w.
        (Inr (filter (\<lambda>r. om_namespace (run_meta r) = ns \<and> set ls \<subseteq> set (om_labels (run_meta r))) (cw_runs w)), w))\<rparr>"

lemma find_other: "n \<noteq> m \<Longrightarrow> find (\<lambda>p. pvc_name p = n) (filter (\<lambda>q. pvc_name q \<noteq> m) ps) = find (\<lambda>p. pvc_name p = n) ps"
  by (induction ps) auto

lemma find_some_append: "find P xs = Some x \<Longrightarrow> find P (xs @ ys) = Some x"
  by (induction xs) auto

lemma find_name: "find (\<lambda>p. pvc_name p = n) ps = Some p \<Longrightarrow> pvc_name p = n"
  by (induction ps) (auto split: if_splits)

lemma cw_client_ok: "carrier_client_ok cw_claim (\<lambda>w. set (cw_runs w)) ns cw_client"
  unfolding carrier_client_ok_def reads_only_def cw_client_def
  by (intro conjI allI impI) (auto simp: cw_claim_def find_other find_some_append split: option.splits dest: find_name)

section \<open>A session with a claim that nothing uses any more\<close>

definition cw_manager :: "carrier_world CarrierManager" where
  "cw_manager = \<lparr>car_client = cw_client, car_controlNamespace = ''code-code'', car_runtimeNamespace = ''runs'',
     car_actions = None, car_digest = (\<lambda>s. ''0123456789'')\<rparr>"

definition cw_session :: SessionResource where
  "cw_session = \<lparr>sr_meta = \<lparr>om_name = ''s1'', om_namespace = ''code-code'', om_generation = 1, om_resourceVersion = [],
       om_labels = [], om_creationTimestamp = 100, om_deletionTimestamp = None, om_finalizers = []\<rparr>,
     sr_session = Some ex_spec, sr_status = empty_session_status\<rparr>"

definition cw_stale :: PVC where
  "cw_stale = \<lparr>pvc_name = ''s1-workspace-old'', pvc_namespace = ''runs'', pvc_labels = session_claim_labels cw_session,
     pvc_owners = [], pvc_lost = False\<rparr>"

definition cw_start :: carrier_world where
  "cw_start = \<lparr>cw_claims = [cw_stale], cw_runs = [ex_running]\<rparr>"

definition cw_ensured :: "unit result \<times> carrier_world" where
  "cw_ensured = carriers_Ensure cw_manager (Some cw_session) cw_start"

lemma cw_facts: "map pvc_name (cw_claims (snd cw_ensured)) = [''s1-workspace-0123456789'', ''s1-home-state-0123456789'']"
  by code_simp

lemma unlisted_claim: "map pvc_name (cw_claims w) = ns \<Longrightarrow> n \<notin> set ns \<Longrightarrow> cw_claim w n = None"
  by (auto simp: cw_claim_def find_None_iff)

theorem carriers_in_use_survive_witness: "''s1-workspace-old'' \<notin> set (current_names (\<lambda>s. ''0123456789'') cw_session)"
proof -
  have e: "carriers_Ensure cw_manager (Some cw_session) cw_start = (fst cw_ensured, snd cw_ensured)" by (simp add: cw_ensured_def)
  have "cw_claim (snd cw_ensured) ''s1-workspace-old'' = None"
    by (rule unlisted_claim [OF cw_facts]) simp
  moreover have "cw_claim cw_start ''s1-workspace-old'' = Some cw_stale" by (simp add: cw_claim_def cw_start_def cw_stale_def)
  moreover have "listing_reads (\<lambda>w. (cw_claim w, set (cw_runs w))) cw_manager cw_session"
    by (simp add: listing_reads_def reads_only_def listed_actions_def cw_manager_def)
  moreover have "carrier_client_ok cw_claim (\<lambda>w. set (cw_runs w)) (car_runtimeNamespace cw_manager) (car_client cw_manager)"
    by (simp add: cw_manager_def cw_client_ok)
  ultimately show ?thesis
    using carriers_in_use_survive [OF _ _ e, where claims = cw_claim and runs = "\<lambda>w. set (cw_runs w)" and n = "''s1-workspace-old''" and p = cw_stale]
    by (simp add: cw_manager_def)
qed

theorem carrierPVCName_label_witness: "dns_label (carrierPVCName (\<lambda>s. ''0123456789'') ''A__b'' carrierKindWorkspace '' w1'')"
  by (rule carrierPVCName_label) code_simp+

end
