(* ===== verification/Go_Strings.thy ===== *)
theory Go_Strings
  imports Go_Prelude "HOL-Library.Sublist" "HOL-Library.AList" "HOL-Library.List_Lexorder" "HOL-Library.Char_ord"
begin

text \<open>
  More of the package \<open>strings\<close> of Go, over bytes: searching, replacing, splitting and joining. The
  searches are compared with the sublists of the library; the last section says when replacing a text
  leaves no trace of it.
\<close>

section \<open>Searching\<close>

fun Contains :: "string \<Rightarrow> string \<Rightarrow> bool" where
  "Contains [] t \<longleftrightarrow> t = []"
| "Contains (c # s) t \<longleftrightarrow> HasPrefix (c # s) t \<or> Contains s t"

lemma HasPrefix_prefix: "HasPrefix s p \<longleftrightarrow> prefix p s"
  by (auto simp: HasPrefix_def prefix_def) (metis append_take_drop_id)

lemma Contains_sublist: "Contains s t \<longleftrightarrow> sublist t s"
  by (induction s) (auto simp: HasPrefix_prefix sublist_Cons_right)

lemma Contains_Nil [simp]: "Contains s []"
  by (simp add: Contains_sublist)

definition TrimSuffix :: "string \<Rightarrow> string \<Rightarrow> string" where
  "TrimSuffix s p = (if HasSuffix s p then take (length s - length p) s else s)"

text \<open>\<open>strings.Trim\<close>, \<open>TrimRight\<close> of a set of ASCII characters.\<close>

definition TrimRight :: "string \<Rightarrow> string \<Rightarrow> string" where
  "TrimRight s cutset = rev (dropWhile (\<lambda>c. c \<in> set cutset) (rev s))"

definition Trim :: "string \<Rightarrow> string \<Rightarrow> string" where
  "Trim s cutset = TrimRight (dropWhile (\<lambda>c. c \<in> set cutset) s) cutset"

text \<open>\<open>value[:i]\<close> for the last index of a character, and for the first index of one of several.\<close>

definition before_last :: "char \<Rightarrow> string \<Rightarrow> string" where
  "before_last c s = rev (tl (dropWhile (\<lambda>d. d \<noteq> c) (rev s)))"

definition before_any :: "string \<Rightarrow> string \<Rightarrow> string" where
  "before_any cs s = takeWhile (\<lambda>d. d \<notin> set cs) s"

section \<open>Lower case and trimming\<close>

text \<open>Lowering keeps these characters, and makes no others into them.\<close>

definition rigid :: "char \<Rightarrow> bool" where
  "rigid c \<longleftrightarrow> of_char c < (65::nat) \<or> (128::nat) \<le> of_char c"

lemma lower_rigid: "rigid c \<Longrightarrow> lower_char x = c \<longleftrightarrow> x = c"
  by (auto simp: rigid_def lower_char_def)

lemma rigid_lowered: "rigid (lower_char x) \<Longrightarrow> lower_char x = x"
  using lower_rigid [of "lower_char x" x] by simp

lemma lower_char_idem: "lower_char (lower_char c) = lower_char c"
  by (auto simp: lower_char_def)

lemma ToLower_hd: "ToLower s = c # t \<Longrightarrow> rigid c \<Longrightarrow> \<exists>s'. s = c # s' \<and> t = ToLower s'"
  by (cases s rule: ToLower.cases) (auto simp: lower_rigid rigid_def split: if_splits)

lemma ToLower_prefix: "ToLower s = w @ t \<Longrightarrow> list_all rigid w \<Longrightarrow> \<exists>s'. s = w @ s' \<and> t = ToLower s'"
  by (induction w arbitrary: s) (auto dest!: ToLower_hd)

lemma ToLower_Nil [simp]: "ToLower s = [] \<longleftrightarrow> s = []"
  by (cases s rule: ToLower.cases) auto

lemma ToLower_all: "ToLower s = w \<Longrightarrow> list_all rigid w \<Longrightarrow> s = w"
  using ToLower_prefix [of s w "[]"] by (metis ToLower_Nil append_Nil2)

lemma ToLower_suffix: "ToLower s = u @ w \<Longrightarrow> list_all rigid w \<Longrightarrow> \<exists>u'. s = u' @ w"
proof (induction s arbitrary: u rule: ToLower.induct)
  case (1 c d e s)
  show ?case
  proof (cases u)
    case Nil
    with ToLower_all 1(4,5) show ?thesis by (metis append_Nil)
  next
    case (Cons x v)
    consider "c = CHR 0xC4 \<and> d = CHR 0xB0" | "\<not> (c = CHR 0xC4 \<and> d = CHR 0xB0)" "c = CHR 0xE2 \<and> d = CHR 0x84 \<and> e = CHR 0xAA"
      | "\<not> (c = CHR 0xC4 \<and> d = CHR 0xB0)" "\<not> (c = CHR 0xE2 \<and> d = CHR 0x84 \<and> e = CHR 0xAA)" by blast
    then show ?thesis
    proof cases
      case 1
      with \<open>ToLower (c # d # e # s) = u @ w\<close> Cons "1.IH"(1) [OF 1, of v] "1.prems"(2) obtain u' where "e # s = u' @ w" by auto
      then have "c # d # e # s = (c # d # u') @ w" by simp
      then show ?thesis by blast
    next
      case 2
      with \<open>ToLower (c # d # e # s) = u @ w\<close> Cons "1.IH"(2) [OF 2, of v] "1.prems"(2) obtain u' where "s = u' @ w" by auto
      then have "c # d # e # s = (c # d # e # u') @ w" by simp
      then show ?thesis by blast
    next
      case 3
      with \<open>ToLower (c # d # e # s) = u @ w\<close> Cons "1.IH"(3) [OF 3, of v] "1.prems"(2) obtain u' where "d # e # s = u' @ w" by auto
      then have "c # d # e # s = (c # u') @ w" by simp
      then show ?thesis by blast
    qed
  qed
next
  case (2 c d)
  show ?case
  proof (cases u)
    case Nil
    with ToLower_all 2 show ?thesis by (metis append_Nil)
  next
    case (Cons x v)
    with 2 have "w = [] \<or> w = [lower_char d]" by (auto simp: append_eq_Cons_conv Cons_eq_append_conv split: if_splits)
    with 2(2) rigid_lowered [of d] have "w = [] \<or> w = [d]" by auto
    then show ?thesis by auto
  qed
next
  case (3 c)
  then show ?case using rigid_lowered [of c] by (cases u) auto
qed simp

lemma lead_match_zero: "lead_match ws s = 0 \<longleftrightarrow> (\<forall>w \<in> set ws. w \<noteq> [] \<longrightarrow> \<not> prefix w s)"
  by (induction ws) (auto simp: HasPrefix_prefix [symmetric] HasPrefix_def)

lemma space_runes_rigid: "w \<in> set go_space_runes \<Longrightarrow> list_all rigid w"
  by (auto simp: go_space_runes_def rigid_def)

lemma TrimSpace_fixed_runes:
  "TrimSpace s = s \<longleftrightarrow> (\<forall>w \<in> set go_space_runes. w \<noteq> [] \<longrightarrow> \<not> prefix w s \<and> \<not> suffix w s)"
  by (auto simp: TrimSpace_fixed_iff lead_match_zero suffix_to_prefix)

lemma TrimSpace_ToLower [simp]: "TrimSpace (ToLower (TrimSpace s)) = ToLower (TrimSpace s)"
proof -
  have "\<not> prefix w (ToLower (TrimSpace s)) \<and> \<not> suffix w (ToLower (TrimSpace s))" if w: "w \<in> set go_space_runes" "w \<noteq> []" for w
  proof -
    have "\<not> prefix w (TrimSpace s) \<and> \<not> suffix w (TrimSpace s)"
      using TrimSpace_fixed_runes [of "TrimSpace s"] w by simp
    then show ?thesis using ToLower_prefix ToLower_suffix space_runes_rigid [OF w(1)]
      by (metis prefix_def suffix_def)
  qed
  then show ?thesis by (simp add: TrimSpace_fixed_runes)
qed

fun lowered :: "string \<Rightarrow> bool" where
  "lowered [] \<longleftrightarrow> True"
| "lowered (c # s) \<longleftrightarrow> lower_char c = c \<and> \<not> prefix [CHR 0xC4, CHR 0xB0] (c # s) \<and>
     \<not> prefix [CHR 0xE2, CHR 0x84, CHR 0xAA] (c # s) \<and> lowered s"

lemma lowered_fixed: "lowered s \<Longrightarrow> ToLower s = s"
  by (induction s rule: ToLower.induct) auto

lemma lowered_Cons: "\<not> prefix [CHR 0xC4, CHR 0xB0] (c # s) \<Longrightarrow> \<not> prefix [CHR 0xE2, CHR 0x84, CHR 0xAA] (c # s) \<Longrightarrow>
    lowered (ToLower s) \<Longrightarrow> lowered (lower_char c # ToLower s)"
  using ToLower_prefix [of s "[CHR 0xB0]"] ToLower_prefix [of s "[CHR 0x84, CHR 0xAA]"]
  by (auto simp: lower_char_idem lower_rigid rigid_def prefix_def)

lemma lowered_ToLower: "lowered (ToLower s)"
proof (induction s rule: ToLower.induct)
  case (1 c d e s)
  then show ?case using lowered_Cons [of c "d # e # s"] by (auto simp: lower_char_def)
next
  case (2 c d)
  then show ?case using lowered_Cons [of c "[d]"] lower_char_idem by (auto simp: lower_char_def)
qed (auto simp: lower_char_idem)

lemma ToLower_idem [simp]: "ToLower (ToLower s) = ToLower s"
  by (rule lowered_fixed) (rule lowered_ToLower)

section \<open>Splitting and joining\<close>

fun Split :: "char \<Rightarrow> string \<Rightarrow> string list" where
  "Split c [] = [[]]"
| "Split c (d # s) = (if d = c then [] # Split c s
     else (case Split c s of [] \<Rightarrow> [[d]] | p # ps \<Rightarrow> (d # p) # ps))"

fun Cut :: "char \<Rightarrow> string \<Rightarrow> string \<times> string \<times> bool" where
  "Cut c [] = ([], [], False)"
| "Cut c (d # s) = (if d = c then ([], s, True)
     else (case Cut c s of (before, after, found) \<Rightarrow> (d # before, after, found)))"

fun Join :: "string list \<Rightarrow> string \<Rightarrow> string" where
  "Join [] sep = []"
| "Join [p] sep = p"
| "Join (p # q # ps) sep = p @ sep @ Join (q # ps) sep"

lemma Split_not_Nil [simp]: "Split c s \<noteq> []"
  by (induction s) (auto split: list.splits)

lemma Join_Cons: "ps \<noteq> [] \<Longrightarrow> Join (p # ps) sep = p @ sep @ Join ps sep"
  by (cases ps) auto

lemma Join_Split [simp]: "Join (Split c s) [c] = s"
  by (induction s) (auto simp: Join_Cons split: list.splits, metis Join_Cons Split_not_Nil append_Cons Join.simps(2))

section \<open>Replacing\<close>

text \<open>
  \<open>strings.ReplaceAll\<close>; the number is that of the characters of a match still to be skipped. The code
  never replaces an empty text.
\<close>

fun replace_go :: "string \<Rightarrow> string \<Rightarrow> nat \<Rightarrow> string \<Rightarrow> string" where
  "replace_go old new k [] = []"
| "replace_go old new (Suc k) (c # s) = replace_go old new k s"
| "replace_go old new 0 (c # s) =
     (if HasPrefix (c # s) old then new @ replace_go old new (length old - 1) s else c # replace_go old new 0 s)"

definition ReplaceAll :: "string \<Rightarrow> string \<Rightarrow> string \<Rightarrow> string" where
  "ReplaceAll s old new = (if old = [] then s else replace_go old new 0 s)"

lemma replace_go_skip: "replace_go old new (length p) (p @ s) = replace_go old new 0 s"
  by (induction p) auto

lemma ReplaceAll_Nil [simp]: "ReplaceAll [] old new = []"
  by (simp add: ReplaceAll_def)

lemma ReplaceAll_match:
  assumes "old \<noteq> []" shows "ReplaceAll (old @ s) old new = new @ ReplaceAll s old new"
  using assms replace_go_skip [of old new "tl old" s]
  by (cases old) (auto simp: ReplaceAll_def HasPrefix_prefix)

lemma ReplaceAll_step:
  "old \<noteq> [] \<Longrightarrow> \<not> prefix old (c # s) \<Longrightarrow> ReplaceAll (c # s) old new = c # ReplaceAll s old new"
  by (simp add: ReplaceAll_def HasPrefix_prefix)

text \<open>The text is cut at the occurrences of \<open>old\<close>, from the left.\<close>

lemma ReplaceAll_induct [consumes 1, case_names Nil match step]:
  assumes "old \<noteq> []" and "P []" and "\<And>s. P s \<Longrightarrow> P (old @ s)"
    and "\<And>c s. \<not> prefix old (c # s) \<Longrightarrow> P s \<Longrightarrow> P (c # s)"
  shows "P s"
proof (induction s rule: length_induct)
  case (1 s)
  show ?case
  proof (cases "prefix old s")
    case True
    then obtain r where "s = old @ r" by (auto simp: prefix_def)
    with 1 assms(1,3) show ?thesis by auto
  next
    case False
    with 1 assms(2,4) show ?thesis by (cases s) auto
  qed
qed

lemma ReplaceAll_none: "\<not> sublist old s \<Longrightarrow> ReplaceAll s old new = s"
  by (cases "old = []"; induction s) (auto simp: ReplaceAll_def HasPrefix_prefix sublist_Cons_right)

lemma ReplaceAll_same [simp]: "ReplaceAll s old old = s"
proof (cases "old = []")
  case False
  then show ?thesis by (induction s rule: ReplaceAll_induct) (simp_all add: ReplaceAll_match ReplaceAll_step False)
qed (simp add: ReplaceAll_def)

lemma ReplaceAll_whole: "old \<noteq> [] \<Longrightarrow> ReplaceAll old old new = new"
  using ReplaceAll_match [of old "[]" new] by simp

lemma ReplaceAll_has:
  assumes "old \<noteq> []" and "sublist old s" shows "sublist new (ReplaceAll s old new)"
  using assms
proof (induction s rule: ReplaceAll_induct)
  case (match s)
  then show ?case using assms(1) by (simp add: ReplaceAll_match)
next
  case (step c s)
  then have "sublist new (ReplaceAll s old new)" by (auto simp: sublist_Cons_right)
  with step assms(1) show ?case by (simp add: ReplaceAll_step sublist_Cons_right)
qed (use assms(1) in simp)

lemma TrimSpace_sublist: "sublist (TrimSpace s) s"
proof -
  obtain p q where "s = p @ trim_left_by go_space_runes s"
    and "rev (trim_left_by go_space_runes s) = q @ trim_left_by (map rev go_space_runes) (rev (trim_left_by go_space_runes s))"
    using trim_left_suffix by metis
  then have "s = p @ TrimSpace s @ rev q" by (metis TrimSpace_def rev_append rev_rev_ident)
  then show ?thesis by (metis sublist_appendI)
qed

section \<open>Replacing without a trace\<close>

text \<open>
  A text that cannot straddle the edges of \<open>p\<close>: neither its first nor its last character occurs in \<open>p\<close>,
  and \<open>p\<close> is no part of it.
\<close>

definition clean_of :: "string \<Rightarrow> string \<Rightarrow> bool" where
  "clean_of t p \<longleftrightarrow> t \<noteq> [] \<and> hd t \<notin> set p \<and> last t \<notin> set p \<and> \<not> sublist p t"

lemma replaced_prefix:
  assumes "old \<noteq> []" and "prefix u (ReplaceAll s old p)" and "\<not> sublist p u" and "u = [] \<or> last u \<notin> set p"
  shows "prefix u s"
  using assms(1,2,3,4)
proof (induction s arbitrary: u rule: ReplaceAll_induct)
  case (match s)
  then have "prefix u (p @ ReplaceAll s old p)" using assms(1) by (simp add: ReplaceAll_match)
  then show ?case
  proof (cases "prefix u p")
    case True
    with match(4) show ?thesis by (metis Nil_prefix last_in_set set_mono_prefix subsetD)
  next
    case False
    with \<open>prefix u (p @ ReplaceAll s old p)\<close> match(3) show ?thesis by (auto simp: prefix_append)
  qed
next
  case (step c s)
  then show ?case using ReplaceAll_step [OF assms(1) step(1)] by (cases u) (auto simp: sublist_Cons_right split: if_splits)
qed simp

text \<open>Replacing by \<open>p\<close> creates no occurrence of a text that is clean of \<open>p\<close>, and removes those of the replaced one.\<close>

lemma clean_append:
  assumes "clean_of t p" and "sublist t (p @ s)" shows "sublist t s"
proof -
  have "\<not> sublist t p" using assms(1) by (cases t) (auto simp: clean_of_def dest: set_mono_sublist)
  with assms(2) obtain u v where "sublist t s \<or> (t = u @ v \<and> suffix u p \<and> prefix v s)" by (auto simp: sublist_append)
  moreover have "u = []" if "t = u @ v" "suffix u p"
    using assms(1) that by (cases u) (auto simp: clean_of_def dest: set_mono_suffix)
  ultimately show ?thesis by auto
qed

lemma clean_tail:
  assumes "clean_of t p" and "t = c # u" shows "\<not> sublist p u \<and> (u = [] \<or> last u \<notin> set p)"
  using assms by (auto simp: clean_of_def sublist_Cons_right)

lemma replaced_creates:
  assumes "old \<noteq> []" and "clean_of t p" and "sublist t (ReplaceAll s old p)" shows "sublist t s"
  using assms(1,3)
proof (induction s rule: ReplaceAll_induct)
  case (match s)
  then have "sublist t (ReplaceAll s old p)" using clean_append [OF assms(2)] assms(1) by (simp add: ReplaceAll_match)
  with match show ?case by (simp add: sublist_append)
next
  case (step c s)
  then have "prefix t (c # ReplaceAll s old p) \<or> sublist t s"
    using assms(1) by (auto simp: ReplaceAll_step sublist_Cons_right)
  moreover have "prefix t (c # s)" if "prefix t (c # ReplaceAll s old p)"
    using that replaced_prefix [OF assms(1)] clean_tail [OF assms(2)] assms(2) by (cases t) (auto simp: clean_of_def)
  ultimately show ?case by (auto simp: sublist_Cons_right)
qed simp

lemma replaced_gone:
  assumes "clean_of t p" shows "\<not> sublist t (ReplaceAll s t p)"
proof -
  have "t \<noteq> []" using assms by (simp add: clean_of_def)
  then show ?thesis
  proof (induction s rule: ReplaceAll_induct)
    case Nil
    then show ?case using assms by (simp add: clean_of_def)
  next
    case (match s)
    with clean_append [OF assms] \<open>t \<noteq> []\<close> show ?case by (auto simp: ReplaceAll_match)
  next
    case (step c s)
    moreover have "\<not> prefix t (c # ReplaceAll s t p)"
      using step(1) replaced_prefix [OF \<open>t \<noteq> []\<close>] clean_tail [OF assms] \<open>t \<noteq> []\<close> by (cases t) auto
    ultimately show ?case using \<open>t \<noteq> []\<close> by (simp add: ReplaceAll_step sublist_Cons_right)
  qed
qed

end
