(* ===== verification/Egress_Replacement.thy ===== *)
theory Egress_Replacement
  imports Go_Strings "HOL-Library.Multiset"
begin

text \<open>
  Replacing placeholders in request headers (\<open>internal/egressauth\<close>): the rules, the material of a
  credential, and the adapter of Google AI Studio.

  A Go map is a list of its entries in the order in which a range statement meets them, which Go leaves
  open; \<open>materialByKey_order\<close> says when that order does not matter.
\<close>

section \<open>Names\<close>

definition Placeholder :: string where "Placeholder = ''PLACEHOLDER''"

definition HTTPHeaderAuthorization :: string where "HTTPHeaderAuthorization = ''authorization''"
definition HTTPHeaderContentType :: string where "HTTPHeaderContentType = ''content-type''"
definition HTTPHeaderCookie :: string where "HTTPHeaderCookie = ''cookie''"
definition HTTPHeaderSetCookie :: string where "HTTPHeaderSetCookie = ''set-cookie''"
definition HTTPHeaderXAPIKey :: string where "HTTPHeaderXAPIKey = ''x-api-key''"
definition HTTPHeaderXGoogAPIKey :: string where "HTTPHeaderXGoogAPIKey = ''x-goog-api-key''"

definition HeaderProviderSurfaceBindingID :: string where
  "HeaderProviderSurfaceBindingID = ''code-code-provider-surface-binding-id''"
definition HeaderEgressPolicyID :: string where "HeaderEgressPolicyID = ''code-code-egress-policy-id''"
definition HeaderAuthPolicyID :: string where "HeaderAuthPolicyID = ''code-code-auth-policy-id''"
definition HeaderRequestHeaderNames :: string where "HeaderRequestHeaderNames = ''x-code-code-request-header-names''"
definition HeaderHeaderValuePrefix :: string where "HeaderHeaderValuePrefix = ''x-code-code-header-value-prefix''"
definition HeaderAuthAdapterID :: string where "HeaderAuthAdapterID = ''x-code-code-auth-adapter-id''"
definition HeaderRequestHeaderRulesJSON :: string where
  "HeaderRequestHeaderRulesJSON = ''x-code-code-request-header-rules-json''"

definition InternalHeaders :: "string list" where
  "InternalHeaders =
     [''x-code-code-run-id'', ''x-code-code-session-id'', ''x-code-code-cli-id'', ''x-code-code-vendor-id'',
      ''x-code-code-provider-id'', HeaderProviderSurfaceBindingID, ''x-code-code-model-id'', HeaderEgressPolicyID,
      HeaderAuthPolicyID, ''x-code-code-target-hosts'', HeaderRequestHeaderNames, HeaderHeaderValuePrefix,
      HeaderAuthAdapterID, HeaderRequestHeaderRulesJSON]"

definition AuthAdapterBearerSessionID :: string where "AuthAdapterBearerSessionID = ''bearer-session''"
definition AuthAdapterSessionCookieID :: string where "AuthAdapterSessionCookieID = ''session-cookie''"
definition AuthAdapterGoogleAIStudioSessionID :: string where
  "AuthAdapterGoogleAIStudioSessionID = ''google-aistudio-session''"

definition MaterialKeyAccessToken :: string where "MaterialKeyAccessToken = ''access_token''"
definition MaterialKeyAPIKey :: string where "MaterialKeyAPIKey = ''api_key''"
definition MaterialKeyCookie :: string where "MaterialKeyCookie = ''cookie''"

definition SimpleReplacementModeBearer :: string where "SimpleReplacementModeBearer = ''bearer''"
definition SimpleReplacementModeAPIKey :: string where "SimpleReplacementModeAPIKey = ''api-key''"
definition SimpleReplacementModeCookie :: string where "SimpleReplacementModeCookie = ''cookie''"
definition SimpleReplacementModeGoogleAPIKey :: string where "SimpleReplacementModeGoogleAPIKey = ''google-api-key''"
definition SimpleReplacementModeXAPIKey :: string where "SimpleReplacementModeXAPIKey = ''x-api-key''"

type_synonym material = "(string \<times> string) list"

record SimpleReplacementRule =
  rule_Mode :: string
  rule_HeaderName :: string
  rule_MaterialKey :: string
  rule_HeaderValuePrefix :: string
  rule_Template :: string

text \<open>Nothing reads the adapter id of an input.\<close>

record ReplacementInput =
  ri_HeaderName :: string
  ri_HeaderValuePrefix :: string
  ri_CurrentValue :: string
  ri_Origin :: string
  ri_RequestHeaders :: "(string \<times> string) list"
  ri_Material :: material
  ri_Now :: time

section \<open>Material\<close>

definition normalizeMaterialKey :: "string \<Rightarrow> string" where
  "normalizeMaterialKey value =
     List.map (\<lambda>c. if c = CHR ''-'' \<or> c = CHR ''.'' then CHR ''_'' else c) (ToLower (TrimSpace value))"

fun materialByNormalKey :: "material \<Rightarrow> string \<Rightarrow> string" where
  "materialByNormalKey [] key = []"
| "materialByNormalKey ((k, v) # m) key =
     (if normalizeMaterialKey k = key then TrimSpace v else materialByNormalKey m key)"

definition materialByKey :: "material \<Rightarrow> string \<Rightarrow> string" where
  "materialByKey m key = materialByNormalKey m (normalizeMaterialKey key)"

definition hasReplacementMaterial :: "material \<Rightarrow> bool" where
  "hasReplacementMaterial m \<longleftrightarrow> firstNonEmpty (List.map snd m) \<noteq> []"

lemma materialByNormalKey_iff:
  "distinct (List.map (normalizeMaterialKey \<circ> fst) m) \<Longrightarrow> (k, v) \<in> set m \<Longrightarrow> normalizeMaterialKey k = key \<Longrightarrow>
     materialByNormalKey m key = TrimSpace v"
  by (induction m) (auto simp: rev_image_eqI)

lemma materialByNormalKey_none:
  "\<forall>kv \<in> set m. normalizeMaterialKey (fst kv) \<noteq> key \<Longrightarrow> materialByNormalKey m key = []"
  by (induction m) auto

lemma materialByKey_order:
  assumes "distinct (List.map (normalizeMaterialKey \<circ> fst) m)" and "mset m = mset m'"
  shows "materialByKey m key = materialByKey m' key"
proof -
  from assms have same: "set m = set m'" "distinct (List.map (normalizeMaterialKey \<circ> fst) m')"
    by (metis mset_eq_setD, metis mset_eq_imp_distinct_iff mset_map)
  show ?thesis
  proof (cases "\<exists>kv \<in> set m. normalizeMaterialKey (fst kv) = normalizeMaterialKey key")
    case True
    then obtain k v where "(k, v) \<in> set m" "normalizeMaterialKey k = normalizeMaterialKey key" by auto
    with assms(1) same show ?thesis unfolding materialByKey_def by (metis materialByNormalKey_iff)
  next
    case False
    with same(1) show ?thesis unfolding materialByKey_def by (metis materialByNormalKey_none)
  qed
qed

section \<open>Cookies\<close>

text \<open>The pairs of a cookie header; of two pairs with one name the later one counts.\<close>

fun parse_cookies :: "string list \<Rightarrow> (string \<times> string) list \<Rightarrow> (string \<times> string) list" where
  "parse_cookies [] jar = jar"
| "parse_cookies (part # parts) jar =
     (case Cut CHR ''='' (TrimSpace part) of (key, value, found) \<Rightarrow>
        if \<not> found then parse_cookies parts jar
        else let key = TrimSpace key; value = TrimSpace value in
          parse_cookies parts (if key \<noteq> [] \<and> value \<noteq> [] then AList.update key value jar else jar))"

definition parseCookieHeader :: "string \<Rightarrow> (string \<times> string) list" where
  "parseCookieHeader header = parse_cookies (Split CHR '';'' header) []"

definition cookieValue :: "string \<Rightarrow> string \<Rightarrow> string" where
  "cookieValue header name = (case map_of (parseCookieHeader header) (TrimSpace name) of None \<Rightarrow> [] | Some v \<Rightarrow> v)"

definition cookieHeaderMaterial :: "material \<Rightarrow> string" where
  "cookieHeaderMaterial m = materialByKey m MaterialKeyCookie"

definition cookiePairMaterial :: "material \<Rightarrow> string \<Rightarrow> string" where
  "cookiePairMaterial m name =
     (let value = cookieValue (cookieHeaderMaterial m) name in
      if value \<noteq> [] then value
      else let value = materialByKey m name in
        if value \<noteq> [] then value
        else if HasPrefix name ''__Secure-'' then materialByKey m (TrimPrefix name ''__Secure-'') else [])"

text \<open>One pair of the header: what it becomes, if its value is replaced.\<close>

definition replace_cookie_pair :: "material \<Rightarrow> string \<Rightarrow> string option" where
  "replace_cookie_pair m part =
     (case Cut CHR ''='' (TrimSpace part) of (key, value, found) \<Rightarrow>
        if \<not> found \<or> \<not> Contains value Placeholder then None
        else let materialValue = cookiePairMaterial m key in
          if materialValue = [] then None
          else Some (TrimSpace key @ ''='' @ ReplaceAll value Placeholder materialValue))"

definition cookieReplacement :: "material \<Rightarrow> string \<Rightarrow> string option" where
  "cookieReplacement m current =
     (let current = TrimSpace current in
      if current = [] \<or> \<not> Contains current Placeholder then None
      else if current = Placeholder then
        (let cookie = cookieHeaderMaterial m in if cookie \<noteq> [] then Some cookie else None)
      else
        (let parts = Split CHR '';'' current; next = List.map (\<lambda>p. case replace_cookie_pair m p of None \<Rightarrow> p | Some q \<Rightarrow> q) parts in
         if list_all (\<lambda>p. replace_cookie_pair m p = None) parts then None
         else Some (Join (List.filter (\<lambda>p. p \<noteq> []) (List.map TrimSpace next)) ''; '')))"

section \<open>Rules\<close>

definition default_to :: "string \<Rightarrow> string \<Rightarrow> string" where
  "default_to d s = (if s = [] then d else s)"

definition NormalizeSimpleReplacementRule :: "SimpleReplacementRule \<Rightarrow> SimpleReplacementRule" where
  "NormalizeSimpleReplacementRule rule =
     (let mode = ToLower (TrimSpace (rule_Mode rule)); key = TrimSpace (rule_MaterialKey rule);
          pre = TrimSpace (rule_HeaderValuePrefix rule); template = TrimSpace (rule_Template rule) in
      \<lparr>rule_Mode = mode, rule_HeaderName = ToLower (TrimSpace (rule_HeaderName rule)),
       rule_MaterialKey = (if mode = SimpleReplacementModeBearer then default_to MaterialKeyAccessToken key
         else if mode \<in> {SimpleReplacementModeGoogleAPIKey, SimpleReplacementModeXAPIKey, SimpleReplacementModeAPIKey}
         then default_to MaterialKeyAPIKey key else key),
       rule_HeaderValuePrefix = (if mode = SimpleReplacementModeBearer \<and> pre = [] \<and> template = [] then ''Bearer'' else pre),
       rule_Template = template\<rparr>)"

fun simpleRuleForHeader :: "SimpleReplacementRule list \<Rightarrow> string \<Rightarrow> SimpleReplacementRule option" where
  "simpleRuleForHeader [] headerName = None"
| "simpleRuleForHeader (rule # rules) headerName =
     (let normalized = NormalizeSimpleReplacementRule rule in
      if ToLower (TrimSpace (rule_HeaderName normalized)) = ToLower (TrimSpace headerName) then Some normalized
      else simpleRuleForHeader rules headerName)"

text \<open>The names in their first occurrence, without the empty one.\<close>

fun unique_names :: "string list \<Rightarrow> string list \<Rightarrow> string list" where
  "unique_names seen [] = []"
| "unique_names seen (n # ns) =
     (if n = [] \<or> n \<in> set seen then unique_names seen ns else n # unique_names (n # seen) ns)"

definition SimpleReplacementRuleHeaderNames :: "SimpleReplacementRule list \<Rightarrow> string list" where
  "SimpleReplacementRuleHeaderNames rules = unique_names [] (List.map (\<lambda>r. ToLower (TrimSpace (rule_HeaderName r))) rules)"

definition replacementValue :: "string \<Rightarrow> string \<Rightarrow> string \<Rightarrow> string option" where
  "replacementValue current pre token =
     (if token = [] then None
      else let current = TrimSpace current in
        if current = Placeholder then Some token
        else let pre = TrimSpace pre in
          if pre = [] then (if Contains current Placeholder then Some (ReplaceAll current Placeholder token) else None)
          else if current = pre @ '' '' @ Placeholder then Some (pre @ '' '' @ token)
          else if Contains current Placeholder then Some (ReplaceAll current Placeholder token) else None)"

definition replaceRuleHeader ::
    "ReplacementInput \<Rightarrow> SimpleReplacementRule \<Rightarrow> string \<Rightarrow> string \<Rightarrow> string option" where
  "replaceRuleHeader input rule headerName current =
     (let rule = NormalizeSimpleReplacementRule rule in
      if rule_Mode rule = SimpleReplacementModeCookie \<and> normalizeMaterialKey headerName = MaterialKeyCookie
         \<and> TrimSpace (rule_MaterialKey rule) = [] \<and> TrimSpace (rule_Template rule) = []
      then cookieReplacement (ri_Material input) current
      else
        (let key = TrimSpace (rule_MaterialKey rule);
             token = (if key \<noteq> [] then materialByKey (ri_Material input) key else []);
             template = TrimSpace (rule_Template rule) in
         if template \<noteq> [] then
           (if token = [] \<or> \<not> Contains template Placeholder then None
            else Some (ReplaceAll template Placeholder token))
         else
           (let pre = firstNonEmpty [rule_HeaderValuePrefix rule, ri_HeaderValuePrefix input] in
            if TrimSpace current = Placeholder \<and> TrimSpace pre \<noteq> [] then
              (if token = [] then None else Some (TrimSpace pre @ '' '' @ token))
            else replacementValue current pre token)))"

definition ReplaceSimpleHeader :: "ReplacementInput \<Rightarrow> SimpleReplacementRule list \<Rightarrow> string option" where
  "ReplaceSimpleHeader input rules =
     (let headerName = ToLower (TrimSpace (ri_HeaderName input)); current = TrimSpace (ri_CurrentValue input) in
      if headerName = [] \<or> \<not> Contains current Placeholder \<or> \<not> hasReplacementMaterial (ri_Material input) then None
      else case simpleRuleForHeader rules headerName of None \<Rightarrow> None
        | Some rule \<Rightarrow> replaceRuleHeader input rule headerName current)"

section \<open>Google AI Studio\<close>

text \<open>
  \<open>sha1.Sum\<close> in hexadecimal is the parameter \<open>sha1hex\<close>, \<open>url.Parse\<close> the parameter \<open>urlparse\<close>: the scheme
  and the host of a URL, or nothing for a text it refuses.
\<close>

definition unix_seconds :: "time \<Rightarrow> int" where
  "unix_seconds t = t div second - 62135596800"

type_synonym url_parse = "string \<Rightarrow> (string \<times> string) option"

fun first_cookie :: "string \<Rightarrow> string list \<Rightarrow> string" where
  "first_cookie header [] = []"
| "first_cookie header (n # ns) = (let v = cookieValue header n in if v \<noteq> [] then v else first_cookie header ns)"

definition authorizationToken ::
    "(string \<Rightarrow> string) \<Rightarrow> string \<Rightarrow> string \<Rightarrow> int \<Rightarrow> string \<Rightarrow> string list \<Rightarrow> string" where
  "authorizationToken sha1hex cookieHeader origin timestamp pre cookieNames =
     (let value = first_cookie cookieHeader cookieNames in
      if value = [] then []
      else pre @ '' '' @ show_int timestamp @ ''_''
        @ sha1hex (show_int timestamp @ '' '' @ value @ '' '' @ TrimSpace origin))"

definition authorizationHeader :: "(string \<Rightarrow> string) \<Rightarrow> string \<Rightarrow> string \<Rightarrow> time \<Rightarrow> string option" where
  "authorizationHeader sha1hex cookieHeader origin now =
     (let origin = TrimSpace origin in
      if cookieHeader = [] \<or> origin = [] then None
      else
        (let timestamp = unix_seconds now; token = authorizationToken sha1hex cookieHeader origin timestamp;
             tokens = List.filter (\<lambda>t. t \<noteq> [])
               [token ''SAPISIDHASH'' [''SAPISID'', ''__Secure-3PAPISID''], token ''SAPISID1PHASH'' [''__Secure-1PAPISID''],
                token ''SAPISID3PHASH'' [''__Secure-3PAPISID'']] in
         if tokens = [] then None else Some (Join tokens '' '')))"

fun requestHeader :: "(string \<times> string) list \<Rightarrow> string \<Rightarrow> string" where
  "requestHeader [] name = []"
| "requestHeader ((k, v) # hs) name =
     (if ToLower (TrimSpace k) = ToLower (TrimSpace name) then TrimSpace v else requestHeader hs name)"

definition requestOrigin :: "url_parse \<Rightarrow> ReplacementInput \<Rightarrow> string" where
  "requestOrigin urlparse input =
     (let origin = TrimSpace (ri_Origin input) in
      if origin \<noteq> [] then origin
      else let origin = requestHeader (ri_RequestHeaders input) ''origin'' in
        if origin \<noteq> [] then origin
        else let referer = requestHeader (ri_RequestHeaders input) ''referer'' in
          if referer = [] then []
          else case urlparse referer of None \<Rightarrow> []
            | Some (scheme, host) \<Rightarrow> if scheme = [] \<or> host = [] then [] else scheme @ ''://'' @ host)"

definition google_replacementValue :: "string \<Rightarrow> string \<Rightarrow> string option" where
  "google_replacementValue current token =
     (let token = TrimSpace token in
      if token = [] then None
      else let current = TrimSpace current in
        if current = Placeholder then Some token
        else if Contains current Placeholder then Some (ReplaceAll current Placeholder token) else None)"

fun firstMaterial :: "material \<Rightarrow> string list \<Rightarrow> string" where
  "firstMaterial m [] = []"
| "firstMaterial m (k # ks) = (let v = materialByKey m k in if v \<noteq> [] then v else firstMaterial m ks)"

definition google_ReplaceHeader ::
    "(string \<Rightarrow> string) \<Rightarrow> url_parse \<Rightarrow> ReplacementInput \<Rightarrow> time \<Rightarrow> string option" where
  "google_ReplaceHeader sha1hex urlparse input clock =
     (let headerName = normalizeMaterialKey (ri_HeaderName input); current = TrimSpace (ri_CurrentValue input) in
      if headerName = [] \<or> \<not> Contains current Placeholder then None
      else if headerName = HTTPHeaderAuthorization then
        (let now = (if time_is_zero (ri_Now input) then clock else ri_Now input) in
         case authorizationHeader sha1hex (cookieHeaderMaterial (ri_Material input)) (requestOrigin urlparse input) now of
           None \<Rightarrow> None | Some token \<Rightarrow> Some (ReplaceAll current Placeholder token))
      else if headerName = ''x_goog_api_key'' then
        google_replacementValue current (firstMaterial (ri_Material input) [''page_api_key'', ''x_goog_api_key'', MaterialKeyAPIKey])
      else ReplaceSimpleHeader input
        [\<lparr>rule_Mode = SimpleReplacementModeCookie, rule_HeaderName = ri_HeaderName input, rule_MaterialKey = [],
          rule_HeaderValuePrefix = [], rule_Template = []\<rparr>])"

end
