(* ===== verification/Egress_Policy.thy ===== *)
theory Egress_Policy
  imports Egress_Replacement Provider_Messages
begin

text \<open>
  The catalogue of egress authentication policies (\<open>internal/egressauthpolicy/catalog.go\<close>): which headers a
  policy replaces, and by what. Reading the embedded YAML file is the library's; \<open>load_policies\<close> starts from
  the parsed policies. A protocol is matched by its name, \<open>Protocol.String()\<close>.
\<close>

section \<open>Data\<close>

record materializationConfig =
  mat_Key :: string
  mat_RequestRules :: "SimpleReplacementRule list"
  mat_ResponseRules :: "SimpleReplacementRule list"
  mat_HeaderValuePrefix :: string

record policyConfig =
  pol_PolicyID :: string
  pol_AdapterID :: string
  pol_ExtensionProviderName :: string
  pol_Materializations :: "materializationConfig list"

type_synonym Catalog = "(string \<times> policyConfig) list"

record GetEgressAuthPolicyRequest =
  gp_policyId :: string
  gp_materializationKey :: string
  gp_credentialKind :: CredentialKind
  gp_protocol :: Protocol

record GetEgressAuthPolicyResponse =
  ep_policyId :: string
  ep_materializationKey :: string
  ep_adapterId :: string
  ep_requestRules :: "SimpleReplacementRule list"
  ep_responseRules :: "SimpleReplacementRule list"
  ep_requestHeaderNames :: "string list"
  ep_responseHeaderNames :: "string list"
  ep_headerValuePrefix :: string
  ep_extensionProviderName :: string
  ep_headersToUpstreamOnAllow :: "string list"
  ep_headersToDownstreamOnAllow :: "string list"
  ep_headersToDownstreamOnDeny :: "string list"

definition BearerExtensionProviderName :: string where
  "BearerExtensionProviderName = ''code-code-egress-auth-bearer''"
definition APIKeyExtensionProviderName :: string where
  "APIKeyExtensionProviderName = ''code-code-egress-auth-api-key''"
definition SessionExtensionProviderName :: string where
  "SessionExtensionProviderName = ''code-code-egress-auth-session''"

section \<open>Loading\<close>

fun load_policies :: "policyConfig list \<Rightarrow> Catalog \<Rightarrow> Catalog result" where
  "load_policies [] catalog = Inr catalog"
| "load_policies (p # ps) catalog =
     (let p = p\<lparr>pol_PolicyID := TrimSpace (pol_PolicyID p)\<rparr> in
      if pol_PolicyID p = [] then Inl (PlainError ''egress auth policy id is empty'')
      else load_policies ps (AList.update (pol_PolicyID p) p catalog))"

definition catalog_policy :: "Catalog option \<Rightarrow> string \<Rightarrow> policyConfig option" where
  "catalog_policy c policyID =
     (case c of None \<Rightarrow> None | Some policies \<Rightarrow>
        if TrimSpace policyID = [] then None else map_of policies (TrimSpace policyID))"

section \<open>Resolving\<close>

definition selectMaterialization :: "policyConfig \<Rightarrow> string \<Rightarrow> materializationConfig" where
  "selectMaterialization policy key =
     (case find (\<lambda>m. TrimSpace (mat_Key m) = TrimSpace key) (pol_Materializations policy) of
        Some m \<Rightarrow> m
      | None \<Rightarrow> (case pol_Materializations policy of m # _ \<Rightarrow> m
          | [] \<Rightarrow> \<lparr>mat_Key = TrimSpace key, mat_RequestRules = [], mat_ResponseRules = [], mat_HeaderValuePrefix = []\<rparr>))"

definition normalizeRules :: "SimpleReplacementRule list \<Rightarrow> SimpleReplacementRule list" where
  "normalizeRules rules =
     List.filter (\<lambda>r. TrimSpace (rule_HeaderName r) \<noteq> []) (List.map NormalizeSimpleReplacementRule rules)"

definition ruleHeaderNames :: "SimpleReplacementRule list \<Rightarrow> string list" where
  "ruleHeaderNames rules = unique_names [] (List.map (\<lambda>r. ToLower (TrimSpace (rule_HeaderName r))) rules)"

definition hasHeader :: "string list \<Rightarrow> string \<Rightarrow> bool" where
  "hasHeader values header \<longleftrightarrow> list_ex (\<lambda>v. ToLower (TrimSpace v) = ToLower (TrimSpace header)) values"

definition extensionProviderName :: "string \<Rightarrow> string list \<Rightarrow> string list \<Rightarrow> string" where
  "extensionProviderName explicit requestNames responseNames =
     (if TrimSpace explicit \<noteq> [] then TrimSpace explicit
      else if hasHeader responseNames HTTPHeaderSetCookie \<or> hasHeader requestNames HTTPHeaderCookie
      then SessionExtensionProviderName
      else if hasHeader requestNames HTTPHeaderXAPIKey \<or> hasHeader requestNames HTTPHeaderXGoogAPIKey
      then APIKeyExtensionProviderName else BearerExtensionProviderName)"

definition sortedUniqueHeaders :: "string list \<Rightarrow> string list" where
  "sortedUniqueHeaders values = sort (unique_names [] (List.map (\<lambda>v. ToLower (TrimSpace v)) values))"

definition downstreamDenyHeaders :: "string list \<Rightarrow> string list" where
  "downstreamDenyHeaders responseNames =
     (if responseNames = [] then [] else sortedUniqueHeaders (HTTPHeaderContentType # responseNames))"

definition resolvePolicy :: "policyConfig \<Rightarrow> string \<Rightarrow> GetEgressAuthPolicyResponse" where
  "resolvePolicy policy materializationKey =
     (let m = selectMaterialization policy materializationKey;
          requestRules = normalizeRules (mat_RequestRules m); responseRules = normalizeRules (mat_ResponseRules m);
          requestNames = ruleHeaderNames requestRules; responseNames = ruleHeaderNames responseRules in
      \<lparr>ep_policyId = TrimSpace (pol_PolicyID policy),
       ep_materializationKey = firstNonEmpty [mat_Key m, materializationKey],
       ep_adapterId = TrimSpace (pol_AdapterID policy), ep_requestRules = requestRules, ep_responseRules = responseRules,
       ep_requestHeaderNames = requestNames, ep_responseHeaderNames = responseNames,
       ep_headerValuePrefix = TrimSpace (mat_HeaderValuePrefix m),
       ep_extensionProviderName = extensionProviderName (pol_ExtensionProviderName policy) requestNames responseNames,
       ep_headersToUpstreamOnAllow = requestNames, ep_headersToDownstreamOnAllow = responseNames,
       ep_headersToDownstreamOnDeny = downstreamDenyHeaders responseNames\<rparr>)"

section \<open>Policies that are not in the catalogue\<close>

definition fallbackPolicy :: "string \<Rightarrow> CredentialKind \<Rightarrow> string \<Rightarrow> policyConfig" where
  "fallbackPolicy policyID kind protocol =
     (let key = (if kind = KindOAuth then MaterialKeyAccessToken else MaterialKeyAPIKey);
          (mode, header, pre) =
            (if Contains (ToLower protocol) ''anthropic'' then (SimpleReplacementModeXAPIKey, HTTPHeaderXAPIKey, [])
             else if Contains (ToLower protocol) ''gemini'' then (SimpleReplacementModeGoogleAPIKey, HTTPHeaderXGoogAPIKey, [])
             else (SimpleReplacementModeBearer, HTTPHeaderAuthorization, ''Bearer'')) in
      \<lparr>pol_PolicyID = TrimSpace policyID, pol_AdapterID = [], pol_ExtensionProviderName = [],
       pol_Materializations = [\<lparr>mat_Key = [], mat_RequestRules = [\<lparr>rule_Mode = mode, rule_HeaderName = header,
           rule_MaterialKey = key, rule_HeaderValuePrefix = pre, rule_Template = []\<rparr>],
         mat_ResponseRules = [], mat_HeaderValuePrefix = []\<rparr>]\<rparr>)"

definition fallbackPolicyID :: "CredentialKind \<Rightarrow> string \<Rightarrow> string" where
  "fallbackPolicyID kind protocol =
     (let suffix = (if kind = KindOAuth then ''.oauth'' else ''.api-key'');
          protocol = ReplaceAll (ToLower (TrimPrefix protocol ''PROTOCOL_'')) ''_'' ''-'';
          protocol = (if protocol = [] \<or> protocol = ''unspecified'' then ''default'' else protocol) in
      ''protocol.'' @ protocol @ suffix)"

definition catalog_Resolve :: "Catalog option \<Rightarrow> GetEgressAuthPolicyRequest \<Rightarrow> GetEgressAuthPolicyResponse" where
  "catalog_Resolve c request =
     (let policyID = TrimSpace (gp_policyId request);
          policyID = (if policyID = [] then fallbackPolicyID (gp_credentialKind request) (protocol_string (gp_protocol request)) else policyID) in
      resolvePolicy
        (case catalog_policy c policyID of Some policy \<Rightarrow> policy
         | None \<Rightarrow> fallbackPolicy policyID (gp_credentialKind request) (protocol_string (gp_protocol request)))
        (TrimSpace (gp_materializationKey request)))"

definition catalog_ResolvePolicyID :: "Catalog option \<Rightarrow> string \<Rightarrow> GetEgressAuthPolicyResponse option" where
  "catalog_ResolvePolicyID c policyID = map_option (\<lambda>policy. resolvePolicy policy []) (catalog_policy c policyID)"

end
