(* ===== verification/Egress_Auth.thy ===== *)
theory Egress_Auth
  imports Egress_Policy
begin

text \<open>
  The authentication of egress traffic (\<open>authservice/egress_auth_http.go\<close>): an outgoing request of a run, or
  of a control plane service, carries placeholders or nothing; the service answers which headers to set to
  the secrets of a credential, and which headers of a response to mask again.

  The credential store, the lookup of a run's runtime context and the provider store are calls over the
  world \<open>'w\<close>. A nil entry of a repeated message field is \<open>None\<close>; a nil header item reads as an empty one.
\<close>

abbreviation Unavailable :: grpc_code where "Unavailable \<equiv> OtherCode ''Unavailable''"
abbreviation PermissionDenied :: grpc_code where "PermissionDenied \<equiv> OtherCode ''PermissionDenied''"

section \<open>Messages\<close>

record PodRef =
  pod_namespace :: string
  pod_name :: string
  pod_uid :: string
  pod_ip :: string

datatype RuntimeSource = SourceUnset | SourcePod "PodRef option" | SourceRunId string | SourceWorkloadId string

record HeaderItem =
  hi_name :: string
  hi_currentValue :: string

record EgressRequest =
  er_credentialId :: string
  er_adapterId :: string
  er_targetHost :: string
  er_targetPath :: string
  er_headerValuePrefix :: string
  er_origin :: string
  er_requestHeaders :: "(string \<times> string) list"
  er_rules :: "SimpleReplacementRule option list"
  er_allowedHeaderNames :: "string list"
  er_headers :: "HeaderItem list"
  er_runtimeSource :: "RuntimeSource option"
  er_sourcePrincipal :: string
  er_providerSurfaceBindingId :: string
  er_egressPolicyId :: string
  er_authPolicyId :: string

record EgressResponseRequest = EgressRequest +
  er_responseHeaders :: "(string \<times> string) list"

datatype AppendAction = AppendUnspecified | AppendIfExistsOrAdd | AddIfAbsent | OverwriteIfExistsOrAdd

record HeaderMutation =
  hm_name :: string
  hm_value :: string
  hm_action :: AppendAction

record EgressResponse =
  es_headers :: "HeaderMutation option list"
  es_removeHeaders :: "string list"
  es_error :: string
  es_skipped :: bool

record RuntimeMetadata =
  md_providerId :: string
  md_cliId :: string
  md_imageId :: string
  md_credentialId :: string
  md_runtimeUrl :: string
  md_authMaterializationKey :: string
  md_protocol :: Protocol
  md_modelId :: string
  md_requestRules :: "SimpleReplacementRule option list"
  md_responseRules :: "SimpleReplacementRule option list"
  md_headerValuePrefix :: string
  md_requestHeaderNames :: "string list"
  md_targetHosts :: "string list"
  md_targetPathPrefixes :: "string list"
  md_egressPolicyId :: string
  md_authPolicyId :: string
  md_observabilityProfileIds :: "string list"

definition empty_metadata :: RuntimeMetadata where
  "empty_metadata = \<lparr>md_providerId = [], md_cliId = [], md_imageId = [], md_credentialId = [], md_runtimeUrl = [],
     md_authMaterializationKey = [], md_protocol = ProtocolUnspecified, md_modelId = [], md_requestRules = [],
     md_responseRules = [], md_headerValuePrefix = [], md_requestHeaderNames = [], md_targetHosts = [],
     md_targetPathPrefixes = [], md_egressPolicyId = [], md_authPolicyId = [], md_observabilityProfileIds = []\<rparr>"

record OAuthCredential =
  oc_accessToken :: string
  oc_tokenType :: string
  oc_refreshToken :: string
  oc_idToken :: string

datatype ResolvedCredential = NoMaterial | ApiKeyMaterial string | OAuthMaterial OAuthCredential
  | SessionMaterial "(string \<times> string) list"

record Provider =
  pv_providerId :: string
  pv_surfaces :: "SurfaceBinding option list"

record 'w AuthServer =
  srv_namespace :: string
  srv_runtimeNamespace :: string
  srv_credentials :: "(string \<Rightarrow> 'w \<Rightarrow> ResolvedCredential option result \<times> 'w) option"
  srv_runtime :: "(RuntimeSource \<Rightarrow> 'w \<Rightarrow> RuntimeMetadata option result \<times> 'w) option"
  srv_providers :: "('w \<Rightarrow> Provider list result \<times> 'w) option"
  srv_sha1hex :: "string \<Rightarrow> string"
  srv_urlparse :: url_parse
  srv_clock :: "'w \<Rightarrow> time"

section \<open>Errors\<close>

fun status_code :: "go_error \<Rightarrow> grpc_code" where
  "status_code (GrpcError c m) = c"
| "status_code (Wrapped p e) = status_code e"
| "status_code _ = OtherCode ''Unknown''"

definition status_error :: "grpc_code \<Rightarrow> string \<Rightarrow> go_error" where
  "status_error = GrpcError"

fun is_status :: "go_error \<Rightarrow> bool" where
  "is_status (GrpcError c m) = True"
| "is_status (Wrapped p e) = is_status e"
| "is_status _ = False"

text \<open>The domain error inside an error, with the code \<open>grpcError\<close> gives it.\<close>

fun domain_code :: "go_error \<Rightarrow> (grpc_code \<times> string) option" where
  "domain_code (DomainNotFound m) = Some (NotFound, m)"
| "domain_code (DomainAlreadyExists m) = Some (AlreadyExists, m)"
| "domain_code (DomainValidation m) = Some (InvalidArgument, m)"
| "domain_code (DomainReferenceConflict m) = Some (FailedPrecondition, m)"
| "domain_code (Wrapped p e) = domain_code e"
| "domain_code _ = None"

definition auth_grpcError :: "go_error \<Rightarrow> go_error" where
  "auth_grpcError e =
     (if is_status e then e
      else case domain_code e of Some (c, m) \<Rightarrow> GrpcError c m
      | None \<Rightarrow> GrpcError
          (case api_reason_of e of
             Some ApiAlreadyExists \<Rightarrow> AlreadyExists | Some ApiConflict \<Rightarrow> AlreadyExists
           | Some ApiNotFound \<Rightarrow> NotFound | Some ApiInvalid \<Rightarrow> InvalidArgument | Some ApiBadRequest \<Rightarrow> InvalidArgument
           | Some ApiForbidden \<Rightarrow> PermissionDenied | Some ApiUnauthorized \<Rightarrow> OtherCode ''Unauthenticated''
           | Some ApiTooManyRequests \<Rightarrow> OtherCode ''ResourceExhausted'' | _ \<Rightarrow> Internal) (err_message e))"

section \<open>Headers\<close>

definition normalizeHTTPHeaderName :: "string \<Rightarrow> string" where
  "normalizeHTTPHeaderName value = ToLower (TrimSpace value)"

definition normalizedHeaderNames :: "string list \<Rightarrow> string list" where
  "normalizedHeaderNames names = unique_names [] (List.map normalizeHTTPHeaderName names)"

definition headerNameSet :: "string list \<Rightarrow> string set" where
  "headerNameSet names = set (List.filter (\<lambda>n. n \<noteq> []) (List.map normalizeHTTPHeaderName names))"

definition headerNameAllowed :: "string list \<Rightarrow> string \<Rightarrow> bool" where
  "headerNameAllowed values name \<longleftrightarrow> list_ex (\<lambda>v. normalizeHTTPHeaderName v = normalizeHTTPHeaderName name) values"

definition protoSimpleReplacementRules :: "SimpleReplacementRule option list \<Rightarrow> SimpleReplacementRule list" where
  "protoSimpleReplacementRules rules = List.map_filter id rules"

definition runtimeHeaderReplacementRulesToProto ::
    "SimpleReplacementRule option list \<Rightarrow> SimpleReplacementRule option list" where
  "runtimeHeaderReplacementRulesToProto rules = List.filter (\<lambda>r. r \<noteq> None) rules"

definition runtimeHeaderReplacementRuleNames :: "SimpleReplacementRule option list \<Rightarrow> string list" where
  "runtimeHeaderReplacementRuleNames rules =
     unique_names [] (List.map (\<lambda>r. case r of None \<Rightarrow> [] | Some r \<Rightarrow> normalizeHTTPHeaderName (rule_HeaderName r)) rules)"

definition egressHeaderMutation :: "string \<Rightarrow> string \<Rightarrow> AppendAction \<Rightarrow> HeaderMutation option" where
  "egressHeaderMutation name value action =
     (let name = normalizeHTTPHeaderName name; value = TrimSpace value in
      if name = [] \<or> value = [] then None
      else Some \<lparr>hm_name = name, hm_value = value, hm_action = action\<rparr>)"

definition requestHeaderMutation :: "string \<Rightarrow> string \<Rightarrow> HeaderMutation option" where
  "requestHeaderMutation name value = egressHeaderMutation name value OverwriteIfExistsOrAdd"

definition responseHeaderMutation :: "string \<Rightarrow> string \<Rightarrow> HeaderMutation option" where
  "responseHeaderMutation name value =
     egressHeaderMutation name value
       (if normalizeHTTPHeaderName name = HTTPHeaderSetCookie then AppendIfExistsOrAdd else OverwriteIfExistsOrAdd)"

fun normalize_header_map :: "(string \<times> string) list \<Rightarrow> (string \<times> string) list \<Rightarrow> (string \<times> string) list" where
  "normalize_header_map [] out = out"
| "normalize_header_map ((n, v) # hs) out =
     (let name = normalizeHTTPHeaderName n; value = TrimSpace v in
      normalize_header_map hs (if name = [] \<or> value = [] then out else AList.update name value out))"

definition requestHeaderMutationsFromMap :: "(string \<times> string) list \<Rightarrow> HeaderMutation option list" where
  "requestHeaderMutationsFromMap headers =
     (let normalized = normalize_header_map headers [] in
      List.map (\<lambda>n. requestHeaderMutation n (the (map_of normalized n))) (sort (List.map fst normalized)))"

definition headerMutationNames :: "HeaderMutation option list \<Rightarrow> string list" where
  "headerMutationNames headers =
     unique_names [] (List.map (\<lambda>h. case h of None \<Rightarrow> [] | Some h \<Rightarrow> normalizeHTTPHeaderName (hm_name h)) headers)"

definition skippedEgressAuthResponse :: EgressResponse where
  "skippedEgressAuthResponse = \<lparr>es_headers = [], es_removeHeaders = InternalHeaders, es_error = [], es_skipped = True\<rparr>"

section \<open>Targets\<close>

definition normalizeTargetHost :: "string \<Rightarrow> string" where
  "normalizeTargetHost value =
     (let value = ToLower (TrimSpace value);
          value = TrimPrefix value ''https://''; value = TrimPrefix value ''http://'';
          value = TrimSuffix value ''.'';
          (inside, rest, closed) = Cut CHR '']'' value in
      if HasPrefix value ''['' \<and> closed then tl inside
      else
        (let host = before_last CHR '':'' value in
         Trim (if CHR '':'' \<in> set value \<and> host \<noteq> [] \<and> CHR '':'' \<notin> set host then host else value) ''[]''))"

definition normalizedHosts :: "string list \<Rightarrow> string list" where
  "normalizedHosts values = unique_names [] (List.map normalizeTargetHost values)"

definition matchesEgressTargetHost :: "string \<Rightarrow> string list \<Rightarrow> bool" where
  "matchesEgressTargetHost value allowed \<longleftrightarrow>
     (let host = normalizeTargetHost value in
      host \<noteq> [] \<and> list_ex (\<lambda>c. host = normalizeTargetHost c) allowed)"

definition normalizeTargetPath :: "string \<Rightarrow> string" where
  "normalizeTargetPath value =
     (let value = TrimSpace value in
      if value = [] then []
      else let value = before_any ''?#'' value in
        if \<not> HasPrefix value ''/'' then ''/'' @ value else value)"

text \<open>A prefix of slashes only is the empty prefix, and stays in the list.\<close>

definition normalizedPathPrefixes :: "string list \<Rightarrow> string list" where
  "normalizedPathPrefixes values = rev (remdups (rev
     (List.map (\<lambda>p. if p \<noteq> ''/'' then TrimRight p ''/'' else p)
       (List.filter (\<lambda>p. p \<noteq> []) (List.map normalizeTargetPath values)))))"

definition matchesEgressTargetPath :: "string \<Rightarrow> string list \<Rightarrow> bool" where
  "matchesEgressTargetPath value allowed \<longleftrightarrow>
     (let path = normalizeTargetPath value in
      path \<noteq> [] \<and>
      list_ex (\<lambda>p. let p = normalizeTargetPath p in
        p = ''/'' \<or> path = p \<or> HasPrefix path (TrimRight p ''/'' @ ''/'') \<or> HasPrefix path (TrimRight p ''/'' @ '':'')) allowed)"

definition matchesEgressTarget :: "string \<Rightarrow> string \<Rightarrow> RuntimeMetadata \<Rightarrow> bool" where
  "matchesEgressTarget targetHost targetPath metadata \<longleftrightarrow>
     (let hosts = normalizedHosts (md_targetHosts metadata) in
      if hosts = [] then False
      else if \<not> matchesEgressTargetHost targetHost hosts then False
      else (let paths = normalizedPathPrefixes (md_targetPathPrefixes metadata) in
            paths = [] \<or> matchesEgressTargetPath targetPath paths))"

end
