(* ===== verification/Egress_Resolve.thy ===== *)
theory Egress_Resolve
  imports Egress_Auth
begin

text \<open>
  The two calls of the egress authentication (\<open>authservice/egress_auth_http.go\<close>): the headers of a request
  that get the secrets of a credential, and the headers of a response in which they are masked.
\<close>

section \<open>The material of a credential\<close>

definition setResolvedMaterial :: "string \<Rightarrow> string \<Rightarrow> material \<Rightarrow> material" where
  "setResolvedMaterial key value m =
     (if TrimSpace key = [] \<or> TrimSpace value = [] then m else AList.update (TrimSpace key) (TrimSpace value) m)"

definition materialFromResolvedCredential :: "ResolvedCredential option \<Rightarrow> material" where
  "materialFromResolvedCredential credential =
     (case credential of None \<Rightarrow> [] | Some NoMaterial \<Rightarrow> []
      | Some (ApiKeyMaterial key) \<Rightarrow> setResolvedMaterial MaterialKeyAPIKey key []
      | Some (OAuthMaterial oauth) \<Rightarrow>
          fold (\<lambda>(k, v). setResolvedMaterial k v)
            [(MaterialKeyAccessToken, oc_accessToken oauth), (''token'', oc_accessToken oauth),
             (''token_type'', oc_tokenType oauth), (''refresh_token'', oc_refreshToken oauth),
             (''id_token'', oc_idToken oauth)] []
      | Some (SessionMaterial values) \<Rightarrow> fold (\<lambda>(k, v). setResolvedMaterial k v) values [])"

fun runtimeMaterialByNormalKey :: "material \<Rightarrow> string \<Rightarrow> string option" where
  "runtimeMaterialByNormalKey [] key = None"
| "runtimeMaterialByNormalKey ((k, v) # m) key =
     (if normalizeMaterialKey k = key \<and> TrimSpace v \<noteq> [] then Some (TrimSpace v) else runtimeMaterialByNormalKey m key)"

definition runtimeMaterialByKey :: "material \<Rightarrow> string \<Rightarrow> string option" where
  "runtimeMaterialByKey m key = runtimeMaterialByNormalKey m (normalizeMaterialKey key)"

section \<open>The headers of a request\<close>

definition replaceEgressAuthHeader ::
    "'w AuthServer \<Rightarrow> ('r) EgressRequest_scheme \<Rightarrow> SimpleReplacementRule list \<Rightarrow> material \<Rightarrow> string \<Rightarrow> string \<Rightarrow> 'w \<Rightarrow> string option" where
  "replaceEgressAuthHeader s request rules m name current w =
     (let input = \<lparr>ri_HeaderName = name, ri_HeaderValuePrefix = TrimSpace (er_headerValuePrefix request),
            ri_CurrentValue = current, ri_Origin = TrimSpace (er_origin request),
            ri_RequestHeaders = er_requestHeaders request, ri_Material = m, ri_Now = srv_clock s w\<rparr> in
      if TrimSpace (er_adapterId request) = AuthAdapterGoogleAIStudioSessionID
      then google_ReplaceHeader (srv_sha1hex s) (srv_urlparse s) input (srv_clock s w)
      else ReplaceSimpleHeader input rules)"

definition runtimeEgressHeaderValueForRule ::
    "'w AuthServer \<Rightarrow> 'r EgressRequest_scheme \<Rightarrow> material \<Rightarrow> SimpleReplacementRule \<Rightarrow> 'w \<Rightarrow> string option" where
  "runtimeEgressHeaderValueForRule s request m rule w =
     (let rule = NormalizeSimpleReplacementRule rule; name = normalizeHTTPHeaderName (rule_HeaderName rule) in
      if name = [] then None
      else (let pre = firstNonEmpty [rule_HeaderValuePrefix rule, er_headerValuePrefix request];
                current = (if pre \<noteq> [] then TrimSpace pre @ '' '' @ Placeholder else Placeholder) in
            replaceEgressAuthHeader s request [rule] m name current w))"

definition runtimeEgressHeaderValue :: "'r EgressRequest_scheme \<Rightarrow> material \<Rightarrow> string \<Rightarrow> string option" where
  "runtimeEgressHeaderValue request m name =
     (let name = normalizeHTTPHeaderName name in
      if name = [] then None
      else case runtimeMaterialByKey m (ReplaceAll name ''-'' ''_'') of None \<Rightarrow> None
        | Some token \<Rightarrow> (let pre = TrimSpace (er_headerValuePrefix request) in
            Some (if pre = [] then token else pre @ '' '' @ token)))"

definition replacement_failed :: go_error where
  "replacement_failed = status_error FailedPrecondition ''egress auth replacement failed''"

definition invalid_request :: go_error where
  "invalid_request = status_error InvalidArgument ''invalid egress auth replacement request''"

fun generated_by_rules ::
    "'w AuthServer \<Rightarrow> 'r EgressRequest_scheme \<Rightarrow> material \<Rightarrow> string list \<Rightarrow> 'w \<Rightarrow>
      SimpleReplacementRule list \<Rightarrow> (string \<times> string) list \<Rightarrow> (string \<times> string) list result" where
  "generated_by_rules s request m allowed w [] headers = Inr headers"
| "generated_by_rules s request m allowed w (rule # rules) headers =
     (let name = normalizeHTTPHeaderName (rule_HeaderName rule) in
      if name = [] \<or> \<not> headerNameAllowed allowed name then generated_by_rules s request m allowed w rules headers
      else case runtimeEgressHeaderValueForRule s request m rule w of
        None \<Rightarrow> Inl replacement_failed
      | Some value \<Rightarrow> generated_by_rules s request m allowed w rules (AList.update name value headers))"

fun generated_by_names ::
    "'r EgressRequest_scheme \<Rightarrow> material \<Rightarrow> string list \<Rightarrow> (string \<times> string) list \<Rightarrow> (string \<times> string) list result" where
  "generated_by_names request m [] headers = Inr headers"
| "generated_by_names request m (name # names) headers =
     (case runtimeEgressHeaderValue request m name of
        None \<Rightarrow> Inl replacement_failed
      | Some value \<Rightarrow> generated_by_names request m names (AList.update name value headers))"

definition request_response :: "(string \<times> string) list \<Rightarrow> EgressResponse" where
  "request_response headers = \<lparr>es_headers = requestHeaderMutationsFromMap headers, es_removeHeaders = InternalHeaders,
     es_error = [], es_skipped = False\<rparr>"

definition resolveGeneratedEgressHeaders ::
    "'w AuthServer \<Rightarrow> 'r EgressRequest_scheme \<Rightarrow> material \<Rightarrow> 'w \<Rightarrow> EgressResponse result" where
  "resolveGeneratedEgressHeaders s request m w =
     (let names = normalizedHeaderNames (er_allowedHeaderNames request);
          rules = protoSimpleReplacementRules (er_rules request);
          allowed = (if names = [] \<and> rules \<noteq> [] then normalizedHeaderNames (SimpleReplacementRuleHeaderNames rules) else names) in
      if allowed = [] then Inl (status_error FailedPrecondition ''egress auth request headers are unavailable'')
      else case (if rules \<noteq> [] then generated_by_rules s request m allowed w rules []
                 else generated_by_names request m allowed []) of
        Inl e \<Rightarrow> Inl e
      | Inr headers \<Rightarrow> if headers = [] then Inl replacement_failed else Inr (request_response headers))"

fun replaced_headers ::
    "'w AuthServer \<Rightarrow> 'r EgressRequest_scheme \<Rightarrow> SimpleReplacementRule list \<Rightarrow> material \<Rightarrow> string set \<Rightarrow> 'w \<Rightarrow>
      HeaderItem list \<Rightarrow> (string \<times> string) list \<Rightarrow> (string \<times> string) list result" where
  "replaced_headers s request rules m allowed w [] headers = Inr headers"
| "replaced_headers s request rules m allowed w (item # items) headers =
     (let name = normalizeHTTPHeaderName (hi_name item); current = TrimSpace (hi_currentValue item) in
      if allowed \<noteq> {} \<and> name \<notin> allowed \<or> name = [] \<or> \<not> Contains current Placeholder
      then replaced_headers s request rules m allowed w items headers
      else case replaceEgressAuthHeader s request rules m name current w of
        None \<Rightarrow> Inl replacement_failed
      | Some next \<Rightarrow> replaced_headers s request rules m allowed w items (AList.update name next headers))"

section \<open>Who asks, and for what\<close>

definition managementRuntimeContextRequest :: "RuntimeSource \<Rightarrow> RuntimeSource result" where
  "managementRuntimeContextRequest source =
     (case source of
        SourcePod None \<Rightarrow> Inl (status_error InvalidArgument ''egress auth runtime pod source is required'')
      | SourcePod (Some p) \<Rightarrow> Inr (SourcePod (Some \<lparr>pod_namespace = TrimSpace (pod_namespace p), pod_name = TrimSpace (pod_name p),
          pod_uid = TrimSpace (pod_uid p), pod_ip = TrimSpace (pod_ip p)\<rparr>))
      | SourceRunId i \<Rightarrow> (if TrimSpace i = [] then Inl (status_error InvalidArgument ''egress auth runtime run_id is required'')
          else Inr (SourceRunId (TrimSpace i)))
      | SourceWorkloadId i \<Rightarrow> (if TrimSpace i = [] then Inl (status_error InvalidArgument ''egress auth runtime workload_id is required'')
          else Inr (SourceWorkloadId (TrimSpace i)))
      | SourceUnset \<Rightarrow> Inl (status_error InvalidArgument ''egress auth runtime source is required''))"

definition resolveEgressRuntimeMetadata :: "'w AuthServer \<Rightarrow> RuntimeSource \<Rightarrow> 'w \<Rightarrow> RuntimeMetadata result \<times> 'w" where
  "resolveEgressRuntimeMetadata s source w =
     (case srv_runtime s of None \<Rightarrow> (Inl (status_error Unavailable ''egress auth runtime context unavailable''), w)
      | Some call \<Rightarrow>
        (case managementRuntimeContextRequest source of Inl e \<Rightarrow> (Inl e, w)
         | Inr request \<Rightarrow>
           (case call request w of
              (Inl e, w) \<Rightarrow> (Inl (status_error (status_code e) ''egress auth runtime context lookup failed''), w)
            | (Inr None, w) \<Rightarrow> (Inl (status_error FailedPrecondition ''egress auth runtime metadata is unavailable''), w)
            | (Inr (Some metadata), w) \<Rightarrow> (Inr metadata, w))))"

text \<open>The request with what the run may do; nothing if the request is to be left alone.\<close>

definition applyEgressRuntimeMetadata :: "EgressRequest \<Rightarrow> RuntimeMetadata \<Rightarrow> EgressRequest option" where
  "applyEgressRuntimeMetadata request metadata =
     (let request = request\<lparr>er_credentialId := TrimSpace (md_credentialId metadata), er_adapterId := [],
            er_rules := runtimeHeaderReplacementRulesToProto (md_requestRules metadata)\<rparr> in
      if er_credentialId request = [] then None
      else
        (let request = request\<lparr>er_headerValuePrefix := TrimSpace (md_headerValuePrefix metadata)\<rparr>;
             names = runtimeHeaderReplacementRuleNames (md_requestRules metadata);
             names = (if names \<noteq> [] then names else normalizedHeaderNames (md_requestHeaderNames metadata)) in
         if names = [] then None
         else if \<not> matchesEgressTarget (er_targetHost request) (er_targetPath request) metadata then None
         else Some (request\<lparr>er_allowedHeaderNames := names\<rparr>)))"

definition applyEgressRuntimeResponseMetadata :: "EgressResponseRequest \<Rightarrow> RuntimeMetadata \<Rightarrow> EgressResponseRequest option" where
  "applyEgressRuntimeResponseMetadata request metadata =
     (let request = request\<lparr>er_credentialId := TrimSpace (md_credentialId metadata), er_adapterId := [],
            er_rules := runtimeHeaderReplacementRulesToProto (md_responseRules metadata),
            er_allowedHeaderNames := runtimeHeaderReplacementRuleNames (md_responseRules metadata)\<rparr> in
      if er_credentialId request = [] \<or> er_allowedHeaderNames request = [] \<or>
         \<not> matchesEgressTarget (er_targetHost request) (er_targetPath request) metadata
      then None else Some request)"

record istioSpiffePrincipal =
  isp_trustDomain :: string
  isp_namespace :: string
  isp_serviceAccount :: string

fun spiffe_parts :: "string list \<Rightarrow> istioSpiffePrincipal \<Rightarrow> istioSpiffePrincipal" where
  "spiffe_parts (p # q # parts) out =
     spiffe_parts (q # parts)
       (if p = ''ns'' then out\<lparr>isp_namespace := TrimSpace q\<rparr>
        else if p = ''sa'' then out\<lparr>isp_serviceAccount := TrimSpace q\<rparr> else out)"
| "spiffe_parts _ out = out"

definition parseIstioSpiffePrincipal :: "string \<Rightarrow> istioSpiffePrincipal option" where
  "parseIstioSpiffePrincipal value =
     (let value = TrimSpace value in
      if \<not> HasPrefix value ''spiffe://'' then None
      else
        (let parts = Split CHR ''/'' (TrimPrefix value ''spiffe://'') in
         if length parts < 5 \<or> TrimSpace (hd parts) = [] then None
         else
           (let out = spiffe_parts (tl parts)
                  \<lparr>isp_trustDomain = TrimSpace (hd parts), isp_namespace = [], isp_serviceAccount = []\<rparr> in
            if isp_namespace out = [] \<or> isp_serviceAccount out = [] then None else Some out)))"

definition trustsEgressControlPlanePrincipal :: "'w AuthServer \<Rightarrow> string \<Rightarrow> bool" where
  "trustsEgressControlPlanePrincipal s sourcePrincipal \<longleftrightarrow>
     (case parseIstioSpiffePrincipal sourcePrincipal of None \<Rightarrow> False
      | Some identity \<Rightarrow> TrimSpace (srv_namespace s) \<noteq> [] \<and> isp_namespace identity = TrimSpace (srv_namespace s) \<and>
          isp_serviceAccount identity \<in> {''platform-model-service'', ''platform-provider-service''})"

definition matchesProviderSurfaceTarget :: "url_parse \<Rightarrow> string \<Rightarrow> SurfaceBinding \<Rightarrow> bool" where
  "matchesProviderSurfaceTarget urlparse targetHost surface \<longleftrightarrow>
     (case sb_runtime surface of None \<Rightarrow> False
      | Some runtime \<Rightarrow> (let baseURL = TrimSpace (RuntimeBaseURL runtime) in
          baseURL = [] \<or> (case urlparse baseURL of None \<Rightarrow> False
            | Some (scheme, host) \<Rightarrow> matchesEgressTargetHost targetHost [host])))"

definition surface_projections :: "Provider list \<Rightarrow> (Provider \<times> SurfaceBinding) list" where
  "surface_projections ps = concat (List.map (\<lambda>p. List.map (Pair p) (List.map_filter id (pv_surfaces p))) ps)"

definition FindSurfaceBindingProjection ::
    "('w \<Rightarrow> Provider list result \<times> 'w) \<Rightarrow> string \<Rightarrow> 'w \<Rightarrow> (Provider \<times> SurfaceBinding) result \<times> 'w" where
  "FindSurfaceBindingProjection list surfaceID w =
     (let surfaceID = TrimSpace surfaceID in
      if surfaceID = [] then (Inl (DomainValidation ''platformk8s/providers: provider surface binding id is empty''), w)
      else case list w of (Inl e, w) \<Rightarrow> (Inl e, w)
        | (Inr ps, w) \<Rightarrow>
          (case find (\<lambda>(p, b). TrimSpace (sb_surfaceId b) = surfaceID) (surface_projections ps) of
             None \<Rightarrow> (Inl (DomainNotFound (''platformk8s/providers: provider surface binding '' @ go_quote surfaceID @ '' not found'')), w)
           | Some item \<Rightarrow> (Inr item, w)))"

definition usesProviderObservabilityCredential :: "string \<Rightarrow> bool" where
  "usesProviderObservabilityCredential adapterID \<longleftrightarrow>
     TrimSpace adapterID \<in> {AuthAdapterBearerSessionID, AuthAdapterGoogleAIStudioSessionID, AuthAdapterSessionCookieID}"

definition ObservabilityCredentialID :: "string \<Rightarrow> string" where
  "ObservabilityCredentialID providerID =
     (if TrimSpace providerID = [] then [] else TrimSpace providerID @ ''-observability'')"

definition resolveEgressProviderSurfaceCredential ::
    "'w AuthServer \<Rightarrow> string \<Rightarrow> string \<Rightarrow> string \<Rightarrow> string \<Rightarrow> 'w \<Rightarrow> string result \<times> 'w" where
  "resolveEgressProviderSurfaceCredential s sourcePrincipal bindingID targetHost adapterID w =
     (if TrimSpace bindingID = [] then
        (Inl (status_error InvalidArgument ''egress auth provider surface binding id is required''), w)
      else if \<not> trustsEgressControlPlanePrincipal s sourcePrincipal then
        (Inl (status_error PermissionDenied ''egress auth source principal is not allowed''), w)
      else case srv_providers s of
        None \<Rightarrow> (Inl (status_error Unavailable ''egress auth provider binding lookup unavailable''), w)
      | Some list \<Rightarrow>
        (case FindSurfaceBindingProjection list (TrimSpace bindingID) w of
           (Inl e, w) \<Rightarrow> (Inl (auth_grpcError e), w)
         | (Inr (provider, surface), w) \<Rightarrow>
             (if \<not> matchesProviderSurfaceTarget (srv_urlparse s) targetHost surface then
                (Inl (status_error PermissionDenied ''egress auth target does not match provider surface''), w)
              else if usesProviderObservabilityCredential adapterID \<and> ObservabilityCredentialID (pv_providerId provider) \<noteq> [] then
                (Inr (ObservabilityCredentialID (pv_providerId provider)), w)
              else if TrimSpace (sb_credentialId surface) = [] then
                (Inl (status_error FailedPrecondition ''egress auth provider surface binding has no credential''), w)
              else (Inr (TrimSpace (sb_credentialId surface)), w))))"

section \<open>Requests\<close>

definition trim_request :: "'r EgressRequest_scheme \<Rightarrow> 'r EgressRequest_scheme" where
  "trim_request r = r\<lparr>er_credentialId := TrimSpace (er_credentialId r), er_targetHost := TrimSpace (er_targetHost r),
     er_targetPath := TrimSpace (er_targetPath r), er_sourcePrincipal := TrimSpace (er_sourcePrincipal r),
     er_providerSurfaceBindingId := TrimSpace (er_providerSurfaceBindingId r),
     er_egressPolicyId := TrimSpace (er_egressPolicyId r), er_authPolicyId := TrimSpace (er_authPolicyId r)\<rparr>"

text \<open>
  The credential and the rules of a request: those of the run it comes from, those of the provider surface
  it names, or its own. \<open>None\<close> is a request that is left alone. \<open>apply\<close> is the handler's function of the
  runtime metadata.
\<close>

definition authorize ::
    "('r EgressRequest_scheme \<Rightarrow> RuntimeMetadata \<Rightarrow> 'r EgressRequest_scheme option) \<Rightarrow> 'w AuthServer \<Rightarrow>
      'r EgressRequest_scheme \<Rightarrow> 'w \<Rightarrow> 'r EgressRequest_scheme option result \<times> 'w" where
  "authorize apply s request w =
     (case er_runtimeSource request of
        Some source \<Rightarrow>
          (case resolveEgressRuntimeMetadata s source w of
             (Inl e, w) \<Rightarrow> (if status_code e = NotFound then (Inr None, w) else (Inl e, w))
           | (Inr metadata, w) \<Rightarrow> (Inr (apply request metadata), w))
      | None \<Rightarrow>
          (if er_providerSurfaceBindingId request \<noteq> [] then
             (case resolveEgressProviderSurfaceCredential s (er_sourcePrincipal request) (er_providerSurfaceBindingId request)
                     (er_targetHost request) (er_adapterId request) w of
                (Inl e, w) \<Rightarrow> (Inl e, w)
              | (Inr credentialID, w) \<Rightarrow> (Inr (Some (request\<lparr>er_credentialId := credentialID\<rparr>)), w))
           else (Inr (Some request), w)))"

text \<open>The credential of an authorized request, as material.\<close>

definition resolve_material :: "'w AuthServer \<Rightarrow> string \<Rightarrow> string \<Rightarrow> 'w \<Rightarrow> material result \<times> 'w" where
  "resolve_material s invalid credentialID w =
     (if credentialID = [] then (Inl (status_error InvalidArgument invalid), w)
      else case srv_credentials s of
        None \<Rightarrow> (Inl (status_error Unavailable ''egress auth replacement unavailable''), w)
      | Some resolve \<Rightarrow>
        (case resolve credentialID w of
           (Inl e, w) \<Rightarrow> (Inl (status_error Unavailable ''egress auth replacement failed''), w)
         | (Inr credential, w) \<Rightarrow> (Inr (materialFromResolvedCredential credential), w)))"

definition requested_headers ::
    "'w AuthServer \<Rightarrow> 'r EgressRequest_scheme \<Rightarrow> material \<Rightarrow> 'w \<Rightarrow> EgressResponse result" where
  "requested_headers s request m w =
     (if er_runtimeSource request \<noteq> None \<or> er_headers request = [] then resolveGeneratedEgressHeaders s request m w
      else case replaced_headers s request (protoSimpleReplacementRules (er_rules request)) m
                  (headerNameSet (er_allowedHeaderNames request)) w (er_headers request) [] of
        Inl e \<Rightarrow> Inl e
      | Inr headers \<Rightarrow> if headers = [] then Inl invalid_request else Inr (request_response headers))"

definition ResolveEgressRequestHeaders ::
    "'w AuthServer \<Rightarrow> EgressRequest option \<Rightarrow> 'w \<Rightarrow> EgressResponse result \<times> 'w" where
  "ResolveEgressRequestHeaders s request w =
     (case map_option trim_request request of None \<Rightarrow> (Inl invalid_request, w)
      | Some request \<Rightarrow>
        if er_runtimeSource request = None \<and> er_providerSurfaceBindingId request = [] \<and> er_headers request = []
        then (Inl invalid_request, w)
        else case authorize applyEgressRuntimeMetadata s request w of
          (Inl e, w) \<Rightarrow> (Inl e, w)
        | (Inr None, w) \<Rightarrow> (Inr skippedEgressAuthResponse, w)
        | (Inr (Some request), w) \<Rightarrow>
          (case resolve_material s ''invalid egress auth replacement request'' (er_credentialId request) w of
             (Inl e, w) \<Rightarrow> (Inl e, w)
           | (Inr m, w) \<Rightarrow> (requested_headers s request m w, w)))"

section \<open>Responses\<close>

text \<open>The secret of a rule, and what a rule masks: the secret and what takes its place.\<close>

definition rule_token :: "SimpleReplacementRule \<Rightarrow> material \<Rightarrow> string" where
  "rule_token rule m = (let key = TrimSpace (rule_MaterialKey (NormalizeSimpleReplacementRule rule)) in
     if key = [] then [] else (case runtimeMaterialByKey m key of None \<Rightarrow> [] | Some v \<Rightarrow> v))"

definition responseHeaderReplacementPairsForRule ::
    "SimpleReplacementRule \<Rightarrow> material \<Rightarrow> string \<Rightarrow> (string \<times> string) list" where
  "responseHeaderReplacementPairsForRule rule m pre =
     (let token = rule_token rule m; rule = NormalizeSimpleReplacementRule rule in
      if token = [] then []
      else
        (let template = TrimSpace (rule_Template rule) in
         if template \<noteq> [] \<and> Contains template Placeholder then
           [(ReplaceAll template Placeholder token, template), (token, Placeholder)]
         else
           (let rulePrefix = firstNonEmpty [rule_HeaderValuePrefix rule, pre] in
            if rulePrefix \<noteq> [] then
              [(TrimSpace rulePrefix @ '' '' @ token, TrimSpace rulePrefix @ '' '' @ Placeholder), (token, Placeholder)]
            else [(token, Placeholder)])))"

definition responseHeaderReplacementPairs ::
    "SimpleReplacementRule list \<Rightarrow> material \<Rightarrow> string \<Rightarrow> string \<Rightarrow> (string \<times> string) list" where
  "responseHeaderReplacementPairs rules m name pre =
     concat (List.map (\<lambda>rule. let normalized = NormalizeSimpleReplacementRule rule in
       if normalizeHTTPHeaderName (rule_HeaderName normalized) \<noteq> normalizeHTTPHeaderName name then []
       else responseHeaderReplacementPairsForRule normalized m pre) rules)"

fun mask_pairs :: "(string \<times> string) list \<Rightarrow> string \<times> bool \<Rightarrow> string \<times> bool" where
  "mask_pairs [] next = next"
| "mask_pairs ((secret, placeholder) # pairs) (next, replaced) =
     (if secret = [] \<or> placeholder = [] \<or> \<not> Contains next secret then mask_pairs pairs (next, replaced)
      else mask_pairs pairs (ReplaceAll next secret placeholder, True))"

definition replaceEgressAuthResponseHeader ::
    "'r EgressRequest_scheme \<Rightarrow> SimpleReplacementRule list \<Rightarrow> material \<Rightarrow> string \<Rightarrow> string \<Rightarrow> string option" where
  "replaceEgressAuthResponseHeader request rules m name current =
     (let name = normalizeHTTPHeaderName name; current = TrimSpace current in
      if name = [] \<or> current = [] \<or> m = [] then None
      else case mask_pairs (responseHeaderReplacementPairs rules m name (TrimSpace (er_headerValuePrefix request))) (current, False) of
        (next, replaced) \<Rightarrow> if replaced then Some next else None)"

fun items_from_map :: "string set \<Rightarrow> (string \<times> string) list \<Rightarrow> HeaderItem list" where
  "items_from_map allowed [] = []"
| "items_from_map allowed ((n, v) # hs) =
     (let name = normalizeHTTPHeaderName n; value = TrimSpace v in
      if name = [] \<or> value = [] \<or> (allowed \<noteq> {} \<and> name \<notin> allowed) then items_from_map allowed hs
      else \<lparr>hi_name = name, hi_currentValue = value\<rparr> # items_from_map allowed hs)"

definition headerReplacementItemsFromMap :: "(string \<times> string) list \<Rightarrow> string list \<Rightarrow> HeaderItem list" where
  "headerReplacementItemsFromMap headers names = items_from_map (headerNameSet names) headers"

fun masked_headers ::
    "'r EgressRequest_scheme \<Rightarrow> SimpleReplacementRule list \<Rightarrow> material \<Rightarrow> string set \<Rightarrow> HeaderItem list \<Rightarrow> HeaderMutation option list" where
  "masked_headers request rules m allowed [] = []"
| "masked_headers request rules m allowed (item # items) =
     (let name = normalizeHTTPHeaderName (hi_name item); current = TrimSpace (hi_currentValue item) in
      if allowed \<noteq> {} \<and> name \<notin> allowed \<or> name = [] \<or> current = [] then masked_headers request rules m allowed items
      else case replaceEgressAuthResponseHeader request rules m name current of
        None \<Rightarrow> masked_headers request rules m allowed items
      | Some next \<Rightarrow> responseHeaderMutation name next # masked_headers request rules m allowed items)"

definition resolveEgressResponseHeaders :: "EgressResponseRequest \<Rightarrow> material \<Rightarrow> EgressResponse" where
  "resolveEgressResponseHeaders request m =
     (let items = (if er_headers request = []
            then headerReplacementItemsFromMap (er_responseHeaders request) (er_allowedHeaderNames request) else er_headers request);
          headers = masked_headers request (protoSimpleReplacementRules (er_rules request)) m
            (headerNameSet (er_allowedHeaderNames request)) items in
      if headers = [] then skippedEgressAuthResponse
      else \<lparr>es_headers = headers, es_removeHeaders = headerMutationNames headers, es_error = [], es_skipped = False\<rparr>)"

definition ResolveEgressResponseHeaders ::
    "'w AuthServer \<Rightarrow> EgressResponseRequest option \<Rightarrow> 'w \<Rightarrow> EgressResponse result \<times> 'w" where
  "ResolveEgressResponseHeaders s request w =
     (let invalid = ''invalid egress auth response replacement request'' in
      case map_option trim_request request of None \<Rightarrow> (Inl (status_error InvalidArgument invalid), w)
      | Some request \<Rightarrow>
        (case authorize applyEgressRuntimeResponseMetadata s request w of
           (Inl e, w) \<Rightarrow> (Inl e, w)
         | (Inr None, w) \<Rightarrow> (Inr skippedEgressAuthResponse, w)
         | (Inr (Some request), w) \<Rightarrow>
           (case resolve_material s invalid (er_credentialId request) w of
              (Inl e, w) \<Rightarrow> (Inl e, w)
            | (Inr m, w) \<Rightarrow> (Inr (resolveEgressResponseHeaders request m), w))))"

end
