(* ===== verification/Egress_Ext_Authz.thy ===== *)
theory Egress_Ext_Authz
  imports Egress_Resolve
begin

text \<open>
  The external authorization of Envoy (\<open>authservice/egress_ext_authz.go\<close>): every request that leaves a
  workload is checked here before it is forwarded. A nil source reads as one without principal and address.
  \<open>json.Unmarshal\<close> of a list of rules is the parameter \<open>unmarshal\<close>.
\<close>

section \<open>Messages of Envoy\<close>

record Peer =
  peer_principal :: string
  peer_socketAddress :: "string option"

record HttpRequest =
  hr_host :: string
  hr_path :: string
  hr_headers :: "(string \<times> string) list"

record CheckRequest =
  ck_source :: Peer
  ck_http :: "HttpRequest option"

datatype StatusCode = Forbidden | BadGateway

datatype EnvoyAppendAction = EnvoyAppendIfExistsOrAdd | EnvoyAddIfAbsent | EnvoyOverwriteIfExistsOrAdd

record HeaderValueOption =
  hv_key :: string
  hv_value :: string
  hv_action :: EnvoyAppendAction

datatype CheckResponse = AllowedResponse (allowed_headers: "HeaderValueOption list") (allowed_remove: "string list")
  | DeniedResponse grpc_code StatusCode "HeaderValueOption list" string

type_synonym unmarshal_rules = "string \<Rightarrow> SimpleReplacementRule list option"

section \<open>Reading the request\<close>

fun normalize_headers :: "(string \<times> string) list \<Rightarrow> (string \<times> string) list \<Rightarrow> (string \<times> string) list" where
  "normalize_headers [] out = out"
| "normalize_headers ((k, v) # hs) out =
     (let key = normalizeHTTPHeaderName k in
      normalize_headers hs (if key = [] then out else AList.update key (TrimSpace v) out))"

definition normalizedExtAuthzHeaders :: "(string \<times> string) list \<Rightarrow> (string \<times> string) list" where
  "normalizedExtAuthzHeaders values = normalize_headers values []"

definition header_of :: "(string \<times> string) list \<Rightarrow> string \<Rightarrow> string" where
  "header_of headers name = (case map_of headers name of None \<Rightarrow> [] | Some v \<Rightarrow> v)"

definition extAuthzHeaderValue :: "(string \<times> string) list \<Rightarrow> string \<Rightarrow> string" where
  "extAuthzHeaderValue headers name = TrimSpace (header_of headers (normalizeHTTPHeaderName name))"

definition extAuthzHeaderList :: "(string \<times> string) list \<Rightarrow> string \<Rightarrow> string list" where
  "extAuthzHeaderList headers name =
     (let raw = extAuthzHeaderValue headers name in
      if raw = [] then []
      else normalizedHeaderNames (List.filter (\<lambda>p. p \<noteq> []) (List.map normalizeHTTPHeaderName (Split CHR '','' raw))))"

definition extAuthzSimpleReplacementRules :: "unmarshal_rules \<Rightarrow> string \<Rightarrow> SimpleReplacementRule list" where
  "extAuthzSimpleReplacementRules unmarshal raw =
     (let raw = TrimSpace raw in
      if raw = [] then [] else (case unmarshal raw of None \<Rightarrow> [] | Some rules \<Rightarrow> rules))"

definition normalizeSourceAddress :: "string \<Rightarrow> string" where
  "normalizeSourceAddress value =
     (let value = TrimSpace value; (inside, rest, closed) = Cut CHR '']'' value in
      if value = [] then []
      else if HasPrefix value ''['' \<and> closed then tl inside
      else
        (let host = before_last CHR '':'' value in
         Trim (if CHR '':'' \<in> set value \<and> host \<noteq> [] \<and> CHR '':'' \<notin> set host then host else value) ''[]''))"

definition extAuthzPeerIP :: "Peer \<Rightarrow> string" where
  "extAuthzPeerIP peer = (case peer_socketAddress peer of None \<Rightarrow> [] | Some a \<Rightarrow> normalizeSourceAddress a)"

fun namespace_part :: "string list \<Rightarrow> string" where
  "namespace_part (a # b # c # d # parts) =
     (if a = ''ns'' \<and> c = ''sa'' then TrimSpace b else namespace_part (b # c # d # parts))"
| "namespace_part _ = []"

definition extAuthzPeerNamespace :: "string \<Rightarrow> string" where
  "extAuthzPeerNamespace who =
     (let who = TrimSpace who in
      if \<not> HasPrefix who ''spiffe://'' then [] else namespace_part (Split CHR ''/'' who))"

definition extAuthzRuntimeSource :: "Peer \<Rightarrow> string \<Rightarrow> RuntimeSource option" where
  "extAuthzRuntimeSource peer runtimeNamespace =
     (let ip = extAuthzPeerIP peer; namespace = extAuthzPeerNamespace (peer_principal peer) in
      if ip = [] then None
      else if TrimSpace runtimeNamespace \<noteq> [] \<and> namespace \<noteq> TrimSpace runtimeNamespace then None
      else Some (SourcePod (Some \<lparr>pod_namespace = namespace, pod_name = [], pod_uid = [], pod_ip = ip\<rparr>)))"

definition empty_egress_request :: EgressRequest where
  "empty_egress_request = \<lparr>er_credentialId = [], er_adapterId = [], er_targetHost = [], er_targetPath = [],
     er_headerValuePrefix = [], er_origin = [], er_requestHeaders = [], er_rules = [], er_allowedHeaderNames = [],
     er_headers = [], er_runtimeSource = None, er_sourcePrincipal = [], er_providerSurfaceBindingId = [],
     er_egressPolicyId = [], er_authPolicyId = []\<rparr>"

definition extAuthzProviderSurfaceResolveRequest ::
    "unmarshal_rules \<Rightarrow> Peer \<Rightarrow> (string \<times> string) list \<Rightarrow> string \<Rightarrow> string \<Rightarrow> EgressRequest option" where
  "extAuthzProviderSurfaceResolveRequest unmarshal peer headers targetHost targetPath =
     (let bindingID = extAuthzHeaderValue headers HeaderProviderSurfaceBindingID in
      if bindingID = [] then None
      else Some (empty_egress_request
        \<lparr>er_adapterId := extAuthzHeaderValue headers HeaderAuthAdapterID, er_targetHost := targetHost, er_targetPath := targetPath,
         er_headerValuePrefix := extAuthzHeaderValue headers HeaderHeaderValuePrefix, er_requestHeaders := headers,
         er_rules := List.map Some (extAuthzSimpleReplacementRules unmarshal (extAuthzHeaderValue headers HeaderRequestHeaderRulesJSON)),
         er_allowedHeaderNames := extAuthzHeaderList headers HeaderRequestHeaderNames,
         er_sourcePrincipal := TrimSpace (peer_principal peer), er_providerSurfaceBindingId := bindingID,
         er_egressPolicyId := extAuthzHeaderValue headers HeaderEgressPolicyID,
         er_authPolicyId := extAuthzHeaderValue headers HeaderAuthPolicyID\<rparr>))"

definition extAuthzResolveRequest :: "unmarshal_rules \<Rightarrow> CheckRequest option \<Rightarrow> string \<Rightarrow> EgressRequest option" where
  "extAuthzResolveRequest unmarshal request runtimeNamespace =
     (case request of None \<Rightarrow> None | Some request \<Rightarrow>
      (case ck_http request of None \<Rightarrow> None | Some http \<Rightarrow>
        (let headers = normalizedExtAuthzHeaders (hr_headers http);
             targetHost = firstNonEmpty [hr_host http, header_of headers '':authority'', header_of headers ''host''];
             targetPath = firstNonEmpty [hr_path http, header_of headers '':path''] in
         if TrimSpace targetHost = [] \<or> TrimSpace targetPath = [] then None
         else case extAuthzProviderSurfaceResolveRequest unmarshal (ck_source request) headers targetHost targetPath of
           Some r \<Rightarrow> Some r
         | None \<Rightarrow>
           (case extAuthzRuntimeSource (ck_source request) runtimeNamespace of None \<Rightarrow> None
            | Some source \<Rightarrow> Some (empty_egress_request\<lparr>er_targetHost := targetHost, er_targetPath := targetPath,
                er_sourcePrincipal := TrimSpace (peer_principal (ck_source request)), er_requestHeaders := headers,
                er_runtimeSource := Some source\<rparr>)))))"

section \<open>The answer\<close>

fun extAuthzAppendAction :: "AppendAction \<Rightarrow> EnvoyAppendAction" where
  "extAuthzAppendAction AppendIfExistsOrAdd = EnvoyAppendIfExistsOrAdd"
| "extAuthzAppendAction AddIfAbsent = EnvoyAddIfAbsent"
| "extAuthzAppendAction _ = EnvoyOverwriteIfExistsOrAdd"

definition header_option :: "HeaderMutation option \<Rightarrow> HeaderValueOption option" where
  "header_option header =
     (case header of None \<Rightarrow> None | Some h \<Rightarrow>
       (let name = normalizeHTTPHeaderName (hm_name h); value = TrimSpace (hm_value h) in
        if name = [] \<or> value = [] then None
        else Some \<lparr>hv_key = name, hv_value = value, hv_action = extAuthzAppendAction (hm_action h)\<rparr>))"

definition extAuthzHeaderOptions :: "HeaderMutation option list \<Rightarrow> HeaderValueOption list" where
  "extAuthzHeaderOptions headers = List.map_filter header_option headers"

definition normalizedExtAuthzHeaderNames :: "string list \<Rightarrow> string list" where
  "normalizedExtAuthzHeaderNames values = unique_names [] (List.map normalizeHTTPHeaderName values)"

definition allowedExtAuthzResponse :: "HeaderMutation option list \<Rightarrow> string list \<Rightarrow> CheckResponse" where
  "allowedExtAuthzResponse headers removeHeaders =
     AllowedResponse (extAuthzHeaderOptions headers) (normalizedExtAuthzHeaderNames removeHeaders)"

definition deniedExtAuthzResponse :: "grpc_code \<Rightarrow> StatusCode \<Rightarrow> CheckResponse" where
  "deniedExtAuthzResponse code httpStatus =
     DeniedResponse code httpStatus
       (extAuthzHeaderOptions (requestHeaderMutationsFromMap [(''content-type'', ''text/plain; charset=utf-8'')]))
       ''egress auth denied''"

definition statusCodeForExtAuthzError :: "grpc_code \<Rightarrow> StatusCode" where
  "statusCodeForExtAuthzError code =
     (if code \<in> {InvalidArgument, FailedPrecondition, PermissionDenied, NotFound} then Forbidden else BadGateway)"

text \<open>\<open>status.Code\<close> of an error is never \<open>OK\<close>.\<close>

definition egress_Check ::
    "unmarshal_rules \<Rightarrow> 'w AuthServer option \<Rightarrow> CheckRequest option \<Rightarrow> 'w \<Rightarrow> CheckResponse \<times> 'w" where
  "egress_Check unmarshal auth request w =
     (case auth of None \<Rightarrow> (deniedExtAuthzResponse Unavailable BadGateway, w)
      | Some s \<Rightarrow>
        (case extAuthzResolveRequest unmarshal request (srv_runtimeNamespace s) of
           None \<Rightarrow> (allowedExtAuthzResponse [] [], w)
         | Some resolveRequest \<Rightarrow>
           (case ResolveEgressRequestHeaders s (Some resolveRequest) w of
              (Inl e, w) \<Rightarrow> (deniedExtAuthzResponse (status_code e) (statusCodeForExtAuthzError (status_code e)), w)
            | (Inr response, w) \<Rightarrow>
                (if es_skipped response then allowedExtAuthzResponse [] (es_removeHeaders response)
                 else if TrimSpace (es_error response) \<noteq> [] then deniedExtAuthzResponse PermissionDenied Forbidden
                 else allowedExtAuthzResponse (es_headers response) (es_removeHeaders response), w))))"

end
