(* ===== verification/Egress_Laws.thy ===== *)
theory Egress_Laws
  imports Egress_Ext_Authz
begin

text \<open>
  What the egress authentication guarantees: who gets a secret and in which headers, that secrets are
  masked in responses, and that the rules of the catalogue are complete and normal.
\<close>

section \<open>Names of headers\<close>

lemma set_unique_names: "set (unique_names seen ns) = set ns - set seen - {[]}"
  by (induction ns arbitrary: seen) auto

lemma distinct_unique_names: "distinct (unique_names seen ns)"
  by (induction ns arbitrary: seen) (auto simp: set_unique_names)

lemma unique_names_id: "distinct ns \<Longrightarrow> [] \<notin> set ns \<Longrightarrow> set ns \<inter> set seen = {} \<Longrightarrow> unique_names seen ns = ns"
  by (induction ns arbitrary: seen) auto

lemma normalize_name_idem [simp]: "normalizeHTTPHeaderName (normalizeHTTPHeaderName n) = normalizeHTTPHeaderName n"
  by (simp add: normalizeHTTPHeaderName_def)

lemma trim_normalized [simp]: "TrimSpace (normalizeHTTPHeaderName n) = normalizeHTTPHeaderName n"
  by (simp add: normalizeHTTPHeaderName_def)

lemma set_normalizedHeaderNames: "set (normalizedHeaderNames ns) = normalizeHTTPHeaderName ` set ns - {[]}"
  by (auto simp: normalizedHeaderNames_def set_unique_names)

lemma headerNameAllowed_iff:
  "headerNameAllowed ns n \<longleftrightarrow> normalizeHTTPHeaderName n \<in> normalizeHTTPHeaderName ` set ns"
  by (auto simp: headerNameAllowed_def list_ex_iff intro: rev_image_eqI)

text \<open>The names of the headers that are set.\<close>

definition mutated :: "HeaderMutation option list \<Rightarrow> string set" where
  "mutated hs = {hm_name h | h. Some h \<in> set hs}"

lemma keys_update: "fst ` set (AList.update k v xs) = insert k (fst ` set xs)"
  by (induction xs) auto

lemma normalize_header_map_keys:
  "fst ` set (normalize_header_map hs out) \<subseteq> normalizeHTTPHeaderName ` fst ` set hs \<union> fst ` set out"
proof (induction hs arbitrary: out)
  case (Cons h hs)
  obtain n v where h: "h = (n, v)" by force
  show ?case
    using Cons [of out] Cons [of "AList.update (normalizeHTTPHeaderName n) (TrimSpace v) out"]
    unfolding h by (simp add: Let_def keys_update) blast
qed simp

lemma mutation_name: "egressHeaderMutation n v a = Some h \<Longrightarrow> hm_name h = normalizeHTTPHeaderName n"
  by (auto simp: egressHeaderMutation_def Let_def split: if_splits)

lemma normalize_image: "normalizeHTTPHeaderName ` normalizeHTTPHeaderName ` N = normalizeHTTPHeaderName ` N"
  by (simp add: image_image)

lemma mutated_map: "mutated (requestHeaderMutationsFromMap hs) \<subseteq> normalizeHTTPHeaderName ` fst ` set hs"
proof
  fix n assume "n \<in> mutated (requestHeaderMutationsFromMap hs)"
  then obtain h where n: "n = hm_name h" and h: "Some h \<in> set (requestHeaderMutationsFromMap hs)" by (auto simp: mutated_def)
  from h obtain k v where k: "k \<in> fst ` set (normalize_header_map hs [])" and "requestHeaderMutation k v = Some h"
    unfolding requestHeaderMutationsFromMap_def Let_def by (metis (no_types, lifting) image_iff list.set_map set_sort)
  then have "n = normalizeHTTPHeaderName k" using mutation_name by (simp add: n requestHeaderMutation_def)
  moreover have "k \<in> normalizeHTTPHeaderName ` fst ` set hs" using normalize_header_map_keys [of hs "[]"] k by auto
  ultimately show "n \<in> normalizeHTTPHeaderName ` fst ` set hs" using normalize_image by blast
qed

lemma generated_by_rules_keys:
  "generated_by_rules s r m allowed w rules hs = Inr out \<Longrightarrow>
   fst ` set out \<subseteq> fst ` set hs \<union> normalizeHTTPHeaderName ` set allowed"
proof (induction rules arbitrary: hs)
  case (Cons rule rules)
  let ?n = "normalizeHTTPHeaderName (rule_HeaderName rule)"
  show ?case
  proof (cases "?n = [] \<or> \<not> headerNameAllowed allowed ?n")
    case True
    with Cons show ?thesis by (simp add: Let_def)
  next
    case False
    with Cons.prems obtain v where "generated_by_rules s r m allowed w rules (AList.update ?n v hs) = Inr out"
      by (auto simp: Let_def split: option.splits)
    from Cons.IH [OF this] False show ?thesis by (auto simp: keys_update headerNameAllowed_iff)
  qed
qed simp

lemma generated_by_names_keys:
  "generated_by_names r m names hs = Inr out \<Longrightarrow> fst ` set out \<subseteq> fst ` set hs \<union> set names"
proof (induction names arbitrary: hs)
  case (Cons n names)
  then obtain v where "generated_by_names r m names (AList.update n v hs) = Inr out" by (auto split: option.splits)
  from Cons.IH [OF this] show ?case by (auto simp: keys_update)
qed simp

text \<open>A request with a list of names gets only headers with these names.\<close>

lemma generated_names:
  assumes "resolveGeneratedEgressHeaders s r m w = Inr resp" and "normalizedHeaderNames (er_allowedHeaderNames r) \<noteq> []"
  shows "mutated (es_headers resp) \<subseteq> normalizeHTTPHeaderName ` set (er_allowedHeaderNames r)"
proof -
  let ?names = "normalizedHeaderNames (er_allowedHeaderNames r)"
  from assms obtain hs where resp: "resp = request_response hs" and
    "generated_by_rules s r m ?names w (protoSimpleReplacementRules (er_rules r)) [] = Inr hs \<or>
     generated_by_names r m ?names [] = Inr hs"
    by (auto simp: resolveGeneratedEgressHeaders_def Let_def split: if_splits sum.splits)
  then have hs: "fst ` set hs \<subseteq> normalizeHTTPHeaderName ` set ?names \<union> set ?names"
    by (auto dest!: generated_by_rules_keys generated_by_names_keys)
  have "mutated (es_headers resp) \<subseteq> normalizeHTTPHeaderName ` fst ` set hs"
    using mutated_map by (simp add: resp request_response_def)
  also have "\<dots> \<subseteq> normalizeHTTPHeaderName ` set ?names" using hs normalize_image by (metis image_Un image_mono sup.idem)
  also have "\<dots> \<subseteq> normalizeHTTPHeaderName ` set (er_allowedHeaderNames r)"
    by (auto simp: set_normalizedHeaderNames)
  finally show ?thesis .
qed

section \<open>Who gets a secret\<close>

lemma trim_host [simp]: "normalizeTargetHost (TrimSpace h) = normalizeTargetHost h"
  by (simp add: normalizeTargetHost_def)

lemma trim_path [simp]: "normalizeTargetPath (TrimSpace p) = normalizeTargetPath p"
  by (simp add: normalizeTargetPath_def)

text \<open>
  The run of a request is entitled to a credential if its runtime context, found under the source of the
  request, names the credential and the target. A control plane service is entitled to the credential of a
  provider surface it names, at the address of that surface.
\<close>

definition run_entitled :: "'w AuthServer \<Rightarrow> EgressRequest \<Rightarrow> 'w \<Rightarrow> RuntimeMetadata \<Rightarrow> bool" where
  "run_entitled s r w md \<longleftrightarrow> (\<exists>source q call w'. er_runtimeSource r = Some source \<and>
     managementRuntimeContextRequest source = Inr q \<and> srv_runtime s = Some call \<and> call q w = (Inr (Some md), w') \<and>
     matchesEgressTarget (er_targetHost r) (er_targetPath r) md)"

definition surface_entitled :: "'w AuthServer \<Rightarrow> EgressRequest \<Rightarrow> 'w \<Rightarrow> string \<Rightarrow> bool" where
  "surface_entitled s r w credentialID \<longleftrightarrow> er_runtimeSource r = None \<and>
     trustsEgressControlPlanePrincipal s (er_sourcePrincipal r) \<and>
     (\<exists>list ps w' p b. srv_providers s = Some list \<and> list w = (Inr ps, w') \<and> (p, b) \<in> set (surface_projections ps) \<and>
        TrimSpace (sb_surfaceId b) = TrimSpace (er_providerSurfaceBindingId r) \<and>
        matchesProviderSurfaceTarget (srv_urlparse s) (er_targetHost r) b \<and>
        credentialID \<in> {ObservabilityCredentialID (pv_providerId p), TrimSpace (sb_credentialId b)})"

text \<open>The headers a run may get.\<close>

definition run_header_names :: "RuntimeMetadata \<Rightarrow> string list" where
  "run_header_names md = (let names = runtimeHeaderReplacementRuleNames (md_requestRules md) in
     if names \<noteq> [] then names else normalizedHeaderNames (md_requestHeaderNames md))"

lemma applied_metadata:
  "applyEgressRuntimeMetadata r md = Some r' \<Longrightarrow>
     er_credentialId r' = TrimSpace (md_credentialId md) \<and> er_allowedHeaderNames r' = run_header_names md \<and>
     run_header_names md \<noteq> [] \<and> er_runtimeSource r' = er_runtimeSource r \<and>
     matchesEgressTarget (er_targetHost r) (er_targetPath r) md"
  by (auto simp: applyEgressRuntimeMetadata_def run_header_names_def Let_def split: if_splits)

lemma resolved_metadata:
  "resolveEgressRuntimeMetadata s source w = (Inr md, w') \<Longrightarrow>
     \<exists>q call. managementRuntimeContextRequest source = Inr q \<and> srv_runtime s = Some call \<and> call q w = (Inr (Some md), w')"
  by (auto simp: resolveEgressRuntimeMetadata_def split: option.splits sum.splits prod.splits)

lemma find_member: "find P xs = Some x \<Longrightarrow> x \<in> set xs \<and> P x"
  by (induction xs) (auto split: if_splits)

lemma found_surface:
  assumes "FindSurfaceBindingProjection list i w = (Inr (p, b), w')"
  shows "\<exists>ps. list w = (Inr ps, w') \<and> (p, b) \<in> set (surface_projections ps) \<and> TrimSpace (sb_surfaceId b) = TrimSpace i"
  using assms by (auto simp: FindSurfaceBindingProjection_def Let_def split: if_splits sum.splits prod.splits option.splits
      dest!: find_member)

lemma surface_credential:
  assumes "resolveEgressProviderSurfaceCredential s (er_sourcePrincipal r) (er_providerSurfaceBindingId r)
      (er_targetHost r) adapter w = (Inr c, w')" and "er_runtimeSource r = None"
  shows "surface_entitled s r w c"
  using assms unfolding resolveEgressProviderSurfaceCredential_def surface_entitled_def
  by (auto split: if_splits sum.splits prod.splits option.splits dest!: found_surface) blast+

text \<open>Trimming a request changes nothing about who is entitled to what.\<close>

lemma trimmed_host [simp]: "matchesEgressTargetHost (TrimSpace h) hs = matchesEgressTargetHost h hs"
  by (simp add: matchesEgressTargetHost_def)

lemma trimmed_target [simp]: "matchesEgressTarget (TrimSpace h) (TrimSpace p) md = matchesEgressTarget h p md"
  by (simp add: matchesEgressTarget_def matchesEgressTargetPath_def)

lemma trim_fields [simp]:
  "er_runtimeSource (trim_request r) = er_runtimeSource r"
  "er_providerSurfaceBindingId (trim_request r) = TrimSpace (er_providerSurfaceBindingId r)"
  by (simp_all add: trim_request_def)

lemma trimmed_run [simp]: "run_entitled s (trim_request r) w md = run_entitled s r w md"
  by (simp add: run_entitled_def trim_request_def)

lemma trimmed_principal [simp]: "trustsEgressControlPlanePrincipal s (TrimSpace p) = trustsEgressControlPlanePrincipal s p"
  by (simp add: trustsEgressControlPlanePrincipal_def parseIstioSpiffePrincipal_def)

lemma trimmed_surface_target [simp]: "matchesProviderSurfaceTarget u (TrimSpace h) b = matchesProviderSurfaceTarget u h b"
  by (simp add: matchesProviderSurfaceTarget_def split: option.split prod.split)

lemma trimmed_surface [simp]: "surface_entitled s (trim_request r) w c = surface_entitled s r w c"
  by (simp add: surface_entitled_def trim_request_def)

text \<open>The credential an authorized request is about, and why.\<close>

lemma authorized:
  assumes "authorize applyEgressRuntimeMetadata s r w = (Inr (Some r'), w')"
  shows "(\<exists>md. run_entitled s r w md \<and> er_credentialId r' = TrimSpace (md_credentialId md) \<and>
            er_allowedHeaderNames r' = run_header_names md \<and> run_header_names md \<noteq> [] \<and> er_runtimeSource r' \<noteq> None) \<or>
         surface_entitled s r w (er_credentialId r') \<or>
         (r' = r \<and> er_runtimeSource r = None \<and> er_providerSurfaceBindingId r = [])"
proof (cases "er_runtimeSource r")
  case None
  then show ?thesis
  proof (cases "er_providerSurfaceBindingId r = []")
    case False
    with assms None obtain c where c: "resolveEgressProviderSurfaceCredential s (er_sourcePrincipal r) (er_providerSurfaceBindingId r)
        (er_targetHost r) (er_adapterId r) w = (Inr c, w')" and "er_credentialId r' = c"
      by (auto simp: authorize_def split: prod.splits sum.splits if_splits)
    with surface_credential [OF c None] show ?thesis by simp
  qed (use assms in \<open>simp add: authorize_def\<close>)
next
  case (Some source)
  with assms obtain md where m: "resolveEgressRuntimeMetadata s source w = (Inr md, w')" and a: "applyEgressRuntimeMetadata r md = Some r'"
    by (auto simp: authorize_def split: prod.splits sum.splits if_splits)
  from resolved_metadata [OF m] Some applied_metadata [OF a] have "run_entitled s r w md" unfolding run_entitled_def by auto
  with applied_metadata [OF a] Some show ?thesis by auto
qed

lemma released:
  assumes "ResolveEgressRequestHeaders s (Some r0) w = (Inr resp, w')" and "es_headers resp \<noteq> []"
  shows "\<exists>r' m v. authorize applyEgressRuntimeMetadata s (trim_request r0) w = (Inr (Some r'), v) \<and>
    resolve_material s ''invalid egress auth replacement request'' (er_credentialId r') v = (Inr m, w') \<and>
    requested_headers s r' m w' = Inr resp"
proof -
  obtain x v where a: "authorize applyEgressRuntimeMetadata s (trim_request r0) w = (x, v)" by force
  from assms a obtain r' where x: "x = Inr (Some r')"
    by (cases x) (auto simp: ResolveEgressRequestHeaders_def skippedEgressAuthResponse_def Let_def split: if_splits option.splits)
  obtain y u where m: "resolve_material s ''invalid egress auth replacement request'' (er_credentialId r') v = (y, u)" by force
  from assms(1) a x m show ?thesis
    by (cases y) (auto simp: ResolveEgressRequestHeaders_def split: if_splits)
qed

lemma resolved_material:
  "resolve_material s e c v = (Inr m, w') \<Longrightarrow> c \<noteq> [] \<and> (\<exists>resolve x. srv_credentials s = Some resolve \<and> resolve c v = (Inr x, w'))"
  by (auto simp: resolve_material_def split: if_splits option.splits prod.splits sum.splits)

lemma run_names: "n \<in> set (run_header_names md) \<Longrightarrow> n \<noteq> [] \<and> normalizeHTTPHeaderName n = n"
  by (auto simp: run_header_names_def Let_def runtimeHeaderReplacementRuleNames_def set_unique_names set_normalizedHeaderNames
      split: option.splits if_splits)

lemma run_names_normal: "run_header_names md \<noteq> [] \<Longrightarrow> normalizedHeaderNames (run_header_names md) \<noteq> []"
proof -
  assume "run_header_names md \<noteq> []"
  then have "hd (run_header_names md) \<in> set (normalizedHeaderNames (run_header_names md))"
    using run_names [of "hd (run_header_names md)" md] by (cases "run_header_names md") (auto simp: set_normalizedHeaderNames)
  then show ?thesis by auto
qed

text \<open>Reading the answer of Envoy's check backwards.\<close>

lemma check_allowed:
  assumes "egress_Check unmarshal (Some s) request w = (AllowedResponse hs removed, w')" and "hs \<noteq> []"
  shows "\<exists>r0 resp. extAuthzResolveRequest unmarshal request (srv_runtimeNamespace s) = Some r0 \<and>
    ResolveEgressRequestHeaders s (Some r0) w = (Inr resp, w') \<and> hs = extAuthzHeaderOptions (es_headers resp) \<and>
    removed = normalizedExtAuthzHeaderNames (es_removeHeaders resp)"
  using assms by (auto simp: egress_Check_def allowedExtAuthzResponse_def deniedExtAuthzResponse_def extAuthzHeaderOptions_def
      split: option.splits prod.splits sum.splits if_splits)

lemma requested_response: "requested_headers s r m w = Inr resp \<Longrightarrow> \<exists>hs. resp = request_response hs"
  by (auto simp: requested_headers_def resolveGeneratedEgressHeaders_def Let_def split: if_splits sum.splits)

lemma map_filter_in: "y \<in> set (List.map_filter f xs) \<longleftrightarrow> (\<exists>x \<in> set xs. f x = Some y)"
  by (induction xs) (auto simp: List.map_filter_simps split: option.splits)

lemma header_option_key: "header_option x = Some y \<Longrightarrow> \<exists>h. x = Some h \<and> hv_key y = normalizeHTTPHeaderName (hm_name h)"
  by (auto simp: header_option_def Let_def split: option.splits if_splits)

lemma option_keys: "hv_key ` set (extAuthzHeaderOptions hs) \<subseteq> normalizeHTTPHeaderName ` mutated hs"
proof
  fix k assume "k \<in> hv_key ` set (extAuthzHeaderOptions hs)"
  then obtain x y where x: "x \<in> set hs" "header_option x = Some y" and k: "k = hv_key y"
    by (auto simp: extAuthzHeaderOptions_def map_filter_in)
  from header_option_key [OF x(2)] x(1) k show "k \<in> normalizeHTTPHeaderName ` mutated hs" unfolding mutated_def by blast
qed

lemma ext_authz_request:
  assumes "extAuthzResolveRequest unmarshal request rn = Some r"
  shows "TrimSpace (er_providerSurfaceBindingId r) \<noteq> [] \<or>
    (TrimSpace rn = [] \<or> extAuthzPeerNamespace (peer_principal (ck_source (the request))) = TrimSpace rn) \<and> er_runtimeSource r \<noteq> None"
    and "er_runtimeSource r \<noteq> None \<Longrightarrow>
      TrimSpace rn = [] \<or> extAuthzPeerNamespace (peer_principal (ck_source (the request))) = TrimSpace rn"
  using assms by (auto simp: extAuthzResolveRequest_def extAuthzProviderSurfaceResolveRequest_def extAuthzRuntimeSource_def
      extAuthzHeaderValue_def empty_egress_request_def Let_def split: option.splits if_splits)

lemma internal_names: "normalizedExtAuthzHeaderNames InternalHeaders = InternalHeaders"
  by code_simp

section \<open>Masking\<close>

lemma mask_keeps:
  assumes "\<forall>(u, p) \<in> set pairs. clean_of t p" and "\<not> sublist t v"
  shows "\<not> sublist t (fst (mask_pairs pairs (v, b)))"
  using assms
proof (induction pairs arbitrary: v b)
  case (Cons x pairs)
  obtain u q where x: "x = (u, q)" by force
  have "\<not> sublist t (ReplaceAll v u q)" if "u \<noteq> []"
    using replaced_creates [OF that] Cons.prems unfolding x by auto
  with Cons show ?case unfolding x by auto
qed simp

lemma mask_removes:
  assumes "\<forall>(u, p) \<in> set pairs. clean_of t p" and "(t, p) \<in> set pairs"
  shows "\<not> sublist t (fst (mask_pairs pairs (v, b)))"
  using assms
proof (induction pairs arbitrary: v b)
  case (Cons x pairs)
  obtain u q where x: "x = (u, q)" by force
  have c: "t \<noteq> []" "q \<noteq> []" "clean_of t q" "\<forall>(u, p) \<in> set pairs. clean_of t p"
    using Cons.prems unfolding x by (auto simp: clean_of_def)
  show ?case
  proof (cases "u = t")
    case True
    have "\<not> sublist t (fst (mask_pairs pairs (v, b)))" if "\<not> sublist t v" for v b using mask_keeps [OF c(4) that] .
    with replaced_gone [OF c(3)] c True show ?thesis unfolding x by (simp add: Contains_sublist)
  next
    case False
    with Cons.prems have "(t, p) \<in> set pairs" unfolding x by auto
    with Cons.IH c(4) show ?thesis unfolding x by simp
  qed
qed simp

lemma mask_done [simp]: "snd (mask_pairs pairs (v, True))"
  by (induction pairs arbitrary: v) auto

lemma mask_unchanged: "\<not> snd (mask_pairs pairs (v, b)) \<Longrightarrow> fst (mask_pairs pairs (v, b)) = v"
  by (induction pairs arbitrary: v b) (auto split: if_splits)

lemma mask_places:
  assumes "\<forall>(u, p) \<in> set pairs. c \<in> set p" and "b \<longrightarrow> c \<in> set v" and "snd (mask_pairs pairs (v, b))"
  shows "c \<in> set (fst (mask_pairs pairs (v, b)))"
  using assms
proof (induction pairs arbitrary: v b)
  case (Cons x pairs)
  obtain u q where x: "x = (u, q)" by force
  have "c \<in> set (ReplaceAll v u q)" if "u \<noteq> []" "Contains v u"
    using ReplaceAll_has [OF that(1), of v q] that(2) Cons.prems(1) set_mono_sublist unfolding x
    by (fastforce simp: Contains_sublist)
  with Cons show ?case unfolding x by (auto split: if_splits)
qed simp

text \<open>The pairs of the rules: their placeholders, and the secret of each rule.\<close>

lemma Placeholder_char: "CHR ''P'' \<in> set Placeholder" "plain_char CHR ''P''"
  by (simp_all add: Placeholder_def plain_char_def)

lemma rule_pairs_char: "(u, p) \<in> set (responseHeaderReplacementPairsForRule r m pre) \<Longrightarrow> CHR ''P'' \<in> set p"
  using Placeholder_char(1) by (auto simp: responseHeaderReplacementPairsForRule_def Let_def Contains_sublist
      dest: set_mono_sublist split: if_splits)

lemma rule_pairs_token:
  "rule_token r m \<noteq> [] \<Longrightarrow> (rule_token r m, Placeholder) \<in> set (responseHeaderReplacementPairsForRule r m pre)"
  by (simp add: responseHeaderReplacementPairsForRule_def Let_def)

lemma rule_name: "rule_HeaderName (NormalizeSimpleReplacementRule r) = normalizeHTTPHeaderName (rule_HeaderName r)"
  by (simp add: NormalizeSimpleReplacementRule_def Let_def normalizeHTTPHeaderName_def)

text \<open>Normalizing a rule twice is normalizing it once.\<close>

lemma normalize_rule_idem [simp]: "NormalizeSimpleReplacementRule (NormalizeSimpleReplacementRule r) = NormalizeSimpleReplacementRule r"
proof -
  have "TrimSpace ''Bearer'' = ''Bearer''" "TrimSpace MaterialKeyAccessToken = MaterialKeyAccessToken"
    "TrimSpace MaterialKeyAPIKey = MaterialKeyAPIKey" by code_simp+
  then show ?thesis by (auto simp: NormalizeSimpleReplacementRule_def Let_def default_to_def)
qed

lemma rule_token_normal [simp]: "rule_token (NormalizeSimpleReplacementRule r) m = rule_token r m"
  by (simp add: rule_token_def)

definition response_pairs :: "'r EgressRequest_scheme \<Rightarrow> material \<Rightarrow> string \<Rightarrow> (string \<times> string) list" where
  "response_pairs r m n = responseHeaderReplacementPairs (protoSimpleReplacementRules (er_rules r)) m n
     (TrimSpace (er_headerValuePrefix r))"

lemma response_pairs_char: "(u, p) \<in> set (response_pairs r m n) \<Longrightarrow> CHR ''P'' \<in> set p"
  by (auto simp: response_pairs_def responseHeaderReplacementPairs_def Let_def split: if_splits dest: rule_pairs_char)

lemma response_pairs_token:
  assumes "rule \<in> set (protoSimpleReplacementRules (er_rules r))" and "normalizeHTTPHeaderName (rule_HeaderName rule) = n"
    and "rule_token rule m \<noteq> []"
  shows "(rule_token rule m, Placeholder) \<in> set (response_pairs r m n)"
  using assms rule_pairs_token [of "NormalizeSimpleReplacementRule rule" m]
  by (fastforce simp: response_pairs_def responseHeaderReplacementPairs_def Let_def rule_name)

text \<open>What becomes of one header.\<close>

lemma masked_header:
  assumes "normalizeHTTPHeaderName n = n" and "\<forall>(u, p) \<in> set (response_pairs r m n). clean_of t p"
    and "(t, p) \<in> set (response_pairs r m n)"
  shows "(case replaceEgressAuthResponseHeader r (protoSimpleReplacementRules (er_rules r)) m n v of
      None \<Rightarrow> n = [] \<or> m = [] \<or> \<not> sublist t (TrimSpace v)
    | Some u \<Rightarrow> TrimSpace u \<noteq> [] \<and> \<not> sublist t (TrimSpace u))"
proof -
  let ?out = "mask_pairs (response_pairs r m n) (TrimSpace v, False)"
  have gone: "\<not> sublist t (fst ?out)" by (rule mask_removes [OF assms(2,3)])
  then have "\<not> sublist t (TrimSpace (fst ?out))" using TrimSpace_sublist sublist_order.order.trans by blast
  moreover have "TrimSpace (fst ?out) \<noteq> []" if "snd ?out"
    using mask_places [OF _ _ that, of "CHR ''P''"] response_pairs_char TrimSpace_has_plain Placeholder_char(2) by blast
  moreover have "\<not> sublist t (TrimSpace v)" if "\<not> snd ?out" using gone mask_unchanged [OF that] by simp
  moreover have "t \<noteq> []" using assms(2,3) by (auto simp: clean_of_def)
  ultimately show ?thesis using assms(1)
    by (auto simp: replaceEgressAuthResponseHeader_def Let_def response_pairs_def [symmetric] split: prod.splits)
qed

text \<open>The headers of an answer come from the items of the request.\<close>

lemma response_mutation: "responseHeaderMutation n v = (if normalizeHTTPHeaderName n = [] \<or> TrimSpace v = [] then None
    else Some \<lparr>hm_name = normalizeHTTPHeaderName n, hm_value = TrimSpace v,
      hm_action = (if normalizeHTTPHeaderName n = HTTPHeaderSetCookie then AppendIfExistsOrAdd else OverwriteIfExistsOrAdd)\<rparr>)"
  by (simp add: responseHeaderMutation_def egressHeaderMutation_def)

lemma masked_from:
  "Some h \<in> set (masked_headers r rules m al items) \<Longrightarrow> \<exists>v u. replaceEgressAuthResponseHeader r rules m (hm_name h) v = Some u \<and>
     hm_value h = TrimSpace u \<and> normalizeHTTPHeaderName (hm_name h) = hm_name h"
proof (induction items)
  case (Cons item items)
  let ?n = "normalizeHTTPHeaderName (hi_name item)"
  from Cons.prems consider "Some h \<in> set (masked_headers r rules m al items)"
    | u where "replaceEgressAuthResponseHeader r rules m ?n (TrimSpace (hi_currentValue item)) = Some u" "responseHeaderMutation ?n u = Some h"
    by (auto simp: Let_def split: if_splits option.splits)
  then show ?case
  proof cases
    case (2 u)
    then have "hm_name h = ?n" "hm_value h = TrimSpace u" by (auto simp: response_mutation split: if_splits)
    with 2(1) show ?thesis by auto
  qed (rule Cons.IH)
qed simp

lemma masked_to:
  assumes "item \<in> set items" and "normalizeHTTPHeaderName (hi_name item) = n" and "n \<noteq> []" and "al = {} \<or> n \<in> al"
    and "TrimSpace (hi_currentValue item) \<noteq> []"
    and "replaceEgressAuthResponseHeader r rules m n (TrimSpace (hi_currentValue item)) = Some u" and "TrimSpace u \<noteq> []"
  shows "\<exists>h. Some h \<in> set (masked_headers r rules m al items) \<and> hm_name h = n"
  using assms(1)
proof (induction items)
  case (Cons x items)
  show ?case
  proof (cases "x = item")
    case True
    have n: "normalizeHTTPHeaderName n = n" using assms(2) by auto
    then obtain h where h: "responseHeaderMutation n u = Some h" "hm_name h = n"
      using assms(3,7) by (simp add: response_mutation)
    have "masked_headers r rules m al (x # items) = Some h # masked_headers r rules m al items"
      using assms(3,4) by (auto simp: True Let_def assms(2,5,6) h(1))
    with h(2) show ?thesis by auto
  next
    case False
    with Cons obtain h where "Some h \<in> set (masked_headers r rules m al items) \<and> hm_name h = n" by auto
    then show ?thesis by (auto simp: Let_def split: option.splits)
  qed
qed simp

lemma headerMutationNames_in: "Some h \<in> set hs \<Longrightarrow> normalizeHTTPHeaderName (hm_name h) = n \<Longrightarrow> n \<noteq> [] \<Longrightarrow> n \<in> set (headerMutationNames hs)"
  by (force simp: headerMutationNames_def set_unique_names)

lemma response_headers:
  assumes "er_headers r \<noteq> []"
  shows "es_headers (resolveEgressResponseHeaders r m) = masked_headers r (protoSimpleReplacementRules (er_rules r)) m
      (headerNameSet (er_allowedHeaderNames r)) (er_headers r)"
    and "masked_headers r (protoSimpleReplacementRules (er_rules r)) m (headerNameSet (er_allowedHeaderNames r)) (er_headers r) = hs \<Longrightarrow>
      hs \<noteq> [] \<Longrightarrow> es_removeHeaders (resolveEgressResponseHeaders r m) = headerMutationNames hs"
  using assms by (simp_all add: resolveEgressResponseHeaders_def skippedEgressAuthResponse_def Let_def)

section \<open>There and back\<close>

text \<open>The value of a rule's header around \<open>x\<close>: the placeholder on one side of the proxy, the secret on the other.\<close>

definition header_form :: "SimpleReplacementRule \<Rightarrow> string \<Rightarrow> string \<Rightarrow> string" where
  "header_form rule requestPrefix x =
     (let rule = NormalizeSimpleReplacementRule rule; template = TrimSpace (rule_Template rule);
          pre = firstNonEmpty [rule_HeaderValuePrefix rule, requestPrefix] in
      if template \<noteq> [] then ReplaceAll template Placeholder x
      else if pre \<noteq> [] then pre @ '' '' @ x else x)"

lemma token_of_key:
  "materialByNormalKey m key \<noteq> [] \<Longrightarrow> runtimeMaterialByNormalKey m key = Some (materialByNormalKey m key)"
  by (induction m) (auto split: if_splits)

lemma token_material: "materialByNormalKey m key \<noteq> [] \<Longrightarrow> hasReplacementMaterial m"
proof (induction m)
  case (Cons x m)
  then show ?case by (cases x) (auto simp: hasReplacementMaterial_def split: if_splits)
qed simp

lemma trimmed_prefix [simp]: "firstNonEmpty [a, TrimSpace b] = firstNonEmpty [a, b]"
  by simp

lemma Placeholder_facts: "Placeholder \<noteq> []" "TrimSpace Placeholder = Placeholder"
  by (simp add: Placeholder_def) code_simp

text \<open>The secret of a rule that sets a header, as the request side finds it.\<close>

definition set_token :: "SimpleReplacementRule \<Rightarrow> material \<Rightarrow> string" where
  "set_token rule m = (let key = TrimSpace (rule_MaterialKey (NormalizeSimpleReplacementRule rule)) in
     if key \<noteq> [] then materialByKey m key else [])"

lemma set_token_rule: "set_token rule m \<noteq> [] \<Longrightarrow> rule_token rule m = set_token rule m"
  using token_of_key by (auto simp: set_token_def rule_token_def materialByKey_def runtimeMaterialByKey_def Let_def)

lemma replaced_value:
  assumes "token \<noteq> []" and "TrimSpace pre = pre" and "f = (if pre \<noteq> [] then pre @ '' '' @ Placeholder else Placeholder)"
    and "TrimSpace f = f"
  shows "(if TrimSpace f = Placeholder \<and> TrimSpace pre \<noteq> [] then (if token = [] then None else Some (TrimSpace pre @ '' '' @ token))
    else replacementValue f pre token) = Some (if pre \<noteq> [] then pre @ '' '' @ token else token)"
proof (cases "pre = []")
  case False
  then have "f \<noteq> Placeholder" using assms(3) by simp
  with False assms show ?thesis by (simp add: replacementValue_def Let_def)
next
  case True
  with assms Placeholder_facts show ?thesis by (simp add: replacementValue_def Let_def)
qed

lemma replace_placeholder:
  assumes "set_token rule m \<noteq> []" and "ri_Material input = m"
    and "TrimSpace (rule_Template (NormalizeSimpleReplacementRule rule)) \<noteq> [] \<longrightarrow>
      Contains (TrimSpace (rule_Template (NormalizeSimpleReplacementRule rule))) Placeholder"
    and "TrimSpace (header_form rule (ri_HeaderValuePrefix input) Placeholder) = header_form rule (ri_HeaderValuePrefix input) Placeholder"
  shows "replaceRuleHeader input rule headerName (header_form rule (ri_HeaderValuePrefix input) Placeholder) =
    Some (header_form rule (ri_HeaderValuePrefix input) (set_token rule m))"
proof -
  let ?r = "NormalizeSimpleReplacementRule rule"
  define pre where "pre = firstNonEmpty [rule_HeaderValuePrefix ?r, ri_HeaderValuePrefix input]"
  define f where "f = header_form rule (ri_HeaderValuePrefix input) Placeholder"
  have key: "TrimSpace (rule_MaterialKey ?r) \<noteq> []" "materialByKey m (TrimSpace (rule_MaterialKey ?r)) = set_token rule m"
    using assms(1) by (auto simp: set_token_def Let_def split: if_splits)
  have form: "header_form rule (ri_HeaderValuePrefix input) x = (if TrimSpace (rule_Template ?r) \<noteq> []
      then ReplaceAll (TrimSpace (rule_Template ?r)) Placeholder x else if pre \<noteq> [] then pre @ '' '' @ x else x)" for x
    by (simp only: header_form_def pre_def Let_def)
  have eq: "replaceRuleHeader input rule headerName f = (if TrimSpace (rule_Template ?r) \<noteq> [] then
      (if set_token rule m = [] \<or> \<not> Contains (TrimSpace (rule_Template ?r)) Placeholder then None
       else Some (ReplaceAll (TrimSpace (rule_Template ?r)) Placeholder (set_token rule m)))
    else if TrimSpace f = Placeholder \<and> TrimSpace pre \<noteq> [] then
      (if set_token rule m = [] then None else Some (TrimSpace pre @ '' '' @ set_token rule m))
    else replacementValue f pre (set_token rule m))"
    using key by (simp only: replaceRuleHeader_def Let_def assms(2) pre_def [symmetric]) simp
  have pre: "TrimSpace pre = pre" unfolding pre_def by (rule TrimSpace_firstNonEmpty)
  show ?thesis
  proof (cases "TrimSpace (rule_Template ?r) = []")
    case True
    then have "f = (if pre \<noteq> [] then pre @ '' '' @ Placeholder else Placeholder)" unfolding f_def form by simp
    from replaced_value [OF assms(1) pre this assms(4) [folded f_def]] eq True show ?thesis unfolding f_def form by simp
  next
    case False
    with eq assms(1,3) show ?thesis unfolding f_def form by simp
  qed
qed

lemma form_trim [simp]: "header_form rule (TrimSpace p) x = header_form rule p x"
  by (simp only: header_form_def trimmed_prefix)

lemma form_normal [simp]: "header_form (NormalizeSimpleReplacementRule rule) p x = header_form rule p x"
  by (simp add: header_form_def)

lemma replaceRuleHeader_normal: "replaceRuleHeader input (NormalizeSimpleReplacementRule rule) = replaceRuleHeader input rule"
  by (intro ext) (simp only: replaceRuleHeader_def normalize_rule_idem)

lemma form_has:
  assumes "TrimSpace (rule_Template (NormalizeSimpleReplacementRule rule)) \<noteq> [] \<longrightarrow>
      Contains (TrimSpace (rule_Template (NormalizeSimpleReplacementRule rule))) Placeholder"
  shows "sublist x (header_form rule p x)"
proof -
  have "sublist x (q @ '' '' @ x)" for q using sublist_append_leftI [of x "q @ '' ''"] by simp
  with assms ReplaceAll_has [OF Placeholder_facts(1)] show ?thesis
    by (auto simp: header_form_def Let_def Contains_sublist simp del: firstNonEmpty.simps)
qed

lemma sublist_ne: "sublist x y \<Longrightarrow> x \<noteq> [] \<Longrightarrow> y \<noteq> []"
  by auto

lemma pairs_normal [simp]:
  "responseHeaderReplacementPairsForRule (NormalizeSimpleReplacementRule rule) m p = responseHeaderReplacementPairsForRule rule m p"
  by (simp only: responseHeaderReplacementPairsForRule_def Let_def rule_token_normal normalize_rule_idem)

text \<open>What masks the secret of one rule.\<close>

lemma mask_form:
  assumes "rule_token rule m = t" and "t \<noteq> []" and "\<not> Contains (header_form rule p Placeholder) t"
    and "TrimSpace (rule_Template (NormalizeSimpleReplacementRule rule)) \<noteq> [] \<longrightarrow>
      Contains (TrimSpace (rule_Template (NormalizeSimpleReplacementRule rule))) Placeholder"
  shows "mask_pairs (responseHeaderReplacementPairsForRule rule m p) (header_form rule p t, False) =
    (header_form rule p Placeholder, True)"
proof -
  let ?r = "NormalizeSimpleReplacementRule rule"
  define pre where "pre = firstNonEmpty [rule_HeaderValuePrefix ?r, p]"
  define v where "v = header_form rule p t"
  define f where "f = header_form rule p Placeholder"
  have form: "header_form rule p x = (if TrimSpace (rule_Template ?r) \<noteq> []
      then ReplaceAll (TrimSpace (rule_Template ?r)) Placeholder x else if pre \<noteq> [] then pre @ '' '' @ x else x)" for x
    by (simp only: header_form_def pre_def Let_def)
  have pre: "TrimSpace pre = pre" unfolding pre_def by (rule TrimSpace_firstNonEmpty)
  have pairs: "responseHeaderReplacementPairsForRule rule m p = (if TrimSpace (rule_Template ?r) = [] \<and> pre = []
      then [(t, Placeholder)] else [(v, f), (t, Placeholder)])"
    using assms(1,2,4) unfolding v_def f_def form
    by (simp only: responseHeaderReplacementPairsForRule_def Let_def pre_def [symmetric] pre) simp
  have "v \<noteq> []" "f \<noteq> []"
    using sublist_ne [OF form_has [OF assms(4)]] assms(2) Placeholder_facts(1) unfolding v_def f_def by blast+
  moreover have "f = Placeholder \<and> v = t" if "TrimSpace (rule_Template ?r) = [] \<and> pre = []"
    using that unfolding v_def f_def form by simp
  ultimately show ?thesis using assms(2,3) Placeholder_facts(1) ReplaceAll_whole
    unfolding pairs v_def [symmetric] f_def [symmetric] by (auto simp: Contains_sublist)
qed

section \<open>The catalogue\<close>

lemma normalized_rules: "map NormalizeSimpleReplacementRule (normalizeRules rules) = normalizeRules rules"
  by (induction rules) (simp_all add: normalizeRules_def)

lemma rule_names:
  "distinct (ruleHeaderNames (normalizeRules rules)) \<and> set (ruleHeaderNames (normalizeRules rules)) = rule_HeaderName ` set (normalizeRules rules)"
proof -
  have "ToLower (TrimSpace (rule_HeaderName r)) = rule_HeaderName r \<and> rule_HeaderName r \<noteq> []" if "r \<in> set (normalizeRules rules)" for r
    using that by (auto simp: normalizeRules_def rule_name normalizeHTTPHeaderName_def)
  then have "(\<lambda>r. ToLower (TrimSpace (rule_HeaderName r))) ` set (normalizeRules rules) = rule_HeaderName ` set (normalizeRules rules)"
    "[] \<notin> rule_HeaderName ` set (normalizeRules rules)" by (auto intro!: image_cong) (metis)
  then show ?thesis by (auto simp: ruleHeaderNames_def distinct_unique_names set_unique_names)
qed

lemma sorted_unique: "sorted (sortedUniqueHeaders vs) \<and> distinct (sortedUniqueHeaders vs) \<and>
    set (sortedUniqueHeaders vs) = (\<lambda>v. ToLower (TrimSpace v)) ` set vs - {[]}"
  by (simp add: sortedUniqueHeaders_def distinct_unique_names set_unique_names)

lemma deny_headers:
  assumes "\<forall>n \<in> set names. normalizeHTTPHeaderName n = n \<and> n \<noteq> []"
  shows "sorted (downstreamDenyHeaders names) \<and> distinct (downstreamDenyHeaders names) \<and>
    set (downstreamDenyHeaders names) = (if names = [] then {} else insert HTTPHeaderContentType (set names))"
proof -
  have c: "ToLower (TrimSpace HTTPHeaderContentType) = HTTPHeaderContentType" "HTTPHeaderContentType \<noteq> []" by code_simp+
  have n: "(\<lambda>v. ToLower (TrimSpace v)) ` set names = set names" "[] \<notin> set names"
    using assms by (auto simp: normalizeHTTPHeaderName_def image_iff)
  show ?thesis using n sorted_unique [of "HTTPHeaderContentType # names"] by (auto simp: downstreamDenyHeaders_def c)
qed

lemma released_to_entitled:
  assumes "egress_Check unmarshal (Some s) request w = (AllowedResponse hs removed, w')" and "hs \<noteq> []"
  shows "removed = InternalHeaders \<and> (\<exists>r c creds v x. extAuthzResolveRequest unmarshal request (srv_runtimeNamespace s) = Some r \<and>
    c \<noteq> [] \<and> srv_credentials s = Some creds \<and> creds c v = (Inr x, w') \<and>
    (surface_entitled s r w c \<or>
     (\<exists>md. run_entitled s r w md \<and> c = TrimSpace (md_credentialId md) \<and>
        hv_key ` set hs \<subseteq> normalizeHTTPHeaderName ` set (run_header_names md) \<and>
        (TrimSpace (srv_runtimeNamespace s) = [] \<or>
         extAuthzPeerNamespace (peer_principal (ck_source (the request))) = TrimSpace (srv_runtimeNamespace s)))))"
proof -
  let ?rn = "srv_runtimeNamespace s"
  from check_allowed [OF assms] obtain r resp where r: "extAuthzResolveRequest unmarshal request ?rn = Some r"
    and res: "ResolveEgressRequestHeaders s (Some r) w = (Inr resp, w')" and hs: "hs = extAuthzHeaderOptions (es_headers resp)"
    and rem: "removed = normalizedExtAuthzHeaderNames (es_removeHeaders resp)" by blast
  from hs assms(2) have "es_headers resp \<noteq> []" by (auto simp: extAuthzHeaderOptions_def)
  from released [OF res this] obtain r' m v where a: "authorize applyEgressRuntimeMetadata s (trim_request r) w = (Inr (Some r'), v)"
    and c: "resolve_material s ''invalid egress auth replacement request'' (er_credentialId r') v = (Inr m, w')"
    and q: "requested_headers s r' m w' = Inr resp" by blast
  from requested_response [OF q] rem internal_names have "removed = InternalHeaders" by (auto simp: request_response_def)
  moreover from resolved_material [OF c] obtain creds x where c: "er_credentialId r' \<noteq> []" "srv_credentials s = Some creds"
    "creds (er_credentialId r') v = (Inr x, w')" by blast
  moreover from authorized [OF a] have "surface_entitled s r w (er_credentialId r') \<or> (\<exists>md. run_entitled s r w md \<and> er_credentialId r' = TrimSpace (md_credentialId md) \<and>
      hv_key ` set hs \<subseteq> normalizeHTTPHeaderName ` set (run_header_names md) \<and>
      (TrimSpace ?rn = [] \<or> extAuthzPeerNamespace (peer_principal (ck_source (the request))) = TrimSpace ?rn))"
  proof (elim disjE exE conjE)
    fix md assume e: "run_entitled s (trim_request r) w md" "er_credentialId r' = TrimSpace (md_credentialId md)"
      "er_allowedHeaderNames r' = run_header_names md" "run_header_names md \<noteq> []" "er_runtimeSource r' \<noteq> None"
    then have "mutated (es_headers resp) \<subseteq> normalizeHTTPHeaderName ` set (run_header_names md)"
      using q generated_names [of s r' m w' resp] run_names_normal by (simp add: requested_headers_def)
    then have "normalizeHTTPHeaderName ` mutated (es_headers resp) \<subseteq> normalizeHTTPHeaderName ` set (run_header_names md)"
      using image_mono normalize_image by metis
    then have "hv_key ` set hs \<subseteq> normalizeHTTPHeaderName ` set (run_header_names md)"
      using option_keys [of "es_headers resp"] unfolding hs by (rule order_trans [rotated])
    moreover have "er_runtimeSource r \<noteq> None" using e(1) by (auto simp: run_entitled_def)
    ultimately show ?thesis using e ext_authz_request(2) [OF r] by auto
  qed (use ext_authz_request(1) [OF r] in simp_all)
  ultimately have "removed = InternalHeaders \<and> extAuthzResolveRequest unmarshal request ?rn = Some r \<and> er_credentialId r' \<noteq> [] \<and>
      srv_credentials s = Some creds \<and> creds (er_credentialId r') v = (Inr x, w') \<and>
      (surface_entitled s r w (er_credentialId r') \<or> (\<exists>md. run_entitled s r w md \<and> er_credentialId r' = TrimSpace (md_credentialId md) \<and>
      hv_key ` set hs \<subseteq> normalizeHTTPHeaderName ` set (run_header_names md) \<and>
      (TrimSpace ?rn = [] \<or> extAuthzPeerNamespace (peer_principal (ck_source (the request))) = TrimSpace ?rn)))"
    using r by simp
  then show ?thesis by (elim conjE) (intro conjI exI; assumption)
qed

section \<open>Properties\<close>



text \<open>
  The response side undoes the request side: where a rule puts the secret of a credential in the place
  of the placeholder of a header, masking the header of a response that carries this value gives the header
  with the placeholder again.
\<close>

theorem header_roundtrip:
  assumes "set_token rule m \<noteq> []" and "TrimSpace (er_adapterId r) \<noteq> AuthAdapterGoogleAIStudioSessionID"
    and "TrimSpace (rule_Template (NormalizeSimpleReplacementRule rule)) \<noteq> [] \<longrightarrow>
      Contains (TrimSpace (rule_Template (NormalizeSimpleReplacementRule rule))) Placeholder"
    and "name = normalizeHTTPHeaderName (rule_HeaderName rule)" and "name \<noteq> []"
    and "f = header_form rule (er_headerValuePrefix r) Placeholder" and "TrimSpace f = f"
    and "v = header_form rule (er_headerValuePrefix r) (set_token rule m)" and "TrimSpace v = v"
    and "\<not> Contains f (set_token rule m)"
  shows "replaceEgressAuthHeader s r [rule] m name f w = Some v \<and> replaceEgressAuthResponseHeader r [rule] m name v = Some f"
proof
  have t: "rule_token rule m = set_token rule m" by (rule set_token_rule [OF assms(1)])
  have name: "ToLower name = name" "normalizeHTTPHeaderName name = name" "TrimSpace name = name"
    by (simp_all add: assms(4)) (simp add: normalizeHTTPHeaderName_def)
  have ph: "Contains (header_form rule (er_headerValuePrefix r) Placeholder) Placeholder"
    using form_has [OF assms(3)] by (simp add: Contains_sublist)
  have "hasReplacementMaterial m" using assms(1) by (auto simp: set_token_def Let_def materialByKey_def intro: token_material split: if_splits)
  moreover have "simpleRuleForHeader [rule] name = Some (NormalizeSimpleReplacementRule rule)"
    using name by (simp add: rule_name assms(4) normalizeHTTPHeaderName_def)
  ultimately show "replaceEgressAuthHeader s r [rule] m name f w = Some v"
    using assms(2,5) name ph assms(7)
      replace_placeholder [OF assms(1) _ assms(3), of "\<lparr>ri_HeaderName = name, ri_HeaderValuePrefix = TrimSpace (er_headerValuePrefix r),
        ri_CurrentValue = f, ri_Origin = TrimSpace (er_origin r), ri_RequestHeaders = er_requestHeaders r, ri_Material = m,
        ri_Now = srv_clock s w\<rparr>" name]
    unfolding assms(6,8) by (simp add: replaceEgressAuthHeader_def ReplaceSimpleHeader_def replaceRuleHeader_normal del: simpleRuleForHeader.simps)
  have "v \<noteq> []" unfolding assms(8) by (rule sublist_ne [OF form_has [OF assms(3)] assms(1)])
  moreover have "m \<noteq> []" using assms(1) by (auto simp: set_token_def materialByKey_def Let_def split: if_splits)
  ultimately show "replaceEgressAuthResponseHeader r [rule] m name v = Some f"
    using mask_form [OF t assms(1), of "TrimSpace (er_headerValuePrefix r)"] assms(3,5,9,10) name(2)
    unfolding assms(6,8)
    by (simp add: replaceEgressAuthResponseHeader_def responseHeaderReplacementPairs_def rule_name assms(4) Let_def)
qed

text \<open>
  C40: Whatever policy is asked for, the catalogue answers with rules in normal form, which the request and
  the response side take as they are; the header names it announces are those of its rules, each once, and
  a denial shows the client the response headers and the content type, in order.
\<close>

theorem catalog_Resolve_wf:
  "map NormalizeSimpleReplacementRule (ep_requestRules (catalog_Resolve c q)) = ep_requestRules (catalog_Resolve c q) \<and>
   map NormalizeSimpleReplacementRule (ep_responseRules (catalog_Resolve c q)) = ep_responseRules (catalog_Resolve c q) \<and>
   distinct (ep_requestHeaderNames (catalog_Resolve c q)) \<and> distinct (ep_responseHeaderNames (catalog_Resolve c q)) \<and>
   set (ep_requestHeaderNames (catalog_Resolve c q)) = rule_HeaderName ` set (ep_requestRules (catalog_Resolve c q)) \<and>
   set (ep_responseHeaderNames (catalog_Resolve c q)) = rule_HeaderName ` set (ep_responseRules (catalog_Resolve c q)) \<and>
   sorted (ep_headersToDownstreamOnDeny (catalog_Resolve c q)) \<and> distinct (ep_headersToDownstreamOnDeny (catalog_Resolve c q)) \<and>
   set (ep_headersToDownstreamOnDeny (catalog_Resolve c q)) = (if ep_responseHeaderNames (catalog_Resolve c q) = [] then {}
     else insert HTTPHeaderContentType (set (ep_responseHeaderNames (catalog_Resolve c q))))"
proof -
  obtain policy key where r: "catalog_Resolve c q = resolvePolicy policy key" by (simp add: catalog_Resolve_def Let_def)
  let ?names = "ruleHeaderNames (normalizeRules (mat_ResponseRules (selectMaterialization policy key)))"
  have "\<forall>n \<in> set ?names. normalizeHTTPHeaderName n = n \<and> n \<noteq> []"
    by (auto simp: ruleHeaderNames_def set_unique_names normalizeHTTPHeaderName_def)
  from deny_headers [OF this] show ?thesis by (simp add: r resolvePolicy_def Let_def normalized_rules rule_names)
qed

text \<open>
  Masking one of several values of a response header loses the others: the answer removes the header,
  and puts back only the values that contained a secret. (The values of \<open>Set-Cookie\<close> come in several headers.)
\<close>

theorem masking_drops_other_values:
  assumes "er_headers r = [a, b]" and "normalizeHTTPHeaderName (hi_name a) = n" and "normalizeHTTPHeaderName (hi_name b) = n" and "n \<noteq> []"
    and "headerNameSet (er_allowedHeaderNames r) \<noteq> {} \<longrightarrow> n \<in> headerNameSet (er_allowedHeaderNames r)"
    and "replaceEgressAuthResponseHeader r (protoSimpleReplacementRules (er_rules r)) m n (TrimSpace (hi_currentValue a)) = Some u"
    and "TrimSpace u \<noteq> []"
    and "replaceEgressAuthResponseHeader r (protoSimpleReplacementRules (er_rules r)) m n (TrimSpace (hi_currentValue b)) = None"
  shows "es_removeHeaders (resolveEgressResponseHeaders r m) = [n] \<and>
    List.map (map_option hm_value) (es_headers (resolveEgressResponseHeaders r m)) = [Some (TrimSpace u)]"
proof -
  have n: "normalizeHTTPHeaderName n = n" using assms(2) by auto
  have "TrimSpace (hi_currentValue a) \<noteq> []" using assms(6) by (auto simp: replaceEgressAuthResponseHeader_def Let_def)
  with assms n obtain h where "masked_headers r (protoSimpleReplacementRules (er_rules r)) m (headerNameSet (er_allowedHeaderNames r)) [a, b] = [Some h]"
    and "hm_name h = n" "hm_value h = TrimSpace u" by (cases "headerNameSet (er_allowedHeaderNames r) = {}") (auto simp: Let_def response_mutation)
  with assms(1,4) n show ?thesis by (simp add: resolveEgressResponseHeaders_def headerMutationNames_def Let_def)
qed

end
