(* ===== verification/Egress_World.thy ===== *)
theory Egress_World
  imports Egress_Laws
begin

text \<open>A concrete authentication service, and the witnesses of the properties of the egress authentication.\<close>

section \<open>A run that calls its model provider\<close>

definition eg_rule :: SimpleReplacementRule where
  "eg_rule = \<lparr>rule_Mode = ''bearer'', rule_HeaderName = ''Authorization'', rule_MaterialKey = ''api_key'',
     rule_HeaderValuePrefix = [], rule_Template = []\<rparr>"

definition eg_metadata :: RuntimeMetadata where
  "eg_metadata = empty_metadata\<lparr>md_credentialId := ''cred1'', md_requestRules := [Some eg_rule],
     md_targetHosts := [''api.test''], md_targetPathPrefixes := [''/v1'']\<rparr>"

definition eg_server :: "unit AuthServer" where
  "eg_server = \<lparr>srv_namespace = ''code-code'', srv_runtimeNamespace = ''runs'',
     srv_credentials = Some (\<lambda>c w. (Inr (Some (ApiKeyMaterial ''s3cret'')), w)),
     srv_runtime = Some (\<lambda>q w. (Inr (Some eg_metadata), w)), srv_providers = None,
     srv_sha1hex = (\<lambda>s. ''0f''), srv_urlparse = (\<lambda>u. None), srv_clock = (\<lambda>w. 1)\<rparr>"

definition eg_check :: CheckRequest where
  "eg_check = \<lparr>ck_source = \<lparr>peer_principal = ''spiffe://c/ns/runs/sa/agent'', peer_socketAddress = Some ''10.0.0.7:80''\<rparr>,
     ck_http = Some \<lparr>hr_host = ''API.test:443'', hr_path = ''/v1/models?x=1'', hr_headers = []\<rparr>\<rparr>"

definition eg_answer :: CheckResponse where
  "eg_answer = fst (egress_Check (\<lambda>s. None) (Some eg_server) (Some eg_check) ())"

definition eg_allows :: "CheckResponse \<Rightarrow> bool" where
  "eg_allows r \<longleftrightarrow> (case r of AllowedResponse hs removed \<Rightarrow> map (\<lambda>h. (hv_key h, hv_value h)) hs = [(''authorization'', ''Bearer s3cret'')]
     | DeniedResponse c st hs b \<Rightarrow> False)"

lemma eg_answer_allows: "eg_allows eg_answer"
  by code_simp


section \<open>A response with two cookies\<close>

definition eg_cookie_rule :: SimpleReplacementRule where
  "eg_cookie_rule = \<lparr>rule_Mode = ''cookie'', rule_HeaderName = ''set-cookie'', rule_MaterialKey = ''sid'',
     rule_HeaderValuePrefix = [], rule_Template = ''sid=PLACEHOLDER''\<rparr>"

definition eg_item :: "string \<Rightarrow> HeaderItem" where
  "eg_item v = \<lparr>hi_name = ''Set-Cookie'', hi_currentValue = v\<rparr>"

definition eg_response :: EgressRequest where
  "eg_response = empty_egress_request\<lparr>er_rules := [Some eg_cookie_rule],
     er_headers := [eg_item ''sid=t0k3n; Path=/'', eg_item ''theme=dark'']\<rparr>"

definition eg_response_request :: EgressResponseRequest where
  "eg_response_request = EgressRequest.extend eg_response (EgressResponseRequest.fields [])"

definition eg_session :: material where
  "eg_session = [(''sid'', ''t0k3n'')]"

definition eg_clean :: "string \<Rightarrow> (string \<times> string) list \<Rightarrow> bool" where
  "eg_clean t pairs \<longleftrightarrow> list_all (\<lambda>(u, p). clean_of t p) pairs"

lemma eg_masking:
  "normalizeHTTPHeaderName ''Set-Cookie'' = ''set-cookie'' \<and> rule_token eg_cookie_rule eg_session = ''t0k3n'' \<and>
   eg_clean ''t0k3n'' (response_pairs eg_response_request eg_session ''set-cookie'') \<and>
   replaceEgressAuthResponseHeader eg_response_request [eg_cookie_rule] eg_session ''set-cookie'' ''sid=t0k3n; Path=/''
     = Some ''sid=PLACEHOLDER; Path=/'' \<and>
   replaceEgressAuthResponseHeader eg_response_request [eg_cookie_rule] eg_session ''set-cookie'' ''theme=dark'' = None \<and>
   TrimSpace ''sid=PLACEHOLDER; Path=/'' = ''sid=PLACEHOLDER; Path=/'' \<and>
   TrimSpace ''sid=t0k3n; Path=/'' = ''sid=t0k3n; Path=/'' \<and> TrimSpace ''theme=dark'' = ''theme=dark'' \<and>
   Contains ''sid=t0k3n; Path=/'' ''t0k3n''"
  by code_simp

lemma eg_response_fields:
  "er_headers eg_response_request = [eg_item ''sid=t0k3n; Path=/'', eg_item ''theme=dark'']"
  "er_allowedHeaderNames eg_response_request = []" "protoSimpleReplacementRules (er_rules eg_response_request) = [eg_cookie_rule]"
  "headerNameSet [] = {}"
  by (simp_all add: eg_response_request_def eg_response_def EgressRequest.defs EgressResponseRequest.defs empty_egress_request_def
      protoSimpleReplacementRules_def List.map_filter_simps headerNameSet_def)


theorem masking_drops_other_values_witness:
  "es_removeHeaders (resolveEgressResponseHeaders eg_response_request eg_session) = [''set-cookie''] \<and>
   map (map_option hm_value) (es_headers (resolveEgressResponseHeaders eg_response_request eg_session)) = [Some ''sid=PLACEHOLDER; Path=/'']"
  using masking_drops_other_values [OF eg_response_fields(1), of "''set-cookie''" eg_session "''sid=PLACEHOLDER; Path=/''"]
    eg_masking eg_response_fields(2,3,4) by (simp add: eg_item_def)

section \<open>There and back\<close>

theorem header_roundtrip_witness:
  "replaceEgressAuthHeader eg_server empty_egress_request [eg_rule] [(''api_key'', ''s3cret'')] ''authorization'' ''Bearer PLACEHOLDER'' ()
     = Some ''Bearer s3cret''"
proof -
  have facts: "set_token eg_rule [(''api_key'', ''s3cret'')] = ''s3cret''"
    "TrimSpace (rule_Template (NormalizeSimpleReplacementRule eg_rule)) = []"
    "''authorization'' = normalizeHTTPHeaderName (rule_HeaderName eg_rule)"
    "''Bearer PLACEHOLDER'' = header_form eg_rule (er_headerValuePrefix empty_egress_request) Placeholder"
    "''Bearer s3cret'' = header_form eg_rule (er_headerValuePrefix empty_egress_request) ''s3cret''"
    "TrimSpace ''Bearer PLACEHOLDER'' = ''Bearer PLACEHOLDER''" "TrimSpace ''Bearer s3cret'' = ''Bearer s3cret''"
    "\<not> Contains ''Bearer PLACEHOLDER'' ''s3cret''" "TrimSpace (er_adapterId empty_egress_request) \<noteq> AuthAdapterGoogleAIStudioSessionID"
    by code_simp+
  have template: "TrimSpace (rule_Template (NormalizeSimpleReplacementRule eg_rule)) \<noteq> [] \<longrightarrow>
    Contains (TrimSpace (rule_Template (NormalizeSimpleReplacementRule eg_rule))) Placeholder"
    by (simp only: facts(2) not_True_eq_False HOL.simp_thms)
  have bearer: "''Bearer s3cret'' = header_form eg_rule (er_headerValuePrefix empty_egress_request)
      (set_token eg_rule [(''api_key'', ''s3cret'')])"
    by (simp only: facts(1,5))
  have tok: "set_token eg_rule [(''api_key'', ''s3cret'')] \<noteq> []"
    "\<not> Contains ''Bearer PLACEHOLDER'' (set_token eg_rule [(''api_key'', ''s3cret'')])"
    using facts(8) by (simp_all only: facts(1) list.distinct not_False_eq_True)
  show ?thesis
    by (rule header_roundtrip [THEN conjunct1, OF tok(1) facts(9) template facts(3) _ facts(4,6) bearer facts(7) tok(2)]) simp
qed

end
