(* ===== verification/Cli_Support.thy ===== *)
theory Cli_Support
  imports Go_Strings Provider_Messages
begin

text \<open>
  The definitions of agent CLIs (\<open>supportservice/clidefinitions/support/auth_materialization.go\<close>): the
  contract a CLI declares for the authentication of its requests, its validation, and its choice by
  credential kind and protocol. The maps of the code that remember what was seen are sets here.
\<close>

section \<open>Messages\<close>

datatype RuntimeProjectionKind = ProjectionUnspecified | ProjectionBaseURL | ProjectionResourceURL

fun projection_string :: "RuntimeProjectionKind \<Rightarrow> string" where
  "projection_string ProjectionUnspecified = ''RUNTIME_PROJECTION_KIND_UNSPECIFIED''"
| "projection_string ProjectionBaseURL = ''RUNTIME_PROJECTION_KIND_BASE_URL''"
| "projection_string ProjectionResourceURL = ''RUNTIME_PROJECTION_KIND_RESOURCE_URL''"

record RequestAuthInjection =
  rai_headerNames :: "string list"
  rai_headerValuePrefix :: string

record CLIAuthMaterialization =
  cam_materializationKey :: string
  cam_requiredRuntimeProjections :: "RuntimeProjectionKind list"
  cam_runtimeUrlProjectionKind :: RuntimeProjectionKind
  cam_includeRuntimeUrlHost :: bool
  cam_extraTargetHosts :: "string list"
  cam_requestAuthInjection :: "RequestAuthInjection option"
  cam_targetPathPrefixes :: "string list"

record APIKeyProtocolSupport =
  aps_protocol :: Protocol
  aps_authMaterialization :: "CLIAuthMaterialization option"

record CLIContainerImage =
  cci_executionClass :: string
  cci_cpuRequest :: string
  cci_memoryRequest :: string

text \<open>\<open>cli_oauth\<close> is \<open>None\<close> when the CLI declares no OAuth support, and \<open>Some None\<close> when its materialization is nil.\<close>

record CLI =
  cli_cliId :: string
  cli_oauth :: "CLIAuthMaterialization option option"
  cli_apiKeyProtocols :: "APIKeyProtocolSupport option list"
  cli_containerImages :: "CLIContainerImage option list"

fun credential_kind_string :: "CredentialKind \<Rightarrow> string" where
  "credential_kind_string KindUnspecified = ''CREDENTIAL_KIND_UNSPECIFIED''"
| "credential_kind_string KindApiKey = ''CREDENTIAL_KIND_API_KEY''"
| "credential_kind_string KindOAuth = ''CREDENTIAL_KIND_OAUTH''"
| "credential_kind_string KindSession = ''CREDENTIAL_KIND_SESSION''"

section \<open>Validation\<close>

definition cli_error :: "string \<Rightarrow> go_error" where
  "cli_error m = PlainError (''platformk8s/clidefinitions: '' @ m)"

definition scope_text :: "string \<Rightarrow> string \<Rightarrow> string" where
  "scope_text scope cliID = '' for '' @ go_quote scope @ '' '' @ go_quote cliID"

definition normalizePathPrefix :: "string \<Rightarrow> string" where
  "normalizePathPrefix value =
     (let value = TrimSpace value in
      if value = [] then []
      else if Contains value ''://'' then value
      else
        (let value = (if HasPrefix value ''/'' then value else ''/'' @ value) in
         if value \<noteq> ''/'' then TrimRight value ''/'' else value))"

fun projections_error :: "string \<Rightarrow> RuntimeProjectionKind list \<Rightarrow> RuntimeProjectionKind set \<Rightarrow> go_error option" where
  "projections_error tail_text [] seen = None"
| "projections_error tail_text (k # ks) seen =
     (if k = ProjectionUnspecified then Some (cli_error (''runtime projection kind is unspecified'' @ tail_text))
      else if k \<in> seen then Some (cli_error (''duplicate runtime projection kind '' @ go_quote (projection_string k) @ tail_text))
      else projections_error tail_text ks (insert k seen))"

fun headers_error :: "string \<Rightarrow> string list \<Rightarrow> string set \<Rightarrow> go_error option" where
  "headers_error tail_text [] seen = None"
| "headers_error tail_text (h # hs) seen =
     (let header = ToLower (TrimSpace h) in
      if header = [] then Some (cli_error (''request_auth_injection header is empty'' @ tail_text))
      else if header \<in> seen then Some (cli_error (''duplicate request_auth_injection header '' @ go_quote header @ tail_text))
      else headers_error tail_text hs (insert header seen))"

fun hosts_error :: "string \<Rightarrow> string list \<Rightarrow> string set \<Rightarrow> go_error option" where
  "hosts_error tail_text [] seen = None"
| "hosts_error tail_text (h # hs) seen =
     (let host = ToLower (TrimSpace h) in
      if host = [] then Some (cli_error (''extra_target_host is empty'' @ tail_text))
      else if Contains host ''://'' then Some (cli_error (''extra_target_host '' @ go_quote host @ '' must not include scheme'' @ tail_text))
      else if host \<in> seen then Some (cli_error (''duplicate extra_target_host '' @ go_quote host @ tail_text))
      else hosts_error tail_text hs (insert host seen))"

fun paths_error :: "string \<Rightarrow> string list \<Rightarrow> string set \<Rightarrow> go_error option" where
  "paths_error tail_text [] seen = None"
| "paths_error tail_text (p # ps) seen =
     (let path = normalizePathPrefix p in
      if path = [] then Some (cli_error (''target_path_prefix is empty'' @ tail_text))
      else if Contains path ''://'' \<or> Contains path ''?'' \<or> Contains path ''#''
        then Some (cli_error (''target_path_prefix '' @ go_quote path @ '' must be a path only'' @ tail_text))
      else if path \<in> seen then Some (cli_error (''duplicate target_path_prefix '' @ go_quote path @ tail_text))
      else paths_error tail_text ps (insert path seen))"

definition validateAuthMaterialization :: "string \<Rightarrow> string \<Rightarrow> CLIAuthMaterialization option \<Rightarrow> go_error option" where
  "validateAuthMaterialization cliID scope materialization =
     (let tail_text = scope_text scope cliID in
      case materialization of None \<Rightarrow> Some (cli_error (''auth materialization is missing'' @ tail_text))
      | Some m \<Rightarrow>
          if TrimSpace (cam_materializationKey m) = [] then Some (cli_error (''auth materialization key is empty'' @ tail_text))
          else if cam_runtimeUrlProjectionKind m = ProjectionUnspecified
            then Some (cli_error (''runtime_url_projection_kind is unspecified'' @ tail_text))
          else first_error
            [projections_error tail_text (cam_requiredRuntimeProjections m) {},
             if cam_runtimeUrlProjectionKind m = ProjectionResourceURL \<and>
                ProjectionResourceURL \<notin> set (cam_requiredRuntimeProjections m)
             then Some (cli_error (''runtime projection kind '' @ go_quote (projection_string ProjectionResourceURL) @
               '' is required'' @ tail_text)) else None,
             (case cam_requestAuthInjection m of None \<Rightarrow> Some (cli_error (''request_auth_injection is missing'' @ tail_text))
              | Some i \<Rightarrow> first_error [headers_error tail_text (rai_headerNames i) {},
                  if rai_headerNames i = [] then Some (cli_error (''request_auth_injection headers are empty'' @ tail_text)) else None]),
             if \<not> cam_includeRuntimeUrlHost m \<and> cam_extraTargetHosts m = []
             then Some (cli_error (''auth materialization must declare at least one target host'' @ tail_text)) else None,
             hosts_error tail_text (cam_extraTargetHosts m) {},
             paths_error tail_text (cam_targetPathPrefixes m) {}])"

fun api_keys_error :: "string \<Rightarrow> APIKeyProtocolSupport option list \<Rightarrow> Protocol set \<Rightarrow> go_error option" where
  "api_keys_error cliID [] seen = None"
| "api_keys_error cliID (None # ss) seen = Some (cli_error (''api_key_protocol support is nil for '' @ go_quote cliID))"
| "api_keys_error cliID (Some s # ss) seen =
     (let protocol = aps_protocol s in
      if protocol = ProtocolUnspecified then Some (cli_error (''api_key_protocol is unspecified for '' @ go_quote cliID))
      else if protocol \<in> seen
        then Some (cli_error (''duplicate api_key_protocol '' @ go_quote (protocol_string protocol) @ '' for '' @ go_quote cliID))
      else case validateAuthMaterialization cliID (protocol_string protocol) (aps_authMaterialization s) of
        Some e \<Rightarrow> Some e
      | None \<Rightarrow> api_keys_error cliID ss (insert protocol seen))"

definition ValidateAuthMaterializations :: "CLI \<Rightarrow> go_error option" where
  "ValidateAuthMaterializations pkg =
     first_error
       [case cli_oauth pkg of None \<Rightarrow> None | Some m \<Rightarrow> validateAuthMaterialization (cli_cliId pkg) ''oauth'' m,
        api_keys_error (cli_cliId pkg) (cli_apiKeyProtocols pkg) {}]"

section \<open>Choice\<close>

fun api_key_support :: "Protocol \<Rightarrow> APIKeyProtocolSupport option list \<Rightarrow> APIKeyProtocolSupport option" where
  "api_key_support protocol [] = None"
| "api_key_support protocol (s # ss) =
     (case s of Some v \<Rightarrow> if aps_protocol v = protocol then Some v else api_key_support protocol ss
      | None \<Rightarrow> api_key_support protocol ss)"

definition ResolveAuthMaterialization :: "CLI \<Rightarrow> CredentialKind \<Rightarrow> Protocol \<Rightarrow> CLIAuthMaterialization option result" where
  "ResolveAuthMaterialization pkg credentialKind protocol =
     (case ValidateAuthMaterializations pkg of Some e \<Rightarrow> Inl e
      | None \<Rightarrow>
          (case credentialKind of
             KindOAuth \<Rightarrow>
               (case cli_oauth pkg of Some (Some m) \<Rightarrow> Inr (Some m)
                | _ \<Rightarrow> Inl (cli_error (''cli '' @ go_quote (cli_cliId pkg) @ '' does not declare oauth auth materialization'')))
           | KindApiKey \<Rightarrow>
               (case api_key_support protocol (cli_apiKeyProtocols pkg) of
                  Some s \<Rightarrow> Inr (aps_authMaterialization s)
                | None \<Rightarrow> Inl (cli_error (''cli '' @ go_quote (cli_cliId pkg) @ '' does not support api key protocol '' @
                    go_quote (protocol_string protocol))))
           | _ \<Rightarrow> Inl (cli_error (''unsupported credential kind '' @ go_quote (credential_kind_string credentialKind) @
               '' for cli '' @ go_quote (cli_cliId pkg)))))"

text \<open>A materialization that is chosen is well formed: it names a key and where it may be used.\<close>

lemma api_keys_error_support:
  assumes "api_keys_error cliID ss seen = None" and "api_key_support protocol ss = Some s"
  shows "validateAuthMaterialization cliID (protocol_string protocol) (aps_authMaterialization s) = None"
  using assms by (induction cliID ss seen rule: api_keys_error.induct) (auto simp: Let_def split: if_splits option.splits)

lemma ResolveAuthMaterialization_valid:
  assumes "ResolveAuthMaterialization pkg k protocol = Inr m"
  shows "\<exists>scope. validateAuthMaterialization (cli_cliId pkg) scope m = None"
  using assms api_keys_error_support [of "cli_cliId pkg" "cli_apiKeyProtocols pkg" "{}" protocol]
  by (auto simp: ResolveAuthMaterialization_def ValidateAuthMaterializations_def
      split: option.splits CredentialKind.splits)

lemma validateAuthMaterialization_key:
  assumes "validateAuthMaterialization cliID scope m = None"
  shows "\<exists>v. m = Some v \<and> TrimSpace (cam_materializationKey v) \<noteq> []"
  using assms by (auto simp: validateAuthMaterialization_def Let_def split: option.splits if_splits)

lemma ResolveAuthMaterialization_key:
  assumes "ResolveAuthMaterialization pkg k protocol = Inr m"
  shows "\<exists>v. m = Some v \<and> TrimSpace (cam_materializationKey v) \<noteq> []"
  using ResolveAuthMaterialization_valid [OF assms] validateAuthMaterialization_key by blast

end
