(* ===== verification/Agent_Execution.thy ===== *)
theory Agent_Execution
  imports Action_Snapshot Cli_Support
begin

text \<open>
  The resolver of a turn (\<open>agentruntime/agentexecution\<close>): from the session and the request it freezes the
  container image, the authentication and the runtime candidates of a run, the primary one first. The
  services it asks are calls over the world \<open>'w\<close>; its two interfaces, the catalogue of runtimes and the
  registry of models, are records of calls, and \<open>remote_catalog\<close> and \<open>remote_registry\<close> are their
  implementations over the platform services. The session and the request are not nil here; their
  payloads may be.
\<close>

section \<open>The interfaces\<close>

record ContainerImage =
  ci_Image :: string
  ci_CPURequest :: string
  ci_MemoryRequest :: string

record 'w RuntimeCatalog =
  cat_ResolveContainerImage :: "string \<Rightarrow> string \<Rightarrow> 'w \<Rightarrow> ContainerImage result \<times> 'w"
  cat_GetProviderSurfaceBinding :: "string \<Rightarrow> 'w \<Rightarrow> SurfaceBinding option result \<times> 'w"
  cat_GetCLI :: "string \<Rightarrow> 'w \<Rightarrow> CLI result \<times> 'w"

record 'w ModelRegistry =
  reg_ResolveRef :: "string \<Rightarrow> 'w \<Rightarrow> ModelRef result \<times> 'w"
  reg_Resolve :: "ModelRef option \<Rightarrow> 'w \<Rightarrow> ResolvedModel result \<times> 'w"

record 'w Resolver =
  rv_runtime :: "'w RuntimeCatalog"
  rv_models :: "'w ModelRegistry"

definition exec_validation :: "string \<Rightarrow> go_error" where
  "exec_validation m = DomainValidation (''platformk8s/agentexecution: '' @ m)"

definition exec_notFound :: "string \<Rightarrow> go_error" where
  "exec_notFound m = DomainNotFound (''platformk8s/agentexecution: '' @ m)"

section \<open>The remote catalogue\<close>

record RuntimeImage =
  ri_cliId :: string
  ri_executionClass :: string
  ri_image :: string

text \<open>The calls of the support service, the CLI runtime service and the provider service.\<close>

record 'w RuntimeServices =
  rs_ListCLIs :: "'w \<Rightarrow> CLI option list result \<times> 'w"
  rs_GetCLI :: "string \<Rightarrow> 'w \<Rightarrow> CLI option result \<times> 'w"
  rs_GetLatestImages :: "string \<Rightarrow> 'w \<Rightarrow> RuntimeImage option list result \<times> 'w"
  rs_ListSurfaceBindings :: "'w \<Rightarrow> SurfaceBinding option list result \<times> 'w"

definition declaredContainerImage :: "'w RuntimeServices \<Rightarrow> string \<Rightarrow> string \<Rightarrow> 'w \<Rightarrow> CLIContainerImage option result \<times> 'w" where
  "declaredContainerImage c providerID executionClass w =
     (case rs_ListCLIs c w of (Inl e, w) \<Rightarrow> (Inl e, w)
      | (Inr items, w) \<Rightarrow>
          (let providerID = TrimSpace providerID; executionClass = TrimSpace executionClass in
           case List.find (\<lambda>cli. TrimSpace (getf [] cli_cliId cli) = providerID) items of
             None \<Rightarrow> (Inl (exec_notFound (''cli definition '' @ go_quote providerID @ '' not found'')), w)
           | Some cli \<Rightarrow>
               (case List.find (\<lambda>i. TrimSpace (getf [] cci_executionClass i) = executionClass) (getf [] cli_containerImages cli) of
                  Some img \<Rightarrow> (Inr img, w)
                | None \<Rightarrow> (Inl (exec_validation (''execution class '' @ go_quote executionClass @
                    '' is not declared by cli definition '' @ go_quote providerID)), w))))"

definition latestAvailableRuntimeImage :: "'w RuntimeServices \<Rightarrow> string \<Rightarrow> string \<Rightarrow> 'w \<Rightarrow> string result \<times> 'w" where
  "latestAvailableRuntimeImage c providerID executionClass w =
     (let providerID = TrimSpace providerID; executionClass = TrimSpace executionClass in
      case rs_GetLatestImages c providerID w of (Inl e, w) \<Rightarrow> (Inl e, w)
      | (Inr items, w) \<Rightarrow>
          (case List.find (\<lambda>i. TrimSpace (getf [] ri_cliId i) = providerID \<and>
                 TrimSpace (getf [] ri_executionClass i) = executionClass \<and> TrimSpace (getf [] ri_image i) \<noteq> []) items of
             Some i \<Rightarrow> (Inr (TrimSpace (getf [] ri_image i)), w)
           | None \<Rightarrow> (Inl (exec_notFound (''no available runtime image for cli '' @ go_quote providerID @
               '' execution class '' @ go_quote executionClass)), w)))"

definition ResolveContainerImage :: "'w RuntimeServices \<Rightarrow> string \<Rightarrow> string \<Rightarrow> 'w \<Rightarrow> ContainerImage result \<times> 'w" where
  "ResolveContainerImage c providerID executionClass w =
     (case declaredContainerImage c providerID executionClass w of (Inl e, w) \<Rightarrow> (Inl e, w)
      | (Inr declared, w) \<Rightarrow>
          (case latestAvailableRuntimeImage c providerID executionClass w of (Inl e, w) \<Rightarrow> (Inl e, w)
           | (Inr img, w) \<Rightarrow>
               (Inr \<lparr>ci_Image = img, ci_CPURequest = getf [] cci_cpuRequest declared,
                  ci_MemoryRequest = getf [] cci_memoryRequest declared\<rparr>, w)))"

definition empty_surface :: SurfaceBinding where
  "empty_surface = \<lparr>sb_surfaceId = [], sb_runtime = None, sb_credentialId = []\<rparr>"

definition GetProviderSurfaceBinding :: "'w RuntimeServices \<Rightarrow> string \<Rightarrow> 'w \<Rightarrow> SurfaceBinding option result \<times> 'w" where
  "GetProviderSurfaceBinding c surfaceID w =
     (case rs_ListSurfaceBindings c w of (Inl e, w) \<Rightarrow> (Inl e, w)
      | (Inr items, w) \<Rightarrow>
          (let surfaceID = TrimSpace surfaceID in
           case List.find (\<lambda>i. TrimSpace (getf [] sb_surfaceId i) = surfaceID) items of
             Some i \<Rightarrow> (Inr (Some (getf empty_surface id i)), w)
           | None \<Rightarrow> (Inl (exec_notFound (''provider surface binding '' @ go_quote surfaceID @ '' not found'')), w)))"

text \<open>Every failure of the support service is answered as a CLI that does not exist.\<close>

definition GetCLI :: "'w RuntimeServices \<Rightarrow> string \<Rightarrow> 'w \<Rightarrow> CLI result \<times> 'w" where
  "GetCLI c cliID w =
     (let cliID = TrimSpace cliID in
      case rs_GetCLI c cliID w of
        (Inr (Some cli), w) \<Rightarrow> (Inr cli, w)
      | (_, w) \<Rightarrow> (Inl (exec_notFound (''cli '' @ go_quote cliID @ '' not found'')), w))"

definition remote_catalog :: "'w RuntimeServices \<Rightarrow> 'w RuntimeCatalog" where
  "remote_catalog c = \<lparr>cat_ResolveContainerImage = ResolveContainerImage c,
     cat_GetProviderSurfaceBinding = GetProviderSurfaceBinding c, cat_GetCLI = GetCLI c\<rparr>"

section \<open>The remote registry\<close>

text \<open>The model service answers a nil reference, item or definition as \<open>None\<close>.\<close>

record 'w ModelService =
  ms_ResolveModelRef :: "string \<Rightarrow> 'w \<Rightarrow> ModelRef option result \<times> 'w"
  ms_GetModelVersion :: "ModelRef \<Rightarrow> 'w \<Rightarrow> ModelVersion option result \<times> 'w"

definition ResolveRef :: "'w ModelService \<Rightarrow> string \<Rightarrow> 'w \<Rightarrow> ModelRef result \<times> 'w" where
  "ResolveRef c modelIDOrAlias w =
     (let modelIDOrAlias = TrimSpace modelIDOrAlias in
      if modelIDOrAlias = [] then (Inl (exec_validation ''model id or alias is empty''), w)
      else case ms_ResolveModelRef c modelIDOrAlias w of
        (Inl e, w) \<Rightarrow> (Inl e, w)
      | (Inr None, w) \<Rightarrow> (Inl (exec_notFound (''model id or alias '' @ go_quote modelIDOrAlias @ '' not found'')), w)
      | (Inr (Some ref), w) \<Rightarrow>
          (case ValidateRef (Some ref) of
             Some e \<Rightarrow> (Inl (exec_validation (''resolved model ref is invalid: '' @ err_message e)), w)
           | None \<Rightarrow> (Inr ref, w)))"

definition identityKey :: "string \<Rightarrow> string \<Rightarrow> string" where
  "identityKey vendorID modelID = TrimSpace vendorID @ CHR 0x00 # TrimSpace modelID"

definition registry_Resolve :: "'w ModelService \<Rightarrow> ModelRef option \<Rightarrow> 'w \<Rightarrow> ResolvedModel result \<times> 'w" where
  "registry_Resolve c ref w =
     (case ValidateRef ref of Some e \<Rightarrow> (Inl e, w)
      | None \<Rightarrow> (let r = the ref in
          case ms_GetModelVersion c r w of
            (Inl e, w) \<Rightarrow> (Inl e, w)
          | (Inr None, w) \<Rightarrow> (Inl (exec_notFound (''model definition '' @ go_quote (mr_vendorId r) @ ''/'' @
              go_quote (mr_modelId r) @ '' not found'')), w)
          | (Inr (Some effective), w) \<Rightarrow>
              if identityKey (mv_vendorId effective) (mv_modelId effective) \<noteq> identityKey (mr_vendorId r) (mr_modelId r)
              then (Inl (exec_validation (''model service returned mismatched definition identity '' @
                go_quote (mv_vendorId effective) @ ''/'' @ go_quote (mv_modelId effective) @ '' for request '' @
                go_quote (mr_vendorId r) @ ''/'' @ go_quote (mr_modelId r))), w)
              else
                (let resolved = \<lparr>rm_modelId = mv_modelId effective, rm_effectiveDefinition = Some effective\<rparr> in
                 case ValidateResolvedModel resolved of
                   Some e \<Rightarrow> (Inl (exec_validation (''resolved model '' @ go_quote (rm_modelId resolved) @
                     '' is invalid: '' @ err_message e)), w)
                 | None \<Rightarrow> (Inr resolved, w))))"

definition remote_registry :: "'w ModelService \<Rightarrow> 'w ModelRegistry" where
  "remote_registry c = \<lparr>reg_ResolveRef = ResolveRef c, reg_Resolve = registry_Resolve c\<rparr>"

section \<open>The model of a candidate\<close>

record modelBinding =
  mb_providerModelID :: string
  mb_modelRef :: "ModelRef option"
  mb_source :: CatalogSource

definition normalizeModelRef :: "ModelRef option \<Rightarrow> ModelRef option" where
  "normalizeModelRef ref =
     (case ref of None \<Rightarrow> None
      | Some r \<Rightarrow> if TrimSpace (mr_modelId r) = [] then None
          else Some \<lparr>mr_vendorId = TrimSpace (mr_vendorId r), mr_modelId = TrimSpace (mr_modelId r)\<rparr>)"

definition catalog_models :: "ProviderModelCatalog option \<Rightarrow> ProviderModelCatalogEntry option list" where
  "catalog_models c = getf [] pmc_models c"

definition findEntryByProviderModelID ::
    "ProviderModelCatalog option \<Rightarrow> string \<Rightarrow> ProviderModelCatalogEntry option option" where
  "findEntryByProviderModelID catalog providerModelID =
     List.find (\<lambda>i. TrimSpace (getf [] pme_providerModelId i) = TrimSpace providerModelID) (catalog_models catalog)"

fun find_by_ref :: "ModelRef \<Rightarrow> ProviderModelCatalogEntry option list \<Rightarrow> ProviderModelCatalogEntry option \<Rightarrow>
    ProviderModelCatalogEntry option result" where
  "find_by_ref ref [] found = Inr found"
| "find_by_ref ref (item # items) found =
     (case normalizeModelRef (getf None pme_modelRef item) of
        None \<Rightarrow> find_by_ref ref items found
      | Some entryRef \<Rightarrow>
          if mr_modelId entryRef \<noteq> mr_modelId ref then find_by_ref ref items found
          else if mr_vendorId ref \<noteq> [] \<and> mr_vendorId entryRef \<noteq> mr_vendorId ref then find_by_ref ref items found
          else if mr_vendorId ref = [] \<and> found \<noteq> None \<and>
            getf [] mr_vendorId (normalizeModelRef (getf None pme_modelRef found)) \<noteq> mr_vendorId entryRef
          then Inl (exec_validation (''model_ref '' @ go_quote (mr_modelId ref) @
            '' is ambiguous across provider catalog entries''))
          else find_by_ref ref items item)"

definition findEntryByModelRef ::
    "ProviderModelCatalog option \<Rightarrow> ModelRef option \<Rightarrow> ProviderModelCatalogEntry option result" where
  "findEntryByModelRef catalog ref =
     (case normalizeModelRef ref of None \<Rightarrow> Inr None
      | Some r \<Rightarrow> find_by_ref r (catalog_models catalog) None)"

definition sourceFromCatalog :: "ProviderModelCatalog option \<Rightarrow> CatalogSource" where
  "sourceFromCatalog catalog =
     (if getf SourceUnspecified pmc_source catalog \<noteq> SourceUnspecified then getf SourceUnspecified pmc_source catalog
      else SourceFallbackConfig)"

text \<open>The text of a validation error that names the surface.\<close>

definition surface_error :: "SurfaceBinding \<Rightarrow> string \<Rightarrow> go_error" where
  "surface_error surface m = exec_validation (''provider surface binding '' @ go_quote (sb_surfaceId surface) @ m)"

definition surface_catalog :: "SurfaceBinding \<Rightarrow> ProviderModelCatalog option" where
  "surface_catalog surface = getf None srt_catalog (sb_runtime surface)"

definition entry_ref :: "'w Resolver \<Rightarrow> ProviderModelCatalogEntry \<Rightarrow> string \<Rightarrow> 'w \<Rightarrow> ModelRef option result \<times> 'w" where
  "entry_ref r entry providerModelID w =
     (case normalizeModelRef (pme_modelRef entry) of
        Some ref \<Rightarrow> (Inr (Some ref), w)
      | None \<Rightarrow>
          (case reg_ResolveRef (rv_models r) providerModelID w of (Inl e, w) \<Rightarrow> (Inl e, w)
           | (Inr resolvedRef, w) \<Rightarrow> (Inr (normalizeModelRef (Some resolvedRef)), w)))"

definition selectModelBinding ::
    "'w Resolver \<Rightarrow> SurfaceBinding \<Rightarrow> ModelRef option \<Rightarrow> string \<Rightarrow> 'w \<Rightarrow> modelBinding result \<times> 'w" where
  "selectModelBinding r surface modelRef providerModelID w =
     (let catalog = surface_catalog surface; source = sourceFromCatalog catalog in
      case normalizeModelRef modelRef of
        Some ref \<Rightarrow>
          (case findEntryByModelRef catalog (Some ref) of
             Inl e \<Rightarrow> (Inl e, w)
           | Inr None \<Rightarrow> (Inl (surface_error surface ('' does not expose model_ref '' @ go_quote (mr_modelId ref))), w)
           | Inr (Some entry) \<Rightarrow>
               (Inr \<lparr>mb_providerModelID = pme_providerModelId entry, mb_modelRef = Some ref, mb_source = source\<rparr>, w))
      | None \<Rightarrow>
          (let providerModelID = TrimSpace providerModelID in
           if providerModelID = [] then (Inl (surface_error surface '' provider_model_id is empty''), w)
           else case findEntryByProviderModelID catalog providerModelID of
             Some (Some entry) \<Rightarrow>
               (case entry_ref r entry providerModelID w of (Inl e, w) \<Rightarrow> (Inl e, w)
                | (Inr ref, w) \<Rightarrow>
                    (Inr \<lparr>mb_providerModelID = providerModelID, mb_modelRef = ref, mb_source = source\<rparr>, w))
           | _ \<Rightarrow>
               (case reg_ResolveRef (rv_models r) providerModelID w of (Inl e, w) \<Rightarrow> (Inl e, w)
                | (Inr resolvedRef, w) \<Rightarrow>
                    (case findEntryByModelRef catalog (Some resolvedRef) of
                       Inl e \<Rightarrow> (Inl e, w)
                     | Inr (Some entry) \<Rightarrow>
                         (Inr \<lparr>mb_providerModelID = pme_providerModelId entry,
                            mb_modelRef = normalizeModelRef (Some resolvedRef), mb_source = source\<rparr>, w)
                     | Inr None \<Rightarrow>
                         (Inr \<lparr>mb_providerModelID = providerModelID,
                            mb_modelRef = normalizeModelRef (Some resolvedRef), mb_source = source\<rparr>, w)))))"

definition resolveProviderModel ::
    "'w Resolver \<Rightarrow> SurfaceBinding \<Rightarrow> ModelRef option \<Rightarrow> string \<Rightarrow> 'w \<Rightarrow> ResolvedProviderModel result \<times> 'w" where
  "resolveProviderModel r surface modelRef providerModelID w =
     (case selectModelBinding r surface modelRef providerModelID w of (Inl e, w) \<Rightarrow> (Inl e, w)
      | (Inr binding, w) \<Rightarrow>
          (case reg_Resolve (rv_models r) (mb_modelRef binding) w of (Inl e, w) \<Rightarrow> (Inl e, w)
           | (Inr resolvedModel, w) \<Rightarrow>
               (Inr \<lparr>rpm_surfaceId = TrimSpace (sb_surfaceId surface), rpm_providerModelId = mb_providerModelID binding,
                  rpm_protocol = getf ProtocolUnspecified RuntimeProtocol (sb_runtime surface),
                  rpm_baseUrl = getf [] RuntimeBaseURL (sb_runtime surface), rpm_model = Some resolvedModel,
                  rpm_source = mb_source binding, rpm_surface = sb_runtime surface\<rparr>, w)))"

section \<open>The authentication of a candidate\<close>

definition resolveMaterializationKey :: "'w Resolver \<Rightarrow> string \<Rightarrow> SurfaceBinding \<Rightarrow> 'w \<Rightarrow> string result \<times> 'w" where
  "resolveMaterializationKey r cliID surface w =
     (case cat_GetCLI (rv_runtime r) cliID w of (Inl e, w) \<Rightarrow> (Inl e, w)
      | (Inr cli, w) \<Rightarrow>
          (let protocol = getf ProtocolUnspecified RuntimeProtocol (sb_runtime surface);
               materialization =
                 (case ResolveAuthMaterialization cli KindApiKey protocol of
                    Inl e \<Rightarrow> if cli_oauth cli \<noteq> None then ResolveAuthMaterialization cli KindOAuth protocol else Inl e
                  | Inr m \<Rightarrow> Inr m) in
           case materialization of Inl e \<Rightarrow> (Inl e, w)
           | Inr m \<Rightarrow> (Inr (TrimSpace (getf [] cam_materializationKey m)), w)))"

definition authStatusBound :: string where
  "authStatusBound = ''bound''"

definition resolveAuthRequirement ::
    "'w Resolver \<Rightarrow> string \<Rightarrow> SurfaceBinding \<Rightarrow> string \<Rightarrow> 'w \<Rightarrow> AgentRunAuthRequirement result \<times> 'w" where
  "resolveAuthRequirement r providerID surface runtimeURL w =
     (case resolveMaterializationKey r providerID surface w of (Inl e, w) \<Rightarrow> (Inl e, w)
      | (Inr materializationKey, w) \<Rightarrow>
          (Inr \<lparr>auth_providerId = TrimSpace providerID, auth_providerSurfaceBindingId = sb_surfaceId surface,
             auth_authStatus = authStatusBound, auth_runtimeUrl = TrimSpace runtimeURL,
             auth_materializationKey = materializationKey, auth_providerRunBinding = None\<rparr>, w))"

definition loadProviderSurfaceBindingByID :: "'w Resolver \<Rightarrow> string \<Rightarrow> 'w \<Rightarrow> SurfaceBinding result \<times> 'w" where
  "loadProviderSurfaceBindingByID r instanceID w =
     (let instanceID = TrimSpace instanceID in
      if instanceID = [] then (Inl (exec_validation ''provider surface binding id is empty''), w)
      else case cat_GetProviderSurfaceBinding (rv_runtime r) instanceID w of (Inl e, w) \<Rightarrow> (Inl e, w)
      | (Inr resource, w) \<Rightarrow>
          (let invalid = (\<lambda>m. exec_validation (''provider surface binding '' @ go_quote instanceID @ m)) in
           case resource of None \<Rightarrow> (Inl (invalid '' is missing payload''), w)
           | Some surface \<Rightarrow>
               if getf KindUnset RuntimeKind (sb_runtime surface) = KindUnset then (Inl (invalid '' runtime is missing''), w)
               else if TrimSpace (sb_credentialId surface) = [] then (Inl (invalid '' auth binding is empty''), w)
               else (Inr surface, w)))"

definition primary_surface_id :: "AgentSessionSpec \<Rightarrow> string" where
  "primary_surface_id spec = getf [] prr_surfaceId (getf None rc_providerRuntimeRef (ss_runtimeConfig spec))"

definition loadPrimaryProviderSurfaceBinding :: "'w Resolver \<Rightarrow> SessionResource \<Rightarrow> 'w \<Rightarrow> SurfaceBinding result \<times> 'w" where
  "loadPrimaryProviderSurfaceBinding r session w =
     (case sr_session session of None \<Rightarrow> (Inl (exec_validation ''session is invalid''), w)
      | Some spec \<Rightarrow>
          (let instanceID = TrimSpace (primary_surface_id spec) in
           if instanceID = []
           then (Inl (exec_validation (''session '' @ go_quote (ss_sessionId spec) @ '' provider_surface_binding_id is empty'')), w)
           else loadProviderSurfaceBindingByID r instanceID w))"

section \<open>The candidates\<close>

definition resolver_Resolve :: "'w Resolver \<Rightarrow> SessionResource \<Rightarrow> 'w \<Rightarrow> RunTurnResolution result \<times> 'w" where
  "resolver_Resolve r session w =
     (case sr_session session of None \<Rightarrow> (Inl (exec_validation ''session is invalid''), w)
      | Some spec \<Rightarrow>
          (case cat_ResolveContainerImage (rv_runtime r) (ss_providerId spec) (ss_executionClass spec) w of
             (Inl e, w) \<Rightarrow> (Inl e, w)
           | (Inr img, w) \<Rightarrow>
               (case loadPrimaryProviderSurfaceBinding r session w of (Inl e, w) \<Rightarrow> (Inl e, w)
                | (Inr surface, w) \<Rightarrow>
                    (case resolveAuthRequirement r (ss_providerId spec) surface
                            (getf [] RuntimeBaseURL (sb_runtime surface)) w of
                       (Inl e, w) \<Rightarrow> (Inl e, w)
                     | (Inr authRequirement, w) \<Rightarrow>
                         (Inr \<lparr>rtr_ContainerImage = ci_Image img, rtr_CPURequest = ci_CPURequest img,
                            rtr_MemoryRequest = ci_MemoryRequest img, rtr_AuthRequirement = Some authRequirement,
                            rtr_RuntimeCandidates = []\<rparr>, w)))))"

definition resolveRuntimeCandidate ::
    "'w Resolver \<Rightarrow> string \<Rightarrow> SurfaceBinding \<Rightarrow> ModelRef option \<Rightarrow> string \<Rightarrow> 'w \<Rightarrow> RuntimeCandidate result \<times> 'w" where
  "resolveRuntimeCandidate r providerID surface modelRef providerModelID w =
     (case resolveProviderModel r surface modelRef providerModelID w of (Inl e, w) \<Rightarrow> (Inl e, w)
      | (Inr model, w) \<Rightarrow>
          (case resolveAuthRequirement r providerID surface (rpm_baseUrl model) w of (Inl e, w) \<Rightarrow> (Inl e, w)
           | (Inr authRequirement, w) \<Rightarrow>
               (Inr \<lparr>cand_resolvedProviderModel = Some model, cand_authRequirement = Some authRequirement\<rparr>, w)))"

definition primaryModelSelector :: "AgentSessionSpec \<Rightarrow> ModelRef option \<times> string" where
  "primaryModelSelector spec =
     (case getf None rc_primaryModelSelector (ss_runtimeConfig spec) of
        None \<Rightarrow> (None, [])
      | Some (SelectModelRef ref) \<Rightarrow> (normalizeModelRef ref, [])
      | Some (SelectProviderModelId m) \<Rightarrow> (None, TrimSpace m))"

definition requestModel :: "RunRequest \<Rightarrow> string" where
  "requestModel request =
     (case getf None rin_parameters (rq_input request) of None \<Rightarrow> []
      | Some params \<Rightarrow> (case map_of params ''model'' of Some (StringParam s) \<Rightarrow> TrimSpace s | _ \<Rightarrow> []))"

definition resolvePrimaryRuntimeCandidate ::
    "'w Resolver \<Rightarrow> AgentSessionSpec \<Rightarrow> RunRequest \<Rightarrow> SurfaceBinding \<Rightarrow> 'w \<Rightarrow> RuntimeCandidate result \<times> 'w" where
  "resolvePrimaryRuntimeCandidate r spec request surface w =
     (let (modelRef, providerModelID) =
            (if requestModel request \<noteq> [] then (None, requestModel request) else primaryModelSelector spec) in
      if modelRef = None \<and> providerModelID = []
      then (Inl (exec_validation (''session '' @ go_quote (ss_sessionId spec) @ '' primary runtime model is empty'')), w)
      else resolveRuntimeCandidate r (ss_providerId spec) surface modelRef providerModelID w)"

definition resolveFallbackRuntimeCandidate ::
    "'w Resolver \<Rightarrow> AgentSessionSpec \<Rightarrow> RuntimeFallback option \<Rightarrow> 'w \<Rightarrow> RuntimeCandidate result \<times> 'w" where
  "resolveFallbackRuntimeCandidate r spec item w =
     (case item of None \<Rightarrow> (Inl (exec_validation ''runtime fallback candidate is nil''), w)
      | Some f \<Rightarrow>
          (case loadProviderSurfaceBindingByID r (getf [] prr_surfaceId (fb_providerRuntimeRef f)) w of
             (Inl e, w) \<Rightarrow> (Inl e, w)
           | (Inr surface, w) \<Rightarrow>
               (case fb_modelSelector f of
                  Some (SelectModelRef ref) \<Rightarrow>
                    resolveRuntimeCandidate r (ss_providerId spec) surface (normalizeModelRef ref) [] w
                | Some (SelectProviderModelId m) \<Rightarrow> resolveRuntimeCandidate r (ss_providerId spec) surface None m w
                | None \<Rightarrow> (Inl (exec_validation ''runtime fallback candidate model selector is required''), w))))"

fun resolve_fallbacks ::
    "'w Resolver \<Rightarrow> AgentSessionSpec \<Rightarrow> RuntimeFallback option list \<Rightarrow> 'w \<Rightarrow> RuntimeCandidate list result \<times> 'w" where
  "resolve_fallbacks r spec [] w = (Inr [], w)"
| "resolve_fallbacks r spec (item # items) w =
     (case resolveFallbackRuntimeCandidate r spec item w of (Inl e, w) \<Rightarrow> (Inl e, w)
      | (Inr candidate, w) \<Rightarrow>
          (case resolve_fallbacks r spec items w of (Inl e, w) \<Rightarrow> (Inl e, w)
           | (Inr candidates, w) \<Rightarrow> (Inr (candidate # candidates), w)))"

definition session_fallbacks :: "AgentSessionSpec \<Rightarrow> RuntimeFallback option list" where
  "session_fallbacks spec = getf [] rc_fallbacks (ss_runtimeConfig spec)"

definition resolveRuntimeCandidates :: "'w Resolver \<Rightarrow> SessionResource \<Rightarrow> RunRequest \<Rightarrow> 'w \<Rightarrow> RuntimeCandidate list result \<times> 'w" where
  "resolveRuntimeCandidates r session request w =
     (case sr_session session of None \<Rightarrow> (Inl (exec_validation ''session is invalid''), w)
      | Some spec \<Rightarrow>
          (case loadPrimaryProviderSurfaceBinding r session w of (Inl e, w) \<Rightarrow> (Inl e, w)
           | (Inr surface, w) \<Rightarrow>
               (case resolvePrimaryRuntimeCandidate r spec request surface w of (Inl e, w) \<Rightarrow> (Inl e, w)
                | (Inr primary, w) \<Rightarrow>
                    (case resolve_fallbacks r spec (session_fallbacks spec) w of (Inl e, w) \<Rightarrow> (Inl e, w)
                     | (Inr candidates, w) \<Rightarrow> (Inr (primary # candidates), w)))))"

definition ResolveRunTurn :: "'w Resolver \<Rightarrow> 'w resolver" where
  "ResolveRunTurn r session request w =
     (if rq_input request = None then (Inl (exec_validation ''run request is invalid''), w)
      else case resolver_Resolve r session w of (Inl e, w) \<Rightarrow> (Inl e, w)
      | (Inr resolution, w) \<Rightarrow>
          (case resolveRuntimeCandidates r session request w of (Inl e, w) \<Rightarrow> (Inl e, w)
           | (Inr candidates, w) \<Rightarrow>
               (Inr (resolution\<lparr>rtr_AuthRequirement := cand_authRequirement (hd candidates),
                  rtr_RuntimeCandidates := List.map Some candidates\<rparr>), w)))"

end
