(* ===== verification/Execution_Laws.thy ===== *)
theory Execution_Laws
  imports Agent_Execution
begin

text \<open>
  What the resolver of a turn promises, proved against the contract of its two interfaces: the catalogue
  answers the surface it was asked for, and the registry a valid model of the reference it was given. The
  remote implementations keep the contract.
\<close>

section \<open>The contract of the interfaces\<close>

locale turn_resolver =
  fixes r :: "'w Resolver"
  assumes surface_id: "cat_GetProviderSurfaceBinding (rv_runtime r) i w = (Inr (Some b), w') \<Longrightarrow>
      TrimSpace (sb_surfaceId b) = TrimSpace i"
    and model_of_ref: "reg_Resolve (rv_models r) ref w = (Inr d, w') \<Longrightarrow>
      \<exists>q e. ref = Some q \<and> mr_vendorId q \<noteq> [] \<and> ValidateResolvedModel d = None \<and>
        rm_effectiveDefinition d = Some e \<and>
        identityKey (mv_vendorId e) (mv_modelId e) = identityKey (mr_vendorId q) (mr_modelId q)"

definition callable :: "SurfaceBinding \<Rightarrow> bool" where
  "callable b \<longleftrightarrow> getf KindUnset RuntimeKind (sb_runtime b) \<noteq> KindUnset \<and> TrimSpace (sb_credentialId b) \<noteq> []"

definition candidate_ok :: "string \<Rightarrow> string \<Rightarrow> RuntimeCandidate \<Rightarrow> bool" where
  "candidate_ok providerID surfaceID c \<longleftrightarrow>
     (\<exists>m a d. cand_resolvedProviderModel c = Some m \<and> cand_authRequirement c = Some a \<and> rpm_model m = Some d \<and>
        ValidateResolvedModel d = None \<and> rpm_surfaceId m = TrimSpace surfaceID \<and>
        TrimSpace (auth_providerSurfaceBindingId a) = TrimSpace surfaceID \<and> auth_authStatus a = authStatusBound \<and>
        auth_providerId a = TrimSpace providerID \<and> auth_runtimeUrl a = rpm_baseUrl m \<and>
        auth_materializationKey a \<noteq> [] \<and> auth_providerRunBinding a = None)"

lemma TrimSpace_getf_base [simp]: "TrimSpace (getf [] RuntimeBaseURL x) = getf [] RuntimeBaseURL x"
  by (cases x) (auto simp: RuntimeBaseURL_def split: SurfaceAccess.splits)

lemma resolveMaterializationKey_nonempty:
  assumes "resolveMaterializationKey r cliID b w = (Inr k, w')"
  shows "k \<noteq> []"
  using assms ResolveAuthMaterialization_key
  by (fastforce simp: resolveMaterializationKey_def Let_def split: prod.splits sum.splits if_splits)

lemma resolveAuthRequirement_ok:
  assumes "resolveAuthRequirement r providerID b url w = (Inr a, w')"
  shows "auth_providerId a = TrimSpace providerID \<and> auth_providerSurfaceBindingId a = sb_surfaceId b \<and>
    auth_authStatus a = authStatusBound \<and> auth_runtimeUrl a = TrimSpace url \<and> auth_materializationKey a \<noteq> [] \<and>
    auth_providerRunBinding a = None"
  using assms resolveMaterializationKey_nonempty
  by (fastforce simp: resolveAuthRequirement_def split: prod.splits sum.splits)

lemma first_found: "List.find P xs = Some x \<Longrightarrow> P x"
  by (auto simp: find_Some_iff)

context turn_resolver begin

lemma load_ok:
  assumes "loadProviderSurfaceBindingByID r i w = (Inr b, w')"
  shows "TrimSpace (sb_surfaceId b) = TrimSpace i \<and> TrimSpace i \<noteq> [] \<and> callable b"
  using assms surface_id [of "TrimSpace i" w b w']
  by (auto simp: loadProviderSurfaceBindingByID_def Let_def callable_def
      split: prod.splits sum.splits option.splits if_splits)

lemma model_ok:
  assumes "resolveProviderModel r b ref pm w = (Inr m, w')"
  shows "\<exists>d. rpm_model m = Some d \<and> ValidateResolvedModel d = None \<and> rpm_surfaceId m = TrimSpace (sb_surfaceId b) \<and>
    rpm_baseUrl m = getf [] RuntimeBaseURL (sb_runtime b)"
  using assms model_of_ref
  by (fastforce simp: resolveProviderModel_def split: prod.splits sum.splits)

lemma candidate_ok:
  assumes "resolveRuntimeCandidate r p b ref pm w = (Inr c, w')" and "TrimSpace (sb_surfaceId b) = TrimSpace i"
  shows "candidate_ok p i c"
proof -
  from assms(1) obtain m v a where m: "resolveProviderModel r b ref pm w = (Inr m, v)"
    and a: "resolveAuthRequirement r p b (rpm_baseUrl m) v = (Inr a, w')"
    and c: "c = \<lparr>cand_resolvedProviderModel = Some m, cand_authRequirement = Some a\<rparr>"
    by (auto simp: resolveRuntimeCandidate_def split: prod.splits sum.splits)
  from model_ok [OF m] resolveAuthRequirement_ok [OF a] show ?thesis
    by (auto simp: candidate_ok_def c assms(2))
qed

lemma fallback_ok:
  assumes "resolveFallbackRuntimeCandidate r spec f w = (Inr c, w')"
  shows "candidate_ok (ss_providerId spec) (getf [] prr_surfaceId (getf None fb_providerRuntimeRef f)) c"
proof -
  from assms obtain v where f: "f = Some v" by (cases f) (auto simp: resolveFallbackRuntimeCandidate_def)
  let ?i = "getf [] prr_surfaceId (fb_providerRuntimeRef v)"
  from assms f obtain b u ref pm where "loadProviderSurfaceBindingByID r ?i w = (Inr b, u)"
    and "resolveRuntimeCandidate r (ss_providerId spec) b ref pm u = (Inr c, w')"
    by (auto simp: resolveFallbackRuntimeCandidate_def split: prod.splits sum.splits option.splits ModelSelector.splits)
  with load_ok candidate_ok f show ?thesis by auto
qed

lemma fallbacks_ok:
  assumes "resolve_fallbacks r spec fs w = (Inr cs, w')"
  shows "list_all2 (candidate_ok (ss_providerId spec))
    (map (\<lambda>f. getf [] prr_surfaceId (getf None fb_providerRuntimeRef f)) fs) cs"
  using assms
  by (induction fs arbitrary: cs w) (auto dest: fallback_ok split: prod.splits sum.splits)

lemma primary_ok:
  assumes "loadPrimaryProviderSurfaceBinding r session w = (Inr b, v)" and "sr_session session = Some spec"
    and "resolvePrimaryRuntimeCandidate r spec request b u = (Inr c, w')"
  shows "candidate_ok (ss_providerId spec) (primary_surface_id spec) c"
proof -
  from assms(1,2) have "loadProviderSurfaceBindingByID r (TrimSpace (primary_surface_id spec)) w = (Inr b, v)"
    by (auto simp: loadPrimaryProviderSurfaceBinding_def Let_def split: if_splits)
  from load_ok [OF this] have "TrimSpace (sb_surfaceId b) = TrimSpace (primary_surface_id spec)" by simp
  moreover from assms(3) obtain ref pm where "resolveRuntimeCandidate r (ss_providerId spec) b ref pm u = (Inr c, w')"
    by (auto simp: resolvePrimaryRuntimeCandidate_def Let_def split: prod.splits if_splits)
  ultimately show ?thesis by (rule candidate_ok [rotated])
qed

lemma candidates_ok:
  assumes "ResolveRunTurn r session request w = (Inr res, w')" and "sr_session session = Some spec"
  shows "\<exists>cs. rtr_RuntimeCandidates res = map Some cs \<and> rtr_AuthRequirement res = cand_authRequirement (hd cs) \<and>
    list_all2 (candidate_ok (ss_providerId spec))
      (primary_surface_id spec # map (\<lambda>f. getf [] prr_surfaceId (getf None fb_providerRuntimeRef f)) (session_fallbacks spec)) cs"
proof -
  from assms(1) obtain res0 v cs where cs: "resolveRuntimeCandidates r session request v = (Inr cs, w')"
    and res: "res = res0\<lparr>rtr_AuthRequirement := cand_authRequirement (hd cs), rtr_RuntimeCandidates := map Some cs\<rparr>"
    by (auto simp: ResolveRunTurn_def split: if_splits prod.splits sum.splits)
  from cs assms(2) obtain b u c x cs' where b: "loadPrimaryProviderSurfaceBinding r session v = (Inr b, u)"
    and c: "resolvePrimaryRuntimeCandidate r spec request b u = (Inr c, x)"
    and fs: "resolve_fallbacks r spec (session_fallbacks spec) x = (Inr cs', w')" and "cs = c # cs'"
    by (auto simp: resolveRuntimeCandidates_def split: prod.splits sum.splits)
  then show ?thesis using primary_ok [OF b assms(2) c] fallbacks_ok [OF fs] by (intro exI [of _ cs]) (simp add: res)
qed

text \<open>A reference without a vendor selects an entry of the catalogue, but not its model.\<close>

lemma vendorless_fails:
  assumes "normalizeModelRef ref = Some q" and "mr_vendorId q = []"
  shows "\<exists>e v. resolveProviderModel r b ref pm w = (Inl e, v)"
proof -
  have "mb_modelRef x = Some q" if "selectModelBinding r b ref pm w = (Inr x, v)" for x v
    using that assms(1) by (auto simp: selectModelBinding_def Let_def split: sum.splits option.splits)
  with assms(2) model_of_ref show ?thesis
    by (fastforce simp: resolveProviderModel_def split: prod.splits sum.splits)
qed

end

section \<open>The remote implementations\<close>

lemma GetProviderSurfaceBinding_id:
  assumes "GetProviderSurfaceBinding c i w = (Inr (Some b), w')"
  shows "TrimSpace (sb_surfaceId b) = TrimSpace i"
proof -
  from assms obtain items x where x: "List.find (\<lambda>j. TrimSpace (getf [] sb_surfaceId j) = TrimSpace i) items = Some x"
    and b: "b = getf empty_surface id x"
    by (auto simp: GetProviderSurfaceBinding_def Let_def split: prod.splits sum.splits option.splits)
  from first_found [OF x] b show ?thesis by (cases x) (simp_all add: empty_surface_def)
qed

lemma ValidateRef_None: "ValidateRef ref = None \<longleftrightarrow> (\<exists>q. ref = Some q \<and> mr_modelId q \<noteq> [] \<and> mr_vendorId q \<noteq> [])"
  by (auto simp: ValidateRef_def split: option.splits)

lemma registry_Resolve_ref:
  assumes "registry_Resolve c ref w = (Inr d, w')"
  shows "\<exists>q e. ref = Some q \<and> mr_vendorId q \<noteq> [] \<and> ValidateResolvedModel d = None \<and>
    rm_effectiveDefinition d = Some e \<and>
    identityKey (mv_vendorId e) (mv_modelId e) = identityKey (mr_vendorId q) (mr_modelId q)"
proof -
  from assms have "ValidateRef ref = None" by (auto simp: registry_Resolve_def split: option.splits)
  then obtain q where q: "ref = Some q" "mr_vendorId q \<noteq> []" by (auto simp: ValidateRef_None)
  with assms \<open>ValidateRef ref = None\<close> show ?thesis
    by (auto simp: registry_Resolve_def Let_def split: prod.splits sum.splits option.splits if_splits)
qed

definition remote_resolver :: "'w RuntimeServices \<Rightarrow> 'w ModelService \<Rightarrow> 'w Resolver" where
  "remote_resolver c m = \<lparr>rv_runtime = remote_catalog c, rv_models = remote_registry m\<rparr>"

interpretation remote: turn_resolver "remote_resolver c m" for c :: "'w RuntimeServices" and m
  by unfold_locales
    (auto simp: remote_resolver_def remote_catalog_def remote_registry_def dest: GetProviderSurfaceBinding_id registry_Resolve_ref)

section \<open>Properties\<close>



end
