(* ===== verification/Runtime_Context.thy ===== *)
theory Runtime_Context
  imports Agent_Execution Egress_Ext_Authz
begin

text \<open>
  What a run may do at the egress gateway (\<open>sessionapi/agent_run_runtime_context.go\<close>,
  \<open>agent_run_prepare_auth.go\<close>, \<open>agentrunauth/projection.go\<close>): the caller is found by its run, its workload or
  its pod, and the answer carries the credential of the run, the headers to set and the targets they may
  go to. \<open>runtime_context_client\<close> is this service as the gateway's authentication calls it.

  The pods of the cluster and the services of credentials, capabilities and egress policies are calls over
  the world \<open>'w\<close>. The spec of a run that is read is never nil, since \<open>runStateFromResource\<close> refuses it.
\<close>

section \<open>Pods\<close>

record Pod =
  kp_namespace :: string
  kp_name :: string
  kp_uid :: string
  kp_labels :: "(string \<times> string) list"
  kp_created :: time
  kp_podIP :: string
  kp_podIPs :: "string list"

record 'w PodClient =
  pods_Get :: "string \<Rightarrow> string \<Rightarrow> 'w \<Rightarrow> Pod result \<times> 'w"
  pods_List :: "string \<Rightarrow> (string \<times> string) list \<Rightarrow> 'w \<Rightarrow> Pod list result \<times> 'w"

definition runIDLabelKey :: string where
  "runIDLabelKey = ''agentrun.code-code.internal/run-id''"

definition api_validation :: "string \<Rightarrow> go_error" where
  "api_validation m = DomainValidation (''platformk8s/sessionapi: '' @ m)"

definition podHasIP :: "Pod \<Rightarrow> string \<Rightarrow> bool" where
  "podHasIP pod ip \<longleftrightarrow>
     (let ip = TrimSpace ip in
      ip \<noteq> [] \<and> (TrimSpace (kp_podIP pod) = ip \<or> list_ex (\<lambda>v. TrimSpace v = ip) (kp_podIPs pod)))"

definition validatePodRef :: "Pod \<Rightarrow> string \<Rightarrow> string \<Rightarrow> go_error option" where
  "validatePodRef pod uid ip =
     (if uid \<noteq> [] \<and> kp_uid pod \<noteq> uid then Some (api_validation ''pod uid does not match'')
      else if ip \<noteq> [] \<and> \<not> podHasIP pod ip then Some (api_validation ''pod ip does not match'')
      else None)"

definition podRefFromPod :: "Pod \<Rightarrow> PodRef" where
  "podRefFromPod pod = \<lparr>pod_namespace = TrimSpace (kp_namespace pod), pod_name = TrimSpace (kp_name pod),
     pod_uid = TrimSpace (kp_uid pod), pod_ip = TrimSpace (kp_podIP pod)\<rparr>"

section \<open>The server\<close>

record CredentialProjection =
  crp_credentialKind :: CredentialKind
  crp_vendorId :: string

record CapabilitySubject =
  cs_providerId :: string
  cs_surfaceId :: string
  cs_protocol :: Protocol
  cs_credentialKind :: CredentialKind
  cs_runtimeUrl :: string
  cs_authMaterializationKey :: string

text \<open>Of the observability capability only the ids of its profiles are read; a nil profile reads as the empty id.\<close>

record Capabilities =
  cap_egressPolicyId :: string
  cap_authPolicyId :: string
  cap_profileIds :: "string list"
  cap_authMaterializationKey :: string

record EgressRuntimePolicy =
  erp_targetHosts :: "string list"
  erp_targetPathPrefixes :: "string list"

record 'w RuntimeAuthClient =
  rac_GetCredentialRuntimeProjection :: "string \<Rightarrow> 'w \<Rightarrow> CredentialProjection option result \<times> 'w"
  rac_GetEgressAuthPolicy :: "GetEgressAuthPolicyRequest \<Rightarrow> 'w \<Rightarrow> GetEgressAuthPolicyResponse result \<times> 'w"

record 'w SessionServer =
  sv_namespace :: string
  sv_runtimeNamespace :: string
  sv_runGet :: "string \<Rightarrow> 'w \<Rightarrow> AgentRunState result \<times> 'w"
  sv_pods :: "'w PodClient option"
  sv_catalog :: "'w RuntimeCatalog option"
  sv_auth :: "'w RuntimeAuthClient option"
  sv_support :: "(CapabilitySubject \<Rightarrow> 'w \<Rightarrow> Capabilities result \<times> 'w) option"
  sv_egress :: "(string \<Rightarrow> string \<Rightarrow> 'w \<Rightarrow> EgressRuntimePolicy option result \<times> 'w) option"

text \<open>\<open>errors.go\<close> maps errors to statuses as the authentication service does.\<close>

definition sessionapi_grpcError :: "go_error \<Rightarrow> go_error" where
  "sessionapi_grpcError = auth_grpcError"

section \<open>The pod of a caller\<close>

definition pod_matches :: "string \<Rightarrow> string \<Rightarrow> Pod \<Rightarrow> bool" where
  "pod_matches uid ip pod \<longleftrightarrow> (uid \<noteq> [] \<longrightarrow> kp_uid pod = uid) \<and> (ip \<noteq> [] \<longrightarrow> podHasIP pod ip)"

definition resolveRuntimePod :: "'w SessionServer \<Rightarrow> PodRef option \<Rightarrow> 'w \<Rightarrow> Pod result \<times> 'w" where
  "resolveRuntimePod s ref w =
     (case ref of None \<Rightarrow> (Inl (api_validation ''pod ref is required''), w)
      | Some r \<Rightarrow>
          (let namespace = firstNonEmpty [pod_namespace r, sv_runtimeNamespace s, sv_namespace s];
               name = TrimSpace (pod_name r); uid = TrimSpace (pod_uid r); ip = TrimSpace (pod_ip r) in
           if namespace = [] then (Inl (api_validation ''pod namespace is required''), w)
           else case sv_pods s of None \<Rightarrow> (Inl (api_validation ''runtime client is unavailable''), w)
           | Some client \<Rightarrow>
               if name \<noteq> [] then
                 (case pods_Get client namespace name w of (Inl e, w) \<Rightarrow> (Inl e, w)
                  | (Inr pod, w) \<Rightarrow>
                      (case validatePodRef pod uid ip of Some e \<Rightarrow> (Inl e, w) | None \<Rightarrow> (Inr pod, w)))
               else if uid = [] \<and> ip = [] then (Inl (api_validation ''pod name, uid, or ip is required''), w)
               else
                 (case pods_List client namespace [] w of (Inl e, w) \<Rightarrow> (Inl e, w)
                  | (Inr items, w) \<Rightarrow>
                      (case filter (pod_matches uid ip) items of
                         [] \<Rightarrow> (Inl (DomainNotFound (''platformk8s/sessionapi: runtime pod not found in namespace '' @ namespace)), w)
                       | [pod] \<Rightarrow> (Inr pod, w)
                       | _ \<Rightarrow> (Inl (api_validation (''pod ref matched multiple pods in namespace '' @ namespace)), w)))))"

definition podForRun :: "'w SessionServer \<Rightarrow> string \<Rightarrow> 'w \<Rightarrow> Pod option result \<times> 'w" where
  "podForRun s runID w =
     (let runID = TrimSpace runID; namespace = firstNonEmpty [sv_runtimeNamespace s, sv_namespace s] in
      case sv_pods s of None \<Rightarrow> (Inr None, w)
      | Some client \<Rightarrow>
          if runID = [] \<or> namespace = [] then (Inr None, w)
          else case pods_List client namespace [(runIDLabelKey, runID)] w of
            (Inl e, w) \<Rightarrow> (Inl e, w)
          | (Inr [], w) \<Rightarrow> (Inr None, w)
          | (Inr (pod # pods), w) \<Rightarrow>
              (Inr (Some (foldl (\<lambda>selected candidate.
                 if kp_created selected < kp_created candidate then candidate else selected) pod pods)), w))"

section \<open>The projection of the authentication\<close>

text \<open>The fields of a trigger request that the projection reads.\<close>

record PrepareAuth =
  pa_providerID :: string
  pa_surfaceBindingID :: string
  pa_runtimeURL :: string
  pa_materializationKey :: string
  pa_cliID :: string

record Projection =
  pj_MaterializationKey :: string
  pj_RuntimeURL :: string
  pj_TargetHosts :: "string list"
  pj_TargetPathPrefixes :: "string list"
  pj_RequestHeaderNames :: "string list"
  pj_HeaderValuePrefix :: string
  pj_RequestRules :: "SimpleReplacementRule list"
  pj_ResponseRules :: "SimpleReplacementRule list"
  pj_EgressPolicyID :: string
  pj_AuthPolicyID :: string
  pj_ObservabilityProfileIDs :: "string list"
  pj_ProviderID :: string
  pj_VendorID :: string
  pj_ProviderSurfaceBindingID :: string
  pj_CLIID :: string

definition observabilityProfileIDs :: "string list \<Rightarrow> string list" where
  "observabilityProfileIDs ids = sort (unique_names [] (List.map TrimSpace ids))"

text \<open>What the services answer, checked one after the other.\<close>

definition projection_subject ::
    "PrepareAuth \<Rightarrow> SurfaceBinding \<Rightarrow> SurfaceRuntime \<Rightarrow> CredentialProjection \<Rightarrow> CapabilitySubject" where
  "projection_subject body surface runtime credential =
     (let cliID = firstNonEmpty [pa_cliID body, pa_providerID body, RuntimeCLIID runtime] in
      \<lparr>cs_providerId = firstNonEmpty [pa_providerID body, cliID], cs_surfaceId = sb_surfaceId surface,
         cs_protocol = RuntimeProtocol runtime, cs_credentialKind = crp_credentialKind credential,
         cs_runtimeUrl = firstNonEmpty [pa_runtimeURL body, RuntimeBaseURL runtime],
         cs_authMaterializationKey = pa_materializationKey body\<rparr>)"

definition projection_of ::
    "PrepareAuth \<Rightarrow> SurfaceBinding \<Rightarrow> SurfaceRuntime \<Rightarrow> CredentialProjection \<Rightarrow> Capabilities \<Rightarrow> string \<Rightarrow>
     EgressRuntimePolicy option \<Rightarrow> GetEgressAuthPolicyResponse \<Rightarrow> Projection" where
  "projection_of body surface runtime credential capabilities key egressPolicy authPolicy =
     (let cliID = firstNonEmpty [pa_cliID body, pa_providerID body, RuntimeCLIID runtime] in
      \<lparr>pj_MaterializationKey = firstNonEmpty [ep_materializationKey authPolicy, key],
         pj_RuntimeURL = firstNonEmpty [pa_runtimeURL body, RuntimeBaseURL runtime],
         pj_TargetHosts = getf [] erp_targetHosts egressPolicy,
         pj_TargetPathPrefixes = getf [] erp_targetPathPrefixes egressPolicy,
         pj_RequestHeaderNames = ep_requestHeaderNames authPolicy, pj_HeaderValuePrefix = ep_headerValuePrefix authPolicy,
         pj_RequestRules = ep_requestRules authPolicy, pj_ResponseRules = ep_responseRules authPolicy,
         pj_EgressPolicyID = cap_egressPolicyId capabilities, pj_AuthPolicyID = cap_authPolicyId capabilities,
         pj_ObservabilityProfileIDs = observabilityProfileIDs (cap_profileIds capabilities),
         pj_ProviderID = firstNonEmpty [pa_providerID body, cliID], pj_VendorID = crp_vendorId credential,
         pj_ProviderSurfaceBindingID = sb_surfaceId surface, pj_CLIID = cliID\<rparr>)"

definition fmt_error :: "string \<Rightarrow> go_error" where
  "fmt_error m = PlainError (''platformk8s/sessionapi: '' @ m)"

definition agentRunAuthProjection ::
    "'w RuntimeCatalog \<Rightarrow> 'w RuntimeAuthClient \<Rightarrow> (CapabilitySubject \<Rightarrow> 'w \<Rightarrow> Capabilities result \<times> 'w) \<Rightarrow>
     (string \<Rightarrow> string \<Rightarrow> 'w \<Rightarrow> EgressRuntimePolicy option result \<times> 'w) \<Rightarrow> PrepareAuth \<Rightarrow> 'w \<Rightarrow> Projection result \<times> 'w" where
  "agentRunAuthProjection catalog auth support egress body w =
     (case cat_GetProviderSurfaceBinding catalog (pa_surfaceBindingID body) w of (Inl e, w) \<Rightarrow> (Inl e, w)
      | (Inr binding, w) \<Rightarrow>
          (let invalid = (\<lambda>m. fmt_error (''provider surface binding '' @ go_quote (pa_surfaceBindingID body) @ m)) in
           case (binding, Option.bind binding sb_runtime) of
             (Some surface, Some runtime) \<Rightarrow>
               if RuntimeKind runtime = KindUnset then (Inl (invalid '' runtime is invalid''), w)
               else (let credentialID = TrimSpace (sb_credentialId surface) in
                 if credentialID = [] then (Inl (invalid '' credential is empty''), w)
                 else case rac_GetCredentialRuntimeProjection auth credentialID w of (Inl e, w) \<Rightarrow> (Inl e, w)
                 | (Inr None, w) \<Rightarrow>
                     (Inl (fmt_error (''credential '' @ go_quote credentialID @ '' runtime projection is empty'')), w)
                 | (Inr (Some credential), w) \<Rightarrow>
                     (let subject = projection_subject body surface runtime credential in
                      case support subject w of (Inl e, w) \<Rightarrow> (Inl e, w)
                      | (Inr capabilities, w) \<Rightarrow>
                          (let key = firstNonEmpty [cap_authMaterializationKey capabilities, pa_materializationKey body];
                               expected = TrimSpace (pa_materializationKey body) in
                           if expected \<noteq> [] \<and> key \<noteq> [] \<and> expected \<noteq> key
                           then (Inl (fmt_error (''auth materialization key '' @ go_quote expected @ '' does not match '' @ go_quote key)), w)
                           else case egress (cap_egressPolicyId capabilities) (cs_runtimeUrl subject) w of (Inl e, w) \<Rightarrow> (Inl e, w)
                           | (Inr egressPolicy, w) \<Rightarrow>
                               (case rac_GetEgressAuthPolicy auth
                                       \<lparr>gp_policyId = cap_authPolicyId capabilities, gp_materializationKey = key,
                                        gp_credentialKind = crp_credentialKind credential, gp_protocol = RuntimeProtocol runtime\<rparr> w of
                                  (Inl e, w) \<Rightarrow> (Inl e, w)
                                | (Inr authPolicy, w) \<Rightarrow>
                                    (Inr (projection_of body surface runtime credential capabilities key egressPolicy authPolicy), w)))))
           | _ \<Rightarrow> (Inl (invalid '' runtime is invalid''), w)))"

definition trimNonEmpty :: "string list \<Rightarrow> string list" where
  "trimNonEmpty values = filter (\<lambda>v. v \<noteq> []) (List.map TrimSpace values)"

definition cloneHeaderReplacementRule :: "SimpleReplacementRule \<Rightarrow> SimpleReplacementRule" where
  "cloneHeaderReplacementRule r = \<lparr>rule_Mode = TrimSpace (rule_Mode r), rule_HeaderName = TrimSpace (rule_HeaderName r),
     rule_MaterialKey = TrimSpace (rule_MaterialKey r), rule_HeaderValuePrefix = TrimSpace (rule_HeaderValuePrefix r),
     rule_Template = TrimSpace (rule_Template r)\<rparr>"

definition cloneHeaderReplacementRules :: "SimpleReplacementRule list \<Rightarrow> SimpleReplacementRule option list" where
  "cloneHeaderReplacementRules rules = List.map (\<lambda>r. Some (cloneHeaderReplacementRule r)) rules"

definition or_else :: "string \<Rightarrow> string \<Rightarrow> string" where
  "or_else v d = (if v = [] then TrimSpace d else v)"

definition ApplyToRuntimeMetadata :: "RuntimeMetadata \<Rightarrow> Projection \<Rightarrow> RuntimeMetadata" where
  "ApplyToRuntimeMetadata m p = m
     \<lparr>md_targetHosts := trimNonEmpty (pj_TargetHosts p), md_targetPathPrefixes := trimNonEmpty (pj_TargetPathPrefixes p),
      md_requestHeaderNames := trimNonEmpty (pj_RequestHeaderNames p),
      md_requestRules := cloneHeaderReplacementRules (pj_RequestRules p),
      md_responseRules := cloneHeaderReplacementRules (pj_ResponseRules p),
      md_headerValuePrefix := TrimSpace (pj_HeaderValuePrefix p), md_egressPolicyId := TrimSpace (pj_EgressPolicyID p),
      md_authPolicyId := TrimSpace (pj_AuthPolicyID p),
      md_observabilityProfileIds := trimNonEmpty (pj_ObservabilityProfileIDs p),
      md_cliId := or_else (md_cliId m) (pj_CLIID p), md_providerId := or_else (md_providerId m) (pj_ProviderID p),
      md_authMaterializationKey := or_else (md_authMaterializationKey m) (pj_MaterializationKey p),
      md_runtimeUrl := or_else (md_runtimeUrl m) (pj_RuntimeURL p)\<rparr>"

section \<open>The metadata of a run\<close>

definition binding_metadata :: "AgentRunSpec \<Rightarrow> ProviderRunBinding \<Rightarrow> RuntimeMetadata \<Rightarrow> RuntimeMetadata" where
  "binding_metadata spec b m = m
     \<lparr>md_cliId := firstNonEmpty [prb_runtimeCliId b, rs_agentRuntimeId spec],
      md_providerId := firstNonEmpty [prb_providerId b, md_providerId m],
      md_credentialId := TrimSpace (case prb_grantId b of None \<Rightarrow> [] | Some g \<Rightarrow> g),
      md_runtimeUrl := TrimSpace (prb_runtimeUrl b), md_authMaterializationKey := TrimSpace (prb_materializationKey b),
      md_protocol := (case prb_access b of RunAccessApi p \<Rightarrow> p | _ \<Rightarrow> md_protocol m),
      md_modelId := firstNonEmpty [prb_providerModelId b, prb_canonicalModelId b, prb_sourceModelId b]\<rparr>"

definition base_metadata :: "AgentRunSpec \<Rightarrow> RuntimeMetadata" where
  "base_metadata spec =
     (let m = empty_metadata\<lparr>md_cliId := TrimSpace (rs_agentRuntimeId spec), md_imageId := TrimSpace (rs_containerImage spec)\<rparr> in
      case getf None auth_providerRunBinding (rs_authRequirement spec) of None \<Rightarrow> m
      | Some b \<Rightarrow> binding_metadata spec b m)"

definition addRuntimeAuthProjectionMetadata ::
    "'w SessionServer \<Rightarrow> AgentRunSpec \<Rightarrow> RuntimeMetadata \<Rightarrow> 'w \<Rightarrow> RuntimeMetadata result \<times> 'w" where
  "addRuntimeAuthProjectionMetadata s spec m w =
     (let auth = rs_authRequirement spec; surfaceID = TrimSpace (getf [] auth_providerSurfaceBindingId auth) in
      case (sv_catalog s, sv_auth s, sv_support s, sv_egress s) of
        (Some catalog, Some authClient, Some support, Some egress) \<Rightarrow>
          if surfaceID = [] then (Inr m, w)
          else
            (case agentRunAuthProjection catalog authClient support egress
                \<lparr>pa_providerID = firstNonEmpty [getf [] auth_providerId auth, rs_providerId spec, md_providerId m],
                 pa_surfaceBindingID = surfaceID,
                 pa_runtimeURL = firstNonEmpty [getf [] auth_runtimeUrl auth, md_runtimeUrl m],
                 pa_materializationKey = firstNonEmpty [getf [] auth_materializationKey auth, md_authMaterializationKey m],
                 pa_cliID = firstNonEmpty [md_cliId m, rs_agentRuntimeId spec]\<rparr> w of
               (Inl e, w) \<Rightarrow> (Inl e, w)
             | (Inr projection, w) \<Rightarrow> (Inr (ApplyToRuntimeMetadata m projection), w))
      | _ \<Rightarrow> (Inr m, w))"

definition runtimeMetadataFromRun :: "'w SessionServer \<Rightarrow> AgentRunState \<Rightarrow> 'w \<Rightarrow> RuntimeMetadata result \<times> 'w" where
  "runtimeMetadataFromRun s run w = addRuntimeAuthProjectionMetadata s (rst_spec run) (base_metadata (rst_spec run)) w"

record RuntimeContext =
  ctx_run :: AgentRunState
  ctx_pod :: "PodRef option"
  ctx_metadata :: RuntimeMetadata

definition runtimeContextResponse :: "'w SessionServer \<Rightarrow> AgentRunState \<Rightarrow> Pod option \<Rightarrow> 'w \<Rightarrow> RuntimeContext result \<times> 'w" where
  "runtimeContextResponse s run pod w =
     (case runtimeMetadataFromRun s run w of (Inl e, w) \<Rightarrow> (Inl e, w)
      | (Inr metadata, w) \<Rightarrow> (Inr \<lparr>ctx_run = run, ctx_pod = map_option podRefFromPod pod, ctx_metadata = metadata\<rparr>, w))"

section \<open>The call\<close>

definition context_by_run :: "'w SessionServer \<Rightarrow> string \<Rightarrow> string \<Rightarrow> 'w \<Rightarrow> RuntimeContext result \<times> 'w" where
  "context_by_run s field runID w =
     (let runID = TrimSpace runID in
      if runID = [] then (Inl (api_validation (field @ '' is required'')), w)
      else case sv_runGet s runID w of (Inl e, w) \<Rightarrow> (Inl e, w)
      | (Inr run, w) \<Rightarrow>
          (case podForRun s runID w of (Inl e, w) \<Rightarrow> (Inl e, w)
           | (Inr pod, w) \<Rightarrow> runtimeContextResponse s run pod w))"

definition resolveAgentRunRuntimeContextByPod :: "'w SessionServer \<Rightarrow> PodRef option \<Rightarrow> 'w \<Rightarrow> RuntimeContext result \<times> 'w" where
  "resolveAgentRunRuntimeContextByPod s ref w =
     (case resolveRuntimePod s ref w of (Inl e, w) \<Rightarrow> (Inl e, w)
      | (Inr pod, w) \<Rightarrow>
          (let runID = TrimSpace (case map_of (kp_labels pod) runIDLabelKey of None \<Rightarrow> [] | Some v \<Rightarrow> v) in
           if runID = []
           then (Inl (DomainNotFound (''platformk8s/sessionapi: runtime context not found for pod '' @
             kp_namespace pod @ ''/'' @ kp_name pod)), w)
           else case sv_runGet s runID w of (Inl e, w) \<Rightarrow> (Inl e, w)
           | (Inr run, w) \<Rightarrow> runtimeContextResponse s run (Some pod) w))"

definition ResolveAgentRunRuntimeContext :: "'w SessionServer \<Rightarrow> RuntimeSource \<Rightarrow> 'w \<Rightarrow> RuntimeContext result \<times> 'w" where
  "ResolveAgentRunRuntimeContext s source w =
     (let (r, w) =
        (case source of
           SourceRunId runID \<Rightarrow> context_by_run s ''run_id'' runID w
         | SourceWorkloadId workloadID \<Rightarrow> context_by_run s ''workload_id'' workloadID w
         | SourcePod ref \<Rightarrow> resolveAgentRunRuntimeContextByPod s ref w
         | SourceUnset \<Rightarrow> (Inl (api_validation ''runtime context source is required''), w)) in
      (case r of Inl e \<Rightarrow> Inl (sessionapi_grpcError e) | Inr ctx \<Rightarrow> Inr ctx, w))"

definition runtime_context_client :: "'w SessionServer \<Rightarrow> RuntimeSource \<Rightarrow> 'w \<Rightarrow> RuntimeMetadata option result \<times> 'w" where
  "runtime_context_client s source w =
     (case ResolveAgentRunRuntimeContext s source w of (Inl e, w) \<Rightarrow> (Inl e, w)
      | (Inr ctx, w) \<Rightarrow> (Inr (Some (ctx_metadata ctx)), w))"

end
