(* ===== verification/Runtime_Entitlement.thy ===== *)
theory Runtime_Entitlement
  imports Execution_Laws Runtime_Context Egress_Laws Run_Status
begin

text \<open>
  The path of a credential from the session to the gateway: the pod of a caller is found exactly, the
  metadata of its run names the credential only if the run is bound to a provider account, and the runs
  that turns start are not.
\<close>

section \<open>Pods\<close>

lemma filter_single: "filter P xs = [x] \<Longrightarrow> x \<in> set xs \<and> P x \<and> (\<forall>y \<in> set xs. P y \<longrightarrow> y = x)"
proof -
  assume "filter P xs = [x]"
  then have "{y \<in> set xs. P y} = {x}" by (metis set_filter empty_set list.simps(15))
  then show "x \<in> set xs \<and> P x \<and> (\<forall>y \<in> set xs. P y \<longrightarrow> y = x)" by blast
qed

lemma validatePodRef_None: "validatePodRef pod uid ip = None \<longleftrightarrow> pod_matches uid ip pod"
  by (auto simp: validatePodRef_def pod_matches_def)

lemma resolved_pod:
  assumes "resolveRuntimePod s (Some ref) w = (Inr pod, w')"
  shows "pod_matches (TrimSpace (pod_uid ref)) (TrimSpace (pod_ip ref)) pod \<and> (\<exists>client. sv_pods s = Some client \<and>
    (let namespace = firstNonEmpty [pod_namespace ref, sv_runtimeNamespace s, sv_namespace s]; name = TrimSpace (pod_name ref) in
     (name \<noteq> [] \<and> pods_Get client namespace name w = (Inr pod, w')) \<or>
     (\<exists>items. pods_List client namespace [] w = (Inr items, w') \<and> pod \<in> set items \<and>
        (\<forall>p \<in> set items. pod_matches (TrimSpace (pod_uid ref)) (TrimSpace (pod_ip ref)) p \<longrightarrow> p = pod))))"
  using assms
  by (auto simp: resolveRuntimePod_def Let_def validatePodRef_None simp del: firstNonEmpty.simps dest: filter_single
      split: option.splits prod.splits sum.splits if_splits list.splits)

section \<open>The credential of a run\<close>

lemma unbound_metadata:
  assumes "runtimeMetadataFromRun s run w = (Inr md, w')"
    and "getf None auth_providerRunBinding (rs_authRequirement (rst_spec run)) = None"
  shows "md_credentialId md = []"
proof -
  have "md_credentialId (base_metadata (rst_spec run)) = []"
    using assms(2) by (simp add: base_metadata_def empty_metadata_def)
  with assms(1) show ?thesis
    by (auto simp: runtimeMetadataFromRun_def addRuntimeAuthProjectionMetadata_def Let_def ApplyToRuntimeMetadata_def
        simp del: firstNonEmpty.simps split: option.splits prod.splits sum.splits if_splits)
qed

lemma context_of_run:
  assumes "ResolveAgentRunRuntimeContext s source w = (Inr ctx, w')"
  shows "\<exists>i u run v pod x. sv_runGet s i u = (Inr run, v) \<and> runtimeContextResponse s run pod x = (Inr ctx, w')"
proof -
  have run: "\<exists>i u run v pod x. sv_runGet s i u = (Inr run, v) \<and> runtimeContextResponse s run pod x = (Inr ctx, w')"
    if "context_by_run s field j w = (Inr ctx, w')" for field j
    using that by (auto simp: context_by_run_def Let_def split: prod.splits sum.splits if_splits) blast
  have pod: "\<exists>i u run v pod x. sv_runGet s i u = (Inr run, v) \<and> runtimeContextResponse s run pod x = (Inr ctx, w')"
    if "resolveAgentRunRuntimeContextByPod s ref w = (Inr ctx, w')" for ref
    using that
    by (auto simp: resolveAgentRunRuntimeContextByPod_def Let_def split: prod.splits sum.splits if_splits option.splits) blast
  from assms run pod show ?thesis
    by (auto simp: ResolveAgentRunRuntimeContext_def split: RuntimeSource.splits prod.splits sum.splits)
qed

lemma client_metadata:
  assumes "runtime_context_client s q w = (Inr (Some md), w')"
  shows "\<exists>i u run v x. sv_runGet s i u = (Inr run, v) \<and> runtimeMetadataFromRun s run x = (Inr md, w')"
proof -
  from assms obtain ctx where c: "ResolveAgentRunRuntimeContext s q w = (Inr ctx, w')" and md: "md = ctx_metadata ctx"
    by (auto simp: runtime_context_client_def split: prod.splits sum.splits)
  from context_of_run [OF c] obtain i u run v pod x where "sv_runGet s i u = (Inr run, v)"
    and "runtimeContextResponse s run pod x = (Inr ctx, w')" by blast
  with md show ?thesis by (fastforce simp: runtimeContextResponse_def split: prod.splits sum.splits)
qed

section \<open>The runs of turns\<close>

text \<open>The spec of a run of a turn: resolved, frozen in the snapshot, bound to one candidate.\<close>

definition turn_run :: "'v RuntimeServices \<Rightarrow> 'v ModelService \<Rightarrow> AgentRunSpec \<Rightarrow> bool" where
  "turn_run c m spec \<longleftrightarrow> (\<exists>session request w w' sn k runID selected sid.
     buildRunTurnSnapshot (ResolveRunTurn (remote_resolver c m)) session request w = (Inr sn, w') \<and>
     snapshotForCandidate (Some sn) k runID = Inr selected \<and>
     buildRunSpec sid (Some \<lparr>crr_RunID = runID, crr_Snapshot = Some selected\<rparr>) runID = Inr spec)"

lemma list_all2_nth_ok: "list_all2 P xs ys \<Longrightarrow> y \<in> set ys \<Longrightarrow> \<exists>x. P x y"
  by (metis in_set_conv_nth list_all2_conv_all_nth)

lemma snapshot_resolution:
  assumes "buildRunTurnSnapshot resolver session request w = (Inr sn, w')"
  shows "\<exists>spec rq u res v. sr_session session = Some spec \<and> resolver session rq u = (Inr res, v) \<and>
    sn_runtimeCandidates sn = cloneRuntimeCandidates (rtr_RuntimeCandidates res)"
  using assms
  by (auto simp: buildRunTurnSnapshot_def Let_def split: sum.splits option.splits if_splits prod.splits list.splits)
    (intro exI conjI, assumption, simp)

lemma snapshot_candidates:
  assumes "buildRunTurnSnapshot (ResolveRunTurn (remote_resolver c m)) session request w = (Inr sn, w')"
    and "x \<in> set (sn_runtimeCandidates sn)"
  shows "\<exists>p i v. x = Some v \<and> candidate_ok p i v"
proof -
  from snapshot_resolution [OF assms(1)] obtain spec rq u res v where spec: "sr_session session = Some spec"
    and res: "ResolveRunTurn (remote_resolver c m) session rq u = (Inr res, v)"
    and sn: "sn_runtimeCandidates sn = cloneRuntimeCandidates (rtr_RuntimeCandidates res)" by blast
  from remote.candidates_ok [OF res spec] obtain cs where "rtr_RuntimeCandidates res = map Some cs"
    and "list_all2 (candidate_ok (ss_providerId spec))
      (primary_surface_id spec # map (\<lambda>f. getf [] prr_surfaceId (getf None fb_providerRuntimeRef f)) (session_fallbacks spec)) cs"
    by blast
  with assms(2) sn list_all2_nth_ok show ?thesis by (fastforce simp: cloneRuntimeCandidates_def)
qed

lemma clone_candidates: "list_all2 (candidate_ok p) is cs \<Longrightarrow> cloneRuntimeCandidates (map Some cs) = map Some cs"
  by (induction "is" cs rule: list_all2_induct) (auto simp: cloneRuntimeCandidates_def candidate_ok_def)

lemma turn_run_unbound:
  assumes "turn_run c m spec"
  shows "getf None auth_providerRunBinding (rs_authRequirement spec) = None"
proof -
  from assms obtain session request w w' sn k runID selected sid where
    sn: "buildRunTurnSnapshot (ResolveRunTurn (remote_resolver c m)) session request w = (Inr sn, w')" and
    sel: "snapshotForCandidate (Some sn) k runID = Inr selected" and
    spec: "buildRunSpec sid (Some \<lparr>crr_RunID = runID, crr_Snapshot = Some selected\<rparr>) runID = Inr spec"
    by (auto simp: turn_run_def)
  from sel have k: "sn_runtimeCandidates sn ! nat k \<in> set (sn_runtimeCandidates sn)"
    and auth: "sn_authRequirement selected = getf None cand_authRequirement (sn_runtimeCandidates sn ! nat k)"
    by (auto simp: snapshotForCandidate_def Let_def split: if_splits)
  from spec have "rs_authRequirement spec = sn_authRequirement selected"
    by (auto simp: buildRunSpec_def split: sum.splits)
  with auth snapshot_candidates [OF sn k] show ?thesis by (auto simp: candidate_ok_def)
qed

section \<open>Properties\<close>


text \<open>
  C29: The runs of turns get no secret. The resolver binds a run to a surface and a materialization key but
  never fills its provider run binding, and the runtime context takes the credential of a run from that
  binding only: whatever policy applies, the gateway is never told to add a header to a request of a pod
  whose run was started by a turn.
\<close>

theorem turn_runs_get_no_secret:
  assumes "srv_runtime s = Some (runtime_context_client sv)"
    and "\<forall>i u run u'. sv_runGet sv i u = (Inr run, u') \<longrightarrow> turn_run c m (rst_spec run)"
    and "extAuthzResolveRequest unmarshal request (srv_runtimeNamespace s) = Some r" and "er_runtimeSource r \<noteq> None"
    and "egress_Check unmarshal (Some s) request w = (AllowedResponse hs removed, w')"
  shows "hs = []"
proof (rule ccontr)
  assume "hs \<noteq> []"
  from released_to_entitled [OF assms(5) this] assms(3,4) obtain k md where "k \<noteq> []" "run_entitled s r w md"
    "k = TrimSpace (md_credentialId md)" by (auto simp: surface_entitled_def)
  moreover from this(2) assms(1) obtain q v where q: "runtime_context_client sv q w = (Inr (Some md), v)"
    by (auto simp: run_entitled_def)
  from client_metadata [OF q] obtain i u run y x where run: "sv_runGet sv i u = (Inr run, y)"
    and md: "runtimeMetadataFromRun sv run x = (Inr md, v)" by blast
  from run assms(2) have "turn_run c m (rst_spec run)" by blast
  from unbound_metadata [OF md turn_run_unbound [OF this]] have "md_credentialId md = []" .
  ultimately show False by simp
qed

end
