(* ===== verification/Reconcile_Loop.thy ===== *)
theory Reconcile_Loop
  imports Session_Controller Action_Controller Run_Controller
begin

text \<open>
  What drives the reconcilers (\<open>sessionapi/domain_events.go\<close>, \<open>reconcile_dispatch.go\<close>,
  \<open>reconcile_scheduler.go\<close>, \<open>temporal_reconcile_scheduler.go\<close>): an event or a timer reconciles a session, its
  actions or a run, and what asks to be looked at again becomes a timer. A timer is a workflow of
  Temporal that sleeps, dispatches one named action with up to three attempts, and closes. Starting a
  workflow under the id of an open one starts nothing (the documented meaning of the conflict policy
  \<open>USE_EXISTING\<close>); the server may also refuse with an error. The JSON of a body is the record it decodes to.
\<close>

section \<open>The reconcilers\<close>

record 'w DomainReconcilers =
  dr_session :: "string \<Rightarrow> 'w \<Rightarrow> CtrlResult result \<times> 'w"
  dr_action :: "string \<Rightarrow> 'w \<Rightarrow> CtrlResult result \<times> 'w"
  dr_run :: "string \<Rightarrow> 'w \<Rightarrow> CtrlResult result \<times> 'w"
  dr_sessionActions :: "string \<Rightarrow> 'w \<Rightarrow> (CtrlResult list \<times> go_error option) \<times> 'w"
  dr_runActions :: "string \<Rightarrow> string \<Rightarrow> 'w \<Rightarrow> (CtrlResult list \<times> go_error option) \<times> 'w"

definition domainReconcilers :: "string \<Rightarrow> 'w SessionCtl \<Rightarrow> 'w ActionCtl \<Rightarrow> 'w RunCtl \<Rightarrow> 'w DomainReconcilers" where
  "domainReconcilers namespace sessions actions runs =
     \<lparr>dr_session = (\<lambda>i. session_Reconcile sessions namespace (TrimSpace i)),
      dr_action = (\<lambda>i. action_Reconcile actions namespace (TrimSpace i)),
      dr_run = (\<lambda>i. run_Reconcile runs namespace (TrimSpace i)),
      dr_sessionActions = ReconcileSessionActions actions, dr_runActions = ReconcileRunActions actions\<rparr>"

section \<open>Scheduling\<close>

record ReconcileBody =
  bd_sessionId :: string
  bd_actionId :: string
  bd_runId :: string

record ReconcileScheduleRequest =
  sq_Action :: string
  sq_Body :: ReconcileBody
  sq_Delay :: duration
  sq_OwnerKind :: string
  sq_OwnerID :: string

type_synonym 'w scheduler = "ReconcileScheduleRequest \<Rightarrow> 'w \<Rightarrow> unit result \<times> 'w"

definition defaultRequeueDelay :: duration where
  "defaultRequeueDelay = second"

definition requeueDelay :: "CtrlResult \<Rightarrow> duration option" where
  "requeueDelay r = (if res_requeueAfter r > 0 then Some (res_requeueAfter r)
     else if res_requeue r then Some defaultRequeueDelay else None)"

definition scheduleReconcile ::
    "'w scheduler option \<Rightarrow> CtrlResult \<Rightarrow> string \<Rightarrow> ReconcileBody \<Rightarrow> string \<Rightarrow> string \<Rightarrow> 'w \<Rightarrow> unit result \<times> 'w" where
  "scheduleReconcile sched r action body ownerKind ownerID w =
     (case requeueDelay r of None \<Rightarrow> (Inr (), w)
      | Some delay \<Rightarrow>
          (case sched of None \<Rightarrow> (Inr (), w)
           | Some call \<Rightarrow> call \<lparr>sq_Action = action, sq_Body = body, sq_Delay = delay, sq_OwnerKind = ownerKind,
               sq_OwnerID = ownerID\<rparr> w))"

definition session_body :: "string \<Rightarrow> ReconcileBody" where
  "session_body sessionID = \<lparr>bd_sessionId = TrimSpace sessionID, bd_actionId = [], bd_runId = []\<rparr>"

definition action_body :: "string \<Rightarrow> string \<Rightarrow> ReconcileBody" where
  "action_body sessionID actionID = \<lparr>bd_sessionId = TrimSpace sessionID, bd_actionId = TrimSpace actionID, bd_runId = []\<rparr>"

definition run_body :: "string \<Rightarrow> string \<Rightarrow> ReconcileBody" where
  "run_body sessionID runID = \<lparr>bd_sessionId = TrimSpace sessionID, bd_actionId = [], bd_runId = TrimSpace runID\<rparr>"

definition scheduleSessionReconcile :: "'w scheduler option \<Rightarrow> CtrlResult \<Rightarrow> string \<Rightarrow> 'w \<Rightarrow> unit result \<times> 'w" where
  "scheduleSessionReconcile sched r sessionID =
     scheduleReconcile sched r ''reconcile-session'' (session_body sessionID) ''session'' sessionID"

definition scheduleActionReconcile :: "'w scheduler option \<Rightarrow> CtrlResult \<Rightarrow> string \<Rightarrow> string \<Rightarrow> 'w \<Rightarrow> unit result \<times> 'w" where
  "scheduleActionReconcile sched r sessionID actionID =
     scheduleReconcile sched r ''reconcile-action'' (action_body sessionID actionID) ''action'' actionID"

definition scheduleRunReconcile :: "'w scheduler option \<Rightarrow> CtrlResult \<Rightarrow> string \<Rightarrow> string \<Rightarrow> 'w \<Rightarrow> unit result \<times> 'w" where
  "scheduleRunReconcile sched r sessionID runID =
     scheduleReconcile sched r ''reconcile-run'' (run_body sessionID runID) ''run'' runID"

fun schedule_results :: "(CtrlResult \<Rightarrow> 'w \<Rightarrow> unit result \<times> 'w) \<Rightarrow> CtrlResult list \<Rightarrow> 'w \<Rightarrow> unit result \<times> 'w" where
  "schedule_results one [] w = (Inr (), w)"
| "schedule_results one (r # rs) w =
     (case one r w of (Inl e, w) \<Rightarrow> (Inl e, w) | (Inr u, w) \<Rightarrow> schedule_results one rs w)"

definition scheduleSessionActionsReconcile ::
    "'w scheduler option \<Rightarrow> CtrlResult list \<Rightarrow> string \<Rightarrow> 'w \<Rightarrow> unit result \<times> 'w" where
  "scheduleSessionActionsReconcile sched results sessionID =
     schedule_results (\<lambda>r. scheduleReconcile sched r ''reconcile-session-actions'' (session_body sessionID) ''session'' sessionID) results"

definition scheduleRunActionsReconcile ::
    "'w scheduler option \<Rightarrow> CtrlResult list \<Rightarrow> string \<Rightarrow> string \<Rightarrow> 'w \<Rightarrow> unit result \<times> 'w" where
  "scheduleRunActionsReconcile sched results sessionID runID =
     schedule_results (\<lambda>r. scheduleReconcile sched r ''reconcile-run-actions'' (run_body sessionID runID) ''run'' runID) results"

section \<open>Reconciling a domain\<close>

definition session_actions_domain ::
    "'w DomainReconcilers \<Rightarrow> 'w scheduler option \<Rightarrow> string \<Rightarrow> 'w \<Rightarrow> unit result \<times> 'w" where
  "session_actions_domain d sched sessionID w =
     (case dr_sessionActions d sessionID w of
        ((results, Some e), w) \<Rightarrow> (Inl e, w)
      | ((results, None), w) \<Rightarrow> scheduleSessionActionsReconcile sched results sessionID w)"

definition run_actions_domain ::
    "'w DomainReconcilers \<Rightarrow> 'w scheduler option \<Rightarrow> string \<Rightarrow> string \<Rightarrow> 'w \<Rightarrow> unit result \<times> 'w" where
  "run_actions_domain d sched sessionID runID w =
     (case dr_runActions d sessionID runID w of
        ((results, Some e), w) \<Rightarrow> (Inl e, w)
      | ((results, None), w) \<Rightarrow> scheduleRunActionsReconcile sched results sessionID runID w)"

definition session_domain :: "'w DomainReconcilers \<Rightarrow> 'w scheduler option \<Rightarrow> string \<Rightarrow> 'w \<Rightarrow> unit result \<times> 'w" where
  "session_domain d sched sessionID w =
     (case dr_session d sessionID w of (Inl e, w) \<Rightarrow> (Inl e, w)
      | (Inr r, w) \<Rightarrow> scheduleSessionReconcile sched r sessionID w)"

definition reconcileSessionDomain :: "'w DomainReconcilers \<Rightarrow> 'w scheduler option \<Rightarrow> string \<Rightarrow> 'w \<Rightarrow> unit result \<times> 'w" where
  "reconcileSessionDomain d sched sessionID w =
     (case session_domain d sched sessionID w of (Inl e, w) \<Rightarrow> (Inl e, w)
      | (Inr u, w) \<Rightarrow> session_actions_domain d sched sessionID w)"

definition reconcileActionDomain ::
    "'w DomainReconcilers \<Rightarrow> 'w scheduler option \<Rightarrow> string \<Rightarrow> string \<Rightarrow> 'w \<Rightarrow> unit result \<times> 'w" where
  "reconcileActionDomain d sched sessionID actionID w =
     (case dr_action d actionID w of (Inl e, w) \<Rightarrow> (Inl e, w)
      | (Inr r, w) \<Rightarrow>
          (case scheduleActionReconcile sched r sessionID actionID w of (Inl e, w) \<Rightarrow> (Inl e, w)
           | (Inr u, w) \<Rightarrow> if TrimSpace sessionID = [] then (Inr (), w) else session_domain d sched sessionID w))"

definition reconcileRunDomain ::
    "'w DomainReconcilers \<Rightarrow> 'w scheduler option \<Rightarrow> string \<Rightarrow> string \<Rightarrow> 'w \<Rightarrow> unit result \<times> 'w" where
  "reconcileRunDomain d sched sessionID runID w =
     (case dr_run d runID w of (Inl e, w) \<Rightarrow> (Inl e, w)
      | (Inr r, w) \<Rightarrow>
          (case scheduleRunReconcile sched r sessionID runID w of (Inl e, w) \<Rightarrow> (Inl e, w)
           | (Inr u, w) \<Rightarrow>
               if TrimSpace sessionID = [] then (Inr (), w)
               else (case run_actions_domain d sched sessionID runID w of (Inl e, w) \<Rightarrow> (Inl e, w)
                 | (Inr u, w) \<Rightarrow> session_domain d sched sessionID w)))"

text \<open>An event carries the session id of its session, or the ids of its action, and an aggregate id.\<close>

datatype DomainPayload = SessionPayload string | ActionPayload string string | OtherPayload

definition handleDomainEvent ::
    "'w DomainReconcilers \<Rightarrow> 'w scheduler option \<Rightarrow> DomainPayload \<Rightarrow> string \<Rightarrow> 'w \<Rightarrow> unit result \<times> 'w" where
  "handleDomainEvent d sched payload aggregateID w =
     (case payload of
        SessionPayload sessionID \<Rightarrow> reconcileSessionDomain d sched (firstNonEmpty [sessionID, aggregateID]) w
      | ActionPayload sessionID actionID \<Rightarrow> reconcileActionDomain d sched sessionID (firstNonEmpty [actionID, aggregateID]) w
      | OtherPayload \<Rightarrow> (Inr (), w))"

section \<open>Dispatching a named action\<close>

definition DispatchReconcileAction ::
    "'w DomainReconcilers \<Rightarrow> 'w scheduler option \<Rightarrow> string \<Rightarrow> ReconcileBody \<Rightarrow> 'w \<Rightarrow> unit result \<times> 'w" where
  "DispatchReconcileAction d sched action body w =
     (let action' = TrimSpace action; sessionID = TrimSpace (bd_sessionId body); actionID = TrimSpace (bd_actionId body);
          runID = TrimSpace (bd_runId body); required = (\<lambda>f. (Inl (PlainError (f @ '' is required'')), w)) in
      if action' = ''reconcile-session'' then
        (if sessionID = [] then required ''sessionId'' else reconcileSessionDomain d sched sessionID w)
      else if action' = ''reconcile-session-actions'' then
        (if sessionID = [] then required ''sessionId'' else session_actions_domain d sched sessionID w)
      else if action' = ''reconcile-action'' then
        (if actionID = [] then required ''actionId'' else reconcileActionDomain d sched sessionID actionID w)
      else if action' = ''reconcile-run'' then
        (if runID = [] then required ''runId'' else reconcileRunDomain d sched sessionID runID w)
      else if action' = ''reconcile-run-actions'' then
        (if sessionID = [] then required ''sessionId'' else if runID = [] then required ''runId''
         else run_actions_domain d sched sessionID runID w)
      else (Inl (PlainError (''platformk8s/sessionapi: unknown reconcile action '' @ go_quote action)), w))"

section \<open>Timers\<close>

record TemporalReconcileInput =
  ti_Action :: string
  ti_Body :: ReconcileBody
  ti_Delay :: duration

text \<open>The open workflows beside the world the reconcilers act on.\<close>

record 'b tworld =
  tw_open :: "(string \<times> TemporalReconcileInput) list"
  tw_base :: 'b

definition on_base :: "('b \<Rightarrow> 'r \<times> 'b) \<Rightarrow> 'b tworld \<Rightarrow> 'r \<times> 'b tworld" where
  "on_base f w = (case f (tw_base w) of (r, b) \<Rightarrow> (r, w\<lparr>tw_base := b\<rparr>))"

definition lift_reconcilers :: "'b DomainReconcilers \<Rightarrow> 'b tworld DomainReconcilers" where
  "lift_reconcilers d = \<lparr>dr_session = (\<lambda>i. on_base (dr_session d i)), dr_action = (\<lambda>i. on_base (dr_action d i)),
     dr_run = (\<lambda>i. on_base (dr_run d i)), dr_sessionActions = (\<lambda>i. on_base (dr_sessionActions d i)),
     dr_runActions = (\<lambda>i j. on_base (dr_runActions d i j))\<rparr>"

definition temporalReconcileInput :: "ReconcileScheduleRequest \<Rightarrow> TemporalReconcileInput result" where
  "temporalReconcileInput request =
     (let action = TrimSpace (sq_Action request) in
      if action = [] \<or> CHR ''/'' \<in> set action
      then Inl (PlainError ''platformk8s/sessionapi: reconcile action is invalid'')
      else Inr \<lparr>ti_Action = action, ti_Body = sq_Body request, ti_Delay = sq_Delay request\<rparr>)"

definition temporalReconcileWorkflowID :: "string \<Rightarrow> string \<Rightarrow> string \<Rightarrow> string" where
  "temporalReconcileWorkflowID ownerKind ownerID action =
     ''agent-runtime-reconcile-'' @ IDPart (ownerKind @ ''-'' @ ownerID @ ''-'' @ action) ''runtime''"

definition ScheduleReconcile :: "(string \<Rightarrow> 'b tworld \<Rightarrow> go_error option) \<Rightarrow> 'b tworld scheduler" where
  "ScheduleReconcile refuses request w =
     (case temporalReconcileInput request of Inl e \<Rightarrow> (Inl e, w)
      | Inr input \<Rightarrow>
          (let i = temporalReconcileWorkflowID (sq_OwnerKind request) (sq_OwnerID request) (ti_Action input) in
           case refuses i w of Some e \<Rightarrow> (Inl e, w)
           | None \<Rightarrow> if i \<in> fst ` set (tw_open w) then (Inr (), w) else (Inr (), w\<lparr>tw_open := (i, input) # tw_open w\<rparr>)))"

fun dispatch_attempts :: "('w \<Rightarrow> unit result \<times> 'w) \<Rightarrow> nat \<Rightarrow> 'w \<Rightarrow> 'w" where
  "dispatch_attempts dispatch 0 w = w"
| "dispatch_attempts dispatch (Suc n) w =
     (case dispatch w of (Inr u, w) \<Rightarrow> w | (Inl e, w) \<Rightarrow> dispatch_attempts dispatch n w)"

definition maximumAttempts :: nat where
  "maximumAttempts = 3"

text \<open>A timer fires: its workflow dispatches while it is still open, and then closes.\<close>

definition fire ::
    "'b DomainReconcilers \<Rightarrow> (string \<Rightarrow> 'b tworld \<Rightarrow> go_error option) \<Rightarrow> string \<times> TemporalReconcileInput \<Rightarrow> 'b tworld \<Rightarrow> 'b tworld" where
  "fire d refuses timer w =
     (let w = dispatch_attempts (DispatchReconcileAction (lift_reconcilers d) (Some (ScheduleReconcile refuses))
            (ti_Action (snd timer)) (ti_Body (snd timer))) maximumAttempts w in
      w\<lparr>tw_open := filter (\<lambda>t. fst t \<noteq> fst timer) (tw_open w)\<rparr>)"

inductive timer_step ::
    "'b DomainReconcilers \<Rightarrow> (string \<Rightarrow> 'b tworld \<Rightarrow> go_error option) \<Rightarrow> 'b tworld \<Rightarrow> 'b tworld \<Rightarrow> bool"
  for d refuses where
  fires: "timer \<in> set (tw_open w) \<Longrightarrow> timer_step d refuses w (fire d refuses timer w)"

inductive_cases timer_stepE: "timer_step d refuses w w'"

end
