(* ===== verification/Reconcile_Laws.thy ===== *)
theory Reconcile_Laws
  imports Reconcile_Loop
begin

text \<open>
  The timers of the reconcilers die out: a timer that fires is still open while its action is
  reconciled, so that the request to look at the same thing again starts nothing, and the other requests
  go down a fixed order of actions.
\<close>

section \<open>The owner of an action\<close>

definition own_id :: "string \<Rightarrow> ReconcileBody \<Rightarrow> string" where
  "own_id action b =
     (if action \<in> {''reconcile-session'', ''reconcile-session-actions''}
      then temporalReconcileWorkflowID ''session'' (TrimSpace (bd_sessionId b)) action
      else if action = ''reconcile-action'' then temporalReconcileWorkflowID ''action'' (TrimSpace (bd_actionId b)) action
      else temporalReconcileWorkflowID ''run'' (TrimSpace (bd_runId b)) action)"

definition action_rank :: "string \<Rightarrow> nat" where
  "action_rank a = (if a = ''reconcile-session'' then 2 else if a = ''reconcile-action'' then 3
     else if a = ''reconcile-run'' then 4 else 1)"

type_synonym ticket = "string \<times> string \<times> ReconcileBody"

definition ticket_of :: "string \<times> TemporalReconcileInput \<Rightarrow> ticket" where
  "ticket_of t = (fst t, ti_Action (snd t), ti_Body (snd t))"

text \<open>Every open timer has the id of what it reconciles.\<close>

definition timer_ok :: "ticket \<Rightarrow> bool" where
  "timer_ok t \<longleftrightarrow> fst t = own_id (fst (snd t)) (snd (snd t)) \<and> TrimSpace (fst (snd t)) = fst (snd t)"

definition timers_ok :: "'b tworld \<Rightarrow> bool" where
  "timers_ok w \<longleftrightarrow> (\<forall>t \<in> set (tw_open w). timer_ok (ticket_of t))"

definition timer_weight :: "(string \<times> TemporalReconcileInput) list \<Rightarrow> nat" where
  "timer_weight ts = (\<Sum>t \<leftarrow> ts. action_rank (ti_Action (snd t)))"

section \<open>What a dispatch may add\<close>

definition adds :: "ticket set \<Rightarrow> 'b tworld \<Rightarrow> 'b tworld \<Rightarrow> bool" where
  "adds C w w' \<longleftrightarrow> (\<exists>new. tw_open w' = new @ tw_open w \<and> distinct (map fst new) \<and> ticket_of ` set new \<subseteq> C \<and>
     fst ` set new \<inter> fst ` set (tw_open w) = {})"

lemma adds_refl [simp, intro]: "adds C w w"
  by (auto simp: adds_def)

lemma adds_trans: "adds C w v \<Longrightarrow> adds C v u \<Longrightarrow> adds C w u"
proof (unfold adds_def, elim exE conjE)
  fix a b
  assume a: "tw_open v = a @ tw_open w" "distinct (map fst a)" "ticket_of ` set a \<subseteq> C" "fst ` set a \<inter> fst ` set (tw_open w) = {}"
    and b: "tw_open u = b @ tw_open v" "distinct (map fst b)" "ticket_of ` set b \<subseteq> C" "fst ` set b \<inter> fst ` set (tw_open v) = {}"
  from b(4) have d: "fst ` set b \<inter> fst ` set a = {}" "fst ` set b \<inter> fst ` set (tw_open w) = {}"
    unfolding a(1) set_append image_Un by blast+
  have "distinct (map fst (b @ a))" using a(2) b(2) d(1) by (simp only: map_append distinct_append set_map simp_thms)
  moreover have "ticket_of ` set (b @ a) \<subseteq> C" using a(3) b(3) unfolding set_append image_Un by blast
  moreover have "fst ` set (b @ a) \<inter> fst ` set (tw_open w) = {}" using a(4) d(2) unfolding set_append image_Un by blast
  moreover have "tw_open u = (b @ a) @ tw_open w" by (simp only: a(1) b(1) append_assoc)
  ultimately show "\<exists>new. tw_open u = new @ tw_open w \<and> distinct (map fst new) \<and> ticket_of ` set new \<subseteq> C \<and>
      fst ` set new \<inter> fst ` set (tw_open w) = {}"
    by (intro exI conjI)
qed

lemma adds_mono: "adds C w v \<Longrightarrow> C \<subseteq> D \<Longrightarrow> adds D w v"
  unfolding adds_def by (elim exE conjE, intro exI conjI) (assumption | erule (1) subset_trans)+

lemma adds_base [simp]: "adds C w (w\<lparr>tw_base := b\<rparr>)"
  by (auto simp: adds_def)

lemma adds_on_base: "on_base f w = (r, w') \<Longrightarrow> adds C w w'"
  by (auto simp: on_base_def split: prod.splits)

lemma adds_schedule:
  assumes "scheduleReconcile (Some (ScheduleReconcile refuses)) r action body kind owner w = (x, w')"
    and "TrimSpace action = action"
  shows "adds {(temporalReconcileWorkflowID kind owner action, action, body)} w w'"
  using assms
  by (auto simp: scheduleReconcile_def ScheduleReconcile_def temporalReconcileInput_def Let_def adds_def ticket_of_def
      split: option.splits if_splits sum.splits)

lemma adds_results:
  assumes "schedule_results one rs w = (x, w')" and "\<And>r v y v'. one r v = (y, v') \<Longrightarrow> adds C v v'"
  shows "adds C w w'"
  using assms(1)
proof (induction rs arbitrary: w)
  case (Cons r rs)
  from Cons.prems obtain y v where "one r w = (y, v)" and "v = w' \<or> schedule_results one rs v = (x, w')"
    by (auto split: prod.splits sum.splits)
  with assms(2) Cons.IH adds_trans show ?case by metis
qed simp

lemma plain_names [simp]:
  "TrimSpace ''reconcile-session'' = ''reconcile-session''" "TrimSpace ''reconcile-session-actions'' = ''reconcile-session-actions''"
  "TrimSpace ''reconcile-action'' = ''reconcile-action''" "TrimSpace ''reconcile-run'' = ''reconcile-run''"
  "TrimSpace ''reconcile-run-actions'' = ''reconcile-run-actions''"
  by (rule TrimSpace_plain; simp add: plain_char_def)+

text \<open>The tickets of a domain.\<close>

definition session_ticket :: "string \<Rightarrow> ticket" where
  "session_ticket s = (temporalReconcileWorkflowID ''session'' s ''reconcile-session'', ''reconcile-session'', session_body s)"

definition session_actions_ticket :: "string \<Rightarrow> ticket" where
  "session_actions_ticket s =
     (temporalReconcileWorkflowID ''session'' s ''reconcile-session-actions'', ''reconcile-session-actions'', session_body s)"

definition action_ticket :: "string \<Rightarrow> string \<Rightarrow> ticket" where
  "action_ticket s a = (temporalReconcileWorkflowID ''action'' a ''reconcile-action'', ''reconcile-action'', action_body s a)"

definition run_ticket :: "string \<Rightarrow> string \<Rightarrow> ticket" where
  "run_ticket s r = (temporalReconcileWorkflowID ''run'' r ''reconcile-run'', ''reconcile-run'', run_body s r)"

definition run_actions_ticket :: "string \<Rightarrow> string \<Rightarrow> ticket" where
  "run_actions_ticket s r =
     (temporalReconcileWorkflowID ''run'' r ''reconcile-run-actions'', ''reconcile-run-actions'', run_body s r)"

lemmas ticket_defs = session_ticket_def session_actions_ticket_def action_ticket_def run_ticket_def run_actions_ticket_def

lemma lift_simps [simp]:
  "dr_session (lift_reconcilers d) i = on_base (dr_session d i)" "dr_action (lift_reconcilers d) i = on_base (dr_action d i)"
  "dr_run (lift_reconcilers d) i = on_base (dr_run d i)"
  "dr_sessionActions (lift_reconcilers d) i = on_base (dr_sessionActions d i)"
  "dr_runActions (lift_reconcilers d) i j = on_base (dr_runActions d i j)"
  by (simp_all add: lift_reconcilers_def)

lemma adds_session_actions:
  assumes "session_actions_domain (lift_reconcilers d) (Some (ScheduleReconcile refuses)) s w = (x, w')"
  shows "adds {session_actions_ticket s} w w'"
proof -
  from assms obtain y v where b: "on_base (dr_sessionActions d s) w = (y, v)" and
    "v = w' \<or> (\<exists>rs. scheduleSessionActionsReconcile (Some (ScheduleReconcile refuses)) rs s v = (x, w'))"
    by (auto simp: session_actions_domain_def split: prod.splits option.splits)
  moreover have "adds {session_actions_ticket s} v w'"
    if "scheduleSessionActionsReconcile (Some (ScheduleReconcile refuses)) rs s v = (x, w')" for rs
    using that unfolding scheduleSessionActionsReconcile_def session_actions_ticket_def
    by (rule adds_results) (rule adds_schedule; simp)
  ultimately show ?thesis using adds_on_base [OF b] adds_trans by metis
qed

lemma adds_run_actions:
  assumes "run_actions_domain (lift_reconcilers d) (Some (ScheduleReconcile refuses)) s r w = (x, w')"
  shows "adds {run_actions_ticket s r} w w'"
proof -
  from assms obtain y v where b: "on_base (dr_runActions d s r) w = (y, v)" and
    "v = w' \<or> (\<exists>rs. scheduleRunActionsReconcile (Some (ScheduleReconcile refuses)) rs s r v = (x, w'))"
    by (auto simp: run_actions_domain_def split: prod.splits option.splits)
  moreover have "adds {run_actions_ticket s r} v w'"
    if "scheduleRunActionsReconcile (Some (ScheduleReconcile refuses)) rs s r v = (x, w')" for rs
    using that unfolding scheduleRunActionsReconcile_def run_actions_ticket_def
    by (rule adds_results) (rule adds_schedule; simp)
  ultimately show ?thesis using adds_on_base [OF b] adds_trans by metis
qed

lemma adds_session:
  assumes "session_domain (lift_reconcilers d) (Some (ScheduleReconcile refuses)) s w = (x, w')"
  shows "adds {session_ticket s} w w'"
proof -
  from assms obtain y v where b: "on_base (dr_session d s) w = (y, v)" and
    "v = w' \<or> (\<exists>r. scheduleSessionReconcile (Some (ScheduleReconcile refuses)) r s v = (x, w'))"
    by (auto simp: session_domain_def split: prod.splits sum.splits)
  moreover have "adds {session_ticket s} v w'"
    if "scheduleSessionReconcile (Some (ScheduleReconcile refuses)) r s v = (x, w')" for r
    using that unfolding scheduleSessionReconcile_def session_ticket_def by (rule adds_schedule) simp
  ultimately show ?thesis using adds_on_base [OF b] adds_trans by metis
qed

lemma adds_session_domain:
  assumes "reconcileSessionDomain (lift_reconcilers d) (Some (ScheduleReconcile refuses)) s w = (x, w')"
  shows "adds {session_ticket s, session_actions_ticket s} w w'"
proof -
  from assms obtain y v where s: "session_domain (lift_reconcilers d) (Some (ScheduleReconcile refuses)) s w = (y, v)" and
    "v = w' \<or> session_actions_domain (lift_reconcilers d) (Some (ScheduleReconcile refuses)) s v = (x, w')"
    by (auto simp: reconcileSessionDomain_def split: prod.splits sum.splits)
  with adds_mono [OF adds_session [OF s]] adds_mono [OF adds_session_actions] adds_trans show ?thesis
    by (metis insert_subsetI empty_subsetI insertI1 insertI2)
qed

lemma adds_action_domain:
  assumes "reconcileActionDomain (lift_reconcilers d) (Some (ScheduleReconcile refuses)) s a w = (x, w')"
  shows "adds {action_ticket s a, session_ticket s} w w'"
proof -
  let ?sched = "Some (ScheduleReconcile refuses)"
  from assms obtain y v where b: "on_base (dr_action d a) w = (y, v)" and
    v: "v = w' \<or> (\<exists>r z u. scheduleActionReconcile ?sched r s a v = (z, u) \<and>
      (u = w' \<or> session_domain (lift_reconcilers d) ?sched s u = (x, w')))"
    by (auto simp: reconcileActionDomain_def split: prod.splits sum.splits if_splits)
  have a: "adds {action_ticket s a} v u" if "scheduleActionReconcile ?sched r s a v = (z, u)" for r z u
    using that unfolding scheduleActionReconcile_def action_ticket_def by (rule adds_schedule) simp
  have A: "adds {action_ticket s a, session_ticket s} v u" if "scheduleActionReconcile ?sched r s a v = (z, u)" for r z u
    by (rule adds_mono [OF a [OF that]]) simp
  have B: "adds {action_ticket s a, session_ticket s} u w'"
    if "session_domain (lift_reconcilers d) ?sched s u = (x, w')" for u
    by (rule adds_mono [OF adds_session [OF that]]) simp
  from v have "adds {action_ticket s a, session_ticket s} v w'"
    by (elim disjE exE conjE) (simp, drule A, simp, rule adds_trans [OF A B])
  then show ?thesis using adds_on_base [OF b] adds_trans by metis
qed

lemma adds_run_domain:
  assumes "reconcileRunDomain (lift_reconcilers d) (Some (ScheduleReconcile refuses)) s r w = (x, w')"
  shows "adds {run_ticket s r, run_actions_ticket s r, session_ticket s} w w'"
proof -
  let ?sched = "Some (ScheduleReconcile refuses)" and ?C = "{run_ticket s r, run_actions_ticket s r, session_ticket s}"
  from assms obtain y v where b: "on_base (dr_run d r) w = (y, v)" and
    v: "v = w' \<or> (\<exists>q z u. scheduleRunReconcile ?sched q s r v = (z, u) \<and> (u = w' \<or>
      (\<exists>y t. run_actions_domain (lift_reconcilers d) ?sched s r u = (y, t) \<and>
        (t = w' \<or> session_domain (lift_reconcilers d) ?sched s t = (x, w')))))"
    by (auto simp: reconcileRunDomain_def split: prod.splits sum.splits if_splits) blast+
  have r: "adds {run_ticket s r} v u" if "scheduleRunReconcile ?sched q s r v = (z, u)" for q z u
    using that unfolding scheduleRunReconcile_def run_ticket_def by (rule adds_schedule) simp
  have A: "adds ?C v u" if "scheduleRunReconcile ?sched q s r v = (z, u)" for q z u
    by (rule adds_mono [OF r [OF that]]) simp
  have B: "adds ?C u t" if "run_actions_domain (lift_reconcilers d) ?sched s r u = (y, t)" for y u t
    by (rule adds_mono [OF adds_run_actions [OF that]]) simp
  have D: "adds ?C t w'" if "session_domain (lift_reconcilers d) ?sched s t = (x, w')" for t
    by (rule adds_mono [OF adds_session [OF that]]) simp
  from v have "adds ?C v w'"
  proof (elim disjE exE conjE)
    fix q z u y t
    assume a: "scheduleRunReconcile ?sched q s r v = (z, u)" and b: "run_actions_domain (lift_reconcilers d) ?sched s r u = (y, t)"
    have t: "adds ?C v t" by (rule adds_trans [OF A [OF a] B [OF b]])
    show "t = w' \<Longrightarrow> adds ?C v w'" using t by simp
    show "session_domain (lift_reconcilers d) ?sched s t = (x, w') \<Longrightarrow> adds ?C v w'"
      by (rule adds_trans [OF t D])
  qed (simp, drule A, simp)
  then show ?thesis using adds_on_base [OF b] adds_trans by metis
qed

section \<open>What a dispatch may ask for\<close>

definition requests :: "string \<Rightarrow> ReconcileBody \<Rightarrow> ticket set" where
  "requests a b = (let s = TrimSpace (bd_sessionId b); i = TrimSpace (bd_actionId b); r = TrimSpace (bd_runId b) in
     if a = ''reconcile-session'' then {session_ticket s, session_actions_ticket s}
     else if a = ''reconcile-session-actions'' then {session_actions_ticket s}
     else if a = ''reconcile-action'' then {action_ticket s i, session_ticket s}
     else if a = ''reconcile-run'' then {run_ticket s r, run_actions_ticket s r, session_ticket s}
     else if a = ''reconcile-run-actions'' then {run_actions_ticket s r} else {})"

lemma adds_dispatch:
  assumes "DispatchReconcileAction (lift_reconcilers d) (Some (ScheduleReconcile refuses)) a b w = (x, w')" and "TrimSpace a = a"
  shows "adds (requests a b) w w'"
  using assms(1) adds_session_domain [of d refuses "TrimSpace (bd_sessionId b)" w x w']
    adds_session_actions [of d refuses "TrimSpace (bd_sessionId b)" w x w']
    adds_action_domain [of d refuses "TrimSpace (bd_sessionId b)" "TrimSpace (bd_actionId b)" w x w']
    adds_run_domain [of d refuses "TrimSpace (bd_sessionId b)" "TrimSpace (bd_runId b)" w x w']
    adds_run_actions [of d refuses "TrimSpace (bd_sessionId b)" "TrimSpace (bd_runId b)" w x w']
  unfolding DispatchReconcileAction_def requests_def Let_def assms(2)
  by (simp split: if_splits)

lemma requests_ok: "t \<in> requests a b \<Longrightarrow> timer_ok t"
  by (auto simp: requests_def Let_def ticket_defs timer_ok_def own_id_def session_body_def action_body_def run_body_def
      split: if_splits)

definition ticket_rank :: "ticket \<Rightarrow> nat" where
  "ticket_rank t = action_rank (fst (snd t))"

lemma ticket_ranks [simp]:
  "ticket_rank (session_ticket s) = 2" "ticket_rank (session_actions_ticket s) = 1" "ticket_rank (action_ticket s i) = 3"
  "ticket_rank (run_ticket s r) = 4" "ticket_rank (run_actions_ticket s r) = 1"
  by (simp_all add: ticket_rank_def ticket_defs action_rank_def)

lemma own_tickets:
  "a = ''reconcile-session'' \<Longrightarrow> fst (session_ticket (TrimSpace (bd_sessionId b))) = own_id a b"
  "a = ''reconcile-session-actions'' \<Longrightarrow> fst (session_actions_ticket (TrimSpace (bd_sessionId b))) = own_id a b"
  "a = ''reconcile-action'' \<Longrightarrow> fst (action_ticket s (TrimSpace (bd_actionId b))) = own_id a b"
  "a = ''reconcile-run'' \<Longrightarrow> fst (run_ticket s (TrimSpace (bd_runId b))) = own_id a b"
  "a = ''reconcile-run-actions'' \<Longrightarrow> fst (run_actions_ticket s (TrimSpace (bd_runId b))) = own_id a b"
  by (simp_all add: ticket_defs own_id_def)

lemma sum_le_list:
  fixes f :: "'a \<Rightarrow> nat"
  assumes "A \<subseteq> set xs"
  shows "sum f A \<le> (\<Sum>x \<leftarrow> xs. f x)"
proof -
  have "sum f A \<le> sum f (set xs)" using assms by (simp add: sum_mono2)
  also have "\<dots> \<le> (\<Sum>x \<leftarrow> xs. f x)" by (induction xs) (auto simp: sum.insert_if)
  finally show ?thesis .
qed

lemma requests_rank: "(\<Sum>t \<in> {t \<in> requests a b. fst t \<noteq> own_id a b}. ticket_rank t) < action_rank a"
proof -
  let ?s = "TrimSpace (bd_sessionId b)" and ?i = "TrimSpace (bd_actionId b)" and ?r = "TrimSpace (bd_runId b)"
  let ?A = "{t \<in> requests a b. fst t \<noteq> own_id a b}"
  have by_list: ?thesis if "?A \<subseteq> set xs" and "(\<Sum>t \<leftarrow> xs. ticket_rank t) < action_rank a" for xs
    using sum_le_list [OF that(1), of ticket_rank] that(2) by (rule le_less_trans)
  consider (session) "a = ''reconcile-session''" | (actions) "a = ''reconcile-session-actions''" | (action) "a = ''reconcile-action''"
    | (run) "a = ''reconcile-run''" | (run_actions) "a = ''reconcile-run-actions''"
    | (other) "a \<noteq> ''reconcile-session''" "a \<noteq> ''reconcile-session-actions''" "a \<noteq> ''reconcile-action''"
        "a \<noteq> ''reconcile-run''" "a \<noteq> ''reconcile-run-actions''" by blast
  then show ?thesis
  proof cases
    case session
    then have "requests a b = {session_ticket ?s, session_actions_ticket ?s}" by (simp add: requests_def Let_def)
    with own_tickets(1) [OF session, of b] have "?A \<subseteq> set [session_actions_ticket ?s]" by auto
    then show ?thesis by (rule by_list) (simp add: session action_rank_def)
  next
    case actions
    then have "requests a b = {session_actions_ticket ?s}" by (simp add: requests_def Let_def)
    with own_tickets(2) [OF actions, of b] have "?A \<subseteq> set []" by auto
    then show ?thesis by (rule by_list) (simp add: actions action_rank_def)
  next
    case action
    then have "requests a b = {action_ticket ?s ?i, session_ticket ?s}" by (simp add: requests_def Let_def)
    with own_tickets(3) [OF action, of ?s b] have "?A \<subseteq> set [session_ticket ?s]" by auto
    then show ?thesis by (rule by_list) (simp add: action action_rank_def)
  next
    case run
    then have "requests a b = {run_ticket ?s ?r, run_actions_ticket ?s ?r, session_ticket ?s}" by (simp add: requests_def Let_def)
    with own_tickets(4) [OF run, of ?s b] have "?A \<subseteq> set [run_actions_ticket ?s ?r, session_ticket ?s]" by auto
    then show ?thesis by (rule by_list) (simp add: run action_rank_def)
  next
    case run_actions
    then have "requests a b = {run_actions_ticket ?s ?r}" by (simp add: requests_def Let_def)
    with own_tickets(5) [OF run_actions, of ?s b] have "?A \<subseteq> set []" by auto
    then show ?thesis by (rule by_list) (simp add: run_actions action_rank_def)
  next
    case other
    then have "?A \<subseteq> set []" by (simp add: requests_def Let_def)
    then show ?thesis by (rule by_list) (simp add: action_rank_def)
  qed
qed

section \<open>Firing\<close>

lemma adds_attempts:
  assumes "\<And>v x v'. dispatch v = (x, v') \<Longrightarrow> adds C v v'"
  shows "adds C w (dispatch_attempts dispatch n w)"
proof (induction n arbitrary: w)
  case (Suc n)
  obtain x v where d: "dispatch w = (x, v)" by fastforce
  with assms have "adds C w v" by blast
  with d Suc.IH [of v] adds_trans show ?case by (cases x) auto
qed simp

lemma weight_append [simp]: "timer_weight (xs @ ys) = timer_weight xs + timer_weight ys"
  by (simp add: timer_weight_def)

lemma weight_filter: "timer_weight (filter P ts) \<le> timer_weight ts"
  by (induction ts) (auto simp: timer_weight_def)

lemma weight_remove: "t \<in> set ts \<Longrightarrow> \<not> P t \<Longrightarrow> timer_weight (filter P ts) + action_rank (ti_Action (snd t)) \<le> timer_weight ts"
proof (induction ts)
  case (Cons x ts)
  have "timer_weight (filter P ts) \<le> timer_weight ts" by (rule weight_filter)
  with Cons show ?case by (cases "x = t") (auto simp: timer_weight_def)
qed simp

lemma weight_tickets: "distinct (map fst new) \<Longrightarrow> timer_weight new = (\<Sum>t \<in> ticket_of ` set new. ticket_rank t)"
proof -
  assume d: "distinct (map fst new)"
  then have "inj_on ticket_of (set new)" by (auto simp: inj_on_def ticket_of_def distinct_map)
  then have "(\<Sum>t \<in> ticket_of ` set new. ticket_rank t) = (\<Sum>t \<in> set new. action_rank (ti_Action (snd t)))"
    by (simp add: sum.reindex) (simp add: ticket_rank_def ticket_of_def)
  with d show ?thesis by (simp add: timer_weight_def distinct_map sum_list_distinct_conv_sum_set)
qed

lemma fire_decreases:
  assumes "timers_ok w" and "timer \<in> set (tw_open w)"
  shows "timers_ok (fire d refuses timer w) \<and> timer_weight (tw_open (fire d refuses timer w)) < timer_weight (tw_open w) \<and>
    fst timer \<notin> fst ` set (tw_open (fire d refuses timer w))"
proof -
  let ?a = "ti_Action (snd timer)" and ?b = "ti_Body (snd timer)" and ?P = "\<lambda>t. fst t \<noteq> fst timer"
  let ?v = "dispatch_attempts (DispatchReconcileAction (lift_reconcilers d) (Some (ScheduleReconcile refuses)) ?a ?b) maximumAttempts w"
  from assms have ok: "fst timer = own_id ?a ?b" "TrimSpace ?a = ?a" by (auto simp: timers_ok_def timer_ok_def ticket_of_def)
  have "adds (requests ?a ?b) w ?v" by (rule adds_attempts) (rule adds_dispatch [OF _ ok(2)])
  then obtain new where new: "tw_open ?v = new @ tw_open w" "distinct (map fst new)" "ticket_of ` set new \<subseteq> requests ?a ?b"
    "fst ` set new \<inter> fst ` set (tw_open w) = {}" unfolding adds_def by blast
  have f: "tw_open (fire d refuses timer w) = filter ?P new @ filter ?P (tw_open w)"
    by (simp add: fire_def new(1))
  have "fst timer \<notin> fst ` set new" using new(4) assms(2) by blast
  then have "ticket_of ` set new \<subseteq> {t \<in> requests ?a ?b. fst t \<noteq> own_id ?a ?b}"
    using new(3) ok(1) by (auto simp: ticket_of_def) (metis image_eqI fst_conv)
  then have "timer_weight new \<le> (\<Sum>t \<in> {t \<in> requests ?a ?b. fst t \<noteq> own_id ?a ?b}. ticket_rank t)"
    unfolding weight_tickets [OF new(2)] by (intro sum_mono2) (auto simp: requests_def Let_def)
  also have "\<dots> < action_rank ?a" by (rule requests_rank)
  finally have "timer_weight new < action_rank ?a" .
  moreover have "timer_weight (filter ?P (tw_open w)) + action_rank ?a \<le> timer_weight (tw_open w)"
    by (rule weight_remove [OF assms(2)]) simp
  ultimately have "timer_weight (tw_open (fire d refuses timer w)) < timer_weight (tw_open w)"
    using weight_filter [of ?P new] unfolding f by simp
  moreover have "timer_ok (ticket_of t)" if "t \<in> set new" for t using that new(3) requests_ok by blast
  then have "timers_ok (fire d refuses timer w)" using assms(1) unfolding timers_ok_def f by auto
  ultimately show ?thesis unfolding f by auto
qed

lemma timer_steps:
  "(timer_step d refuses ^^ n) w w' \<Longrightarrow> timers_ok w \<Longrightarrow> timers_ok w' \<and> n + timer_weight (tw_open w') \<le> timer_weight (tw_open w)"
proof (induction n arbitrary: w')
  case (Suc n)
  then obtain v where v: "(timer_step d refuses ^^ n) w v" "timer_step d refuses v w'" by auto
  from v(2) show ?case
    by (rule timer_stepE) (use Suc.IH [OF v(1) Suc.prems(2)] fire_decreases [of v _ d refuses] in force)
qed simp

text \<open>Events and dispatches keep the ids of the timers right, when their ids have no surrounding space.\<close>

lemma adds_keeps_ok: "adds C w w' \<Longrightarrow> timers_ok w \<Longrightarrow> \<forall>t \<in> C. timer_ok t \<Longrightarrow> timers_ok w'"
  unfolding adds_def timers_ok_def by (auto simp: image_subset_iff)

lemma event_keeps_timers:
  assumes "handleDomainEvent (lift_reconcilers d) (Some (ScheduleReconcile refuses)) payload aggregateID w = (x, w')"
    and "timers_ok w" and "\<And>s a. payload = ActionPayload s a \<Longrightarrow> TrimSpace s = s"
  shows "timers_ok w'"
proof (cases payload)
  case (SessionPayload s)
  let ?s = "firstNonEmpty [s, aggregateID]"
  from assms(1) SessionPayload have "adds {session_ticket ?s, session_actions_ticket ?s} w w'"
    by (intro adds_session_domain) (simp add: handleDomainEvent_def del: firstNonEmpty.simps)
  then show ?thesis
    by (rule adds_keeps_ok [OF _ assms(2)])
      (simp add: ticket_defs timer_ok_def own_id_def session_body_def del: firstNonEmpty.simps)
next
  case (ActionPayload s a)
  let ?a = "firstNonEmpty [a, aggregateID]"
  from assms(1) ActionPayload have "adds {action_ticket s ?a, session_ticket s} w w'"
    by (intro adds_action_domain) (simp add: handleDomainEvent_def del: firstNonEmpty.simps)
  then show ?thesis
    by (rule adds_keeps_ok [OF _ assms(2)])
      (simp add: ticket_defs timer_ok_def own_id_def session_body_def action_body_def assms(3) [OF ActionPayload] del: firstNonEmpty.simps)
qed (use assms in \<open>simp add: handleDomainEvent_def\<close>)

section \<open>Properties\<close>

text \<open>
  C14: The timers die out. A timer that fires leaves strictly less behind: its workflow is still open
  while it dispatches, so that its own request to look again starts nothing, and what it may start ranks
  below it. Without new events at most as many timers fire as the open ones weigh, and nothing polls any
  more, whatever the reconcilers still ask for.
\<close>

theorem timers_die_out:
  assumes "timers_ok w" and "(timer_step d refuses ^^ n) w w'"
  shows "n + timer_weight (tw_open w') \<le> timer_weight (tw_open w) \<and> timers_ok w'"
  using timer_steps [OF assms(2,1)] by simp

end
