(* ===== verification/Entitlement_World.thy ===== *)
theory Entitlement_World
  imports Runtime_Entitlement Reconcile_Laws
begin

text \<open>
  Concrete platform services without a state, in which a turn is resolved, its run is started and its pod
  calls the gateway; and timers that fire. The witnesses of the properties of the resolver, of the runtime
  context and of the timers are here.
\<close>

section \<open>The services\<close>

definition en_surface :: SurfaceBinding where
  "en_surface = \<lparr>sb_surfaceId = ''b1'', sb_runtime = Some \<lparr>srt_access = AccessApi Anthropic ''http://p'', srt_catalog = None\<rparr>,
     sb_credentialId = ''cred1''\<rparr>"

definition en_materialization :: CLIAuthMaterialization where
  "en_materialization = \<lparr>cam_materializationKey = ''k1'', cam_requiredRuntimeProjections = [ProjectionBaseURL],
     cam_runtimeUrlProjectionKind = ProjectionBaseURL, cam_includeRuntimeUrlHost = True, cam_extraTargetHosts = [],
     cam_requestAuthInjection = Some \<lparr>rai_headerNames = [''x-api-key''], rai_headerValuePrefix = []\<rparr>,
     cam_targetPathPrefixes = [''/v1'']\<rparr>"

definition en_cli :: CLI where
  "en_cli = \<lparr>cli_cliId = ''codex'', cli_oauth = None,
     cli_apiKeyProtocols = [Some \<lparr>aps_protocol = Anthropic, aps_authMaterialization = Some en_materialization\<rparr>],
     cli_containerImages = [Some \<lparr>cci_executionClass = ''cli-standard'', cci_cpuRequest = ''1'', cci_memoryRequest = ''1Gi''\<rparr>]\<rparr>"

definition en_services :: "unit RuntimeServices" where
  "en_services = \<lparr>rs_ListCLIs = (\<lambda>w. (Inr [Some en_cli], w)), rs_GetCLI = (\<lambda>i w. (Inr (Some en_cli), w)),
     rs_GetLatestImages = (\<lambda>i w. (Inr [Some \<lparr>ri_cliId = i, ri_executionClass = ''cli-standard'', ri_image = ''img:1''\<rparr>], w)),
     rs_ListSurfaceBindings = (\<lambda>w. (Inr [Some en_surface], w))\<rparr>"

definition en_models :: "unit ModelService" where
  "en_models = \<lparr>ms_ResolveModelRef = (\<lambda>i w. (Inr (Some \<lparr>mr_vendorId = ''anthropic'', mr_modelId = i\<rparr>), w)),
     ms_GetModelVersion = (\<lambda>q w. (Inr (Some \<lparr>mv_vendorId = mr_vendorId q, mv_modelId = mr_modelId q, mv_aliases = [],
       mv_capabilities = [], mv_primaryShape = ShapeAnthropicMessages, mv_supportedShapes = [], mv_inputModalities = [],
       mv_outputModalities = []\<rparr>), w))\<rparr>"

section \<open>A turn\<close>

definition en_spec :: "ModelSelector \<Rightarrow> AgentSessionSpec" where
  "en_spec selector = \<lparr>ss_sessionId = ''s1'', ss_providerId = ''codex'', ss_profileId = [],
     ss_runtimeConfig = Some \<lparr>rc_providerRuntimeRef = Some \<lparr>prr_providerId = ''p1'', prr_surfaceId = ''b1'', prr_access = []\<rparr>,
       rc_fallbacks = [Some \<lparr>fb_providerRuntimeRef = Some \<lparr>prr_providerId = ''p1'', prr_surfaceId = ''b1'', prr_access = []\<rparr>,
         fb_modelSelector = Some (SelectProviderModelId ''m2'')\<rparr>],
       rc_primaryModelSelector = Some selector\<rparr>,
     ss_resourceConfig = None, ss_workspaceRef = Some ''s1-workspace'', ss_homeStateRef = Some ''s1-home'',
     ss_profileGeneration = 0, ss_executionClass = ''cli-standard'', ss_prepareJobs = []\<rparr>"

definition en_session :: "ModelSelector \<Rightarrow> SessionResource" where
  "en_session selector = \<lparr>sr_meta = \<lparr>om_name = ''s1'', om_namespace = ''code-code'', om_generation = 1,
      om_resourceVersion = [], om_labels = [], om_creationTimestamp = 0, om_deletionTimestamp = None, om_finalizers = []\<rparr>,
     sr_session = Some (en_spec selector),
     sr_status = empty_session_status\<lparr>srs_runtimeConfigGeneration := 1, srs_resourceConfigGeneration := 1, srs_stateGeneration := 1\<rparr>\<rparr>"

definition en_request :: RunRequest where
  "en_request = \<lparr>rq_runId = [], rq_traceId = [], rq_input = Some \<lparr>rin_text = ''hi'', rin_parameters = None\<rparr>,
     rq_resumeToken = [], rq_resolvedProviderModel = None\<rparr>"

definition en_create :: CreateRequest where
  "en_create = \<lparr>crq_ActionID = ''a1'', crq_TurnID = ''t1'', crq_RunRequest = Some en_request\<rparr>"

abbreviation en_resolver :: "unit Resolver" where
  "en_resolver \<equiv> remote_resolver en_services en_models"

abbreviation en_m1 :: ModelSelector where
  "en_m1 \<equiv> SelectProviderModelId ''m1''"

text \<open>Two candidates of the same surface, for the models \<open>m1\<close> and \<open>m2\<close>.\<close>

definition candidate_model :: "RuntimeCandidate option \<Rightarrow> string" where
  "candidate_model c = (case Option.bind c cand_resolvedProviderModel of None \<Rightarrow> [] | Some m \<Rightarrow> rpm_providerModelId m)"

text \<open>A model named without its vendor.\<close>

abbreviation en_vendorless :: ModelSelector where
  "en_vendorless \<equiv> SelectModelRef (Some \<lparr>mr_vendorId = [], mr_modelId = ''m1''\<rparr>)"


section \<open>The pod of the run\<close>

definition en_pod :: "string \<Rightarrow> string \<Rightarrow> Pod" where
  "en_pod uid ip = \<lparr>kp_namespace = ''runs'', kp_name = uid @ ''-pod'', kp_uid = uid, kp_labels = [(runIDLabelKey, ''r1'')],
     kp_created = 1, kp_podIP = ip, kp_podIPs = [ip]\<rparr>"

definition en_pods :: "unit PodClient" where
  "en_pods = \<lparr>pods_Get = (\<lambda>ns n w. (Inl (api_not_found ''pods'' n), w)),
     pods_List = (\<lambda>ns labels w. (Inr [en_pod ''u1'' ''10.0.0.7'', en_pod ''u2'' ''10.0.0.8''], w))\<rparr>"

definition en_snapshot :: "RunTurnSnapshot result \<times> unit" where
  "en_snapshot = buildRunTurnSnapshot (ResolveRunTurn en_resolver) (en_session en_m1) (Some en_create) ()"

definition en_run :: "RunTurnSnapshot \<Rightarrow> AgentRunSpec result" where
  "en_run sn = (case snapshotForCandidate (Some sn) 0 ''r1'' of Inl e \<Rightarrow> Inl e
     | Inr selected \<Rightarrow> buildRunSpec ''s1'' (Some \<lparr>crr_RunID = ''r1'', crr_Snapshot = Some selected\<rparr>) ''r1'')"

definition en_status :: AgentRunStatus where
  "en_status = \<lparr>ars_runId = ''r1'', ars_phase = RunPhaseUnspecified, ars_observedGeneration = 1, ars_message = [],
     ars_workload = None, ars_conditions = [], ars_result = None, ars_updatedAt = None, ars_prepareJobs = []\<rparr>"

definition en_auth_client :: "unit RuntimeAuthClient" where
  "en_auth_client = \<lparr>rac_GetCredentialRuntimeProjection =
       (\<lambda>i w. (Inr (Some \<lparr>crp_credentialKind = KindApiKey, crp_vendorId = ''anthropic''\<rparr>), w)),
     rac_GetEgressAuthPolicy = (\<lambda>q w. (Inr \<lparr>ep_policyId = gp_policyId q, ep_materializationKey = gp_materializationKey q, ep_adapterId = [],
       ep_requestRules = [\<lparr>rule_Mode = ''bearer'', rule_HeaderName = ''Authorization'', rule_MaterialKey = ''api_key'',
         rule_HeaderValuePrefix = [], rule_Template = []\<rparr>], ep_responseRules = [], ep_requestHeaderNames = [],
       ep_responseHeaderNames = [], ep_headerValuePrefix = [], ep_extensionProviderName = [], ep_headersToUpstreamOnAllow = [],
       ep_headersToDownstreamOnAllow = [], ep_headersToDownstreamOnDeny = []\<rparr>, w))\<rparr>"

definition en_server :: "AgentRunSpec result \<Rightarrow> unit SessionServer" where
  "en_server run = \<lparr>sv_namespace = ''code-code'', sv_runtimeNamespace = ''runs'',
     sv_runGet = (\<lambda>i w. (case run of Inl e \<Rightarrow> Inl e | Inr spec \<Rightarrow>
       Inr \<lparr>rst_generation = 1, rst_spec = spec, rst_status = en_status\<rparr>, w)),
     sv_pods = Some en_pods, sv_catalog = Some (remote_catalog en_services), sv_auth = Some en_auth_client,
     sv_support = Some (\<lambda>s w. (Inr \<lparr>cap_egressPolicyId = ''egress'', cap_authPolicyId = ''auth'', cap_profileIds = [],
       cap_authMaterializationKey = cs_authMaterializationKey s\<rparr>, w)),
     sv_egress = Some (\<lambda>i u w. (Inr (Some \<lparr>erp_targetHosts = [''api.test''], erp_targetPathPrefixes = [''/v1'']\<rparr>), w))\<rparr>"


section \<open>A call of the run\<close>

definition en_gateway :: "AgentRunSpec result \<Rightarrow> unit AuthServer" where
  "en_gateway run = \<lparr>srv_namespace = ''code-code'', srv_runtimeNamespace = ''runs'',
     srv_credentials = Some (\<lambda>c w. (Inr (Some (ApiKeyMaterial ''s3cret'')), w)),
     srv_runtime = Some (runtime_context_client (en_server run)), srv_providers = None,
     srv_sha1hex = (\<lambda>s. ''0f''), srv_urlparse = (\<lambda>u. None), srv_clock = (\<lambda>w. 1)\<rparr>"

definition en_check :: CheckRequest where
  "en_check = \<lparr>ck_source = \<lparr>peer_principal = ''spiffe://c/ns/runs/sa/agent'', peer_socketAddress = Some ''10.0.0.7:80''\<rparr>,
     ck_http = Some \<lparr>hr_host = ''api.test'', hr_path = ''/v1/models'', hr_headers = []\<rparr>\<rparr>"

definition en_resolve :: EgressRequest where
  "en_resolve = empty_egress_request\<lparr>er_targetHost := ''api.test'', er_targetPath := ''/v1/models'',
     er_sourcePrincipal := ''spiffe://c/ns/runs/sa/agent'',
     er_runtimeSource := Some (SourcePod (Some \<lparr>pod_namespace = ''runs'', pod_name = [], pod_uid = [], pod_ip = ''10.0.0.7''\<rparr>))\<rparr>"

lemma en_resolve: "extAuthzResolveRequest (\<lambda>s. None) (Some en_check) ''runs'' = Some en_resolve"
  by code_simp

text \<open>The checks take what was computed before as an argument, so that it is evaluated once.\<close>

definition en_answers :: "AgentRunSpec result \<Rightarrow> bool" where
  "en_answers run \<longleftrightarrow> \<not> isl run \<and> (case fst (egress_Check (\<lambda>s. None) (Some (en_gateway run)) (Some en_check) ()) of
     AllowedResponse hs removed \<Rightarrow> True | DeniedResponse c st hs b \<Rightarrow> False)"

text \<open>What the run service stores for the turn.\<close>

definition en_auth :: AgentRunAuthRequirement where
  "en_auth = \<lparr>auth_providerId = ''codex'', auth_providerSurfaceBindingId = ''b1'', auth_authStatus = ''bound'',
     auth_runtimeUrl = ''http://p'', auth_materializationKey = ''k1'', auth_providerRunBinding = None\<rparr>"

definition en_run_spec :: "RunRequest option \<Rightarrow> AgentRunPrepareJob option list \<Rightarrow> AgentRunSpec" where
  "en_run_spec request jobs = \<lparr>rs_runId = ''r1'', rs_sessionId = ''s1'', rs_sessionGeneration = 1, rs_runtimeConfigGeneration = 1,
     rs_resourceConfigGeneration = 1, rs_stateGeneration = 1, rs_request = request, rs_providerId = ''codex'',
     rs_executionClass = ''cli-standard'', rs_containerImage = ''img:1'', rs_cpuRequest = ''1'', rs_memoryRequest = ''1Gi'',
     rs_authRequirement = Some en_auth, rs_cancelRequested = False, rs_runtimeEnvironment = Some defaultRuntimeEnvironment,
     rs_workspaceId = ''s1-workspace'', rs_homeStateId = ''s1-home'', rs_prepareJobs = jobs, rs_agentRuntimeId = []\<rparr>"

definition en_checks :: "RunTurnSnapshot result \<Rightarrow> bool" where
  "en_checks x \<longleftrightarrow> (case x of Inl e \<Rightarrow> False
     | Inr sn \<Rightarrow> map candidate_model (sn_runtimeCandidates sn) = [''m1'', ''m2''] \<and>
         (case en_run sn of Inl e \<Rightarrow> False | Inr spec \<Rightarrow> spec = en_run_spec (rs_request spec) (rs_prepareJobs spec)))"

lemma en_computed: "en_checks (fst en_snapshot)"
  by code_simp

lemma en_snapshot: "\<exists>sn request jobs. en_snapshot = (Inr sn, ()) \<and> en_run sn = Inr (en_run_spec request jobs) \<and>
    map candidate_model (sn_runtimeCandidates sn) = [''m1'', ''m2'']"
  using en_computed by (auto simp: en_checks_def prod_eq_iff split: sum.splits)

text \<open>The gateway allows the call whatever the request and the jobs of the run are.\<close>

lemma en_run_answers: "en_answers (Inr (en_run_spec request jobs))"
  by code_simp

lemma en_session_spec: "sr_session (en_session selector) = Some (en_spec selector)"
  by (simp add: en_session_def)


lemma en_run_of_turn:
  assumes "en_snapshot = (Inr sn, ())" and "en_run sn = Inr spec"
  shows "turn_run en_services en_models spec"
proof -
  from assms(2) obtain selected where "snapshotForCandidate (Some sn) 0 ''r1'' = Inr selected"
    and "buildRunSpec ''s1'' (Some \<lparr>crr_RunID = ''r1'', crr_Snapshot = Some selected\<rparr>) ''r1'' = Inr spec"
    by (auto simp: en_run_def split: sum.splits)
  with assms(1) [unfolded en_snapshot_def] show ?thesis unfolding turn_run_def by blast
qed

theorem turn_runs_get_no_secret_witness:
  "\<exists>run removed. turn_run en_services en_models run \<and>
     egress_Check (\<lambda>s. None) (Some (en_gateway (Inr run))) (Some en_check) () = (AllowedResponse [] removed, ())"
proof -
  from en_snapshot obtain sn request jobs where sn: "en_snapshot = (Inr sn, ())" and run: "en_run sn = Inr (en_run_spec request jobs)"
    by (elim exE conjE)
  let ?run = "en_run_spec request jobs"
  from en_run_answers [of request jobs] obtain hs removed where
    a: "egress_Check (\<lambda>s. None) (Some (en_gateway (Inr ?run))) (Some en_check) () = (AllowedResponse hs removed, ())"
    by (auto simp: en_answers_def prod_eq_iff split: CheckResponse.splits)
  have "hs = []"
  proof (rule turn_runs_get_no_secret [OF _ _ _ _ a])
    show "srv_runtime (en_gateway (Inr ?run)) = Some (runtime_context_client (en_server (Inr ?run)))" by (simp add: en_gateway_def)
    show "\<forall>i u r u'. sv_runGet (en_server (Inr ?run)) i u = (Inr r, u') \<longrightarrow> turn_run en_services en_models (rst_spec r)"
      by (auto simp: en_server_def en_run_of_turn [OF sn run])
    show "extAuthzResolveRequest (\<lambda>s. None) (Some en_check) (srv_runtimeNamespace (en_gateway (Inr ?run))) = Some en_resolve"
      by (simp add: en_gateway_def en_resolve)
    show "er_runtimeSource en_resolve \<noteq> None" by (simp add: en_resolve_def)
  qed
  with en_run_of_turn [OF sn run] a show ?thesis by blast
qed

section \<open>A timer\<close>

text \<open>Every reconciler asks to be called again.\<close>

definition en_again :: CtrlResult where
  "en_again = \<lparr>res_requeue = True, res_requeueAfter = 0\<rparr>"

definition en_polling :: "unit DomainReconcilers" where
  "en_polling = \<lparr>dr_session = (\<lambda>i w. (Inr en_again, w)), dr_action = (\<lambda>i w. (Inr en_again, w)), dr_run = (\<lambda>i w. (Inr en_again, w)),
     dr_sessionActions = (\<lambda>i w. (([en_again], None), w)), dr_runActions = (\<lambda>i j w. (([en_again], None), w))\<rparr>"

definition en_timer :: "string \<times> TemporalReconcileInput" where
  "en_timer = (temporalReconcileWorkflowID ''run'' ''r1'' ''reconcile-run'',
     \<lparr>ti_Action = ''reconcile-run'', ti_Body = run_body ''s1'' ''r1'', ti_Delay = second\<rparr>)"

definition en_timers :: "unit tworld" where
  "en_timers = \<lparr>tw_open = [en_timer], tw_base = ()\<rparr>"

text \<open>One timer of a run allows four steps at most, although everything asks for more.\<close>

theorem timers_die_out_witness: "\<not> (\<exists>w. (timer_step en_polling (\<lambda>i w. None) ^^ 5) en_timers w)"
proof
  assume "\<exists>w. (timer_step en_polling (\<lambda>i w. None) ^^ 5) en_timers w"
  then obtain w where w: "(timer_step en_polling (\<lambda>i w. None) ^^ 5) en_timers w" ..
  have "TrimSpace ''s1'' = ''s1''" "TrimSpace ''r1'' = ''r1''" by (rule TrimSpace_plain; simp add: plain_char_def)+
  then have "timers_ok en_timers"
    by (simp add: timers_ok_def en_timers_def en_timer_def ticket_of_def timer_ok_def own_id_def run_body_def)
  from timers_die_out [OF this w] show False
    by (simp add: timer_weight_def en_timers_def en_timer_def action_rank_def)
qed

end
