(* ===== verification/Run_Jobs.thy ===== *)
theory Run_Jobs
  imports Runtime_Context Session_Carriers Run_Status
begin

text \<open>
  The Kubernetes jobs of a run: the job that executes it beside the sidecar that reads its output
  (\<open>agentruns/temporal_activities.go\<close>, \<open>temporal_job_helpers.go\<close>, \<open>auth_binding.go\<close>, \<open>input.go\<close>), and the jobs that
  prepare it (\<open>sessionapi/agent_run_prepare_job.go\<close>). Of a container's security context the fields that
  every container sets alike are the constants of \<open>containerSecurity\<close>. \<open>digest\<close> is the hexadecimal form of five
  bytes of SHA-1. The configuration of the sidecar is that of \<open>deploy/agents/sidecars/cli-output\<close>.
\<close>

section \<open>Jobs\<close>

record ContainerSecurity =
  sec_allowPrivilegeEscalation :: bool
  sec_drop :: "string list"
  sec_readOnlyRoot :: "bool option"
  sec_runAsNonRoot :: bool
  sec_runAsUser :: int
  sec_runAsGroup :: int
  sec_seccomp :: string

record Container =
  ct_name :: string
  ct_image :: string
  ct_pullPolicy :: string
  ct_workingDir :: string
  ct_command :: "string list"
  ct_env :: "(string \<times> string) list"
  ct_mounts :: "(string \<times> string \<times> bool) list"
  ct_security :: ContainerSecurity

datatype VolumeSource = EmptyDirVolume string | ClaimVolume string | ConfigMapVolume string

record PodSecurity =
  ps_runAsNonRoot :: "bool option"
  ps_runAsUser :: "int option"
  ps_runAsGroup :: "int option"
  ps_fsGroup :: int
  ps_fsGroupChangePolicy :: string

record JobSpec =
  jb_backoffLimit :: int
  jb_activeDeadlineSeconds :: "int option"
  jb_ttlSecondsAfterFinished :: int
  jb_podLabels :: "(string \<times> string) list"
  jb_restartPolicy :: string
  jb_automountToken :: bool
  jb_podSecurity :: PodSecurity
  jb_containers :: "Container list"
  jb_volumes :: "(string \<times> VolumeSource) list"
  jb_gracePeriod :: "int option"

record JobCondition =
  jcond_type :: string
  jcond_status :: string
  jcond_message :: string

record KubeJob =
  kj_name :: string
  kj_namespace :: string
  kj_labels :: "(string \<times> string) list"
  kj_spec :: JobSpec
  kj_succeeded :: int
  kj_conditions :: "JobCondition list"

definition nonRootCoreSecurityContext :: "bool option \<Rightarrow> ContainerSecurity" where
  "nonRootCoreSecurityContext readonly =
     \<lparr>sec_allowPrivilegeEscalation = False, sec_drop = [''ALL''], sec_readOnlyRoot = readonly, sec_runAsNonRoot = True,
      sec_runAsUser = 1000, sec_runAsGroup = 1000, sec_seccomp = ''RuntimeDefault''\<rparr>"

section \<open>The job of a run\<close>

definition run_sessionLabelKey :: string where
  "run_sessionLabelKey = ''agentrun.code-code.internal/session-id''"

definition resourceNameLabelKey :: string where
  "resourceNameLabelKey = ''agentrun.code-code.internal/resource-name''"

definition workflowNameFor :: "RunResource \<Rightarrow> string" where
  "workflowNameFor run = TrimSpace (om_name (run_meta run))"

definition providerRunBinding :: "AgentRunAuthRequirement option \<Rightarrow> ProviderRunBinding option" where
  "providerRunBinding auth = getf None auth_providerRunBinding auth"

definition requestPrompt :: "RunRequest option \<Rightarrow> string" where
  "requestPrompt request = TrimSpace (getf [] rin_text (getf None rq_input request))"

text \<open>A parameter that is not a string reads as the empty string.\<close>

definition structString :: "(string \<times> ParamValue) list option \<Rightarrow> string \<Rightarrow> string" where
  "structString params key =
     (case map_of (getf [] id params) key of Some (StringParam s) \<Rightarrow> TrimSpace s | _ \<Rightarrow> [])"

definition run_requestModel :: "RunRequest option \<Rightarrow> string" where
  "run_requestModel request =
     (case request of None \<Rightarrow> []
      | Some r \<Rightarrow>
          (let model = structString (getf None rin_parameters (rq_input r)) ''model'' in
           if model \<noteq> [] then model else TrimSpace (getf [] rpm_providerModelId (rq_resolvedProviderModel r))))"

text \<open>The environment of a run: its workspace and its data directory.\<close>

definition workspaceDir :: "AgentRunSpec \<Rightarrow> string" where
  "workspaceDir run = getf [] fst (rs_runtimeEnvironment run)"

definition dataDir :: "AgentRunSpec \<Rightarrow> string" where
  "dataDir run = getf [] snd (rs_runtimeEnvironment run)"

definition egressTrustCoreEnv :: "(string \<times> string) list" where
  "egressTrustCoreEnv =
     (let path = ''/var/run/code-code-egress-trust/ca-certificates.crt'' in
      [(''SSL_CERT_FILE'', path), (''REQUESTS_CA_BUNDLE'', path), (''CURL_CA_BUNDLE'', path), (''GIT_SSL_CAINFO'', path),
       (''NODE_EXTRA_CA_CERTS'', path)])"

definition executeRunContainer :: "AgentRunSpec \<Rightarrow> ProviderRunBinding option \<Rightarrow> Container" where
  "executeRunContainer run binding =
     \<lparr>ct_name = ''execute'', ct_image = rs_containerImage run, ct_pullPolicy = ''IfNotPresent'', ct_workingDir = workspaceDir run,
      ct_command = [''/usr/local/bin/agent-entrypoint.sh''],
      ct_env =
        [(''AGENT_RUN_PROMPT'', requestPrompt (rs_request run)), (''AGENT_RUN_MODEL'', run_requestModel (rs_request run)),
         (''AGENT_RUN_RUNTIME_URL'', getf [] prb_runtimeUrl binding),
         (''AGENT_RUN_AUTH_MATERIALIZATION_KEY'', getf [] prb_materializationKey binding),
         (''AGENT_RUN_RUNTIME_CLI_ID'', getf [] prb_runtimeCliId binding), (''HOME'', dataDir run),
         (''XDG_DATA_HOME'', dataDir run @ ''/.local/share''), (''XDG_CONFIG_HOME'', dataDir run @ ''/.config''),
         (''XDG_CACHE_HOME'', dataDir run @ ''/.cache'')] @ egressTrustCoreEnv,
      ct_mounts = [(''workspace'', workspaceDir run, False), (''home-state'', dataDir run, False),
        (''cli-output-run'', ''/run/cli-output'', False), (''egress-trust-bundle'', ''/var/run/code-code-egress-trust'', True)],
      ct_security = nonRootCoreSecurityContext (Some False)\<rparr>"

definition defaultCLIOutputSidecarImage :: string where
  "defaultCLIOutputSidecarImage = ''code-code/cli-output-sidecar:0.0.0''"

definition defaultCLIOutputNATSURL :: string where
  "defaultCLIOutputNATSURL = ''nats://nats.code-code-infra.svc.cluster.local:4222''"

definition cliOutputContainer :: "AgentRunSpec \<Rightarrow> string \<Rightarrow> Container" where
  "cliOutputContainer run img =
     \<lparr>ct_name = ''cli-output'', ct_image = firstNonEmpty [img, defaultCLIOutputSidecarImage], ct_pullPolicy = ''IfNotPresent'',
      ct_workingDir = [], ct_command = [],
      ct_env = [(''CLI_OUTPUT_RUN_ID'', rs_runId run), (''CLI_OUTPUT_SESSION_ID'', rs_sessionId run),
        (''CLI_OUTPUT_NATS_URL'', defaultCLIOutputNATSURL), (''CLI_OUTPUT_WORK_DIR'', ''/run/cli-output''),
        (''CLI_OUTPUT_CLI_ID'', rs_agentRuntimeId run)],
      ct_mounts = [(''cli-output-run'', ''/run/cli-output'', False)], ct_security = nonRootCoreSecurityContext (Some True)\<rparr>"

text \<open>What a workflow of a run is started with; the bodies of the triggers are the records their JSON decodes to.\<close>

record PrepareJobPayload =
  pp_jobId :: string
  pp_cliId :: string
  pp_jobType :: string
  pp_runType :: string
  pp_changeKey :: string
  pp_cleanup :: bool
  pp_parametersYaml :: string

record PrepareTrigger =
  pt_runtimeNamespace :: string
  pt_sessionId :: string
  pt_runId :: string
  pt_agentRunResourceName :: string
  pt_workspacePVCName :: string
  pt_homeStatePVCName :: string
  pt_runtimeWorkspaceDir :: string
  pt_runtimeDataDir :: string
  pt_containerImage :: string
  pt_providerId :: string
  pt_providerSurfaceBindingId :: string
  pt_runtimeUrl :: string
  pt_authMaterializationKey :: string
  pt_job :: PrepareJobPayload

record CleanupTrigger =
  cu_runtimeNamespace :: string
  cu_sessionId :: string
  cu_runId :: string
  cu_agentRunResourceName :: string
  cu_jobs :: "PrepareJobPayload list"

record TemporalWorkflowInput =
  wi_Run :: RunResource
  wi_RuntimeNS :: string
  wi_CLIOutputSidecarImage :: string
  wi_PrepareBodies :: "PrepareTrigger list"
  wi_CleanupBody :: CleanupTrigger

definition executeJob :: "digest \<Rightarrow> TemporalWorkflowInput \<Rightarrow> AgentRunSpec \<Rightarrow> string \<Rightarrow> KubeJob" where
  "executeJob digest input run name =
     (let labels = [(''code-code.internal/runtime'', ''agent-run''),
            (''platform.code-code.internal/workflow-kind'', ''agent-run-execution''), (run_sessionLabelKey, rs_sessionId run),
            (runIDLabelKey, rs_runId run), (resourceNameLabelKey, om_name (run_meta (wi_Run input)))] in
      \<lparr>kj_name = name, kj_namespace = wi_RuntimeNS input, kj_labels = labels,
       kj_spec = \<lparr>jb_backoffLimit = 0, jb_activeDeadlineSeconds = None, jb_ttlSecondsAfterFinished = 86400, jb_podLabels = labels,
         jb_restartPolicy = ''Never'', jb_automountToken = False,
         jb_podSecurity = \<lparr>ps_runAsNonRoot = Some True, ps_runAsUser = Some 1000, ps_runAsGroup = Some 1000, ps_fsGroup = 1000,
           ps_fsGroupChangePolicy = ''OnRootMismatch''\<rparr>,
         jb_containers = [executeRunContainer run (providerRunBinding (rs_authRequirement run)),
           cliOutputContainer run (wi_CLIOutputSidecarImage input)],
         jb_volumes = [(''cli-output-run'', EmptyDirVolume ''1Gi''),
           (''workspace'', ClaimVolume (WorkspacePVCName digest (rs_sessionId run) (rs_workspaceId run))),
           (''home-state'', ClaimVolume (HomeStatePVCName digest (rs_sessionId run) (rs_homeStateId run))),
           (''egress-trust-bundle'', ConfigMapVolume ''code-code-egress-trust-bundle'')],
         jb_gracePeriod = None\<rparr>,
       kj_succeeded = 0, kj_conditions = []\<rparr>)"

section \<open>The jobs that prepare a run\<close>

text \<open>Letters and digits stay, dashes, underscores and spaces become dashes, everything else is dropped.\<close>

fun label_bytes :: "string \<Rightarrow> string" where
  "label_bytes [] = []"
| "label_bytes (c # s) =
     (let n = lead_match go_space_runes (c # s) in
      if n \<noteq> 0 then CHR ''-'' # label_bytes (drop (n - 1) s)
      else if is_alnum c \<and> \<not> is_upper c then c # label_bytes s
      else if c = CHR ''-'' \<or> c = CHR ''_'' then CHR ''-'' # label_bytes s
      else label_bytes s)"

definition dnsLabelPart :: "string \<Rightarrow> string" where
  "dnsLabelPart value = trim_dashes (label_bytes (ToLower (TrimSpace value)))"

definition DNSLabelPart :: "string \<Rightarrow> string \<Rightarrow> string" where
  "DNSLabelPart value fallback =
     (let out = dnsLabelPart value in if out = [] \<and> TrimSpace fallback \<noteq> [] then dnsLabelPart fallback else out)"

definition preparePrefix :: string where
  "preparePrefix = ''agent-prepare-''"

definition prepareJobName :: "digest \<Rightarrow> string \<Rightarrow> string \<Rightarrow> string" where
  "prepareJobName digest runID jobID =
     (let base = DNSLabelPart (runID @ ''-'' @ jobID) ''prepare'' in
      if length preparePrefix + length base \<le> 63 then preparePrefix @ base
      else
        (let tail_part = digest (runID @ ''/'' @ jobID); limit = 63 - int (length preparePrefix) - int (length tail_part) - 1 in
         if limit < 1 then preparePrefix @ tail_part
         else preparePrefix @ trim_dashes (take (nat limit) base) @ ''-'' @ tail_part))"

definition prepareJobLabels :: "PrepareTrigger \<Rightarrow> (string \<times> string) list" where
  "prepareJobLabels body =
     [(''code-code.internal/runtime'', ''agent-run-prepare''), (run_sessionLabelKey, DNSLabelPart (pt_sessionId body) ''session''),
      (runIDLabelKey, DNSLabelPart (pt_runId body) ''run''),
      (''agentrun.code-code.internal/job-id'', DNSLabelPart (pp_jobId (pt_job body)) ''job'')]"

definition prepareContainer :: "PrepareTrigger \<Rightarrow> Container" where
  "prepareContainer body =
     (let job = pt_job body in
      \<lparr>ct_name = ''prepare'', ct_image = pt_containerImage body, ct_pullPolicy = ''IfNotPresent'',
       ct_workingDir = pt_runtimeWorkspaceDir body, ct_command = [''/usr/local/bin/agent-prepare.sh''],
       ct_env =
         [(''AGENT_PREPARE_JOB_ID'', pp_jobId job), (''AGENT_PREPARE_CLI_ID'', pp_cliId job), (''AGENT_PREPARE_JOB_TYPE'', pp_jobType job),
          (''AGENT_PREPARE_RUN_TYPE'', pp_runType job), (''AGENT_PREPARE_CHANGE_KEY'', pp_changeKey job),
          (''AGENT_PREPARE_PARAMETERS_YAML'', pp_parametersYaml job), (''AGENT_RUN_SESSION_ID'', pt_sessionId body),
          (''AGENT_RUN_ID'', pt_runId body), (''AGENT_RUN_RUNTIME_URL'', pt_runtimeUrl body),
          (''AGENT_RUN_AUTH_MATERIALIZATION_KEY'', pt_authMaterializationKey body),
          (''AGENT_RUN_PROVIDER_SURFACE_BINDING_ID'', pt_providerSurfaceBindingId body), (''HOME'', pt_runtimeDataDir body)],
       ct_mounts = [(''workspace'', pt_runtimeWorkspaceDir body, False), (''home-state'', pt_runtimeDataDir body, False)],
       ct_security = nonRootCoreSecurityContext None\<rparr>)"

definition buildPrepareJob :: "string \<Rightarrow> string \<Rightarrow> PrepareTrigger \<Rightarrow> KubeJob" where
  "buildPrepareJob namespace name body =
     (let labels = prepareJobLabels body in
      \<lparr>kj_name = name, kj_namespace = namespace, kj_labels = labels,
       kj_spec = \<lparr>jb_backoffLimit = 0, jb_activeDeadlineSeconds = Some 3600, jb_ttlSecondsAfterFinished = 300, jb_podLabels = labels,
         jb_restartPolicy = ''Never'', jb_automountToken = False,
         jb_podSecurity = \<lparr>ps_runAsNonRoot = None, ps_runAsUser = None, ps_runAsGroup = None, ps_fsGroup = 1000,
           ps_fsGroupChangePolicy = ''OnRootMismatch''\<rparr>,
         jb_containers = [prepareContainer body],
         jb_volumes = [(''workspace'', ClaimVolume (pt_workspacePVCName body)), (''home-state'', ClaimVolume (pt_homeStatePVCName body))],
         jb_gracePeriod = Some 10\<rparr>,
       kj_succeeded = 0, kj_conditions = []\<rparr>)"

section \<open>The configuration of the sidecar\<close>

record SidecarConfig =
  sc_AccumulatorPath :: string
  sc_CLIID :: string
  sc_FIFOPath :: string
  sc_NATSURL :: string
  sc_ReadyPath :: string
  sc_RunID :: string
  sc_SessionID :: string
  sc_SocketPath :: string
  sc_StopPath :: string
  sc_TerminalPath :: string

definition getenv :: "(string \<times> string) list \<Rightarrow> string \<Rightarrow> string" where
  "getenv env key = TrimSpace (case map_of env key of None \<Rightarrow> [] | Some v \<Rightarrow> v)"

definition defaultPath :: "(string \<times> string) list \<Rightarrow> string \<Rightarrow> string \<Rightarrow> string" where
  "defaultPath env key fallback = (let value = getenv env key in if value \<noteq> [] then value else fallback)"

definition LoadConfigFromEnv :: "(string \<times> string) list \<Rightarrow> SidecarConfig result" where
  "LoadConfigFromEnv env =
     (let cfg = \<lparr>sc_AccumulatorPath = defaultPath env ''CLI_OUTPUT_ACCUMULATOR_PATH'' ''/run/cli-output/state/accumulator.json'',
            sc_CLIID = getenv env ''CLI_OUTPUT_CLI_ID'',
            sc_FIFOPath = defaultPath env ''CLI_OUTPUT_FIFO_PATH'' ''/run/cli-output/raw/events.fifo'',
            sc_NATSURL = defaultPath env ''CLI_OUTPUT_NATS_URL'' [],
            sc_ReadyPath = defaultPath env ''CLI_OUTPUT_READY_PATH'' ''/run/cli-output/status/ready'',
            sc_RunID = getenv env ''CLI_OUTPUT_RUN_ID'', sc_SessionID = getenv env ''CLI_OUTPUT_SESSION_ID'',
            sc_SocketPath = defaultPath env ''CLI_OUTPUT_SOCKET_PATH'' ''/run/cli-output/grpc/sidecar.sock'',
            sc_StopPath = defaultPath env ''CLI_OUTPUT_STOP_PATH'' ''/run/cli-output/control/stop.json'',
            sc_TerminalPath = defaultPath env ''CLI_OUTPUT_TERMINAL_PATH'' ''/run/cli-output/raw/terminal.json''\<rparr> in
      if sc_CLIID cfg = [] then Inl (PlainError ''cli-output-sidecar: CLI_OUTPUT_CLI_ID is required'') else Inr cfg)"

end
