(* ===== verification/Run_Workflow.thy ===== *)
theory Run_Workflow
  imports Run_Jobs Run_Controller
begin

text \<open>
  The workflow of a run (\<open>agentruns/temporal_workflow.go\<close>, \<open>temporal_activities.go\<close>, \<open>temporal_runtime.go\<close>,
  \<open>workflow_bodies.go\<close>) and the triggers it calls (\<open>sessionapi/agent_run_prepare.go\<close>, \<open>platform/triggerhttp\<close>):
  the prepare jobs one after the other, then the job of the run, and in the end the cleanup.

  The Kubernetes client of jobs and the Temporal client are calls over the world. An activity has at most
  three attempts, as its retry policy says; \<open>stopped\<close> tells in which worlds the cancellation of the workflow
  has arrived, and then the workflow gives an activity up. \<open>polls\<close> is the number of times a waiting activity
  looks before its deadline. An activity that is given up has no further effect, and a request that is
  refused for its size is a failure of the transport. The cleanup runs in a context that the cancellation does not reach.
\<close>

section \<open>Clients\<close>

record 'w JobClient =
  jc_Get :: "string \<Rightarrow> string \<Rightarrow> 'w \<Rightarrow> KubeJob result \<times> 'w"
  jc_Create :: "KubeJob \<Rightarrow> 'w \<Rightarrow> unit result \<times> 'w"
  jc_Delete :: "KubeJob \<Rightarrow> 'w \<Rightarrow> unit result \<times> 'w"

definition context_done :: go_error where
  "context_done = PlainError ''context canceled''"

section \<open>Waiting for a job\<close>

fun wait_job :: "('w \<Rightarrow> bool) \<Rightarrow> ('w \<Rightarrow> KubeJob result \<times> 'w) \<Rightarrow> (KubeJob \<Rightarrow> unit result option) \<Rightarrow> nat \<Rightarrow> 'w \<Rightarrow> unit result \<times> 'w" where
  "wait_job stopped look verdict n w =
     (case look w of (Inl e, w) \<Rightarrow> (Inl e, w)
      | (Inr job, w) \<Rightarrow>
          (case verdict job of Some r \<Rightarrow> (r, w)
           | None \<Rightarrow>
               (case n of 0 \<Rightarrow> (Inl context_done, w)
                | Suc m \<Rightarrow> if stopped w then (Inl context_done, w) else wait_job stopped look verdict m w)))"

declare wait_job.simps [simp del]

definition run_job_verdict :: "string \<Rightarrow> KubeJob \<Rightarrow> unit result option" where
  "run_job_verdict name job =
     (if kj_succeeded job > 0 then Some (Inr ())
      else case List.find (\<lambda>c. jcond_type c = ''Failed'' \<and> jcond_status c = ''True'') (kj_conditions job) of
        Some c \<Rightarrow> Some (Inl (PlainError (''platformk8s/agentruns: run job '' @ go_quote name @ '' failed: '' @ jcond_message c)))
      | None \<Rightarrow> None)"

definition prepare_job_verdict :: "string \<Rightarrow> KubeJob \<Rightarrow> unit result option" where
  "prepare_job_verdict name job =
     (case List.find (\<lambda>c. (jcond_type c = ''Complete'' \<or> jcond_type c = ''Failed'') \<and> jcond_status c = ''True'') (kj_conditions job) of
        None \<Rightarrow> None
      | Some c \<Rightarrow> if jcond_type c = ''Complete'' then Some (Inr ())
          else Some (Inl (PlainError (''prepare job '' @ go_quote name @ '' failed: '' @ jcond_message c))))"

section \<open>The triggers\<close>

text \<open>The handlers of the service: its namespaces, its client of jobs and its projection of an authentication.\<close>

record 'w TriggerServer =
  tg_runtimeNamespace :: string
  tg_jobs :: "'w JobClient"
  tg_project :: "PrepareAuth \<Rightarrow> 'w \<Rightarrow> Projection result \<times> 'w"
  tg_digest :: digest
  tg_polls :: nat
  tg_stopped :: "'w \<Rightarrow> bool"
  tg_authToken :: string

definition validatePrepareAgentRunJob :: "PrepareTrigger \<Rightarrow> go_error option" where
  "validatePrepareAgentRunJob body =
     (if TrimSpace (pt_runId body) = [] then Some (PlainError ''runId is required'')
      else if TrimSpace (pt_sessionId body) = [] then Some (PlainError ''sessionId is required'')
      else if TrimSpace (pt_containerImage body) = [] then Some (PlainError ''containerImage is required'')
      else if TrimSpace (pt_workspacePVCName body) = [] then Some (PlainError ''workspacePVCName is required'')
      else if TrimSpace (pt_homeStatePVCName body) = [] then Some (PlainError ''homeStatePVCName is required'')
      else if TrimSpace (pp_jobId (pt_job body)) = [] then Some (PlainError ''job.jobId is required'')
      else if TrimSpace (pp_jobType (pt_job body)) = [] then Some (PlainError ''job.jobType is required'')
      else None)"

definition prepare_auth_of :: "PrepareTrigger \<Rightarrow> PrepareAuth" where
  "prepare_auth_of body = \<lparr>pa_providerID = pt_providerId body, pa_surfaceBindingID = pt_providerSurfaceBindingId body,
     pa_runtimeURL = pt_runtimeUrl body, pa_materializationKey = pt_authMaterializationKey body, pa_cliID = pp_cliId (pt_job body)\<rparr>"

definition validateAgentRunAuthProjection :: "'w TriggerServer \<Rightarrow> PrepareTrigger \<Rightarrow> 'w \<Rightarrow> unit result \<times> 'w" where
  "validateAgentRunAuthProjection s body w =
     (if TrimSpace (pp_jobType (pt_job body)) \<noteq> ''auth'' then (Inr (), w)
      else case tg_project s (prepare_auth_of body) w of (Inl e, w) \<Rightarrow> (Inl e, w) | (Inr p, w) \<Rightarrow> (Inr (), w))"

definition handlePrepareAgentRunJobTrigger :: "'w TriggerServer \<Rightarrow> PrepareTrigger \<Rightarrow> 'w \<Rightarrow> unit result \<times> 'w" where
  "handlePrepareAgentRunJobTrigger s body w =
     (case validatePrepareAgentRunJob body of Some e \<Rightarrow> (Inl e, w)
      | None \<Rightarrow>
          (let namespace = firstNonEmpty [pt_runtimeNamespace body, tg_runtimeNamespace s];
               name = prepareJobName (tg_digest s) (pt_runId body) (pp_jobId (pt_job body));
               wait = wait_job (tg_stopped s) (jc_Get (tg_jobs s) namespace name) (prepare_job_verdict name) (tg_polls s) in
           case validateAgentRunAuthProjection s body w of (Inl e, w) \<Rightarrow> (Inl e, w)
           | (Inr u, w) \<Rightarrow>
               (case jc_Create (tg_jobs s) (buildPrepareJob namespace name body) w of
                  (Inl e, w) \<Rightarrow>
                    if is_api_already_exists e then wait w
                    else (Inl (Wrapped (''create prepare job '' @ go_quote name @ '': '') e), w)
                | (Inr u, w) \<Rightarrow> wait w)))"

fun cleanup_jobs :: "'w TriggerServer \<Rightarrow> string \<Rightarrow> string \<Rightarrow> PrepareJobPayload list \<Rightarrow> 'w \<Rightarrow> unit result \<times> 'w" where
  "cleanup_jobs s namespace runID [] w = (Inr (), w)"
| "cleanup_jobs s namespace runID (item # items) w =
     (case jc_Get (tg_jobs s) namespace (prepareJobName (tg_digest s) runID (pp_jobId item)) w of
        (Inl e, w) \<Rightarrow> if is_api_not_found e then cleanup_jobs s namespace runID items w else (Inl e, w)
      | (Inr current, w) \<Rightarrow>
          (case jc_Delete (tg_jobs s) current w of
             (Inl e, w) \<Rightarrow> if is_api_not_found e then cleanup_jobs s namespace runID items w else (Inl e, w)
           | (Inr u, w) \<Rightarrow> cleanup_jobs s namespace runID items w))"

definition handleCleanupAgentRunTrigger :: "'w TriggerServer \<Rightarrow> CleanupTrigger \<Rightarrow> 'w \<Rightarrow> unit result \<times> 'w" where
  "handleCleanupAgentRunTrigger s body w =
     cleanup_jobs s (firstNonEmpty [cu_runtimeNamespace body, tg_runtimeNamespace s]) (cu_runId body) (cu_jobs body) w"

text \<open>The body of an action, and the answer of the HTTP server to a request that carries it.\<close>

datatype RunActionBody = PrepareBody PrepareTrigger | CleanupBody CleanupTrigger

definition prepareJobAction :: string where
  "prepareJobAction = ''prepare-agent-run-job''"

definition cleanupRunAction :: string where
  "cleanupRunAction = ''cleanup-agent-run''"

definition handleAction :: "'w TriggerServer \<Rightarrow> string \<Rightarrow> string \<Rightarrow> RunActionBody \<Rightarrow> 'w \<Rightarrow> string option \<times> 'w" where
  "handleAction s token action body w =
     (let answer = (\<lambda>(r, w). (case r of Inl e \<Rightarrow> Some ''500 Internal Server Error'' | Inr u \<Rightarrow> None, w)) in
      if action \<noteq> prepareJobAction \<and> action \<noteq> cleanupRunAction then (Some ''404 Not Found'', w)
      else if TrimSpace (tg_authToken s) = [] then (Some ''404 Not Found'', w)
      else if TrimSpace token \<noteq> TrimSpace (tg_authToken s) then (Some ''401 Unauthorized'', w)
      else case body of
        PrepareBody b \<Rightarrow> if action = prepareJobAction then answer (handlePrepareAgentRunJobTrigger s b w)
          else (Some ''500 Internal Server Error'', w)
      | CleanupBody b \<Rightarrow> if action = cleanupRunAction then answer (handleCleanupAgentRunTrigger s b w)
          else (Some ''500 Internal Server Error'', w))"

section \<open>Activities\<close>

record RunActionInput =
  ra_Action :: string
  ra_Body :: RunActionBody

text \<open>\<open>transport\<close> is a failure to send the request or to read the answer.\<close>

record 'w TemporalActivities =
  ta_jobs :: "'w JobClient"
  ta_server :: "'w TriggerServer"
  ta_transport :: "string \<Rightarrow> 'w \<Rightarrow> go_error option"
  ta_token :: string
  ta_digest :: digest
  ta_polls :: nat
  ta_stopped :: "'w \<Rightarrow> bool"

definition TriggerRunAction :: "'w TemporalActivities \<Rightarrow> RunActionInput \<Rightarrow> 'w \<Rightarrow> unit result \<times> 'w" where
  "TriggerRunAction a input w =
     (case ta_transport a (TrimSpace (ra_Action input)) w of Some e \<Rightarrow> (Inl e, w)
      | None \<Rightarrow>
          (case handleAction (ta_server a) (ta_token a) (TrimSpace (ra_Action input)) (ra_Body input) w of
             (None, w) \<Rightarrow> (Inr (), w)
           | (Some status, w) \<Rightarrow> (Inl (PlainError (''platformk8s/agentruns: trigger '' @ go_quote (ra_Action input) @
               '' returned '' @ status)), w)))"

definition ExecuteRunJob :: "'w TemporalActivities \<Rightarrow> TemporalWorkflowInput \<Rightarrow> 'w \<Rightarrow> unit result \<times> 'w" where
  "ExecuteRunJob a input w =
     (case run_spec (wi_Run input) of None \<Rightarrow> (Inl (PlainError ''platformk8s/agentruns: temporal run input is nil''), w)
      | Some spec \<Rightarrow>
          (let name = workflowNameFor (wi_Run input);
               wait = wait_job (ta_stopped a) (jc_Get (ta_jobs a) (wi_RuntimeNS input) name) (run_job_verdict name) (ta_polls a) in
           case jc_Get (ta_jobs a) (wi_RuntimeNS input) name w of
             (Inr current, w) \<Rightarrow> wait w
           | (Inl e, w) \<Rightarrow>
               if is_api_not_found e then
                 (case jc_Create (ta_jobs a) (executeJob (ta_digest a) input spec name) w of
                    (Inr u, w) \<Rightarrow> wait w
                  | (Inl e, w) \<Rightarrow> if is_api_already_exists e then wait w else (Inl e, w))
               else if is_api_already_exists e then wait w else (Inl e, w)))"

section \<open>The workflow\<close>

text \<open>An activity with \<open>n\<close> retries left.\<close>

fun activity :: "('w \<Rightarrow> bool) \<Rightarrow> nat \<Rightarrow> ('w \<Rightarrow> unit result \<times> 'w) \<Rightarrow> 'w \<Rightarrow> unit result \<times> 'w" where
  "activity stopped n act w =
     (if stopped w then (Inl context_done, w)
      else case act w of (Inr u, w) \<Rightarrow> (Inr (), w)
      | (Inl e, w) \<Rightarrow> (case n of 0 \<Rightarrow> (Inl e, w) | Suc m \<Rightarrow> activity stopped m act w))"

declare activity.simps [simp del]

definition activityRetries :: nat where
  "activityRetries = 2"

fun prepare_all :: "('b \<Rightarrow> 'w \<Rightarrow> unit result \<times> 'w) \<Rightarrow> 'b list \<Rightarrow> 'w \<Rightarrow> unit result \<times> 'w" where
  "prepare_all act [] w = (Inr (), w)"
| "prepare_all act (b # bs) w = (case act b w of (Inl e, w) \<Rightarrow> (Inl e, w) | (Inr u, w) \<Rightarrow> prepare_all act bs w)"

definition run_phases :: "'w TemporalActivities \<Rightarrow> TemporalWorkflowInput \<Rightarrow> 'w \<Rightarrow> unit result \<times> 'w" where
  "run_phases a input w =
     (case prepare_all (\<lambda>b. activity (ta_stopped a) activityRetries
          (TriggerRunAction a \<lparr>ra_Action = prepareJobAction, ra_Body = PrepareBody b\<rparr>)) (wi_PrepareBodies input) w of
        (Inl e, w) \<Rightarrow> (Inl e, w)
      | (Inr u, w) \<Rightarrow> activity (ta_stopped a) activityRetries (ExecuteRunJob a input) w)"

definition AgentRunWorkflow :: "'w TemporalActivities \<Rightarrow> TemporalWorkflowInput \<Rightarrow> 'w \<Rightarrow> unit result \<times> 'w" where
  "AgentRunWorkflow a input w =
     (case run_phases a input w of (runErr, w) \<Rightarrow>
        (case activity (\<lambda>w. False) activityRetries
            (TriggerRunAction a \<lparr>ra_Action = cleanupRunAction, ra_Body = CleanupBody (wi_CleanupBody input)\<rparr>) w of
          (cleanupErr, w) \<Rightarrow> (case runErr of Inr u \<Rightarrow> cleanupErr | Inl e \<Rightarrow> Inl e, w)))"

section \<open>The workflow runtime\<close>

definition prepareRunType :: "PrepareJobRunType \<Rightarrow> string" where
  "prepareRunType t = (case t of RunTypeInit \<Rightarrow> ''init'' | RunTypePerRun \<Rightarrow> ''per-run'' | RunTypeOnChanged \<Rightarrow> ''on-changed''
     | RunTypeUnspecified \<Rightarrow> [])"

definition job_payload :: "AgentRunPrepareJob \<Rightarrow> PrepareJobPayload" where
  "job_payload job = \<lparr>pp_jobId = job_jobId job, pp_cliId = job_cliId job, pp_jobType = job_jobType job,
     pp_runType = prepareRunType (job_runType job), pp_changeKey = job_changeKey job, pp_cleanup = job_cleanup job,
     pp_parametersYaml = job_parametersYaml job\<rparr>"

record RuntimeConfig =
  wc_runtimeNamespace :: string
  wc_cliOutputSidecarImage :: string
  wc_digest :: digest

definition prepareRequestBody :: "RuntimeConfig \<Rightarrow> RunResource \<Rightarrow> AgentRunSpec \<Rightarrow> AgentRunPrepareJob option \<Rightarrow> PrepareTrigger result" where
  "prepareRequestBody c run spec job =
     (case job of None \<Rightarrow> Inl (PlainError ''platformk8s/agentruns: prepare request is invalid'')
      | Some j \<Rightarrow>
          (let auth = rs_authRequirement spec in
           Inr \<lparr>pt_runtimeNamespace = wc_runtimeNamespace c, pt_sessionId = rs_sessionId spec, pt_runId = rs_runId spec,
             pt_agentRunResourceName = om_name (run_meta run),
             pt_workspacePVCName = WorkspacePVCName (wc_digest c) (rs_sessionId spec) (rs_workspaceId spec),
             pt_homeStatePVCName = HomeStatePVCName (wc_digest c) (rs_sessionId spec) (rs_homeStateId spec),
             pt_runtimeWorkspaceDir = workspaceDir spec, pt_runtimeDataDir = dataDir spec,
             pt_containerImage = rs_containerImage spec, pt_providerId = rs_providerId spec,
             pt_providerSurfaceBindingId = getf [] auth_providerSurfaceBindingId auth,
             pt_runtimeUrl = getf [] auth_runtimeUrl auth, pt_authMaterializationKey = getf [] auth_materializationKey auth,
             pt_job = job_payload j\<rparr>))"

fun prepare_bodies :: "RuntimeConfig \<Rightarrow> RunResource \<Rightarrow> AgentRunSpec \<Rightarrow> AgentRunPrepareJob option list \<Rightarrow> PrepareTrigger list result" where
  "prepare_bodies c run spec [] = Inr []"
| "prepare_bodies c run spec (job # jobs) =
     (case prepareRequestBody c run spec job of Inl e \<Rightarrow> Inl e
      | Inr body \<Rightarrow> (case prepare_bodies c run spec jobs of Inl e \<Rightarrow> Inl e | Inr bodies \<Rightarrow> Inr (body # bodies)))"

definition cleanupRequestBody :: "RuntimeConfig \<Rightarrow> RunResource \<Rightarrow> AgentRunSpec \<Rightarrow> CleanupTrigger" where
  "cleanupRequestBody c run spec = \<lparr>cu_runtimeNamespace = wc_runtimeNamespace c, cu_sessionId = rs_sessionId spec,
     cu_runId = rs_runId spec, cu_agentRunResourceName = om_name (run_meta run),
     cu_jobs = List.map_filter (\<lambda>job. case job of None \<Rightarrow> None | Some j \<Rightarrow> if job_cleanup j then Some (job_payload j) else None)
       (rs_prepareJobs spec)\<rparr>"

definition workflowInput :: "RuntimeConfig \<Rightarrow> RunResource \<Rightarrow> TemporalWorkflowInput result" where
  "workflowInput c run =
     (case run_spec run of None \<Rightarrow> Inl (PlainError ''platformk8s/agentruns: workflow run is nil'')
      | Some spec \<Rightarrow>
          if TrimSpace (rs_containerImage spec) = []
          then Inl (PlainError ''platformk8s/agentruns: workflow run container image is empty'')
          else if rs_authRequirement spec = None
          then Inl (PlainError ''platformk8s/agentruns: workflow run auth requirement is empty'')
          else case prepare_bodies c run spec (rs_prepareJobs spec) of Inl e \<Rightarrow> Inl e
          | Inr bodies \<Rightarrow>
              Inr \<lparr>wi_Run = run, wi_RuntimeNS = wc_runtimeNamespace c, wi_CLIOutputSidecarImage = wc_cliOutputSidecarImage c,
                wi_PrepareBodies = bodies, wi_CleanupBody = cleanupRequestBody c run spec\<rparr>)"

record 'w TemporalClient =
  tc_ExecuteWorkflow :: "string \<Rightarrow> TemporalWorkflowInput \<Rightarrow> 'w \<Rightarrow> unit result \<times> 'w"
  tc_Describe :: "string \<Rightarrow> 'w \<Rightarrow> (TemporalStatus \<times> time option \<times> time option) result \<times> 'w"
  tc_CancelWorkflow :: "string \<Rightarrow> 'w \<Rightarrow> unit result \<times> 'w"
  tc_notFound :: "go_error \<Rightarrow> bool"

definition workflowExecutionNotFound :: "string \<Rightarrow> go_error" where
  "workflowExecutionNotFound name = api_not_found ''workflows.temporal.io'' (TrimSpace name)"

definition timePtrFromProto :: "time option \<Rightarrow> time option" where
  "timePtrFromProto t = (case t of None \<Rightarrow> None | Some v \<Rightarrow> if time_is_zero v then None else Some v)"

definition temporal_Submit :: "'w TemporalClient \<Rightarrow> RuntimeConfig \<Rightarrow> RunResource \<Rightarrow> 'w \<Rightarrow> string result \<times> 'w" where
  "temporal_Submit t c run w =
     (case workflowInput c run of Inl e \<Rightarrow> (Inl e, w)
      | Inr input \<Rightarrow>
          (case tc_ExecuteWorkflow t (workflowNameFor run) input w of (Inl e, w) \<Rightarrow> (Inl e, w)
           | (Inr u, w) \<Rightarrow> (Inr (workflowNameFor run), w)))"

definition temporal_Get :: "'w TemporalClient \<Rightarrow> string \<Rightarrow> 'w \<Rightarrow> WorkflowState option result \<times> 'w" where
  "temporal_Get t name w =
     (case tc_Describe t (TrimSpace name) w of
        (Inl e, w) \<Rightarrow> (Inl (if tc_notFound t e then workflowExecutionNotFound name else e), w)
      | (Inr (status, started, closed), w) \<Rightarrow>
          (Inr (Some \<lparr>wf_Phase = temporalWorkflowPhase status, wf_Message = [], wf_StartedAt = timePtrFromProto started,
             wf_FinishedAt = timePtrFromProto closed, wf_Nodes = []\<rparr>), w))"

definition temporal_Cancel :: "'w TemporalClient \<Rightarrow> string \<Rightarrow> 'w \<Rightarrow> unit result \<times> 'w" where
  "temporal_Cancel t name w =
     (case tc_CancelWorkflow t (TrimSpace name) w of
        (Inl e, w) \<Rightarrow> (Inl (if tc_notFound t e then workflowExecutionNotFound name else e), w)
      | (Inr u, w) \<Rightarrow> (Inr (), w))"

definition temporal_Delete :: "string \<Rightarrow> 'w \<Rightarrow> unit result \<times> 'w" where
  "temporal_Delete name w = (Inr (), w)"

definition temporal_Cleanup :: "RunResource \<Rightarrow> 'w \<Rightarrow> unit result \<times> 'w" where
  "temporal_Cleanup run w = (Inr (), w)"

definition temporal_runtime :: "'w TemporalClient \<Rightarrow> RuntimeConfig \<Rightarrow> 'w WorkflowRuntime" where
  "temporal_runtime t c = \<lparr>wr_Submit = temporal_Submit t c, wr_Get = temporal_Get t, wr_Cancel = temporal_Cancel t,
     wr_Delete = temporal_Delete, wr_Cleanup = temporal_Cleanup\<rparr>"

end
