(* ===== verification/Workflow_Laws.thy ===== *)
theory Workflow_Laws
  imports Run_Workflow Action_Snapshot
begin

text \<open>
  What the workflow of a run does to the job of the run: it is created once, as the run says, only when the
  preparation has succeeded, and nothing ever removes it; and the sidecar beside it does not start.
\<close>

section \<open>The observation of one job\<close>

type_synonym job_key = "string \<times> string"

definition job_key :: "KubeJob \<Rightarrow> job_key" where
  "job_key j = (kj_namespace j, kj_name j)"

text \<open>What is specified under a key, in a world whose jobs are \<open>jobs w\<close>.\<close>

definition spec_at :: "('w \<Rightarrow> job_key \<Rightarrow> KubeJob option) \<Rightarrow> job_key \<Rightarrow> 'w \<Rightarrow> JobSpec option" where
  "spec_at jobs k w = map_option kj_spec (jobs w k)"

definition keeps :: "('w \<Rightarrow> 'x) \<Rightarrow> ('w \<Rightarrow> 'r \<times> 'w) \<Rightarrow> bool" where
  "keeps obs call \<longleftrightarrow> (\<forall>w r w'. call w = (r, w') \<longrightarrow> obs w' = obs w)"

text \<open>
  The documented behaviour of the API server towards one job: reading, creating and deleting other jobs
  leave its spec alone, a read answers what is there, and a creation neither replaces a job nor stores
  another spec than it was given. A finished job is kept for the day its time to live allows.
\<close>

definition job_api :: "'w JobClient \<Rightarrow> ('w \<Rightarrow> job_key \<Rightarrow> KubeJob option) \<Rightarrow> job_key \<Rightarrow> bool" where
  "job_api c jobs k \<longleftrightarrow>
     (\<forall>ns n. keeps (spec_at jobs k) (jc_Get c ns n)) \<and>
     (\<forall>ns n w j w'. jc_Get c ns n w = (Inr j, w') \<longrightarrow> job_key j = (ns, n) \<and> jobs w' (ns, n) = Some j) \<and>
     (\<forall>j w r w'. jc_Create c j w = (r, w') \<longrightarrow> spec_at jobs k w' = spec_at jobs k w \<or>
        (job_key j = k \<and> spec_at jobs k w = None \<and> spec_at jobs k w' = Some (kj_spec j))) \<and>
     (\<forall>j w w' u. jc_Create c j w = (Inr u, w') \<and> job_key j = k \<longrightarrow> spec_at jobs k w' \<noteq> None) \<and>
     (\<forall>j. job_key j \<noteq> k \<longrightarrow> keeps (spec_at jobs k) (jc_Delete c j))"

lemma keepsD: "keeps obs call \<Longrightarrow> call w = (r, w') \<Longrightarrow> obs w' = obs w"
  by (simp add: keeps_def)

lemma api_get: "job_api c jobs k \<Longrightarrow> jc_Get c ns n w = (r, w') \<Longrightarrow> spec_at jobs k w' = spec_at jobs k w"
  by (auto simp: job_api_def keeps_def)

lemma api_found: "job_api c jobs k \<Longrightarrow> jc_Get c ns n w = (Inr j, w') \<Longrightarrow> job_key j = (ns, n) \<and> jobs w' (ns, n) = Some j"
  by (auto simp: job_api_def)

lemma api_create_other: "job_api c jobs k \<Longrightarrow> jc_Create c j w = (r, w') \<Longrightarrow> job_key j \<noteq> k \<Longrightarrow> spec_at jobs k w' = spec_at jobs k w"
  unfolding job_api_def by blast

lemma api_create: "job_api c jobs k \<Longrightarrow> jc_Create c j w = (r, w') \<Longrightarrow> spec_at jobs k w' = spec_at jobs k w \<or>
    (spec_at jobs k w = None \<and> spec_at jobs k w' = Some (kj_spec j))"
  unfolding job_api_def by blast

lemma api_delete: "job_api c jobs k \<Longrightarrow> jc_Delete c j w = (r, w') \<Longrightarrow> job_key j \<noteq> k \<Longrightarrow> spec_at jobs k w' = spec_at jobs k w"
  unfolding job_api_def keeps_def by blast

text \<open>The activities of a workflow whose clients behave, and whose other calls are not about jobs.\<close>

definition workflow_env :: "'w TemporalActivities \<Rightarrow> ('w \<Rightarrow> job_key \<Rightarrow> KubeJob option) \<Rightarrow> job_key \<Rightarrow> bool" where
  "workflow_env a jobs k \<longleftrightarrow> job_api (ta_jobs a) jobs k \<and> job_api (tg_jobs (ta_server a)) jobs k \<and>
     (\<forall>q. keeps (spec_at jobs k) (tg_project (ta_server a) q))"

section \<open>Waiting and retrying\<close>

lemma wait_keeps:
  assumes "wait_job stopped look verdict n w = (r, w')" and "\<And>w r w'. look w = (r, w') \<Longrightarrow> obs w' = obs w"
  shows "obs w' = obs w"
  using assms(1)
proof (induction n arbitrary: w)
  case 0
  then show ?case using assms(2) by (subst (asm) wait_job.simps) (auto split: prod.splits sum.splits option.splits)
next
  case (Suc n)
  from Suc.prems obtain x v where x: "look w = (x, v)" and
    "v = w' \<or> wait_job stopped look verdict n v = (r, w')"
    by (subst (asm) wait_job.simps) (auto split: prod.splits sum.splits option.splits if_splits)
  with Suc.IH assms(2) [OF x] show ?case by metis
qed

lemma wait_found:
  assumes "wait_job stopped look verdict n w = (Inr u, w')"
  shows "\<exists>v job. look v = (Inr job, w') \<and> verdict job = Some (Inr u)"
  using assms
proof (induction n arbitrary: w)
  case 0
  then show ?case by (subst (asm) wait_job.simps) (auto split: prod.splits sum.splits option.splits)
next
  case (Suc n)
  then show ?case
    by (subst (asm) (2) wait_job.simps) (fastforce split: prod.splits sum.splits option.splits if_splits)
qed

lemma activity_rel:
  assumes "activity stopped n act w = (r, w')" and "R w w" and "\<And>v. R w v \<Longrightarrow> (\<And>x v'. act v = (x, v') \<Longrightarrow> R w v')"
  shows "R w w'"
proof -
  have "R w v \<Longrightarrow> activity stopped n act v = (r, w') \<Longrightarrow> R w w'" for v
  proof (induction n arbitrary: v)
    case 0
    then show ?case using assms(3) by (subst (asm) activity.simps) (auto split: prod.splits sum.splits if_splits)
  next
    case (Suc n)
    from Suc.prems(2) have "v = w' \<or> (\<exists>x u. act v = (x, u) \<and> (u = w' \<or> activity stopped n act u = (r, w')))"
      by (subst (asm) activity.simps) (auto split: prod.splits sum.splits if_splits)
    with Suc.IH Suc.prems(1) assms(3) show ?case by blast
  qed
  with assms(1,2) show ?thesis by blast
qed

lemma activity_fails:
  assumes "\<And>v. \<exists>e v'. act v = (Inl e, v')"
  shows "\<exists>e v'. activity stopped n act w = (Inl e, v')"
proof (induction n arbitrary: w)
  case 0
  from assms obtain e v where "act w = (Inl e, v)" by blast
  then show ?case by (subst activity.simps) simp
next
  case (Suc n)
  from assms obtain e v where "act w = (Inl e, v)" by blast
  with Suc.IH [of v] show ?case by (subst activity.simps) simp
qed

lemma activity_ok:
  assumes "activity stopped n act w = (Inr u, w')"
  shows "\<exists>v x. act v = (Inr x, w')"
  using assms
proof (induction n arbitrary: w)
  case 0
  then show ?case by (subst (asm) activity.simps) (auto split: prod.splits sum.splits if_splits)
next
  case (Suc n)
  then show ?case by (subst (asm) (2) activity.simps) (fastforce split: prod.splits sum.splits if_splits)
qed

section \<open>The triggers\<close>

lemma prepare_name: "HasPrefix (prepareJobName digest runID jobID) preparePrefix"
  by (simp add: prepareJobName_def Let_def HasPrefix_def)

lemma buildPrepareJob_key: "job_key (buildPrepareJob namespace name body) = (namespace, name)"
  by (simp add: job_key_def buildPrepareJob_def Let_def)

text \<open>A server of triggers whose clients behave towards a job that is not a preparation.\<close>

definition server_env :: "'w TriggerServer \<Rightarrow> ('w \<Rightarrow> job_key \<Rightarrow> KubeJob option) \<Rightarrow> job_key \<Rightarrow> bool" where
  "server_env s jobs k \<longleftrightarrow> job_api (tg_jobs s) jobs k \<and> (\<forall>q. keeps (spec_at jobs k) (tg_project s q)) \<and>
     \<not> HasPrefix (snd k) preparePrefix"

lemma server_envD:
  assumes "server_env s jobs k"
  shows "job_api (tg_jobs s) jobs k" "keeps (spec_at jobs k) (tg_project s q)" "(ns, prepareJobName (tg_digest s) r j) \<noteq> k"
  using assms prepare_name by (auto simp: server_env_def)

lemma projection_keeps:
  "server_env s jobs k \<Longrightarrow> validateAgentRunAuthProjection s body w = (r, w') \<Longrightarrow> spec_at jobs k w' = spec_at jobs k w"
  by (auto simp: validateAgentRunAuthProjection_def dest: keepsD [OF server_envD(2)] split: if_splits prod.splits sum.splits)

lemma prepare_keeps:
  assumes env: "server_env s jobs k" and "handlePrepareAgentRunJobTrigger s body w = (r, w')"
  shows "spec_at jobs k w' = spec_at jobs k w"
proof -
  let ?ns = "firstNonEmpty [pt_runtimeNamespace body, tg_runtimeNamespace s]"
  let ?name = "prepareJobName (tg_digest s) (pt_runId body) (pp_jobId (pt_job body))"
  have wait: "spec_at jobs k v' = spec_at jobs k v"
    if "wait_job (tg_stopped s) (jc_Get (tg_jobs s) ?ns ?name) (prepare_job_verdict ?name) (tg_polls s) v = (x, v')" for v x v'
    by (rule wait_keeps [OF that]) (rule api_get [OF server_envD(1) [OF env]])
  have create: "spec_at jobs k v' = spec_at jobs k v"
    if "jc_Create (tg_jobs s) (buildPrepareJob ?ns ?name body) v = (x, v')" for v x v'
    by (rule api_create_other [OF server_envD(1) [OF env] that]) (simp add: buildPrepareJob_key server_envD(3) [OF env] del: firstNonEmpty.simps)
  from assms(2) consider "w' = w" | "validateAgentRunAuthProjection s body w = (r, w')"
    | u v x y where "validateAgentRunAuthProjection s body w = (Inr u, v)"
        "jc_Create (tg_jobs s) (buildPrepareJob ?ns ?name body) v = (x, y)"
        "y = w' \<or> wait_job (tg_stopped s) (jc_Get (tg_jobs s) ?ns ?name) (prepare_job_verdict ?name) (tg_polls s) y = (r, w')"
    by (auto simp: handlePrepareAgentRunJobTrigger_def Let_def simp del: firstNonEmpty.simps
        split: option.splits prod.splits sum.splits if_splits)
  then show ?thesis
    by cases (auto simp del: firstNonEmpty.simps dest!: projection_keeps [OF env] create wait)
qed

lemma cleanup_keeps:
  assumes env: "server_env s jobs k"
  shows "cleanup_jobs s namespace runID items w = (r, w') \<Longrightarrow> spec_at jobs k w' = spec_at jobs k w"
proof (induction items arbitrary: w)
  case (Cons item items)
  let ?name = "prepareJobName (tg_digest s) runID (pp_jobId item)"
  have delete: "spec_at jobs k v' = spec_at jobs k v"
    if "jc_Get (tg_jobs s) namespace ?name x = (Inr j, v)" and "jc_Delete (tg_jobs s) j v = (y, v')" for x j v y v'
    using api_found [OF server_envD(1) [OF env] that(1)] server_envD(3) [OF env]
    by (intro api_delete [OF server_envD(1) [OF env] that(2)]) metis
  from Cons.prems obtain x v where g: "jc_Get (tg_jobs s) namespace ?name w = (x, v)" and
    "v = w' \<or> cleanup_jobs s namespace runID items v = (r, w') \<or> (\<exists>j y u. x = Inr j \<and> jc_Delete (tg_jobs s) j v = (y, u) \<and>
      (u = w' \<or> cleanup_jobs s namespace runID items u = (r, w')))"
    by (auto split: prod.splits sum.splits if_splits)
  with Cons.IH api_get [OF server_envD(1) [OF env] g] delete show ?case by metis
qed simp

lemma handleAction_keeps:
  assumes "server_env s jobs k" and "handleAction s token action body w = (r, w')"
  shows "spec_at jobs k w' = spec_at jobs k w"
proof -
  from assms(2) have "w' = w \<or> (\<exists>b x. handlePrepareAgentRunJobTrigger s b w = (x, w')) \<or>
      (\<exists>b x. handleCleanupAgentRunTrigger s b w = (x, w'))"
    by (cases body) (auto simp: handleAction_def Let_def split: if_splits prod.splits)
  then show ?thesis using prepare_keeps [OF assms(1)] cleanup_keeps [OF assms(1)] unfolding handleCleanupAgentRunTrigger_def by blast
qed

lemma trigger_keeps:
  assumes "workflow_env a jobs k" and "\<not> HasPrefix (snd k) preparePrefix" and "TriggerRunAction a input w = (r, w')"
  shows "spec_at jobs k w' = spec_at jobs k w"
proof -
  from assms(1,2) have env: "server_env (ta_server a) jobs k" by (simp add: workflow_env_def server_env_def)
  from assms(3) have "w' = w \<or> (\<exists>x. handleAction (ta_server a) (ta_token a) (TrimSpace (ra_Action input)) (ra_Body input) w = (x, w'))"
    by (auto simp: TriggerRunAction_def split: option.splits prod.splits)
  then show ?thesis using handleAction_keeps [OF env] by blast
qed

section \<open>The job of the run\<close>

text \<open>The spec under a key stays, or the job of the run is created where there was none.\<close>

definition grows :: "('w \<Rightarrow> job_key \<Rightarrow> KubeJob option) \<Rightarrow> job_key \<Rightarrow> JobSpec option \<Rightarrow> 'w \<Rightarrow> 'w \<Rightarrow> bool" where
  "grows jobs k new w w' \<longleftrightarrow> spec_at jobs k w' = spec_at jobs k w \<or> (spec_at jobs k w = None \<and> spec_at jobs k w' = new)"

lemma grows_refl [simp, intro]: "grows jobs k new w w"
  by (simp add: grows_def)

lemma grows_trans: "grows jobs k new w v \<Longrightarrow> grows jobs k new v u \<Longrightarrow> grows jobs k new w u"
  by (auto simp: grows_def)

definition run_key :: "TemporalWorkflowInput \<Rightarrow> job_key" where
  "run_key input = (wi_RuntimeNS input, workflowNameFor (wi_Run input))"

definition run_job_spec :: "'w TemporalActivities \<Rightarrow> TemporalWorkflowInput \<Rightarrow> JobSpec option" where
  "run_job_spec a input = map_option (\<lambda>spec. kj_spec (executeJob (ta_digest a) input spec (workflowNameFor (wi_Run input))))
     (run_spec (wi_Run input))"

lemma execute_grows:
  assumes "job_api (ta_jobs a) jobs (run_key input)" and "ExecuteRunJob a input w = (r, w')"
  shows "grows jobs (run_key input) (run_job_spec a input) w w'"
proof (cases "run_spec (wi_Run input)")
  case (Some spec)
  let ?name = "workflowNameFor (wi_Run input)" and ?k = "run_key input" and ?G = "grows jobs (run_key input) (run_job_spec a input)"
  let ?job = "executeJob (ta_digest a) input spec ?name"
  let ?wait = "wait_job (ta_stopped a) (jc_Get (ta_jobs a) (wi_RuntimeNS input) ?name) (run_job_verdict ?name) (ta_polls a)"
  have get: "?G v v'" if "jc_Get (ta_jobs a) (wi_RuntimeNS input) ?name v = (x, v')" for v x v'
    using api_get [OF assms(1) that] by (simp add: grows_def)
  have wait: "?G v v'" if "?wait v = (x, v')" for v x v'
    using wait_keeps [OF that, of "spec_at jobs ?k"] api_get [OF assms(1)] by (simp add: grows_def)
  have create: "?G v v'" if "jc_Create (ta_jobs a) ?job v = (x, v')" for v x v'
    using api_create [OF assms(1) that] by (auto simp: grows_def run_job_spec_def Some)
  from assms(2) obtain x v where g: "jc_Get (ta_jobs a) (wi_RuntimeNS input) ?name w = (x, v)" and
    "v = w' \<or> ?wait v = (r, w') \<or> (\<exists>y u. jc_Create (ta_jobs a) ?job v = (y, u) \<and> (u = w' \<or> ?wait u = (r, w')))"
    by (auto simp: ExecuteRunJob_def Let_def Some split: prod.splits sum.splits if_splits)
  with get [OF g] wait create grows_trans show ?thesis by metis
qed (use assms(2) in \<open>simp add: ExecuteRunJob_def\<close>)

text \<open>The job is there when its execution succeeds.\<close>

lemma execute_present:
  assumes "job_api (ta_jobs a) jobs (run_key input)" and "ExecuteRunJob a input w = (Inr u, w')"
  shows "\<exists>j. jobs w' (run_key input) = Some j \<and> kj_succeeded j > 0"
proof -
  let ?name = "workflowNameFor (wi_Run input)"
  from assms(2) obtain v where
    "wait_job (ta_stopped a) (jc_Get (ta_jobs a) (wi_RuntimeNS input) ?name) (run_job_verdict ?name) (ta_polls a) v = (Inr u, w')"
    by (auto simp: ExecuteRunJob_def Let_def split: option.splits prod.splits sum.splits if_splits)
  from wait_found [OF this] obtain x job where "jc_Get (ta_jobs a) (wi_RuntimeNS input) ?name x = (Inr job, w')"
    and "run_job_verdict ?name job = Some (Inr u)" by blast
  with api_found [OF assms(1)] show ?thesis
    by (auto simp: run_job_verdict_def run_key_def split: if_splits option.splits)
qed

lemma prepared_grows:
  assumes "\<And>b v x v'. act b v = (x, v') \<Longrightarrow> obs v' = obs v"
  shows "prepare_all act bs w = (r, w') \<Longrightarrow> obs w' = obs w"
  by (induction bs arbitrary: w) (auto dest: assms split: prod.splits sum.splits)

lemma activity_trigger_keeps:
  assumes "workflow_env a jobs k" and "\<not> HasPrefix (snd k) preparePrefix"
    and "activity stopped n (TriggerRunAction a input) w = (r, w')"
  shows "spec_at jobs k w' = spec_at jobs k w"
  by (rule activity_rel [OF assms(3), where R = "\<lambda>v u. spec_at jobs k u = spec_at jobs k v"])
    (auto dest: trigger_keeps [OF assms(1,2)])

lemma phases_grow:
  assumes "workflow_env a jobs (run_key input)" and "\<not> HasPrefix (snd (run_key input)) preparePrefix"
    and "run_phases a input w = (r, w')"
  shows "grows jobs (run_key input) (run_job_spec a input) w w'"
proof -
  let ?k = "run_key input" and ?G = "grows jobs (run_key input) (run_job_spec a input)"
  let ?act = "\<lambda>b. activity (ta_stopped a) activityRetries (TriggerRunAction a \<lparr>ra_Action = prepareJobAction, ra_Body = PrepareBody b\<rparr>)"
  have api: "job_api (ta_jobs a) jobs ?k" using assms(1) by (simp add: workflow_env_def)
  from assms(3) obtain x v where p: "prepare_all ?act (wi_PrepareBodies input) w = (x, v)" and
    v: "v = w' \<or> activity (ta_stopped a) activityRetries (ExecuteRunJob a input) v = (r, w')"
    by (auto simp: run_phases_def split: prod.splits sum.splits)
  have "spec_at jobs ?k v = spec_at jobs ?k w"
    by (rule prepared_grows [OF _ p]) (rule activity_trigger_keeps [OF assms(1,2)])
  then have "?G w v" by (simp add: grows_def)
  moreover have "?G v u" if "activity (ta_stopped a) activityRetries (ExecuteRunJob a input) v = (r, u)" for u
    by (rule activity_rel [OF that]) (auto intro: grows_trans execute_grows [OF api])
  ultimately show ?thesis using v grows_trans by metis
qed

lemma workflow_split:
  assumes "AgentRunWorkflow a input w = (r, w')"
  shows "\<exists>e v c. run_phases a input w = (e, v) \<and> activity (\<lambda>w. False) activityRetries
    (TriggerRunAction a \<lparr>ra_Action = cleanupRunAction, ra_Body = CleanupBody (wi_CleanupBody input)\<rparr>) v = (c, w') \<and>
    r = (case e of Inr u \<Rightarrow> c | Inl x \<Rightarrow> Inl x)"
  using assms by (auto simp: AgentRunWorkflow_def split: prod.splits sum.splits)

section \<open>Properties\<close>

text \<open>
  C15: The job of a run is created at most once and as the run says. Whatever fails and is retried, an
  execution of the workflow leaves a job that exists under the name of the run as it is specified, and
  otherwise creates none or the job of the run; after a success the job exists.
\<close>

theorem run_job_created_once:
  assumes "workflow_env a jobs (run_key input)" and "\<not> HasPrefix (snd (run_key input)) preparePrefix"
    and "AgentRunWorkflow a input w = (r, w')"
  shows "grows jobs (run_key input) (run_job_spec a input) w w' \<and> (r = Inr u \<longrightarrow> spec_at jobs (run_key input) w' \<noteq> None)"
proof -
  let ?k = "run_key input"
  from workflow_split [OF assms(3)] obtain e v c where e: "run_phases a input w = (e, v)"
    and c: "activity (\<lambda>w. False) activityRetries
      (TriggerRunAction a \<lparr>ra_Action = cleanupRunAction, ra_Body = CleanupBody (wi_CleanupBody input)\<rparr>) v = (c, w')"
    and r: "r = (case e of Inr u \<Rightarrow> c | Inl x \<Rightarrow> Inl x)" by blast
  have same: "spec_at jobs ?k w' = spec_at jobs ?k v" by (rule activity_trigger_keeps [OF assms(1,2) c])
  have "spec_at jobs ?k v \<noteq> None" if "e = Inr x" for x
  proof -
    from e that obtain y where "activity (ta_stopped a) activityRetries (ExecuteRunJob a input) y = (Inr x, v)"
      by (auto simp: run_phases_def split: prod.splits sum.splits)
    from activity_ok [OF this] obtain z q where "ExecuteRunJob a input z = (Inr q, v)" by blast
    with execute_present [of a jobs input z q v] assms(1) show ?thesis by (auto simp: workflow_env_def spec_at_def)
  qed
  with same phases_grow [OF assms(1,2) e] r show ?thesis by (auto simp: grows_def split: sum.splits)
qed

text \<open>
  C16: A run whose preparation cannot succeed is never started: if one of its prepare actions fails
  whenever it is tried, the workflow fails, and no job is created under the name of the run.
\<close>

theorem unprepared_run_never_starts:
  assumes "workflow_env a jobs (run_key input)" and "\<not> HasPrefix (snd (run_key input)) preparePrefix"
    and "b \<in> set (wi_PrepareBodies input)"
    and "\<forall>v. \<exists>e v'. TriggerRunAction a \<lparr>ra_Action = prepareJobAction, ra_Body = PrepareBody b\<rparr> v = (Inl e, v')"
    and "AgentRunWorkflow a input w = (r, w')"
  shows "(\<exists>e. r = Inl e) \<and> spec_at jobs (run_key input) w' = spec_at jobs (run_key input) w"
proof -
  let ?k = "run_key input"
  let ?act = "\<lambda>b. activity (ta_stopped a) activityRetries (TriggerRunAction a \<lparr>ra_Action = prepareJobAction, ra_Body = PrepareBody b\<rparr>)"
  have never: "\<exists>e u. prepare_all ?act bs v = (Inl e, u)" if "b \<in> set bs" for bs v
    using that
  proof (induction bs arbitrary: v)
    case (Cons x xs)
    show ?case
    proof (cases "x = b")
      case True
      have "\<exists>e u. ?act b v = (Inl e, u)" by (rule activity_fails) (use assms(4) in blast)
      with True show ?thesis by auto
    qed (use Cons in \<open>auto split: prod.splits sum.splits\<close>)
  qed simp
  from workflow_split [OF assms(5)] obtain e v c where e: "run_phases a input w = (e, v)"
    and c: "activity (\<lambda>w. False) activityRetries
      (TriggerRunAction a \<lparr>ra_Action = cleanupRunAction, ra_Body = CleanupBody (wi_CleanupBody input)\<rparr>) v = (c, w')"
    and r: "r = (case e of Inr u \<Rightarrow> c | Inl x \<Rightarrow> Inl x)" by blast
  from never [OF assms(3), of w] obtain x u where p: "prepare_all ?act (wi_PrepareBodies input) w = (Inl x, u)" by blast
  with e have "e = Inl x" "v = u" by (auto simp: run_phases_def)
  moreover have "spec_at jobs ?k u = spec_at jobs ?k w"
    by (rule prepared_grows [OF _ p]) (rule activity_trigger_keeps [OF assms(1,2)])
  ultimately show ?thesis using r activity_trigger_keeps [OF assms(1,2) c] by simp
qed

text \<open>
  C28: The job of a run outlives its workflow. Once the job exists, it is still there when the workflow has
  ended, also when the workflow was canceled while the job was running, and after the calls with which the
  run reconciler winds up a run: the cleanup deletes the jobs of the preparation only, and the runtime's
  \<open>Delete\<close> and \<open>Cleanup\<close> do nothing. The agent of a canceled run goes on working in the volumes of the
  session, while the slot of the session is free for the next run.
\<close>

theorem run_job_outlives_workflow:
  assumes "workflow_env a jobs (run_key input)" and "\<not> HasPrefix (snd (run_key input)) preparePrefix"
    and "run_phases a input w = (e, v)" and "jobs v (run_key input) = Some job" and "AgentRunWorkflow a input w = (r, w1)"
    and "wr_Delete (temporal_runtime t c) name w1 = (x, w2)" and "wr_Cleanup (temporal_runtime t c) run w2 = (y, w3)"
  shows "\<exists>left. jobs w3 (run_key input) = Some left \<and> kj_spec left = kj_spec job"
proof -
  from workflow_split [OF assms(5)] assms(3) obtain q where
    "activity (\<lambda>w. False) activityRetries
      (TriggerRunAction a \<lparr>ra_Action = cleanupRunAction, ra_Body = CleanupBody (wi_CleanupBody input)\<rparr>) v = (q, w1)" by auto
  from activity_trigger_keeps [OF assms(1,2) this] assms(4) have "spec_at jobs (run_key input) w1 = Some (kj_spec job)"
    by (simp add: spec_at_def)
  moreover have "w3 = w1" using assms(6,7) by (simp add: temporal_runtime_def temporal_Delete_def temporal_Cleanup_def)
  ultimately show ?thesis by (auto simp: spec_at_def)
qed

text \<open>
  C27: The sidecar of a run does not start. The run service never sets the id of the agent runtime, which
  is all that the job gives the sidecar as the id of the CLI, and the sidecar refuses a configuration
  without one: one container of every run fails, whatever the agent does.
\<close>

theorem sidecar_refuses_run:
  assumes "buildRunSpec sid request runID = Inr spec"
  shows "\<exists>ct \<in> set (jb_containers (kj_spec (executeJob digest input spec name))). ct_name ct = ''cli-output'' \<and>
    LoadConfigFromEnv (ct_env ct) = Inl (PlainError ''cli-output-sidecar: CLI_OUTPUT_CLI_ID is required'')"
proof -
  from assms have "rs_agentRuntimeId spec = []" by (auto simp: buildRunSpec_def split: option.splits sum.splits)
  then show ?thesis by (simp add: executeJob_def Let_def cliOutputContainer_def LoadConfigFromEnv_def getenv_def)
qed

end
