(* ===== verification/Workflow_World.thy ===== *)
theory Workflow_World
  imports Workflow_Laws Runtime_World
begin

text \<open>
  A concrete cluster that keeps its jobs in a map, and the witnesses of the properties of the workflow of a
  run. A job makes progress when it is looked at, as \<open>progress\<close> says.
\<close>

section \<open>The cluster\<close>

type_synonym cluster = "job_key \<Rightarrow> KubeJob option"

definition mem_jobs :: "(KubeJob \<Rightarrow> KubeJob) \<Rightarrow> cluster JobClient" where
  "mem_jobs progress = \<lparr>jc_Get = (\<lambda>ns n w.
       (case w (ns, n) of None \<Rightarrow> (Inl (api_not_found ''jobs'' n), w)
        | Some j \<Rightarrow> if job_key j = (ns, n) then (Inr (progress j), w((ns, n) \<mapsto> progress j)) else (Inl (api_not_found ''jobs'' n), w))),
     jc_Create = (\<lambda>j w. case w (job_key j) of Some old \<Rightarrow> (Inl (api_already_exists ''jobs'' (kj_name j)), w)
       | None \<Rightarrow> (Inr (), w(job_key j \<mapsto> j))),
     jc_Delete = (\<lambda>j w. (Inr (), w(job_key j := None)))\<rparr>"

definition keeps_job :: "(KubeJob \<Rightarrow> KubeJob) \<Rightarrow> bool" where
  "keeps_job progress \<longleftrightarrow> (\<forall>j. kj_spec (progress j) = kj_spec j \<and> job_key (progress j) = job_key j)"

lemma mem_jobs_api: "keeps_job progress \<Longrightarrow> job_api (mem_jobs progress) (\<lambda>w. w) k"
  unfolding job_api_def keeps_def
  by (intro conjI) (auto simp: mem_jobs_def spec_at_def keeps_job_def split: option.splits if_splits)

definition succeed :: "KubeJob \<Rightarrow> KubeJob" where
  "succeed j = j\<lparr>kj_succeeded := 1, kj_conditions := [\<lparr>jcond_type = ''Complete'', jcond_status = ''True'', jcond_message = []\<rparr>]\<rparr>"

lemma succeed_keeps: "keeps_job succeed" "keeps_job id"
  by (simp_all add: keeps_job_def succeed_def job_key_def)

definition wk_activities :: "(KubeJob \<Rightarrow> KubeJob) \<Rightarrow> (cluster \<Rightarrow> bool) \<Rightarrow> cluster TemporalActivities" where
  "wk_activities progress stopped =
     \<lparr>ta_jobs = mem_jobs progress,
      ta_server = \<lparr>tg_runtimeNamespace = ''runs'', tg_jobs = mem_jobs progress, tg_project = (\<lambda>q w. (Inl (PlainError []), w)),
        tg_digest = (\<lambda>s. ''0123456789''), tg_polls = 1, tg_stopped = (\<lambda>w. False), tg_authToken = ''t''\<rparr>,
      ta_transport = (\<lambda>x w. None), ta_token = ''t'', ta_digest = (\<lambda>s. ''0123456789''), ta_polls = 1, ta_stopped = stopped\<rparr>"

lemma wk_env: "keeps_job progress \<Longrightarrow> workflow_env (wk_activities progress stopped) (\<lambda>w. w) k"
  by (simp add: workflow_env_def wk_activities_def mem_jobs_api) (simp add: keeps_def)

section \<open>A run\<close>

definition wk_spec :: AgentRunSpec where
  "wk_spec = \<lparr>rs_runId = ''r1'', rs_sessionId = ''s1'', rs_sessionGeneration = 1, rs_runtimeConfigGeneration = 1,
     rs_resourceConfigGeneration = 1, rs_stateGeneration = 1, rs_request = None, rs_providerId = ''codex'',
     rs_executionClass = ''default'', rs_containerImage = ''img'', rs_cpuRequest = [], rs_memoryRequest = [],
     rs_authRequirement = Some ex_auth, rs_cancelRequested = False, rs_runtimeEnvironment = None,
     rs_workspaceId = ''w'', rs_homeStateId = ''h'', rs_prepareJobs = [], rs_agentRuntimeId = []\<rparr>"

definition wk_run :: RunResource where
  "wk_run = \<lparr>run_meta = \<lparr>om_name = ''r1'', om_namespace = ''code-code'', om_generation = 1, om_resourceVersion = [],
     om_labels = [], om_creationTimestamp = 0, om_deletionTimestamp = None, om_finalizers = []\<rparr>,
     run_spec = Some wk_spec, run_status = empty_run_status\<rparr>"

definition wk_body :: "string \<Rightarrow> PrepareTrigger" where
  "wk_body img = \<lparr>pt_runtimeNamespace = ''runs'', pt_sessionId = ''s1'', pt_runId = ''r1'', pt_agentRunResourceName = ''r1'',
     pt_workspacePVCName = ''w'', pt_homeStatePVCName = ''h'', pt_runtimeWorkspaceDir = [], pt_runtimeDataDir = [],
     pt_containerImage = img, pt_providerId = [], pt_providerSurfaceBindingId = [], pt_runtimeUrl = [],
     pt_authMaterializationKey = [],
     pt_job = \<lparr>pp_jobId = ''j'', pp_cliId = [], pp_jobType = ''x'', pp_runType = [], pp_changeKey = [], pp_cleanup = True,
       pp_parametersYaml = []\<rparr>\<rparr>"

definition wk_input :: "string list \<Rightarrow> TemporalWorkflowInput" where
  "wk_input imgs = \<lparr>wi_Run = wk_run, wi_RuntimeNS = ''runs'', wi_CLIOutputSidecarImage = [],
     wi_PrepareBodies = map wk_body imgs,
     wi_CleanupBody = \<lparr>cu_runtimeNamespace = ''runs'', cu_sessionId = ''s1'', cu_runId = ''r1'', cu_agentRunResourceName = ''r1'',
       cu_jobs = map (\<lambda>i. pt_job (wk_body i)) imgs\<rparr>\<rparr>"

lemma wk_key: "run_key (wk_input imgs) = (''runs'', ''r1'')"
  by (simp add: run_key_def wk_input_def workflowNameFor_def wk_run_def)

lemma wk_name: "\<not> HasPrefix (snd (run_key (wk_input imgs))) preparePrefix"
  by (simp add: wk_key HasPrefix_def preparePrefix_def)

definition wk_done :: "(KubeJob \<Rightarrow> KubeJob) \<Rightarrow> string list \<Rightarrow> unit result \<times> cluster" where
  "wk_done progress imgs = AgentRunWorkflow (wk_activities progress (\<lambda>w. False)) (wk_input imgs) Map.empty"

lemma wk_succeeds: "\<not> isl (fst (wk_done succeed [''img'']))"
  by code_simp

theorem run_job_created_once_witness:
  "\<exists>w. wk_done succeed [''img''] = (Inr (), w) \<and> spec_at (\<lambda>w. w) (''runs'', ''r1'') w =
     Some (kj_spec (executeJob (\<lambda>s. ''0123456789'') (wk_input [''img'']) wk_spec ''r1''))"
proof -
  obtain r w where d: "wk_done succeed [''img''] = (r, w)" by fastforce
  with wk_succeeds obtain u where r: "r = Inr u" by (cases r) auto
  have k: "workflowNameFor (wi_Run (wk_input [''img''])) = ''r1''" using wk_key [of "[''img'']"] by (simp add: run_key_def)
  from run_job_created_once [OF wk_env [OF succeed_keeps(1)] wk_name d [unfolded wk_done_def], of u]
  have "spec_at (\<lambda>w. w) (''runs'', ''r1'') w =
     Some (kj_spec (executeJob (\<lambda>s. ''0123456789'') (wk_input [''img'']) wk_spec ''r1''))"
    by (auto simp: r wk_key grows_def run_job_spec_def k spec_at_def) (simp_all add: wk_input_def wk_run_def wk_activities_def)
  with d r show ?thesis by simp
qed

text \<open>A preparation without an image fails whenever it is tried.\<close>

theorem unprepared_run_never_starts_witness:
  "\<exists>e w. wk_done succeed [[]] = (Inl e, w) \<and> spec_at (\<lambda>w. w) (''runs'', ''r1'') w = None"
proof -
  obtain r w where d: "wk_done succeed [[]] = (r, w)" by fastforce
  have t: "TrimSpace prepareJobAction = prepareJobAction" "TrimSpace ''r1'' = ''r1''" "TrimSpace ''s1'' = ''s1''" "TrimSpace ''t'' = ''t''"
    by (rule TrimSpace_plain; simp add: prepareJobAction_def plain_char_def)+
  have "handlePrepareAgentRunJobTrigger (ta_server (wk_activities succeed (\<lambda>w. False))) (wk_body []) v =
      (Inl (PlainError ''containerImage is required''), v)" for v
    by (simp add: handlePrepareAgentRunJobTrigger_def validatePrepareAgentRunJob_def wk_body_def t)
  then have fails: "\<exists>e v'. TriggerRunAction (wk_activities succeed (\<lambda>w. False)) \<lparr>ra_Action = prepareJobAction, ra_Body = PrepareBody (wk_body [])\<rparr> v = (Inl e, v')" for v
    by (simp add: TriggerRunAction_def handleAction_def t wk_activities_def Let_def split: prod.splits)
  have b: "wk_body [] \<in> set (wi_PrepareBodies (wk_input [[]]))" by (simp add: wk_input_def)
  from unprepared_run_never_starts [OF wk_env [OF succeed_keeps(1)] wk_name b _ d [unfolded wk_done_def]] fails
  have "(\<exists>e. r = Inl e) \<and> spec_at (\<lambda>w. w) (''runs'', ''r1'') w = spec_at (\<lambda>w. w) (''runs'', ''r1'') Map.empty"
    by (simp add: wk_key)
  with d show ?thesis by (auto simp: spec_at_def)
qed

section \<open>A cancellation\<close>

text \<open>The cancellation arrives when the job runs, and the job goes on.\<close>

definition wk_canceled :: "cluster TemporalActivities" where
  "wk_canceled = wk_activities id (\<lambda>w. w (''runs'', ''r1'') \<noteq> None)"

definition wk_goes_on :: "unit result \<times> cluster \<Rightarrow> bool" where
  "wk_goes_on x \<longleftrightarrow> fst x = Inl context_done \<and> (case snd x (''runs'', ''r1'') of Some j \<Rightarrow> kj_succeeded j = 0 \<and> kj_conditions j = [] | None \<Rightarrow> False)"

lemma wk_phases: "wk_goes_on (run_phases wk_canceled (wk_input []) Map.empty)"
  by code_simp

definition wk_no_temporal :: "cluster TemporalClient" where
  "wk_no_temporal = \<lparr>tc_ExecuteWorkflow = (\<lambda>i q w. (Inr (), w)), tc_Describe = (\<lambda>i w. (Inr (TemporalCanceled, None, None), w)),
     tc_CancelWorkflow = (\<lambda>i w. (Inr (), w)), tc_notFound = (\<lambda>e. False)\<rparr>"

definition wk_config :: RuntimeConfig where
  "wk_config = \<lparr>wc_runtimeNamespace = ''runs'', wc_cliOutputSidecarImage = [], wc_digest = (\<lambda>s. ''0123456789'')\<rparr>"

theorem run_job_outlives_workflow_witness:
  "\<exists>w left. AgentRunWorkflow wk_canceled (wk_input []) Map.empty = (Inl context_done, w) \<and> w (''runs'', ''r1'') = Some left"
proof -
  obtain e v where p: "run_phases wk_canceled (wk_input []) Map.empty = (e, v)" by fastforce
  with wk_phases obtain job where e: "e = Inl context_done" and job: "v (run_key (wk_input [])) = Some job"
    by (auto simp: wk_goes_on_def wk_key split: option.splits)
  obtain r w where a: "AgentRunWorkflow wk_canceled (wk_input []) Map.empty = (r, w)" by fastforce
  with p e have r: "r = Inl context_done" by (auto simp: AgentRunWorkflow_def split: prod.splits)
  have env: "workflow_env wk_canceled (\<lambda>w. w) (run_key (wk_input []))"
    unfolding wk_canceled_def by (rule wk_env [OF succeed_keeps(2)])
  have "wr_Delete (temporal_runtime wk_no_temporal wk_config) [] w = (Inr (), w)"
    and "wr_Cleanup (temporal_runtime wk_no_temporal wk_config) wk_run w = (Inr (), w)"
    by (simp_all add: temporal_runtime_def temporal_Delete_def temporal_Cleanup_def)
  from run_job_outlives_workflow [OF env wk_name p job a this] a r show ?thesis by (auto simp: wk_key)
qed

section \<open>The sidecar\<close>

theorem sidecar_refuses_run_witness:
  "\<exists>spec. buildRunSpec ''s1'' (Some (ex_request ''r1'')) ''r1'' = Inr spec \<and>
     LoadConfigFromEnv (ct_env (cliOutputContainer spec [])) = Inl (PlainError ''cli-output-sidecar: CLI_OUTPUT_CLI_ID is required'')"
proof -
  have "\<not> isl (buildRunSpec ''s1'' (Some (ex_request ''r1'')) ''r1'')" by code_simp
  then obtain spec where s: "buildRunSpec ''s1'' (Some (ex_request ''r1'')) ''r1'' = Inr spec"
    by (metis sum.disc(1) sum.exhaust)
  from sidecar_refuses_run [OF s, of "\<lambda>s. []" "wk_input []" "[]"] s show ?thesis
    by (auto simp: executeJob_def Let_def executeRunContainer_def wk_input_def)
qed

end
