(* ===== verification/Inline_Thinking.thy ===== *)
theory Inline_Thinking
  imports Go_Strings
begin

text \<open>
  The reasoning that a model writes inline, between \<open><think>\<close> and \<open></think>\<close>, of
  deploy/agents/sidecars/cli-output/internal/parsers/qwen/inline_thinking.go: the stream that takes the text
  in the pieces the CLI prints, holding back an end that may be the beginning of a tag, and the split of a
  whole text. The laws at the end: the pieces give what the whole text gives, wherever it was cut, and
  the split undoes the writing of the two parts.
\<close>

section \<open>Searching\<close>

text \<open>\<open>strings.Index\<close>, with \<open>None\<close> for -1, and \<open>strings.TrimLeft\<close> of a set of ASCII characters.\<close>

fun Index :: "string \<Rightarrow> string \<Rightarrow> nat option" where
  "Index [] t = (if t = [] then Some 0 else None)"
| "Index (c # s) t = (if HasPrefix (c # s) t then Some 0 else map_option Suc (Index s t))"

definition TrimLeft :: "string \<Rightarrow> string \<Rightarrow> string" where
  "TrimLeft s cutset = dropWhile (\<lambda>c. c \<in> set cutset) s"

lemma Index_SomeD: "Index s t = Some i \<Longrightarrow> prefix t (drop i s) \<and> i \<le> length s \<and> (\<forall>j < i. \<not> prefix t (drop j s))"
proof (induction s arbitrary: i)
  case (Cons c s)
  then show ?case
    by (auto simp: HasPrefix_prefix less_Suc_eq_0_disj split: if_splits)
qed (auto split: if_splits)

lemma Index_None: "t \<noteq> [] \<Longrightarrow> Index s t = None \<longleftrightarrow> (\<forall>j. \<not> prefix t (drop j s))"
proof (induction s)
  case (Cons c s)
  then show ?case
    by (auto simp: HasPrefix_prefix drop_Cons split: nat.splits)
qed simp

lemma Index_SomeI: "prefix t (drop i s) \<Longrightarrow> i \<le> length s \<Longrightarrow> \<forall>j < i. \<not> prefix t (drop j s) \<Longrightarrow> Index s t = Some i"
proof (induction s arbitrary: i)
  case (Cons c s)
  then show ?case
  proof (cases i)
    case (Suc k)
    with Cons.prems(3) have "\<not> prefix t (c # s)" "\<forall>j < k. \<not> prefix t (drop j s)" by force+
    with Cons Suc show ?thesis by (simp add: HasPrefix_prefix)
  qed (simp add: HasPrefix_prefix)
qed simp

section \<open>The stream\<close>

definition openThinkTag :: string where "openThinkTag = ''<think>''"
definition closeThinkTag :: string where "closeThinkTag = ''</think>''"

record inlineThinkingStream =
  inThink :: bool
  pending :: string
  trimAssistantPrefix :: bool

definition newInlineThinkingStream :: inlineThinkingStream where
  "newInlineThinkingStream = \<lparr>inThink = False, pending = [], trimAssistantPrefix = False\<rparr>"

text \<open>The length of the longest proper beginning of the tag that the text ends with.\<close>

fun trailing_from :: "nat \<Rightarrow> string \<Rightarrow> string \<Rightarrow> nat" where
  "trailing_from 0 t tag = 0"
| "trailing_from (Suc n) t tag = (if HasSuffix t (take (Suc n) tag) then Suc n else trailing_from n t tag)"

definition trailingTagPrefixLen :: "string \<Rightarrow> string \<Rightarrow> nat" where
  "trailingTagPrefixLen t tag = trailing_from (min (length tag - 1) (length t)) t tag"

text \<open>What is appended to the assistant's text, and the flag \<open>trimPrefix\<close> points to.\<close>

definition appendAssistantText :: "string \<Rightarrow> string \<Rightarrow> bool \<Rightarrow> string \<times> bool" where
  "appendAssistantText builder t trimPrefix =
     (if t = [] then (builder, trimPrefix)
      else if trimPrefix then
        (let t' = TrimLeft t [CHR '' '', CHR 0x09, CHR 0x0D, CHR 0x0A] in
         if t' = [] then (builder, True) else (builder @ t', False))
      else (builder @ t, False))"

text \<open>The loop over \<open>data[cursor:]\<close>, with the two builders.\<close>

function append_from ::
  "string \<Rightarrow> inlineThinkingStream \<Rightarrow> string \<Rightarrow> string \<Rightarrow> inlineThinkingStream \<times> string \<times> string" where
  "append_from data s reasoning assistant =
     (if data = [] then (s, reasoning, assistant)
      else if inThink s then
        (case Index data closeThinkTag of
           Some index \<Rightarrow>
             append_from (drop (index + length closeThinkTag) data) (s\<lparr>inThink := False, trimAssistantPrefix := True\<rparr>)
               (reasoning @ take index data) assistant
         | None \<Rightarrow>
             (let emitEnd = length data - trailingTagPrefixLen data closeThinkTag in
              (s\<lparr>pending := drop emitEnd data\<rparr>, reasoning @ take emitEnd data, assistant)))
      else
        (case Index data openThinkTag of
           Some index \<Rightarrow>
             (let (assistant', trim) = appendAssistantText assistant (take index data) (trimAssistantPrefix s) in
              append_from (drop (index + length openThinkTag) data) (s\<lparr>inThink := True, trimAssistantPrefix := trim\<rparr>)
                reasoning assistant')
         | None \<Rightarrow>
             (let emitEnd = length data - trailingTagPrefixLen data openThinkTag;
                  (assistant', trim) = appendAssistantText assistant (take emitEnd data) (trimAssistantPrefix s) in
              (s\<lparr>pending := drop emitEnd data, trimAssistantPrefix := trim\<rparr>, reasoning, assistant'))))"
  by pat_completeness auto
termination
  by (relation "measure (\<lambda>(data, _). length data)") (auto simp: openThinkTag_def closeThinkTag_def)

declare append_from.simps [simp del]

definition inline_Append :: "inlineThinkingStream \<Rightarrow> string \<Rightarrow> inlineThinkingStream \<times> string \<times> string" where
  "inline_Append s t =
     (let data = pending s @ t in
      if data = [] then (s\<lparr>pending := []\<rparr>, [], []) else append_from data (s\<lparr>pending := []\<rparr>) [] [])"

definition splitInlineThinking :: "string \<Rightarrow> string \<times> string" where
  "splitInlineThinking t =
     (let (stream, reasoning, assistant) = inline_Append newInlineThinkingStream t in
      if pending stream = [] then (reasoning, assistant)
      else if inThink stream then (reasoning @ pending stream, assistant)
      else (reasoning, assistant @ fst (appendAssistantText [] (pending stream) (trimAssistantPrefix stream))))"

text \<open>The text a CLI streams arrives in pieces.\<close>

fun append_pieces :: "inlineThinkingStream \<Rightarrow> string list \<Rightarrow> inlineThinkingStream \<times> string \<times> string" where
  "append_pieces s [] = (s, [], [])"
| "append_pieces s (t # ts) =
     (let (s1, r1, a1) = inline_Append s t; (s2, r2, a2) = append_pieces s1 ts in (s2, r1 @ r2, a1 @ a2))"

section \<open>The held back end\<close>

lemma trailing_from_suffix: "suffix (take (trailing_from n t tag) tag) t"
  by (induction n) (auto simp: HasSuffix_def HasPrefix_prefix suffix_to_prefix)

lemma trailing_from_le: "trailing_from n t tag \<le> n"
  by (induction n) auto

lemma trailing_from_max: "m \<le> n \<Longrightarrow> suffix (take m tag) t \<Longrightarrow> m \<le> trailing_from n t tag"
  by (induction n) (auto simp: HasSuffix_def HasPrefix_prefix suffix_to_prefix le_Suc_eq)

lemma trailing_le: "trailingTagPrefixLen t tag \<le> length t" "tag \<noteq> [] \<Longrightarrow> trailingTagPrefixLen t tag < length tag"
proof -
  have "trailingTagPrefixLen t tag \<le> min (length tag - 1) (length t)"
    by (simp add: trailingTagPrefixLen_def trailing_from_le del: min.bounded_iff)
  then show "trailingTagPrefixLen t tag \<le> length t" "tag \<noteq> [] \<Longrightarrow> trailingTagPrefixLen t tag < length tag"
    by (auto simp: Suc_le_lessD) (cases tag; simp add: less_Suc_eq_le)
qed

lemma trailing_suffix: "suffix (take (trailingTagPrefixLen t tag) tag) t"
  by (simp add: trailingTagPrefixLen_def trailing_from_suffix)

lemma trailing_max: "m < length tag \<Longrightarrow> suffix (take m tag) t \<Longrightarrow> m \<le> trailingTagPrefixLen t tag"
  using suffix_length_le [of "take m tag" t] by (auto simp: trailingTagPrefixLen_def intro: trailing_from_max)

lemma trailing_unique:
  assumes "m < length tag" and "suffix (take m tag) t" and "\<And>n. n < length tag \<Longrightarrow> suffix (take n tag) t \<Longrightarrow> n \<le> m"
  shows "trailingTagPrefixLen t tag = m"
proof (rule antisym)
  have "tag \<noteq> []" using assms(1) by auto
  then show "trailingTagPrefixLen t tag \<le> m" by (intro assms(3) trailing_le trailing_suffix)
qed (rule trailing_max [OF assms(1,2)])

text \<open>What was emitted takes no part in a later tag: neither in one that is completed, nor in one that is begun.\<close>

lemma emitted_completes_no_tag:
  assumes "tag \<noteq> []" and "Index d tag = None" and "j < length d - trailingTagPrefixLen d tag"
  shows "\<not> prefix tag (drop j d @ b)"
proof
  assume p: "prefix tag (drop j d @ b)"
  have "\<not> prefix tag (drop j d)" using assms(1,2) by (simp add: Index_None)
  with p obtain u where u: "tag = drop j d @ u" "u \<noteq> []" by (auto simp: prefix_append)
  then have "suffix (take (length (drop j d)) tag) d" by (simp add: suffix_drop)
  then have "length (drop j d) \<le> trailingTagPrefixLen d tag" using u by (intro trailing_max) auto
  with assms(3) show False by simp
qed

lemma emitted_begins_no_tag:
  assumes "n < length tag" and "suffix (take n tag) (d @ b)"
  shows "n \<le> length b + trailingTagPrefixLen d tag"
proof (cases "n \<le> length b")
  case False
  then have "\<not> suffix (take n tag) b" using assms(1) by (auto dest: suffix_length_le)
  with assms(2) obtain u where u: "take n tag = u @ b" "suffix u d" by (auto simp: suffix_append)
  then have "u = take (n - length b) (take n tag)" using assms(1) by (metis add_diff_cancel_right' append_eq_conv_conj length_append length_take min.absorb4)
  then have "u = take (n - length b) tag" by simp
  with u assms(1) have "n - length b \<le> trailingTagPrefixLen d tag" by (intro trailing_max) auto
  then show ?thesis by simp
qed simp

lemma Index_append_Some: "Index d tag = Some i \<Longrightarrow> Index (d @ b) tag = Some i"
proof (rule Index_SomeI)
  assume "Index d tag = Some i"
  from Index_SomeD [OF this] have i: "prefix tag (drop i d)" "i \<le> length d" "\<forall>j < i. \<not> prefix tag (drop j d)" by auto
  then show "prefix tag (drop i (d @ b))" "i \<le> length (d @ b)" by auto
  from i(1,2) have "i + length tag \<le> length d" by (auto dest: prefix_length_le)
  then have "prefix tag (drop j d)" if "j < i" "prefix tag (drop j (d @ b))" for j
    using that by (auto simp: prefix_append)
  with i(3) show "\<forall>j < i. \<not> prefix tag (drop j (d @ b))" by blast
qed

lemma Index_append_None:
  assumes "tag \<noteq> []" and "Index d tag = None" and "e = length d - trailingTagPrefixLen d tag"
  shows "Index (d @ b) tag = map_option ((+) e) (Index (drop e d @ b) tag)"
proof (cases "Index (drop e d @ b) tag")
  case None
  have "\<not> prefix tag (drop j (d @ b))" for j
  proof (cases "j < e")
    case True
    with emitted_completes_no_tag [OF assms(1,2)] assms(3) show ?thesis by simp
  next
    case False
    then have "drop j (d @ b) = drop (j - e) (drop e d @ b)" using assms(3) by simp
    with None assms(1) show ?thesis by (simp add: Index_None del: drop_append)
  qed
  then have "Index (d @ b) tag = None" using assms(1) by (simp add: Index_None del: drop_append)
  with None show ?thesis by simp
next
  case (Some i)
  from Index_SomeD [OF this] have i: "prefix tag (drop i (drop e d @ b))" "i \<le> length (drop e d @ b)"
    "\<forall>j < i. \<not> prefix tag (drop j (drop e d @ b))" by auto
  have shift: "drop (e + j) (d @ b) = drop j (drop e d @ b)" for j using assms(3) by (simp add: add.commute)
  have "\<not> prefix tag (drop j (d @ b))" if "j < e + i" for j
  proof (cases "j < e")
    case True
    with emitted_completes_no_tag [OF assms(1,2)] assms(3) show ?thesis by simp
  next
    case False
    with that i(3) shift [of "j - e"] show ?thesis by (auto simp del: drop_append)
  qed
  with i shift [of i] Some show ?thesis using assms(3) by (auto intro!: Index_SomeI simp del: drop_append)
qed

lemma trailing_append:
  assumes "tag \<noteq> []" and "e = length d - trailingTagPrefixLen d tag"
  shows "trailingTagPrefixLen (d @ b) tag = trailingTagPrefixLen (drop e d @ b) tag"
proof (rule trailing_unique)
  let ?k = "trailingTagPrefixLen (drop e d @ b) tag"
  have "d @ b = take e d @ drop e d @ b" by simp
  then have *: "suffix (drop e d @ b) (d @ b)" by (metis suffixI)
  show "?k < length tag" using assms(1) by (rule trailing_le)
  show "suffix (take ?k tag) (d @ b)" using trailing_suffix * by (rule suffix_order.trans)
  show "n \<le> ?k" if n: "n < length tag" "suffix (take n tag) (d @ b)" for n
  proof (rule trailing_max [OF n(1)])
    have "n \<le> length (drop e d @ b)" using emitted_begins_no_tag [OF n] assms(2) trailing_le(1) [of d tag] by simp
    with n(1) show "suffix (take n tag) (drop e d @ b)" using suffix_length_suffix [OF n(2) *] by simp
  qed
qed

section \<open>The pieces give what the whole gives\<close>

lemma appendAssistantText_append:
  "appendAssistantText r (x @ y) trim = (case appendAssistantText r x trim of (r', trim') \<Rightarrow> appendAssistantText r' y trim')"
  by (auto simp: appendAssistantText_def TrimLeft_def Let_def dropWhile_append dropWhile_eq_Nil_conv)

lemma tags_nonempty [simp]: "openThinkTag \<noteq> []" "closeThinkTag \<noteq> []"
  by (simp_all add: openThinkTag_def closeThinkTag_def)

lemma append_from_Nil [simp]: "append_from [] s r a = (s, r, a)"
  by (simp add: append_from.simps)

text \<open>One round of the loop: over a tag, or at the end of the data.\<close>

lemma append_from_round:
  "inThink s \<Longrightarrow> Index d closeThinkTag = Some i \<Longrightarrow> append_from d s r a =
     append_from (drop (i + length closeThinkTag) d) (s\<lparr>inThink := False, trimAssistantPrefix := True\<rparr>) (r @ take i d) a"
  "\<not> inThink s \<Longrightarrow> Index d openThinkTag = Some i \<Longrightarrow> append_from d s r a =
     (case appendAssistantText a (take i d) (trimAssistantPrefix s) of (a', trim) \<Rightarrow>
        append_from (drop (i + length openThinkTag) d) (s\<lparr>inThink := True, trimAssistantPrefix := trim\<rparr>) r a')"
  by (cases "d = []"; simp add: append_from.simps [of d])+

lemma append_from_last:
  "d \<noteq> [] \<Longrightarrow> inThink s \<Longrightarrow> Index d closeThinkTag = None \<Longrightarrow> append_from d s r a =
     (let e = length d - trailingTagPrefixLen d closeThinkTag in (s\<lparr>pending := drop e d\<rparr>, r @ take e d, a))"
  "d \<noteq> [] \<Longrightarrow> \<not> inThink s \<Longrightarrow> Index d openThinkTag = None \<Longrightarrow> append_from d s r a =
     (let e = length d - trailingTagPrefixLen d openThinkTag in
      case appendAssistantText a (take e d) (trimAssistantPrefix s) of (a', trim) \<Rightarrow>
        (s\<lparr>pending := drop e d, trimAssistantPrefix := trim\<rparr>, r, a'))"
  by (simp_all add: append_from.simps [of d])

text \<open>The last round, when more data follows what it emits.\<close>

lemma append_from_more:
  assumes "d \<noteq> []" and "pending s = []"
  shows "inThink s \<Longrightarrow> Index d closeThinkTag = None \<Longrightarrow> e = length d - trailingTagPrefixLen d closeThinkTag \<Longrightarrow>
      append_from (d @ b) s r a = append_from (drop e d @ b) s (r @ take e d) a" (is "_ \<Longrightarrow> _ \<Longrightarrow> _ \<Longrightarrow> ?think")
    and "\<not> inThink s \<Longrightarrow> Index d openThinkTag = None \<Longrightarrow> e = length d - trailingTagPrefixLen d openThinkTag \<Longrightarrow>
      append_from (d @ b) s r a = (case appendAssistantText a (take e d) (trimAssistantPrefix s) of (a', trim) \<Rightarrow>
        append_from (drop e d @ b) (s\<lparr>trimAssistantPrefix := trim\<rparr>) r a')" (is "_ \<Longrightarrow> _ \<Longrightarrow> _ \<Longrightarrow> ?plain")
proof -
  have sh: "drop (e + j) (d @ b) = drop j (drop e d @ b)" "take (e + j) (d @ b) = take e d @ take j (drop e d @ b)"
    if "e = length d - trailingTagPrefixLen d tag" for j tag
    using that take_add [of e j "d @ b"] by (simp_all add: add.commute)
  have len: "length (d @ b) - trailingTagPrefixLen (d @ b) tag = e + (length (drop e d @ b) - trailingTagPrefixLen (drop e d @ b) tag)"
    if "e = length d - trailingTagPrefixLen d tag" "tag \<noteq> []" for tag
    using trailing_append [OF that(2,1), of b] trailing_le(1) [of "drop e d @ b" tag] that(1) by simp
  have keep: "s\<lparr>pending := []\<rparr> = s" using assms(2) by (cases s) simp
  show ?think if t: "inThink s" "Index d closeThinkTag = None" and e: "e = length d - trailingTagPrefixLen d closeThinkTag"
  proof (cases "drop e d @ b = []")
    case True
    with t assms keep e show ?thesis by (simp add: append_from_last)
  next
    case False
    with t assms show ?thesis
      using Index_append_None [OF tags_nonempty(2) t(2) e, of b]
      by (cases "Index (drop e d @ b) closeThinkTag")
        (simp_all add: append_from_last append_from_round Let_def len [OF e] sh [OF e] add.assoc del: drop_append take_append length_append drop_drop)
  qed
  show ?plain if t: "\<not> inThink s" "Index d openThinkTag = None" and e: "e = length d - trailingTagPrefixLen d openThinkTag"
  proof (cases "drop e d @ b = []")
    case True
    with t assms keep e show ?thesis by (cases s) (simp add: append_from_last split: prod.splits)
  next
    case False
    with t assms show ?thesis
      using Index_append_None [OF tags_nonempty(1) t(2) e, of b]
      by (cases "Index (drop e d @ b) openThinkTag")
        (simp_all add: append_from_last append_from_round Let_def len [OF e] sh [OF e] appendAssistantText_append add.assoc
          split: prod.splits del: drop_append take_append length_append drop_drop)
  qed
qed

lemma append_from_append:
  "pending s = [] \<Longrightarrow> append_from (d @ b) s r a =
     (case append_from d s r a of (s1, r1, a1) \<Rightarrow> append_from (pending s1 @ b) (s1\<lparr>pending := []\<rparr>) r1 a1)"
proof (induction d s r a rule: append_from.induct)
  case (1 d s r a)
  let ?tag = "if inThink s then closeThinkTag else openThinkTag"
  consider "d = []" | i where "d \<noteq> []" "Index d ?tag = Some i" | "d \<noteq> []" "Index d ?tag = None" by blast
  then show ?case
  proof cases
    case 1
    with "1.prems" show ?thesis by (cases s) simp
  next
    case (2 i)
    then have i: "i + length ?tag \<le> length d" using Index_SomeD [OF 2(2)] by (auto dest: prefix_length_le)
    show ?thesis
    proof (cases "inThink s")
      case True
      with 2 i "1.IH"(1) [OF 2(1) True] "1.prems" show ?thesis
        using Index_append_Some [of d closeThinkTag i b] by (simp add: append_from_round)
    next
      case False
      obtain a' trim where a: "appendAssistantText a (take i d) (trimAssistantPrefix s) = (a', trim)" by fastforce
      with 2 i False "1.IH"(2) [OF 2(1) False _ refl] "1.prems" show ?thesis
        using Index_append_Some [of d openThinkTag i b] by (simp add: append_from_round)
    qed
  next
    case 3
    then show ?thesis using "1.prems" append_from_more [OF 3(1) "1.prems", of _ b r a]
      by (cases s; cases "inThink s") (simp_all add: append_from_last Let_def split: prod.splits)
  qed
qed

lemma appendAssistantText_builder:
  "appendAssistantText (a0 @ a) t trim = (case appendAssistantText a t trim of (a', trim') \<Rightarrow> (a0 @ a', trim'))"
  by (simp add: appendAssistantText_def Let_def)

lemma append_from_builders:
  "append_from d s (r0 @ r) (a0 @ a) = (case append_from d s r a of (s', r', a') \<Rightarrow> (s', r0 @ r', a0 @ a'))"
proof (induction d s r a rule: append_from.induct)
  case (1 d s r a)
  let ?tag = "if inThink s then closeThinkTag else openThinkTag"
  consider "d = []" | i where "d \<noteq> []" "Index d ?tag = Some i" | "d \<noteq> []" "Index d ?tag = None" by blast
  then show ?case
  proof cases
    case (2 i)
    obtain a' trim where a: "appendAssistantText a (take i d) (trimAssistantPrefix s) = (a', trim)" by fastforce
    show ?thesis
      using 2 a "1.IH"(1) [OF 2(1)] "1.IH"(2) [OF 2(1) _ _ a [symmetric] refl]
      by (cases "inThink s") (simp_all add: append_from_round appendAssistantText_builder)
  qed (auto simp: append_from_last appendAssistantText_builder Let_def split: if_splits prod.splits)
qed

lemma inline_Append_from: "inline_Append s t = append_from (pending s @ t) (s\<lparr>pending := []\<rparr>) [] []"
  by (simp add: inline_Append_def Let_def)

lemma inline_Append_append:
  "inline_Append s (x @ y) = (case inline_Append s x of (s1, r1, a1) \<Rightarrow>
     case inline_Append s1 y of (s2, r2, a2) \<Rightarrow> (s2, r1 @ r2, a1 @ a2))"
proof -
  obtain s1 r1 a1 where 1: "append_from (pending s @ x) (s\<lparr>pending := []\<rparr>) [] [] = (s1, r1, a1)" by (metis prod_cases3)
  obtain s2 r2 a2 where 2: "append_from (pending s1 @ y) (s1\<lparr>pending := []\<rparr>) [] [] = (s2, r2, a2)" by (metis prod_cases3)
  have "append_from (pending s1 @ y) (s1\<lparr>pending := []\<rparr>) r1 a1 = (s2, r1 @ r2, a1 @ a2)"
    using append_from_builders [of "pending s1 @ y" "s1\<lparr>pending := []\<rparr>" r1 "[]" a1 "[]"] 2 by simp
  with append_from_append [of "s\<lparr>pending := []\<rparr>" "pending s @ x" y "[]" "[]"] 1 2
  show ?thesis by (simp add: inline_Append_from)
qed

lemma inline_Append_Nil: "pending s = [] \<Longrightarrow> inline_Append s [] = (s, [], [])"
  by (cases s) (simp add: inline_Append_def)

lemma append_pieces_Cons:
  "append_pieces s (t # ts) = inline_Append s (concat (t # ts))"
proof (induction ts arbitrary: s t)
  case (Cons u ts)
  have "append_pieces s (t # u # ts) = (case inline_Append s t of (s1, r1, a1) \<Rightarrow>
      case append_pieces s1 (u # ts) of (s2, r2, a2) \<Rightarrow> (s2, r1 @ r2, a1 @ a2))"
    by (simp only: append_pieces.simps Let_def)
  then show ?case by (simp add: Cons.IH inline_Append_append del: append_pieces.simps)
qed (simp split: prod.splits)

lemma append_pieces_whole: "append_pieces newInlineThinkingStream ts = inline_Append newInlineThinkingStream (concat ts)"
  using append_pieces_Cons by (cases ts) (simp_all add: inline_Append_Nil newInlineThinkingStream_def del: append_pieces.simps(2))

text \<open>
  C18: the stream and the split of the whole text agree, however the text is cut into pieces: what the
  stream gives for the pieces is what it gives for the whole text at once, and with the end it still
  holds back it is the split of the whole text.
\<close>

theorem inline_pieces_whole:
  "append_pieces newInlineThinkingStream ts = inline_Append newInlineThinkingStream (concat ts) \<and>
   splitInlineThinking (concat ts) = (case append_pieces newInlineThinkingStream ts of (s, reasoning, assistant) \<Rightarrow>
     if inThink s then (reasoning @ pending s, assistant)
     else (reasoning, assistant @ fst (appendAssistantText [] (pending s) (trimAssistantPrefix s))))"
  by (auto simp: append_pieces_whole splitInlineThinking_def appendAssistantText_def split: prod.splits)

section \<open>The split undoes the writing\<close>

definition inline_written :: "string \<Rightarrow> string \<Rightarrow> string" where
  "inline_written reasoning assistant = openThinkTag @ reasoning @ closeThinkTag @ assistant"

lemma Index_written:
  assumes "tag \<noteq> []" and "hd tag \<notin> set (tl tag)" and "\<not> sublist tag r"
  shows "Index (r @ tag @ x) tag = Some (length r)"
  using assms(3)
proof (induction r)
  case Nil
  have "Index (tag @ x) tag = Some 0" by (rule Index_SomeI) simp_all
  then show ?case by simp
next
  case (Cons c r)
  have "\<not> prefix tag (c # r @ tag @ x)"
  proof
    assume "prefix tag (c # r @ tag @ x)"
    then have "prefix tag ((c # r) @ tag @ x)" by simp
    moreover have "\<not> prefix tag (c # r)" using Cons.prems by auto
    ultimately obtain u where u: "tag = (c # r) @ u" "prefix u (tag @ x)" unfolding prefix_append by blast
    with \<open>\<not> prefix tag (c # r)\<close> have "u \<noteq> []" by auto
    with u(2) have "hd u = hd tag" using assms(1) by (metis hd_append2 prefix_def)
    moreover have "hd u \<in> set (tl tag)" using u(1) \<open>u \<noteq> []\<close> by simp
    ultimately show False using assms(2) by simp
  qed
  with Cons show ?case by (simp add: HasPrefix_prefix sublist_Cons_right)
qed

lemma append_from_plain_end:
  assumes "\<not> sublist openThinkTag a" and "\<not> inThink s" and "pending s = []"
  shows "\<exists>s' a'. append_from a s r [] = (s', r, a') \<and> \<not> inThink s' \<and>
     a' @ fst (appendAssistantText [] (pending s') (trimAssistantPrefix s')) = fst (appendAssistantText [] a (trimAssistantPrefix s))"
proof (cases "a = []")
  case True
  with assms show ?thesis by (simp add: appendAssistantText_def)
next
  case False
  define e where "e = length a - trailingTagPrefixLen a openThinkTag"
  obtain a' trim where 1: "appendAssistantText [] (take e a) (trimAssistantPrefix s) = (a', trim)" by fastforce
  have "Index a openThinkTag = None"
    using assms(1) by (auto simp: Index_None) (metis append_take_drop_id prefix_def sublist_appendI)
  with False assms(2) 1 have "append_from a s r [] = (s\<lparr>pending := drop e a, trimAssistantPrefix := trim\<rparr>, r, a')"
    by (simp add: append_from_last e_def [symmetric] Let_def)
  moreover have "appendAssistantText [] a (trimAssistantPrefix s) = appendAssistantText a' (drop e a) trim"
    using appendAssistantText_append [of "[]" "take e a" "drop e a" "trimAssistantPrefix s"] 1 by simp
  moreover have "\<dots> = (case appendAssistantText [] (drop e a) trim of (x, y) \<Rightarrow> (a' @ x, y))"
    using appendAssistantText_builder [of a' "[]"] by simp
  ultimately show ?thesis using assms(2) by (auto split: prod.splits)
qed

lemma tags_head: "hd openThinkTag \<notin> set (tl openThinkTag)" "hd closeThinkTag \<notin> set (tl closeThinkTag)"
  by (simp_all add: openThinkTag_def closeThinkTag_def)

text \<open>
  C34: the split undoes the writing: a text of some reasoning between the tags, in which the closing tag
  does not occur, and an answer without an opening tag is split into the reasoning and the answer, less
  the white space the answer begins with.
\<close>

theorem inline_split_roundtrip:
  assumes "\<not> Contains reasoning closeThinkTag" and "\<not> Contains assistant openThinkTag"
  shows "splitInlineThinking (inline_written reasoning assistant) = (reasoning, TrimLeft assistant [CHR '' '', CHR 0x09, CHR 0x0D, CHR 0x0A])"
proof -
  let ?s = "newInlineThinkingStream\<lparr>inThink := False, trimAssistantPrefix := True\<rparr>"
  obtain s' a' where stop: "append_from assistant ?s reasoning [] = (s', reasoning, a')" "\<not> inThink s'"
    "a' @ fst (appendAssistantText [] (pending s') (trimAssistantPrefix s')) = fst (appendAssistantText [] assistant True)"
    using append_from_plain_end [of assistant ?s reasoning] assms(2)
    by (auto simp: Contains_sublist newInlineThinkingStream_def)
  have "inline_Append newInlineThinkingStream (inline_written reasoning assistant) =
      append_from (reasoning @ closeThinkTag @ assistant) (newInlineThinkingStream\<lparr>inThink := True\<rparr>) [] []"
    using Index_written [OF tags_nonempty(1) tags_head(1), of "[]"]
    by (simp add: inline_Append_from inline_written_def newInlineThinkingStream_def append_from_round appendAssistantText_def)
  also have "\<dots> = append_from assistant ?s reasoning []"
    using Index_written [OF tags_nonempty(2) tags_head(2)] assms(1)
    by (simp add: append_from_round Contains_sublist)
  moreover have "fst (appendAssistantText [] assistant True) = TrimLeft assistant [CHR '' '', CHR 0x09, CHR 0x0D, CHR 0x0A]"
    by (cases "assistant = []") (auto simp: appendAssistantText_def Let_def TrimLeft_def [of "[]"])
  moreover have "fst (appendAssistantText [] [] trim) = []" for trim by (simp add: appendAssistantText_def)
  ultimately show ?thesis using stop by (cases "pending s' = []") (simp_all add: splitInlineThinking_def)
qed

theorem inline_split_roundtrip_witness:
  "splitInlineThinking (inline_written ''The user'' (CHR 0x0A # ''pong'')) = (''The user'', ''pong'')"
  using inline_split_roundtrip [of "''The user''" "CHR 0x0A # ''pong''"]
  by (simp add: openThinkTag_def closeThinkTag_def HasPrefix_def TrimLeft_def)

end
