(* ===== verification/Output_Builder.thy ===== *)
theory Output_Builder
  imports Inline_Thinking
begin

text \<open>
  The outputs of a run, as the sidecar beside a CLI makes them: the AG-UI events and the \<open>RunOutput\<close> that
  carries one (packages/go-contract/agui/events.go), the values of a decoded line of JSON and how they are
  read (parser/json.go), and the builder that turns text and tool calls into events, with its finalizer
  (parser/builder.go, builder_tools.go, agui_events.go, finalizer.go).

  The event types and their validation belong to the AG-UI SDK, and the conversion of an event to a
  \<open>structpb.Struct\<close> goes through its JSON: \<open>AguiSDK\<close> stands for both. \<open>JsonLib\<close> stands for the two
  printers of decoded values, \<open>json.Marshal\<close> and \<open>fmt.Sprint\<close>.
\<close>

section \<open>Decoded JSON\<close>

text \<open>
  What \<open>json.Unmarshal\<close> makes of a line: a number is a \<open>float64\<close>, the integer \<open>m\<close> times a power of two.
  An object is its fields; a nil \<open>map[string]any\<close> is \<open>None\<close>.
\<close>

datatype json = JNull | JBool bool | JNumber int int | JString string | JArray "json list"
  | JObject "(string \<times> json) list"

type_synonym json_fields = "(string \<times> json) list"
type_synonym json_object = "json_fields option"

record JsonLib =
  json_Marshal :: "json \<Rightarrow> string option"
  fmt_Sprint :: "json \<Rightarrow> string"

definition payload_at :: "json_object \<Rightarrow> string \<Rightarrow> json option" where
  "payload_at payload key = (case payload of None \<Rightarrow> None | Some fs \<Rightarrow> map_of fs key)"

definition MapValue :: "json_object \<Rightarrow> string \<Rightarrow> json_object" where
  "MapValue payload key = (case payload_at payload key of Some (JObject fs) \<Rightarrow> Some fs | _ \<Rightarrow> None)"

definition SliceValue :: "json_object \<Rightarrow> string \<Rightarrow> json list" where
  "SliceValue payload key = (case payload_at payload key of Some (JArray items) \<Rightarrow> items | _ \<Rightarrow> [])"

definition StringValue :: "json_object \<Rightarrow> string \<Rightarrow> string" where
  "StringValue payload key = (case payload_at payload key of Some (JString s) \<Rightarrow> s | _ \<Rightarrow> [])"

definition BoolValue :: "json_object \<Rightarrow> string \<Rightarrow> bool" where
  "BoolValue payload key = (case payload_at payload key of Some (JBool b) \<Rightarrow> b | _ \<Rightarrow> False)"

text \<open>
  \<open>int64(f)\<close> drops the fraction; for a number beyond \<open>int64\<close> the value depends on the machine, and this is
  the one of amd64. A decoded number is never one of Go's integer types.
\<close>

definition float_int64 :: "int \<Rightarrow> int \<Rightarrow> int" where
  "float_int64 m e = (let t = (if 0 \<le> e then m * 2 ^ nat e else sgn m * (\<bar>m\<bar> div 2 ^ nat (- e))) in
     if in_i64 t then t else - (2 ^ 63))"

definition Int64Value :: "json option \<Rightarrow> int" where
  "Int64Value value = (case value of Some (JNumber m e) \<Rightarrow> float_int64 m e | _ \<Rightarrow> 0)"

definition json_Summary :: "JsonLib \<Rightarrow> json option \<Rightarrow> string" where
  "json_Summary lib value =
     (case value of None \<Rightarrow> []
      | Some JNull \<Rightarrow> []
      | Some (JString s) \<Rightarrow> TrimSpace s
      | Some v \<Rightarrow> (case json_Marshal lib v of None \<Rightarrow> fmt_Sprint lib v | Some body \<Rightarrow> TrimSpace body))"

definition json_int :: "int \<Rightarrow> json" where "json_int n = JNumber n 0"

definition usage_TurnUsage :: "int \<Rightarrow> int \<Rightarrow> int \<Rightarrow> int \<Rightarrow> int \<Rightarrow> int \<Rightarrow> json_fields" where
  "usage_TurnUsage inputTokens outputTokens cachedInputTokens reasoningOutputTokens requestCount toolCallCount =
     (if inputTokens = 0 \<and> outputTokens = 0 \<and> cachedInputTokens = 0 \<and> reasoningOutputTokens = 0 \<and>
         requestCount = 0 \<and> toolCallCount = 0 then []
      else [(''usage'', JObject [(''inputTokens'', json_int inputTokens), (''outputTokens'', json_int outputTokens),
              (''cachedInputTokens'', json_int cachedInputTokens), (''reasoningOutputTokens'', json_int reasoningOutputTokens)]),
            (''counters'', JObject [(''requestCount'', json_int requestCount), (''toolCallCount'', json_int toolCallCount)])])"

section \<open>Events and outputs\<close>

datatype AguiEvent =
    TextMessageStartEvent (ev_messageId: string) (ev_role: string)
  | TextMessageContentEvent (ev_messageId: string) (ev_delta: string)
  | TextMessageEndEvent (ev_messageId: string)
  | ReasoningStartEvent (ev_messageId: string)
  | ReasoningMessageStartEvent (ev_messageId: string) (ev_role: string)
  | ReasoningMessageContentEvent (ev_messageId: string) (ev_delta: string)
  | ReasoningMessageEndEvent (ev_messageId: string)
  | ReasoningEndEvent (ev_messageId: string)
  | ToolCallStartEvent (ev_toolCallId: string) (ev_toolCallName: string) (ev_parentMessageId: string)
  | ToolCallArgsEvent (ev_toolCallId: string) (ev_delta: string)
  | ToolCallEndEvent (ev_toolCallId: string)
  | ToolCallResultEvent (ev_messageId: string) (ev_toolCallId: string) (ev_content: string)
  | CustomEvent (ev_name: string) (ev_value: json_fields)

text \<open>The SDK: \<open>Validate\<close>, and \<open>ToJSON\<close> decoded into a \<open>structpb.Struct\<close>, with the timestamp that was set.\<close>

record AguiSDK =
  sdk_Validate :: "AguiEvent \<Rightarrow> go_error option"
  sdk_Struct :: "AguiEvent \<Rightarrow> int option \<Rightarrow> json_fields result"

record RunOutput =
  ro_sequence :: int
  ro_timestamp :: "time option"
  ro_event :: "json_fields option"

definition unix_milli :: "time \<Rightarrow> int" where
  "unix_milli t = (t - 62135596800 * second) div 1000000"

definition EventStruct :: "AguiSDK \<Rightarrow> AguiEvent \<Rightarrow> time \<Rightarrow> json_fields result" where
  "EventStruct sdk event at =
     (case sdk_Validate sdk event of Some err \<Rightarrow> Inl err
      | None \<Rightarrow> sdk_Struct sdk event (if time_is_zero at then None else Some (unix_milli at)))"

definition agui_RunOutput :: "AguiSDK \<Rightarrow> int \<Rightarrow> time \<Rightarrow> AguiEvent \<Rightarrow> RunOutput result" where
  "agui_RunOutput sdk sequence at event =
     (case EventStruct sdk event at of Inl err \<Rightarrow> Inl err
      | Inr payload \<Rightarrow> Inr \<lparr>ro_sequence = sequence, ro_timestamp = Some at, ro_event = Some payload\<rparr>)"

definition GetStringValue :: "json_fields option \<Rightarrow> string \<Rightarrow> string" where
  "GetStringValue event field = StringValue event field"

definition StructEventType :: "json_fields option \<Rightarrow> string" where
  "StructEventType event = (case event of None \<Rightarrow> ''UNKNOWN'' | Some fs \<Rightarrow> TrimSpace (GetStringValue event ''type''))"

definition agui_EventType :: "RunOutput option \<Rightarrow> string" where
  "agui_EventType output = (case output of None \<Rightarrow> ''UNKNOWN'' | Some o' \<Rightarrow> StructEventType (ro_event o'))"

definition IsRealtimeEventType :: "string \<Rightarrow> bool" where
  "IsRealtimeEventType eventType \<longleftrightarrow> eventType \<in> set
     [''TEXT_MESSAGE_START'', ''TEXT_MESSAGE_CONTENT'', ''TEXT_MESSAGE_END'', ''TEXT_MESSAGE_CHUNK'',
      ''TOOL_CALL_START'', ''TOOL_CALL_ARGS'', ''TOOL_CALL_END'', ''TOOL_CALL_CHUNK'', ''TOOL_CALL_RESULT'',
      ''STATE_SNAPSHOT'', ''STATE_DELTA'', ''ACTIVITY_SNAPSHOT'', ''ACTIVITY_DELTA'',
      ''REASONING_START'', ''REASONING_MESSAGE_START'', ''REASONING_MESSAGE_CONTENT'', ''REASONING_MESSAGE_END'',
      ''REASONING_MESSAGE_CHUNK'', ''REASONING_END'', ''REASONING_ENCRYPTED_VALUE'']"

definition IsRealtimeOutput :: "RunOutput option \<Rightarrow> bool" where
  "IsRealtimeOutput output \<longleftrightarrow> IsRealtimeEventType (agui_EventType output)"

definition CustomRunLLMUsage :: string where "CustomRunLLMUsage = ''run.llm_usage''"
definition CustomRunTurnUsage :: string where "CustomRunTurnUsage = ''run.turn_usage''"
definition CustomRunOutputInvalid :: string where "CustomRunOutputInvalid = ''run.output.invalid''"

section \<open>The builder\<close>

record textAccumulator =
  ta_segments :: "string list"
  ta_text :: string
  ta_dirty :: bool

definition ta_Append :: "string \<Rightarrow> textAccumulator \<Rightarrow> textAccumulator" where
  "ta_Append t a = (if t = [] then a else a\<lparr>ta_segments := ta_segments a @ [t], ta_dirty := True\<rparr>)"

definition ta_Set :: "string \<Rightarrow> textAccumulator \<Rightarrow> textAccumulator" where
  "ta_Set t a = a\<lparr>ta_text := t, ta_segments := [], ta_dirty := False\<rparr>"

definition ta_String :: "textAccumulator \<Rightarrow> string \<times> textAccumulator" where
  "ta_String a =
     (let a = (if ta_dirty a then a\<lparr>ta_text := ta_text a @ Join (ta_segments a) [], ta_segments := [], ta_dirty := False\<rparr> else a)
      in (ta_text a, a))"

datatype textChannel = textChannelAssistant | textChannelReasoning

record Builder =
  b_sequence :: int
  b_toolSequence :: int
  b_assistantText :: textAccumulator
  b_reasoningText :: textAccumulator
  b_assistantOpen :: bool
  b_reasoningOpen :: bool
  b_reasoningPhaseOpen :: bool

definition empty_text :: textAccumulator where
  "empty_text = \<lparr>ta_segments = [], ta_text = [], ta_dirty = False\<rparr>"

definition NewBuilder :: Builder where
  "NewBuilder = \<lparr>b_sequence = 0, b_toolSequence = 0, b_assistantText = empty_text, b_reasoningText = empty_text,
     b_assistantOpen = False, b_reasoningOpen = False, b_reasoningPhaseOpen = False\<rparr>"

text \<open>The field that the pointers \<open>open\<close> and the closure \<open>assign\<close> of the calls stand for.\<close>

definition is_open :: "textChannel \<Rightarrow> Builder \<Rightarrow> bool" where
  "is_open ch b = (case ch of textChannelAssistant \<Rightarrow> b_assistantOpen b | textChannelReasoning \<Rightarrow> b_reasoningOpen b)"

definition set_open :: "textChannel \<Rightarrow> bool \<Rightarrow> Builder \<Rightarrow> Builder" where
  "set_open ch v b = (case ch of textChannelAssistant \<Rightarrow> b\<lparr>b_assistantOpen := v\<rparr> | textChannelReasoning \<Rightarrow> b\<lparr>b_reasoningOpen := v\<rparr>)"

definition upd_text :: "textChannel \<Rightarrow> (textAccumulator \<Rightarrow> textAccumulator) \<Rightarrow> Builder \<Rightarrow> Builder" where
  "upd_text ch f b = (case ch of textChannelAssistant \<Rightarrow> b\<lparr>b_assistantText := f (b_assistantText b)\<rparr>
     | textChannelReasoning \<Rightarrow> b\<lparr>b_reasoningText := f (b_reasoningText b)\<rparr>)"

definition read_text :: "textChannel \<Rightarrow> Builder \<Rightarrow> string \<times> Builder" where
  "read_text ch b =
     (let (s, a) = ta_String (case ch of textChannelAssistant \<Rightarrow> b_assistantText b | textChannelReasoning \<Rightarrow> b_reasoningText b)
      in (s, upd_text ch (\<lambda>_. a) b))"

record Snapshot =
  sn_LastSequence :: int
  sn_AssistantText :: string
  sn_ReasoningText :: string

definition builder_Snapshot :: "Builder \<Rightarrow> Snapshot \<times> Builder" where
  "builder_Snapshot b =
     (let (a, b) = read_text textChannelAssistant b; (r, b) = read_text textChannelReasoning b
      in (\<lparr>sn_LastSequence = b_sequence b, sn_AssistantText = a, sn_ReasoningText = r\<rparr>, b))"

definition startTextEvent :: "textChannel \<Rightarrow> string \<Rightarrow> string \<Rightarrow> AguiEvent" where
  "startTextEvent channel messageID role =
     (if channel = textChannelReasoning then ReasoningMessageStartEvent messageID role else TextMessageStartEvent messageID role)"

definition contentTextEvent :: "textChannel \<Rightarrow> string \<Rightarrow> string \<Rightarrow> AguiEvent" where
  "contentTextEvent channel messageID delta =
     (if channel = textChannelReasoning then ReasoningMessageContentEvent messageID delta else TextMessageContentEvent messageID delta)"

definition endTextEvent :: "textChannel \<Rightarrow> string \<Rightarrow> AguiEvent" where
  "endTextEvent channel messageID =
     (if channel = textChannelReasoning then ReasoningMessageEndEvent messageID else TextMessageEndEvent messageID)"

text \<open>
  The counters are \<open>uint64\<close>. An event that the SDK rejects becomes a custom event with the error;
  \<open>structpb.NewStruct\<close> accepts its three texts when they are UTF-8.
\<close>

definition u64 :: "int \<Rightarrow> int" where "u64 n = n mod 2 ^ 64"

fun utf8_from :: "nat \<Rightarrow> string \<Rightarrow> bool" where
  "utf8_from n [] \<longleftrightarrow> n = 0"
| "utf8_from (Suc n) (c # s) \<longleftrightarrow> (0x80 \<le> (of_char c :: nat) \<and> (of_char c :: nat) < 0xC0) \<and> utf8_from n s"
| "utf8_from 0 (c # s) \<longleftrightarrow>
     (let n = (of_char c :: nat) in
      if n < 0x80 then utf8_from 0 s
      else if 0xC2 \<le> n \<and> n < 0xE0 then utf8_from 1 s
      else if 0xE0 \<le> n \<and> n < 0xF0 then
        (case s of [] \<Rightarrow> False
         | d # _ \<Rightarrow> (n = 0xE0 \<longrightarrow> 0xA0 \<le> (of_char d :: nat)) \<and> (n = 0xED \<longrightarrow> (of_char d :: nat) < 0xA0) \<and> utf8_from 2 s)
      else if 0xF0 \<le> n \<and> n < 0xF5 then
        (case s of [] \<Rightarrow> False
         | d # _ \<Rightarrow> (n = 0xF0 \<longrightarrow> 0x90 \<le> (of_char d :: nat)) \<and> (n = 0xF4 \<longrightarrow> (of_char d :: nat) < 0x90) \<and> utf8_from 3 s)
      else False)"

definition utf8_valid :: "string \<Rightarrow> bool" where "utf8_valid s = utf8_from 0 s"

definition nextOutput :: "AguiSDK \<Rightarrow> time \<Rightarrow> AguiEvent \<Rightarrow> Builder \<Rightarrow> RunOutput \<times> Builder" where
  "nextOutput sdk at event b =
     (let b = b\<lparr>b_sequence := u64 (b_sequence b + 1)\<rparr> in
      (case agui_RunOutput sdk (b_sequence b) at event of
         Inl err \<Rightarrow>
           \<lparr>ro_sequence = b_sequence b, ro_timestamp = None,
            ro_event = (if utf8_valid (err_message err)
              then Some [(''type'', JString ''CUSTOM''), (''name'', JString CustomRunOutputInvalid), (''value'', JString (err_message err))]
              else None)\<rparr>
       | Inr output \<Rightarrow> output, b))"

fun nextOutputs :: "AguiSDK \<Rightarrow> time \<Rightarrow> AguiEvent list \<Rightarrow> Builder \<Rightarrow> RunOutput list \<times> Builder" where
  "nextOutputs sdk at [] b = ([], b)"
| "nextOutputs sdk at (e # es) b =
     (let (o', b) = nextOutput sdk at e b; (os, b) = nextOutputs sdk at es b in (o' # os, b))"

definition appendText ::
  "AguiSDK \<Rightarrow> time \<Rightarrow> textChannel \<Rightarrow> string \<Rightarrow> string \<Rightarrow> string \<Rightarrow> Builder \<Rightarrow> RunOutput list \<times> Builder" where
  "appendText sdk at channel messageID role t b =
     (let (outputs, b) =
        (if is_open channel b then ([], b)
         else
           let b = set_open channel True b;
               (outputs, b) =
                 (if channel = textChannelReasoning \<and> \<not> b_reasoningPhaseOpen b
                  then nextOutputs sdk at [ReasoningStartEvent messageID] (b\<lparr>b_reasoningPhaseOpen := True\<rparr>)
                  else ([], b));
               (started, b) = nextOutputs sdk at [startTextEvent channel messageID role] b
           in (outputs @ started, b));
        (content, b) = (if t \<noteq> [] then nextOutputs sdk at [contentTextEvent channel messageID t] b else ([], b))
      in (outputs @ content, b))"

definition closeTextIfOpen :: "AguiSDK \<Rightarrow> time \<Rightarrow> textChannel \<Rightarrow> string \<Rightarrow> Builder \<Rightarrow> RunOutput list \<times> Builder" where
  "closeTextIfOpen sdk at channel messageID b =
     (if \<not> is_open channel b then ([], b)
      else
        let (outputs, b) = nextOutputs sdk at [endTextEvent channel messageID] (set_open channel False b) in
        if channel = textChannelReasoning \<and> b_reasoningPhaseOpen b then
          (let (ended, b) = nextOutputs sdk at [ReasoningEndEvent messageID] (b\<lparr>b_reasoningPhaseOpen := False\<rparr>)
           in (outputs @ ended, b))
        else (outputs, b))"

definition syncText ::
  "AguiSDK \<Rightarrow> string \<Rightarrow> string \<Rightarrow> time \<Rightarrow> textChannel \<Rightarrow> string \<Rightarrow> string \<Rightarrow> bool \<Rightarrow> Builder \<Rightarrow> RunOutput list \<times> Builder" where
  "syncText sdk t current at channel messageID role close b =
     (if t = [] \<or> t = current then
        (if close then closeTextIfOpen sdk at channel messageID b else ([], b))
      else
        let b = upd_text channel (ta_Set t) b in
        if HasPrefix t current then
          (let (outputs, b) = appendText sdk at channel messageID role (drop (length current) t) b;
               (closed, b) = (if close then closeTextIfOpen sdk at channel messageID b else ([], b))
           in (outputs @ closed, b))
        else
          (let (outputs, b) = closeTextIfOpen sdk at channel messageID b;
               (appended, b) = appendText sdk at channel messageID role t b;
               (closed, b) = (if close then closeTextIfOpen sdk at channel messageID b else ([], b))
           in (outputs @ appended @ closed, b)))"

definition assistantMessageID :: string where "assistantMessageID = ''assistant-message''"
definition reasoningMessageID :: string where "reasoningMessageID = ''reasoning-message''"

definition AppendAssistant :: "AguiSDK \<Rightarrow> string \<Rightarrow> time \<Rightarrow> Builder \<Rightarrow> RunOutput list \<times> Builder" where
  "AppendAssistant sdk t at b =
     (if t = [] then ([], b)
      else appendText sdk at textChannelAssistant assistantMessageID ''assistant'' t
        (upd_text textChannelAssistant (ta_Append t) b))"

definition SyncAssistant :: "AguiSDK \<Rightarrow> string \<Rightarrow> time \<Rightarrow> Builder \<Rightarrow> RunOutput list \<times> Builder" where
  "SyncAssistant sdk t at b =
     (let (current, b) = read_text textChannelAssistant b in
      syncText sdk t current at textChannelAssistant assistantMessageID ''assistant'' False b)"

definition AppendReasoning :: "AguiSDK \<Rightarrow> string \<Rightarrow> time \<Rightarrow> Builder \<Rightarrow> RunOutput list \<times> Builder" where
  "AppendReasoning sdk t at b =
     (if t = [] then ([], b)
      else appendText sdk at textChannelReasoning reasoningMessageID ''reasoning'' t
        (upd_text textChannelReasoning (ta_Append t) b))"

definition SyncReasoning :: "AguiSDK \<Rightarrow> string \<Rightarrow> time \<Rightarrow> Builder \<Rightarrow> RunOutput list \<times> Builder" where
  "SyncReasoning sdk t at b =
     (let (current, b) = read_text textChannelReasoning b in
      syncText sdk t current at textChannelReasoning reasoningMessageID ''reasoning'' False b)"

definition builder_usage :: "AguiSDK \<Rightarrow> string \<Rightarrow> json_fields \<Rightarrow> time \<Rightarrow> Builder \<Rightarrow> RunOutput option \<times> Builder" where
  "builder_usage sdk name payload at b =
     (if payload = [] then (None, b)
      else let (o', b) = nextOutput sdk at (CustomEvent name payload) b in (Some o', b))"

definition builder_LLMUsage :: "AguiSDK \<Rightarrow> json_fields \<Rightarrow> time \<Rightarrow> Builder \<Rightarrow> RunOutput option \<times> Builder" where
  "builder_LLMUsage sdk = builder_usage sdk CustomRunLLMUsage"

definition builder_TurnUsage :: "AguiSDK \<Rightarrow> json_fields \<Rightarrow> time \<Rightarrow> Builder \<Rightarrow> RunOutput option \<times> Builder" where
  "builder_TurnUsage sdk = builder_usage sdk CustomRunTurnUsage"

text \<open>The assistant's message is closed by hand, the reasoning through \<open>closeTextIfOpen\<close>.\<close>

definition ResultAssistant :: "AguiSDK \<Rightarrow> string \<Rightarrow> time \<Rightarrow> Builder \<Rightarrow> RunOutput list \<times> Builder" where
  "ResultAssistant sdk t at b =
     (let (current, b) = read_text textChannelAssistant b in
      if t \<noteq> [] then syncText sdk t current at textChannelAssistant assistantMessageID ''assistant'' True b
      else if current = [] \<or> \<not> b_assistantOpen b then ([], b)
      else nextOutputs sdk at [TextMessageEndEvent assistantMessageID] (b\<lparr>b_assistantOpen := False\<rparr>))"

definition ResultReasoning :: "AguiSDK \<Rightarrow> string \<Rightarrow> time \<Rightarrow> Builder \<Rightarrow> RunOutput list \<times> Builder" where
  "ResultReasoning sdk t at b =
     (let (current, b) = read_text textChannelReasoning b in
      if t \<noteq> [] then syncText sdk t current at textChannelReasoning reasoningMessageID ''reasoning'' True b
      else if current = [] \<or> \<not> b_reasoningOpen b then ([], b)
      else closeTextIfOpen sdk at textChannelReasoning reasoningMessageID b)"

definition toolCallArguments :: "JsonLib \<Rightarrow> string \<Rightarrow> string" where
  "toolCallArguments lib summary = (case json_Marshal lib (JObject [(''summary'', JString summary)]) of None \<Rightarrow> [] | Some body \<Rightarrow> body)"

definition toolCallResult :: "JsonLib \<Rightarrow> string \<Rightarrow> string" where
  "toolCallResult lib summary = toolCallArguments lib summary"

definition builder_ToolCall ::
  "AguiSDK \<Rightarrow> JsonLib \<Rightarrow> string \<Rightarrow> string \<Rightarrow> string \<Rightarrow> time \<Rightarrow> Builder \<Rightarrow> RunOutput list \<times> Builder" where
  "builder_ToolCall sdk lib name callID summary at b =
     (let name = TrimSpace name in
      if name = [] then ([], b)
      else
        let callID = TrimSpace callID;
            b = (if callID = [] then b\<lparr>b_toolSequence := u64 (b_toolSequence b + 1)\<rparr> else b);
            callID = (if callID = [] then ''tool-'' @ show_int (b_toolSequence b) else callID);
            summary = TrimSpace summary;
            summary = (if summary = [] then name else summary);
            arguments = toolCallArguments lib summary
        in nextOutputs sdk at
             [ToolCallStartEvent callID name assistantMessageID,
              ToolCallArgsEvent callID arguments,
              ToolCallEndEvent callID,
              ToolCallResultEvent (''tool-message-'' @ callID) callID (toolCallResult lib summary)] b)"

section \<open>The finalizer\<close>

record Finalizer =
  f_assistantEmitted :: bool
  f_reasoningEmitted :: bool

definition NewFinalizer :: Finalizer where
  "NewFinalizer = \<lparr>f_assistantEmitted = False, f_reasoningEmitted = False\<rparr>"

definition EmitAssistant ::
  "AguiSDK \<Rightarrow> string \<Rightarrow> time \<Rightarrow> Finalizer \<times> Builder \<Rightarrow> RunOutput list \<times> Finalizer \<times> Builder" where
  "EmitAssistant sdk t at fb = (case fb of (f, b) \<Rightarrow>
     if f_assistantEmitted f then ([], f, b)
     else let (outputs, b) = ResultAssistant sdk t at b in
       if outputs = [] then ([], f, b) else (outputs, f\<lparr>f_assistantEmitted := True\<rparr>, b))"

definition EmitReasoning ::
  "AguiSDK \<Rightarrow> string \<Rightarrow> time \<Rightarrow> Finalizer \<times> Builder \<Rightarrow> RunOutput list \<times> Finalizer \<times> Builder" where
  "EmitReasoning sdk t at fb = (case fb of (f, b) \<Rightarrow>
     if f_reasoningEmitted f then ([], f, b)
     else let (outputs, b) = ResultReasoning sdk t at b in
       if outputs = [] then ([], f, b) else (outputs, f\<lparr>f_reasoningEmitted := True\<rparr>, b))"

definition finalizer_Finalize :: "AguiSDK \<Rightarrow> time \<Rightarrow> Finalizer \<times> Builder \<Rightarrow> RunOutput list \<times> Finalizer \<times> Builder" where
  "finalizer_Finalize sdk at fb =
     (let (r, fb) = EmitReasoning sdk [] at fb; (a, fb) = EmitAssistant sdk [] at fb in (r @ a, fb))"

end
