(* ===== verification/Output_Parsers.thy ===== *)
theory Output_Parsers
  imports Output_Builder
begin

text \<open>
  The parsers of the four CLIs (deploy/agents/sidecars/cli-output/internal/parsers) and the registry they
  are made from: each turns a line of the CLI's output into calls of the builder and of the finalizer.

  The decoding of a line into the parser's Go type is \<open>json.Unmarshal\<close>, a field of \<open>LineDecoders\<close> for each
  of the types; a parser is a value that its operations return updated.
\<close>

section \<open>Decoded lines\<close>

record codexUsage =
  cu_InputTokens :: int
  cu_CachedInputTokens :: int
  cu_OutputTokens :: int
  cu_RequestCount :: int
  cu_ToolCallCount :: int

record codexFileChange =
  cf_Path :: string
  cf_Kind :: string

record codexItem =
  ci_ID :: string
  ci_Type :: string
  ci_Text :: string
  ci_Command :: string
  ci_AggregatedOutput :: string
  ci_Status :: string
  ci_Changes :: "codexFileChange list"
  ci_Server :: string
  ci_Tool :: string
  ci_Arguments :: "json option"
  ci_Result :: "json option"
  ci_Query :: string

record codexEvent =
  ce_Type :: string
  ce_Usage :: "codexUsage option"
  ce_Error :: "string option"
  ce_Message :: string
  ce_Item :: "codexItem option"

record geminiStats =
  gs_InputTokenCount :: int
  gs_OutputTokenCount :: int

record geminiEvent =
  ge_Type :: string
  ge_Role :: string
  ge_Content :: string
  ge_Delta :: bool
  ge_ToolName :: string
  ge_ToolID :: string
  ge_Output :: string
  ge_Severity :: string
  ge_Message :: string
  ge_Parameters :: "json option"
  ge_Stats :: "geminiStats option"

record LineDecoders =
  ld_map :: "string \<Rightarrow> json_object option"
  ld_codex :: "string \<Rightarrow> codexEvent option"
  ld_gemini :: "string \<Rightarrow> geminiEvent option"

definition DecodeJSONLine :: "(string \<Rightarrow> 'a option) \<Rightarrow> string \<Rightarrow> 'a option" where
  "DecodeJSONLine unmarshal line = (let trimmed = TrimSpace line in if trimmed = [] then None else unmarshal trimmed)"

section \<open>What the parsers share\<close>

record BuilderParser =
  p_builder :: Builder
  p_finalizer :: Finalizer

record ClaudeParser = BuilderParser +
  p_usageEmitted :: bool

record QwenParser = ClaudeParser +
  p_inlineThink :: inlineThinkingStream

definition on_builder :: "(Builder \<Rightarrow> 'a \<times> Builder) \<Rightarrow> 'b BuilderParser_scheme \<Rightarrow> 'a \<times> 'b BuilderParser_scheme" where
  "on_builder f p = (let (x, b) = f (p_builder p) in (x, p\<lparr>p_builder := b\<rparr>))"

definition on_finalizer ::
  "(Finalizer \<times> Builder \<Rightarrow> 'a \<times> Finalizer \<times> Builder) \<Rightarrow> 'b BuilderParser_scheme \<Rightarrow> 'a \<times> 'b BuilderParser_scheme" where
  "on_finalizer f p = (let (x, g, b) = f (p_finalizer p, p_builder p) in (x, p\<lparr>p_builder := b, p_finalizer := g\<rparr>))"

definition parser_Snapshot :: "'b BuilderParser_scheme \<Rightarrow> Snapshot \<times> 'b BuilderParser_scheme" where
  "parser_Snapshot = on_builder builder_Snapshot"

definition parser_Finalize :: "AguiSDK \<Rightarrow> time \<Rightarrow> 'b BuilderParser_scheme \<Rightarrow> RunOutput list \<times> 'b BuilderParser_scheme" where
  "parser_Finalize sdk at = on_finalizer (finalizer_Finalize sdk at)"

fun compact_outputs :: "RunOutput option list \<Rightarrow> RunOutput list" where
  "compact_outputs [] = []"
| "compact_outputs (None # outputs) = compact_outputs outputs"
| "compact_outputs (Some output # outputs) = output # compact_outputs outputs"

fun cli_firstNonEmpty :: "string list \<Rightarrow> string" where
  "cli_firstNonEmpty [] = []"
| "cli_firstNonEmpty (v # vs) = (if v \<noteq> [] then v else cli_firstNonEmpty vs)"

text \<open>The calls of a loop, with their outputs appended.\<close>

fun each_output :: "('x \<Rightarrow> 'p \<Rightarrow> RunOutput list \<times> 'p) \<Rightarrow> 'x list \<Rightarrow> 'p \<Rightarrow> RunOutput list \<times> 'p" where
  "each_output f [] p = ([], p)"
| "each_output f (x # xs) p = (let (o1, p) = f x p; (o2, p) = each_output f xs p in (o1 @ o2, p))"

text \<open>\<open>turnUsage\<close> of the parsers of Claude and Qwen: once per parser; the token counts are \<open>int64\<close>.\<close>

definition parser_turnUsage ::
  "AguiSDK \<Rightarrow> bool \<Rightarrow> json_object \<Rightarrow> time \<Rightarrow> 'b ClaudeParser_scheme \<Rightarrow> RunOutput list \<times> 'b ClaudeParser_scheme" where
  "parser_turnUsage sdk reasoning usage at p =
     (if p_usageEmitted p \<or> usage = None then ([], p)
      else
        let (output, p) = on_builder (builder_TurnUsage sdk (usage_TurnUsage
              (Int64Value (payload_at usage ''input_tokens''))
              (Int64Value (payload_at usage ''output_tokens''))
              (Int64Value (payload_at usage ''cache_read_input_tokens''))
              (if reasoning then Int64Value (payload_at usage ''reasoning_output_tokens'') else 0) 0 0) at) p
        in case output of None \<Rightarrow> ([], p) | Some o' \<Rightarrow> ([o'], p\<lparr>p_usageEmitted := True\<rparr>))"

section \<open>Claude\<close>

definition claude_New :: ClaudeParser where
  "claude_New = \<lparr>p_builder = NewBuilder, p_finalizer = NewFinalizer, p_usageEmitted = False\<rparr>"

definition claude_turnUsage :: "AguiSDK \<Rightarrow> json_object \<Rightarrow> time \<Rightarrow> ClaudeParser \<Rightarrow> RunOutput list \<times> ClaudeParser" where
  "claude_turnUsage sdk = parser_turnUsage sdk True"

definition tool_use_block ::
  "AguiSDK \<Rightarrow> JsonLib \<Rightarrow> json_object \<Rightarrow> time \<Rightarrow> 'b BuilderParser_scheme \<Rightarrow> RunOutput list \<times> 'b BuilderParser_scheme" where
  "tool_use_block sdk lib block at = on_builder (builder_ToolCall sdk lib (StringValue block ''name'') (StringValue block ''id'')
     (json_Summary lib (payload_at block ''input'')) at)"

definition claude_parseEvent ::
  "AguiSDK \<Rightarrow> JsonLib \<Rightarrow> json_object \<Rightarrow> time \<Rightarrow> ClaudeParser \<Rightarrow> RunOutput list \<times> ClaudeParser" where
  "claude_parseEvent sdk lib payload at p =
     (let event = (case MapValue payload ''event'' of None \<Rightarrow> payload | Some e \<Rightarrow> Some e);
          kind = StringValue event ''type'' in
      if kind = ''content_block_delta'' then
        (let delta = MapValue event ''delta''; kind = StringValue delta ''type'' in
         if kind = ''thinking_delta'' \<or> kind = ''signature_delta'' then
           on_builder (AppendReasoning sdk (StringValue delta ''thinking'') at) p
         else if kind = ''text_delta'' then on_builder (AppendAssistant sdk (StringValue delta ''text'') at) p
         else ([], p))
      else if kind = ''content_block_start'' then
        (let block = MapValue event ''content_block'' in
         if StringValue block ''type'' \<noteq> ''tool_use'' then ([], p) else tool_use_block sdk lib block at p)
      else ([], p))"

definition block_of :: "json \<Rightarrow> json_object" where
  "block_of item = (case item of JObject fs \<Rightarrow> Some fs | _ \<Rightarrow> None)"

definition claude_block ::
  "AguiSDK \<Rightarrow> JsonLib \<Rightarrow> time \<Rightarrow> json \<Rightarrow> ClaudeParser \<Rightarrow> RunOutput list \<times> ClaudeParser" where
  "claude_block sdk lib at item p =
     (let block = block_of item; kind = StringValue block ''type'' in
      if kind = ''text'' then on_builder (SyncAssistant sdk (StringValue block ''text'') at) p
      else if kind = ''tool_use'' then tool_use_block sdk lib block at p
      else ([], p))"

definition claude_parseAssistant ::
  "AguiSDK \<Rightarrow> JsonLib \<Rightarrow> json_object \<Rightarrow> time \<Rightarrow> ClaudeParser \<Rightarrow> RunOutput list \<times> ClaudeParser" where
  "claude_parseAssistant sdk lib payload at p =
     (let message = (case MapValue payload ''message'' of None \<Rightarrow> payload | Some m \<Rightarrow> Some m);
          (outputs, p) = each_output (claude_block sdk lib at) (SliceValue message ''content'') p;
          (usage, p) = claude_turnUsage sdk (MapValue message ''usage'') at p
      in (compact_outputs (map Some (outputs @ usage)), p))"

definition claude_parseResult ::
  "AguiSDK \<Rightarrow> json_object \<Rightarrow> time \<Rightarrow> ClaudeParser \<Rightarrow> RunOutput list \<times> ClaudeParser" where
  "claude_parseResult sdk payload at p =
     (if BoolValue payload ''is_error'' then ([], p)
      else
        let (reasoning, p) = on_finalizer (EmitReasoning sdk [] at) p;
            (assistant, p) = on_finalizer (EmitAssistant sdk (StringValue payload ''result'') at) p;
            (usage, p) = claude_turnUsage sdk (MapValue payload ''usage'') at p
        in (compact_outputs (map Some (reasoning @ assistant @ usage)), p))"

definition claude_parsePayload ::
  "AguiSDK \<Rightarrow> JsonLib \<Rightarrow> json_object \<Rightarrow> time \<Rightarrow> ClaudeParser \<Rightarrow> RunOutput list \<times> ClaudeParser" where
  "claude_parsePayload sdk lib payload at p =
     (let kind = StringValue payload ''type'' in
      if kind \<in> set [''stream_event'', ''content_block_delta'', ''content_block_start''] then claude_parseEvent sdk lib payload at p
      else if kind = ''assistant'' then claude_parseAssistant sdk lib payload at p
      else if kind = ''result'' then claude_parseResult sdk payload at p
      else ([], p))"

definition claude_ParseLine ::
  "AguiSDK \<Rightarrow> JsonLib \<Rightarrow> LineDecoders \<Rightarrow> string \<Rightarrow> time \<Rightarrow> ClaudeParser \<Rightarrow> RunOutput list \<times> ClaudeParser" where
  "claude_ParseLine sdk lib ld line at p =
     (case DecodeJSONLine (ld_map ld) line of None \<Rightarrow> ([], p) | Some payload \<Rightarrow> claude_parsePayload sdk lib payload at p)"

section \<open>Qwen\<close>

definition qwen_New :: QwenParser where
  "qwen_New = \<lparr>p_builder = NewBuilder, p_finalizer = NewFinalizer, p_usageEmitted = False, p_inlineThink = newInlineThinkingStream\<rparr>"

definition qwen_turnUsage :: "AguiSDK \<Rightarrow> json_object \<Rightarrow> time \<Rightarrow> QwenParser \<Rightarrow> RunOutput list \<times> QwenParser" where
  "qwen_turnUsage sdk = parser_turnUsage sdk False"

definition appendInlineText :: "AguiSDK \<Rightarrow> string \<Rightarrow> time \<Rightarrow> QwenParser \<Rightarrow> RunOutput list \<times> QwenParser" where
  "appendInlineText sdk t at p =
     (if t = [] then ([], p)
      else
        let (stream, reasoning, assistant) = inline_Append (p_inlineThink p) t;
            p = p\<lparr>p_inlineThink := stream\<rparr>;
            (o1, p) = on_builder (AppendReasoning sdk reasoning at) p;
            (o2, p) = on_builder (AppendAssistant sdk assistant at) p
        in (compact_outputs (map Some (o1 @ o2)), p))"

definition syncInlineText :: "AguiSDK \<Rightarrow> string \<Rightarrow> time \<Rightarrow> QwenParser \<Rightarrow> RunOutput list \<times> QwenParser" where
  "syncInlineText sdk t at p =
     (if t = [] then ([], p)
      else
        let (reasoning, assistant) = splitInlineThinking t;
            (o1, p) = (if reasoning \<noteq> [] then on_builder (SyncReasoning sdk reasoning at) p else ([], p));
            (o2, p) = on_builder (SyncAssistant sdk assistant at) p
        in (compact_outputs (map Some (o1 @ o2)), p))"

definition qwen_parseEvent ::
  "AguiSDK \<Rightarrow> JsonLib \<Rightarrow> json_object \<Rightarrow> time \<Rightarrow> QwenParser \<Rightarrow> RunOutput list \<times> QwenParser" where
  "qwen_parseEvent sdk lib payload at p =
     (let event = MapValue payload ''event''; kind = StringValue event ''type'' in
      if kind = ''content_block_delta'' then
        (let delta = MapValue event ''delta''; kind = StringValue delta ''type'' in
         if kind = ''thinking_delta'' then on_builder (AppendReasoning sdk (StringValue delta ''thinking'') at) p
         else if kind = ''text_delta'' then appendInlineText sdk (StringValue delta ''text'') at p
         else ([], p))
      else if kind = ''content_block_start'' then
        (let block = MapValue event ''content_block'' in
         if StringValue block ''type'' \<noteq> ''tool_use'' then ([], p) else tool_use_block sdk lib block at p)
      else ([], p))"

definition qwen_block ::
  "AguiSDK \<Rightarrow> JsonLib \<Rightarrow> time \<Rightarrow> json \<Rightarrow> QwenParser \<Rightarrow> RunOutput list \<times> QwenParser" where
  "qwen_block sdk lib at item p =
     (let block = block_of item; kind = StringValue block ''type'' in
      if kind = ''text'' then syncInlineText sdk (StringValue block ''text'') at p
      else if kind = ''tool_use'' then tool_use_block sdk lib block at p
      else ([], p))"

definition qwen_parseAssistant ::
  "AguiSDK \<Rightarrow> JsonLib \<Rightarrow> json_object \<Rightarrow> time \<Rightarrow> QwenParser \<Rightarrow> RunOutput list \<times> QwenParser" where
  "qwen_parseAssistant sdk lib payload at p =
     (let message = MapValue payload ''message'';
          (outputs, p) = each_output (qwen_block sdk lib at) (SliceValue message ''content'') p;
          (usage, p) = qwen_turnUsage sdk (MapValue message ''usage'') at p
      in (compact_outputs (map Some (outputs @ usage)), p))"

definition qwen_parseResult ::
  "AguiSDK \<Rightarrow> json_object \<Rightarrow> time \<Rightarrow> QwenParser \<Rightarrow> RunOutput list \<times> QwenParser" where
  "qwen_parseResult sdk payload at p =
     (if BoolValue payload ''is_error'' then ([], p)
      else
        let (reasoning, assistant) = splitInlineThinking (StringValue payload ''result'');
            (o1, p) = on_finalizer (EmitReasoning sdk reasoning at) p;
            (o2, p) = on_finalizer (EmitAssistant sdk assistant at) p;
            (usage, p) = qwen_turnUsage sdk (MapValue payload ''usage'') at p
        in (compact_outputs (map Some (o1 @ o2 @ usage)), p))"

definition qwen_parsePayload ::
  "AguiSDK \<Rightarrow> JsonLib \<Rightarrow> json_object \<Rightarrow> time \<Rightarrow> QwenParser \<Rightarrow> RunOutput list \<times> QwenParser" where
  "qwen_parsePayload sdk lib payload at p =
     (let kind = StringValue payload ''type'' in
      if kind = ''stream_event'' then qwen_parseEvent sdk lib payload at p
      else if kind = ''assistant'' then qwen_parseAssistant sdk lib payload at p
      else if kind = ''result'' then qwen_parseResult sdk payload at p
      else ([], p))"

definition qwen_ParseLine ::
  "AguiSDK \<Rightarrow> JsonLib \<Rightarrow> LineDecoders \<Rightarrow> string \<Rightarrow> time \<Rightarrow> QwenParser \<Rightarrow> RunOutput list \<times> QwenParser" where
  "qwen_ParseLine sdk lib ld line at p =
     (case DecodeJSONLine (ld_map ld) line of None \<Rightarrow> ([], p) | Some payload \<Rightarrow> qwen_parsePayload sdk lib payload at p)"

section \<open>Codex\<close>

definition codex_New :: BuilderParser where
  "codex_New = \<lparr>p_builder = NewBuilder, p_finalizer = NewFinalizer\<rparr>"

fun change_summary_from :: "bool \<Rightarrow> codexFileChange list \<Rightarrow> string" where
  "change_summary_from first [] = []"
| "change_summary_from first (change # changes) =
     (if first then [] else '', '') @ cli_firstNonEmpty [cf_Kind change, ''change''] @ '':'' @ cf_Path change
     @ change_summary_from False changes"

definition changeSummary :: "codexFileChange list \<Rightarrow> string" where
  "changeSummary changes = change_summary_from True changes"

definition mcpToolName :: "codexItem \<Rightarrow> string" where
  "mcpToolName item =
     (if ci_Server item \<noteq> [] \<and> ci_Tool item \<noteq> [] then ci_Server item @ ''/'' @ ci_Tool item
      else cli_firstNonEmpty [ci_Tool item, ci_Server item])"

definition codex_parseItem ::
  "AguiSDK \<Rightarrow> JsonLib \<Rightarrow> codexItem option \<Rightarrow> time \<Rightarrow> BuilderParser \<Rightarrow> RunOutput list \<times> BuilderParser" where
  "codex_parseItem sdk lib item at p =
     (case item of None \<Rightarrow> ([], p)
      | Some i \<Rightarrow>
        let kind = ci_Type i; tool = (\<lambda>name summary. on_builder (builder_ToolCall sdk lib name (ci_ID i) summary at) p) in
        if kind = ''agent_message'' then on_builder (SyncAssistant sdk (ci_Text i) at) p
        else if kind = ''reasoning'' then on_builder (SyncReasoning sdk (ci_Text i) at) p
        else if kind = ''command_execution'' then tool ''bash'' (cli_firstNonEmpty [ci_Command i, ci_AggregatedOutput i])
        else if kind = ''file_change'' then tool ''apply_patch'' (cli_firstNonEmpty [changeSummary (ci_Changes i), ci_Status i])
        else if kind = ''mcp_tool_call'' then
          tool (mcpToolName i) (cli_firstNonEmpty [json_Summary lib (ci_Result i), json_Summary lib (ci_Arguments i)])
        else if kind = ''web_search'' then tool ''web_search'' (ci_Query i)
        else ([], p))"

definition codex_turnCompleted ::
  "AguiSDK \<Rightarrow> codexUsage option \<Rightarrow> time \<Rightarrow> BuilderParser \<Rightarrow> RunOutput list \<times> BuilderParser" where
  "codex_turnCompleted sdk usage at p =
     (let (outputs, p) = (case usage of None \<Rightarrow> ([], p)
            | Some u \<Rightarrow>
              let (o', p) = on_builder (builder_TurnUsage sdk (usage_TurnUsage (cu_InputTokens u) (cu_OutputTokens u)
                    (cu_CachedInputTokens u) 0 (cu_RequestCount u) (cu_ToolCallCount u)) at) p
              in ([o'], p));
          (finals, p) = parser_Finalize sdk at p
      in (compact_outputs (outputs @ map Some finals), p))"

definition codex_parseEvent ::
  "AguiSDK \<Rightarrow> JsonLib \<Rightarrow> codexEvent \<Rightarrow> time \<Rightarrow> BuilderParser \<Rightarrow> RunOutput list \<times> BuilderParser" where
  "codex_parseEvent sdk lib event at p =
     (if ce_Type event \<in> set [''item.started'', ''item.updated'', ''item.completed''] then codex_parseItem sdk lib (ce_Item event) at p
      else if ce_Type event = ''turn.completed'' then codex_turnCompleted sdk (ce_Usage event) at p
      else ([], p))"

definition codex_ParseLine ::
  "AguiSDK \<Rightarrow> JsonLib \<Rightarrow> LineDecoders \<Rightarrow> string \<Rightarrow> time \<Rightarrow> BuilderParser \<Rightarrow> RunOutput list \<times> BuilderParser" where
  "codex_ParseLine sdk lib ld line at p =
     (case DecodeJSONLine (ld_codex ld) line of None \<Rightarrow> ([], p) | Some event \<Rightarrow> codex_parseEvent sdk lib event at p)"

section \<open>Gemini\<close>

definition gemini_New :: BuilderParser where
  "gemini_New = \<lparr>p_builder = NewBuilder, p_finalizer = NewFinalizer\<rparr>"

definition gemini_complete ::
  "AguiSDK \<Rightarrow> geminiStats option \<Rightarrow> time \<Rightarrow> BuilderParser \<Rightarrow> RunOutput list \<times> BuilderParser" where
  "gemini_complete sdk stats at p =
     (let (outputs, p) = (case stats of None \<Rightarrow> ([], p)
            | Some s \<Rightarrow>
              let (o', p) = on_builder (builder_TurnUsage sdk
                    (usage_TurnUsage (gs_InputTokenCount s) (gs_OutputTokenCount s) 0 0 0 0) at) p
              in ([o'], p));
          (finals, p) = parser_Finalize sdk at p
      in (compact_outputs (outputs @ map Some finals), p))"

definition gemini_parseEvent ::
  "AguiSDK \<Rightarrow> JsonLib \<Rightarrow> geminiEvent \<Rightarrow> time \<Rightarrow> BuilderParser \<Rightarrow> RunOutput list \<times> BuilderParser" where
  "gemini_parseEvent sdk lib payload at p =
     (if ge_Type payload = ''message'' then
        (if ge_Role payload \<noteq> ''assistant'' then ([], p)
         else if ge_Delta payload then on_builder (AppendAssistant sdk (ge_Content payload) at) p
         else on_builder (SyncAssistant sdk (ge_Content payload) at) p)
      else if ge_Type payload = ''tool_use'' then
        on_builder (builder_ToolCall sdk lib (ge_ToolName payload) (ge_ToolID payload) (json_Summary lib (ge_Parameters payload)) at) p
      else if ge_Type payload = ''tool_result'' then
        on_builder (builder_ToolCall sdk lib (cli_firstNonEmpty [ge_ToolName payload, ''tool_result'']) (ge_ToolID payload)
          (cli_firstNonEmpty [ge_Output payload, ge_Message payload]) at) p
      else if ge_Type payload = ''result'' then gemini_complete sdk (ge_Stats payload) at p
      else ([], p))"

definition gemini_ParseLine ::
  "AguiSDK \<Rightarrow> JsonLib \<Rightarrow> LineDecoders \<Rightarrow> string \<Rightarrow> time \<Rightarrow> BuilderParser \<Rightarrow> RunOutput list \<times> BuilderParser" where
  "gemini_ParseLine sdk lib ld line at p =
     (case DecodeJSONLine (ld_gemini ld) line of None \<Rightarrow> ([], p) | Some payload \<Rightarrow> gemini_parseEvent sdk lib payload at p)"

section \<open>The registry\<close>

text \<open>The interface \<open>Parser\<close>: a value of one of the four types. A factory is the parser it makes; \<open>None\<close> is a nil one.\<close>

datatype CliParser = CliClaude ClaudeParser | CliCodex BuilderParser | CliGemini BuilderParser | CliQwen QwenParser

definition cli_ParseLine ::
  "AguiSDK \<Rightarrow> JsonLib \<Rightarrow> LineDecoders \<Rightarrow> string \<Rightarrow> time \<Rightarrow> CliParser \<Rightarrow> RunOutput list \<times> CliParser" where
  "cli_ParseLine sdk lib ld line at p =
     (case p of
        CliClaude c \<Rightarrow> map_prod id CliClaude (claude_ParseLine sdk lib ld line at c)
      | CliCodex c \<Rightarrow> map_prod id CliCodex (codex_ParseLine sdk lib ld line at c)
      | CliGemini c \<Rightarrow> map_prod id CliGemini (gemini_ParseLine sdk lib ld line at c)
      | CliQwen c \<Rightarrow> map_prod id CliQwen (qwen_ParseLine sdk lib ld line at c))"

definition cli_Snapshot :: "CliParser \<Rightarrow> Snapshot \<times> CliParser" where
  "cli_Snapshot p =
     (case p of
        CliClaude c \<Rightarrow> map_prod id CliClaude (parser_Snapshot c)
      | CliCodex c \<Rightarrow> map_prod id CliCodex (parser_Snapshot c)
      | CliGemini c \<Rightarrow> map_prod id CliGemini (parser_Snapshot c)
      | CliQwen c \<Rightarrow> map_prod id CliQwen (parser_Snapshot c))"

type_synonym ParserRegistry = "string \<rightharpoonup> CliParser"

definition registry_Register :: "ParserRegistry \<Rightarrow> string \<Rightarrow> CliParser option \<Rightarrow> ParserRegistry result" where
  "registry_Register r cliID factory =
     (case factory of None \<Rightarrow> Inl (PlainError (''parser: register '' @ go_quote cliID @ '': nil factory''))
      | Some f \<Rightarrow>
        let normalized = TrimSpace cliID in
        if normalized = [] then Inl (PlainError ''parser: register: empty cli_id'')
        else if r normalized \<noteq> None then Inl (PlainError (''parser: register '' @ go_quote normalized @ '': duplicate cli_id''))
        else Inr (r(normalized \<mapsto> f)))"

definition registry_New :: "ParserRegistry \<Rightarrow> string \<Rightarrow> CliParser result" where
  "registry_New r cliID =
     (case r (TrimSpace cliID) of
        None \<Rightarrow> Inl (PlainError (''parser: cli_id '' @ go_quote cliID @ '' is not registered''))
      | Some p \<Rightarrow> Inr p)"

fun register_all :: "(string \<times> CliParser) list \<Rightarrow> ParserRegistry \<Rightarrow> ParserRegistry result" where
  "register_all [] r = Inr r"
| "register_all ((cliID, f) # rest) r =
     (case registry_Register r cliID (Some f) of Inl e \<Rightarrow> Inl e | Inr r \<Rightarrow> register_all rest r)"

definition NewBuiltinRegistry :: "ParserRegistry result" where
  "NewBuiltinRegistry = register_all [(''claude-code'', CliClaude claude_New), (''codex'', CliCodex codex_New),
     (''gemini-cli'', CliGemini gemini_New), (''qwen-cli'', CliQwen qwen_New)] Map.empty"

end
