(* ===== verification/Turn_Messages.thy ===== *)
theory Turn_Messages
  imports Output_Builder Session_Store Runtime_Types
begin

text \<open>
  The transcript of a session: the messages that are stored (packages/session/turn_message.go and
  postgres_turn_messages.go), the AG-UI messages they carry (packages/go-contract/agui/messages.go), and the
  projector that makes the messages of a run from its output events (sessionapi/agui_turn_projector.go,
  agui_turn_message_build.go, agui_turn_tool_calls.go, turn_messages.go).

  \<open>MessageCodec\<close> stands for the SDK's validation of a message and for its JSON. The projector's maps are
  partial functions; a pointer to an entry is its key, and every change writes the entry back. The mutex is
  held for the whole of each of its operations.
\<close>

section \<open>AG-UI messages\<close>

record AguiToolCall =
  tc_ID :: string
  tc_Type :: string
  tc_Name :: string
  tc_Arguments :: string

record AguiMessage =
  am_ID :: string
  am_Role :: string
  am_Content :: string
  am_ToolCalls :: "AguiToolCall list"
  am_ToolCallID :: string

record MessageCodec =
  mc_Validate :: "AguiMessage \<Rightarrow> go_error option"
  mc_Marshal :: "AguiMessage \<Rightarrow> string result"
  mc_Unmarshal :: "string \<Rightarrow> AguiMessage result"
  mc_Valid :: "string \<Rightarrow> bool"

definition NormalizeMessage :: "MessageCodec \<Rightarrow> AguiMessage \<Rightarrow> AguiMessage result" where
  "NormalizeMessage cd message =
     (let message = message\<lparr>am_ID := TrimSpace (am_ID message), am_Role := TrimSpace (am_Role message)\<rparr> in
      case mc_Validate cd message of Some e \<Rightarrow> Inl e | None \<Rightarrow> Inr message)"

definition MessageFromRaw :: "MessageCodec \<Rightarrow> string \<Rightarrow> AguiMessage result" where
  "MessageFromRaw cd raw = (case mc_Unmarshal cd raw of Inl e \<Rightarrow> Inl e | Inr message \<Rightarrow> NormalizeMessage cd message)"

definition MessageRaw :: "MessageCodec \<Rightarrow> AguiMessage \<Rightarrow> string result" where
  "MessageRaw cd message = (case NormalizeMessage cd message of Inl e \<Rightarrow> Inl e | Inr normalized \<Rightarrow> mc_Marshal cd normalized)"

definition TextMessage :: "MessageCodec \<Rightarrow> string \<Rightarrow> string \<Rightarrow> string \<Rightarrow> AguiMessage result" where
  "TextMessage cd i role t = NormalizeMessage cd
     \<lparr>am_ID = TrimSpace i, am_Role = TrimSpace role, am_Content = t, am_ToolCalls = [], am_ToolCallID = []\<rparr>"

definition AssistantMessage :: "MessageCodec \<Rightarrow> string \<Rightarrow> string \<Rightarrow> AguiToolCall list \<Rightarrow> AguiMessage result" where
  "AssistantMessage cd i content toolCalls = NormalizeMessage cd
     \<lparr>am_ID = TrimSpace i, am_Role = ''assistant'', am_Content = content, am_ToolCalls = toolCalls, am_ToolCallID = []\<rparr>"

definition ToolMessage :: "MessageCodec \<Rightarrow> string \<Rightarrow> string \<Rightarrow> string \<Rightarrow> AguiMessage result" where
  "ToolMessage cd i toolCallID content = NormalizeMessage cd
     \<lparr>am_ID = TrimSpace i, am_Role = ''tool'', am_Content = content, am_ToolCalls = [], am_ToolCallID = TrimSpace toolCallID\<rparr>"

section \<open>Stored messages\<close>

record TurnMessage =
  tm_SessionID :: string
  tm_TurnID :: string
  tm_RunID :: string
  tm_MessageID :: string
  tm_Message :: string
  tm_Sequence :: int
  tm_CreatedAt :: time

definition invalid_message :: "go_error \<Rightarrow> go_error" where
  "invalid_message e = GrpcError InvalidArgument (''message is invalid: '' @ err_message e)"

definition NormalizeTurnMessage :: "MessageCodec \<Rightarrow> TurnMessage \<Rightarrow> TurnMessage result" where
  "NormalizeTurnMessage cd message =
     (let message = message\<lparr>tm_SessionID := TrimSpace (tm_SessionID message), tm_TurnID := TrimSpace (tm_TurnID message),
            tm_RunID := TrimSpace (tm_RunID message), tm_MessageID := TrimSpace (tm_MessageID message)\<rparr> in
      if tm_SessionID message = [] then Inl (GrpcError InvalidArgument ''session_id is required'')
      else if tm_Sequence message < 0 then Inl (GrpcError InvalidArgument ''sequence is invalid'')
      else if tm_Message message = [] then Inl (GrpcError InvalidArgument ''message is required'')
      else if \<not> mc_Valid cd (tm_Message message) then Inl (GrpcError InvalidArgument ''message is invalid'')
      else case MessageFromRaw cd (tm_Message message) of Inl e \<Rightarrow> Inl (invalid_message e)
        | Inr aguiMessage \<Rightarrow>
          (case MessageRaw cd aguiMessage of Inl e \<Rightarrow> Inl (invalid_message e)
           | Inr normalized \<Rightarrow>
             Inr (message\<lparr>tm_Message := normalized,
                    tm_MessageID := (if tm_MessageID message = [] then am_ID aguiMessage else tm_MessageID message)\<rparr>)))"

text \<open>
  The table \<open>platform_session_turn_messages\<close>, keyed by session and message: its rows, without the column
  \<open>updated_at\<close>, which nothing reads. PostgreSQL keeps a time in microseconds.
\<close>

type_synonym turn_table = "TurnMessage list"

definition same_message :: "TurnMessage \<Rightarrow> TurnMessage \<Rightarrow> bool" where
  "same_message m r \<longleftrightarrow> tm_SessionID r = tm_SessionID m \<and> tm_MessageID r = tm_MessageID m"

definition upsert_row :: "TurnMessage \<Rightarrow> turn_table \<Rightarrow> turn_table" where
  "upsert_row m rows =
     (if \<exists>r \<in> set rows. same_message m r
      then map (\<lambda>r. if same_message m r
             then r\<lparr>tm_TurnID := tm_TurnID m, tm_RunID := tm_RunID m, tm_Message := tm_Message m, tm_Sequence := tm_Sequence m\<rparr>
             else r) rows
      else rows @ [m])"

definition UpsertTurnMessage :: "MessageCodec \<Rightarrow> senv \<Rightarrow> TurnMessage \<Rightarrow> turn_table \<Rightarrow> unit result \<times> turn_table" where
  "UpsertTurnMessage cd env message rows =
     doTx env (\<lambda>rows.
       case NormalizeTurnMessage cd message of Inl e \<Rightarrow> (Inl e, rows)
       | Inr normalized \<Rightarrow>
         let createdAt = (if time_is_zero (tm_CreatedAt normalized) then se_now env else tm_CreatedAt normalized) in
         case se_exec env of Some e \<Rightarrow> (Inl e, rows)
         | None \<Rightarrow> (Inr (), upsert_row (normalized\<lparr>tm_CreatedAt := createdAt div 1000 * 1000\<rparr>) rows)) rows"

section \<open>The messages of a turn\<close>

definition newAGUITurnMessage ::
  "MessageCodec \<Rightarrow> string \<Rightarrow> string \<Rightarrow> string \<Rightarrow> string \<Rightarrow> AguiMessage \<Rightarrow> int \<Rightarrow> TurnMessage result" where
  "newAGUITurnMessage cd sessionID turnID runID messageID message sequence =
     (case MessageRaw cd message of Inl e \<Rightarrow> Inl e
      | Inr raw \<Rightarrow> NormalizeTurnMessage cd
          \<lparr>tm_SessionID = sessionID, tm_TurnID = turnID, tm_RunID = runID, tm_MessageID = messageID,
           tm_Message = raw, tm_Sequence = sequence, tm_CreatedAt = 0\<rparr>)"

definition newTextTurnMessage ::
  "MessageCodec \<Rightarrow> string \<Rightarrow> string \<Rightarrow> string \<Rightarrow> string \<Rightarrow> string \<Rightarrow> string \<Rightarrow> int \<Rightarrow> TurnMessage result" where
  "newTextTurnMessage cd sessionID turnID runID messageID role t sequence =
     (case TextMessage cd messageID role t of Inl e \<Rightarrow> Inl e
      | Inr payload \<Rightarrow> newAGUITurnMessage cd sessionID turnID runID messageID payload sequence)"

definition newAssistantTurnMessage ::
  "MessageCodec \<Rightarrow> string \<Rightarrow> string \<Rightarrow> string \<Rightarrow> string \<Rightarrow> string \<Rightarrow> AguiToolCall list \<Rightarrow> int \<Rightarrow> TurnMessage result" where
  "newAssistantTurnMessage cd sessionID turnID runID messageID t toolCalls sequence =
     (case AssistantMessage cd messageID t toolCalls of Inl e \<Rightarrow> Inl e
      | Inr payload \<Rightarrow> newAGUITurnMessage cd sessionID turnID runID messageID payload sequence)"

definition newToolTurnMessage ::
  "MessageCodec \<Rightarrow> string \<Rightarrow> string \<Rightarrow> string \<Rightarrow> string \<Rightarrow> string \<Rightarrow> string \<Rightarrow> int \<Rightarrow> TurnMessage result" where
  "newToolTurnMessage cd sessionID turnID runID messageID toolCallID content sequence =
     (case ToolMessage cd messageID toolCallID content of Inl e \<Rightarrow> Inl e
      | Inr payload \<Rightarrow> newAGUITurnMessage cd sessionID turnID runID messageID payload sequence)"

text \<open>The regular expression \<open>-attempt-[0-9]+$\<close> matches at most once, at the end.\<close>

definition is_digit :: "char \<Rightarrow> bool" where
  "is_digit c \<longleftrightarrow> (48::nat) \<le> of_char c \<and> of_char c \<le> (57::nat)"

definition turnIDFromRunID :: "string \<Rightarrow> string" where
  "turnIDFromRunID runID =
     (let r = TrimSpace runID; digits = takeWhile is_digit (rev r); base = rev (drop (length digits) (rev r)) in
      if digits \<noteq> [] \<and> HasSuffix base ''-attempt-'' then take (length base - 9) base else r)"

definition persistentAGUIMessageID :: "string \<Rightarrow> string \<Rightarrow> string \<Rightarrow> string" where
  "persistentAGUIMessageID role runID messageID =
     (let role = TrimSpace role; role = (if role = [] then ''assistant'' else role) in
      role @ ''-'' @ TrimSpace runID @ ''-'' @ TrimSpace messageID)"

section \<open>The projector\<close>

record OutputEvent =
  oe_SessionID :: string
  oe_RunID :: string
  oe_Output :: "RunOutput option"

record aguiTextMessage =
  xm_sessionID :: string
  xm_runID :: string
  xm_messageID :: string
  xm_role :: string
  xm_text :: string
  xm_toolCalls :: "AguiToolCall list"
  xm_sequence :: int
  xm_lastSeq :: int

record aguiToolCallState =
  xt_toolCallID :: string
  xt_parentMessageID :: string
  xt_name :: string
  xt_args :: string
  xt_lastSeq :: int

record TurnProjector =
  tp_messages :: "string \<rightharpoonup> aguiTextMessage"
  tp_tools :: "string \<rightharpoonup> aguiToolCallState"

definition newAGUITurnMessageProjector :: TurnProjector where
  "newAGUITurnMessageProjector = \<lparr>tp_messages = Map.empty, tp_tools = Map.empty\<rparr>"

text \<open>\<open>aguiTextMessageKey\<close> and \<open>aguiToolCallKey\<close>, which agree, and \<open>event.Output.GetSequence()\<close>.\<close>

definition aguiTextMessageKey :: "OutputEvent \<Rightarrow> string \<Rightarrow> string" where
  "aguiTextMessageKey event messageID =
     TrimSpace (oe_SessionID event) @ ''/'' @ TrimSpace (oe_RunID event) @ ''/'' @ TrimSpace messageID"

definition aguiToolCallKey :: "OutputEvent \<Rightarrow> string \<Rightarrow> string" where
  "aguiToolCallKey event toolCallID =
     TrimSpace (oe_SessionID event) @ ''/'' @ TrimSpace (oe_RunID event) @ ''/'' @ TrimSpace toolCallID"

definition oe_seq :: "OutputEvent \<Rightarrow> int" where
  "oe_seq event = (case oe_Output event of None \<Rightarrow> 0 | Some o' \<Rightarrow> ro_sequence o')"

text \<open>A message that is not stored is \<open>Inr None\<close>.\<close>

definition buildAGUITurnMessage :: "MessageCodec \<Rightarrow> aguiTextMessage \<Rightarrow> TurnMessage option result" where
  "buildAGUITurnMessage cd m =
     (if TrimSpace (xm_text m) = [] \<and> xm_toolCalls m = [] then Inr None
      else
        let runID = TrimSpace (xm_runID m) in
        if runID = [] then Inr None
        else
          let messageID = persistentAGUIMessageID (xm_role m) runID (xm_messageID m) in
          map_sum id Some
            (if xm_role m = ''assistant''
             then newAssistantTurnMessage cd (xm_sessionID m) (turnIDFromRunID runID) runID messageID (xm_text m) (xm_toolCalls m) (xm_sequence m)
             else newTextTurnMessage cd (xm_sessionID m) (turnIDFromRunID runID) runID messageID (xm_role m) (xm_text m) (xm_sequence m)))"

definition put_message :: "string \<Rightarrow> aguiTextMessage \<Rightarrow> TurnProjector \<Rightarrow> TurnProjector" where
  "put_message key m p = p\<lparr>tp_messages := (tp_messages p)(key \<mapsto> m)\<rparr>"

definition put_tool :: "string \<Rightarrow> aguiToolCallState \<Rightarrow> TurnProjector \<Rightarrow> TurnProjector" where
  "put_tool key t p = p\<lparr>tp_tools := (tp_tools p)(key \<mapsto> t)\<rparr>"

definition ensureMessageLocked :: "OutputEvent \<Rightarrow> string \<Rightarrow> TurnProjector \<Rightarrow> aguiTextMessage \<times> TurnProjector" where
  "ensureMessageLocked event messageID p =
     (let key = aguiTextMessageKey event messageID in
      case tp_messages p key of Some m \<Rightarrow> (m, p)
      | None \<Rightarrow>
        let m = \<lparr>xm_sessionID = oe_SessionID event, xm_runID = oe_RunID event, xm_messageID = messageID, xm_role = ''assistant'',
                 xm_text = [], xm_toolCalls = [], xm_sequence = i64 (oe_seq event), xm_lastSeq = 0\<rparr>
        in (m, put_message key m p))"

definition projector_start :: "OutputEvent \<Rightarrow> string \<Rightarrow> string \<Rightarrow> TurnProjector \<Rightarrow> TurnProjector" where
  "projector_start event messageID role p =
     (if messageID = [] then p
      else
        let role = (if role = [] then ''assistant'' else role); key = aguiTextMessageKey event messageID in
        case tp_messages p key of
          Some m \<Rightarrow>
            put_message key (m\<lparr>xm_sessionID := oe_SessionID event, xm_runID := oe_RunID event, xm_messageID := messageID, xm_role := role,
              xm_sequence := (if xm_sequence m = 0 \<or> i64 (oe_seq event) < xm_sequence m then i64 (oe_seq event) else xm_sequence m),
              xm_lastSeq := (if oe_seq event > xm_lastSeq m then oe_seq event else xm_lastSeq m)\<rparr>) p
        | None \<Rightarrow>
            put_message key \<lparr>xm_sessionID = oe_SessionID event, xm_runID = oe_RunID event, xm_messageID = messageID, xm_role = role,
              xm_text = [], xm_toolCalls = [], xm_sequence = i64 (oe_seq event), xm_lastSeq = oe_seq event\<rparr> p)"

definition projector_append ::
  "MessageCodec \<Rightarrow> OutputEvent \<Rightarrow> string \<Rightarrow> string \<Rightarrow> TurnProjector \<Rightarrow> TurnMessage option result \<times> TurnProjector" where
  "projector_append cd event messageID delta p =
     (if messageID = [] \<or> delta = [] then (Inr None, p)
      else
        let (m, p) = ensureMessageLocked event messageID p;
            m = (if oe_seq event > xm_lastSeq m then m\<lparr>xm_text := xm_text m @ delta, xm_lastSeq := oe_seq event\<rparr> else m)
        in (buildAGUITurnMessage cd m, put_message (aguiTextMessageKey event messageID) m p))"

definition projector_end ::
  "MessageCodec \<Rightarrow> OutputEvent \<Rightarrow> string \<Rightarrow> TurnProjector \<Rightarrow> TurnMessage option result \<times> TurnProjector" where
  "projector_end cd event messageID p =
     (if messageID = [] then (Inr None, p)
      else
        let key = aguiTextMessageKey event messageID in
        case tp_messages p key of None \<Rightarrow> (Inr None, p)
        | Some m \<Rightarrow> let m = m\<lparr>xm_lastSeq := oe_seq event\<rparr> in (buildAGUITurnMessage cd m, put_message key m p))"

definition ensureToolCallLocked :: "OutputEvent \<Rightarrow> string \<Rightarrow> TurnProjector \<Rightarrow> aguiToolCallState \<times> TurnProjector" where
  "ensureToolCallLocked event toolCallID p =
     (let key = aguiToolCallKey event toolCallID in
      case tp_tools p key of Some t \<Rightarrow> (t, p)
      | None \<Rightarrow>
        let t = \<lparr>xt_toolCallID = toolCallID, xt_parentMessageID = toolCallID, xt_name = [], xt_args = [], xt_lastSeq = 0\<rparr>
        in (t, put_tool key t p))"

definition toolCallStart :: "OutputEvent \<Rightarrow> string \<Rightarrow> string \<Rightarrow> string \<Rightarrow> TurnProjector \<Rightarrow> TurnProjector" where
  "toolCallStart event toolCallID toolCallName parentMessageID p =
     (if toolCallID = [] \<or> toolCallName = [] then p
      else
        let parentMessageID = (if parentMessageID = [] then toolCallID else parentMessageID);
            (tool, p) = ensureToolCallLocked event toolCallID p;
            tool = tool\<lparr>xt_parentMessageID := parentMessageID, xt_name := toolCallName,
              xt_lastSeq := (if oe_seq event > xt_lastSeq tool then oe_seq event else xt_lastSeq tool)\<rparr>
        in snd (ensureMessageLocked event parentMessageID (put_tool (aguiToolCallKey event toolCallID) tool p)))"

definition toolCallArgs :: "OutputEvent \<Rightarrow> string \<Rightarrow> string \<Rightarrow> TurnProjector \<Rightarrow> TurnProjector" where
  "toolCallArgs event toolCallID delta p =
     (if toolCallID = [] \<or> delta = [] then p
      else
        let (tool, p) = ensureToolCallLocked event toolCallID p in
        if oe_seq event > xt_lastSeq tool
        then put_tool (aguiToolCallKey event toolCallID) (tool\<lparr>xt_args := xt_args tool @ delta, xt_lastSeq := oe_seq event\<rparr>) p
        else p)"

fun upsertAGUIToolCall :: "AguiToolCall list \<Rightarrow> AguiToolCall \<Rightarrow> AguiToolCall list" where
  "upsertAGUIToolCall [] call = [call]"
| "upsertAGUIToolCall (c # calls) call = (if tc_ID c = tc_ID call then call # calls else c # upsertAGUIToolCall calls call)"

definition tool_call :: "aguiToolCallState \<Rightarrow> AguiToolCall" where
  "tool_call tool = \<lparr>tc_ID = xt_toolCallID tool, tc_Type = ''function'', tc_Name = xt_name tool, tc_Arguments = xt_args tool\<rparr>"

definition add_tool_call ::
  "MessageCodec \<Rightarrow> OutputEvent \<Rightarrow> string \<Rightarrow> aguiToolCallState \<Rightarrow> TurnProjector \<Rightarrow> TurnMessage option result \<times> TurnProjector" where
  "add_tool_call cd event parentMessageID tool p =
     (let (m, p) = ensureMessageLocked event parentMessageID p;
          m = m\<lparr>xm_toolCalls := upsertAGUIToolCall (xm_toolCalls m) (tool_call tool)\<rparr>
      in (buildAGUITurnMessage cd m, put_message (aguiTextMessageKey event parentMessageID) m p))"

definition toolCallEnd ::
  "MessageCodec \<Rightarrow> OutputEvent \<Rightarrow> string \<Rightarrow> TurnProjector \<Rightarrow> TurnMessage option result \<times> TurnProjector" where
  "toolCallEnd cd event toolCallID p =
     (if toolCallID = [] then (Inr None, p)
      else
        let key = aguiToolCallKey event toolCallID in
        case tp_tools p key of None \<Rightarrow> (Inr None, p)
        | Some tool \<Rightarrow>
          if xt_name tool = [] then (Inr None, p)
          else
            let p = p\<lparr>tp_tools := (tp_tools p)(key := None)\<rparr>;
                parentMessageID = (if xt_parentMessageID tool = [] then xt_toolCallID tool else xt_parentMessageID tool)
            in add_tool_call cd event parentMessageID tool p)"

definition toolCallChunk ::
  "MessageCodec \<Rightarrow> OutputEvent \<Rightarrow> string \<Rightarrow> string \<Rightarrow> string \<Rightarrow> string \<Rightarrow> TurnProjector \<Rightarrow> TurnMessage option result \<times> TurnProjector" where
  "toolCallChunk cd event toolCallID toolCallName parentMessageID delta p =
     (if toolCallID = [] then (Inr None, p)
      else
        let (tool, p) = ensureToolCallLocked event toolCallID p;
            tool = (if parentMessageID \<noteq> [] then tool\<lparr>xt_parentMessageID := parentMessageID\<rparr> else tool);
            tool = (if toolCallName \<noteq> [] then tool\<lparr>xt_name := toolCallName\<rparr> else tool);
            tool = (if delta \<noteq> [] \<and> oe_seq event > xt_lastSeq tool
                    then tool\<lparr>xt_args := xt_args tool @ delta, xt_lastSeq := oe_seq event\<rparr> else tool);
            p = put_tool (aguiToolCallKey event toolCallID) tool p
        in if xt_name tool = [] then (Inr None, p)
           else add_tool_call cd event (xt_parentMessageID tool) tool p)"

definition toolResult ::
  "MessageCodec \<Rightarrow> OutputEvent \<Rightarrow> string \<Rightarrow> string \<Rightarrow> string \<Rightarrow> TurnMessage option result" where
  "toolResult cd event messageID toolCallID content =
     (if messageID = [] \<or> toolCallID = [] then Inr None
      else
        let runID = TrimSpace (oe_RunID event) in
        if runID = [] then Inr None
        else map_sum id Some (newToolTurnMessage cd (oe_SessionID event) (turnIDFromRunID runID) runID
               (persistentAGUIMessageID ''tool'' runID messageID) toolCallID content (i64 (oe_seq event))))"

definition projector_Apply ::
  "MessageCodec \<Rightarrow> OutputEvent \<Rightarrow> TurnProjector \<Rightarrow> TurnMessage option result \<times> TurnProjector" where
  "projector_Apply cd event p =
     (case oe_Output event of None \<Rightarrow> (Inr None, p)
      | Some output \<Rightarrow>
        (case ro_event output of None \<Rightarrow> (Inr None, p)
         | Some struct \<Rightarrow>
           let kind = agui_EventType (Some output); field = GetStringValue (Some struct); name = (\<lambda>f. TrimSpace (field f)) in
           if kind = ''TEXT_MESSAGE_START'' then (Inr None, projector_start event (name ''messageId'') (name ''role'') p)
           else if kind = ''TEXT_MESSAGE_CONTENT'' then projector_append cd event (name ''messageId'') (field ''delta'') p
           else if kind = ''TEXT_MESSAGE_END'' then projector_end cd event (name ''messageId'') p
           else if kind = ''TOOL_CALL_START'' then
             (Inr None, toolCallStart event (name ''toolCallId'') (name ''toolCallName'') (name ''parentMessageId'') p)
           else if kind = ''TOOL_CALL_ARGS'' then (Inr None, toolCallArgs event (name ''toolCallId'') (field ''delta'') p)
           else if kind = ''TOOL_CALL_END'' then toolCallEnd cd event (name ''toolCallId'') p
           else if kind = ''TOOL_CALL_CHUNK'' then
             toolCallChunk cd event (name ''toolCallId'') (name ''toolCallName'') (name ''parentMessageId'') (field ''delta'') p
           else if kind = ''TOOL_CALL_RESULT'' then
             (toolResult cd event (name ''messageId'') (name ''toolCallId'') (field ''content''), p)
           else (Inr None, p)))"

definition drop_prefixed :: "string \<Rightarrow> (string \<rightharpoonup> 'a) \<Rightarrow> (string \<rightharpoonup> 'a)" where
  "drop_prefixed pre m = (\<lambda>key. if HasPrefix key pre then None else m key)"

definition clearRun :: "string \<Rightarrow> string \<Rightarrow> TurnProjector \<Rightarrow> TurnProjector" where
  "clearRun sessionID runID p =
     (let pre = TrimSpace sessionID @ ''/'' @ TrimSpace runID @ ''/'' in
      if TrimSpace runID = [] \<or> pre = ''//'' then p
      else p\<lparr>tp_messages := drop_prefixed pre (tp_messages p), tp_tools := drop_prefixed pre (tp_tools p)\<rparr>)"

section \<open>The server\<close>

text \<open>
  The consumers of the output events and of the terminal results, over the projector and the table; the
  server has both a projector and a store of messages.
\<close>

type_synonym transcript = "TurnProjector \<times> turn_table"

definition recordAssistantTurnMessage ::
  "MessageCodec \<Rightarrow> senv \<Rightarrow> OutputEvent \<Rightarrow> transcript \<Rightarrow> go_error option \<times> transcript" where
  "recordAssistantTurnMessage cd env event tr = (case tr of (p, rows) \<Rightarrow>
     if oe_Output event = None then (None, tr)
     else
       (case projector_Apply cd event p of
          (Inl e, p) \<Rightarrow> (Some e, p, rows)
        | (Inr None, p) \<Rightarrow> (None, p, rows)
        | (Inr (Some message), p) \<Rightarrow>
          (case UpsertTurnMessage cd env message rows of
             (Inl e, rows) \<Rightarrow> (Some e, p, rows) | (Inr _, rows) \<Rightarrow> (None, p, rows))))"

definition actionTurnID :: "ActionSpec option \<Rightarrow> string" where
  "actionTurnID spec = (case spec of None \<Rightarrow> []
     | Some a \<Rightarrow> if TrimSpace (as_turnId a) \<noteq> [] then TrimSpace (as_turnId a) else TrimSpace (as_actionId a))"

definition actionID :: "ActionSpec option \<Rightarrow> string" where
  "actionID spec = (case spec of None \<Rightarrow> [] | Some a \<Rightarrow> TrimSpace (as_actionId a))"

definition recordUserTurnMessage ::
  "MessageCodec \<Rightarrow> senv \<Rightarrow> string \<Rightarrow> ActionSpec option \<Rightarrow> RunRequest option \<Rightarrow> turn_table \<Rightarrow> go_error option \<times> turn_table" where
  "recordUserTurnMessage cd env sessionID spec request rows =
     (case request of None \<Rightarrow> (None, rows)
      | Some rq \<Rightarrow>
        let t = TrimSpace (case rq_input rq of None \<Rightarrow> [] | Some i \<Rightarrow> rin_text i); turnID = actionTurnID spec in
        if t = [] \<or> turnID = [] then (None, rows)
        else
          let runID = (if actionID spec = [] then turnID else actionID spec) in
          case newTextTurnMessage cd sessionID turnID runID (''user-'' @ turnID) ''user'' t 0 of
            Inl e \<Rightarrow> (Some e, rows)
          | Inr message \<Rightarrow>
            (case UpsertTurnMessage cd env message rows of (Inl e, rows) \<Rightarrow> (Some e, rows) | (Inr _, rows) \<Rightarrow> (None, rows)))"

text \<open>
  \<open>recordTerminalResult\<close>: the result is published through the runs, whose service is an argument, and then
  the projector forgets the run.
\<close>

definition recordTerminalResult ::
  "(string \<Rightarrow> RunResult \<Rightarrow> 'w \<Rightarrow> go_error option \<times> 'w) \<Rightarrow> string \<Rightarrow> string \<Rightarrow> RunResult option \<Rightarrow> TurnProjector \<Rightarrow> 'w \<Rightarrow>
     go_error option \<times> TurnProjector \<times> 'w" where
  "recordTerminalResult publishTerminal sessionID runID result p w =
     (case result of None \<Rightarrow> (None, p, w)
      | Some r \<Rightarrow>
        if TrimSpace runID = [] then (None, p, w)
        else case publishTerminal runID r w of
          (Some e, w) \<Rightarrow> (Some e, p, w) | (None, w) \<Rightarrow> (None, clearRun sessionID runID p, w))"

end
