(* ===== verification/Output_Laws.thy ===== *)
theory Output_Laws
  imports Output_Parsers Turn_Messages
begin

text \<open>
  What becomes of an answer on its way from a CLI to the transcript: the builder's outputs, projected in
  order, give the text the builder holds, as long as no synchronisation rewrites it; a rewriting one leaves
  the old text in the transcript, before the new. What redelivery does to the projection, and what an
  output does that comes after the result of its run.
\<close>

section \<open>Accumulated text\<close>

definition ta_value :: "textAccumulator \<Rightarrow> string" where
  "ta_value a = (if ta_dirty a then ta_text a @ concat (ta_segments a) else ta_text a)"

definition ta_wf :: "textAccumulator \<Rightarrow> bool" where
  "ta_wf a \<longleftrightarrow> ta_dirty a \<or> ta_segments a = []"

lemma Join_concat: "Join ps [] = concat ps"
  by (induction ps "[] :: string" rule: Join.induct) auto

lemma ta_String: "ta_String a = (s, a') \<Longrightarrow> s = ta_value a \<and> ta_value a' = ta_value a \<and> (ta_wf a \<longrightarrow> ta_wf a')"
  by (auto simp: ta_String_def ta_value_def ta_wf_def Join_concat Let_def split: if_splits)

lemma ta_Append: "ta_wf a \<Longrightarrow> ta_value (ta_Append t a) = ta_value a @ t \<and> ta_wf (ta_Append t a)"
  by (auto simp: ta_Append_def ta_value_def ta_wf_def)

lemma ta_Set: "ta_value (ta_Set t a) = t \<and> ta_wf (ta_Set t a)"
  by (auto simp: ta_Set_def ta_value_def ta_wf_def)

lemma ta_empty [simp]: "ta_value empty_text = []" "ta_wf empty_text"
  by (simp_all add: ta_value_def ta_wf_def empty_text_def)

definition answer :: "Builder \<Rightarrow> string" where
  "answer b = ta_value (b_assistantText b)"

definition builder_wf :: "Builder \<Rightarrow> bool" where
  "builder_wf b \<longleftrightarrow> ta_wf (b_assistantText b) \<and> ta_wf (b_reasoningText b)"

lemma builder_Snapshot_answer: "sn_AssistantText (fst (builder_Snapshot b)) = answer b"
  by (auto simp: builder_Snapshot_def read_text_def answer_def split: prod.splits dest: ta_String)

section \<open>UTF-8\<close>

lemma utf8_append: "utf8_from n x \<Longrightarrow> utf8_from n (x @ y) = utf8_from 0 y"
proof (induction n x rule: utf8_from.induct)
  case (3 c s)
  then show ?case by (auto simp: Let_def numeral_eq_Suc split: if_splits list.splits)
qed auto

lemma utf8_valid_drop: "utf8_valid x \<Longrightarrow> utf8_valid t \<Longrightarrow> HasPrefix t x \<Longrightarrow> utf8_valid (drop (length x) t)"
  unfolding utf8_valid_def HasPrefix_prefix prefix_def using utf8_append by auto

lemma utf8_valid_append: "utf8_valid x \<Longrightarrow> utf8_valid y \<Longrightarrow> utf8_valid (x @ y)"
  unfolding utf8_valid_def using utf8_append by auto

lemma utf8_valid_Nil [simp]: "utf8_valid []"
  by (simp add: utf8_valid_def)

section \<open>The protocol\<close>

text \<open>
  What the SDK is relied on for: the type of an event's struct is the event's, the struct of a text event
  has its message and its delta, and the text events the builder makes of valid UTF-8 are accepted.
\<close>

fun event_type :: "AguiEvent \<Rightarrow> string" where
  "event_type (TextMessageStartEvent i r) = ''TEXT_MESSAGE_START''"
| "event_type (TextMessageContentEvent i d) = ''TEXT_MESSAGE_CONTENT''"
| "event_type (TextMessageEndEvent i) = ''TEXT_MESSAGE_END''"
| "event_type (ReasoningStartEvent i) = ''REASONING_START''"
| "event_type (ReasoningMessageStartEvent i r) = ''REASONING_MESSAGE_START''"
| "event_type (ReasoningMessageContentEvent i d) = ''REASONING_MESSAGE_CONTENT''"
| "event_type (ReasoningMessageEndEvent i) = ''REASONING_MESSAGE_END''"
| "event_type (ReasoningEndEvent i) = ''REASONING_END''"
| "event_type (ToolCallStartEvent i n p) = ''TOOL_CALL_START''"
| "event_type (ToolCallArgsEvent i d) = ''TOOL_CALL_ARGS''"
| "event_type (ToolCallEndEvent i) = ''TOOL_CALL_END''"
| "event_type (ToolCallResultEvent m i c) = ''TOOL_CALL_RESULT''"
| "event_type (CustomEvent n v) = ''CUSTOM''"

fun answer_event :: "AguiEvent \<Rightarrow> bool" where
  "answer_event (TextMessageStartEvent i r) \<longleftrightarrow> i = assistantMessageID \<and> r = ''assistant''"
| "answer_event (TextMessageContentEvent i d) \<longleftrightarrow> i = assistantMessageID \<and> d \<noteq> [] \<and> utf8_valid d"
| "answer_event (TextMessageEndEvent i) \<longleftrightarrow> i = assistantMessageID"
| "answer_event e \<longleftrightarrow> False"

fun event_delta :: "AguiEvent \<Rightarrow> string" where
  "event_delta (TextMessageContentEvent i d) = d"
| "event_delta e = []"

fun is_text_event :: "AguiEvent \<Rightarrow> bool" where
  "is_text_event (TextMessageStartEvent i r) \<longleftrightarrow> True"
| "is_text_event (TextMessageContentEvent i d) \<longleftrightarrow> True"
| "is_text_event (TextMessageEndEvent i) \<longleftrightarrow> True"
| "is_text_event e \<longleftrightarrow> False"

definition agui_sdk_ok :: "AguiSDK \<Rightarrow> bool" where
  "agui_sdk_ok sdk \<longleftrightarrow>
     (\<forall>e ts fs. sdk_Struct sdk e ts = Inr fs \<longrightarrow> StringValue (Some fs) ''type'' = event_type e) \<and>
     (\<forall>e ts. answer_event e \<longrightarrow> sdk_Validate sdk e = None \<and>
        (\<exists>fs. sdk_Struct sdk e ts = Inr fs \<and> StringValue (Some fs) ''messageId'' = ev_messageId e \<and>
          (event_type e = ''TEXT_MESSAGE_CONTENT'' \<longrightarrow> StringValue (Some fs) ''delta'' = event_delta e)))"

text \<open>What an output adds to the answer.\<close>

definition output_delta :: "RunOutput \<Rightarrow> string" where
  "output_delta output =
     (if agui_EventType (Some output) = ''TEXT_MESSAGE_CONTENT'' \<and> TrimSpace (GetStringValue (ro_event output) ''messageId'') = assistantMessageID
      then GetStringValue (ro_event output) ''delta'' else [])"

lemma event_type_trim [simp]: "TrimSpace (event_type e) = event_type e"
  by (cases e) (simp_all add: TrimSpace_plain plain_char_def)

lemma assistantMessageID_trim [simp]: "TrimSpace assistantMessageID = assistantMessageID"
  by (simp add: TrimSpace_plain plain_char_def assistantMessageID_def)

lemma nextOutput_delta:
  assumes "agui_sdk_ok sdk" and "is_text_event e \<Longrightarrow> answer_event e"
  shows "output_delta (fst (nextOutput sdk at e b)) = event_delta e"
proof (cases "agui_RunOutput sdk (u64 (b_sequence b + 1)) at e")
  case (Inl err)
  have "\<not> answer_event e"
  proof
    assume "answer_event e"
    with assms(1) have "sdk_Validate sdk e = None" "\<exists>fs. sdk_Struct sdk e ts = Inr fs" for ts
      by (simp_all add: agui_sdk_ok_def) blast
    with Inl show False by (auto simp: agui_RunOutput_def EventStruct_def split: sum.splits) (metis sum.distinct(1))
  qed
  with assms(2) have "event_delta e = []" by (cases e) auto
  with Inl show ?thesis
    by (auto simp: nextOutput_def Let_def output_delta_def agui_EventType_def StructEventType_def GetStringValue_def
        StringValue_def payload_at_def CustomRunOutputInvalid_def TrimSpace_plain plain_char_def split: if_splits)
next
  case (Inr out)
  then obtain ts fs where fs: "sdk_Struct sdk e ts = Inr fs" "out = \<lparr>ro_sequence = u64 (b_sequence b + 1), ro_timestamp = Some at, ro_event = Some fs\<rparr>"
    by (auto simp: agui_RunOutput_def EventStruct_def split: option.splits sum.splits)
  have ty: "agui_EventType (Some out) = event_type e"
    using fs assms(1) by (auto simp: agui_sdk_ok_def agui_EventType_def StructEventType_def GetStringValue_def)
  show ?thesis
  proof (cases "is_text_event e")
    case True
    then have "answer_event e" by (rule assms(2))
    with assms(1) obtain fs' where "sdk_Struct sdk e ts = Inr fs'" "StringValue (Some fs') ''messageId'' = ev_messageId e"
      "event_type e = ''TEXT_MESSAGE_CONTENT'' \<longrightarrow> StringValue (Some fs') ''delta'' = event_delta e"
      unfolding agui_sdk_ok_def by blast
    with fs(1) have "StringValue (Some fs) ''messageId'' = ev_messageId e"
      "event_type e = ''TEXT_MESSAGE_CONTENT'' \<longrightarrow> StringValue (Some fs) ''delta'' = event_delta e" by simp_all
    with True assms(2) ty fs(2) Inr show ?thesis
      by (cases e) (auto simp: nextOutput_def Let_def output_delta_def GetStringValue_def)
  next
    case False
    with ty Inr show ?thesis by (cases e) (auto simp: nextOutput_def Let_def output_delta_def)
  qed
qed

section \<open>What the builder emits\<close>

text \<open>
  Some outputs are numbered on from the builder's counter, which stays below its 64 bits, and together add
  \<open>d\<close> to the answer.
\<close>

fun numbered :: "int \<Rightarrow> RunOutput list \<Rightarrow> bool" where
  "numbered n [] \<longleftrightarrow> True"
| "numbered n (out # outs) \<longleftrightarrow> ro_sequence out = n + 1 \<and> numbered (n + 1) outs"

lemma numbered_append: "numbered n (xs @ ys) \<longleftrightarrow> numbered n xs \<and> numbered (n + int (length xs)) ys"
  by (induction xs arbitrary: n) (auto simp: add.assoc add.commute)

definition same_texts :: "Builder \<Rightarrow> Builder \<Rightarrow> bool" where
  "same_texts b b' \<longleftrightarrow> b_assistantText b' = b_assistantText b \<and> b_reasoningText b' = b_reasoningText b"

definition emits :: "Builder \<Rightarrow> RunOutput list \<times> Builder \<Rightarrow> string \<Rightarrow> bool" where
  "emits b res d \<longleftrightarrow> (case res of (outs, b') \<Rightarrow>
     (0 \<le> b_sequence b \<and> b_sequence b + int (length outs) < 2 ^ 64 \<longrightarrow>
        b_sequence b' = b_sequence b + int (length outs) \<and> numbered (b_sequence b) outs) \<and>
     concat (map output_delta outs) = d \<and> same_texts b b')"

lemma same_texts_refl [simp]: "same_texts b b"
  by (simp add: same_texts_def)

lemma emits_none [simp]: "emits b ([], b) []"
  by (simp add: emits_def)

lemma emits_flags [simp]:
  "emits (set_open ch v b) res d \<longleftrightarrow> emits b res d"
  "emits (b\<lparr>b_reasoningPhaseOpen := v\<rparr>) res d \<longleftrightarrow> emits b res d"
  "emits b (outs, set_open ch v b') d \<longleftrightarrow> emits b (outs, b') d"
  "emits b (outs, b'\<lparr>b_reasoningPhaseOpen := v\<rparr>) d \<longleftrightarrow> emits b (outs, b') d"
  by (auto simp: emits_def same_texts_def set_open_def split: textChannel.splits)

lemma emits_append:
  assumes "emits b (o1, b1) d1" and "emits b1 (o2, b2) d2" shows "emits b (o1 @ o2, b2) (d1 @ d2)"
  using assms by (auto simp: emits_def numbered_append same_texts_def)

lemma emits_next:
  assumes "agui_sdk_ok sdk" and "is_text_event e \<Longrightarrow> answer_event e"
  shows "emits b (nextOutputs sdk at [e] b) (event_delta e)"
proof -
  obtain out b' where n: "nextOutput sdk at e b = (out, b')" by fastforce
  then have "b' = b\<lparr>b_sequence := u64 (b_sequence b + 1)\<rparr>" "ro_sequence out = u64 (b_sequence b + 1)"
    by (auto simp: nextOutput_def Let_def agui_RunOutput_def split: sum.splits)
  moreover have "u64 (b_sequence b + 1) = b_sequence b + 1" if "0 \<le> b_sequence b" "b_sequence b + 1 < 2 ^ 64"
    using that by (simp add: u64_def)
  moreover have "output_delta out = event_delta e" using nextOutput_delta [OF assms, of at b] n by simp
  ultimately show ?thesis using n by (simp add: emits_def same_texts_def)
qed

lemma nextOutputs_Cons:
  "nextOutputs sdk at (e # es) b = (case nextOutputs sdk at [e] b of (o1, b) \<Rightarrow> case nextOutputs sdk at es b of (o2, b) \<Rightarrow> (o1 @ o2, b))"
  by (simp split: prod.splits)

lemma emits_nexts:
  assumes "agui_sdk_ok sdk" and "list_all (\<lambda>e. is_text_event e \<longrightarrow> answer_event e) es"
  shows "emits b (nextOutputs sdk at es b) (concat (map event_delta es))"
  using assms(2)
proof (induction es arbitrary: b)
  case (Cons e es)
  obtain o1 b1 where 1: "nextOutputs sdk at [e] b = (o1, b1)" by fastforce
  obtain o2 b2 where 2: "nextOutputs sdk at es b1 = (o2, b2)" by fastforce
  have "emits b (o1, b1) (event_delta e)" using emits_next [OF assms(1), of e b at] Cons.prems 1 by simp
  moreover have "emits b1 (o2, b2) (concat (map event_delta es))" using Cons.IH [of b1] Cons.prems 2 by simp
  ultimately show ?case using 1 2 emits_append by (simp add: nextOutputs_Cons [of sdk at e es] del: nextOutputs.simps)
qed simp

text \<open>The events of the two routines.\<close>

definition text_ids_ok :: "textChannel \<Rightarrow> string \<Rightarrow> string \<Rightarrow> bool" where
  "text_ids_ok ch i role \<longleftrightarrow> (ch = textChannelAssistant \<longrightarrow> i = assistantMessageID \<and> role = ''assistant'')"

definition channel_delta :: "textChannel \<Rightarrow> string \<Rightarrow> string" where
  "channel_delta ch t = (if ch = textChannelAssistant then t else [])"

lemma emits_text:
  assumes "agui_sdk_ok sdk" and "text_ids_ok ch i role"
  shows "emits b (nextOutputs sdk at [startTextEvent ch i role] b) []"
    and "t \<noteq> [] \<Longrightarrow> utf8_valid t \<Longrightarrow> emits b (nextOutputs sdk at [contentTextEvent ch i t] b) (channel_delta ch t)"
    and "emits b (nextOutputs sdk at [endTextEvent ch i] b) []"
    and "emits b (nextOutputs sdk at [ReasoningStartEvent i] b) []"
    and "emits b (nextOutputs sdk at [ReasoningEndEvent i] b) []"
  using assms(2) emits_next [OF assms(1), of "startTextEvent ch i role" b at] emits_next [OF assms(1), of "contentTextEvent ch i t" b at]
    emits_next [OF assms(1), of "endTextEvent ch i" b at] emits_next [OF assms(1), of "ReasoningStartEvent i" b at]
    emits_next [OF assms(1), of "ReasoningEndEvent i" b at]
  by (cases ch; simp add: text_ids_ok_def startTextEvent_def contentTextEvent_def endTextEvent_def channel_delta_def del: nextOutputs.simps)+

lemma emits_opened:
  assumes "agui_sdk_ok sdk" and "text_ids_ok ch i role"
  shows "emits b (let b = set_open ch True b;
               (outputs, b) =
                 (if ch = textChannelReasoning \<and> \<not> b_reasoningPhaseOpen b
                  then nextOutputs sdk at [ReasoningStartEvent i] (b\<lparr>b_reasoningPhaseOpen := True\<rparr>)
                  else ([], b));
               (started, b) = nextOutputs sdk at [startTextEvent ch i role] b
           in (outputs @ started, b)) []"
proof -
  let ?b = "set_open ch True b"
  obtain o1 b1 where 1: "(if ch = textChannelReasoning \<and> \<not> b_reasoningPhaseOpen ?b
      then nextOutputs sdk at [ReasoningStartEvent i] (?b\<lparr>b_reasoningPhaseOpen := True\<rparr>) else ([], ?b)) = (o1, b1)" by fastforce
  have "emits b (o1, b1) []"
    using 1 emits_text(4) [OF assms, of "?b\<lparr>b_reasoningPhaseOpen := True\<rparr>" at] emits_none [of ?b]
    by (auto split: if_splits simp del: nextOutputs.simps emits_none)
  moreover obtain o2 b2 where 2: "nextOutputs sdk at [startTextEvent ch i role] b1 = (o2, b2)" by fastforce
  moreover have "emits b1 (o2, b2) []" using emits_text(1) [OF assms, of b1 at] 2 by simp
  ultimately show ?thesis using 1 emits_append by (fastforce simp: Let_def simp del: nextOutputs.simps)
qed

lemma emits_appendText:
  assumes "agui_sdk_ok sdk" and "text_ids_ok ch i role" and "utf8_valid t"
  shows "emits b (appendText sdk at ch i role t b) (channel_delta ch t)"
proof -
  obtain o1 b1 where 1: "(if is_open ch b then ([], b)
         else let b = set_open ch True b;
               (outputs, b) =
                 (if ch = textChannelReasoning \<and> \<not> b_reasoningPhaseOpen b
                  then nextOutputs sdk at [ReasoningStartEvent i] (b\<lparr>b_reasoningPhaseOpen := True\<rparr>)
                  else ([], b));
               (started, b) = nextOutputs sdk at [startTextEvent ch i role] b
           in (outputs @ started, b)) = (o1, b1)" by fastforce
  have "emits b (o1, b1) []"
  proof (cases "is_open ch b")
    case False
    with emits_opened [OF assms(1,2), of b at] 1 show ?thesis by (simp del: nextOutputs.simps)
  qed (use 1 in auto)
  moreover obtain o2 b2 where 2: "(if t \<noteq> [] then nextOutputs sdk at [contentTextEvent ch i t] b1 else ([], b1)) = (o2, b2)" by fastforce
  moreover have "emits b1 (o2, b2) (channel_delta ch t)"
    using emits_text(2) [OF assms(1,2) _ assms(3), of b1 at] 2 by (auto simp: channel_delta_def split: if_splits)
  ultimately show ?thesis using emits_append [of b o1 b1 "[]" o2 b2] 1
    unfolding appendText_def by (simp del: nextOutputs.simps)
qed

lemma emits_closeTextIfOpen:
  assumes "agui_sdk_ok sdk" and "text_ids_ok ch i role"
  shows "emits b (closeTextIfOpen sdk at ch i b) []"
proof (cases "is_open ch b")
  case True
  obtain o1 b1 where 1: "nextOutputs sdk at [endTextEvent ch i] (set_open ch False b) = (o1, b1)" by fastforce
  obtain o2 b2 where 2: "nextOutputs sdk at [ReasoningEndEvent i] (b1\<lparr>b_reasoningPhaseOpen := False\<rparr>) = (o2, b2)" by fastforce
  have "emits b (o1, b1) []" using emits_text(3) [OF assms, of "set_open ch False b" at] 1 by simp
  moreover have "emits b1 (o2, b2) []"
    using emits_text(5) [OF assms, of "b1\<lparr>b_reasoningPhaseOpen := False\<rparr>" at] 2 by simp
  ultimately show ?thesis using True 1 2 emits_append [of b o1 b1 "[]" o2 b2 "[]"]
    by (simp add: closeTextIfOpen_def del: nextOutputs.simps)
qed (simp add: closeTextIfOpen_def)

definition sync_delta :: "string \<Rightarrow> string \<Rightarrow> string" where
  "sync_delta cur t = (if t = [] \<or> t = cur then [] else if HasPrefix t cur then drop (length cur) t else t)"

lemma sync_delta_Nil [simp]: "sync_delta cur [] = []"
  by (simp add: sync_delta_def)

lemma emits_syncText:
  assumes "agui_sdk_ok sdk" and "text_ids_ok ch i role" and "utf8_valid t" and "utf8_valid cur"
  shows "emits (if t = [] \<or> t = cur then b else upd_text ch (ta_Set t) b) (syncText sdk t cur at ch i role close b)
    (channel_delta ch (sync_delta cur t))"
proof (cases "t = [] \<or> t = cur")
  case True
  with emits_closeTextIfOpen [OF assms(1,2), of b at] show ?thesis
    by (auto simp: syncText_def sync_delta_def channel_delta_def)
next
  case False
  let ?b = "upd_text ch (ta_Set t) b"
  have close: "emits b' (if close then closeTextIfOpen sdk at ch i b' else ([], b')) []" for b'
    using emits_closeTextIfOpen [OF assms(1,2)] by simp
  show ?thesis
  proof (cases "HasPrefix t cur")
    case True
    obtain o1 b1 where 1: "appendText sdk at ch i role (drop (length cur) t) ?b = (o1, b1)" by fastforce
    obtain o2 b2 where 2: "(if close then closeTextIfOpen sdk at ch i b1 else ([], b1)) = (o2, b2)" by fastforce
    have "utf8_valid (drop (length cur) t)" using assms(3,4) True by (simp add: utf8_valid_drop)
    with emits_appendText [OF assms(1,2), of _ ?b at] 1 have "emits ?b (o1, b1) (channel_delta ch (drop (length cur) t))" by metis
    with emits_append [OF this close [of b1, unfolded 2]] True False 1 2 show ?thesis
      by (simp add: syncText_def sync_delta_def Let_def)
  next
    case rewrite: False
    obtain o1 b1 where 1: "closeTextIfOpen sdk at ch i ?b = (o1, b1)" by fastforce
    obtain o2 b2 where 2: "appendText sdk at ch i role t b1 = (o2, b2)" by fastforce
    obtain o3 b3 where 3: "(if close then closeTextIfOpen sdk at ch i b2 else ([], b2)) = (o3, b3)" by fastforce
    have e: "emits ?b (o1, b1) []" "emits b1 (o2, b2) (channel_delta ch t)"
      using emits_closeTextIfOpen [OF assms(1,2), of ?b at] 1 emits_appendText [OF assms(1,2,3), of b1 at] 2 by simp_all
    from emits_append [OF emits_append [OF e] close [of b2, unfolded 3]] rewrite False 1 2 3 show ?thesis
      by (simp add: syncText_def sync_delta_def Let_def)
  qed
qed

section \<open>The operations\<close>

datatype BuilderOp = OpAppendAssistant string | OpSyncAssistant string | OpAppendReasoning string | OpSyncReasoning string
  | OpResultAssistant string | OpResultReasoning string | OpTurnUsage json_fields | OpLLMUsage json_fields
  | OpToolCall string string string

definition opt_output :: "RunOutput option \<times> Builder \<Rightarrow> RunOutput list \<times> Builder" where
  "opt_output = map_prod (\<lambda>o'. case o' of None \<Rightarrow> [] | Some out \<Rightarrow> [out]) id"

fun run_op :: "AguiSDK \<Rightarrow> JsonLib \<Rightarrow> time \<Rightarrow> BuilderOp \<Rightarrow> Builder \<Rightarrow> RunOutput list \<times> Builder" where
  "run_op sdk lib at (OpAppendAssistant t) b = AppendAssistant sdk t at b"
| "run_op sdk lib at (OpSyncAssistant t) b = SyncAssistant sdk t at b"
| "run_op sdk lib at (OpAppendReasoning t) b = AppendReasoning sdk t at b"
| "run_op sdk lib at (OpSyncReasoning t) b = SyncReasoning sdk t at b"
| "run_op sdk lib at (OpResultAssistant t) b = ResultAssistant sdk t at b"
| "run_op sdk lib at (OpResultReasoning t) b = ResultReasoning sdk t at b"
| "run_op sdk lib at (OpTurnUsage u) b = opt_output (builder_TurnUsage sdk u at b)"
| "run_op sdk lib at (OpLLMUsage u) b = opt_output (builder_LLMUsage sdk u at b)"
| "run_op sdk lib at (OpToolCall n i s) b = builder_ToolCall sdk lib n i s at b"

text \<open>What an operation adds to the transcript's answer, and the builder's answer after it.\<close>

fun op_delta :: "string \<Rightarrow> BuilderOp \<Rightarrow> string" where
  "op_delta cur (OpAppendAssistant t) = t"
| "op_delta cur (OpSyncAssistant t) = sync_delta cur t"
| "op_delta cur (OpResultAssistant t) = sync_delta cur t"
| "op_delta cur op = []"

fun op_answer :: "string \<Rightarrow> BuilderOp \<Rightarrow> string" where
  "op_answer cur (OpAppendAssistant t) = cur @ t"
| "op_answer cur (OpSyncAssistant t) = (if t = [] then cur else t)"
| "op_answer cur (OpResultAssistant t) = (if t = [] then cur else t)"
| "op_answer cur op = cur"

fun op_utf8 :: "BuilderOp \<Rightarrow> bool" where
  "op_utf8 (OpAppendAssistant t) = utf8_valid t"
| "op_utf8 (OpSyncAssistant t) = utf8_valid t"
| "op_utf8 (OpAppendReasoning t) = utf8_valid t"
| "op_utf8 (OpSyncReasoning t) = utf8_valid t"
| "op_utf8 (OpResultAssistant t) = utf8_valid t"
| "op_utf8 (OpResultReasoning t) = utf8_valid t"
| "op_utf8 op = True"

definition chan_text :: "textChannel \<Rightarrow> Builder \<Rightarrow> string" where
  "chan_text ch b = ta_value (case ch of textChannelAssistant \<Rightarrow> b_assistantText b | textChannelReasoning \<Rightarrow> b_reasoningText b)"

definition builder_good :: "Builder \<Rightarrow> bool" where
  "builder_good b \<longleftrightarrow> ta_wf (b_assistantText b) \<and> ta_wf (b_reasoningText b) \<and>
     utf8_valid (chan_text textChannelAssistant b) \<and> utf8_valid (chan_text textChannelReasoning b)"

definition op_step :: "Builder \<Rightarrow> RunOutput list \<times> Builder \<Rightarrow> string \<Rightarrow> string \<Rightarrow> bool" where
  "op_step b res d a \<longleftrightarrow> (case res of (outs, b') \<Rightarrow>
     (0 \<le> b_sequence b \<and> b_sequence b + int (length outs) < 2 ^ 64 \<longrightarrow>
        b_sequence b' = b_sequence b + int (length outs) \<and> numbered (b_sequence b) outs) \<and>
     concat (map output_delta outs) = d \<and> answer b' = a \<and> builder_good b')"

lemma answer_chan: "chan_text textChannelAssistant b = answer b"
  by (simp add: chan_text_def answer_def)

lemma op_step_emits:
  "emits b1 res d \<Longrightarrow> b_sequence b1 = b_sequence b \<Longrightarrow> builder_good b1 \<Longrightarrow> a = answer b1 \<Longrightarrow> op_step b res d a"
  by (auto simp: emits_def op_step_def same_texts_def builder_good_def chan_text_def answer_def)

lemma read_text_keeps:
  assumes "read_text ch b = (cur, b1)" and "builder_good b"
  shows "cur = chan_text ch b" "b_sequence b1 = b_sequence b" "builder_good b1" "chan_text ch' b1 = chan_text ch' b"
    "answer b1 = answer b"
  using assms by (auto simp: read_text_def builder_good_def chan_text_def answer_def upd_text_def
      split: textChannel.splits prod.splits dest: ta_String)

lemma upd_append_keeps:
  "builder_good b \<Longrightarrow> utf8_valid t \<Longrightarrow> b_sequence (upd_text ch (ta_Append t) b) = b_sequence b \<and>
     builder_good (upd_text ch (ta_Append t) b) \<and> answer (upd_text ch (ta_Append t) b) = answer b @ channel_delta ch t"
  by (auto simp: upd_text_def builder_good_def chan_text_def answer_def channel_delta_def ta_Append utf8_valid_append split: textChannel.splits)

lemma upd_set_keeps:
  "builder_good b \<Longrightarrow> utf8_valid t \<Longrightarrow> b_sequence (upd_text ch (ta_Set t) b) = b_sequence b \<and>
     builder_good (upd_text ch (ta_Set t) b) \<and> answer (upd_text ch (ta_Set t) b) = (if ch = textChannelAssistant then t else answer b)"
  by (auto simp: upd_text_def builder_good_def chan_text_def answer_def ta_Set split: textChannel.splits)

lemma text_ids [simp]:
  "text_ids_ok textChannelAssistant assistantMessageID ''assistant''" "text_ids_ok textChannelReasoning i role"
  by (simp_all add: text_ids_ok_def)

lemma syncText_step:
  assumes "agui_sdk_ok sdk" and "text_ids_ok ch i role" and "utf8_valid t" and "builder_good b"
    and r: "read_text ch b = (cur, b1)"
  shows "op_step b (syncText sdk t cur at ch i role close b1) (channel_delta ch (sync_delta (chan_text ch b) t))
    (if ch = textChannelAssistant \<and> t \<noteq> [] then t else answer b)"
proof -
  note k = read_text_keeps [OF r assms(4)]
  have "utf8_valid cur" using k(1) assms(4) by (cases ch) (auto simp: builder_good_def)
  note e = emits_syncText [OF assms(1,2,3) this, of b1 at close]
  show ?thesis
    unfolding k(1) [symmetric] by (rule op_step_emits [OF e])
      (use k upd_set_keeps [OF k(3) assms(3), of ch] in \<open>auto simp: answer_chan\<close>)
qed

lemma appendText_step:
  assumes "agui_sdk_ok sdk" and "text_ids_ok ch i role" and "utf8_valid t" and "builder_good b"
  shows "op_step b (appendText sdk at ch i role t (upd_text ch (ta_Append t) b)) (channel_delta ch t) (answer b @ channel_delta ch t)"
  using upd_append_keeps [OF assms(4,3), of ch] by (intro op_step_emits [OF emits_appendText [OF assms(1-3)]]) auto

lemma op_step_none: "builder_good b \<Longrightarrow> b_sequence b1 = b_sequence b \<Longrightarrow> builder_good b1 \<Longrightarrow> answer b1 = answer b \<Longrightarrow> op_step b ([], b1) [] (answer b)"
  by (simp add: op_step_def)

lemma usage_step:
  assumes "agui_sdk_ok sdk" and "builder_good b"
  shows "op_step b (opt_output (builder_usage sdk name payload at b)) [] (answer b)"
  using emits_next [OF assms(1), of "CustomEvent name payload" b at] assms(2)
  by (auto simp: builder_usage_def opt_output_def Let_def op_step_none intro!: op_step_emits split: prod.splits)

lemma toolCall_step:
  assumes "agui_sdk_ok sdk" and "builder_good b"
  shows "op_step b (builder_ToolCall sdk lib n i s at b) [] (answer b)"
proof (cases "TrimSpace n = []")
  case True
  with assms(2) show ?thesis by (simp add: builder_ToolCall_def op_step_none)
next
  case False
  let ?b = "if TrimSpace i = [] then b\<lparr>b_toolSequence := u64 (b_toolSequence b + 1)\<rparr> else b"
  have k: "b_sequence ?b = b_sequence b" "builder_good ?b" "answer b = answer ?b"
    using assms(2) by (auto simp: builder_good_def chan_text_def answer_def)
  have "emits ?b (builder_ToolCall sdk lib n i s at b) []"
    using False emits_nexts [OF assms(1), of "[ToolCallStartEvent c m assistantMessageID, ToolCallArgsEvent c d, ToolCallEndEvent c,
        ToolCallResultEvent x c y]" ?b at for c m d x y]
    by (simp add: builder_ToolCall_def Let_def del: nextOutputs.simps)
  from op_step_emits [OF this k] show ?thesis .
qed

lemma assistantResult_step:
  assumes "agui_sdk_ok sdk" and "builder_good b"
  shows "op_step b (ResultAssistant sdk [] at b) [] (answer b)"
proof -
  obtain cur b1 where r: "read_text textChannelAssistant b = (cur, b1)" by fastforce
  note k = read_text_keeps [OF r assms(2)]
  have "b1\<lparr>b_assistantOpen := False\<rparr> = set_open textChannelAssistant False b1" by (simp add: set_open_def)
  with emits_text(3) [OF assms(1) text_ids(1), of "set_open textChannelAssistant False b1" at]
  have "emits b1 (nextOutputs sdk at [TextMessageEndEvent assistantMessageID] (b1\<lparr>b_assistantOpen := False\<rparr>)) []"
    by (simp add: endTextEvent_def del: nextOutputs.simps)
  from op_step_emits [OF this k(2,3)] k show ?thesis
    using op_step_none [OF assms(2) k(2,3,5)] r by (simp add: ResultAssistant_def del: nextOutputs.simps)
qed

lemma reasoningResult_step:
  assumes "agui_sdk_ok sdk" and "builder_good b"
  shows "op_step b (ResultReasoning sdk [] at b) [] (answer b)"
proof -
  obtain cur b1 where r: "read_text textChannelReasoning b = (cur, b1)" by fastforce
  note k = read_text_keeps [OF r assms(2)]
  from op_step_emits [OF emits_closeTextIfOpen [OF assms(1) text_ids(2)] k(2,3)] k show ?thesis
    using op_step_none [OF assms(2) k(2,3,5)] r by (simp add: ResultReasoning_def)
qed

lemma run_op_law:
  assumes "agui_sdk_ok sdk" and "builder_good b" and "op_utf8 op"
  shows "op_step b (run_op sdk lib at op b) (op_delta (answer b) op) (op_answer (answer b) op)"
proof -
  note sync = syncText_step [OF assms(1) text_ids(1) _ assms(2)] syncText_step [OF assms(1) text_ids(2) _ assms(2)]
  note app = appendText_step [OF assms(1) text_ids(1) _ assms(2)] appendText_step [OF assms(1) text_ids(2) _ assms(2)]
  note defs = SyncAssistant_def SyncReasoning_def AppendAssistant_def AppendReasoning_def channel_delta_def answer_chan
  show ?thesis
  proof (cases op)
    case (OpSyncAssistant t)
    obtain cur b1 where r: "read_text textChannelAssistant b = (cur, b1)" by fastforce
    from OpSyncAssistant assms(3) sync(1) [OF _ r, of t at False] r show ?thesis
      by (cases "t = []") (simp_all add: defs)
  next
    case (OpResultAssistant t)
    obtain cur b1 where r: "read_text textChannelAssistant b = (cur, b1)" by fastforce
    from OpResultAssistant assms(3) sync(1) [OF _ r, of t at True] assistantResult_step [OF assms(1,2), of at] r show ?thesis
      by (cases "t = []") (simp_all add: ResultAssistant_def channel_delta_def answer_chan)
  next
    case (OpResultReasoning t)
    obtain cur b1 where r: "read_text textChannelReasoning b = (cur, b1)" by fastforce
    from OpResultReasoning assms(3) sync(2) [OF _ r, of t at _ _ True] reasoningResult_step [OF assms(1,2), of at] r show ?thesis
      by (cases "t = []") (simp_all add: ResultReasoning_def channel_delta_def)
  qed (use assms sync app usage_step [OF assms(1,2)] toolCall_step [OF assms(1,2)] in
      \<open>auto simp: defs builder_TurnUsage_def builder_LLMUsage_def op_step_none split: prod.splits\<close>)
qed

section \<open>The projection\<close>

definition text_of :: "TurnProjector \<Rightarrow> string \<Rightarrow> string" where
  "text_of p key = (case tp_messages p key of None \<Rightarrow> [] | Some m \<Rightarrow> xm_text m)"

definition last_of :: "TurnProjector \<Rightarrow> string \<Rightarrow> int" where
  "last_of p key = (case tp_messages p key of None \<Rightarrow> 0 | Some m \<Rightarrow> xm_lastSeq m)"

definition output_event :: "string \<Rightarrow> string \<Rightarrow> RunOutput \<Rightarrow> OutputEvent" where
  "output_event sid rid out = \<lparr>oe_SessionID = sid, oe_RunID = rid, oe_Output = Some out\<rparr>"

definition answer_key :: "string \<Rightarrow> string \<Rightarrow> string" where
  "answer_key sid rid = TrimSpace sid @ ''/'' @ TrimSpace rid @ ''/'' @ assistantMessageID"

fun project :: "MessageCodec \<Rightarrow> string \<Rightarrow> string \<Rightarrow> RunOutput list \<Rightarrow> TurnProjector \<Rightarrow> TurnProjector" where
  "project cd sid rid [] p = p"
| "project cd sid rid (out # outs) p = project cd sid rid outs (snd (projector_Apply cd (output_event sid rid out) p))"

lemma answer_key_iff:
  "aguiTextMessageKey (output_event sid rid out) m = answer_key sid rid \<longleftrightarrow> TrimSpace m = assistantMessageID"
  by (simp add: aguiTextMessageKey_def output_event_def answer_key_def)

text \<open>What each operation of the projector does to one message's text and last number.\<close>

lemma put_views [simp]:
  "text_of (put_message key m p) k = (if k = key then xm_text m else text_of p k)"
  "last_of (put_message key m p) k = (if k = key then xm_lastSeq m else last_of p k)"
  "text_of (put_tool key t p) k = text_of p k" "last_of (put_tool key t p) k = last_of p k"
  "text_of (p\<lparr>tp_tools := ts\<rparr>) k = text_of p k" "last_of (p\<lparr>tp_tools := ts\<rparr>) k = last_of p k"
  by (simp_all add: text_of_def last_of_def put_message_def put_tool_def)

lemma ensureMessage_views:
  "ensureMessageLocked ev m p = (x, p') \<Longrightarrow> text_of p' k = text_of p k \<and> last_of p' k = last_of p k \<and>
     xm_text x = text_of p (aguiTextMessageKey ev m) \<and> xm_lastSeq x = last_of p (aguiTextMessageKey ev m)"
proof (cases "tp_messages p (aguiTextMessageKey ev m)")
  case None
  then have "text_of p (aguiTextMessageKey ev m) = []" "last_of p (aguiTextMessageKey ev m) = 0"
    by (simp_all add: text_of_def last_of_def)
  with None show "ensureMessageLocked ev m p = (x, p') \<Longrightarrow> ?thesis" by (auto simp: ensureMessageLocked_def Let_def)
qed (auto simp: ensureMessageLocked_def Let_def text_of_def last_of_def)

lemma ensureTool_views:
  "ensureToolCallLocked ev t p = (x, p') \<Longrightarrow> text_of p' k = text_of p k \<and> last_of p' k = last_of p k"
  by (auto simp: ensureToolCallLocked_def Let_def split: option.splits)

lemma add_tool_call_views:
  "text_of (snd (add_tool_call cd ev m t p)) k = text_of p k" "last_of (snd (add_tool_call cd ev m t p)) k = last_of p k"
  by (auto simp: add_tool_call_def Let_def split: prod.splits dest: ensureMessage_views)

lemma tool_views:
  "text_of (toolCallStart ev t n m p) k = text_of p k" "last_of (toolCallStart ev t n m p) k = last_of p k"
  "text_of (toolCallArgs ev t d p) k = text_of p k" "last_of (toolCallArgs ev t d p) k = last_of p k"
  "text_of (snd (toolCallEnd cd ev t p)) k = text_of p k" "last_of (snd (toolCallEnd cd ev t p)) k = last_of p k"
  "text_of (snd (toolCallChunk cd ev t n m d p)) k = text_of p k" "last_of (snd (toolCallChunk cd ev t n m d p)) k = last_of p k"
  by (auto simp: toolCallStart_def toolCallArgs_def toolCallEnd_def toolCallChunk_def Let_def add_tool_call_views
      split: prod.splits option.splits dest: ensureTool_views)
    (metis ensureMessage_views ensureTool_views prod.collapse put_views(3,4))+

lemma append_views:
  "text_of (snd (projector_append cd ev m d p)) k =
     (if m \<noteq> [] \<and> k = aguiTextMessageKey ev m \<and> last_of p k < oe_seq ev then text_of p k @ d else text_of p k)"
  "last_of (snd (projector_append cd ev m d p)) k =
     (if m \<noteq> [] \<and> d \<noteq> [] \<and> k = aguiTextMessageKey ev m \<and> last_of p k < oe_seq ev then oe_seq ev else last_of p k)"
  by (auto simp: projector_append_def Let_def split: prod.splits dest: ensureMessage_views)

lemma start_views:
  "text_of (projector_start ev m r p) k = text_of p k"
  "last_of (projector_start ev m r p) k \<le> max (last_of p k) (oe_seq ev)"
  by (auto simp: projector_start_def Let_def text_of_def last_of_def put_message_def split: option.splits)

lemma end_views:
  "text_of (snd (projector_end cd ev m p)) k = text_of p k"
  "last_of (snd (projector_end cd ev m p)) k \<le> max (last_of p k) (oe_seq ev)"
  by (auto simp: projector_end_def Let_def text_of_def last_of_def put_message_def split: option.splits)

lemma oe_seq_output [simp]: "oe_seq (output_event sid rid out) = ro_sequence out"
  by (simp add: oe_seq_def output_event_def)

lemma Apply_views:
  assumes "last_of p (answer_key sid rid) < ro_sequence out"
  shows "text_of (snd (projector_Apply cd (output_event sid rid out) p)) (answer_key sid rid) = text_of p (answer_key sid rid) @ output_delta out"
    and "last_of (snd (projector_Apply cd (output_event sid rid out) p)) (answer_key sid rid) \<le> ro_sequence out"
proof -
  let ?ev = "output_event sid rid out" and ?k = "answer_key sid rid"
  have oe: "oe_Output ?ev = Some out" by (simp add: output_event_def)
  have key: "?k = aguiTextMessageKey ?ev m \<longleftrightarrow> TrimSpace m = assistantMessageID" for m using answer_key_iff by metis
  have ne: "assistantMessageID \<noteq> []" by (simp add: assistantMessageID_def)
  have le: "last_of (projector_start ?ev m r p) ?k \<le> ro_sequence out" "last_of (snd (projector_end cd ?ev m p)) ?k \<le> ro_sequence out" for m r
    using start_views(2) [of ?ev m r p ?k] end_views(2) [of cd ?ev m p ?k] assms by simp_all
  show "text_of (snd (projector_Apply cd ?ev p)) ?k = text_of p ?k @ output_delta out"
  proof (cases "ro_event out")
    case None
    then show ?thesis by (simp add: projector_Apply_def oe output_delta_def agui_EventType_def StructEventType_def)
  next
    case (Some fs)
    with assms ne show ?thesis
      by (auto simp: projector_Apply_def oe output_delta_def Let_def append_views start_views end_views tool_views key)
  qed
  show "last_of (snd (projector_Apply cd ?ev p)) ?k \<le> ro_sequence out"
    using assms le by (auto simp: projector_Apply_def oe Let_def append_views tool_views split: option.splits)
qed

lemma project_numbered:
  "numbered n outs \<Longrightarrow> last_of p (answer_key sid rid) \<le> n \<Longrightarrow>
     text_of (project cd sid rid outs p) (answer_key sid rid) = text_of p (answer_key sid rid) @ concat (map output_delta outs) \<and>
     last_of (project cd sid rid outs p) (answer_key sid rid) \<le> n + int (length outs)"
proof (induction outs arbitrary: n p)
  case (Cons out outs)
  let ?p = "snd (projector_Apply cd (output_event sid rid out) p)"
  have "last_of p (answer_key sid rid) < ro_sequence out" using Cons.prems by simp
  note v = Apply_views [OF this, of cd]
  with Cons.prems Cons.IH [of "n + 1" ?p] show ?case by (simp add: add.assoc)
qed simp

section \<open>The answer and the transcript\<close>

fun run_ops :: "AguiSDK \<Rightarrow> JsonLib \<Rightarrow> (time \<times> BuilderOp) list \<Rightarrow> Builder \<Rightarrow> RunOutput list \<times> Builder" where
  "run_ops sdk lib [] b = ([], b)"
| "run_ops sdk lib ((at, op) # ops) b =
     (let (o1, b) = run_op sdk lib at op b; (o2, b) = run_ops sdk lib ops b in (o1 @ o2, b))"

fun op_deltas :: "string \<Rightarrow> BuilderOp list \<Rightarrow> string" where
  "op_deltas cur [] = []"
| "op_deltas cur (op # ops) = op_delta cur op @ op_deltas (op_answer cur op) ops"

definition op_answers :: "string \<Rightarrow> BuilderOp list \<Rightarrow> string" where
  "op_answers = foldl op_answer"

text \<open>No synchronisation rewrites the text that is there: each has it as its beginning.\<close>

fun op_keeps :: "string \<Rightarrow> BuilderOp \<Rightarrow> bool" where
  "op_keeps cur (OpSyncAssistant t) \<longleftrightarrow> t = [] \<or> HasPrefix t cur"
| "op_keeps cur (OpResultAssistant t) \<longleftrightarrow> t = [] \<or> HasPrefix t cur"
| "op_keeps cur op \<longleftrightarrow> True"

fun ops_keep :: "string \<Rightarrow> BuilderOp list \<Rightarrow> bool" where
  "ops_keep cur [] \<longleftrightarrow> True"
| "ops_keep cur (op # ops) \<longleftrightarrow> op_keeps cur op \<and> ops_keep (op_answer cur op) ops"

lemma op_keeps_delta: "op_keeps cur op \<Longrightarrow> op_answer cur op = cur @ op_delta cur op"
  by (cases op) (auto simp: sync_delta_def HasPrefix_prefix prefix_def)

lemma ops_keep_deltas: "ops_keep cur ops \<Longrightarrow> op_answers cur ops = cur @ op_deltas cur ops"
proof (induction ops arbitrary: cur)
  case (Cons op ops)
  then have "op_answers (op_answer cur op) ops = op_answer cur op @ op_deltas (op_answer cur op) ops" by simp
  with Cons.prems op_keeps_delta [of cur op] show ?case by (simp add: op_answers_def)
qed (simp add: op_answers_def)

lemma op_deltas_append: "op_deltas cur (xs @ ys) = op_deltas cur xs @ op_deltas (op_answers cur xs) ys"
  by (induction xs arbitrary: cur) (simp_all add: op_answers_def)

lemma op_step_append:
  "op_step b (o1, b1) d1 (answer b1) \<Longrightarrow> op_step b1 (o2, b2) d2 a \<Longrightarrow> op_step b (o1 @ o2, b2) (d1 @ d2) a"
  by (auto simp: op_step_def numbered_append)

lemma run_ops_step:
  assumes "agui_sdk_ok sdk" and "builder_good b" and "list_all op_utf8 (map snd ops)"
  shows "op_step b (run_ops sdk lib ops b) (op_deltas (answer b) (map snd ops)) (op_answers (answer b) (map snd ops))"
  using assms(2,3)
proof (induction ops arbitrary: b)
  case (Cons x ops)
  obtain at op where x: "x = (at, op)" by fastforce
  obtain o1 b1 where 1: "run_op sdk lib at op b = (o1, b1)" by fastforce
  obtain o2 b2 where 2: "run_ops sdk lib ops b1 = (o2, b2)" by fastforce
  have s: "op_step b (o1, b1) (op_delta (answer b) op) (op_answer (answer b) op)"
    using run_op_law [OF assms(1) Cons.prems(1), of op lib at] Cons.prems(2) x 1 by simp
  then have a: "answer b1 = op_answer (answer b) op" "builder_good b1" by (auto simp: op_step_def)
  have "op_step b1 (o2, b2) (op_deltas (answer b1) (map snd ops)) (op_answers (answer b1) (map snd ops))"
    using Cons.IH [OF a(2)] Cons.prems(2) 2 by simp
  with op_step_append [OF s [folded a(1)] this] show ?case by (simp add: x 1 2 a(1) op_answers_def)
qed (simp add: op_step_def op_answers_def)

lemma NewBuilder_good: "builder_good NewBuilder" "answer NewBuilder = []" "b_sequence NewBuilder = 0"
  by (simp_all add: builder_good_def chan_text_def answer_def NewBuilder_def)

lemma new_projector: "text_of newAGUITurnMessageProjector k = []" "last_of newAGUITurnMessageProjector k = 0"
  by (simp_all add: text_of_def last_of_def newAGUITurnMessageProjector_def)

text \<open>The transcript of a run's outputs, and what the builder says the answer is.\<close>

lemma transcript_of_ops:
  assumes "agui_sdk_ok sdk" and "list_all op_utf8 (map snd ops)" and "length (fst (run_ops sdk lib ops NewBuilder)) < 2 ^ 64"
  shows "text_of (project cd sid rid (fst (run_ops sdk lib ops NewBuilder)) newAGUITurnMessageProjector) (answer_key sid rid)
      = op_deltas [] (map snd ops)"
    and "sn_AssistantText (fst (builder_Snapshot (snd (run_ops sdk lib ops NewBuilder)))) = op_answers [] (map snd ops)"
proof -
  obtain outs b where r: "run_ops sdk lib ops NewBuilder = (outs, b)" by fastforce
  have "op_step NewBuilder (outs, b) (op_deltas [] (map snd ops)) (op_answers [] (map snd ops))"
    using run_ops_step [OF assms(1) NewBuilder_good(1) assms(2), of lib] r by (simp add: NewBuilder_good)
  with assms(3) r have "numbered 0 outs" "concat (map output_delta outs) = op_deltas [] (map snd ops)"
    "answer b = op_answers [] (map snd ops)"
    by (auto simp: op_step_def NewBuilder_good)
  then show "text_of (project cd sid rid (fst (run_ops sdk lib ops NewBuilder)) newAGUITurnMessageProjector) (answer_key sid rid)
      = op_deltas [] (map snd ops)"
    "sn_AssistantText (fst (builder_Snapshot (snd (run_ops sdk lib ops NewBuilder)))) = op_answers [] (map snd ops)"
    using project_numbered [of 0 outs newAGUITurnMessageProjector sid rid cd] r
    by (simp_all add: new_projector builder_Snapshot_answer)
qed

section \<open>How many outputs\<close>

lemma appendText_length: "appendText sdk at ch i role t b = (outs, b') \<Longrightarrow> length outs \<le> 3"
  by (auto simp: appendText_def Let_def split: prod.splits if_splits)

lemma closeText_length: "closeTextIfOpen sdk at ch i b = (outs, b') \<Longrightarrow> length outs \<le> 2"
  by (auto simp: closeTextIfOpen_def Let_def split: prod.splits if_splits)

lemma syncText_length: "syncText sdk t cur at ch i role close b = (outs, b') \<Longrightarrow> length outs \<le> 7"
  by (fastforce simp: syncText_def Let_def split: prod.splits if_splits dest: appendText_length closeText_length)

lemma run_op_length: "run_op sdk lib at op b = (outs, b') \<Longrightarrow> length outs \<le> 7"
  by (cases op) (auto simp: AppendAssistant_def AppendReasoning_def SyncAssistant_def SyncReasoning_def ResultAssistant_def
      ResultReasoning_def builder_TurnUsage_def builder_LLMUsage_def builder_usage_def opt_output_def builder_ToolCall_def Let_def
      split: prod.splits if_splits dest!: appendText_length closeText_length syncText_length)

lemma run_ops_length: "length (fst (run_ops sdk lib ops b)) \<le> 7 * length ops"
  by (induction ops arbitrary: b) (auto split: prod.splits dest!: run_op_length, metis fst_conv add_le_mono)

text \<open>
  C17: the transcript is the answer: the outputs of any operations of the builder, none of which rewrites
  the answer that is there, project, in order, to a message with the answer that the builder's snapshot has.
\<close>

theorem transcript_is_answer:
  assumes "agui_sdk_ok sdk" and "list_all op_utf8 (map snd ops)" and "ops_keep [] (map snd ops)" and "length ops < 2 ^ 61"
  shows "text_of (project cd sid rid (fst (run_ops sdk lib ops NewBuilder)) newAGUITurnMessageProjector) (answer_key sid rid)
      = sn_AssistantText (fst (builder_Snapshot (snd (run_ops sdk lib ops NewBuilder))))"
proof -
  have "length (fst (run_ops sdk lib ops NewBuilder)) < 2 ^ 64" using run_ops_length [of sdk lib ops NewBuilder] assms(4) by simp
  with transcript_of_ops [OF assms(1,2)] ops_keep_deltas [OF assms(3)] show ?thesis by simp
qed

text \<open>
  A synchronisation that rewrites the answer leaves the old one in the transcript: after one whose text
  does not begin with the answer that is there, the transcript has the old answer and then the new, while
  the snapshot has the new.
\<close>

theorem rewritten_answer_stays:
  assumes "agui_sdk_ok sdk" and "list_all op_utf8 (map snd ops)" and "ops_keep [] (map snd ops)" and "length ops < 2 ^ 60"
    and "old = sn_AssistantText (fst (builder_Snapshot (snd (run_ops sdk lib ops NewBuilder))))"
    and "t \<noteq> []" and "utf8_valid t" and "\<not> HasPrefix t old"
    and "run_ops sdk lib (ops @ [(at, OpSyncAssistant t)]) NewBuilder = (outs, b)"
  shows "text_of (project cd sid rid outs newAGUITurnMessageProjector) (answer_key sid rid) = old @ t \<and>
    sn_AssistantText (fst (builder_Snapshot b)) = t"
proof -
  let ?ops = "ops @ [(at, OpSyncAssistant t)]"
  have len: "length (fst (run_ops sdk lib xs NewBuilder)) < 2 ^ 64" if "xs = ops \<or> xs = ?ops" for xs
    using run_ops_length [of sdk lib xs NewBuilder] assms(4) that by auto
  have u: "list_all op_utf8 (map snd ?ops)" using assms(2,7) by simp
  have "old = op_answers [] (map snd ops)" using transcript_of_ops(2) [OF assms(1,2) len] assms(5) by simp
  moreover have "t \<noteq> old" using assms(8) by (auto simp: HasPrefix_prefix)
  ultimately have "op_deltas [] (map snd ?ops) = old @ t" "op_answers [] (map snd ?ops) = t"
    using assms(6,8) ops_keep_deltas [OF assms(3)] by (simp_all add: op_deltas_append sync_delta_def) (simp add: op_answers_def)
  with transcript_of_ops [OF assms(1) u len] assms(9) show ?thesis by simp
qed

section \<open>Claude answers twice\<close>

text \<open>The lines of a turn: a delta that is streamed, the message it belongs to, and the result.\<close>

definition claude_streamed :: "string \<Rightarrow> json_object" where
  "claude_streamed t = Some [(''type'', JString ''stream_event''), (''event'', JObject
     [(''type'', JString ''content_block_delta''), (''delta'', JObject [(''type'', JString ''text_delta''), (''text'', JString t)])])]"

definition claude_message :: "string \<Rightarrow> json_object" where
  "claude_message t = Some [(''type'', JString ''assistant''), (''message'', JObject
     [(''content'', JArray [JObject [(''type'', JString ''text''), (''text'', JString t)]])])]"

definition claude_result :: "string \<Rightarrow> json_object" where
  "claude_result t = Some [(''type'', JString ''result''), (''result'', JString t)]"

definition claude_lines ::
  "AguiSDK \<Rightarrow> JsonLib \<Rightarrow> time \<Rightarrow> json_object list \<Rightarrow> ClaudeParser \<Rightarrow> RunOutput list \<times> ClaudeParser" where
  "claude_lines sdk lib at = each_output (\<lambda>payload. claude_parsePayload sdk lib payload at)"

lemma compact_Some [simp]: "compact_outputs (map Some xs) = xs"
  by (induction xs) auto

lemma compact_append [simp]: "compact_outputs (xs @ ys) = compact_outputs xs @ compact_outputs ys"
  by (induction xs rule: compact_outputs.induct) auto

lemmas json_access = StringValue_def MapValue_def SliceValue_def BoolValue_def payload_at_def

lemma claude_streamed_step:
  "claude_parsePayload sdk lib (claude_streamed t) at p = on_builder (run_op sdk lib at (OpAppendAssistant t)) p"
  by (simp add: claude_parsePayload_def claude_parseEvent_def claude_streamed_def json_access on_builder_def)

lemma claude_message_step:
  "claude_parsePayload sdk lib (claude_message t) at p = on_builder (run_op sdk lib at (OpSyncAssistant t)) p"
  by (simp add: claude_parsePayload_def claude_parseAssistant_def claude_message_def json_access claude_block_def block_of_def
      claude_turnUsage_def parser_turnUsage_def on_builder_def split: prod.splits)

lemma claude_result_step:
  assumes "p_finalizer p = NewFinalizer"
  shows "\<exists>p'. claude_parsePayload sdk lib (claude_result t) at p =
      (fst (run_ops sdk lib [(at, OpResultReasoning []), (at, OpResultAssistant t)] (p_builder p)), p') \<and>
    p_builder p' = snd (run_ops sdk lib [(at, OpResultReasoning []), (at, OpResultAssistant t)] (p_builder p))"
proof -
  obtain o1 b1 where 1: "ResultReasoning sdk [] at (p_builder p) = (o1, b1)" by fastforce
  obtain o2 b2 where 2: "ResultAssistant sdk t at b1 = (o2, b2)" by fastforce
  show ?thesis using assms 1 2
    by (auto simp: claude_parsePayload_def claude_parseResult_def claude_result_def json_access on_finalizer_def EmitReasoning_def
        EmitAssistant_def NewFinalizer_def claude_turnUsage_def parser_turnUsage_def Let_def split: prod.splits)
qed

lemma on_builder_run:
  "on_builder (run_op sdk lib at op) p = (fst (run_op sdk lib at op (p_builder p)), p\<lparr>p_builder := snd (run_op sdk lib at op (p_builder p))\<rparr>)"
  by (simp add: on_builder_def split: prod.splits)

definition claude_twice_ops :: "time \<Rightarrow> string \<Rightarrow> string \<Rightarrow> (time \<times> BuilderOp) list" where
  "claude_twice_ops at x y = [(at, OpAppendAssistant x), (at, OpSyncAssistant x), (at, OpAppendAssistant y), (at, OpSyncAssistant y),
     (at, OpResultReasoning []), (at, OpResultAssistant y)]"

lemma claude_twice:
  assumes "claude_lines sdk lib at [claude_streamed x, claude_message x, claude_streamed y, claude_message y, claude_result y] claude_New = (outs, p)"
  shows "run_ops sdk lib (claude_twice_ops at x y) NewBuilder = (outs, p_builder p)"
proof -
  let ?r = "\<lambda>op b. run_op sdk lib at op b"
  let ?b1 = "snd (?r (OpAppendAssistant x) NewBuilder)"
  let ?b2 = "snd (?r (OpSyncAssistant x) ?b1)"
  let ?b3 = "snd (?r (OpAppendAssistant y) ?b2)"
  let ?p = "claude_New\<lparr>p_builder := snd (?r (OpSyncAssistant y) ?b3)\<rparr>"
  obtain p' where "claude_parsePayload sdk lib (claude_result y) at ?p =
      (fst (run_ops sdk lib [(at, OpResultReasoning []), (at, OpResultAssistant y)] (p_builder ?p)), p')"
    "p_builder p' = snd (run_ops sdk lib [(at, OpResultReasoning []), (at, OpResultAssistant y)] (p_builder ?p))"
    using claude_result_step [of ?p sdk lib y at] by (auto simp: claude_New_def)
  with assms show ?thesis
    by (simp add: claude_lines_def claude_streamed_step claude_message_step on_builder_run claude_twice_ops_def
        claude_New_def Let_def case_prod_beta del: run_op.simps)
qed

text \<open>
  C31: when Claude answers twice in a turn, as it does around the use of a tool, the second answer is twice
  in the transcript: streamed as a continuation of the first, it is emitted again when its message arrives,
  whose text is the second answer only. The snapshot has the second answer alone.
\<close>

theorem claude_second_answer_twice:
  assumes "agui_sdk_ok sdk" and "x \<noteq> []" and "y \<noteq> []" and "utf8_valid x" and "utf8_valid y"
    and "claude_lines sdk lib at [claude_streamed x, claude_message x, claude_streamed y, claude_message y, claude_result y] claude_New
      = (outs, p)"
  shows "text_of (project cd sid rid outs newAGUITurnMessageProjector) (answer_key sid rid) = x @ y @ y \<and>
    sn_AssistantText (fst (parser_Snapshot p)) = y"
proof -
  let ?ops = "claude_twice_ops at x y"
  have u: "list_all op_utf8 (map snd ?ops)" using assms(4,5) by (simp add: claude_twice_ops_def)
  have r: "run_ops sdk lib ?ops NewBuilder = (outs, p_builder p)" by (rule claude_twice [OF assms(6)])
  have len: "length (fst (run_ops sdk lib ?ops NewBuilder)) < 2 ^ 64"
    using run_ops_length [of sdk lib ?ops NewBuilder] by (simp add: claude_twice_ops_def)
  have "\<not> HasPrefix y (x @ y)" using assms(2) by (auto simp: HasPrefix_prefix dest: prefix_length_le)
  then have "op_deltas [] (map snd ?ops) = x @ y @ y" "op_answers [] (map snd ?ops) = y"
    using assms(2,3) by (simp_all add: claude_twice_ops_def sync_delta_def HasPrefix_prefix op_answers_def)
  with transcript_of_ops(1) [OF assms(1) u len, of cd sid rid] transcript_of_ops(2) [OF assms(1) u len] r show ?thesis
    by (auto simp: parser_Snapshot_def on_builder_def split: prod.splits)
qed

section \<open>Redelivery\<close>

text \<open>Outputs that do not end a message never lower its last number, and a delta of the answer raises it.\<close>

definition not_end :: "RunOutput \<Rightarrow> bool" where
  "not_end out \<longleftrightarrow> agui_EventType (Some out) \<noteq> ''TEXT_MESSAGE_END''"

lemma start_raises: "0 \<le> oe_seq ev \<Longrightarrow> last_of p k \<le> last_of (projector_start ev m r p) k"
  by (auto simp: projector_start_def Let_def last_of_def put_message_def split: option.splits)

lemma Apply_raises:
  assumes "not_end out" and "0 \<le> last_of p (answer_key sid rid)" and "0 \<le> ro_sequence out"
  shows "last_of p (answer_key sid rid) \<le> last_of (snd (projector_Apply cd (output_event sid rid out) p)) (answer_key sid rid)"
    and "output_delta out \<noteq> [] \<Longrightarrow> ro_sequence out \<le> last_of (snd (projector_Apply cd (output_event sid rid out) p)) (answer_key sid rid)"
    and "output_delta out = [] \<or> ro_sequence out \<le> last_of p (answer_key sid rid) \<Longrightarrow>
      text_of (snd (projector_Apply cd (output_event sid rid out) p)) (answer_key sid rid) = text_of p (answer_key sid rid)"
proof -
  let ?ev = "output_event sid rid out" and ?k = "answer_key sid rid"
  have oe: "oe_Output ?ev = Some out" by (simp add: output_event_def)
  have key: "?k = aguiTextMessageKey ?ev m \<longleftrightarrow> TrimSpace m = assistantMessageID" for m using answer_key_iff by metis
  have ne: "assistantMessageID \<noteq> []" by (simp add: assistantMessageID_def)
  show "last_of p ?k \<le> last_of (snd (projector_Apply cd ?ev p)) ?k"
    using assms start_raises [of ?ev p ?k]
    by (auto simp: projector_Apply_def oe Let_def append_views tool_views not_end_def split: option.splits)
  show "ro_sequence out \<le> last_of (snd (projector_Apply cd ?ev p)) ?k" if "output_delta out \<noteq> []"
    using that ne by (cases "ro_event out")
      (auto simp: projector_Apply_def oe Let_def append_views key output_delta_def agui_EventType_def StructEventType_def split: if_splits)
  show "text_of (snd (projector_Apply cd ?ev p)) ?k = text_of p ?k" if "output_delta out = [] \<or> ro_sequence out \<le> last_of p ?k"
    using that by (cases "ro_event out")
      (auto simp: projector_Apply_def oe Let_def append_views start_views end_views tool_views key output_delta_def split: if_splits)
qed

lemma project_append: "project cd sid rid (xs @ ys) p = project cd sid rid ys (project cd sid rid xs p)"
  by (induction xs arbitrary: p) simp_all

lemma project_raises:
  assumes "list_all not_end outs" and "list_all (\<lambda>out. 0 \<le> ro_sequence out) outs" and "0 \<le> last_of p (answer_key sid rid)"
  shows "last_of p (answer_key sid rid) \<le> last_of (project cd sid rid outs p) (answer_key sid rid) \<and>
    list_all (\<lambda>out. output_delta out = [] \<or> ro_sequence out \<le> last_of (project cd sid rid outs p) (answer_key sid rid)) outs"
  using assms
proof (induction outs arbitrary: p)
  case (Cons out outs)
  let ?p = "snd (projector_Apply cd (output_event sid rid out) p)"
  have "not_end out" "0 \<le> ro_sequence out" using Cons.prems by simp_all
  note r = Apply_raises [OF this(1) Cons.prems(3) this(2), of cd]
  then have "0 \<le> last_of ?p (answer_key sid rid)" using Cons.prems(3) by simp
  with Cons.IH [of ?p] Cons.prems have "last_of ?p (answer_key sid rid) \<le> last_of (project cd sid rid outs ?p) (answer_key sid rid)"
    "list_all (\<lambda>out. output_delta out = [] \<or> ro_sequence out \<le> last_of (project cd sid rid outs ?p) (answer_key sid rid)) outs" by simp_all
  with r(1,2) show ?case by (cases "output_delta out = []") simp_all
qed simp

lemma project_settled:
  assumes "list_all not_end outs" and "list_all (\<lambda>out. 0 \<le> ro_sequence out) outs" and "0 \<le> last_of p (answer_key sid rid)"
    and "list_all (\<lambda>out. output_delta out = [] \<or> ro_sequence out \<le> last_of p (answer_key sid rid)) outs"
  shows "text_of (project cd sid rid outs p) (answer_key sid rid) = text_of p (answer_key sid rid)"
  using assms
proof (induction outs arbitrary: p)
  case (Cons out outs)
  let ?p = "snd (projector_Apply cd (output_event sid rid out) p)"
  have "not_end out" "0 \<le> ro_sequence out" using Cons.prems by simp_all
  note r = Apply_raises [OF this(1) Cons.prems(3) this(2), of cd]
  then have "0 \<le> last_of ?p (answer_key sid rid)" using Cons.prems(3) by simp
  moreover have "list_all (\<lambda>out. output_delta out = [] \<or> ro_sequence out \<le> last_of ?p (answer_key sid rid)) outs"
    using Cons.prems(4) r(1) by (auto simp: list_all_iff dest: order.trans)
  ultimately show ?case using Cons.IH [of ?p] Cons.prems r(3) by simp
qed simp


text \<open>
  C33: the end of a message that is delivered again opens the way for text that is: it sets the last number
  back to its own, so a later delta that was applied already is appended once more.
\<close>

theorem redelivered_end_repeats_text:
  assumes "tp_messages p (answer_key sid rid) = Some m" and "last_of p (answer_key sid rid) = ro_sequence out"
    and "ro_sequence stop < ro_sequence out"
    and "agui_EventType (Some stop) = ''TEXT_MESSAGE_END''" and "TrimSpace (GetStringValue (ro_event stop) ''messageId'') = assistantMessageID"
    and "agui_EventType (Some out) = ''TEXT_MESSAGE_CONTENT''"
  shows "text_of (project cd sid rid [out] p) (answer_key sid rid) = text_of p (answer_key sid rid) \<and>
    text_of (project cd sid rid [stop, out] p) (answer_key sid rid) = text_of p (answer_key sid rid) @ output_delta out"
proof -
  let ?k = "answer_key sid rid" and ?p = "snd (projector_Apply cd (output_event sid rid stop) p)"
  have key: "aguiTextMessageKey (output_event sid rid stop) assistantMessageID = ?k" by (simp add: answer_key_iff)
  have ne: "assistantMessageID \<noteq> []" by (simp add: assistantMessageID_def)
  obtain fs where fs: "ro_event stop = Some fs" using assms(4) by (cases "ro_event stop") (auto simp: agui_EventType_def StructEventType_def)
  have e: "?p = snd (projector_end cd (output_event sid rid stop) assistantMessageID p)"
    using assms(4,5) fs by (simp add: projector_Apply_def output_event_def Let_def)
  have "last_of ?p ?k = ro_sequence stop" "text_of ?p ?k = text_of p ?k"
    using assms(1) key ne unfolding e by (simp_all add: projector_end_def Let_def end_views) (simp add: text_of_def)
  moreover from this have "text_of (project cd sid rid [stop, out] p) ?k = text_of ?p ?k @ output_delta out"
    using Apply_views(1) [of ?p sid rid out cd] assms(3) by simp
  moreover have "text_of (project cd sid rid [out] p) ?k = text_of p ?k"
    using assms(2,6) answer_key_iff [of sid rid out] append_views(1)
    by (cases "ro_event out") (auto simp: projector_Apply_def output_event_def Let_def append_views oe_seq_def)
  ultimately show ?thesis by simp
qed

section \<open>Outputs after the result\<close>

text \<open>
  C32: a delta that arrives after the result of its run, which another consumer reads from another stream,
  replaces the stored answer by the delta: the projector has forgotten the run, and makes a message of the
  delta alone, under the identifier of the message with the whole answer.
\<close>

theorem late_output_replaces_answer:
  assumes "oe_Output ev = Some out" and "ro_event out = Some fs" and "agui_EventType (Some out) = ''TEXT_MESSAGE_CONTENT''"
    and "m = TrimSpace (GetStringValue (Some fs) ''messageId'')" and "m \<noteq> []"
    and "delta = GetStringValue (Some fs) ''delta''" and "TrimSpace delta \<noteq> []" and "TrimSpace (oe_RunID ev) \<noteq> []"
    and "tp_messages p (aguiTextMessageKey ev m) = Some x" and "xm_role x = ''assistant''" and "xm_messageID x = m"
    and "xm_sessionID x = oe_SessionID ev" and "xm_runID x = oe_RunID ev"
    and "xm_lastSeq x < ro_sequence out" and "0 < ro_sequence out" and "TrimSpace (xm_text x @ delta) \<noteq> []"
  shows "fst (projector_Apply cd ev p) = map_sum id Some (newAssistantTurnMessage cd (oe_SessionID ev)
      (turnIDFromRunID (TrimSpace (oe_RunID ev))) (TrimSpace (oe_RunID ev)) (persistentAGUIMessageID ''assistant'' (TrimSpace (oe_RunID ev)) m)
      (xm_text x @ delta) (xm_toolCalls x) (xm_sequence x)) \<and>
    fst (projector_Apply cd ev (clearRun (oe_SessionID ev) (oe_RunID ev) p)) = map_sum id Some (newAssistantTurnMessage cd (oe_SessionID ev)
      (turnIDFromRunID (TrimSpace (oe_RunID ev))) (TrimSpace (oe_RunID ev)) (persistentAGUIMessageID ''assistant'' (TrimSpace (oe_RunID ev)) m)
      delta [] (i64 (ro_sequence out)))"
proof -
  let ?q = "clearRun (oe_SessionID ev) (oe_RunID ev) p"
  have "HasPrefix (aguiTextMessageKey ev m) (TrimSpace (oe_SessionID ev) @ ''/'' @ TrimSpace (oe_RunID ev) @ ''/'')"
    by (simp add: aguiTextMessageKey_def HasPrefix_prefix)
  moreover have "TrimSpace (oe_SessionID ev) @ ''/'' @ TrimSpace (oe_RunID ev) @ ''/'' \<noteq> ''//''"
    using assms(8) by (cases "TrimSpace (oe_SessionID ev)") auto
  ultimately have "tp_messages ?q (aguiTextMessageKey ev m) = None"
    using assms(8) by (simp add: clearRun_def drop_prefixed_def Let_def)
  moreover have "oe_seq ev = ro_sequence out" using assms(1) by (simp add: oe_seq_def)
  moreover have "delta \<noteq> []" using assms(7) by auto
  ultimately show ?thesis using assms
    by (simp add: projector_Apply_def projector_append_def ensureMessageLocked_def buildAGUITurnMessage_def Let_def)
qed

end
