(* ===== verification/Output_Sidecar.thy ===== *)
theory Output_Sidecar
  imports Output_Parsers Run_Jobs
begin

text \<open>
  The sidecar beside a CLI (deploy/agents/sidecars/cli-output/internal/app and internal/events): its state
  around the parser, with the accumulator file that is written at most every 250 ms; the loop over the lines
  of the FIFO; the watcher that turns the terminal file into the result of the run; the publisher with its
  three subjects; and the two calls of its service.

  The files are functions of a world \<open>'w\<close>, and so is the publication of a message on a subject
  (\<open>proto.Marshal\<close> and JetStream). The scanner splits the FIFO into lines of at most 1 MiB: the loop takes the
  lines with their times, and the error the scanner stops with.
\<close>

section \<open>The publisher\<close>

datatype RunStatusPhase = PhaseUnspecified | PhaseStarting | PhaseParserReady | PhaseRunning | PhaseStopping
  | PhaseCompleted | PhaseFailed | PhaseCancelled

datatype RunMessage =
    RunDeltaEvent string string RunOutput
  | RunResultOutput string string RunOutput
  | RunResultTerminal string string RunResult
  | RunStatusEvent string string RunStatusPhase int string

text \<open>\<open>publish\<close>: a subject and a message. Its errors are those of the connection and of JetStream.\<close>

type_synonym 'w publish_call = "string \<Rightarrow> RunMessage \<Rightarrow> 'w \<Rightarrow> go_error option \<times> 'w"

datatype Publisher = NoopPublisher | JetStreamPublisher (pub_sessionID: string) (pub_runID: string)

definition NewPublisher :: "SidecarConfig \<Rightarrow> Publisher result" where
  "NewPublisher cfg =
     (if TrimSpace (sc_NATSURL cfg) = [] then Inr NoopPublisher
      else if TrimSpace (sc_RunID cfg) = [] \<or> TrimSpace (sc_SessionID cfg) = [] then
        Inl (PlainError ''cli-output-sidecar/events: session_id and run_id are required when nats is enabled'')
      else Inr (JetStreamPublisher (TrimSpace (sc_SessionID cfg)) (TrimSpace (sc_RunID cfg))))"

definition run_subjectToken :: "string \<Rightarrow> string" where
  "run_subjectToken value =
     (let n = ReplaceAll (ReplaceAll (ReplaceAll (TrimSpace value) ''.'' ''_'') ''*'' ''_'') ''>'' ''_''
      in if n = [] then ''_'' else n)"

definition deltaSubject :: "string \<Rightarrow> string \<Rightarrow> string" where
  "deltaSubject sessionID runID = ''platform.run.delta.'' @ run_subjectToken sessionID @ ''.'' @ run_subjectToken runID"

definition resultSubject :: "string \<Rightarrow> string \<Rightarrow> string" where
  "resultSubject sessionID runID = ''platform.run.result.'' @ run_subjectToken sessionID @ ''.'' @ run_subjectToken runID"

definition statusSubject :: "string \<Rightarrow> string \<Rightarrow> string" where
  "statusSubject sessionID runID = ''platform.run.status.'' @ run_subjectToken sessionID @ ''.'' @ run_subjectToken runID"

definition isDelta :: "RunOutput \<Rightarrow> bool" where
  "isDelta output = IsRealtimeOutput (Some output)"

definition output_message :: "string \<Rightarrow> string \<Rightarrow> RunOutput \<Rightarrow> string \<times> RunMessage" where
  "output_message sid rid output =
     (if isDelta output then (deltaSubject sid rid, RunDeltaEvent sid rid output)
      else (resultSubject sid rid, RunResultOutput sid rid output))"

fun publish_each :: "'w publish_call \<Rightarrow> (string \<times> RunMessage) list \<Rightarrow> 'w \<Rightarrow> go_error option \<times> 'w" where
  "publish_each publish [] w = (None, w)"
| "publish_each publish ((subject, msg) # ms) w =
     (case publish subject msg w of (Some e, w) \<Rightarrow> (Some e, w) | (None, w) \<Rightarrow> publish_each publish ms w)"

definition PublishOutputs :: "'w publish_call \<Rightarrow> Publisher \<Rightarrow> RunOutput list \<Rightarrow> 'w \<Rightarrow> go_error option \<times> 'w" where
  "PublishOutputs publish p outputs w =
     (case p of NoopPublisher \<Rightarrow> (None, w)
      | JetStreamPublisher sid rid \<Rightarrow> publish_each publish (map (output_message sid rid) outputs) w)"

definition PublishStatus ::
  "'w publish_call \<Rightarrow> Publisher \<Rightarrow> RunStatusPhase \<Rightarrow> Snapshot \<Rightarrow> string \<Rightarrow> 'w \<Rightarrow> go_error option \<times> 'w" where
  "PublishStatus publish p phase snapshot message w =
     (case p of NoopPublisher \<Rightarrow> (None, w)
      | JetStreamPublisher sid rid \<Rightarrow>
          publish (statusSubject sid rid) (RunStatusEvent sid rid phase (sn_LastSequence snapshot) message) w)"

definition PublishTerminal :: "'w publish_call \<Rightarrow> Publisher \<Rightarrow> RunResult \<Rightarrow> 'w \<Rightarrow> go_error option \<times> 'w" where
  "PublishTerminal publish p result w =
     (case p of NoopPublisher \<Rightarrow> (None, w)
      | JetStreamPublisher sid rid \<Rightarrow> publish (resultSubject sid rid) (RunResultTerminal sid rid result) w)"

section \<open>The files\<close>

text \<open>What reading and decoding a file can fail with, as far as the watcher tells the failures apart.\<close>

datatype FileError = FileNotExist string | FileSyntax string | FileEOF | FileUnexpectedEOF | FileOther go_error

fun file_error :: "FileError \<Rightarrow> go_error" where
  "file_error (FileNotExist m) = PlainError m"
| "file_error (FileSyntax m) = PlainError m"
| "file_error FileEOF = PlainError ''EOF''"
| "file_error FileUnexpectedEOF = PlainError ''unexpected EOF''"
| "file_error (FileOther e) = e"

definition retryableTerminalResultError :: "FileError \<Rightarrow> bool" where
  "retryableTerminalResultError e = (case e of FileSyntax m \<Rightarrow> True | FileEOF \<Rightarrow> True | FileUnexpectedEOF \<Rightarrow> True | _ \<Rightarrow> False)"

text \<open>
  The volume the sidecar shares with the CLI: \<open>os.Stat\<close>, \<open>os.ReadFile\<close>, and the writing of a file through a
  temporary one (\<open>writeJSONFile\<close>, \<open>writeFile\<close>); \<open>json.Unmarshal\<close> into \<open>terminalState\<close>, and the \<open>Force\<close> that
  \<open>json.Unmarshal\<close> leaves in a \<open>stopState\<close>, whether or not it fails.
\<close>

record 'w SidecarFiles =
  sf_Stat :: "string \<Rightarrow> 'w \<Rightarrow> FileError option"
  sf_ReadFile :: "string \<Rightarrow> 'w \<Rightarrow> FileError + string"
  sf_WriteJSON :: "string \<Rightarrow> json \<Rightarrow> 'w \<Rightarrow> go_error option \<times> 'w"
  sf_ExitCode :: "string \<Rightarrow> FileError + int"
  sf_Force :: "string \<Rightarrow> bool"

definition snapshot_json :: "Snapshot \<Rightarrow> json" where
  "snapshot_json s = JObject [(''LastSequence'', json_int (sn_LastSequence s)), (''AssistantText'', JString (sn_AssistantText s)),
     (''ReasoningText'', JString (sn_ReasoningText s))]"

definition run_result :: "RunStatus \<Rightarrow> RunError option \<Rightarrow> RunResult" where
  "run_result status err = \<lparr>rr_status = status, rr_resumeToken = [], rr_error = err\<rparr>"

definition ResultFromTerminal ::
  "'w SidecarFiles \<Rightarrow> string \<Rightarrow> string \<Rightarrow> 'w \<Rightarrow> FileError + RunResult \<times> RunStatusPhase" where
  "ResultFromTerminal fs terminalPath stopPath w =
     (case sf_ReadFile fs terminalPath w of Inl e \<Rightarrow> Inl e
      | Inr body \<Rightarrow>
        (case sf_ExitCode fs body of Inl e \<Rightarrow> Inl e
         | Inr exitCode \<Rightarrow>
           let force = (case sf_ReadFile fs stopPath w of Inl e \<Rightarrow> False | Inr body \<Rightarrow> sf_Force fs body) in
           Inr (if exitCode = 0 then (run_result RunStatusCompleted None, PhaseCompleted)
                else if force then (run_result RunStatusInterrupted None, PhaseCancelled)
                else if sf_Stat fs stopPath w = None then (run_result RunStatusCancelled None, PhaseCancelled)
                else (run_result RunStatusFailed (Some \<lparr>re_code = ''cli_exit'',
                        re_message = ''CLI process exited with non-zero status'', re_retryable = False\<rparr>), PhaseFailed))))"

section \<open>The state around the parser\<close>

record SidecarState =
  ss_accumulatorPath :: string
  ss_parser :: CliParser
  ss_stopPath :: string
  ss_flushInterval :: duration
  ss_lastFlush :: time
  ss_dirty :: bool

definition accumulatorFlushInterval :: duration where "accumulatorFlushInterval = 250 * 1000000"

definition NewState :: "CliParser \<Rightarrow> string \<Rightarrow> string \<Rightarrow> SidecarState" where
  "NewState p accumulatorPath stopPath =
     \<lparr>ss_accumulatorPath = accumulatorPath, ss_parser = p, ss_stopPath = stopPath,
      ss_flushInterval = accumulatorFlushInterval, ss_lastFlush = 0, ss_dirty = False\<rparr>"

definition recordSnapshotLocked :: "time \<Rightarrow> bool \<Rightarrow> SidecarState \<Rightarrow> bool \<times> SidecarState" where
  "recordSnapshotLocked at force s =
     (if \<not> force \<and> \<not> time_is_zero (ss_lastFlush s) \<and> time_sub at (ss_lastFlush s) < ss_flushInterval s
      then (False, s\<lparr>ss_dirty := True\<rparr>)
      else (True, s\<lparr>ss_lastFlush := at, ss_dirty := False\<rparr>))"

definition state_Snapshot :: "SidecarState \<Rightarrow> Snapshot \<times> SidecarState" where
  "state_Snapshot s = (let (snapshot, p) = cli_Snapshot (ss_parser s) in (snapshot, s\<lparr>ss_parser := p\<rparr>))"

text \<open>The parsers of the registry never fail, so \<open>err\<close> of \<open>ParseLine\<close> is the accumulator's.\<close>

definition state_ParseLine ::
  "AguiSDK \<Rightarrow> JsonLib \<Rightarrow> LineDecoders \<Rightarrow> 'w SidecarFiles \<Rightarrow> string \<Rightarrow> time \<Rightarrow> SidecarState \<Rightarrow> 'w \<Rightarrow>
     RunOutput list result \<times> SidecarState \<times> 'w" where
  "state_ParseLine sdk lib ld fs line at s w =
     (let (outputs, p) = cli_ParseLine sdk lib ld line at (ss_parser s);
          (snapshot, s) = state_Snapshot (s\<lparr>ss_parser := p\<rparr>);
          (flush, s) = recordSnapshotLocked at False s in
      if flush then
        (case sf_WriteJSON fs (ss_accumulatorPath s) (snapshot_json snapshot) w of
           (Some e, w) \<Rightarrow> (Inl e, s, w) | (None, w) \<Rightarrow> (Inr outputs, s, w))
      else (Inr outputs, s, w))"

definition state_Flush :: "'w SidecarFiles \<Rightarrow> time \<Rightarrow> SidecarState \<Rightarrow> 'w \<Rightarrow> Snapshot result \<times> SidecarState \<times> 'w" where
  "state_Flush fs at s w =
     (let (snapshot, s) = state_Snapshot s;
          (flush, s) = recordSnapshotLocked at True s in
      if flush then
        (case sf_WriteJSON fs (ss_accumulatorPath s) (snapshot_json snapshot) w of
           (Some e, w) \<Rightarrow> (Inl e, s, w) | (None, w) \<Rightarrow> (Inr snapshot, s, w))
      else (Inr snapshot, s, w))"

text \<open>The time is written with nanoseconds, by a printer of the standard library that is not modelled.\<close>

definition state_RequestStop ::
  "'w SidecarFiles \<Rightarrow> (time \<Rightarrow> string) \<Rightarrow> bool \<Rightarrow> time \<Rightarrow> SidecarState \<Rightarrow> 'w \<Rightarrow> go_error option \<times> SidecarState \<times> 'w" where
  "state_RequestStop fs format_nano force at s w =
     (case state_Flush fs at s w of
        (Inl e, s, w) \<Rightarrow> (Some e, s, w)
      | (Inr _, s, w) \<Rightarrow>
        (let (e, w) = sf_WriteJSON fs (ss_stopPath s)
               (JObject [(''force'', JBool force), (''requested_at'', JString (format_nano at))]) w
         in (e, s, w)))"

section \<open>The service\<close>

definition service_GetAccumulator :: "SidecarState \<Rightarrow> Snapshot \<times> SidecarState" where
  "service_GetAccumulator s = state_Snapshot s"

definition service_Stop ::
  "'w SidecarFiles \<Rightarrow> 'w publish_call \<Rightarrow> (time \<Rightarrow> string) \<Rightarrow> Publisher \<Rightarrow> bool \<Rightarrow> time \<Rightarrow> SidecarState \<Rightarrow> 'w \<Rightarrow>
     bool result \<times> SidecarState \<times> 'w" where
  "service_Stop fs publish format_nano p force now s w =
     (case state_RequestStop fs format_nano force now s w of
        (Some e, s, w) \<Rightarrow> (Inl e, s, w)
      | (None, s, w) \<Rightarrow>
        (let (snapshot, s) = state_Snapshot s in
         case PublishStatus publish p PhaseStopping snapshot ''stop requested'' w of
           (Some e, w) \<Rightarrow> (Inl e, s, w) | (None, w) \<Rightarrow> (Inr True, s, w)))"

section \<open>The loops\<close>

fun consume_lines ::
  "AguiSDK \<Rightarrow> JsonLib \<Rightarrow> LineDecoders \<Rightarrow> 'w SidecarFiles \<Rightarrow> 'w publish_call \<Rightarrow> Publisher \<Rightarrow> (string \<times> time) list \<Rightarrow> bool \<Rightarrow>
     SidecarState \<Rightarrow> 'w \<Rightarrow> go_error option \<times> SidecarState \<times> 'w" where
  "consume_lines sdk lib ld fs publish p [] running s w = (None, s, w)"
| "consume_lines sdk lib ld fs publish p ((line, at) # rest) running s w =
     (case state_ParseLine sdk lib ld fs line at s w of
        (Inl e, s, w) \<Rightarrow> (Some e, s, w)
      | (Inr outputs, s, w) \<Rightarrow>
        if outputs = [] then consume_lines sdk lib ld fs publish p rest running s w
        else
          let (snapshot, s) = state_Snapshot s in
          (case (if running then (None, w) else PublishStatus publish p PhaseRunning snapshot ''running'' w) of
             (Some e, w) \<Rightarrow> (Some e, s, w)
           | (None, w) \<Rightarrow>
             (case PublishOutputs publish p outputs w of
                (Some e, w) \<Rightarrow> (Some e, s, w)
              | (None, w) \<Rightarrow> consume_lines sdk lib ld fs publish p rest True s w)))"

text \<open>\<open>consumeFIFO\<close> once the FIFO is open: the error is that of a line, or the scanner's.\<close>

definition consumeFIFO ::
  "AguiSDK \<Rightarrow> JsonLib \<Rightarrow> LineDecoders \<Rightarrow> 'w SidecarFiles \<Rightarrow> 'w publish_call \<Rightarrow> Publisher \<Rightarrow> (string \<times> time) list \<Rightarrow>
     go_error option \<Rightarrow> SidecarState \<Rightarrow> 'w \<Rightarrow> go_error option \<times> SidecarState \<times> 'w" where
  "consumeFIFO sdk lib ld fs publish p lines scanErr s w =
     (case consume_lines sdk lib ld fs publish p lines False s w of
        (Some e, s, w) \<Rightarrow> (Some e, s, w) | (None, s, w) \<Rightarrow> (scanErr, s, w))"

text \<open>
  The watcher, over the times of its ticks, at each of which the world may have changed; the first
  component tells whether it has returned, which is \<open>Some None\<close> when it has without an error.
\<close>

definition watch_tick ::
  "'w SidecarFiles \<Rightarrow> 'w publish_call \<Rightarrow> SidecarConfig \<Rightarrow> Publisher \<Rightarrow> time \<Rightarrow> SidecarState \<Rightarrow> 'w \<Rightarrow>
     go_error option option \<times> SidecarState \<times> 'w" where
  "watch_tick fs publish cfg p now s w =
     (case sf_Stat fs (sc_TerminalPath cfg) w of
        Some (FileNotExist m) \<Rightarrow> (None, s, w)
      | Some e \<Rightarrow> (Some (Some (file_error e)), s, w)
      | None \<Rightarrow>
        (case state_Flush fs now s w of
           (Inl e, s, w) \<Rightarrow> (Some (Some e), s, w)
         | (Inr snapshot, s, w) \<Rightarrow>
           (case ResultFromTerminal fs (sc_TerminalPath cfg) (sc_StopPath cfg) w of
              Inl e \<Rightarrow> if retryableTerminalResultError e then (None, s, w) else (Some (Some (file_error e)), s, w)
            | Inr (result, phase) \<Rightarrow>
              (case PublishTerminal publish p result w of
                 (Some e, w) \<Rightarrow> (Some (Some e), s, w)
               | (None, w) \<Rightarrow>
                 (let (e, w) = PublishStatus publish p phase snapshot ''terminal'' w in (Some e, s, w))))))"

fun watchTerminal ::
  "'w SidecarFiles \<Rightarrow> 'w publish_call \<Rightarrow> SidecarConfig \<Rightarrow> Publisher \<Rightarrow> (time \<times> ('w \<Rightarrow> 'w)) list \<Rightarrow> SidecarState \<Rightarrow> 'w \<Rightarrow>
     go_error option option \<times> SidecarState \<times> 'w" where
  "watchTerminal fs publish cfg p [] s w = (None, s, w)"
| "watchTerminal fs publish cfg p ((now, change) # rest) s w =
     (case watch_tick fs publish cfg p now s (change w) of
        (None, s, w) \<Rightarrow> watchTerminal fs publish cfg p rest s w
      | done \<Rightarrow> done)"

section \<open>What the sidecar reports\<close>

text \<open>
  The accumulator file lags behind the parser by less than the flush interval: a line that is taken either
  writes the snapshot after it, or comes less than 250 ms after the last one that did.
\<close>

lemma state_ParseLine_lag:
  assumes "state_ParseLine sdk lib ld fs line at s w = (Inr outputs, s', w')" and "ss_flushInterval s = accumulatorFlushInterval"
  shows "(\<not> ss_dirty s' \<and> ss_lastFlush s' = at \<and>
      sf_WriteJSON fs (ss_accumulatorPath s) (snapshot_json (fst (cli_Snapshot (snd (cli_ParseLine sdk lib ld line at (ss_parser s)))))) w
        = (None, w')) \<or>
    (ss_dirty s' \<and> w' = w \<and> ss_lastFlush s' = ss_lastFlush s \<and> time_sub at (ss_lastFlush s) < accumulatorFlushInterval)"
  using assms by (auto simp: state_ParseLine_def state_Snapshot_def recordSnapshotLocked_def Let_def
      split: prod.splits if_splits option.splits)

lemma state_Flush_writes:
  assumes "state_Flush fs at s w = (Inr snapshot, s', w')"
  shows "\<not> ss_dirty s' \<and> snapshot = fst (cli_Snapshot (ss_parser s)) \<and>
    sf_WriteJSON fs (ss_accumulatorPath s) (snapshot_json snapshot) w = (None, w')"
  using assms by (auto simp: state_Flush_def state_Snapshot_def recordSnapshotLocked_def Let_def
      split: prod.splits if_splits option.splits)

text \<open>
  The result of a run: an exit code of zero completes it, whatever was asked for; another one is a failure
  exactly when no stop was requested, and an interruption only when a stop was forced.
\<close>

lemma ResultFromTerminal_status:
  assumes "ResultFromTerminal fs terminalPath stopPath w = Inr (result, phase)"
    and "sf_ReadFile fs terminalPath w = Inr body" and "sf_ExitCode fs body = Inr code"
  shows "rr_status result = RunStatusCompleted \<longleftrightarrow> code = 0"
    and "rr_status result = RunStatusFailed \<longrightarrow> sf_Stat fs stopPath w \<noteq> None \<and> rr_error result \<noteq> None"
    and "rr_status result = RunStatusInterrupted \<longrightarrow> (\<exists>b. sf_ReadFile fs stopPath w = Inr b \<and> sf_Force fs b)"
    and "phase = PhaseCompleted \<longleftrightarrow> rr_status result = RunStatusCompleted"
    and "phase = PhaseFailed \<longleftrightarrow> rr_status result = RunStatusFailed"
  using assms by (auto simp: ResultFromTerminal_def run_result_def Let_def split: sum.splits if_splits)

text \<open>A tick of the watcher that does not return leaves the world as the flush leaves it.\<close>

lemma watch_tick_waits:
  assumes "watch_tick fs publish cfg p now s w = (None, s', w')"
  shows "(\<exists>m. sf_Stat fs (sc_TerminalPath cfg) w = Some (FileNotExist m) \<and> s' = s \<and> w' = w) \<or>
    (\<exists>snapshot. state_Flush fs now s w = (Inr snapshot, s', w'))"
  using assms by (auto simp: watch_tick_def Let_def split: option.splits FileError.splits sum.splits prod.splits if_splits)

end
