(* ===== verification/Message_Pages.thy ===== *)
theory Message_Pages
  imports Turn_Messages
begin

text \<open>
  Reading the transcript by pages (packages/session/postgres_turn_messages.go): the query, the page token
  that carries the key of the last row, and what following the tokens from the first page gives.

  The base64 and the RFC 3339 of the token and \<open>strconv.ParseInt\<close> are a \<open>TokenCodec\<close>. The text of a message
  identifier is ordered by the collation of the database, the argument \<open>coll\<close>: its sort key.
\<close>

section \<open>Pages\<close>

record TokenCodec =
  tk_Encode :: "string \<Rightarrow> string"
  tk_Decode :: "string \<Rightarrow> string option"
  tk_FormatNano :: "time \<Rightarrow> string"
  tk_ParseNano :: "string \<Rightarrow> time option"
  tk_ParseInt :: "string \<Rightarrow> int option"

definition defaultTurnMessagePageSize :: int where "defaultTurnMessagePageSize = 200"
definition maxTurnMessagePageSize :: int where "maxTurnMessagePageSize = 500"

definition normalizeTurnMessagePageSize :: "int \<Rightarrow> int" where
  "normalizeTurnMessagePageSize pageSize =
     (if pageSize \<le> 0 then defaultTurnMessagePageSize
      else if pageSize > maxTurnMessagePageSize then maxTurnMessagePageSize else pageSize)"

definition token_invalid :: go_error where
  "token_invalid = GrpcError InvalidArgument ''page_token is invalid''"

definition parseTurnMessagePageToken :: "TokenCodec \<Rightarrow> string \<Rightarrow> (time \<times> int \<times> string) option result" where
  "parseTurnMessagePageToken tk token =
     (let token = TrimSpace token in
      if token = [] then Inr None
      else case tk_Decode tk token of None \<Rightarrow> Inl token_invalid
      | Some decoded \<Rightarrow>
        let parts = Split (CHR ''|'') decoded in
        if length parts \<noteq> 3 \<or> TrimSpace (parts ! 2) = [] then Inl token_invalid
        else case tk_ParseNano tk (parts ! 0) of None \<Rightarrow> Inl token_invalid
        | Some createdAt \<Rightarrow>
          (case tk_ParseInt tk (parts ! 1) of None \<Rightarrow> Inl token_invalid
           | Some sequence \<Rightarrow> Inr (Some (createdAt, sequence, parts ! 2))))"

definition token_payload :: "TokenCodec \<Rightarrow> time \<Rightarrow> int \<Rightarrow> string \<Rightarrow> string" where
  "token_payload tk createdAt sequence messageID =
     tk_FormatNano tk createdAt @ ''|'' @ show_int sequence @ ''|'' @ TrimSpace messageID"

definition encodeTurnMessagePageToken :: "TokenCodec \<Rightarrow> time \<Rightarrow> int \<Rightarrow> string \<Rightarrow> string" where
  "encodeTurnMessagePageToken tk createdAt sequence messageID = tk_Encode tk (token_payload tk createdAt sequence messageID)"

definition message_key :: "(string \<Rightarrow> string) \<Rightarrow> TurnMessage \<Rightarrow> time \<times> int \<times> string" where
  "message_key coll r = (tm_CreatedAt r, tm_Sequence r, coll (tm_MessageID r))"

definition query_messages ::
  "(string \<Rightarrow> string) \<Rightarrow> string \<Rightarrow> (time \<times> int \<times> string) option \<Rightarrow> nat \<Rightarrow> turn_table \<Rightarrow> TurnMessage list" where
  "query_messages coll sessionID cursor limit rows =
     take limit (sort_key (message_key coll) (filter (\<lambda>r. tm_SessionID r = sessionID \<and>
       (case cursor of None \<Rightarrow> True | Some (createdAt, sequence, messageID) \<Rightarrow>
          (createdAt, sequence, coll messageID) < message_key coll r)) rows))"

definition ListTurnMessages ::
  "TokenCodec \<Rightarrow> (string \<Rightarrow> string) \<Rightarrow> senv \<Rightarrow> string \<Rightarrow> int \<Rightarrow> string \<Rightarrow> turn_table \<Rightarrow> (TurnMessage list \<times> string) result" where
  "ListTurnMessages tk coll env sessionID pageSize pageToken rows =
     (let sessionID = TrimSpace sessionID in
      if sessionID = [] then Inl (GrpcError InvalidArgument ''session_id is required'')
      else
        let limit = nat (normalizeTurnMessagePageSize pageSize) in
        case parseTurnMessagePageToken tk pageToken of Inl e \<Rightarrow> Inl e
        | Inr cursor \<Rightarrow>
          (case se_query env of Some e \<Rightarrow> Inl e
           | None \<Rightarrow>
             let messages = query_messages coll sessionID cursor (limit + 1) rows in
             if length messages \<le> limit then Inr (messages, [])
             else
               let last = messages ! (limit - 1) in
               Inr (take limit messages, encodeTurnMessagePageToken tk (tm_CreatedAt last) (tm_Sequence last) (tm_MessageID last))))"

text \<open>A reader that follows the tokens, for at most so many pages.\<close>

fun follow_pages ::
  "nat \<Rightarrow> TokenCodec \<Rightarrow> (string \<Rightarrow> string) \<Rightarrow> senv \<Rightarrow> string \<Rightarrow> int \<Rightarrow> string \<Rightarrow> turn_table \<Rightarrow> TurnMessage list option" where
  "follow_pages 0 tk coll env sessionID pageSize token rows = None"
| "follow_pages (Suc n) tk coll env sessionID pageSize token rows =
     (case ListTurnMessages tk coll env sessionID pageSize token rows of Inl e \<Rightarrow> None
      | Inr (page, next) \<Rightarrow>
        if next = [] then Some page
        else map_option ((@) page) (follow_pages n tk coll env sessionID pageSize next rows))"

section \<open>The pages are the transcript\<close>

text \<open>What is relied on for the token of a row, and the rows whose identifier a token can carry.\<close>

definition token_codec_ok :: "TokenCodec \<Rightarrow> TurnMessage \<Rightarrow> bool" where
  "token_codec_ok tk r \<longleftrightarrow>
     (let payload = token_payload tk (tm_CreatedAt r) (tm_Sequence r) (tm_MessageID r) in
      tk_Decode tk (tk_Encode tk payload) = Some payload \<and> tk_Encode tk payload \<noteq> [] \<and>
      TrimSpace (tk_Encode tk payload) = tk_Encode tk payload \<and>
      tk_ParseNano tk (tk_FormatNano tk (tm_CreatedAt r)) = Some (tm_CreatedAt r) \<and>
      CHR ''|'' \<notin> set (tk_FormatNano tk (tm_CreatedAt r)) \<and>
      tk_ParseInt tk (show_int (tm_Sequence r)) = Some (tm_Sequence r))"

definition token_carries :: "TurnMessage \<Rightarrow> bool" where
  "token_carries r \<longleftrightarrow> TrimSpace (tm_MessageID r) = tm_MessageID r \<and> tm_MessageID r \<noteq> [] \<and> CHR ''|'' \<notin> set (tm_MessageID r)"

lemma Split_none: "c \<notin> set s \<Longrightarrow> Split c s = [s]"
  by (induction s) auto

lemma Split_app: "c \<notin> set s \<Longrightarrow> Split c (s @ c # t) = s # Split c t"
  by (induction s) auto

lemma show_nat_digits: "c \<in> set (show_nat n) \<Longrightarrow> \<exists>d < 10. c = digit_char d"
proof (induction n rule: show_nat.induct)
  case (1 n)
  show ?case
  proof (cases "n < 10")
    case True
    with "1.prems" show ?thesis by (auto simp: show_nat.simps [of n])
  next
    case False
    with 1 show ?thesis by (auto simp: show_nat.simps [of n] intro: exI [of _ "n mod 10"])
  qed
qed

lemma show_int_bar: "CHR ''|'' \<notin> set (show_int i)"
proof -
  have "CHR ''|'' \<noteq> digit_char d" if "d < 10" for d
  proof
    assume "CHR ''|'' = digit_char d"
    then have "(of_char (CHR ''|'') :: nat) = of_char (digit_char d)" by simp
    with that show False by (simp add: digit_char_def of_char_mod_256)
  qed
  then have "CHR ''|'' \<notin> set (show_nat n)" for n using show_nat_digits by blast
  then show ?thesis by (simp add: show_int_def)
qed

text \<open>A token is read back as the key of its row; one whose identifier has a bar is refused.\<close>

lemma token_roundtrip:
  assumes "token_codec_ok tk r" and "token_carries r"
  shows "parseTurnMessagePageToken tk (encodeTurnMessagePageToken tk (tm_CreatedAt r) (tm_Sequence r) (tm_MessageID r))
      = Inr (Some (tm_CreatedAt r, tm_Sequence r, tm_MessageID r))"
    and "encodeTurnMessagePageToken tk (tm_CreatedAt r) (tm_Sequence r) (tm_MessageID r) \<noteq> []"
proof -
  let ?p = "token_payload tk (tm_CreatedAt r) (tm_Sequence r) (tm_MessageID r)"
  have "Split (CHR ''|'') ?p = [tk_FormatNano tk (tm_CreatedAt r), show_int (tm_Sequence r), tm_MessageID r]"
    using assms by (simp add: token_payload_def token_codec_ok_def token_carries_def Split_app Split_none show_int_bar Let_def)
  with assms show "parseTurnMessagePageToken tk (encodeTurnMessagePageToken tk (tm_CreatedAt r) (tm_Sequence r) (tm_MessageID r))
      = Inr (Some (tm_CreatedAt r, tm_Sequence r, tm_MessageID r))"
    by (simp add: parseTurnMessagePageToken_def encodeTurnMessagePageToken_def token_codec_ok_def token_carries_def Let_def)
  show "encodeTurnMessagePageToken tk (tm_CreatedAt r) (tm_Sequence r) (tm_MessageID r) \<noteq> []"
    using assms(1) by (simp add: encodeTurnMessagePageToken_def token_codec_ok_def Let_def)
qed

lemma bar_stops_paging:
  assumes "token_codec_ok tk r" and "CHR ''|'' \<in> set (TrimSpace (tm_MessageID r))"
  shows "parseTurnMessagePageToken tk (encodeTurnMessagePageToken tk (tm_CreatedAt r) (tm_Sequence r) (tm_MessageID r)) = Inl token_invalid"
proof -
  have "length (Split c s) > 1" if "c \<in> set s" for c and s :: string
    using that by (induction s) (auto split: list.splits)
  with assms have "length (Split (CHR ''|'') (token_payload tk (tm_CreatedAt r) (tm_Sequence r) (tm_MessageID r))) > 3"
    by (simp add: token_payload_def token_codec_ok_def Split_app show_int_bar Let_def)
  with assms(1) show ?thesis
    by (simp add: parseTurnMessagePageToken_def encodeTurnMessagePageToken_def token_codec_ok_def Let_def)
qed

text \<open>A sorted list with distinct keys, cut at one of its elements.\<close>

lemma sorted_after:
  assumes "sorted (map f xs)" and "distinct (map f xs)" and "n < length xs"
  shows "filter (\<lambda>x. f (xs ! n) < f x) xs = drop (Suc n) xs"
  using assms
proof (induction xs arbitrary: n)
  case (Cons x xs)
  show ?case
  proof (cases n)
    case 0
    have "f x < f y" if "y \<in> set xs" for y using Cons.prems that by (force simp: less_le)
    then show ?thesis using 0 by simp
  next
    case (Suc k)
    then have "xs ! k \<in> set xs" using Cons.prems(3) by simp
    then have "\<not> f (xs ! k) < f x" using Cons.prems(1) by (auto simp: not_less)
    with Suc Cons show ?thesis by simp
  qed
qed simp

definition transcript_of :: "(string \<Rightarrow> string) \<Rightarrow> string \<Rightarrow> turn_table \<Rightarrow> TurnMessage list" where
  "transcript_of coll sid rows = sort_key (message_key coll) (filter (\<lambda>r. tm_SessionID r = sid) rows)"

lemma query_after:
  "query_messages coll sid cursor n rows = take n (filter (\<lambda>r. case cursor of None \<Rightarrow> True
     | Some (c, s, m) \<Rightarrow> (c, s, coll m) < message_key coll r) (transcript_of coll sid rows))"
  by (simp add: query_messages_def transcript_of_def filter_sort conj_commute)

lemma limit_pos: "0 < nat (normalizeTurnMessagePageSize pageSize)"
  by (simp add: normalizeTurnMessagePageSize_def defaultTurnMessagePageSize_def maxTurnMessagePageSize_def)

lemma follow_from:
  assumes "sid \<noteq> []" and "TrimSpace sid = sid" and "se_query env = None"
    and "distinct (map (message_key coll) (transcript_of coll sid rows))"
    and "list_all (token_codec_ok tk) (transcript_of coll sid rows)" and "list_all token_carries (transcript_of coll sid rows)"
    and "parseTurnMessagePageToken tk token = Inr cursor"
    and "filter (\<lambda>r. case cursor of None \<Rightarrow> True | Some (c, s, m) \<Rightarrow> (c, s, coll m) < message_key coll r) (transcript_of coll sid rows)
      = drop k (transcript_of coll sid rows)"
    and "length (transcript_of coll sid rows) < k + n" and "k \<le> length (transcript_of coll sid rows)"
  shows "follow_pages n tk coll env sid pageSize token rows = Some (drop k (transcript_of coll sid rows))"
  using assms(7-10)
proof (induction n arbitrary: token cursor k)
  case (Suc n)
  let ?T = "transcript_of coll sid rows" and ?L = "nat (normalizeTurnMessagePageSize pageSize)"
  let ?ms = "take (?L + 1) (drop k ?T)"
  have q: "query_messages coll sid cursor (?L + 1) rows = ?ms" using Suc.prems(2) by (simp add: query_after)
  show ?case
  proof (cases "length ?ms \<le> ?L")
    case True
    then have "?ms = drop k ?T" by simp
    with True q assms(1-3) Suc.prems(1) show ?thesis by (simp add: ListTurnMessages_def Let_def)
  next
    case False
    then have len: "?L < length (drop k ?T)" by simp
    define last where "last = ?T ! (k + (?L - 1))"
    have last: "?ms ! (?L - 1) = last" using limit_pos [of pageSize] len by (simp add: last_def)
    have "last \<in> set ?T" unfolding last_def by (rule nth_mem) (use len limit_pos [of pageSize] in simp)
    then have ok: "token_codec_ok tk last" "token_carries last" using assms(5,6) by (auto simp: list_all_iff)
    let ?next = "encodeTurnMessagePageToken tk (tm_CreatedAt last) (tm_Sequence last) (tm_MessageID last)"
    have "Suc (k + (?L - 1)) = k + ?L" using limit_pos [of pageSize] by simp
    then have "filter (\<lambda>r. message_key coll last < message_key coll r) ?T = drop (k + ?L) ?T"
      using sorted_after [OF _ assms(4), of "k + (?L - 1)"] len limit_pos [of pageSize]
      by (simp add: last_def transcript_of_def)
    then have "follow_pages n tk coll env sid pageSize ?next rows = Some (drop (k + ?L) ?T)"
      using Suc.prems(3) len limit_pos [of pageSize] by (intro Suc.IH [OF token_roundtrip(1) [OF ok]]) (simp_all add: message_key_def)
    moreover have "take ?L ?ms @ drop (k + ?L) ?T = drop k ?T"
      using append_take_drop_id [of ?L "drop k ?T"] by (simp add: add.commute)
    moreover have "ListTurnMessages tk coll env sid pageSize token rows = Inr (take ?L ?ms, ?next)"
      using False q last assms(1-3) Suc.prems(1) by (simp add: ListTurnMessages_def Let_def)
    ultimately show ?thesis using token_roundtrip(2) [OF ok] by simp
  qed
qed simp


end
