(* ===== verification/Output_World.thy ===== *)
theory Output_World
  imports Output_Laws Output_Sidecar Message_Pages
begin

text \<open>
  Runs at concrete inputs: an SDK that writes the fields of the AG-UI protocol and refuses an empty delta,
  and the laws of the output and of the transcript applied with it.
\<close>

definition ex_struct :: "AguiEvent \<Rightarrow> json_fields" where
  "ex_struct e = (''type'', JString (event_type e)) #
     (case e of
        TextMessageStartEvent i r \<Rightarrow> [(''messageId'', JString i), (''role'', JString r)]
      | TextMessageContentEvent i d \<Rightarrow> [(''messageId'', JString i), (''delta'', JString d)]
      | TextMessageEndEvent i \<Rightarrow> [(''messageId'', JString i)]
      | ToolCallStartEvent i n m \<Rightarrow> [(''toolCallId'', JString i), (''toolCallName'', JString n), (''parentMessageId'', JString m)]
      | ToolCallArgsEvent i d \<Rightarrow> [(''toolCallId'', JString i), (''delta'', JString d)]
      | ToolCallEndEvent i \<Rightarrow> [(''toolCallId'', JString i)]
      | ToolCallResultEvent m i c \<Rightarrow> [(''messageId'', JString m), (''toolCallId'', JString i), (''content'', JString c)]
      | _ \<Rightarrow> [])"

definition ex_sdk :: AguiSDK where
  "ex_sdk = \<lparr>sdk_Validate = (\<lambda>e. case e of TextMessageContentEvent i d \<Rightarrow>
       if d = [] then Some (PlainError ''delta must not be empty'') else None | _ \<Rightarrow> None),
     sdk_Struct = (\<lambda>e ts. Inr (ex_struct e))\<rparr>"

definition ex_json :: JsonLib where
  "ex_json = \<lparr>json_Marshal = (\<lambda>j. Some ''json''), fmt_Sprint = (\<lambda>j. ''value'')\<rparr>"

definition ex_message_codec :: MessageCodec where
  "ex_message_codec = \<lparr>mc_Validate = (\<lambda>m. if am_ID m = [] then Some (PlainError ''id is required'') else None),
     mc_Marshal = (\<lambda>m. Inr (am_ID m @ '':'' @ am_Content m)),
     mc_Unmarshal = (\<lambda>raw. Inr \<lparr>am_ID = takeWhile (\<lambda>c. c \<noteq> CHR '':'') raw, am_Role = ''assistant'',
       am_Content = tl (dropWhile (\<lambda>c. c \<noteq> CHR '':'') raw), am_ToolCalls = [], am_ToolCallID = []\<rparr>),
     mc_Valid = (\<lambda>raw. CHR '':'' \<in> set raw)\<rparr>"

lemma ex_sdk_ok: "agui_sdk_ok ex_sdk"
proof -
  have "StringValue (Some (ex_struct e)) ''type'' = event_type e" for e by (simp add: ex_struct_def StringValue_def payload_at_def)
  moreover have "sdk_Validate ex_sdk e = None \<and> StringValue (Some (ex_struct e)) ''messageId'' = ev_messageId e \<and>
      (event_type e = ''TEXT_MESSAGE_CONTENT'' \<longrightarrow> StringValue (Some (ex_struct e)) ''delta'' = event_delta e)"
    if "answer_event e" for e
    using that by (cases e) (simp_all add: ex_sdk_def ex_struct_def StringValue_def payload_at_def)
  ultimately show ?thesis by (simp add: agui_sdk_ok_def ex_sdk_def)
qed

definition ex_ops :: "(time \<times> BuilderOp) list" where
  "ex_ops = [(1, OpAppendAssistant ''hel''), (2, OpAppendReasoning ''hm''), (3, OpAppendAssistant ''lo''),
     (4, OpToolCall ''bash'' [] ''ls''), (5, OpResultReasoning []), (6, OpResultAssistant ''hello'')]"

lemma ex_ops_ok:
  "list_all op_utf8 (map snd ex_ops)" "ops_keep [] (map snd ex_ops)" "op_answers [] (map snd ex_ops) = ''hello''"
  "length (fst (run_ops ex_sdk ex_json ex_ops NewBuilder)) < 2 ^ 64" "length ex_ops < 2 ^ 61"
  using run_ops_length [of ex_sdk ex_json ex_ops NewBuilder]
  by (simp_all add: ex_ops_def utf8_valid_def HasPrefix_def op_answers_def)

theorem transcript_is_answer_witness:
  "text_of (project ex_message_codec ''s1'' ''r1'' (fst (run_ops ex_sdk ex_json ex_ops NewBuilder)) newAGUITurnMessageProjector)
     (answer_key ''s1'' ''r1'') = ''hello''"
  using transcript_is_answer [OF ex_sdk_ok ex_ops_ok(1,2,5), of ex_message_codec "''s1''" "''r1''" ex_json]
    transcript_of_ops(2) [OF ex_sdk_ok ex_ops_ok(1,4)] ex_ops_ok(3) by simp

definition ex_first :: "(time \<times> BuilderOp) list" where "ex_first = [(1, OpSyncAssistant ''one'')]"

definition ex_rewritten :: "RunOutput list \<times> Builder" where
  "ex_rewritten = run_ops ex_sdk ex_json (ex_first @ [(2, OpSyncAssistant ''two'')]) NewBuilder"

theorem rewritten_answer_stays_witness:
  "text_of (project ex_message_codec ''s1'' ''r1'' (fst ex_rewritten) newAGUITurnMessageProjector) (answer_key ''s1'' ''r1'') = ''onetwo'' \<and>
   sn_AssistantText (fst (builder_Snapshot (snd ex_rewritten))) = ''two''"
proof -
  have ok: "list_all op_utf8 (map snd ex_first)" "ops_keep [] (map snd ex_first)" "length ex_first < 2 ^ 60"
    "length (fst (run_ops ex_sdk ex_json ex_first NewBuilder)) < 2 ^ 64"
    using run_ops_length [of ex_sdk ex_json ex_first NewBuilder] by (simp_all add: ex_first_def utf8_valid_def HasPrefix_def)
  have "''one'' = sn_AssistantText (fst (builder_Snapshot (snd (run_ops ex_sdk ex_json ex_first NewBuilder))))"
    using transcript_of_ops(2) [OF ex_sdk_ok ok(1,4)] by (simp add: ex_first_def op_answers_def)
  from rewritten_answer_stays [OF ex_sdk_ok ok(1,2,3) this, of "''two''" 2 "fst ex_rewritten" "snd ex_rewritten" ex_message_codec "''s1''" "''r1''"]
  show ?thesis by (simp add: ex_rewritten_def utf8_valid_def HasPrefix_def)
qed

definition ex_claude :: "RunOutput list \<times> ClaudeParser" where
  "ex_claude = claude_lines ex_sdk ex_json 1
     [claude_streamed ''A'', claude_message ''A'', claude_streamed ''B'', claude_message ''B'', claude_result ''B''] claude_New"

theorem claude_second_answer_twice_witness:
  "text_of (project ex_message_codec ''s1'' ''r1'' (fst ex_claude) newAGUITurnMessageProjector) (answer_key ''s1'' ''r1'') = ''ABB'' \<and>
   sn_AssistantText (fst (parser_Snapshot (snd ex_claude))) = ''B''"
  using claude_second_answer_twice [OF ex_sdk_ok, of "''A''" "''B''" ex_json 1 "fst ex_claude" "snd ex_claude" ex_message_codec "''s1''" "''r1''"]
  by (simp add: ex_claude_def utf8_valid_def)

definition ex_output :: "int \<Rightarrow> AguiEvent \<Rightarrow> RunOutput" where
  "ex_output n e = \<lparr>ro_sequence = n, ro_timestamp = None, ro_event = Some (ex_struct e)\<rparr>"

lemmas ex_output_simps = ex_output_def ex_struct_def not_end_def agui_EventType_def StructEventType_def GetStringValue_def
  StringValue_def payload_at_def output_delta_def TrimSpace_plain plain_char_def assistantMessageID_def

definition ex_outs :: "RunOutput list" where
  "ex_outs = [ex_output 1 (TextMessageStartEvent assistantMessageID ''assistant''),
     ex_output 2 (TextMessageContentEvent assistantMessageID ''po''), ex_output 3 (TextMessageContentEvent assistantMessageID ''ng'')]"


definition ex_message :: "int \<Rightarrow> aguiTextMessage" where
  "ex_message n = \<lparr>xm_sessionID = ''s1'', xm_runID = ''r1'', xm_messageID = assistantMessageID, xm_role = ''assistant'',
     xm_text = ''pong'', xm_toolCalls = [], xm_sequence = 1, xm_lastSeq = n\<rparr>"

definition ex_projector :: "int \<Rightarrow> TurnProjector" where
  "ex_projector n = \<lparr>tp_messages = [answer_key ''s1'' ''r1'' \<mapsto> ex_message n], tp_tools = Map.empty\<rparr>"

theorem redelivered_end_repeats_text_witness:
  "text_of (project ex_message_codec ''s1'' ''r1'' [ex_output 4 (TextMessageEndEvent assistantMessageID),
       ex_output 5 (TextMessageContentEvent assistantMessageID ''!'')] (ex_projector 5)) (answer_key ''s1'' ''r1'') = ''pong!''"
  using redelivered_end_repeats_text [of "ex_projector 5" "''s1''" "''r1''" "ex_message 5"
      "ex_output 5 (TextMessageContentEvent assistantMessageID ''!'')" "ex_output 4 (TextMessageEndEvent assistantMessageID)" ex_message_codec]
  by (simp add: ex_output_simps ex_projector_def ex_message_def last_of_def text_of_def)

definition ex_late :: OutputEvent where
  "ex_late = \<lparr>oe_SessionID = ''s1'', oe_RunID = ''r1'', oe_Output = Some (ex_output 9 (TextMessageContentEvent assistantMessageID ''!''))\<rparr>"

theorem late_output_replaces_answer_witness:
  "fst (projector_Apply ex_message_codec ex_late (ex_projector 5)) =
     map_sum id Some (newAssistantTurnMessage ex_message_codec ''s1'' ''r1'' ''r1'' ''assistant-r1-assistant-message'' ''pong!'' [] 1) \<and>
   fst (projector_Apply ex_message_codec ex_late (clearRun ''s1'' ''r1'' (ex_projector 5))) =
     map_sum id Some (newAssistantTurnMessage ex_message_codec ''s1'' ''r1'' ''r1'' ''assistant-r1-assistant-message'' ''!'' [] 9)"
proof -
  have k: "aguiTextMessageKey ex_late assistantMessageID = answer_key ''s1'' ''r1''"
    by (simp add: ex_late_def aguiTextMessageKey_def answer_key_def)
  have t: "turnIDFromRunID ''r1'' = ''r1''" "persistentAGUIMessageID ''assistant'' ''r1'' assistantMessageID = ''assistant-r1-assistant-message''"
    by (simp_all add: turnIDFromRunID_def persistentAGUIMessageID_def TrimSpace_plain plain_char_def is_digit_def assistantMessageID_def HasSuffix_def HasPrefix_def)
  show ?thesis
    using late_output_replaces_answer [of ex_late "ex_output 9 (TextMessageContentEvent assistantMessageID ''!'')"
        "ex_struct (TextMessageContentEvent assistantMessageID ''!'')" assistantMessageID "''!''" "ex_projector 5" "ex_message 5" ex_message_codec] k t
    by (simp add: ex_late_def ex_projector_def ex_message_def ex_output_simps in_i64_def)
qed

section \<open>Pages\<close>

definition ex_tokens :: TokenCodec where
  "ex_tokens = \<lparr>tk_Encode = id, tk_Decode = Some, tk_FormatNano = (\<lambda>t. replicate (nat t) (CHR ''t'')),
     tk_ParseNano = (\<lambda>s. Some (int (length s))), tk_ParseInt = (\<lambda>s. Some (foldl (\<lambda>n c. 10 * n + int (of_char c) - 48) 0 s))\<rparr>"

definition ex_row :: "string \<Rightarrow> time \<Rightarrow> int \<Rightarrow> TurnMessage" where
  "ex_row i t n = \<lparr>tm_SessionID = ''s1'', tm_TurnID = ''t1'', tm_RunID = ''r1'', tm_MessageID = i, tm_Message = ''m'',
     tm_Sequence = n, tm_CreatedAt = t\<rparr>"

definition ex_rows :: turn_table where
  "ex_rows = [ex_row ''a'' 2 7, (ex_row ''z'' 1 1)\<lparr>tm_SessionID := ''s2''\<rparr>, ex_row ''c'' 1 5, ex_row ''b'' 2 4]"

definition ex_pages_env :: senv where
  "ex_pages_env = \<lparr>se_begin = None, se_query = None, se_exec = None, se_enqueue = None, se_commit = None, se_now = 1, se_eventID = ''e''\<rparr>"

lemma ex_transcript: "transcript_of id ''s1'' ex_rows = [ex_row ''c'' 1 5, ex_row ''b'' 2 4, ex_row ''a'' 2 7]"
  by (simp add: transcript_of_def ex_rows_def ex_row_def message_key_def)

lemma ex_rows_ok:
  "distinct (map (message_key id) (transcript_of id ''s1'' ex_rows))"
  "list_all (token_codec_ok ex_tokens) (transcript_of id ''s1'' ex_rows)"
  "list_all token_carries (transcript_of id ''s1'' ex_rows)"
  by (simp_all add: ex_transcript ex_row_def message_key_def token_codec_ok_def token_carries_def ex_tokens_def token_payload_def
      show_int_def show_nat.simps digit_char_def TrimSpace_plain plain_char_def)


end
