(* ===== verification/Spec2Isabelle.thy ===== *)
theory Spec2Isabelle
  imports Action_Witnesses Admission_World Domain_Events Session_Invariants Timeline_Sink Runtime_World Session_World Carrier_World Egress_World Entitlement_World Workflow_World Output_World
begin

text \<open>
  A verification library of the agent runtime of the platform (\<open>packages/platform-k8s/internal/agentruntime\<close>,
  \<open>packages/session\<close>, \<open>packages/platform-contract\<close>) and of the egress authentication that serves its runs
  (\<open>internal/authservice\<close>, \<open>internal/egressauth\<close>), with the sidecar that reads the output of a run
  (\<open>deploy/agents/sidecars/cli-output\<close>).

  \<^bold>\<open>The program.\<close> A session (an agent with its workspace) receives actions: turns, resets of its warm
  state, reloads of its resources. The session reconciler projects the profile of a session onto it,
  keeps its volume claims and says whether it is ready. The action reconciler executes the actions of a
  session one at a time. A turn is resolved to runtime candidates (image, model, authentication) and
  becomes a run; the run service claims the session's active run slot and creates the run object, and the
  run reconciler submits the workflow of the run, observes it, and releases the slot when the run ends. A
  run that fails is retried and then moved to the next runtime candidate. The tables of sessions and
  actions live in Postgres; every write of a table also writes an event into an outbox, which a publisher
  moves to the message stream and consumers handle; events and timers call the reconcilers. The requests
  of a run to its model provider pass the egress gateway, which asks the external authorization server
  what to add: the server finds the run of the calling pod, reads from its runtime context which
  credential it may use and where, and replaces placeholders by secrets. What the CLI of a run prints is
  read by a sidecar: a parser turns the lines into AG-UI events, numbered by a builder that also keeps the
  answer so far, and a publisher sends them to a stream; the session server projects the events of a run
  to messages and stores them as the transcript of the session. The end of the CLI is published as the
  result of the run on another stream.

  \<^bold>\<open>Theories and code.\<close>
  \<^item> \<open>Go_Prelude\<close>, \<open>Go_Strings\<close>: bytes, sized integers, times and errors of Go and the functions of its library.
  \<^item> \<open>Platform_Contract\<close> (\<open>packages/platform-contract\<close>): phases, conditions, timeline records, validators.
  \<^item> \<open>Provider_Messages\<close>, \<open>Runtime_Types\<close> (\<open>api/v1alpha1\<close>, proto messages, \<open>go-contract/model/v1/validate.go\<close>):
    the resources and the messages, with the fields that the modelled code uses.
  \<^item> \<open>Resource_Ops\<close> (\<open>platform/resourceops\<close>, \<open>resourcemeta\<close>), \<open>Timeline_Sink\<close> (\<open>timeline\<close>), \<open>Domain_Events\<close>
    (\<open>platform/domainevents\<close>), \<open>Frames\<close> (which observations a call leaves alone).
  \<^item> \<open>Resource_Config\<close> (\<open>agentresourceconfig\<close>): revisions, snapshots and the materialized config map.
  \<^item> \<open>Session_Resource\<close> (\<open>agentsessions\<close>), \<open>Session_Store\<close> (\<open>packages/session\<close>), \<open>Session_Invariants\<close>,
    \<open>Active_Run_Slots\<close> (\<open>agentsessions/active_run.go\<close>): sessions, their table and their run slots.
  \<^item> \<open>Session_Readiness\<close>, \<open>Session_Reload\<close>, \<open>Session_Carriers\<close>, \<open>Session_Specs\<close>, \<open>Session_Profile\<close>,
    \<open>Session_Controller\<close>, \<open>Session_Laws\<close> (\<open>agentsessions\<close>): readiness, reload actions, volume claims, profile
    projection and reconciler of the sessions, and what they guarantee.
  \<^item> \<open>Run_Status\<close>, \<open>Run_Derive\<close>, \<open>Run_Service\<close>, \<open>Run_Controller\<close> (\<open>agentruns\<close>): the run spec, the statuses
    derived from a workflow, the service and the reconciler of runs.
  \<^item> \<open>Action_Status\<close>, \<open>Action_Views\<close>, \<open>Action_Snapshot\<close>, \<open>Action_Controller\<close>, \<open>Action_Store\<close>
    (\<open>agentsessionactions\<close>): statuses, queue, snapshots, reconciler and table of the actions.
  \<^item> \<open>Turn_Machine\<close>, \<open>Action_Laws\<close>, \<open>Action_Reconcile\<close>: what the action reconciler guarantees.
  \<^item> \<open>Action_Service\<close>, \<open>Action_Table\<close>, \<open>Action_Admission\<close>: the service, the invariant of the table of actions
    under service and reconciler together, and what the service promises.
  \<^item> \<open>Cli_Support\<close> (\<open>supportservice/clidefinitions/support\<close>), \<open>Agent_Execution\<close> (\<open>agentexecution\<close>),
    \<open>Execution_Laws\<close>: the resolver of a turn, and its contract with the catalogue and the registry.
  \<^item> \<open>Egress_Replacement\<close> (\<open>egressauth\<close>), \<open>Egress_Policy\<close> (\<open>egressauthpolicy\<close>), \<open>Egress_Auth\<close>, \<open>Egress_Resolve\<close>
    (\<open>authservice/egress_auth_http.go\<close>), \<open>Egress_Ext_Authz\<close> (\<open>authservice/egress_ext_authz.go\<close>), \<open>Egress_Laws\<close>:
    the replacement of placeholders, the policies, the two calls and the authorization server.
  \<^item> \<open>Runtime_Context\<close> (\<open>sessionapi/agent_run_runtime_context.go\<close>, \<open>agentrunauth\<close>), \<open>Runtime_Entitlement\<close>: the
    runtime context of a calling pod, and which credential reaches the gateway.
  \<^item> \<open>Run_Jobs\<close> (\<open>agentruns/temporal_job_helpers.go\<close>, \<open>sessionapi/agent_run_prepare_job.go\<close>), \<open>Run_Workflow\<close>
    (\<open>agentruns/temporal_workflow.go\<close>, \<open>temporal_activities.go\<close>, \<open>temporal_runtime.go\<close>,
    \<open>sessionapi/agent_run_prepare.go\<close>), \<open>Workflow_Laws\<close>: the jobs of a run and the workflow that creates them.
  \<^item> \<open>Reconcile_Loop\<close> (\<open>sessionapi/domain_events.go\<close>, \<open>reconcile_dispatch.go\<close>, \<open>temporal_reconcile_scheduler.go\<close>),
    \<open>Reconcile_Laws\<close>: how events and timers call the reconcilers.
  \<^item> \<open>Inline_Thinking\<close>, \<open>Output_Builder\<close>, \<open>Output_Parsers\<close>, \<open>Output_Sidecar\<close> (\<open>cli-output/internal/parsers/qwen\<close>,
    \<open>parser\<close>, \<open>parsers\<close>, \<open>app\<close> and \<open>events\<close>; \<open>go-contract/agui/events.go\<close>): the output sidecar.
  \<^item> \<open>Turn_Messages\<close> (\<open>go-contract/agui/messages.go\<close>, \<open>packages/session/turn_message.go\<close>,
    \<open>sessionapi/agui_turn_projector.go\<close>, \<open>agui_turn_message_build.go\<close>, \<open>agui_turn_tool_calls.go\<close>, \<open>turn_messages.go\<close>),
    \<open>Message_Pages\<close> (\<open>packages/session/postgres_turn_messages.go\<close>), \<open>Output_Laws\<close>: the transcript, its pages, and
    what becomes of an answer between the two.
  \<^item> \<open>Runtime_World\<close>, \<open>Action_World\<close>, \<open>Action_Witnesses\<close>, \<open>Admission_World\<close>, \<open>Session_World\<close>, \<open>Carrier_World\<close>,
    \<open>Egress_World\<close>, \<open>Entitlement_World\<close>, \<open>Workflow_World\<close>, \<open>Output_World\<close>: concrete worlds, and the properties at them.

  \<^bold>\<open>How the code is modelled.\<close> A call is a function of the world that returns a result (\<open>Inl\<close> an error,
  \<open>Inr\<close> a value) and the next world, also when it fails; the clients of a call see the world only
  through what they are given. Services that the code gets as Go interfaces are records of such
  functions. Third-party code is a parameter: the Kubernetes client (\<open>kube\<close>, \<open>PodClient\<close>, \<open>JobClient\<close>), the workflow
  runtime, the message stream, JSON and proto encodings, the hash of a configuration, the clock, generated
  ids, the services of other processes, and the errors of the database (one per statement, in the
  environment \<open>senv\<close> of a transaction). What is assumed of them is a named predicate (\<open>retry_law\<close>,
  \<open>create_returns\<close>, \<open>run_api\<close>, \<open>codec_ok\<close>, \<open>action_codec_ok\<close>, \<open>stream_ok\<close>, \<open>kube_frame\<close>, \<open>job_api\<close>,
  \<open>agui_sdk_ok\<close>, \<open>token_codec_ok\<close>), and the concrete worlds show that it can hold. Starting a Temporal workflow under the id of an open one starts nothing,
  the documented meaning of its policy. A nil pointer is \<open>None\<close>; nil and empty slices are one value, as the
  code never tells them apart; strings are bytes; integers of Go are \<open>int\<close> with \<open>i32\<close> and \<open>i64\<close> where they
  may wrap. A commit that reports an error is taken not to have been applied. A Go map that is iterated is
  an association list with distinct keys.

  \<^bold>\<open>What is shown.\<close> The slot of a session is exclusive, and who may free it (\<open>Active_Run_Slots\<close>,
  \<open>Run_Service\<close>, \<open>Run_Controller\<close>); a turn follows the turn machine and starts a bounded number of runs
  (\<open>Turn_Machine\<close>); the actions of a session do not overlap, in any sequence of calls (\<open>Action_Table\<close>), and a
  finished one stays as it is (\<open>Action_Laws\<close>); a reconciliation writes its own row only (\<open>Action_Reconcile\<close>);
  what is stored is read back (\<open>Action_Store\<close>); events are neither lost nor acknowledged too early
  (\<open>Domain_Events\<close>); published statuses satisfy the platform contract (\<open>Platform_Contract\<close>, \<open>Run_Controller\<close>,
  \<open>Session_Laws\<close>); a session is ready exactly when it is admitted, its volume claims in use survive and its
  reloads converge (\<open>Session_Laws\<close>, \<open>Session_Carriers\<close>, \<open>Session_Reload\<close>); a resolved turn has the candidates
  that its session names (\<open>Execution_Laws\<close>); a secret is only added to requests of an entitled caller to
  an allowed target, and masked in responses (\<open>Egress_Laws\<close>); a caller is never taken for another pod
  (\<open>Runtime_Entitlement\<close>); the job of a run is created once, after its preparation (\<open>Workflow_Laws\<close>); timers
  die out (\<open>Reconcile_Laws\<close>); inline reasoning is split the same wherever the text is cut, and the split undoes
  the writing (\<open>Inline_Thinking\<close>); the transcript of a run has the answer of its builder, and redelivered
  outputs add nothing to it (\<open>Output_Laws\<close>); reading by pages reads all of it (\<open>Message_Pages\<close>).

  Some properties show behaviour that the code does not mean to have: a late cancellation overwrites a
  success, a failed creation frees a slot that a live run holds, a stopped turn whose run is gone never
  ends, a read error makes a turn forget its run, a database error is taken for a deleted action, actions
  of one second are not executed in the order of their creation, refused events block the outbox, a status
  written late or a profile that does not load frees a claimed slot, the runs of turns get no credential
  from the gateway, the sidecar of a run refuses its configuration, the job of a canceled run goes on, a
  model reference without a vendor never resolves, polling stops after one round,
  since a timer that fires is still open when the next one is asked for, a second answer of Claude is twice
  in the transcript, an end that is delivered again lets text be repeated, a delta after the result of its
  run replaces the stored answer, and an identifier with a bar ends the paging.

  \<^bold>\<open>Bounds.\<close> The loops of the code run over lists and are structural recursions; \<open>retryDelay\<close> doubles at
  most \<open>retryCount\<close> times; retries on conflict are the parameter \<open>kube_retry\<close>; a timer dispatches at most
  \<open>maximumAttempts\<close> (three) times, and an activity of a run has \<open>activityRetries\<close> (two) retries, as their
  retry policies say; the number of looks at a job before the deadline of an activity is the parameter
  \<open>ta_polls\<close> (\<open>tg_polls\<close>), and the properties hold for every value of it. The number of runs of a
  turn is bounded by \<open>run_budget\<close>, which must stay below \<open>2 ^ 31\<close>; the number of timers that fire by
  \<open>timer_weight\<close>. The counter of a builder is a \<open>uint64\<close>, which the outputs of fewer than \<open>2 ^ 61\<close> operations do not
  exhaust; a reader of pages needs at most one page more than there are messages.

  \<^bold>\<open>Not modelled.\<close> SQL schemas, network connections and polling loops, the gRPC and HTTP fronts,
  the services of providers, models, profiles, CLI runtimes and credentials
  behind their interfaces (OAuth included), the rendering of egress policies to Istio and Gateway API
  objects, the start and the shutdown of the sidecar, notifications, generated code, and the console: they
  are transport, construction of objects of third-party APIs, or services of their own that the agent
  runtime only calls.
\<close>

end
